(* ===== verification/Selene_Prelude.thy ===== *)
theory Selene_Prelude
  imports Main "HOL-Library.List_Lexorder" "HOL-Library.Char_ord"
begin

text \<open>
  Shared vocabulary of the development: results that carry an error (a TypeScript
  \<open>throw\<close> is the left injection of a sum), the JavaScript string operations that several
  components use, and the locales that turn one-step facts of a component into facts about
  every run of it.

  JavaScript strings are \<^typ>\<open>string\<close>, a list of code units below 256.  All identifiers,
  digests, timestamps and format tags of the program are ASCII, and free text is covered in
  Latin-1; code units above 255 and surrogate pairs are outside the model.
\<close>

named_theorems outcome_simps \<open>inversion of the error monad\<close>

section \<open>Results with errors\<close>

definition andThen :: "'e + 'a \<Rightarrow> ('a \<Rightarrow> 'e + 'b) \<Rightarrow> 'e + 'b" where
  "andThen m f = (case m of Inl e \<Rightarrow> Inl e | Inr x \<Rightarrow> f x)"

definition failIf :: "bool \<Rightarrow> 'e \<Rightarrow> 'e + 'a \<Rightarrow> 'e + 'a" where
  "failIf c e m = (if c then Inl e else m)"

lemma andThen_Inr [simp]: "andThen (Inr x) f = f x"
  and andThen_Inl [simp]: "andThen (Inl e) f = Inl e"
  by (simp_all add: andThen_def)

lemma failIf_True [simp]: "failIf True e m = Inl e"
  and failIf_False [simp]: "failIf False e m = m"
  by (simp_all add: failIf_def)

lemma andThen_eq_Inr [outcome_simps]:
  "andThen m f = Inr y \<longleftrightarrow> (\<exists>x. m = Inr x \<and> f x = Inr y)"
  by (cases m) simp_all

lemma andThen_eq_Inl [outcome_simps]:
  "andThen m f = Inl e \<longleftrightarrow> m = Inl e \<or> (\<exists>x. m = Inr x \<and> f x = Inl e)"
  by (cases m) simp_all

lemma failIf_eq_Inr [outcome_simps]: "failIf c e m = Inr y \<longleftrightarrow> \<not> c \<and> m = Inr y"
  by (simp add: failIf_def)

lemma failIf_eq_Inl [outcome_simps]:
  "failIf c e m = Inl e' \<longleftrightarrow> (c \<and> e = e') \<or> (\<not> c \<and> m = Inl e')"
  by (simp add: failIf_def)

lemma andThen_cong [fundef_cong]:
  "m = m' \<Longrightarrow> (\<And>x. m' = Inr x \<Longrightarrow> f x = f' x) \<Longrightarrow> andThen m f = andThen m' f'"
  by (cases m') simp_all

text \<open>\<open>xs.map(f)\<close> where \<open>f\<close> may throw: the first failing element decides the error.\<close>

fun mapResult :: "('a \<Rightarrow> 'e + 'b) \<Rightarrow> 'a list \<Rightarrow> 'e + 'b list" where
  "mapResult f [] = Inr []"
| "mapResult f (x # xs) =
     andThen (f x) (\<lambda>y. andThen (mapResult f xs) (\<lambda>ys. Inr (y # ys)))"

lemma mapResult_cong [fundef_cong]:
  "xs = ys \<Longrightarrow> (\<And>x. x \<in> set ys \<Longrightarrow> f x = g x) \<Longrightarrow> mapResult f xs = mapResult g ys"
  by (induction ys arbitrary: xs) auto

lemma mapResult_eq_Inr:
  "mapResult f xs = Inr ys \<longleftrightarrow> list_all2 (\<lambda>x y. f x = Inr y) xs ys"
  by (induction xs arbitrary: ys) (auto simp: outcome_simps list_all2_Cons1)

lemma mapResult_length: "mapResult f xs = Inr ys \<Longrightarrow> length ys = length xs"
  by (simp add: mapResult_eq_Inr list_all2_lengthD)

lemma mapResult_map_Inr: "(\<And>x. x \<in> set xs \<Longrightarrow> f (g x) = Inr x) \<Longrightarrow> mapResult f (map g xs) = Inr xs"
  by (induction xs) auto

lemma mapResult_in_set:
  "mapResult f xs = Inr ys \<Longrightarrow> y \<in> set ys \<Longrightarrow> \<exists>x \<in> set xs. f x = Inr y"
  by (induction xs arbitrary: ys) (auto simp: outcome_simps)

text \<open>Options as JavaScript's \<open>undefined\<close>: \<open>value === undefined ? undefined : f(value)\<close>.\<close>

definition optionally :: "('a \<Rightarrow> 'e + 'b) \<Rightarrow> 'a option \<Rightarrow> 'e + 'b option" where
  "optionally f v = (case v of None \<Rightarrow> Inr None | Some x \<Rightarrow> andThen (f x) (\<lambda>y. Inr (Some y)))"

lemma optionally_None [simp]: "optionally f None = Inr None"
  and optionally_Some [simp]: "optionally f (Some x) = andThen (f x) (\<lambda>y. Inr (Some y))"
  by (simp_all add: optionally_def)

lemma optionally_eq_Inr [outcome_simps]:
  "optionally f v = Inr w \<longleftrightarrow>
     (v = None \<and> w = None) \<or> (\<exists>x y. v = Some x \<and> f x = Inr y \<and> w = Some y)"
  by (cases v) (auto simp: outcome_simps)

section \<open>JavaScript strings\<close>

abbreviation code_unit :: "char \<Rightarrow> nat" where
  "code_unit c \<equiv> of_char c"

definition is_digit :: "char \<Rightarrow> bool" where
  "is_digit c \<longleftrightarrow> 48 \<le> code_unit c \<and> code_unit c \<le> 57"

definition is_lower :: "char \<Rightarrow> bool" where
  "is_lower c \<longleftrightarrow> 97 \<le> code_unit c \<and> code_unit c \<le> 122"

definition is_upper :: "char \<Rightarrow> bool" where
  "is_upper c \<longleftrightarrow> 65 \<le> code_unit c \<and> code_unit c \<le> 90"

definition is_letter :: "char \<Rightarrow> bool" where
  "is_letter c \<longleftrightarrow> is_lower c \<or> is_upper c"

text \<open>The class \<open>[A-Za-z0-9._:-]\<close> of the identifier patterns.\<close>

definition is_id_char :: "char \<Rightarrow> bool" where
  "is_id_char c \<longleftrightarrow>
     is_letter c \<or> is_digit c \<or> c = CHR ''.'' \<or> c = CHR ''_'' \<or> c = CHR '':'' \<or> c = CHR ''-''"

definition starts_with :: "string \<Rightarrow> string \<Rightarrow> bool" where
  "starts_with s p \<longleftrightarrow> take (length p) s = p"

lemma starts_with_append [simp]: "starts_with (p @ s) p"
  by (simp add: starts_with_def)

text \<open>\<open>String.prototype.trim\<close> on Latin-1: tab, line feed, vertical tab, form feed, carriage
  return, space and no-break space.\<close>

definition is_js_space :: "char \<Rightarrow> bool" where
  "is_js_space c \<longleftrightarrow> (9 \<le> code_unit c \<and> code_unit c \<le> 13) \<or> code_unit c = 32 \<or> code_unit c = 160"

definition js_trim :: "string \<Rightarrow> string" where
  "js_trim s = rev (dropWhile is_js_space (rev (dropWhile is_js_space s)))"

lemma dropWhile_rev_dropWhile:
  "dropWhile P (rev (dropWhile P (rev (dropWhile P xs)))) = rev (dropWhile P (rev (dropWhile P xs)))"
proof (cases "dropWhile P xs")
  case Nil
  show ?thesis by (simp only: Nil rev.simps dropWhile.simps)
next
  case (Cons y ys)
  then have y: "\<not> P y" by (metis dropWhile_eq_Cons_conv)
  have "dropWhile P (rev ys @ [y]) = dropWhile P (rev ys) @ [y]"
    using y by (induction ys rule: rev_induct) auto
  then show ?thesis using y Cons by simp
qed

lemma js_trim_idem [simp]: "js_trim (js_trim s) = js_trim s"
  by (simp add: js_trim_def dropWhile_rev_dropWhile)

text \<open>\<open>new TextEncoder().encode(s).byteLength\<close>: a code unit below 128 takes one byte, one
  below 256 takes two.\<close>

definition utf8_length :: "string \<Rightarrow> nat" where
  "utf8_length s = sum_list (map (\<lambda>c. if code_unit c < 128 then 1 else 2) s)"

lemma utf8_length_Nil [simp]: "utf8_length [] = 0"
  and utf8_length_Cons [simp]:
    "utf8_length (c # s) = (if code_unit c < 128 then 1 else 2) + utf8_length s"
  and utf8_length_append [simp]: "utf8_length (s @ t) = utf8_length s + utf8_length t"
  by (simp_all add: utf8_length_def)

lemma length_le_utf8_length: "length s \<le> utf8_length s"
  by (induction s) auto

lemma utf8_length_le: "utf8_length s \<le> 2 * length s"
  by (induction s) auto

section \<open>Lists\<close>

lemma find_Some_in: "List.find P xs = Some x \<Longrightarrow> x \<in> set xs \<and> P x"
  by (induction xs) (auto split: if_splits)

lemma find_None_iff: "List.find P xs = None \<longleftrightarrow> (\<forall>x \<in> set xs. \<not> P x)"
  by (induction xs) auto

text \<open>Where the keys are distinct, \<open>find\<close> by key returns the element with that key.\<close>

lemma find_by_key:
  "distinct (map k xs) \<Longrightarrow> x \<in> set xs \<Longrightarrow> List.find (\<lambda>y. k y = k x) xs = Some x"
  by (induction xs) force+

lemma distinct_map_eqD:
  "distinct (map k xs) \<Longrightarrow> x \<in> set xs \<Longrightarrow> y \<in> set xs \<Longrightarrow> k x = k y \<Longrightarrow> x = y"
  by (auto simp: distinct_map inj_on_def)

lemma concat_map_eq_Nil: "concat (map f xs) = [] \<longleftrightarrow> (\<forall>x \<in> set xs. f x = [])"
  by (induction xs) auto

section \<open>Loops with a budget\<close>

text \<open>A loop over elements that threads the budget and stops at the first failure.\<close>

fun budgeted :: "('a \<Rightarrow> 'b \<Rightarrow> 'b option) \<Rightarrow> 'a list \<Rightarrow> 'b \<Rightarrow> 'b option" where
  "budgeted f [] b = Some b"
| "budgeted f (x # xs) b = Option.bind (f x b) (budgeted f xs)"

lemma budgeted_cong [fundef_cong]:
  "xs = ys \<Longrightarrow> (\<And>x c. x \<in> set ys \<Longrightarrow> f x c = g x c) \<Longrightarrow> b = c \<Longrightarrow> budgeted f xs b = budgeted g ys c"
proof (induction ys arbitrary: xs b c)
  case (Cons y ys)
  then have "budgeted f ys = budgeted g ys" by (intro ext) auto
  then show ?case using Cons.prems by simp
qed simp

section \<open>Runs of a component\<close>

text \<open>
  A component is a step function that returns the next state or throws; when it throws, the
  caller keeps the state it had.  \<open>attempts\<close> is what a sequence of calls leaves behind.
\<close>

definition attempt :: "('s \<Rightarrow> 'c \<Rightarrow> 'e + 's) \<Rightarrow> 's \<Rightarrow> 'c \<Rightarrow> 's" where
  "attempt step s c = (case step s c of Inl e \<Rightarrow> s | Inr s' \<Rightarrow> s')"

definition attempts :: "('s \<Rightarrow> 'c \<Rightarrow> 'e + 's) \<Rightarrow> 's \<Rightarrow> 'c list \<Rightarrow> 's" where
  "attempts step s cs = foldl (attempt step) s cs"

lemma attempts_Nil [simp]: "attempts step s [] = s"
  and attempts_Cons [simp]: "attempts step s (c # cs) = attempts step (attempt step s c) cs"
  and attempts_append: "attempts step s (cs @ ds) = attempts step (attempts step s cs) ds"
  by (simp_all add: attempts_def)

text \<open>The contract of a component with an invariant that every accepted step keeps.\<close>

locale guarded_machine =
  fixes step :: "'s \<Rightarrow> 'c \<Rightarrow> 'e + 's"
    and inv :: "'s \<Rightarrow> bool"
  assumes step_inv: "inv s \<Longrightarrow> step s c = Inr s' \<Longrightarrow> inv s'"
begin

lemma attempt_inv: "inv s \<Longrightarrow> inv (attempt step s c)"
  by (auto simp: attempt_def split: sum.splits intro: step_inv)

lemma attempts_inv: "inv s \<Longrightarrow> inv (attempts step s cs)"
  by (induction cs arbitrary: s) (auto intro: attempt_inv)

end

text \<open>The calls that were accepted, and the contract of a component that implements an abstract step:
  what is left behind is what the accepted calls do to the abstract state.\<close>

fun accepted :: "('s \<Rightarrow> 'c \<Rightarrow> 'e + 's) \<Rightarrow> 's \<Rightarrow> 'c list \<Rightarrow> 'c list" where
  "accepted step s [] = []"
| "accepted step s (c # cs) =
     (case step s c of Inl e \<Rightarrow> accepted step s cs | Inr s' \<Rightarrow> c # accepted step s' cs)"

locale refining_machine = guarded_machine step inv
  for step :: "'s \<Rightarrow> 'c \<Rightarrow> 'e + 's" and inv :: "'s \<Rightarrow> bool" +
  fixes abs :: "'s \<Rightarrow> 'a" and abs_step :: "'a \<Rightarrow> 'c \<Rightarrow> 'a"
  assumes step_abs: "inv s \<Longrightarrow> step s c = Inr s' \<Longrightarrow> abs s' = abs_step (abs s) c"
begin

lemma attempts_abs: "inv s \<Longrightarrow> abs (attempts step s cs) = foldl abs_step (abs s) (accepted step s cs)"
proof (induction cs arbitrary: s)
  case (Cons c cs)
  show ?case
  proof (cases "step s c")
    case Inl
    then show ?thesis using Cons by (simp add: attempt_def)
  next
    case (Inr t)
    then show ?thesis using Cons.IH [of t] step_inv [OF Cons.prems Inr] step_abs [OF Cons.prems Inr]
      by (simp add: attempt_def)
  qed
qed simp

end

text \<open>A component whose accepted steps also move forward along a preorder (a log that only
  grows, a counter, a lifecycle).\<close>

locale forward_machine = guarded_machine step inv
  for step :: "'s \<Rightarrow> 'c \<Rightarrow> 'e + 's" and inv :: "'s \<Rightarrow> bool" +
  fixes forward :: "'s \<Rightarrow> 's \<Rightarrow> bool"
  assumes forward_refl: "forward s s"
    and forward_trans: "forward s t \<Longrightarrow> forward t u \<Longrightarrow> forward s u"
    and step_forward: "inv s \<Longrightarrow> step s c = Inr s' \<Longrightarrow> forward s s'"
begin

lemma attempt_forward: "inv s \<Longrightarrow> forward s (attempt step s c)"
  by (auto simp: attempt_def split: sum.splits intro: step_forward forward_refl)

lemma attempts_forward: "inv s \<Longrightarrow> forward s (attempts step s cs)"
proof (induction cs arbitrary: s)
  case Nil
  show ?case by (simp add: forward_refl)
next
  case (Cons c cs)
  have "forward s (attempt step s c)" using Cons.prems by (rule attempt_forward)
  moreover have "forward (attempt step s c) (attempts step (attempt step s c) cs)"
    using Cons.prems by (intro Cons.IH attempt_inv)
  ultimately show ?case by (simp add: forward_trans)
qed

end

end
