(* ===== verification/Json_Data.thy ===== *)
theory Json_Data
  imports Selene_Prelude
begin

text \<open>
  The values that cross the program's boundaries as \<open>unknown\<close>, and \<open>JSON.stringify\<close> on
  them.  A value is a finite tree: the boundary code of the program rejects accessors, foreign
  prototypes, symbols and cycles before it looks at anything else, and such values are the
  constructor \<open>JOther\<close> here.  Integer-valued numbers are \<open>JNum\<close>; every other finite number is
  \<open>JDec\<close> with the decimal text that \<open>Number.prototype.toString\<close> gives it (distinct numbers have
  distinct texts).

  Equality of decimals is equality of
  their texts.  The main fact is that \<open>stringify\<close> is injective on inert data: the program compares values
  and computes its revision bindings by comparing and storing this text.
\<close>

section \<open>Values\<close>

datatype foreign =
    NonObject      \<comment> \<open>\<open>undefined\<close>, functions, symbols, big integers\<close>
  | NonFinite      \<comment> \<open>\<open>NaN\<close> and the infinities\<close>
  | ExoticObject   \<comment> \<open>accessors, symbol keys, foreign prototypes, sparse arrays, cycles\<close>

definition is_number_char :: "char \<Rightarrow> bool" where
  "is_number_char c \<longleftrightarrow>
     is_digit c \<or> c = CHR ''-'' \<or> c = CHR ''+'' \<or> c = CHR ''.'' \<or> c = CHR ''e''"

text \<open>The texts that a finite number outside \<open>JNum\<close> prints as.\<close>

definition decimal_text :: "string \<Rightarrow> bool" where
  "decimal_text s \<longleftrightarrow> list_all is_number_char s \<and> (CHR ''.'' \<in> set s \<or> CHR ''e'' \<in> set s)"

typedef decimal = "{s. decimal_text s}"
  morphisms text_of_decimal decimal_of_text
  by (rule exI [of _ "''0.5''"]) (simp add: decimal_text_def is_number_char_def is_digit_def)

setup_lifting type_definition_decimal

instantiation decimal :: equal
begin

definition equal_decimal :: "decimal \<Rightarrow> decimal \<Rightarrow> bool" where
  "equal_decimal d e \<longleftrightarrow> text_of_decimal d = text_of_decimal e"

instance by standard (simp add: equal_decimal_def text_of_decimal_inject)

end

lemma decimal_text_of [simp]: "decimal_text (text_of_decimal d)"
  using text_of_decimal by simp

datatype json =
    JNull
  | JBool bool
  | JNum int
  | JDec decimal
  | JStr string
  | JArr "json list"
  | JObj "(string \<times> json) list"
  | JOther foreign

lemma json_entry_size [termination_simp]:
  "kv \<in> set kvs \<Longrightarrow> size (snd kv) < Suc (size_list (size_prod (\<lambda>_. 0) size) kvs)"
proof (induction kvs)
  case (Cons a kvs)
  then show ?case by (cases a) auto
qed simp

text \<open>Inert data: no foreign value anywhere in the tree.\<close>

fun inert :: "json \<Rightarrow> bool" where
  "inert (JArr xs) = list_all inert xs"
| "inert (JObj kvs) = list_all (\<lambda>kv. inert (snd kv)) kvs"
| "inert (JOther f) = False"
| "inert _ = True"

text \<open>Property access \<open>value[name]\<close> on an object: \<open>None\<close> is \<open>undefined\<close>.\<close>

definition attr :: "(string \<times> json) list \<Rightarrow> string \<Rightarrow> json option" where
  "attr kvs k = map_of kvs k"

section \<open>Text\<close>

text \<open>\<open>xs.join(separator)\<close>\<close>

fun js_join :: "string \<Rightarrow> string list \<Rightarrow> string" where
  "js_join sep [] = []"
| "js_join sep [x] = x"
| "js_join sep (x # y # ys) = x @ sep @ js_join sep (y # ys)"

fun nat_text :: "nat \<Rightarrow> string" where
  "nat_text n = (if n < 10 then [char_of (48 + n)] else nat_text (n div 10) @ [char_of (48 + n mod 10)])"

declare nat_text.simps [simp del]

definition int_text :: "int \<Rightarrow> string" where
  "int_text i = (if i < 0 then CHR ''-'' # nat_text (nat (- i)) else nat_text (nat i))"

definition hex_digit :: "nat \<Rightarrow> char" where
  "hex_digit n = (if n < 10 then char_of (48 + n) else char_of (87 + n))"

text \<open>\<open>JSON.stringify\<close> escapes the quote, the backslash and the control characters.\<close>

definition escape_char :: "char \<Rightarrow> string" where
  "escape_char c =
     (if c = CHR 0x22 then [CHR 0x5C, CHR 0x22]
      else if c = CHR 0x5C then [CHR 0x5C, CHR 0x5C]
      else if c = CHR 0x08 then [CHR 0x5C, CHR ''b'']
      else if c = CHR 0x0C then [CHR 0x5C, CHR ''f'']
      else if c = CHR 0x0A then [CHR 0x5C, CHR ''n'']
      else if c = CHR 0x0D then [CHR 0x5C, CHR ''r'']
      else if c = CHR 0x09 then [CHR 0x5C, CHR ''t'']
      else if code_unit c < 32 then
        [CHR 0x5C, CHR ''u'', CHR ''0'', CHR ''0'', hex_digit (code_unit c div 16),
         hex_digit (code_unit c mod 16)]
      else [c])"

definition quote_text :: "string \<Rightarrow> string" where
  "quote_text s = CHR 0x22 # concat (map escape_char s) @ [CHR 0x22]"

fun stringify :: "json \<Rightarrow> string" where
  "stringify JNull = ''null''"
| "stringify (JBool b) = (if b then ''true'' else ''false'')"
| "stringify (JNum i) = int_text i"
| "stringify (JDec d) = text_of_decimal d"
| "stringify (JStr s) = quote_text s"
| "stringify (JArr xs) = CHR ''['' # js_join '','' (map stringify xs) @ '']''"
| "stringify (JObj kvs) =
     CHR ''{'' # js_join '','' (map (\<lambda>kv. quote_text (fst kv) @ CHR '':'' # stringify (snd kv)) kvs) @ ''}''"
| "stringify (JOther f) = ''null''"

section \<open>Numbers and strings are uniquely readable\<close>

lemma nat_text_digits: "list_all is_digit (nat_text n)"
proof (induction n rule: nat_text.induct)
  case (1 n)
  have "is_digit (char_of (48 + m))" if "m < 10" for m :: nat
    using that by (simp add: is_digit_def)
  then show ?case using 1 by (subst nat_text.simps) simp
qed

lemma nat_text_nonempty [simp]: "nat_text n \<noteq> []"
  by (subst nat_text.simps) simp

fun text_nat :: "string \<Rightarrow> nat" where
  "text_nat s = foldl (\<lambda>n c. 10 * n + (code_unit c - 48)) 0 s"

declare text_nat.simps [simp del]

lemma text_nat_nat_text: "text_nat (nat_text n) = n"
proof (induction n rule: nat_text.induct)
  case (1 n)
  show ?case
  proof (cases "n < 10")
    case True
    then show ?thesis by (subst nat_text.simps) (simp add: text_nat.simps)
  next
    case False
    then have "text_nat (nat_text (n div 10)) = n div 10" using 1 by simp
    then show ?thesis using False by (subst nat_text.simps) (simp add: text_nat.simps)
  qed
qed

lemma nat_text_inject [simp]: "nat_text m = nat_text n \<longleftrightarrow> m = n"
  by (metis text_nat_nat_text)

lemma nat_text_no_minus: "nat_text n \<noteq> CHR ''-'' # s"
  using nat_text_digits [of n] by (auto simp: is_digit_def)

lemma int_text_inject [simp]: "int_text i = int_text j \<longleftrightarrow> i = j"
  using nat_text_no_minus nat_text_no_minus [symmetric] by (auto simp: int_text_def)

lemma int_text_chars: "c \<in> set (int_text i) \<Longrightarrow> is_digit c \<or> c = CHR ''-''"
  using nat_text_digits by (auto simp: int_text_def list_all_iff split: if_splits)

lemma int_text_number: "list_all is_number_char (int_text i)"
  using int_text_chars by (auto simp: list_all_iff is_number_char_def)

lemma int_text_not_decimal: "\<not> decimal_text (int_text i)"
  using int_text_chars [of "CHR ''.''" i] int_text_chars [of "CHR ''e''" i]
  by (auto simp: decimal_text_def is_digit_def)

lemma int_text_nonempty [simp]: "int_text i \<noteq> []"
  by (simp add: int_text_def)

text \<open>Reading one escaped character back.\<close>

definition hex_value :: "char \<Rightarrow> nat" where
  "hex_value c = (if is_digit c then code_unit c - 48 else code_unit c - 87)"

fun unescape_char :: "string \<Rightarrow> char \<times> string" where
  "unescape_char (c # d # s) =
     (if c \<noteq> CHR 0x5C then (c, d # s)
      else if d = CHR ''b'' then (CHR 0x08, s)
      else if d = CHR ''f'' then (CHR 0x0C, s)
      else if d = CHR ''n'' then (CHR 0x0A, s)
      else if d = CHR ''r'' then (CHR 0x0D, s)
      else if d = CHR ''t'' then (CHR 0x09, s)
      else if d = CHR ''u'' then
        (char_of (16 * hex_value (s ! 2) + hex_value (s ! 3)), drop 4 s)
      else (d, s))"
| "unescape_char [c] = (c, [])"
| "unescape_char [] = (CHR 0x00, [])"

lemma hex_value_hex_digit: "n < 16 \<Longrightarrow> hex_value (hex_digit n) = n"
  by (auto simp: hex_value_def hex_digit_def is_digit_def)

lemma unescape_escape: "s \<noteq> [] \<Longrightarrow> unescape_char (escape_char c @ s) = (c, s)"
proof (cases "code_unit c < 32")
  case True
  have "16 * (code_unit c div 16) + code_unit c mod 16 = code_unit c" by simp
  moreover have "code_unit c div 16 < 16" using True by simp
  ultimately show ?thesis using True
    by (auto simp: escape_char_def hex_value_hex_digit)
next
  case False
  moreover assume "s \<noteq> []"
  ultimately show ?thesis
    by (cases s) (auto simp: escape_char_def)
qed

lemma escape_char_not_quote: "escape_char c @ s \<noteq> CHR 0x22 # t"
  by (auto simp: escape_char_def)

lemma quoted_body_inject:
  "concat (map escape_char s) @ CHR 0x22 # r = concat (map escape_char t) @ CHR 0x22 # q
     \<Longrightarrow> s = t \<and> r = q"
proof (induction s arbitrary: t)
  case Nil
  then show ?case by (cases t) (auto dest: sym [THEN notE [OF escape_char_not_quote]])
next
  case (Cons c s)
  then obtain d t' where t: "t = d # t'"
    by (cases t) (auto simp: escape_char_not_quote)
  let ?x = "concat (map escape_char s) @ CHR 0x22 # r"
  let ?y = "concat (map escape_char t') @ CHR 0x22 # q"
  have "escape_char c @ ?x = escape_char d @ ?y" using Cons.prems t by simp
  then have "unescape_char (escape_char c @ ?x) = unescape_char (escape_char d @ ?y)" by simp
  then have "c = d" and "?x = ?y" by (simp_all add: unescape_escape)
  then show ?case using Cons.IH t by blast
qed

lemma quote_text_inject_append: "quote_text s @ r = quote_text t @ q \<Longrightarrow> s = t \<and> r = q"
  by (auto simp: quote_text_def dest: quoted_body_inject)

lemma quote_text_inject [simp]: "quote_text s = quote_text t \<longleftrightarrow> s = t"
  using quote_text_inject_append [of s "[]" t "[]"] by auto

section \<open>stringify is injective on inert data\<close>

text \<open>What follows a value inside a text: nothing, a comma or a closing bracket.\<close>

definition closes :: "string \<Rightarrow> bool" where
  "closes r \<longleftrightarrow> r = [] \<or> hd r \<in> {CHR '','', CHR '']'', CHR ''}''}"

lemma closes_simps [simp]:
  "closes []" "closes (CHR '','' # r)" "closes (CHR '']'' # r)" "closes (CHR ''}'' # r)"
  by (simp_all add: closes_def)

lemma closes_takeWhile: "closes r \<Longrightarrow> list_all is_number_char s \<Longrightarrow> takeWhile is_number_char (s @ r) = s"
  by (cases r) (auto simp: takeWhile_append list_all_iff closes_def is_number_char_def is_digit_def)

lemma number_text_append:
  assumes "closes r" "closes q" "list_all is_number_char s" "list_all is_number_char t"
    and eq: "s @ r = t @ q"
  shows "s = t \<and> r = q"
proof -
  have "s = t" using assms closes_takeWhile by metis
  then show ?thesis using eq by simp
qed

text \<open>The first character of a text tells which kind of value it is.\<close>

definition kind_of_char :: "char \<Rightarrow> nat" where
  "kind_of_char c =
     (if c = CHR ''n'' then 0 else if c = CHR ''t'' then 1 else if c = CHR ''f'' then 2
      else if is_number_char c then 3 else if c = CHR 0x22 then 4 else if c = CHR ''['' then 5
      else if c = CHR ''{'' then 6 else 7)"

fun kind_of :: "json \<Rightarrow> nat" where
  "kind_of JNull = 0"
| "kind_of (JBool b) = (if b then 1 else 2)"
| "kind_of (JNum i) = 3"
| "kind_of (JDec s) = 3"
| "kind_of (JStr s) = 4"
| "kind_of (JArr xs) = 5"
| "kind_of (JObj kvs) = 6"
| "kind_of (JOther f) = 0"

lemma kind_of_number_char: "is_number_char c \<Longrightarrow> kind_of_char c = 3"
  by (auto simp: kind_of_char_def is_number_char_def is_digit_def)

lemma kind_of_char_simps [simp]:
  "kind_of_char CHR ''n'' = 0" "kind_of_char CHR ''t'' = 1" "kind_of_char CHR ''f'' = 2"
  "kind_of_char CHR 0x22 = 4" "kind_of_char CHR ''['' = 5" "kind_of_char CHR ''{'' = 6"
  "kind_of_char CHR '','' = 7" "kind_of_char CHR '']'' = 7" "kind_of_char CHR ''}'' = 7"
  by (simp_all add: kind_of_char_def is_number_char_def is_digit_def)

lemma stringify_head: "inert v \<Longrightarrow> \<exists>c s. stringify v = c # s \<and> kind_of_char c = kind_of v"
proof (cases v)
  case (JNum i)
  then show ?thesis using int_text_number [of i]
    by (cases "int_text i") (auto simp: kind_of_number_char)
next
  case (JDec d)
  then show ?thesis using decimal_text_of [of d]
    by (cases "text_of_decimal d") (auto simp: decimal_text_def kind_of_number_char)
qed (auto simp: quote_text_def)

lemma kind_of_less_7: "kind_of v < 7"
  by (cases v) auto

lemma stringify_same_kind:
  "inert v \<Longrightarrow> inert w \<Longrightarrow> stringify v @ r = stringify w @ q \<Longrightarrow> kind_of v = kind_of w"
  using stringify_head [of v] stringify_head [of w] by auto

lemma stringify_head_closes:
  "inert v \<Longrightarrow> c \<in> {CHR '','', CHR '']'', CHR ''}''} \<Longrightarrow> stringify v @ r \<noteq> c # q"
  using stringify_head [of v] kind_of_less_7 [of v] by auto

lemma number_inject_append:
  assumes "inert v" "inert w" "kind_of v = 3" "kind_of w = 3" "closes r" "closes q"
    and eq: "stringify v @ r = stringify w @ q"
  shows "v = w \<and> r = q"
proof -
  have num: "list_all is_number_char (stringify u)" if "inert u" "kind_of u = 3" for u
    using that int_text_number decimal_text_of
    by (cases u) (auto simp: decimal_text_def split: if_splits)
  have "stringify v = stringify w \<and> r = q"
    using assms by (intro number_text_append num)
  moreover have "v = w" if "stringify v = stringify w"
  proof (cases v)
    case (JNum i)
    then show ?thesis using that assms int_text_not_decimal [of i] decimal_text_of
      by (cases w) (auto split: if_splits)
  next
    case (JDec d)
    then show ?thesis using that assms int_text_not_decimal decimal_text_of [of d]
      by (cases w) (auto simp: text_of_decimal_inject split: if_splits)
  qed (use assms in \<open>auto split: if_splits\<close>)
  ultimately show ?thesis by blast
qed

lemma join_inject:
  assumes inj: "\<And>x y r q. x \<in> set xs \<Longrightarrow> y \<in> set ys \<Longrightarrow> closes r \<Longrightarrow> closes q \<Longrightarrow>
      f x @ r = f y @ q \<Longrightarrow> x = y \<and> r = q"
    and start: "\<And>x r q c. x \<in> set xs \<union> set ys \<Longrightarrow> c \<in> {CHR '','', CHR '']'', CHR ''}''} \<Longrightarrow> f x @ r \<noteq> c # q"
    and c: "c = CHR '']'' \<or> c = CHR ''}''"
    and eq: "js_join '','' (map f xs) @ c # r = js_join '','' (map f ys) @ c # q"
  shows "xs = ys \<and> r = q"
  using inj start eq
proof (induction xs arbitrary: ys)
  case Nil
  show ?case
  proof (cases ys)
    case Nil
    then show ?thesis using \<open>js_join '','' (map f []) @ c # r = _\<close> by simp
  next
    case (Cons y ys')
    have "js_join '','' (map f ys) @ c # q = f y @ (if ys' = [] then [] else CHR '','' # js_join '','' (map f ys')) @ c # q"
      using Cons by (cases ys') simp_all
    then show ?thesis using Nil Cons c by (metis js_join.simps(1) list.simps(8) append_Nil
      list.set_intros(1) UnCI insertCI)
  qed
next
  case (Cons x xs')
  let ?rest = "\<lambda>zs r. if zs = [] then c # r else CHR '','' # js_join '','' (map f zs) @ c # r"
  have split: "js_join '','' (map f (z # zs)) @ c # t = f z @ ?rest zs t" for z zs t
    by (cases zs) simp_all
  have closes_rest: "closes (?rest zs t)" for zs t using c by auto
  show ?case
  proof (cases ys)
    case Nil
    then have "f x @ ?rest xs' r = c # q" using Cons.prems(3) split by simp
    then show ?thesis using Cons.prems(2) [of x c] c by auto
  next
    case ys: (Cons y ys')
    have "f x @ ?rest xs' r = f y @ ?rest ys' q" using Cons.prems(3) ys split by simp
    then have xy: "x = y" and rest: "?rest xs' r = ?rest ys' q"
      using Cons.prems(1) [of x y, OF _ _ closes_rest closes_rest] ys by auto
    have "xs' = ys' \<and> r = q"
    proof (cases "xs' = [] \<or> ys' = []")
      case True
      then show ?thesis using rest c by (auto split: if_splits)
    next
      case False
      then have "js_join '','' (map f xs') @ c # r = js_join '','' (map f ys') @ c # q"
        using rest by simp
      then show ?thesis using Cons.prems(1,2) ys
        by (intro Cons.IH) (auto simp: ys)
    qed
    then show ?thesis using xy ys by simp
  qed
qed

lemma stringify_inject_append:
  "inert v \<Longrightarrow> inert w \<Longrightarrow> closes r \<Longrightarrow> closes q \<Longrightarrow>
     stringify v @ r = stringify w @ q \<Longrightarrow> v = w \<and> r = q"
proof (induction v arbitrary: w r q)
  case JNull
  then have "kind_of w = 0" by (metis stringify_same_kind kind_of.simps(1))
  then show ?case using JNull by (cases w) (auto split: if_splits)
next
  case (JBool b)
  then have "kind_of w = (if b then 1 else 2)" by (metis stringify_same_kind kind_of.simps(2))
  then show ?case using JBool by (cases w) (auto split: if_splits)
next
  case (JNum i)
  then have "kind_of w = 3" by (metis stringify_same_kind kind_of.simps(3))
  then show ?case using JNum by (intro number_inject_append) simp_all
next
  case (JDec s)
  then have "kind_of w = 3" by (metis stringify_same_kind kind_of.simps(4))
  then show ?case using JDec by (intro number_inject_append) simp_all
next
  case (JStr s)
  then have "kind_of w = 4" by (metis stringify_same_kind kind_of.simps(5))
  then obtain t where w: "w = JStr t" by (cases w) (auto split: if_splits)
  have "quote_text s @ r = quote_text t @ q" using JStr.prems(5) unfolding w by simp
  then show ?case using w quote_text_inject_append by blast
next
  case (JArr xs)
  then have "kind_of w = 5" by (metis stringify_same_kind kind_of.simps(6))
  then obtain ys where w: "w = JArr ys" by (cases w) (auto split: if_splits)
  have eq: "js_join '','' (map stringify xs) @ CHR '']'' # r =
      js_join '','' (map stringify ys) @ CHR '']'' # q"
    using JArr.prems(5) unfolding w by simp
  have "xs = ys \<and> r = q"
  proof (rule join_inject [where f = stringify and c = "CHR '']''", OF _ _ _ eq])
    show "x = y \<and> r' = q'"
      if "x \<in> set xs" "y \<in> set ys" "closes r'" "closes q'" "stringify x @ r' = stringify y @ q'"
      for x y r' q'
    proof -
      have "inert x" "inert y" using that JArr.prems w by (simp_all add: list_all_iff)
      then show ?thesis using that by (intro JArr.IH)
    qed
    show "stringify x @ r' \<noteq> c # q'"
      if "x \<in> set xs \<union> set ys" "c \<in> {CHR '','', CHR '']'', CHR ''}''}" for x r' q' c
      using that JArr.prems w by (intro stringify_head_closes) (auto simp: list_all_iff)
  qed simp
  then show ?case using w by simp
next
  case (JObj kvs)
  then have "kind_of w = 6" by (metis stringify_same_kind kind_of.simps(7))
  then obtain lws where w: "w = JObj lws" by (cases w) (auto split: if_splits)
  let ?f = "\<lambda>kv. quote_text (fst kv) @ CHR '':'' # stringify (snd kv)"
  have eq: "js_join '','' (map ?f kvs) @ CHR ''}'' # r = js_join '','' (map ?f lws) @ CHR ''}'' # q"
    using JObj.prems(5) unfolding w by simp
  have "kvs = lws \<and> r = q"
  proof (rule join_inject [where f = ?f and c = "CHR ''}''", OF _ _ _ eq])
    show "x = y \<and> r' = q'"
      if xy: "x \<in> set kvs" "y \<in> set lws" "closes r'" "closes q'" and eq: "?f x @ r' = ?f y @ q'"
      for x y r' q'
    proof -
      have k: "fst x = fst y" and v: "stringify (snd x) @ r' = stringify (snd y) @ q'"
        using eq quote_text_inject_append [of "fst x" _ "fst y"] by auto
      have "inert (snd x)" "inert (snd y)"
        using xy JObj.prems w by (auto simp: list_all_iff)
      then have "snd x = snd y \<and> r' = q'"
        using xy v by (intro JObj.IH [of x "snd x"]) (auto simp: snds.simps)
      then show ?thesis using k by (simp add: prod_eq_iff)
    qed
    show "?f x @ r' \<noteq> c # q'"
      if "x \<in> set kvs \<union> set lws" "c \<in> {CHR '','', CHR '']'', CHR ''}''}" for x r' q' c
      using that by (auto simp: quote_text_def)
  qed simp
  then show ?case using w by simp
next
  case (JOther f)
  then show ?case by simp
qed

theorem stringify_inject:
  assumes "inert v" and "inert w" and "stringify v = stringify w"
  shows "v = w"
  using stringify_inject_append [of v w "[]" "[]"] assms by simp

lemma stringify_eq_iff: "inert v \<Longrightarrow> inert w \<Longrightarrow> stringify v = stringify w \<longleftrightarrow> v = w"
  using stringify_inject by blast

text \<open>Arrays of strings and of numbers, as the program compares them by their JSON text.\<close>

lemma stringify_strings_eq [simp]:
  "stringify (JArr (map JStr xs)) = stringify (JArr (map JStr ys)) \<longleftrightarrow> xs = ys"
  by (subst stringify_eq_iff) (auto simp: list_all_iff inj_map_eq_map inj_def)

lemma stringify_nats_eq [simp]:
  "stringify (JArr (map (\<lambda>n. JNum (int n)) xs)) = stringify (JArr (map (\<lambda>n. JNum (int n)) ys)) \<longleftrightarrow> xs = ys"
  by (subst stringify_eq_iff) (auto simp: list_all_iff inj_map_eq_map inj_def)

end
