(* ===== verification/Prototype_Graph.thy ===== *)
theory Prototype_Graph
  imports Json_Data
begin

text \<open>
  The prototype graph of \<open>packages/core/src/prototype-graph.ts\<close>: its data, the field
  checks of its schema, the semantic checks of the schema's \<open>superRefine\<close> and
  \<open>parsePrototypeGraph\<close>.

  A graph here is a value that already has the shape the schema names (objects with exactly
  the named keys); the schema library does that part.  What the source adds, the patterns,
  bounds, trims, refinements and the order of the issues, is defined below.  The library's
  \<open>iso.datetime\<close> is the parameter \<open>dt\<close> of the definitions that use it.
  Coordinates are integers.
\<close>

section \<open>Field checks\<close>

definition proto_id_ok :: "string \<Rightarrow> bool" where
  "proto_id_ok s =
     (case s of [] \<Rightarrow> False | c # cs \<Rightarrow> is_letter c \<and> length cs \<le> 127 \<and> list_all is_id_char cs)"

definition label_ok :: "string \<Rightarrow> bool" where
  "label_ok s \<longleftrightarrow> 1 \<le> length s \<and> length s \<le> 160"

definition contains_ascii_control :: "string \<Rightarrow> bool" where
  "contains_ascii_control s \<longleftrightarrow> list_ex (\<lambda>c. code_unit c \<le> 31 \<or> code_unit c = 127) s"

text \<open>\<open>new URL(value, base).origin\<close> of a value that starts with a slash: the URL parser drops
  tabs and line breaks, and leaves the base's origin unless a second slash or a backslash
  follows.\<close>

definition url_keeps_origin :: "string \<Rightarrow> bool" where
  "url_keeps_origin s =
     (case filter (\<lambda>c. code_unit c \<noteq> 9 \<and> code_unit c \<noteq> 10 \<and> code_unit c \<noteq> 13) s of
        _ # c # _ \<Rightarrow> c \<noteq> CHR ''/'' \<and> c \<noteq> CHR 0x5C
      | _ \<Rightarrow> True)"

definition route_ok :: "string \<Rightarrow> bool" where
  "route_ok s \<longleftrightarrow>
     1 \<le> length s \<and> length s \<le> 240 \<and>
     starts_with s ''/'' \<and> \<not> starts_with s ''//'' \<and> CHR 0x5C \<notin> set s \<and>
     \<not> contains_ascii_control s \<and> url_keeps_origin s"

record point =
  px :: int
  py :: int

definition point_ok :: "point \<Rightarrow> bool" where
  "point_ok p \<longleftrightarrow> -100000 \<le> px p \<and> px p \<le> 100000 \<and> -100000 \<le> py p \<and> py p \<le> 100000"

datatype trigger = OnClick | OnSubmit | OnChange | OnKey | OnTimeout (timeout_ms: int)

record action_port =
  port_id :: string
  port_label :: string
  port_trigger :: trigger

definition action_port_ok :: "action_port \<Rightarrow> bool" where
  "action_port_ok p \<longleftrightarrow>
     proto_id_ok (port_id p) \<and> label_ok (port_label p) \<and>
     (case port_trigger p of OnTimeout ms \<Rightarrow> 10 \<le> ms \<and> ms \<le> 300000 | _ \<Rightarrow> True)"

datatype node_kind =
    Screen (route_of: string)
  | Page (route_of: string)
  | StateNode (parent_of: string)
  | Overlay bool

record pnode =
  node_id :: string
  node_label :: string
  node_position :: point
  node_ports :: "action_port list"
  node_kind :: node_kind

definition base_node_ok :: "pnode \<Rightarrow> bool" where
  "base_node_ok n \<longleftrightarrow>
     proto_id_ok (node_id n) \<and> label_ok (node_label n) \<and> point_ok (node_position n) \<and>
     length (node_ports n) \<le> 32 \<and> list_all action_port_ok (node_ports n) \<and>
     distinct (map port_id (node_ports n))"

definition pnode_ok :: "pnode \<Rightarrow> bool" where
  "pnode_ok n \<longleftrightarrow>
     base_node_ok n \<and>
     (case node_kind n of
        Screen r \<Rightarrow> route_ok r
      | Page r \<Rightarrow> route_ok r
      | StateNode p \<Rightarrow> proto_id_ok p
      | Overlay d \<Rightarrow> True)"

datatype transition_kind =
    Navigate string
  | Back
  | SetState string
  | OpenOverlay string
  | CloseOverlay string
  | ResetFlow

record ptransition =
  transition_id :: string
  transition_kind :: transition_kind
  from_node :: string
  from_port :: string

text \<open>\<open>'to' in transition\<close> and \<open>transition.to.nodeId\<close>\<close>

fun target_of :: "transition_kind \<Rightarrow> string option" where
  "target_of (Navigate t) = Some t"
| "target_of (SetState t) = Some t"
| "target_of (OpenOverlay t) = Some t"
| "target_of (CloseOverlay t) = Some t"
| "target_of Back = None"
| "target_of ResetFlow = None"

definition ptransition_ok :: "ptransition \<Rightarrow> bool" where
  "ptransition_ok t \<longleftrightarrow>
     proto_id_ok (transition_id t) \<and> proto_id_ok (from_node t) \<and> proto_id_ok (from_port t) \<and>
     (case target_of (transition_kind t) of None \<Rightarrow> True | Some n \<Rightarrow> proto_id_ok n)"

record project_ref =
  ref_project_id :: string
  ref_owner :: string

record graph_revision =
  revision_id :: string
  revision_parent :: "string option"
  revision_created :: string
  revision_summary :: string

datatype handoff_status = HandoffDraft | HandoffReady

record handoff =
  handoff_status :: handoff_status
  handoff_owner :: string
  handoff_summary :: string

record scenario =
  scenario_id :: string
  scenario_name :: string
  start_node :: string
  initial_state :: "string option"
  expected_path :: "string list"

definition scenario_ok :: "scenario \<Rightarrow> bool" where
  "scenario_ok s \<longleftrightarrow>
     proto_id_ok (scenario_id s) \<and> label_ok (scenario_name s) \<and> proto_id_ok (start_node s) \<and>
     (case initial_state s of None \<Rightarrow> True | Some i \<Rightarrow> proto_id_ok i) \<and>
     1 \<le> length (expected_path s) \<and> length (expected_path s) \<le> 500 \<and>
     list_all proto_id_ok (expected_path s)"

section \<open>Fixtures\<close>

definition max_fixture_depth :: nat where "max_fixture_depth = 16"
definition max_fixture_keys :: nat where "max_fixture_keys = 5000"
definition max_fixture_bytes :: nat where "max_fixture_bytes = 256000"

definition fixture_key_ok :: "string \<Rightarrow> bool" where
  "fixture_key_ok k \<longleftrightarrow> 1 \<le> length k \<and> length k \<le> 128"

text \<open>The loop over the entries of one object: the byte estimate, or the issue that ends it.\<close>

fun fixture_entries :: "(string \<times> json) list \<Rightarrow> nat \<Rightarrow> string + nat" where
  "fixture_entries [] b = Inr b"
| "fixture_entries (kv # kvs) b =
     failIf (\<not> fixture_key_ok (fst kv)) ''fixtures contain an invalid key''
       (failIf (b + utf8_length (fst kv) > max_fixture_bytes)
          ''fixtures exceed maximum serialized size''
          (fixture_entries kvs (b + utf8_length (fst kv))))"

definition fixture_weight :: "(json \<times> nat) list \<Rightarrow> nat" where
  "fixture_weight stack = sum_list (map (\<lambda>item. Suc (size (fst item))) stack)"

lemma fixture_weight_simps [simp]:
  "fixture_weight [] = 0"
  "fixture_weight (i # stack) = Suc (size (fst i)) + fixture_weight stack"
  "fixture_weight (s @ t) = fixture_weight s + fixture_weight t"
  "fixture_weight (rev s) = fixture_weight s"
  by (simp_all add: fixture_weight_def rev_map [symmetric])

lemma fixture_weight_array: "fixture_weight (map (\<lambda>x. (x, d)) xs) = size_list size xs"
  by (induction xs) (auto simp: fixture_weight_def)

lemma fixture_weight_entries:
  "fixture_weight (map (\<lambda>kv. (snd kv, d)) kvs) \<le> size_list (size_prod (\<lambda>_. 0) size) kvs"
proof (induction kvs)
  case (Cons kv kvs)
  then show ?case by (cases kv) auto
qed (simp add: fixture_weight_def)

text \<open>The explicit stack of \<open>fixtureIssue\<close>; the head of the list is the top of the stack.\<close>

function fixture_scan :: "(json \<times> nat) list \<Rightarrow> nat \<Rightarrow> nat \<Rightarrow> string option" where
  "fixture_scan [] keys bytes =
     (if bytes > max_fixture_bytes then Some ''fixtures exceed maximum serialized size'' else None)"
| "fixture_scan ((v, depth) # stack) keys bytes =
     (if depth > max_fixture_depth then Some ''fixtures exceed maximum nesting depth''
      else case v of
        JNull \<Rightarrow> fixture_scan stack keys (bytes + 5)
      | JBool b \<Rightarrow> fixture_scan stack keys (bytes + 5)
      | JNum n \<Rightarrow> fixture_scan stack keys (bytes + 24)
      | JDec s \<Rightarrow> fixture_scan stack keys (bytes + 24)
      | JStr s \<Rightarrow>
          (if utf8_length s > 10000 then Some ''fixtures contain an oversized string''
           else fixture_scan stack keys (bytes + utf8_length s))
      | JArr xs \<Rightarrow>
          (if length xs > 1000 then Some ''fixtures contain an oversized array''
           else fixture_scan (rev (map (\<lambda>x. (x, depth + 1)) xs) @ stack) keys bytes)
      | JObj kvs \<Rightarrow>
          (if keys + length kvs > max_fixture_keys then Some ''fixtures contain too many keys''
           else case fixture_entries kvs bytes of
             Inl issue \<Rightarrow> Some issue
           | Inr bytes' \<Rightarrow>
               fixture_scan (rev (map (\<lambda>kv. (snd kv, depth + 1)) kvs) @ stack)
                 (keys + length kvs) bytes')
      | JOther NonObject \<Rightarrow> Some ''fixtures contain an unsupported value''
      | JOther NonFinite \<Rightarrow> Some ''fixtures contain a non-finite number''
      | JOther ExoticObject \<Rightarrow> Some ''fixtures must use plain objects'')"
  by pat_completeness auto
termination
  by (relation "measure (\<lambda>(stack, _, _). fixture_weight stack)")
    (auto simp: fixture_weight_array intro: le_less_trans [OF fixture_weight_entries])

declare fixture_scan.simps [simp del]

definition fixture_issue :: "json \<Rightarrow> string option" where
  "fixture_issue v = fixture_scan [(v, 0)] 0 0"

section \<open>The graph\<close>

type_synonym positions = "(string \<times> point) list"

record graph =
  graph_id :: string
  graph_name :: string
  graph_project :: project_ref
  graph_revision :: graph_revision
  graph_handoff :: handoff
  initial_node :: string
  nodes :: "pnode list"
  transitions :: "ptransition list"
  scenarios :: "scenario list"
  fixtures :: "(string \<times> json) list"
  view_state :: "positions option"

text \<open>The label schema trims, so a parsed graph carries trimmed labels.\<close>

definition trim_port :: "action_port \<Rightarrow> action_port" where
  "trim_port p = p\<lparr>port_label := js_trim (port_label p)\<rparr>"

definition trim_node :: "pnode \<Rightarrow> pnode" where
  "trim_node n = n\<lparr>node_label := js_trim (node_label n), node_ports := map trim_port (node_ports n)\<rparr>"

definition trim_scenario :: "scenario \<Rightarrow> scenario" where
  "trim_scenario s = s\<lparr>scenario_name := js_trim (scenario_name s)\<rparr>"

definition trim_labels :: "graph \<Rightarrow> graph" where
  "trim_labels g = g
     \<lparr>graph_name := js_trim (graph_name g),
      graph_project := (graph_project g)\<lparr>ref_owner := js_trim (ref_owner (graph_project g))\<rparr>,
      graph_revision :=
        (graph_revision g)\<lparr>revision_summary := js_trim (revision_summary (graph_revision g))\<rparr>,
      graph_handoff := (graph_handoff g)
        \<lparr>handoff_owner := js_trim (handoff_owner (graph_handoff g)),
         handoff_summary := js_trim (handoff_summary (graph_handoff g))\<rparr>,
      nodes := map trim_node (nodes g),
      scenarios := map trim_scenario (scenarios g)\<rparr>"

definition project_ref_ok :: "project_ref \<Rightarrow> bool" where
  "project_ref_ok p \<longleftrightarrow> proto_id_ok (ref_project_id p) \<and> label_ok (ref_owner p)"

definition revision_ok :: "(string \<Rightarrow> bool) \<Rightarrow> graph_revision \<Rightarrow> bool" where
  "revision_ok dt r \<longleftrightarrow>
     proto_id_ok (revision_id r) \<and>
     (case revision_parent r of None \<Rightarrow> True | Some p \<Rightarrow> proto_id_ok p) \<and>
     dt (revision_created r) \<and> label_ok (revision_summary r)"

definition handoff_ok :: "handoff \<Rightarrow> bool" where
  "handoff_ok h \<longleftrightarrow> label_ok (handoff_owner h) \<and> label_ok (handoff_summary h)"

text \<open>An object's keys are distinct; a record schema checks each key and value.\<close>

definition view_state_ok :: "positions \<Rightarrow> bool" where
  "view_state_ok ps \<longleftrightarrow>
     distinct (map fst ps) \<and> list_all (\<lambda>p. proto_id_ok (fst p) \<and> point_ok (snd p)) ps"

definition fixtures_ok :: "(string \<times> json) list \<Rightarrow> bool" where
  "fixtures_ok kvs \<longleftrightarrow> distinct (map fst kvs) \<and> list_all (\<lambda>kv. fixture_key_ok (fst kv)) kvs"

definition graph_fields_ok :: "(string \<Rightarrow> bool) \<Rightarrow> graph \<Rightarrow> bool" where
  "graph_fields_ok dt g \<longleftrightarrow>
     proto_id_ok (graph_id g) \<and> label_ok (graph_name g) \<and> project_ref_ok (graph_project g) \<and>
     revision_ok dt (graph_revision g) \<and> handoff_ok (graph_handoff g) \<and>
     proto_id_ok (initial_node g) \<and>
     1 \<le> length (nodes g) \<and> length (nodes g) \<le> 500 \<and> list_all pnode_ok (nodes g) \<and>
     length (transitions g) \<le> 2000 \<and> list_all ptransition_ok (transitions g) \<and>
     1 \<le> length (scenarios g) \<and> length (scenarios g) \<le> 200 \<and> list_all scenario_ok (scenarios g) \<and>
     fixtures_ok (fixtures g) \<and>
     (case view_state g of None \<Rightarrow> True | Some ps \<Rightarrow> view_state_ok ps)"

section \<open>Semantic checks\<close>

text \<open>An issue reads \<open>path: message\<close>, as \<open>parsePrototypeGraph\<close> prints it; \<open>SchemaIssue\<close> stands
  for the field issues, whose wording is the schema library's.\<close>

datatype graph_issue = SchemaIssue | GraphIssue string

definition issue :: "string list \<Rightarrow> string \<Rightarrow> graph_issue" where
  "issue path message = GraphIssue (js_join ''.'' path @ '': '' @ message)"

definition node_by_id :: "graph \<Rightarrow> string \<Rightarrow> pnode option" where
  "node_by_id g i = List.find (\<lambda>n. node_id n = i) (nodes g)"

text \<open>\<open>kind === 'screen' || kind === 'page'\<close> of a node that may be \<open>undefined\<close>\<close>

definition is_surface :: "pnode option \<Rightarrow> bool" where
  "is_surface n =
     (case n of None \<Rightarrow> False
      | Some m \<Rightarrow> (case node_kind m of Screen r \<Rightarrow> True | Page r \<Rightarrow> True | _ \<Rightarrow> False))"

definition is_state :: "pnode option \<Rightarrow> bool" where
  "is_state n =
     (case n of None \<Rightarrow> False
      | Some m \<Rightarrow> (case node_kind m of StateNode p \<Rightarrow> True | _ \<Rightarrow> False))"

definition is_overlay :: "pnode option \<Rightarrow> bool" where
  "is_overlay n =
     (case n of None \<Rightarrow> False
      | Some m \<Rightarrow> (case node_kind m of Overlay d \<Rightarrow> True | _ \<Rightarrow> False))"

text \<open>\<open>transitionTargetsBySource(transitions).get(a)?.has(b)\<close>\<close>

definition wired :: "ptransition list \<Rightarrow> string \<Rightarrow> string \<Rightarrow> bool" where
  "wired ts a b = list_ex (\<lambda>t. from_node t = a \<and> target_of (transition_kind t) = Some b) ts"

definition routes :: "graph \<Rightarrow> string list" where
  "routes g = map (\<lambda>n. route_of (node_kind n)) (filter (\<lambda>n. is_surface (Some n)) (nodes g))"

definition action_port_key :: "ptransition \<Rightarrow> string" where
  "action_port_key t = from_node t @ CHR 0x00 # from_port t"

definition graph_level_issues :: "graph \<Rightarrow> graph_issue list" where
  "graph_level_issues g =
     (case fixture_issue (JObj (fixtures g)) of None \<Rightarrow> [] | Some m \<Rightarrow> [issue [''fixtures''] m]) @
     (if distinct (map node_id (nodes g)) then []
      else [issue [''nodes''] ''node IDs must be unique'']) @
     (case view_state g of
        None \<Rightarrow> []
      | Some ps \<Rightarrow>
          (if length ps \<noteq> length (remdups (map node_id (nodes g)))
           then [issue [''viewState'', ''compactNodePositions'']
                   ''viewState compact positions must cover exactly the current nodes'']
           else []) @
          map (\<lambda>i. issue [''viewState'', ''compactNodePositions'', i]
                 ''viewState compact positions contain an unknown node'')
            (filter (\<lambda>i. i \<notin> set (map node_id (nodes g))) (map fst ps))) @
     (if distinct (map transition_id (transitions g)) then []
      else [issue [''transitions''] ''transition IDs must be unique'']) @
     (if distinct (map action_port_key (transitions g)) then []
      else [issue [''transitions''] ''each action port may have only one transition'']) @
     (if is_surface (node_by_id g (initial_node g)) then []
      else [issue [''initialNodeId''] ''initialNodeId must reference a screen or page''])"

definition node_issues :: "graph \<Rightarrow> nat \<times> pnode \<Rightarrow> graph_issue list" where
  "node_issues g indexed =
     (case node_kind (snd indexed) of
        StateNode p \<Rightarrow>
          (if is_surface (node_by_id g p) then []
           else [issue [''nodes'', nat_text (fst indexed), ''parentId'']
                   ''state parentId must reference a screen or page''])
      | _ \<Rightarrow> [])"

definition scenario_issues :: "graph \<Rightarrow> nat \<times> scenario \<Rightarrow> graph_issue list" where
  "scenario_issues g indexed =
     (let i = nat_text (fst indexed); s = snd indexed; path = expected_path s in
       (if is_surface (node_by_id g (start_node s)) then []
        else [issue [''scenarios'', i, ''startNodeId'']
                ''scenario startNodeId must reference a screen or page'']) @
       (case initial_state s of
          None \<Rightarrow> []
        | Some st \<Rightarrow>
            (case node_by_id g st of
               Some n \<Rightarrow>
                 (case node_kind n of
                    StateNode parent \<Rightarrow>
                      (if parent \<noteq> start_node s
                       then [issue [''scenarios'', i, ''initialStateId'']
                               ''scenario initial state must belong to its start node'']
                       else [])
                  | _ \<Rightarrow> [issue [''scenarios'', i, ''initialStateId'']
                             ''scenario initialStateId must reference a state''])
             | None \<Rightarrow> [issue [''scenarios'', i, ''initialStateId'']
                          ''scenario initialStateId must reference a state''])) @
       (if path = [] \<or> hd path \<noteq> start_node s
        then [issue [''scenarios'', i, ''expectedPath'', ''0'']
                ''scenario expectedPath must begin at startNodeId'']
        else []) @
       concat (map (\<lambda>(k, n). if n \<in> set (map node_id (nodes g)) then []
                 else [issue [''scenarios'', i, ''expectedPath'', nat_text k]
                         ''scenario expectedPath references an unknown node''])
         (List.enumerate 0 path)) @
       concat (map (\<lambda>k. if wired (transitions g) (path ! (k - 1)) (path ! k) then []
                 else [issue [''scenarios'', i, ''expectedPath'', nat_text k]
                         ''scenario expectedPath contains an unwired transition''])
         [1..<length path]))"

text \<open>The screen or page that owns the source of a \<open>set-state\<close> transition.\<close>

definition source_parent :: "pnode option \<Rightarrow> string option" where
  "source_parent source =
     (case source of
        None \<Rightarrow> None
      | Some n \<Rightarrow>
          (case node_kind n of
             StateNode p \<Rightarrow> Some p
           | Screen r \<Rightarrow> Some (node_id n)
           | Page r \<Rightarrow> Some (node_id n)
           | Overlay d \<Rightarrow> None))"

definition target_issue :: "graph \<Rightarrow> ptransition \<Rightarrow> string option" where
  "target_issue g t =
     (case target_of (transition_kind t) of
        None \<Rightarrow> None
      | Some target_id \<Rightarrow>
          (case node_by_id g target_id of
             None \<Rightarrow> Some ''transition target node does not exist''
           | Some target \<Rightarrow>
               (case transition_kind t of
                  Navigate x \<Rightarrow>
                    (if is_surface (Some target) then None
                     else Some ''navigate must target a screen or page'')
                | SetState x \<Rightarrow>
                    (case node_kind target of
                       StateNode parent \<Rightarrow>
                         (if Some parent \<noteq> source_parent (node_by_id g (from_node t))
                          then Some ''set-state must target a state owned by its source screen, page, or state''
                          else None)
                     | _ \<Rightarrow> Some ''set-state must target a state'')
                | OpenOverlay x \<Rightarrow>
                    (if is_overlay (Some target) then None
                     else Some ''open-overlay must target an overlay'')
                | CloseOverlay x \<Rightarrow>
                    (if is_overlay (Some target) then None
                     else Some ''close-overlay must target an overlay'')
                | _ \<Rightarrow> None)))"

definition transition_issues :: "graph \<Rightarrow> nat \<times> ptransition \<Rightarrow> graph_issue list" where
  "transition_issues g indexed =
     (let i = nat_text (fst indexed); t = snd indexed in
       (case node_by_id g (from_node t) of
          None \<Rightarrow> [issue [''transitions'', i, ''from'', ''nodeId'']
                     ''transition source node does not exist'']
        | Some source \<Rightarrow>
            (if list_ex (\<lambda>p. port_id p = from_port t) (node_ports source) then []
             else [issue [''transitions'', i, ''from'', ''portId'']
                     ''transition source port does not exist''])) @
       (case target_issue g t of
          None \<Rightarrow> []
        | Some m \<Rightarrow> [issue [''transitions'', i, ''to'', ''nodeId''] m]))"

definition semantic_issues :: "graph \<Rightarrow> graph_issue list" where
  "semantic_issues g =
     graph_level_issues g @
     concat (map (node_issues g) (List.enumerate 0 (nodes g))) @
     (if distinct (routes g) then []
      else [issue [''nodes''] ''screen and page routes must be unique'']) @
     (if distinct (map scenario_id (scenarios g)) then []
      else [issue [''scenarios''] ''scenario IDs must be unique'']) @
     concat (map (scenario_issues g) (List.enumerate 0 (scenarios g))) @
     concat (map (transition_issues g) (List.enumerate 0 (transitions g)))"

definition graph_issues :: "(string \<Rightarrow> bool) \<Rightarrow> graph \<Rightarrow> graph_issue list" where
  "graph_issues dt g = (if graph_fields_ok dt g then [] else [SchemaIssue]) @ semantic_issues g"

datatype prototype_error = GraphInvalid "graph_issue list" | RuntimeError string

definition parse_graph :: "(string \<Rightarrow> bool) \<Rightarrow> graph \<Rightarrow> prototype_error + graph" where
  "parse_graph dt value =
     (let g = trim_labels value; issues = graph_issues dt g in
       if issues = [] then Inr g else Inl (GraphInvalid issues))"

end
