(* ===== verification/Prototype_Wf.thy ===== *)
theory Prototype_Wf
  imports Prototype_Graph
begin

text \<open>
  What a parsed prototype graph promises, stated without issue lists: \<open>graph_wf\<close> is the
  declarative reading of the schema's semantic checks, \<open>parse_graph_iff\<close> shows that
  \<open>parse_graph\<close> accepts exactly the graphs that satisfy it, and the lemmas below it are the
  facts the runtime and the editor operations use.
\<close>

section \<open>Accepted fixtures are inert\<close>

lemma fixture_scan_inert:
  "fixture_scan stack keys bytes = None \<Longrightarrow> \<forall>item \<in> set stack. inert (fst item)"
proof (induction stack keys bytes rule: fixture_scan.induct)
  case (2 v depth stack keys bytes)
  show ?case
  proof (cases v)
    case (JArr xs)
    then show ?thesis using 2 by (auto simp: fixture_scan.simps(2) list_all_iff ball_Un split: if_splits)
  next
    case (JObj kvs)
    then show ?thesis using 2
      by (auto simp: fixture_scan.simps(2) list_all_iff ball_Un split: if_splits sum.splits)
  next
    case (JOther f)
    then show ?thesis using 2 by (cases f) (auto simp: fixture_scan.simps(2) split: if_splits)
  qed (use 2 in \<open>auto simp: fixture_scan.simps(2) split: if_splits\<close>)
qed simp

lemma fixture_issue_inert: "fixture_issue v = None \<Longrightarrow> inert v"
  unfolding fixture_issue_def using fixture_scan_inert [of "[(v, 0)]"] by simp

section \<open>Declarative well-formedness\<close>

definition has_node :: "graph \<Rightarrow> string \<Rightarrow> pnode \<Rightarrow> bool" where
  "has_node g i n \<longleftrightarrow> n \<in> set (nodes g) \<and> node_id n = i"

definition surface :: "graph \<Rightarrow> string \<Rightarrow> bool" where
  "surface g i \<longleftrightarrow> (\<exists>n. has_node g i n \<and> is_surface (Some n))"

definition owned_state :: "graph \<Rightarrow> string \<Rightarrow> string \<Rightarrow> bool" where
  "owned_state g i owner \<longleftrightarrow> (\<exists>n. has_node g i n \<and> node_kind n = StateNode owner)"

definition overlay :: "graph \<Rightarrow> string \<Rightarrow> bool" where
  "overlay g i \<longleftrightarrow> (\<exists>n. has_node g i n \<and> is_overlay (Some n))"

definition scenario_wf :: "graph \<Rightarrow> scenario \<Rightarrow> bool" where
  "scenario_wf g s \<longleftrightarrow>
     surface g (start_node s) \<and>
     (\<forall>st. initial_state s = Some st \<longrightarrow> owned_state g st (start_node s)) \<and>
     expected_path s \<noteq> [] \<and> hd (expected_path s) = start_node s \<and>
     set (expected_path s) \<subseteq> node_id ` set (nodes g) \<and>
     successively (wired (transitions g)) (expected_path s)"

definition has_port :: "graph \<Rightarrow> string \<Rightarrow> string \<Rightarrow> bool" where
  "has_port g i p \<longleftrightarrow> (\<exists>n. has_node g i n \<and> p \<in> port_id ` set (node_ports n))"

text \<open>The owner that a \<open>set-state\<close> from node \<open>i\<close> must keep: a screen or page owns itself, a
  state is owned by its parent.\<close>

definition owner_of :: "graph \<Rightarrow> string \<Rightarrow> string \<Rightarrow> bool" where
  "owner_of g i owner \<longleftrightarrow> (surface g i \<and> owner = i) \<or> owned_state g i owner"

definition transition_wf :: "graph \<Rightarrow> ptransition \<Rightarrow> bool" where
  "transition_wf g t \<longleftrightarrow>
     has_port g (from_node t) (from_port t) \<and>
     (case transition_kind t of
        Navigate x \<Rightarrow> surface g x
      | SetState x \<Rightarrow> (\<exists>owner. owner_of g (from_node t) owner \<and> owned_state g x owner)
      | OpenOverlay x \<Rightarrow> overlay g x
      | CloseOverlay x \<Rightarrow> overlay g x
      | Back \<Rightarrow> True
      | ResetFlow \<Rightarrow> True)"

definition view_state_wf :: "graph \<Rightarrow> bool" where
  "view_state_wf g \<longleftrightarrow>
     (\<forall>ps. view_state g = Some ps \<longrightarrow> fst ` set ps = node_id ` set (nodes g))"

definition graph_wf :: "graph \<Rightarrow> bool" where
  "graph_wf g \<longleftrightarrow>
     fixture_issue (JObj (fixtures g)) = None \<and>
     distinct (map node_id (nodes g)) \<and> view_state_wf g \<and>
     distinct (map transition_id (transitions g)) \<and>
     distinct (map (\<lambda>t. (from_node t, from_port t)) (transitions g)) \<and>
     surface g (initial_node g) \<and>
     (\<forall>n \<in> set (nodes g). \<forall>p. node_kind n = StateNode p \<longrightarrow> surface g p) \<and>
     distinct (routes g) \<and>
     distinct (map scenario_id (scenarios g)) \<and>
     (\<forall>s \<in> set (scenarios g). scenario_wf g s) \<and>
     (\<forall>t \<in> set (transitions g). transition_wf g t)"

section \<open>The validator decides well-formedness\<close>

lemma node_by_id_Some:
  assumes "distinct (map node_id (nodes g))"
  shows "node_by_id g i = Some n \<longleftrightarrow> has_node g i n"
proof
  assume "node_by_id g i = Some n"
  then show "has_node g i n"
    unfolding node_by_id_def has_node_def by (rule find_Some_in)
next
  assume n: "has_node g i n"
  then have "List.find (\<lambda>m. node_id m = node_id n) (nodes g) = Some n"
    by (intro find_by_key assms) (simp add: has_node_def)
  then show "node_by_id g i = Some n" using n by (simp add: node_by_id_def has_node_def)
qed

lemma node_by_id_None: "node_by_id g i = None \<longleftrightarrow> i \<notin> node_id ` set (nodes g)"
  unfolding node_by_id_def by (auto simp: find_None_iff)

lemma has_node_unique:
  "distinct (map node_id (nodes g)) \<Longrightarrow> has_node g i n \<Longrightarrow> has_node g i m \<Longrightarrow> n = m"
  by (metis node_by_id_Some option.inject)

lemma is_surface_node_by_id:
  "distinct (map node_id (nodes g)) \<Longrightarrow> is_surface (node_by_id g i) \<longleftrightarrow> surface g i"
  by (cases "node_by_id g i")
    (auto simp: surface_def node_by_id_Some [symmetric] is_surface_def split: node_kind.splits)

lemma enumerate_all:
  "(\<forall>x \<in> set (List.enumerate k xs). P (snd x)) \<longleftrightarrow> (\<forall>y \<in> set xs. P y)"
proof -
  have "set xs = snd ` set (List.enumerate k xs)" by (simp flip: set_map)
  then show ?thesis by (metis (no_types, lifting) imageE imageI)
qed

lemma enumerate_issues:
  "(\<And>k x. f (k, x) = [] \<longleftrightarrow> P x) \<Longrightarrow>
     (\<forall>x \<in> set (List.enumerate k xs). f x = []) \<longleftrightarrow> (\<forall>y \<in> set xs. P y)"
  using enumerate_all [of k xs P] by auto

lemma node_issues_none:
  assumes "distinct (map node_id (nodes g))"
  shows "node_issues g (k, n) = [] \<longleftrightarrow> (\<forall>p. node_kind n = StateNode p \<longrightarrow> surface g p)"
  using is_surface_node_by_id [OF assms]
  by (cases "node_kind n") (simp_all add: node_issues_def)

lemma successively_index:
  "successively P xs \<longleftrightarrow> (\<forall>k \<in> {1..<length xs}. P (xs ! (k - 1)) (xs ! k))"
  unfolding successively_conv_nth
  by (metis (no_types, opaque_lifting) One_nat_def Suc_eq_plus1 Suc_le_mono atLeastLessThan_iff
      diff_Suc_1 le_add2 less_eq_nat.simps(1) not0_implies_Suc not_one_le_zero plus_1_eq_Suc)

lemma initial_state_ok:
  assumes "distinct (map node_id (nodes g))"
  shows "(case node_by_id g st of
            Some n \<Rightarrow> (case node_kind n of
                 StateNode parent \<Rightarrow> (if parent \<noteq> owner then [a] else [])
               | _ \<Rightarrow> [b])
          | None \<Rightarrow> [b]) = [] \<longleftrightarrow> owned_state g st owner"
  by (cases "node_by_id g st")
    (auto simp: owned_state_def node_by_id_Some [OF assms, symmetric] split: node_kind.splits)

lemma scenario_issues_none:
  assumes d: "distinct (map node_id (nodes g))"
  shows "scenario_issues g (k, s) = [] \<longleftrightarrow> scenario_wf g s"
proof -
  have paths: "(\<forall>x \<in> set (List.enumerate 0 xs). snd x \<in> S) \<longleftrightarrow> set xs \<subseteq> S" for xs and S :: "string set"
    using enumerate_all [of 0 xs "\<lambda>y. y \<in> S"] by auto
  have init: "(case initial_state s of
        None \<Rightarrow> []
      | Some st \<Rightarrow>
          (case node_by_id g st of
            Some n \<Rightarrow> (case node_kind n of
                 StateNode parent \<Rightarrow> (if parent \<noteq> start_node s then [a] else [])
               | _ \<Rightarrow> [b])
          | None \<Rightarrow> [b])) = [] \<longleftrightarrow> (\<forall>st. initial_state s = Some st \<longrightarrow> owned_state g st (start_node s))"
    for a b :: graph_issue
    by (cases "initial_state s") (simp_all add: initial_state_ok [OF d])
  show ?thesis
    unfolding scenario_issues_def scenario_wf_def Let_def append_is_Nil_conv concat_map_eq_Nil
      fst_conv snd_conv init successively_index
    using is_surface_node_by_id [OF d, of "start_node s"] paths [of "expected_path s" "set (map node_id (nodes g))"]
    by (auto simp: case_prod_beta split: if_splits)
qed

lemma port_found:
  assumes "distinct (map node_id (nodes g))"
  shows "(case node_by_id g i of
            None \<Rightarrow> [a]
          | Some source \<Rightarrow> (if list_ex (\<lambda>p. port_id p = pid) (node_ports source) then [] else [b])) = []
         \<longleftrightarrow> has_port g i pid"
  by (cases "node_by_id g i")
    (auto simp: has_port_def node_by_id_Some [OF assms, symmetric] list_ex_iff)

lemma source_parent_iff:
  assumes "distinct (map node_id (nodes g))"
  shows "source_parent (node_by_id g i) = Some owner \<longleftrightarrow> owner_of g i owner"
proof (cases "node_by_id g i")
  case None
  then show ?thesis
    by (auto simp: source_parent_def owner_of_def surface_def owned_state_def
        node_by_id_Some [OF assms, symmetric])
next
  case (Some n)
  then have "has_node g i n" using node_by_id_Some [OF assms] by simp
  then have "node_id n = i" by (simp add: has_node_def)
  then show ?thesis using Some
    by (auto simp: source_parent_def owner_of_def surface_def owned_state_def is_surface_def
        node_by_id_Some [OF assms, symmetric] split: node_kind.splits)
qed

lemma target_issue_none:
  assumes d: "distinct (map node_id (nodes g))"
  shows "target_issue g t = None \<longleftrightarrow>
     (case transition_kind t of
        Navigate x \<Rightarrow> surface g x
      | SetState x \<Rightarrow> (\<exists>owner. owner_of g (from_node t) owner \<and> owned_state g x owner)
      | OpenOverlay x \<Rightarrow> overlay g x
      | CloseOverlay x \<Rightarrow> overlay g x
      | Back \<Rightarrow> True
      | ResetFlow \<Rightarrow> True)"
proof -
  have own: "owner_of g (from_node t) owner \<longleftrightarrow> source_parent (node_by_id g (from_node t)) = Some owner"
    for owner by (rule source_parent_iff [OF d, symmetric])
  have look: "has_node g x n \<longleftrightarrow> node_by_id g x = Some n" for x n
    by (rule node_by_id_Some [OF d, symmetric])
  show ?thesis
    by (cases "transition_kind t")
      (auto simp: target_issue_def surface_def overlay_def owned_state_def look own is_surface_def
        is_overlay_def split: option.splits node_kind.splits if_splits)
qed

lemma transition_issues_none:
  assumes "distinct (map node_id (nodes g))"
  shows "transition_issues g (k, t) = [] \<longleftrightarrow> transition_wf g t"
  unfolding transition_issues_def transition_wf_def Let_def append_is_Nil_conv fst_conv snd_conv
    port_found [OF assms] target_issue_none [OF assms, symmetric]
  by (auto split: option.splits)

lemma id_has_no_nul: "proto_id_ok s \<Longrightarrow> CHR 0x00 \<notin> set s"
  by (auto simp: proto_id_ok_def list_all_iff is_id_char_def is_letter_def is_lower_def
      is_upper_def is_digit_def split: list.splits)

lemma action_port_key_inject:
  assumes "ptransition_ok t" "ptransition_ok u"
  shows "action_port_key t = action_port_key u \<longleftrightarrow>
    (from_node t, from_port t) = (from_node u, from_port u)"
proof
  have nul: "CHR 0x00 \<notin> set (from_node t)" "CHR 0x00 \<notin> set (from_node u)"
    using assms by (auto simp: ptransition_ok_def dest: id_has_no_nul)
  assume "action_port_key t = action_port_key u"
  then have eq: "from_node t @ CHR 0x00 # from_port t = from_node u @ CHR 0x00 # from_port u"
    by (simp add: action_port_key_def)
  have "takeWhile (\<lambda>c. c \<noteq> CHR 0x00) (s @ CHR 0x00 # r) = s" if "CHR 0x00 \<notin> set s" for s r
    using that by (induction s) auto
  then have "from_node t = from_node u" using nul eq by metis
  then show "(from_node t, from_port t) = (from_node u, from_port u)" using eq by simp
qed (simp add: action_port_key_def)

lemma distinct_action_ports:
  assumes "list_all ptransition_ok ts"
  shows "distinct (map action_port_key ts) \<longleftrightarrow> distinct (map (\<lambda>t. (from_node t, from_port t)) ts)"
proof -
  have "inj_on action_port_key (set ts) \<longleftrightarrow> inj_on (\<lambda>t. (from_node t, from_port t)) (set ts)"
    using assms action_port_key_inject unfolding inj_on_def list_all_iff by blast
  then show ?thesis by (simp add: distinct_map)
qed

lemma view_state_covers:
  assumes "distinct (map fst ps)" and d: "distinct ids"
  shows "length ps = length (remdups ids) \<and> filter (\<lambda>i. i \<notin> set ids) (map fst ps) = []
     \<longleftrightarrow> fst ` set ps = set ids"
proof
  have len: "length ps = card (fst ` set ps)"
    using assms distinct_card [of "map fst ps"] by simp
  have ids: "length (remdups ids) = card (set ids)" by (simp add: length_remdups_card_conv)
  assume a: "length ps = length (remdups ids) \<and> filter (\<lambda>i. i \<notin> set ids) (map fst ps) = []"
  then have "fst ` set ps \<subseteq> set ids" by (auto simp: filter_empty_conv)
  moreover have "card (fst ` set ps) = card (set ids)" using a len ids by simp
  ultimately show "fst ` set ps = set ids" by (metis List.finite_set card_subset_eq)
next
  assume "fst ` set ps = set ids"
  then show "length ps = length (remdups ids) \<and> filter (\<lambda>i. i \<notin> set ids) (map fst ps) = []"
    using assms distinct_card [of "map fst ps"]
    by (auto simp: filter_empty_conv length_remdups_card_conv)
qed

lemma graph_level_issues_none:
  assumes f: "graph_fields_ok dt g" and d: "distinct (map node_id (nodes g))"
  shows "graph_level_issues g = [] \<longleftrightarrow>
     fixture_issue (JObj (fixtures g)) = None \<and> view_state_wf g \<and>
     distinct (map transition_id (transitions g)) \<and>
     distinct (map (\<lambda>t. (from_node t, from_port t)) (transitions g)) \<and>
     surface g (initial_node g)"
proof -
  have ports: "distinct (map action_port_key (transitions g)) \<longleftrightarrow>
      distinct (map (\<lambda>t. (from_node t, from_port t)) (transitions g))"
    using f by (intro distinct_action_ports) (simp add: graph_fields_ok_def)
  have view: "(case view_state g of
        None \<Rightarrow> []
      | Some ps \<Rightarrow>
          (if length ps \<noteq> length (remdups (map node_id (nodes g))) then [a] else []) @
          map h (filter (\<lambda>i. i \<notin> set (map node_id (nodes g))) (map fst ps))) = []
     \<longleftrightarrow> view_state_wf g" for a :: graph_issue and h
  proof (cases "view_state g")
    case (Some ps)
    then have "distinct (map fst ps)"
      using f by (simp add: graph_fields_ok_def view_state_ok_def)
    then show ?thesis using view_state_covers [of ps "map node_id (nodes g)"] d Some
      by (auto simp: view_state_wf_def)
  qed (simp add: view_state_wf_def)
  show ?thesis
    unfolding graph_level_issues_def append_is_Nil_conv view ports is_surface_node_by_id [OF d]
    using d by (auto split: option.splits)
qed

lemma semantic_issues_none:
  assumes f: "graph_fields_ok dt g"
  shows "semantic_issues g = [] \<longleftrightarrow> graph_wf g"
proof (cases "distinct (map node_id (nodes g))")
  case False
  then show ?thesis by (auto simp: semantic_issues_def graph_level_issues_def graph_wf_def)
next
  case d: True
  have n: "(\<forall>x \<in> set (List.enumerate 0 (nodes g)). node_issues g x = []) \<longleftrightarrow>
      (\<forall>n \<in> set (nodes g). \<forall>p. node_kind n = StateNode p \<longrightarrow> surface g p)"
    by (rule enumerate_issues) (rule node_issues_none [OF d])
  have s: "(\<forall>x \<in> set (List.enumerate 0 (scenarios g)). scenario_issues g x = []) \<longleftrightarrow>
      (\<forall>s \<in> set (scenarios g). scenario_wf g s)"
    by (rule enumerate_issues) (rule scenario_issues_none [OF d])
  have t: "(\<forall>x \<in> set (List.enumerate 0 (transitions g)). transition_issues g x = []) \<longleftrightarrow>
      (\<forall>t \<in> set (transitions g). transition_wf g t)"
    by (rule enumerate_issues) (rule transition_issues_none [OF d])
  show ?thesis
    unfolding semantic_issues_def append_is_Nil_conv concat_map_eq_Nil n s t
      graph_level_issues_none [OF f d] graph_wf_def
    using d by auto
qed

section \<open>Parsing\<close>

lemma parse_graph_accepts:
  "parse_graph dt v = Inr g \<longleftrightarrow> g = trim_labels v \<and> graph_fields_ok dt g \<and> graph_wf g"
  using semantic_issues_none [of dt "trim_labels v"]
  by (auto simp: parse_graph_def graph_issues_def Let_def split: if_splits)

lemma trim_idem [simp]:
  "trim_port (trim_port p) = trim_port p"
  "trim_node (trim_node n) = trim_node n"
  "trim_scenario (trim_scenario s) = trim_scenario s"
  by (simp_all add: trim_port_def trim_node_def trim_scenario_def)

lemma trim_labels_idem [simp]: "trim_labels (trim_labels g) = trim_labels g"
  by (simp add: trim_labels_def)

lemma map_eq_self: "map f xs = xs \<longleftrightarrow> (\<forall>x \<in> set xs. f x = x)"
  by (induction xs) auto

lemma trim_scenario_fix: "trim_scenario s = s \<longleftrightarrow> js_trim (scenario_name s) = scenario_name s"
  by (cases s) (simp add: trim_scenario_def)

lemma trim_port_fix: "trim_port p = p \<longleftrightarrow> js_trim (port_label p) = port_label p"
  by (cases p) (simp add: trim_port_def)

lemma trim_node_fix:
  "trim_node n = n \<longleftrightarrow> js_trim (node_label n) = node_label n \<and> (\<forall>p \<in> set (node_ports n). trim_port p = p)"
  by (cases n) (simp add: trim_node_def map_eq_self)

lemma trim_labels_fix:
  "trim_labels g = g \<longleftrightarrow>
     js_trim (graph_name g) = graph_name g \<and>
     js_trim (ref_owner (graph_project g)) = ref_owner (graph_project g) \<and>
     js_trim (revision_summary (graph_revision g)) = revision_summary (graph_revision g) \<and>
     js_trim (handoff_owner (graph_handoff g)) = handoff_owner (graph_handoff g) \<and>
     js_trim (handoff_summary (graph_handoff g)) = handoff_summary (graph_handoff g) \<and>
     (\<forall>n \<in> set (nodes g). trim_node n = n) \<and> (\<forall>s \<in> set (scenarios g). trim_scenario s = s)"
proof (cases g)
  case (fields i name p r h init ns ts ss fs v)
  then show ?thesis
    by (cases p; cases r; cases h) (auto simp: trim_labels_def map_eq_self)
qed

text \<open>A parsed graph is a fixed point of the parser; the operations below start from one.\<close>

definition valid_graph :: "(string \<Rightarrow> bool) \<Rightarrow> graph \<Rightarrow> bool" where
  "valid_graph dt g \<longleftrightarrow> parse_graph dt g = Inr g"

lemma valid_graph_iff:
  "valid_graph dt g \<longleftrightarrow> trim_labels g = g \<and> graph_fields_ok dt g \<and> graph_wf g"
  by (auto simp: valid_graph_def parse_graph_accepts)

lemma parse_graph_valid: "parse_graph dt v = Inr g \<Longrightarrow> valid_graph dt g"
  by (auto simp: valid_graph_iff parse_graph_accepts)

lemma valid_graph_wf: "valid_graph dt g \<Longrightarrow> graph_wf g"
  by (simp add: valid_graph_iff)

text \<open>Facts about a well-formed graph.\<close>

lemma wf_node_unique: "graph_wf g \<Longrightarrow> has_node g i n \<Longrightarrow> has_node g i m \<Longrightarrow> n = m"
  by (auto simp: graph_wf_def intro: has_node_unique)

lemma wf_find_transition:
  "graph_wf g \<Longrightarrow> t \<in> set (transitions g) \<Longrightarrow>
     List.find (\<lambda>u. transition_id u = transition_id t) (transitions g) = Some t"
  by (rule find_by_key) (simp_all add: graph_wf_def)

lemma wf_find_scenario:
  "graph_wf g \<Longrightarrow> s \<in> set (scenarios g) \<Longrightarrow>
     List.find (\<lambda>u. scenario_id u = scenario_id s) (scenarios g) = Some s"
  by (rule find_by_key) (simp_all add: graph_wf_def)

lemma wf_transition: "graph_wf g \<Longrightarrow> t \<in> set (transitions g) \<Longrightarrow> transition_wf g t"
  by (simp add: graph_wf_def)

lemma wf_scenario: "graph_wf g \<Longrightarrow> s \<in> set (scenarios g) \<Longrightarrow> scenario_wf g s"
  by (simp add: graph_wf_def)

lemma surface_not_state:
  "graph_wf g \<Longrightarrow> surface g i \<Longrightarrow> \<not> owned_state g i p"
  using wf_node_unique [of g i] by (fastforce simp: surface_def owned_state_def is_surface_def)

lemma owned_state_unique:
  "graph_wf g \<Longrightarrow> owned_state g i p \<Longrightarrow> owned_state g i q \<Longrightarrow> p = q"
  using wf_node_unique [of g i] by (fastforce simp: owned_state_def)

lemma kinds_disjoint:
  "is_surface (Some n) \<Longrightarrow> \<not> is_overlay (Some n)"
  "node_kind n = StateNode p \<Longrightarrow> \<not> is_overlay (Some n)"
  by (cases "node_kind n"; simp add: is_surface_def is_overlay_def)+

lemma overlay_not_owner:
  assumes wf: "graph_wf g" and ov: "overlay g i"
  shows "\<not> owner_of g i p"
proof
  assume own: "owner_of g i p"
  from ov obtain n where n: "has_node g i n" and k: "is_overlay (Some n)"
    by (auto simp: overlay_def)
  from own obtain m where m: "has_node g i m" and k': "\<not> is_overlay (Some m)"
    unfolding owner_of_def surface_def owned_state_def
    using kinds_disjoint by blast
  show False using wf_node_unique [OF wf n m] k k' by simp
qed

end
