(* ===== verification/Prototype_Safety.thy ===== *)
theory Prototype_Safety
  imports Prototype_Runtime
begin

text \<open>
  The runtime's invariants.  \<open>snapshot_inv\<close>: the active node is the last screen or page of the
  history, an active state belongs to the active node, an active overlay is an overlay, and the
  history's path lengths ascend below the length of the path.  \<open>replayable\<close>: replaying the
  recorded path from the scenario's start gives the snapshot back, and each prefix up to an
  entry of the history gives the snapshot that entry had.
\<close>

section \<open>The snapshot invariant\<close>

definition snapshot_inv :: "graph \<Rightarrow> snapshot \<Rightarrow> bool" where
  "snapshot_inv g s \<longleftrightarrow>
     history s \<noteq> [] \<and> last (history s) = active_node s \<and>
     (\<forall>i \<in> set (history s). surface g i) \<and>
     length (history_lens s) = length (history s) \<and>
     sorted (history_lens s) \<and> (\<forall>n \<in> set (history_lens s). n \<le> length (path_ids s)) \<and>
     (\<forall>i. active_state s = Some i \<longrightarrow> owned_state g i (active_node s)) \<and>
     (\<forall>i. active_overlay s = Some i \<longrightarrow> overlay g i) \<and>
     (\<forall>i. scenario_ref s = Some i \<longrightarrow> i \<in> scenario_id ` set (scenarios g)) \<and>
     set (path_ids s) \<subseteq> transition_id ` set (transitions g) \<and>
     snapshot_fixtures s = fixtures g"

lemma scenario_for_Inr:
  "scenario_for g sid = Inr sc \<longleftrightarrow>
     (sid = None \<and> sc = None) \<or>
     (\<exists>i s. sid = Some i \<and> sc = Some s \<and> List.find (\<lambda>s. scenario_id s = i) (scenarios g) = Some s)"
  by (auto simp: scenario_for_def split: option.splits)

lemma initial_snapshot_inv:
  assumes wf: "graph_wf g" and s: "initial_snapshot g sid = Inr s"
  shows "snapshot_inv g s \<and> scenario_ref s = sid \<and> path_ids s = [] \<and> history_lens s = [0]"
proof -
  from s obtain sc where sc: "scenario_for g sid = Inr sc"
    by (auto simp: initial_snapshot_def outcome_simps)
  show ?thesis
  proof (cases sc)
    case None
    then show ?thesis using s sc wf
      by (auto simp: initial_snapshot_def scenario_for_Inr snapshot_inv_def graph_wf_def Let_def)
  next
    case (Some c)
    then have "c \<in> set (scenarios g) \<and> sid = Some (scenario_id c)"
      using sc by (auto simp: scenario_for_Inr dest: find_Some_in)
    moreover have "scenario_wf g c" using wf_scenario [OF wf] calculation by blast
    ultimately show ?thesis using s sc Some
      by (auto simp: initial_snapshot_def snapshot_inv_def scenario_wf_def Let_def)
  qed
qed

lemma back_snapshot_frame:
  "scenario_ref (back_snapshot s) = scenario_ref s"
  "snapshot_fixtures (back_snapshot s) = snapshot_fixtures s"
  by (simp_all add: back_snapshot_def Let_def)

lemma sorted_butlast: "sorted xs \<Longrightarrow> sorted (butlast xs)"
  by (simp add: butlast_conv_take sorted_wrt_take)

lemma butlast_bound: "sorted xs \<Longrightarrow> n \<in> set (butlast xs) \<Longrightarrow> n \<le> xs ! (length xs - 2)"
proof -
  assume s: "sorted xs" and "n \<in> set (butlast xs)"
  then obtain k where k: "k < length xs - 1" "n = butlast xs ! k"
    by (metis in_set_conv_nth length_butlast)
  then have "n = xs ! k" by (simp add: nth_butlast)
  then show ?thesis using s k by (auto intro: sorted_nth_mono)
qed

lemma nth_minus_2_in: "2 \<le> length xs \<Longrightarrow> xs ! (length xs - 2) \<in> set xs"
  by (rule nth_mem) linarith

lemma back_snapshot_inv: "snapshot_inv g s \<Longrightarrow> snapshot_inv g (back_snapshot s)"
proof (cases "length (history s) \<le> 1")
  case True
  then show "snapshot_inv g s \<Longrightarrow> ?thesis" by (simp add: back_snapshot_def)
next
  case False
  assume inv: "snapshot_inv g s"
  then have len: "2 \<le> length (history_lens s)" using False by (auto simp: snapshot_inv_def)
  have ne: "butlast (history s) \<noteq> []" using False
    by (metis One_nat_def diff_is_0_eq length_butlast length_0_conv)
  have sub: "set (butlast (history s)) \<subseteq> set (history s)" by (auto dest: in_set_butlastD)
  have bound: "n \<le> length (take (history_lens s ! (length (history_lens s) - 2)) (path_ids s))"
    if "n \<in> set (butlast (history_lens s))" for n
    using that inv butlast_bound [of "history_lens s" n] in_set_butlastD [of n "history_lens s"]
    by (auto simp: snapshot_inv_def)
  show ?thesis using inv False ne len sub bound
    unfolding snapshot_inv_def back_snapshot_def Let_def
    by (auto simp: sorted_butlast dest: in_set_takeD)
qed

lemma apply_transition_inv:
  assumes wf: "graph_wf g" and t: "t \<in> set (transitions g)" and inv: "snapshot_inv g s"
    and step: "apply_transition g s t = Inr s'"
  shows "snapshot_inv g s' \<and> scenario_ref s' = scenario_ref s"
proof -
  have tw: "transition_wf g t" using wf t by (rule wf_transition)
  have active: "active_surface s (from_node t)"
    using step by (auto simp: apply_transition_def outcome_simps)
  show ?thesis
  proof (cases "transition_kind t")
    case (Navigate x)
    then show ?thesis using step tw inv t
      by (auto simp: apply_transition_def outcome_simps Let_def snapshot_inv_def transition_wf_def
          sorted_append le_Suc_eq)
  next
    case Back
    then show ?thesis using step inv back_snapshot_inv [of g s]
      by (auto simp: apply_transition_def outcome_simps back_snapshot_frame Let_def)
  next
    case (SetState x)
    then obtain owner where o: "owner_of g (from_node t) owner" "owned_state g x owner"
      using tw by (auto simp: transition_wf_def)
    have "owner = active_node s"
    proof (cases "from_node t = active_node s")
      case True
      have "surface g (active_node s)" using inv last_in_set [of "history s"]
        by (auto simp: snapshot_inv_def)
      then show ?thesis using o(1) True surface_not_state [OF wf] by (auto simp: owner_of_def)
    next
      case False
      have "\<not> overlay g (from_node t)" using overlay_not_owner [OF wf] o(1) by blast
      then have "Some (from_node t) = active_state s"
        using active False inv by (auto simp: active_surface_def snapshot_inv_def)
      then have st: "owned_state g (from_node t) (active_node s)"
        using inv by (auto simp: snapshot_inv_def)
      then show ?thesis using o(1) surface_not_state [OF wf] owned_state_unique [OF wf]
        by (auto simp: owner_of_def)
    qed
    then show ?thesis using SetState step inv t o(2)
      by (auto simp: apply_transition_def outcome_simps Let_def snapshot_inv_def le_Suc_eq)
  next
    case (OpenOverlay x)
    then show ?thesis using step tw inv t
      by (auto simp: apply_transition_def outcome_simps Let_def snapshot_inv_def transition_wf_def
          le_Suc_eq)
  next
    case (CloseOverlay x)
    then show ?thesis using step inv t
      by (auto simp: apply_transition_def outcome_simps Let_def snapshot_inv_def le_Suc_eq)
  next
    case ResetFlow
    then obtain i where i: "initial_snapshot g (scenario_ref s) = Inr i"
      and s': "s' = i\<lparr>history_lens := [Suc (length (path_ids s))], path_ids := path_ids s @ [transition_id t]\<rparr>"
      using step by (auto simp: apply_transition_def outcome_simps Let_def)
    have "snapshot_inv g i \<and> scenario_ref i = scenario_ref s \<and> history_lens i = [0]"
      using initial_snapshot_inv [OF wf i] by simp
    then show ?thesis using s' inv t by (auto simp: snapshot_inv_def)
  qed
qed

lemma wired_transition_in: "wired_transition g n p = Some t \<Longrightarrow> t \<in> set (transitions g) \<and> from_node t = n \<and> from_port t = p"
  unfolding wired_transition_def by (auto dest: find_Some_in)

lemma dispatch_inv:
  assumes "graph_wf g" "snapshot_inv g s" "dispatch g s a = Inr s'"
  shows "snapshot_inv g s' \<and> scenario_ref s' = scenario_ref s"
proof (cases a)
  case (Trigger n p)
  then obtain t where "wired_transition g n p = Some t" "apply_transition g s t = Inr s'"
    using assms(3) by (auto simp: dispatch_def outcome_simps split: option.splits)
  then show ?thesis using assms apply_transition_inv wired_transition_in by blast
next
  case GoBack
  then show ?thesis using assms back_snapshot_inv
    by (auto simp: dispatch_def outcome_simps back_snapshot_frame)
qed

lemma replay_from_Cons:
  "replay_from g s (i # ids) = Inr s' \<longleftrightarrow>
     (\<exists>t u. List.find (\<lambda>t. transition_id t = i) (transitions g) = Some t \<and>
            apply_transition g s t = Inr u \<and> replay_from g u ids = Inr s')"
  by (auto simp: outcome_simps split: option.splits)

lemma replay_from_append:
  "replay_from g s (ids @ js) = andThen (replay_from g s ids) (\<lambda>u. replay_from g u js)"
proof (induction ids arbitrary: s)
  case (Cons i ids)
  show ?case
  proof (cases "List.find (\<lambda>t. transition_id t = i) (transitions g)")
    case (Some t)
    then show ?thesis using Cons.IH by (cases "apply_transition g s t") simp_all
  qed simp
qed simp

declare replay_from.simps(2) [simp del]

lemma replay_from_inv:
  "graph_wf g \<Longrightarrow> snapshot_inv g s \<Longrightarrow> replay_from g s ids = Inr s' \<Longrightarrow>
     snapshot_inv g s' \<and> scenario_ref s' = scenario_ref s"
proof (induction ids arbitrary: s)
  case (Cons i ids)
  from Cons.prems(3) obtain t u
    where t: "List.find (\<lambda>t. transition_id t = i) (transitions g) = Some t"
      and u: "apply_transition g s t = Inr u" and r: "replay_from g u ids = Inr s'"
    by (auto simp: replay_from_Cons)
  have "t \<in> set (transitions g)" using find_Some_in [OF t] by simp
  then have inv: "snapshot_inv g u" and ref: "scenario_ref u = scenario_ref s"
    using apply_transition_inv [OF Cons.prems(1) _ Cons.prems(2) u] by simp_all
  show ?case using Cons.IH [OF Cons.prems(1) inv r] ref by simp
qed simp

lemma replay_inv: "graph_wf g \<Longrightarrow> replay g sid ids = Inr s \<Longrightarrow> snapshot_inv g s \<and> scenario_ref s = sid"
  by (auto simp: replay_def outcome_simps dest: initial_snapshot_inv replay_from_inv)

section \<open>What a restored snapshot is\<close>

lemma strings_text_inject [simp]: "strings_text xs = strings_text ys \<longleftrightarrow> xs = ys"
  by (simp only: strings_text_def stringify_strings_eq)

lemma numbers_text_inject [simp]: "numbers_text xs = numbers_text ys \<longleftrightarrow> xs = ys"
  by (simp only: numbers_text_def stringify_nats_eq)

text \<open>An accepted snapshot is exactly the replay of its own path.\<close>

lemma parse_snapshot_Inr:
  assumes "parse_snapshot dt v h = Inr s"
  shows "s = v \<and> (\<exists>g. parse_graph dt h = Inr g \<and> replay g (scenario_ref v) (path_ids v) = Inr v)"
proof -
  from assms obtain g r where g: "parse_graph dt h = Inr g"
    and r: "replay g (scenario_ref v) (path_ids v) = Inr r"
    and issue: "fixture_issue (JObj (snapshot_fixtures v)) = None"
    and same: "active_node r = active_node v" "active_state r = active_state v"
      "active_overlay r = active_overlay v" "scenario_ref r = scenario_ref v"
      "path_ids r = path_ids v" "history r = history v" "history_lens r = history_lens v"
    and fx: "stringify (JObj (snapshot_fixtures v)) = stringify (JObj (fixtures g))"
    and s: "s = v"
    by (auto simp: parse_snapshot_def outcome_simps snapshot_fields_ok_def)
  have wf: "graph_wf g" using g parse_graph_accepts by blast
  have "fixture_issue (JObj (fixtures g)) = None" using wf by (simp add: graph_wf_def)
  then have "snapshot_fixtures v = fixtures g"
    using fx issue stringify_inject fixture_issue_inert by blast
  moreover have "snapshot_fixtures r = fixtures g"
    using replay_inv [OF wf r] by (simp add: snapshot_inv_def)
  ultimately have "r = v" using same by simp
  then show ?thesis using s g r by blast
qed

section \<open>Replayability\<close>

text \<open>The snapshot at the moment the \<open>k\<close>-th entry of the history was entered.\<close>

definition entry_snapshot :: "snapshot \<Rightarrow> nat \<Rightarrow> snapshot" where
  "entry_snapshot s k = s
     \<lparr>active_node := history s ! k, active_state := None, active_overlay := None,
      history := take (Suc k) (history s), history_lens := take (Suc k) (history_lens s),
      path_ids := take (history_lens s ! k) (path_ids s)\<rparr>"

definition replayable :: "graph \<Rightarrow> snapshot \<Rightarrow> bool" where
  "replayable g s \<longleftrightarrow>
     replay g (scenario_ref s) (path_ids s) = Inr s \<and>
     (\<forall>k < length (history s).
        replay g (scenario_ref s) (take (history_lens s ! k) (path_ids s)) = Inr (entry_snapshot s k))"

text \<open>The scenario, if any, starts without an initial state.\<close>

definition stateless_start :: "graph \<Rightarrow> string option \<Rightarrow> bool" where
  "stateless_start g sid \<longleftrightarrow>
     (\<forall>s \<in> set (scenarios g). sid = Some (scenario_id s) \<longrightarrow> initial_state s = None)"

lemma initial_snapshot_shape:
  assumes "initial_snapshot g sid = Inr s" "stateless_start g sid"
  shows "history s = [active_node s] \<and> history_lens s = [0] \<and> path_ids s = [] \<and>
    active_state s = None \<and> active_overlay s = None \<and> scenario_ref s = sid"
  using assms
  by (auto simp: initial_snapshot_def outcome_simps Let_def scenario_for_Inr stateless_start_def
      dest!: find_Some_in)

lemma initial_replayable:
  assumes "initial_snapshot g sid = Inr s" "stateless_start g sid"
  shows "replayable g s"
  using initial_snapshot_shape [OF assms] assms
  by (auto simp: replayable_def replay_def entry_snapshot_def intro!: snapshot.equality)

lemma replay_snoc:
  assumes "graph_wf g" "t \<in> set (transitions g)" "replay g sid path = Inr s"
    and "apply_transition g s t = Inr s'"
  shows "replay g sid (path @ [transition_id t]) = Inr s'"
  using assms wf_find_transition [of g t]
  by (auto simp: replay_def outcome_simps replay_from_append replay_from.simps(2))

text \<open>A step that appends its transition keeps every earlier entry; it is enough to show the
  entries it adds.\<close>

lemma replayable_extend:
  assumes old: "replayable g s" and inv: "snapshot_inv g s"
    and now: "replay g (scenario_ref s) (path_ids s @ [i]) = Inr s'"
    and frame: "s' = s\<lparr>active_node := n, active_state := st, active_overlay := ov,
        history := history s @ hs, history_lens := history_lens s @ ls, path_ids := path_ids s @ [i]\<rparr>"
    and new: "(hs = [] \<and> ls = []) \<or>
        (hs = [n] \<and> ls = [Suc (length (path_ids s))] \<and> st = None \<and> ov = None)"
  shows "replayable g s'"
proof -
  have len: "length (history_lens s) = length (history s)" using inv by (simp add: snapshot_inv_def)
  have "replay g (scenario_ref s) (take (history_lens s' ! k) (path_ids s')) = Inr (entry_snapshot s' k)"
    if k: "k < length (history s')" for k
  proof (cases "k < length (history s)")
    case True
    have "history_lens s ! k \<in> set (history_lens s)" using True len by simp
    then have "history_lens s ! k \<le> length (path_ids s)" using inv by (simp add: snapshot_inv_def)
    then show ?thesis using old True len
      by (simp add: replayable_def frame entry_snapshot_def nth_append)
  next
    case False
    then show ?thesis using new k now len
      by (auto simp: frame entry_snapshot_def nth_append)
  qed
  then show ?thesis using now by (simp add: replayable_def frame)
qed

lemma back_replayable:
  assumes old: "replayable g s" and inv: "snapshot_inv g s"
  shows "replayable g (back_snapshot s)"
proof (cases "length (history s) \<le> 1")
  case True
  then show ?thesis using old by (simp add: back_snapshot_def)
next
  case False
  define n where "n = length (history s) - 2"
  have n: "Suc (Suc n) = length (history s)" using False by (simp add: n_def)
  have len: "length (history_lens s) = length (history s)" using inv by (simp add: snapshot_inv_def)
  have is_entry: "back_snapshot s = entry_snapshot s n"
  proof -
    have h: "length (history s) - 1 = Suc n" "length (history_lens s) - 1 = Suc n"
        "length (history_lens s) - 2 = n" "2 \<le> length (history_lens s)"
      using n len by linarith+
    have "last (take (Suc n) (history s)) = history s ! n"
      using n by (simp add: last_conv_nth take_Suc_conv_app_nth)
    then show ?thesis using False h
      by (simp add: back_snapshot_def entry_snapshot_def Let_def butlast_conv_take)
  qed
  have "replay g (scenario_ref s) (take (history_lens s ! n) (path_ids s)) = Inr (entry_snapshot s n)"
    using old n by (simp add: replayable_def)
  moreover have "replay g (scenario_ref s)
      (take (history_lens s ! k) (take (history_lens s ! n) (path_ids s))) =
      Inr (entry_snapshot (entry_snapshot s n) k)" if k: "k < Suc n" for k
  proof -
    have "history_lens s ! k \<le> history_lens s ! n"
      using inv k n len by (intro sorted_nth_mono) (auto simp: snapshot_inv_def)
    moreover have "replay g (scenario_ref s) (take (history_lens s ! k) (path_ids s)) =
        Inr (entry_snapshot s k)"
      using old k n by (simp add: replayable_def)
    ultimately show ?thesis using k n
      by (simp add: entry_snapshot_def min_def)
  qed
  ultimately show ?thesis using n len unfolding is_entry replayable_def
    by (auto simp: entry_snapshot_def)
qed

lemma apply_transition_replayable:
  assumes wf: "graph_wf g" and t: "t \<in> set (transitions g)" and inv: "snapshot_inv g s"
    and old: "replayable g s" and start: "stateless_start g (scenario_ref s)"
    and step: "apply_transition g s t = Inr s'"
  shows "replayable g s'"
proof -
  have rep: "replay g (scenario_ref s) (path_ids s @ [transition_id t]) = Inr s'"
    using replay_snoc [OF wf t _ step] old by (simp add: replayable_def)
  note extend = replayable_extend [OF old inv rep]
  show ?thesis
  proof (cases "transition_kind t")
    case (Navigate x)
    then show ?thesis using step
      by (intro extend [where hs = "[x]" and ls = "[Suc (length (path_ids s))]" and st = None and ov = None and n = x])
        (auto simp: apply_transition_def outcome_simps Let_def)
  next
    case Back
    then show ?thesis using step back_replayable [OF old inv]
      by (auto simp: apply_transition_def outcome_simps Let_def)
  next
    case (SetState x)
    then show ?thesis using step
      by (intro extend [where hs = "[]" and ls = "[]" and st = "Some x" and n = "active_node s" and ov = "active_overlay s"])
        (auto simp: apply_transition_def outcome_simps Let_def)
  next
    case (OpenOverlay x)
    then show ?thesis using step
      by (intro extend [where hs = "[]" and ls = "[]" and ov = "Some x" and n = "active_node s" and st = "active_state s"])
        (auto simp: apply_transition_def outcome_simps Let_def)
  next
    case (CloseOverlay x)
    then show ?thesis using step
      by (intro extend [where hs = "[]" and ls = "[]" and ov = None and n = "active_node s" and st = "active_state s"])
        (auto simp: apply_transition_def outcome_simps Let_def)
  next
    case ResetFlow
    then obtain i where i: "initial_snapshot g (scenario_ref s) = Inr i"
      and s': "s' = i\<lparr>history_lens := [Suc (length (path_ids s))], path_ids := path_ids s @ [transition_id t]\<rparr>"
      using step by (auto simp: apply_transition_def outcome_simps Let_def)
    then show ?thesis using rep initial_snapshot_shape [OF i start]
      by (auto simp: replayable_def entry_snapshot_def intro!: snapshot.equality)
  qed
qed

lemma dispatch_replayable:
  assumes "graph_wf g" "snapshot_inv g s" "replayable g s" "stateless_start g (scenario_ref s)"
    and step: "dispatch g s a = Inr s'"
  shows "replayable g s'"
proof (cases a)
  case (Trigger n p)
  then obtain t where "wired_transition g n p = Some t" "apply_transition g s t = Inr s'"
    using step by (auto simp: dispatch_def outcome_simps split: option.splits)
  then show ?thesis using assms apply_transition_replayable wired_transition_in by blast
next
  case GoBack
  then show ?thesis using assms back_replayable by (auto simp: dispatch_def outcome_simps)
qed

lemma replay_from_replayable:
  "graph_wf g \<Longrightarrow> snapshot_inv g s \<Longrightarrow> replayable g s \<Longrightarrow> stateless_start g (scenario_ref s) \<Longrightarrow>
     replay_from g s ids = Inr s' \<Longrightarrow> replayable g s'"
proof (induction ids arbitrary: s)
  case (Cons i ids)
  from Cons.prems(5) obtain t u
    where t: "List.find (\<lambda>t. transition_id t = i) (transitions g) = Some t"
      and u: "apply_transition g s t = Inr u" and r: "replay_from g u ids = Inr s'"
    by (auto simp: replay_from_Cons)
  have tin: "t \<in> set (transitions g)" using find_Some_in [OF t] by simp
  have inv: "snapshot_inv g u" and ref: "scenario_ref u = scenario_ref s"
    using apply_transition_inv [OF Cons.prems(1) tin Cons.prems(2) u] by simp_all
  have "replayable g u" using Cons.prems(1-4) tin u 
    by (intro apply_transition_replayable [OF Cons.prems(1) tin Cons.prems(2-4) u])
  then show ?case by (rule Cons.IH [OF Cons.prems(1) inv _ _ r]) (simp add: ref Cons.prems(4))
qed simp

lemma replay_replayable:
  assumes "graph_wf g" "stateless_start g sid" "replay g sid ids = Inr s"
  shows "replayable g s"
proof -
  obtain i where i: "initial_snapshot g sid = Inr i" and r: "replay_from g i ids = Inr s"
    using assms(3) by (auto simp: replay_def outcome_simps)
  have inv: "snapshot_inv g i" and ref: "scenario_ref i = sid"
    using initial_snapshot_inv [OF assms(1) i] by simp_all
  show ?thesis
    by (rule replay_from_replayable [OF assms(1) inv initial_replayable [OF i assms(2)] _ r])
      (simp add: ref assms(2))
qed

section \<open>The runtime as a guarded machine\<close>

text \<open>Every call keeps the invariant, and keeps replayability where the scenario starts without
  a state.  A call never changes the scenario except \<open>restore\<close>, which installs a snapshot of its
  own scenario.\<close>

definition runtime_inv :: "graph \<Rightarrow> snapshot \<Rightarrow> bool" where
  "runtime_inv g s \<longleftrightarrow>
     snapshot_inv g s \<and> (stateless_start g (scenario_ref s) \<longrightarrow> replayable g s)"

lemma restored_inv:
  assumes v: "valid_graph dt g" and r: "parse_snapshot dt s g = Inr s'"
  shows "s' = s \<and> runtime_inv g s"
proof -
  have rep: "replay g (scenario_ref s) (path_ids s) = Inr s" and eq: "s' = s"
    using parse_snapshot_Inr [OF r] v by (auto simp: valid_graph_def)
  show ?thesis using eq replay_inv [OF valid_graph_wf [OF v] rep]
      replay_replayable [OF valid_graph_wf [OF v] _ rep]
    by (auto simp: runtime_inv_def)
qed

lemma runtime_step_inv:
  assumes v: "valid_graph dt g" and inv: "runtime_inv g s" and step: "runtime_step dt g s c = Inr s'"
  shows "runtime_inv g s'"
proof (cases c)
  case (Dispatch a)
  then have d: "dispatch g s a = Inr s'" using step by simp
  show ?thesis using dispatch_inv [OF valid_graph_wf [OF v] _ d] dispatch_replayable [OF valid_graph_wf [OF v] _ _ _ d] inv
    by (auto simp: runtime_inv_def)
next
  case (Restore x)
  then show ?thesis using restored_inv [OF v, of x s'] step by simp
qed

lemma create_runtime_inv:
  assumes "create_runtime dt v sid = Inr (g, s)"
  shows "valid_graph dt g \<and> runtime_inv g s \<and> scenario_ref s = sid"
proof -
  have g: "parse_graph dt v = Inr g" and i: "initial_snapshot g sid = Inr s"
    using assms by (auto simp: create_runtime_def outcome_simps)
  have val: "valid_graph dt g" using g by (rule parse_graph_valid)
  show ?thesis using val initial_snapshot_inv [OF valid_graph_wf [OF val] i] initial_replayable [OF i]
    by (auto simp: runtime_inv_def)
qed

definition object_inv :: "(string \<Rightarrow> bool) \<Rightarrow> graph \<times> snapshot \<Rightarrow> bool" where
  "object_inv dt obj \<longleftrightarrow> valid_graph dt (fst obj) \<and> runtime_inv (fst obj) (snd obj)"

interpretation runtime: forward_machine "object_step dt" "object_inv dt" "\<lambda>o1 o2. fst o1 = fst o2"
  for dt
proof unfold_locales
  fix s c s'
  assume inv: "object_inv dt s" and step: "object_step dt s c = Inr s'"
  then obtain x where "runtime_step dt (fst s) (snd s) c = Inr x" "s' = (fst s, x)"
    by (auto simp: object_step_def outcome_simps)
  then show "object_inv dt s'" using inv runtime_step_inv by (auto simp: object_inv_def)
  show "fst s = fst s'" using step by (auto simp: object_step_def outcome_simps)
qed simp_all

lemma run_inv:
  assumes c: "create_runtime dt v sid = Inr (g, s0)"
    and run: "attempts (object_step dt) (g, s0) calls = (g', s)"
  shows "g' = g \<and> valid_graph dt g \<and> runtime_inv g s"
proof -
  have "object_inv dt (g, s0)" using create_runtime_inv [OF c] by (simp add: object_inv_def)
  then have "object_inv dt (g', s)" "fst (g, s0) = fst (g', s)"
    using runtime.attempts_inv runtime.attempts_forward run by metis+
  then show ?thesis by (simp add: object_inv_def)
qed

section \<open>Exactly the replayable snapshots are restored\<close>

lemma valid_ids:
  assumes "valid_graph dt g"
  shows "surface g i \<Longrightarrow> proto_id_ok i" and "owned_state g i p \<Longrightarrow> proto_id_ok i"
    and "overlay g i \<Longrightarrow> proto_id_ok i"
    and "i \<in> transition_id ` set (transitions g) \<Longrightarrow> proto_id_ok i"
    and "i \<in> scenario_id ` set (scenarios g) \<Longrightarrow> proto_id_ok i"
  using assms
  by (auto simp: valid_graph_iff graph_fields_ok_def list_all_iff pnode_ok_def base_node_ok_def
      ptransition_ok_def scenario_ok_def surface_def owned_state_def overlay_def has_node_def)

lemma snapshot_inv_fields:
  assumes v: "valid_graph dt g" and inv: "snapshot_inv g s"
    and len: "length (history s) \<le> 501" "length (path_ids s) \<le> 2000"
  shows "snapshot_fields_ok s"
proof -
  have surf: "proto_id_ok i" if "i \<in> set (history s)" for i
    using that inv valid_ids(1) [OF v] by (auto simp: snapshot_inv_def)
  have "active_node s \<in> set (history s)" using inv by (metis last_in_set snapshot_inv_def)
  then have node: "proto_id_ok (active_node s)" by (rule surf)
  have st: "optional_id_ok (active_state s)" using inv valid_ids(2) [OF v]
    by (auto simp: snapshot_inv_def optional_id_ok_def split: option.splits)
  have ov: "optional_id_ok (active_overlay s)" using inv valid_ids(3) [OF v]
    by (auto simp: snapshot_inv_def optional_id_ok_def split: option.splits)
  have sc: "optional_id_ok (scenario_ref s)" using inv valid_ids(5) [OF v]
    by (auto simp: snapshot_inv_def optional_id_ok_def split: option.splits)
  have path: "list_all proto_id_ok (path_ids s)" using inv valid_ids(4) [OF v]
    by (auto simp: snapshot_inv_def list_all_iff)
  have lens: "list_all (\<lambda>n. n \<le> 2000) (history_lens s)" using inv len
    by (force simp: snapshot_inv_def list_all_iff)
  have fx: "fixtures_ok (snapshot_fixtures s)" using v inv
    by (simp add: valid_graph_iff graph_fields_ok_def snapshot_inv_def)
  have "1 \<le> length (history s)" "1 \<le> length (history_lens s)" "length (history_lens s) \<le> 501"
    using inv len by (auto simp: snapshot_inv_def Suc_le_eq)
  then show ?thesis using node st ov sc path lens fx len surf
    unfolding snapshot_fields_ok_def list_all_iff by blast
qed

lemma parse_snapshot_iff:
  assumes v: "valid_graph dt g"
  shows "parse_snapshot dt s g = Inr s' \<longleftrightarrow>
     s' = s \<and> replay g (scenario_ref s) (path_ids s) = Inr s \<and>
     length (history s) \<le> 501 \<and> length (path_ids s) \<le> 2000"
proof
  assume p: "parse_snapshot dt s g = Inr s'"
  then have "length (history s) \<le> 501 \<and> length (path_ids s) \<le> 2000"
    by (auto simp: parse_snapshot_def outcome_simps snapshot_fields_ok_def)
  then show "s' = s \<and> replay g (scenario_ref s) (path_ids s) = Inr s \<and>
     length (history s) \<le> 501 \<and> length (path_ids s) \<le> 2000"
    using parse_snapshot_Inr [OF p] v by (auto simp: valid_graph_def)
next
  assume a: "s' = s \<and> replay g (scenario_ref s) (path_ids s) = Inr s \<and>
     length (history s) \<le> 501 \<and> length (path_ids s) \<le> 2000"
  have inv: "snapshot_inv g s" using replay_inv [OF valid_graph_wf [OF v]] a by blast
  have "fixture_issue (JObj (snapshot_fixtures s)) = None"
    using valid_graph_wf [OF v] inv by (simp add: graph_wf_def snapshot_inv_def)
  then show "parse_snapshot dt s g = Inr s'" using a v snapshot_inv_fields [OF v inv] inv
    by (simp add: parse_snapshot_def valid_graph_def snapshot_inv_def)
qed

end
