(* ===== verification/Prototype_Edit.thy ===== *)
theory Prototype_Edit
  imports Prototype_Runtime
begin

text \<open>
  The editor operations of \<open>packages/core/src/prototype-graph.ts\<close>: view state, removing and
  upserting a connector, the difference of two graphs, and copy and paste of nodes.

  A copied fragment is the value its JSON text encodes; the text itself, its size limit and
  \<open>JSON.parse\<close> are not modelled.  An issue raised without a path is a \<open>GraphIssue\<close> with the text
  the code gives it.
\<close>

section \<open>View state\<close>

definition covers_nodes :: "graph \<Rightarrow> positions \<Rightarrow> bool" where
  "covers_nodes g ps \<longleftrightarrow>
     length ps = length (remdups (map node_id (nodes g))) \<and>
     list_all (\<lambda>p. fst p \<in> set (map node_id (nodes g))) ps \<and>
     list_all (\<lambda>n. map_of ps (node_id n) \<noteq> None) (nodes g)"

definition with_view_state ::
    "(string \<Rightarrow> bool) \<Rightarrow> graph \<Rightarrow> positions \<Rightarrow> prototype_error + graph" where
  "with_view_state dt value ps =
     andThen (parse_graph dt value) (\<lambda>g.
     failIf (\<not> covers_nodes g ps)
       (GraphInvalid [GraphIssue
          ''viewState.compactNodePositions: positions must cover exactly the current nodes''])
       (parse_graph dt
          (g\<lparr>view_state := Some (map (\<lambda>n. (node_id n, the (map_of ps (node_id n)))) (nodes g))\<rparr>)))"

definition migrate_view_state ::
    "(string \<Rightarrow> bool) \<Rightarrow> graph \<Rightarrow> positions \<Rightarrow> prototype_error + graph" where
  "migrate_view_state dt value ps =
     andThen (parse_graph dt value) (\<lambda>g.
       if view_state g = None then with_view_state dt g ps else Inr g)"

definition without_view_state :: "(string \<Rightarrow> bool) \<Rightarrow> graph \<Rightarrow> prototype_error + graph" where
  "without_view_state dt value =
     andThen (parse_graph dt value) (\<lambda>g. parse_graph dt (g\<lparr>view_state := None\<rparr>))"

section \<open>Connectors\<close>

definition first_unwired :: "ptransition list \<Rightarrow> string list \<Rightarrow> nat option" where
  "first_unwired ts path =
     List.find (\<lambda>k. \<not> wired ts (path ! (k - 1)) (path ! k)) [1..<length path]"

definition truncate_scenario :: "ptransition list \<Rightarrow> scenario \<Rightarrow> scenario" where
  "truncate_scenario ts s =
     (case first_unwired ts (expected_path s) of
        None \<Rightarrow> s
      | Some k \<Rightarrow> s\<lparr>expected_path := take k (expected_path s)\<rparr>)"

definition remove_transition ::
    "(string \<Rightarrow> bool) \<Rightarrow> graph \<Rightarrow> string \<Rightarrow> prototype_error + graph" where
  "remove_transition dt g tid =
     failIf (\<not> proto_id_ok tid) (GraphInvalid [GraphIssue ''transition ID is invalid''])
    (failIf (\<not> list_ex (\<lambda>t. transition_id t = tid) (transitions g))
       (GraphInvalid [GraphIssue ''transition does not exist''])
       (let ts = filter (\<lambda>t. transition_id t \<noteq> tid) (transitions g) in
        parse_graph dt
          (g\<lparr>scenarios := map (truncate_scenario ts) (scenarios g), transitions := ts\<rparr>)))"

definition upsert_transition ::
    "(string \<Rightarrow> bool) \<Rightarrow> graph \<Rightarrow> ptransition \<Rightarrow> prototype_error + graph" where
  "upsert_transition dt value c =
     andThen (parse_graph dt value) (\<lambda>g.
       parse_graph dt (g\<lparr>transitions :=
         filter (\<lambda>t. transition_id t \<noteq> transition_id c \<and>
                     (from_node t \<noteq> from_node c \<or> from_port t \<noteq> from_port c)) (transitions g) @ [c]\<rparr>))"

section \<open>Difference of two graphs\<close>

record graph_diff =
  from_revision :: string
  to_revision :: string
  added_nodes :: "string list"
  removed_nodes :: "string list"
  added_transitions :: "string list"
  removed_transitions :: "string list"
  changed_scenarios :: "string list"

definition scenario_json :: "scenario \<Rightarrow> json" where
  "scenario_json s = JObj
     ([(''id'', JStr (scenario_id s)), (''name'', JStr (scenario_name s)),
       (''startNodeId'', JStr (start_node s))] @
      (case initial_state s of None \<Rightarrow> [] | Some i \<Rightarrow> [(''initialStateId'', JStr i)]) @
      [(''expectedPath'', JArr (map JStr (expected_path s)))])"

definition scenario_text_before :: "graph \<Rightarrow> string \<Rightarrow> string option" where
  "scenario_text_before g i =
     map_of (rev (map (\<lambda>s. (scenario_id s, stringify (scenario_json s))) (scenarios g))) i"

definition diff_graphs ::
    "(string \<Rightarrow> bool) \<Rightarrow> graph \<Rightarrow> graph \<Rightarrow> prototype_error + graph_diff" where
  "diff_graphs dt before_value after_value =
     andThen (parse_graph dt before_value) (\<lambda>before.
     andThen (parse_graph dt after_value) (\<lambda>after.
       let before_nodes = map node_id (nodes before);
           after_nodes = map node_id (nodes after);
           before_ts = map transition_id (transitions before);
           after_ts = map transition_id (transitions after) in
       Inr \<lparr>from_revision = revision_id (graph_revision before),
            to_revision = revision_id (graph_revision after),
            added_nodes = filter (\<lambda>i. i \<notin> set before_nodes) after_nodes,
            removed_nodes = filter (\<lambda>i. i \<notin> set after_nodes) before_nodes,
            added_transitions = filter (\<lambda>i. i \<notin> set before_ts) after_ts,
            removed_transitions = filter (\<lambda>i. i \<notin> set after_ts) before_ts,
            changed_scenarios = map scenario_id
              (filter (\<lambda>s. scenario_text_before before (scenario_id s) \<noteq>
                           Some (stringify (scenario_json s))) (scenarios after))\<rparr>))"

section \<open>Copy and paste\<close>

record fragment =
  fragment_nodes :: "pnode list"
  fragment_transitions :: "ptransition list"

definition copy_nodes ::
    "(string \<Rightarrow> bool) \<Rightarrow> graph \<Rightarrow> string list \<Rightarrow> prototype_error + fragment" where
  "copy_nodes dt value selected =
     andThen (parse_graph dt value) (\<lambda>g.
       let ns = filter (\<lambda>n. node_id n \<in> set selected) (nodes g) in
       failIf (ns = []) (GraphInvalid [GraphIssue ''nodeIds: select at least one node''])
         (Inr \<lparr>fragment_nodes = ns,
               fragment_transitions = filter (\<lambda>t. from_node t \<in> set selected \<and>
                 (case target_of (transition_kind t) of None \<Rightarrow> True | Some x \<Rightarrow> x \<in> set selected))
                 (transitions g)\<rparr>))"

text \<open>The name that the suffix loop tries when its counter is \<open>k + 1\<close>.\<close>

definition copy_name :: "string \<Rightarrow> nat \<Rightarrow> string" where
  "copy_name base k = base @ ''-copy'' @ (if k = 0 then [] else nat_text (Suc k))"

lemma copy_name_inject [simp]: "copy_name base j = copy_name base k \<longleftrightarrow> j = k"
  using nat_text_nonempty [of "Suc j"] nat_text_nonempty [of "Suc k"]
  by (auto simp: copy_name_def simp del: nat_text_nonempty)

function fresh_from :: "string list \<Rightarrow> string \<Rightarrow> nat \<Rightarrow> string" where
  "fresh_from used base k =
     (if copy_name base k \<in> set used then fresh_from used base (Suc k) else copy_name base k)"
  by pat_completeness auto
termination
proof (relation "measure (\<lambda>(used, base, k). card {j. k \<le> j \<and> copy_name base j \<in> set used})", goal_cases)
  case (2 used base k)
  have "finite {j. copy_name base j \<in> set used}"
    using finite_vimageI [of "set used" "copy_name base"] by (simp add: inj_def vimage_def)
  then have "finite {j. k \<le> j \<and> copy_name base j \<in> set used}"
    by (rule rev_finite_subset) blast
  moreover have "{j. Suc k \<le> j \<and> copy_name base j \<in> set used} \<subset> {j. k \<le> j \<and> copy_name base j \<in> set used}"
  proof
    show "{j. Suc k \<le> j \<and> copy_name base j \<in> set used} \<subseteq> {j. k \<le> j \<and> copy_name base j \<in> set used}"
      by auto
    have "k \<in> {j. k \<le> j \<and> copy_name base j \<in> set used}" using 2 by simp
    moreover have "k \<notin> {j. Suc k \<le> j \<and> copy_name base j \<in> set used}" by simp
    ultimately show "{j. Suc k \<le> j \<and> copy_name base j \<in> set used} \<noteq> {j. k \<le> j \<and> copy_name base j \<in> set used}"
      by blast
  qed
  ultimately show ?case by (simp add: psubset_card_mono)
qed simp

declare fresh_from.simps [simp del]

definition fresh_name :: "string list \<Rightarrow> string \<Rightarrow> string" where
  "fresh_name used base = fresh_from used base 0"

text \<open>The first loop: every fragment node gets an unused identifier.\<close>

fun assign_names :: "string list \<Rightarrow> string list \<Rightarrow> (string \<times> string) list" where
  "assign_names used [] = []"
| "assign_names used (i # ids) =
     (let next = fresh_name used i in (i, next) # assign_names (next # used) ids)"

text \<open>\<open>remap.get(id)\<close>: the entry that was set last.\<close>

definition remapped :: "(string \<times> string) list \<Rightarrow> string \<Rightarrow> string option" where
  "remapped pairs i = map_of (rev pairs) i"

definition paste_kind :: "(string \<times> string) list \<Rightarrow> string list \<Rightarrow> node_kind \<Rightarrow> node_kind" where
  "paste_kind pairs used k =
     (case k of
        Screen r \<Rightarrow> Screen (fresh_name used r)
      | Page r \<Rightarrow> Page (fresh_name used r)
      | StateNode p \<Rightarrow> StateNode (case remapped pairs p of None \<Rightarrow> p | Some q \<Rightarrow> q)
      | Overlay d \<Rightarrow> Overlay d)"

text \<open>The second loop: identifiers, positions, routes and parents of the pasted nodes; the used
  routes are threaded through it.\<close>

fun paste_node_list :: "(string \<times> string) list \<Rightarrow> string list \<Rightarrow> pnode list \<Rightarrow> pnode list" where
  "paste_node_list pairs used [] = []"
| "paste_node_list pairs used (n # ns) =
     (let kind = paste_kind pairs used (node_kind n);
          n' = n\<lparr>node_id := the (remapped pairs (node_id n)),
                 node_position := \<lparr>px = px (node_position n) + 36, py = py (node_position n) + 36\<rparr>,
                 node_kind := kind\<rparr>;
          used' = (if is_surface (Some n) then route_of kind # used else used)
      in n' # paste_node_list pairs used' ns)"

fun retarget :: "(string \<times> string) list \<Rightarrow> transition_kind \<Rightarrow> transition_kind option" where
  "retarget pairs (Navigate x) = map_option Navigate (remapped pairs x)"
| "retarget pairs (SetState x) = map_option SetState (remapped pairs x)"
| "retarget pairs (OpenOverlay x) = map_option OpenOverlay (remapped pairs x)"
| "retarget pairs (CloseOverlay x) = map_option CloseOverlay (remapped pairs x)"
| "retarget pairs Back = Some Back"
| "retarget pairs ResetFlow = Some ResetFlow"

text \<open>\<open>None\<close> where an endpoint is not a fragment node: the code writes \<open>undefined\<close> there, which
  the schema of the final parse rejects.\<close>

fun paste_transition_list ::
    "(string \<times> string) list \<Rightarrow> string list \<Rightarrow> ptransition list \<Rightarrow> ptransition list option" where
  "paste_transition_list pairs used [] = Some []"
| "paste_transition_list pairs used (t # ts) =
     (let next = fresh_name used (transition_id t) in
      case (remapped pairs (from_node t), retarget pairs (transition_kind t)) of
        (Some n, Some k) \<Rightarrow>
          map_option (\<lambda>rest. t\<lparr>transition_id := next, transition_kind := k, from_node := n\<rparr> # rest)
            (paste_transition_list pairs (next # used) ts)
      | _ \<Rightarrow> None)"

definition paste_nodes ::
    "(string \<Rightarrow> bool) \<Rightarrow> graph \<Rightarrow> fragment \<Rightarrow> prototype_error + graph" where
  "paste_nodes dt value frag =
     andThen (parse_graph dt value) (\<lambda>g.
       let ns = map trim_node (fragment_nodes frag); ts = fragment_transitions frag in
       failIf (ns = [] \<or> \<not> list_all pnode_ok ns \<or> \<not> list_all ptransition_ok ts)
         (GraphInvalid [GraphIssue ''root: prototype fragment is not valid JSON''])
         (let pairs = assign_names (map node_id (nodes g)) (map node_id ns);
              pasted = paste_node_list pairs (routes g) ns in
          case paste_transition_list pairs (map transition_id (transitions g)) ts of
            None \<Rightarrow> Inl (GraphInvalid [SchemaIssue])
          | Some pasted_ts \<Rightarrow>
              parse_graph dt (g\<lparr>view_state := None, nodes := nodes g @ pasted,
                                transitions := transitions g @ pasted_ts\<rparr>)))"

section \<open>Fresh names\<close>

lemma fresh_from_fresh: "fresh_from used base k \<notin> set used"
  by (induction used base k rule: fresh_from.induct) (subst fresh_from.simps, simp)

lemma fresh_from_shape: "\<exists>j \<ge> k. fresh_from used base k = copy_name base j"
proof (induction used base k rule: fresh_from.induct)
  case (1 used base k)
  then show ?case by (subst fresh_from.simps) (auto intro: Suc_leD)
qed

lemma fresh_from_least:
  "fresh_from used base k = copy_name base j \<Longrightarrow> k \<le> i \<Longrightarrow> i < j \<Longrightarrow> copy_name base i \<in> set used"
proof (induction used base k rule: fresh_from.induct)
  case (1 used base k)
  show ?case
  proof (cases "copy_name base k \<in> set used")
    case True
    then have "fresh_from used base (Suc k) = copy_name base j"
      using 1(2) by (subst (asm) fresh_from.simps) simp
    then show ?thesis using 1 True by (cases "i = k") auto
  next
    case False
    then have "copy_name base k = copy_name base j" using 1(2) by (subst (asm) fresh_from.simps) simp
    then show ?thesis using 1(3,4) by simp
  qed
qed

lemma fresh_name_fresh [simp]: "fresh_name used base \<notin> set used"
  by (simp add: fresh_name_def fresh_from_fresh)

section \<open>What the other fields leave unchanged\<close>

lemma node_facts_update [simp]:
  "surface (g\<lparr>transitions := ts\<rparr>) = surface g" "surface (g\<lparr>scenarios := ss\<rparr>) = surface g"
  "surface (g\<lparr>view_state := v\<rparr>) = surface g"
  "owned_state (g\<lparr>transitions := ts\<rparr>) = owned_state g" "owned_state (g\<lparr>scenarios := ss\<rparr>) = owned_state g"
  "owned_state (g\<lparr>view_state := v\<rparr>) = owned_state g"
  "overlay (g\<lparr>transitions := ts\<rparr>) = overlay g" "overlay (g\<lparr>scenarios := ss\<rparr>) = overlay g"
  "overlay (g\<lparr>view_state := v\<rparr>) = overlay g"
  "has_port (g\<lparr>transitions := ts\<rparr>) = has_port g" "has_port (g\<lparr>scenarios := ss\<rparr>) = has_port g"
  "has_port (g\<lparr>view_state := v\<rparr>) = has_port g"
  by (simp_all add: fun_eq_iff surface_def owned_state_def overlay_def has_port_def has_node_def)

lemma transition_wf_update [simp]:
  "transition_wf (g\<lparr>transitions := ts\<rparr>) t = transition_wf g t"
  "transition_wf (g\<lparr>scenarios := ss\<rparr>) t = transition_wf g t"
  "transition_wf (g\<lparr>view_state := v\<rparr>) t = transition_wf g t"
  by (simp_all add: transition_wf_def owner_of_def cong: transition_kind.case_cong)

lemma routes_update [simp]:
  "routes (g\<lparr>transitions := ts\<rparr>) = routes g" "routes (g\<lparr>scenarios := ss\<rparr>) = routes g"
  "routes (g\<lparr>view_state := v\<rparr>) = routes g"
  by (simp_all add: routes_def)

lemma view_state_wf_update [simp]:
  "view_state_wf (g\<lparr>transitions := ts\<rparr>) = view_state_wf g"
  "view_state_wf (g\<lparr>scenarios := ss\<rparr>) = view_state_wf g"
  by (simp_all add: view_state_wf_def)

lemma scenario_wf_view_state [simp]: "scenario_wf (g\<lparr>view_state := v\<rparr>) s = scenario_wf g s"
  by (simp add: scenario_wf_def)

lemma distinct_map_filter: "distinct (map f xs) \<Longrightarrow> distinct (map f (filter P xs))"
  by (auto simp: distinct_map inj_on_def)

section \<open>Removing a connector\<close>

lemma truncate_scenario_spec:
  assumes "expected_path s \<noteq> []"
  obtains k where "1 \<le> k" "k \<le> length (expected_path s)"
    and "truncate_scenario ts s = s\<lparr>expected_path := take k (expected_path s)\<rparr>"
    and "successively (wired ts) (take k (expected_path s))"
    and "k < length (expected_path s) \<Longrightarrow>
           \<not> wired ts (expected_path s ! (k - 1)) (expected_path s ! k)"
proof (cases "first_unwired ts (expected_path s)")
  case None
  then have "\<forall>k \<in> {1..<length (expected_path s)}. wired ts (expected_path s ! (k - 1)) (expected_path s ! k)"
    by (simp add: first_unwired_def find_None_iff)
  then have "successively (wired ts) (expected_path s)" by (simp add: successively_index)
  then show ?thesis using that [of "length (expected_path s)"] None assms
    by (simp add: truncate_scenario_def Suc_le_eq)
next
  case (Some k)
  let ?p = "expected_path s"
  from Some obtain i where i: "i < length ?p - 1" "k = Suc i" "\<not> wired ts (?p ! (k - 1)) (?p ! k)"
    and before: "\<forall>j < i. wired ts (?p ! j) (?p ! Suc j)"
    unfolding first_unwired_def find_Some_iff by auto
  have "successively (wired ts) (take k ?p)"
    unfolding successively_index
  proof (intro ballI)
    fix m assume m: "m \<in> {1..<length (take k ?p)}"
    then obtain j where j: "m = Suc j" by (cases m) auto
    then have "j < i" using m i(2) by simp
    then have "wired ts (?p ! j) (?p ! Suc j)" using before by blast
    then show "wired ts (take k ?p ! (m - 1)) (take k ?p ! m)" using j m by simp
  qed
  then show ?thesis using that [of k] Some i by (simp add: truncate_scenario_def)
qed

lemma truncate_scenario_fields:
  "scenario_id (truncate_scenario ts s) = scenario_id s"
  "start_node (truncate_scenario ts s) = start_node s"
  "initial_state (truncate_scenario ts s) = initial_state s"
  "scenario_name (truncate_scenario ts s) = scenario_name s"
  by (simp_all add: truncate_scenario_def split: option.splits)

lemma truncate_scenario_wf:
  assumes "scenario_wf g s"
  shows "scenario_wf (g\<lparr>scenarios := ss, transitions := ts\<rparr>) (truncate_scenario ts s)"
proof -
  have ne: "expected_path s \<noteq> []" using assms by (simp add: scenario_wf_def)
  obtain k where "1 \<le> k" "truncate_scenario ts s = s\<lparr>expected_path := take k (expected_path s)\<rparr>"
    and "successively (wired ts) (take k (expected_path s))"
    using truncate_scenario_spec [OF ne] by metis
  then show ?thesis using assms ne
    by (auto simp: scenario_wf_def hd_take dest: in_set_takeD)
qed

lemma truncate_scenario_ok: "scenario_ok s \<Longrightarrow> scenario_ok (truncate_scenario ts s)"
proof -
  assume ok: "scenario_ok s"
  then have ne: "expected_path s \<noteq> []" by (auto simp: scenario_ok_def)
  obtain k where "1 \<le> k" "truncate_scenario ts s = s\<lparr>expected_path := take k (expected_path s)\<rparr>"
    using truncate_scenario_spec [OF ne] by metis
  then show ?thesis using ok ne
    by (auto simp: scenario_ok_def list_all_iff Suc_le_eq dest: in_set_takeD)
qed

lemma trim_truncate: "trim_scenario s = s \<Longrightarrow> trim_scenario (truncate_scenario ts s) = truncate_scenario ts s"
  by (simp add: trim_scenario_fix truncate_scenario_fields)

lemma remove_transition_accepts:
  assumes v: "valid_graph dt g" and t: "t \<in> set (transitions g)"
  defines "ts \<equiv> filter (\<lambda>u. transition_id u \<noteq> transition_id t) (transitions g)"
  shows "remove_transition dt g (transition_id t) =
    Inr (g\<lparr>scenarios := map (truncate_scenario ts) (scenarios g), transitions := ts\<rparr>)"
proof -
  let ?g = "g\<lparr>scenarios := map (truncate_scenario ts) (scenarios g), transitions := ts\<rparr>"
  have g: "trim_labels g = g" "graph_fields_ok dt g" "graph_wf g" using v by (simp_all add: valid_graph_iff)
  have "trim_labels ?g = ?g"
    using g(1) trim_truncate unfolding trim_labels_fix by simp
  moreover have "graph_fields_ok dt ?g"
  proof -
    have len: "length ts \<le> 2000"
      using g(2) length_filter_le [of _ "transitions g"]
      unfolding graph_fields_ok_def ts_def by (meson order_trans)
    have sub: "set ts \<subseteq> set (transitions g)" by (auto simp: ts_def)
    show ?thesis using g(2) truncate_scenario_ok len sub
      by (auto simp: graph_fields_ok_def list_all_iff)
  qed
  moreover have "graph_wf ?g"
    using g(3) truncate_scenario_wf [of g]
    by (simp add: graph_wf_def ts_def distinct_map_filter truncate_scenario_fields comp_def)
  ultimately have "parse_graph dt ?g = Inr ?g" by (simp add: parse_graph_accepts)
  moreover have "proto_id_ok (transition_id t)" "list_ex (\<lambda>u. transition_id u = transition_id t) (transitions g)"
    using g(2) t by (auto simp: graph_fields_ok_def list_all_iff list_ex_iff ptransition_ok_def)
  ultimately show ?thesis by (simp add: remove_transition_def ts_def Let_def)
qed

lemma remove_transition_Inr:
  assumes v: "valid_graph dt g" and r: "remove_transition dt g tid = Inr g'"
  defines "ts \<equiv> filter (\<lambda>u. transition_id u \<noteq> tid) (transitions g)"
  shows "valid_graph dt g' \<and> transitions g' = ts \<and> nodes g' = nodes g \<and>
    scenarios g' = map (truncate_scenario ts) (scenarios g)"
proof -
  from r obtain t where t: "t \<in> set (transitions g)" "transition_id t = tid"
    by (auto simp: remove_transition_def outcome_simps list_ex_iff)
  then have g': "g' = g\<lparr>scenarios := map (truncate_scenario ts) (scenarios g), transitions := ts\<rparr>"
    using remove_transition_accepts [OF v t(1)] r by (simp add: ts_def)
  have "valid_graph dt g'" using r
    by (auto simp: remove_transition_def outcome_simps Let_def dest: parse_graph_valid)
  then show ?thesis using g' by simp
qed

section \<open>Connectors as a store indexed by action port\<close>

text \<open>The contract of the editor's connector operations: a lookup by action port, an operation
  that puts a connector on its port, and one that drops the connector of a name.\<close>

locale connector_store =
  fixes ok :: "'g \<Rightarrow> bool"
    and lookup :: "'g \<Rightarrow> 'k \<Rightarrow> 'c option"
    and put :: "'g \<Rightarrow> 'c \<Rightarrow> 'e + 'g"
    and drop_name :: "'g \<Rightarrow> 'n \<Rightarrow> 'e + 'g"
    and key :: "'c \<Rightarrow> 'k"
    and name :: "'c \<Rightarrow> 'n"
  assumes put_ok: "ok g \<Longrightarrow> put g c = Inr g' \<Longrightarrow> ok g'"
    and drop_ok: "ok g \<Longrightarrow> drop_name g i = Inr g' \<Longrightarrow> ok g'"
    and lookup_put: "ok g \<Longrightarrow> put g c = Inr g' \<Longrightarrow>
      lookup g' k = (if k = key c then Some c else
        case lookup g k of None \<Rightarrow> None | Some d \<Rightarrow> if name d = name c then None else Some d)"
    and lookup_drop: "ok g \<Longrightarrow> drop_name g i = Inr g' \<Longrightarrow>
      lookup g' k = (case lookup g k of None \<Rightarrow> None | Some d \<Rightarrow> if name d = i then None else Some d)"
begin

lemma put_then_lookup: "ok g \<Longrightarrow> put g c = Inr g' \<Longrightarrow> lookup g' (key c) = Some c"
  by (simp add: lookup_put)

lemma put_twice: "ok g \<Longrightarrow> put g c = Inr g' \<Longrightarrow> put g' c = Inr g'' \<Longrightarrow> lookup g'' = lookup g'"
  using put_ok by (fastforce simp: fun_eq_iff lookup_put split: option.splits)

lemma put_then_drop:
  assumes "ok g" "put g c = Inr g'" "drop_name g' (name c) = Inr g''"
  shows "lookup g'' k = (if k = key c then None else
    case lookup g k of None \<Rightarrow> None | Some d \<Rightarrow> if name d = name c then None else Some d)"
  using assms put_ok [OF assms(1,2)] by (auto simp: lookup_put lookup_drop split: option.splits)

end

definition port_lookup :: "graph \<Rightarrow> string \<times> string \<Rightarrow> ptransition option" where
  "port_lookup g k = wired_transition g (fst k) (snd k)"

definition transition_port :: "ptransition \<Rightarrow> string \<times> string" where
  "transition_port t = (from_node t, from_port t)"

lemma port_lookup_Some:
  assumes "valid_graph dt g"
  shows "port_lookup g k = Some t \<longleftrightarrow> t \<in> set (transitions g) \<and> transition_port t = k"
proof -
  have d: "distinct (map transition_port (transitions g))"
    using valid_graph_wf [OF assms] unfolding graph_wf_def transition_port_def by blast
  have "port_lookup g k = List.find (\<lambda>u. transition_port u = k) (transitions g)"
    by (cases k) (simp add: port_lookup_def wired_transition_def transition_port_def)
  then show ?thesis
    using find_by_key [OF d, of t] find_Some_in [of "\<lambda>u. transition_port u = k" "transitions g" t]
    by auto
qed

lemma upsert_transition_Inr:
  assumes v: "valid_graph dt g" and u: "upsert_transition dt g c = Inr g'"
  shows "valid_graph dt g' \<and> nodes g' = nodes g \<and> scenarios g' = scenarios g \<and>
    transitions g' = filter (\<lambda>t. transition_id t \<noteq> transition_id c \<and> transition_port t \<noteq> transition_port c)
      (transitions g) @ [c]"
proof -
  have g: "trim_labels g = g" using v by (simp add: valid_graph_iff)
  let ?ts = "filter (\<lambda>t. transition_id t \<noteq> transition_id c \<and>
                     (from_node t \<noteq> from_node c \<or> from_port t \<noteq> from_port c)) (transitions g) @ [c]"
  have p: "parse_graph dt (g\<lparr>transitions := ?ts\<rparr>) = Inr g'"
    using u v by (auto simp: upsert_transition_def outcome_simps valid_graph_def)
  have "trim_labels (g\<lparr>transitions := ?ts\<rparr>) = g\<lparr>transitions := ?ts\<rparr>"
    using g unfolding trim_labels_fix by simp
  then have "g' = g\<lparr>transitions := ?ts\<rparr>" using p by (simp add: parse_graph_accepts)
  then show ?thesis using parse_graph_valid [OF p] by (simp add: transition_port_def)
qed

lemma port_lookup_filter:
  assumes v: "valid_graph dt g" and v': "valid_graph dt g'"
    and same: "\<And>t. t \<in> set (transitions g') \<and> transition_port t = k \<longleftrightarrow>
      t \<in> set (transitions g) \<and> transition_port t = k \<and> P t"
  shows "port_lookup g' k =
    (case port_lookup g k of None \<Rightarrow> None | Some d \<Rightarrow> if P d then Some d else None)"
proof (cases "port_lookup g' k")
  case None
  have "\<not> P d" if "port_lookup g k = Some d" for d
  proof
    assume "P d"
    then have "port_lookup g' k = Some d"
      using that same [of d] by (simp add: port_lookup_Some [OF v] port_lookup_Some [OF v'])
    then show False using None by simp
  qed
  then show ?thesis using None by (simp split: option.splits)
next
  case (Some t)
  then have "t \<in> set (transitions g) \<and> transition_port t = k \<and> P t"
    using same [of t] by (simp add: port_lookup_Some [OF v'])
  then have "port_lookup g k = Some t \<and> P t" by (simp add: port_lookup_Some [OF v])
  then show ?thesis using Some by simp
qed

interpretation connectors: connector_store "valid_graph dt" port_lookup "upsert_transition dt"
  "remove_transition dt" transition_port transition_id
  for dt
proof unfold_locales
  fix g c g' k
  assume v: "valid_graph dt g" and u: "upsert_transition dt g c = Inr g'"
  note new = upsert_transition_Inr [OF v u]
  show v': "valid_graph dt g'" using new by blast
  show "port_lookup g' k = (if k = transition_port c then Some c else
        case port_lookup g k of None \<Rightarrow> None
        | Some d \<Rightarrow> if transition_id d = transition_id c then None else Some d)"
  proof (cases "k = transition_port c")
    case True
    then show ?thesis using new by (simp add: port_lookup_Some [OF v'])
  next
    case False
    have "port_lookup g' k = (case port_lookup g k of None \<Rightarrow> None
        | Some d \<Rightarrow> if transition_id d \<noteq> transition_id c then Some d else None)"
      by (rule port_lookup_filter [OF v v']) (use new False in auto)
    then show ?thesis using False by (auto split: option.splits)
  qed
next
  fix g i g' k
  assume v: "valid_graph dt g" and r: "remove_transition dt g i = Inr g'"
  note new = remove_transition_Inr [OF v r]
  show v': "valid_graph dt g'" using new by blast
  have "port_lookup g' k = (case port_lookup g k of None \<Rightarrow> None
      | Some d \<Rightarrow> if transition_id d \<noteq> i then Some d else None)"
    by (rule port_lookup_filter [OF v v']) (use new in auto)
  then show "port_lookup g' k = (case port_lookup g k of None \<Rightarrow> None
      | Some d \<Rightarrow> if transition_id d = i then None else Some d)"
    by (auto split: option.splits)
qed

end
