(* ===== verification/Prototype_Fixture.thy ===== *)
theory Prototype_Fixture
  imports Prototype_Safety Prototype_Edit
begin

text \<open>
  The graph \<open>prototypeGraphFixture\<close> of \<open>packages/core/src/prototype-graph.ts\<close>, evaluated
  through the parser, and the properties of the prototype components with their witnesses on it.
\<close>

section \<open>The fixture\<close>

definition port :: "string \<Rightarrow> string \<Rightarrow> trigger \<Rightarrow> action_port" where
  "port i l t = \<lparr>port_id = i, port_label = l, port_trigger = t\<rparr>"

definition connector :: "string \<Rightarrow> transition_kind \<Rightarrow> string \<Rightarrow> string \<Rightarrow> ptransition" where
  "connector i k n p = \<lparr>transition_id = i, transition_kind = k, from_node = n, from_port = p\<rparr>"

definition fixture_nodes :: "pnode list" where
  "fixture_nodes =
       [\<lparr>node_id = ''orders'', node_label = ''Orders'', node_position = \<lparr>px = 80, py = 170\<rparr>,
         node_ports = [port ''create'' ''Create order'' OnClick, port ''filter-empty'' ''Show empty'' OnChange],
         node_kind = Screen ''/orders''\<rparr>,
        \<lparr>node_id = ''new-order'', node_label = ''New order'', node_position = \<lparr>px = 420, py = 80\<rparr>,
         node_ports = [port ''save'' ''Save order'' OnSubmit, port ''cancel'' ''Cancel'' OnClick,
           port ''expire'' ''Expire order draft'' (OnTimeout 10000)],
         node_kind = Page ''/orders/new''\<rparr>,
        \<lparr>node_id = ''orders-empty'', node_label = ''Orders empty'', node_position = \<lparr>px = 420, py = 359\<rparr>,
         node_ports = [port ''restore'' ''Restore orders'' OnClick],
         node_kind = StateNode ''orders''\<rparr>,
        \<lparr>node_id = ''saved'', node_label = ''Order saved'', node_position = \<lparr>px = 760, py = 80\<rparr>,
         node_ports = [port ''dismiss'' ''Dismiss'' OnClick],
         node_kind = Overlay True\<rparr>]"

definition fixture_connectors :: "ptransition list" where
  "fixture_connectors =
       [connector ''create-order'' (Navigate ''new-order'') ''orders'' ''create'',
        connector ''filter-empty'' (SetState ''orders-empty'') ''orders'' ''filter-empty'',
        connector ''restore-orders'' (SetState ''orders-empty'') ''orders-empty'' ''restore'',
        connector ''save-order'' (OpenOverlay ''saved'') ''new-order'' ''save'',
        connector ''cancel-order'' Back ''new-order'' ''cancel'',
        connector ''dismiss-saved'' (CloseOverlay ''saved'') ''saved'' ''dismiss'',
        connector ''expire-order-draft'' ResetFlow ''new-order'' ''expire'']"

definition fixture_scenarios :: "scenario list" where
  "fixture_scenarios =
       [\<lparr>scenario_id = ''orders-default'', scenario_name = ''Orders default'', start_node = ''orders'',
         initial_state = None, expected_path = [''orders'', ''new-order'']\<rparr>,
        \<lparr>scenario_id = ''orders-empty'', scenario_name = ''Orders empty'', start_node = ''orders'',
         initial_state = Some ''orders-empty'', expected_path = [''orders'', ''orders-empty'']\<rparr>]"

definition fixture_data :: "(string \<times> json) list" where
  "fixture_data =
       [(''orders'', JArr [JObj [(''id'', JStr ''order-1042''), (''customer'', JStr ''Ada''),
           (''total'', JStr ''$128.00'')]]),
        (''viewer'', JObj [(''name'', JStr ''Mina'')])]"

definition fixture_source :: graph where
  "fixture_source =
    \<lparr>graph_id = ''orders-flow'', graph_name = ''Orders prototype'',
     graph_project = \<lparr>ref_project_id = ''northstar'', ref_owner = ''Mina''\<rparr>,
     graph_revision = \<lparr>revision_id = ''orders-r1'', revision_parent = None,
       revision_created = ''2026-07-24T05:00:00.000Z'', revision_summary = ''Initial orders prototype''\<rparr>,
     graph_handoff = \<lparr>handoff_status = HandoffDraft, handoff_owner = ''Mina'',
       handoff_summary = ''Ready for local prototype review''\<rparr>,
     initial_node = ''orders'',
     nodes = fixture_nodes, transitions = fixture_connectors, scenarios = fixture_scenarios,
     fixtures = fixture_data, view_state = None\<rparr>"

lemma fixture_select [simp]:
  "nodes fixture_source = fixture_nodes"
  "transitions fixture_source = fixture_connectors"
  "scenarios fixture_source = fixture_scenarios"
  "fixtures fixture_source = fixture_data"
  "view_state fixture_source = None"
  "initial_node fixture_source = ''orders''"
  by (simp_all add: fixture_source_def)

lemmas fixture_eval = fixture_nodes_def fixture_connectors_def fixture_scenarios_def fixture_data_def
  port_def connector_def

lemmas text_eval = proto_id_ok_def label_ok_def is_id_char_def is_letter_def is_lower_def
  is_upper_def is_digit_def js_trim_def is_js_space_def

lemmas schema_eval = base_node_ok_def pnode_ok_def action_port_ok_def point_ok_def
  ptransition_ok_def scenario_ok_def project_ref_ok_def revision_ok_def handoff_ok_def
  view_state_ok_def fixtures_ok_def fixture_key_ok_def graph_fields_ok_def
  route_ok_def starts_with_def contains_ascii_control_def url_keeps_origin_def

lemma fixture_trims: "trim_labels fixture_source = fixture_source"
  by (simp add: trim_labels_fix trim_node_fix trim_port_fix trim_scenario_fix)
    (simp add: fixture_source_def fixture_eval text_eval)

lemma fixture_fields: "graph_fields_ok (\<lambda>t. True) fixture_source"
  by (simp add: schema_eval text_eval fixture_source_def fixture_eval)

lemma named_node_ex:
  "surface g i \<longleftrightarrow> list_ex (\<lambda>n. i = node_id n \<and> is_surface (Some n)) (nodes g)"
  "owned_state g i p \<longleftrightarrow> list_ex (\<lambda>n. i = node_id n \<and> node_kind n = StateNode p) (nodes g)"
  "overlay g i \<longleftrightarrow> list_ex (\<lambda>n. i = node_id n \<and> is_overlay (Some n)) (nodes g)"
  "has_port g i p \<longleftrightarrow> list_ex (\<lambda>n. i = node_id n \<and> list_ex (\<lambda>q. p = port_id q) (node_ports n)) (nodes g)"
  by (auto simp: surface_def owned_state_def overlay_def has_port_def has_node_def list_ex_iff)

lemma fixture_kinds:
  "surface fixture_source i \<longleftrightarrow> i = ''orders'' \<or> i = ''new-order''"
  "owned_state fixture_source i p \<longleftrightarrow> i = ''orders-empty'' \<and> ''orders'' = p"
  "overlay fixture_source i \<longleftrightarrow> i = ''saved''"
  by (simp_all add: named_node_ex is_surface_def is_overlay_def fixture_nodes_def)

lemma fixture_has_port:
  "has_port fixture_source i p \<longleftrightarrow>
     (i = ''orders'' \<and> (p = ''create'' \<or> p = ''filter-empty'')) \<or>
     (i = ''new-order'' \<and> (p = ''save'' \<or> p = ''cancel'' \<or> p = ''expire'')) \<or>
     (i = ''orders-empty'' \<and> p = ''restore'') \<or> (i = ''saved'' \<and> p = ''dismiss'')"
  by (simp add: named_node_ex fixture_nodes_def port_def)

lemma fixture_payload: "fixture_issue (JObj (fixtures fixture_source)) = None"
  by (simp add: fixture_issue_def fixture_scan.simps fixture_eval fixture_key_ok_def
      max_fixture_keys_def max_fixture_bytes_def max_fixture_depth_def)

lemma fixture_transitions: "\<forall>t \<in> set fixture_connectors. transition_wf fixture_source t"
  by (simp add: fixture_connectors_def connector_def transition_wf_def fixture_has_port fixture_kinds
      owner_of_def)

lemma fixture_scenarios: "\<forall>s \<in> set fixture_scenarios. scenario_wf fixture_source s"
  by (simp add: fixture_scenarios_def scenario_wf_def fixture_kinds) (simp add: wired_def fixture_eval)

lemma fixture_wf: "graph_wf fixture_source"
  unfolding graph_wf_def
  using fixture_payload fixture_transitions fixture_scenarios
  by (simp add: fixture_kinds view_state_wf_def) (simp add: fixture_eval routes_def is_surface_def)

lemma fixture_valid: "valid_graph (\<lambda>t. True) fixture_source"
  by (simp add: valid_graph_iff fixture_trims fixture_fields fixture_wf)

lemma fixture_parses: "parse_graph (\<lambda>t. True) fixture_source = Inr fixture_source"
  using fixture_valid by (simp add: valid_graph_def)

end
