(* ===== verification/Prototype_Theorems.thy ===== *)
theory Prototype_Theorems
  imports Prototype_Fixture
begin

text \<open>
  The properties of the prototype components (\<open>packages/core/src/prototype-graph.ts\<close>): what the
  graph parser accepts, what every run of the runtime keeps, when a persisted snapshot is
  restored, and what the editor operations do.  Each is instantiated on the program's own
  \<open>prototypeGraphFixture\<close>.
\<close>

section \<open>Parsing\<close>

text \<open>C34. The graph parser accepts exactly the values whose trimmed form satisfies the field schema
  and the declarative well-formedness \<open>graph_wf\<close>, and returns that trimmed form: the imperative
  list of semantic checks is complete and raises no issue of its own.\<close>

theorem parse_graph_decides:
  "parse_graph dt v = Inr g \<longleftrightarrow> g = trim_labels v \<and> graph_fields_ok dt g \<and> graph_wf g"
  by (rule parse_graph_accepts)

section \<open>Runs of the runtime\<close>

lemma fixture_initial:
  "create_runtime (\<lambda>t. True) fixture_source (Some ''orders-default'') =
     Inr (fixture_source, \<lparr>active_node = ''orders'', active_state = None, active_overlay = None,
       scenario_ref = Some ''orders-default'', history = [''orders''], history_lens = [0],
       path_ids = [], snapshot_fixtures = fixture_data\<rparr>)"
  by (simp add: create_runtime_def fixture_parses initial_snapshot_def scenario_for_def
      fixture_scenarios_def Let_def)

text \<open>Each call of the run below is accepted: open the order form, save it, close the overlay.\<close>

definition order_calls :: "runtime_call list" where
  "order_calls = [Dispatch (Trigger ''orders'' ''create''), Dispatch (Trigger ''new-order'' ''save''),
     Dispatch (Trigger ''saved'' ''dismiss'')]"

definition order_snapshot :: snapshot where
  "order_snapshot = \<lparr>active_node = ''new-order'', active_state = None, active_overlay = None,
     scenario_ref = Some ''orders-default'', history = [''orders'', ''new-order''],
     history_lens = [0, 1], path_ids = [''create-order'', ''save-order'', ''dismiss-saved''],
     snapshot_fixtures = fixture_data\<rparr>"

lemmas step_eval = attempt_def object_step_def dispatch_def runtime_action_ok_def
  wired_transition_def apply_transition_def active_surface_def Let_def

lemma fixture_run:
  assumes "create_runtime (\<lambda>t. True) fixture_source (Some ''orders-default'') = Inr (g, s)"
  shows "attempts (object_step (\<lambda>t. True)) (g, s) order_calls = (fixture_source, order_snapshot)"
proof -
  have "g = fixture_source" and s: "s = \<lparr>active_node = ''orders'', active_state = None, active_overlay = None,
       scenario_ref = Some ''orders-default'', history = [''orders''], history_lens = [0],
       path_ids = [], snapshot_fixtures = fixture_data\<rparr>"
    using assms by (simp_all add: fixture_initial)
  then show ?thesis
    by (simp add: order_calls_def step_eval fixture_connectors_def connector_def order_snapshot_def text_eval)
qed

text \<open>C31. Whatever sequence of dispatches, backs and restores a runtime object is given, rejected
  calls included, its graph stays the one it was created with and its snapshot stays well formed:
  the active state belongs to the active screen, the overlay is an overlay, the history starts
  non-empty, ends in the active node and holds screens and pages only, and the history lengths
  are a sorted list of prefixes of the path.\<close>

theorem runtime_snapshot_wellformed:
  assumes "create_runtime dt v sid = Inr (g, s0)"
    and "attempts (object_step dt) (g, s0) calls = (g', s)"
  shows "g' = g \<and> snapshot_inv g s"
  using run_inv [OF assms] by (simp add: runtime_inv_def)

theorem runtime_snapshot_wellformed_witness: "snapshot_inv fixture_source order_snapshot"
  using runtime_snapshot_wellformed [OF fixture_initial fixture_run [OF fixture_initial]] by simp

text \<open>C32. Save and restore round trip: a snapshot reached by any run of a runtime object whose
  current scenario starts without an initial state, and whose history and path are within the
  persisted sizes, is accepted by \<open>parsePrototypeRuntimeSnapshot\<close> and restored as it is.\<close>

theorem runtime_snapshot_restores:
  assumes "create_runtime dt v sid = Inr (g, s0)"
    and "attempts (object_step dt) (g, s0) calls = (g', s)"
    and "stateless_start g (scenario_ref s)"
    and "length (history s) \<le> 501" and "length (path_ids s) \<le> 2000"
  shows "parse_snapshot dt s g = Inr s"
  using run_inv [OF assms(1,2)] assms(3-5)
  by (simp add: parse_snapshot_iff runtime_inv_def replayable_def)

theorem runtime_snapshot_restores_witness:
  "parse_snapshot (\<lambda>t. True) order_snapshot fixture_source = Inr order_snapshot"
  by (rule runtime_snapshot_restores [OF fixture_initial fixture_run [OF fixture_initial]])
    (simp_all add: stateless_start_def fixture_scenarios_def order_snapshot_def)

text \<open>C33. A persisted snapshot is accepted against a valid graph exactly when replaying its own
  path from its scenario's start gives it back and it respects the persisted sizes; nothing forged
  can be restored.\<close>

theorem restore_iff_replay:
  assumes "valid_graph dt g"
  shows "parse_snapshot dt s g = Inr s' \<longleftrightarrow>
     s' = s \<and> replay g (scenario_ref s) (path_ids s) = Inr s \<and>
     length (history s) \<le> 501 \<and> length (path_ids s) \<le> 2000"
  using assms by (rule parse_snapshot_iff)

lemma order_replay:
  "replay fixture_source (Some ''orders-default'') [''create-order'', ''save-order'', ''dismiss-saved''] =
     Inr order_snapshot"
  by (simp add: replay_def initial_snapshot_def scenario_for_def fixture_scenarios_def
      fixture_connectors_def connector_def apply_transition_def active_surface_def Let_def
      order_snapshot_def)

theorem restore_iff_replay_witness:
  "\<not> (\<exists>s'. parse_snapshot (\<lambda>t. True) (order_snapshot\<lparr>active_node := ''orders''\<rparr>) fixture_source = Inr s')"
  using restore_iff_replay [OF fixture_valid, of "order_snapshot\<lparr>active_node := ''orders''\<rparr>"] order_replay
  by (auto simp: order_snapshot_def)

text \<open>Going back clears the active state but the replay of the shortened path re-enters the
  scenario's initial state, so for a scenario with an initial state the snapshot that the runtime
  itself produces is refused when it is restored.\<close>

theorem back_loses_initial_state:
  "andThen (create_runtime (\<lambda>t. True) fixture_source (Some ''orders-empty'')) (\<lambda>(g, s).
   andThen (dispatch g s (Trigger ''orders'' ''create'')) (\<lambda>s1.
   andThen (dispatch g s1 GoBack) (\<lambda>s2. parse_snapshot (\<lambda>t. True) s2 g))) =
     Inl (RuntimeError ''Invalid prototype runtime snapshot history'')"
proof -
  let ?i = "\<lparr>active_node = ''orders'', active_state = Some ''orders-empty'', active_overlay = None,
       scenario_ref = Some ''orders-empty'', history = [''orders''], history_lens = [0],
       path_ids = [], snapshot_fixtures = fixture_data\<rparr>"
  let ?b = "?i\<lparr>active_state := None\<rparr>"
  have init: "initial_snapshot fixture_source (Some ''orders-empty'') = Inr ?i"
    by (simp add: initial_snapshot_def scenario_for_def fixture_scenarios_def Let_def)
  have create: "create_runtime (\<lambda>t. True) fixture_source (Some ''orders-empty'') = Inr (fixture_source, ?i)"
    by (simp add: create_runtime_def fixture_parses init) (simp add: fixture_scenarios_def)
  have go: "dispatch fixture_source ?i (Trigger ''orders'' ''create'') =
      Inr (?i\<lparr>active_node := ''new-order'', active_state := None, history := [''orders'', ''new-order''],
        history_lens := [0, 1], path_ids := [''create-order'']\<rparr>)" (is "_ = Inr ?n")
    by (simp add: step_eval fixture_connectors_def connector_def text_eval)
  have ret: "dispatch fixture_source ?n GoBack = Inr ?b"
    by (simp add: dispatch_def runtime_action_ok_def back_snapshot_def Let_def)
  have "replay fixture_source (Some ''orders-empty'') [] = Inr ?i" by (simp add: replay_def init)
  moreover have "snapshot_fields_ok ?b"
    by (simp add: snapshot_fields_ok_def optional_id_ok_def text_eval fixtures_ok_def fixture_data_def
        fixture_key_ok_def)
  ultimately have "parse_snapshot (\<lambda>t. True) ?b fixture_source =
      Inl (RuntimeError ''Invalid prototype runtime snapshot history'')"
    using fixture_payload by (simp add: parse_snapshot_def fixture_parses)
  then show ?thesis by (simp only: create go ret andThen_Inr prod.case)
qed

text \<open>Back undoes a navigation: going back from a screen that a connector navigated to returns
  to the screen the user left, with its state and overlay closed and the path cut to the length
  it had when that screen was entered.\<close>

theorem navigate_then_back:
  assumes "snapshot_inv g s" and "transition_kind t = Navigate x"
    and "apply_transition g s t = Inr s'"
  shows "back_snapshot s' = s\<lparr>active_state := None, active_overlay := None,
    path_ids := take (last (history_lens s)) (path_ids s)\<rparr>"
proof -
  have s': "s' = s\<lparr>active_node := x, active_state := None, active_overlay := None,
      history := history s @ [x], history_lens := history_lens s @ [Suc (length (path_ids s))],
      path_ids := path_ids s @ [transition_id t]\<rparr>"
    using assms(2,3) by (auto simp: apply_transition_def outcome_simps Let_def)
  obtain ls l where ls: "history_lens s = ls @ [l]"
    using assms(1) unfolding snapshot_inv_def by (metis length_0_conv rev_exhaust)
  have "l \<le> length (path_ids s)" "history s \<noteq> []" "last (history s) = active_node s"
    using assms(1) ls by (simp_all add: snapshot_inv_def)
  then show ?thesis using s' ls
    by (intro snapshot.equality) (simp_all add: back_snapshot_def Let_def nth_append butlast_append)
qed

definition empty_list_snapshot :: snapshot where
  "empty_list_snapshot = \<lparr>active_node = ''orders'', active_state = Some ''orders-empty'', active_overlay = None,
     scenario_ref = Some ''orders-default'', history = [''orders''], history_lens = [0],
     path_ids = [''filter-empty''], snapshot_fixtures = fixture_data\<rparr>"

lemma empty_list_snapshot_inv: "snapshot_inv fixture_source empty_list_snapshot"
  by (simp add: snapshot_inv_def empty_list_snapshot_def fixture_kinds fixture_scenarios_def
      fixture_connectors_def connector_def)

theorem navigate_then_back_witness:
  "\<exists>s'. apply_transition fixture_source empty_list_snapshot
      (connector ''create-order'' (Navigate ''new-order'') ''orders'' ''create'') = Inr s' \<and>
    back_snapshot s' = empty_list_snapshot\<lparr>active_state := None, path_ids := []\<rparr>"
proof -
  let ?t = "connector ''create-order'' (Navigate ''new-order'') ''orders'' ''create''"
  obtain s' where s': "apply_transition fixture_source empty_list_snapshot ?t = Inr s'"
    by (simp add: apply_transition_def connector_def active_surface_def empty_list_snapshot_def Let_def)
  have "transition_kind ?t = Navigate ''new-order''" by (simp add: connector_def)
  from navigate_then_back [OF empty_list_snapshot_inv this s'] s'
  show ?thesis by (simp add: empty_list_snapshot_def)
qed

section \<open>Timeouts\<close>

lemma active_ids_iff: "i \<in> set (active_ids s) \<longleftrightarrow> active_surface s i"
  by (auto simp: active_ids_def active_surface_def split: option.splits)

lemma scheduled_timeoutsE:
  assumes "(n, p, ms) \<in> set (scheduled_timeouts g s)"
  obtains m q t where "node_by_id g n = Some m" "q \<in> set (node_ports m)" "port_id q = p"
    "port_trigger q = OnTimeout ms" "t \<in> set (transitions g)" "from_node t = n" "from_port t = p"
    "active_surface s n"
proof -
  let ?timer = "\<lambda>i q. case port_trigger q of
             OnTimeout ms \<Rightarrow> (if list_ex (\<lambda>t. from_node t = i \<and> from_port t = port_id q) (transitions g)
                then [(i, port_id q, ms)] else [])
           | _ \<Rightarrow> []"
  from assms obtain i where i: "i \<in> set (active_ids s)"
    and mem: "(n, p, ms) \<in> set (case node_by_id g i of None \<Rightarrow> []
        | Some m \<Rightarrow> concat (map (?timer i) (node_ports m)))"
    unfolding scheduled_timeouts_def set_concat set_map by blast
  then obtain m where m: "node_by_id g i = Some m" by (cases "node_by_id g i") auto
  with mem obtain q where q: "q \<in> set (node_ports m)" and "(n, p, ms) \<in> set (?timer i q)"
    by auto
  then have "n = i" "port_id q = p" "port_trigger q = OnTimeout ms"
    and "list_ex (\<lambda>t. from_node t = i \<and> from_port t = port_id q) (transitions g)"
    by (simp_all split: trigger.splits if_splits)
  then show ?thesis using that i m q by (auto simp: list_ex_iff active_ids_iff)
qed

lemma apply_active_errors:
  assumes wf: "graph_wf g" and inv: "snapshot_inv g s" and a: "active_surface s (from_node t)"
    and e: "apply_transition g s t = Inl e"
  shows "e = RuntimeError ''Overlay is not active''"
proof -
  have "\<exists>i. initial_snapshot g (scenario_ref s) = Inr i"
  proof (cases "scenario_ref s")
    case (Some i)
    then obtain sc where "sc \<in> set (scenarios g)" "scenario_id sc = i"
      using inv by (auto simp: snapshot_inv_def)
    then show ?thesis using wf_find_scenario [OF wf, of sc] Some
      by (simp add: initial_snapshot_def scenario_for_def Let_def)
  qed (simp add: initial_snapshot_def scenario_for_def Let_def)
  then show ?thesis using a e
    by (auto simp: apply_transition_def outcome_simps Let_def split: transition_kind.splits)
qed

text \<open>Every timer that the runtime schedules has a delay between 10 ms and 5 minutes, belongs to
  an active node, and, when it fires before the snapshot changes, either moves the runtime to a
  well-formed snapshot or reports the one failure a wired connector can still have, closing an
  overlay that is not open; it is never reported as unwired or stale.\<close>

theorem scheduled_timeouts_fire:
  assumes "valid_graph dt g" and "snapshot_inv g s" and "(n, p, ms) \<in> set (scheduled_timeouts g s)"
  shows "10 \<le> ms \<and> ms \<le> 300000 \<and> active_surface s n \<and>
    ((\<exists>s'. fire_timeout g s n p = TimeoutSnapshot s' \<and> snapshot_inv g s') \<or>
     fire_timeout g s n p = TimeoutFailure n p (RuntimeError ''Overlay is not active''))"
proof -
  note wf = valid_graph_wf [OF assms(1)]
  from assms(3) obtain m q t where m: "node_by_id g n = Some m" "q \<in> set (node_ports m)"
      "port_id q = p" "port_trigger q = OnTimeout ms"
    and t: "t \<in> set (transitions g)" "from_node t = n" "from_port t = p"
    and a: "active_surface s n"
    by (rule scheduled_timeoutsE)
  have min: "m \<in> set (nodes g)" "node_id m = n" using m(1) by (auto simp: node_by_id_def dest: find_Some_in)
  have fields: "pnode_ok m" "ptransition_ok t"
    using assms(1) min t(1) by (auto simp: valid_graph_iff graph_fields_ok_def list_all_iff)
  have q: "action_port_ok q" using fields(1) m(2) by (auto simp: pnode_ok_def base_node_ok_def list_all_iff)
  have ids: "runtime_action_ok (Trigger n p)"
    using fields(2) t by (auto simp: runtime_action_ok_def ptransition_ok_def)
  have w: "wired_transition g n p = Some t"
    using port_lookup_Some [OF assms(1), of "(n, p)" t] t by (simp add: port_lookup_def transition_port_def)
  have d: "dispatch g s (Trigger n p) = apply_transition g s t" using ids w by (simp add: dispatch_def)
  have "fire_timeout g s n p = TimeoutFailure n p (RuntimeError ''Overlay is not active'') \<or>
    (\<exists>s'. fire_timeout g s n p = TimeoutSnapshot s' \<and> snapshot_inv g s')"
  proof (cases "apply_transition g s t")
    case (Inl e)
    then show ?thesis using apply_active_errors [OF wf assms(2) _ Inl] a t(2) d by (simp add: fire_timeout_def)
  next
    case (Inr s')
    then show ?thesis using apply_transition_inv [OF wf t(1) assms(2) Inr] d by (simp add: fire_timeout_def)
  qed
  then show ?thesis using q m(3,4) a by (auto simp: action_port_ok_def)
qed

theorem scheduled_timeouts_fire_witness:
  "\<exists>s'. fire_timeout fixture_source order_snapshot ''new-order'' ''expire'' = TimeoutSnapshot s' \<and>
     snapshot_inv fixture_source s'"
proof -
  have inv: "snapshot_inv fixture_source order_snapshot"
    by (simp add: snapshot_inv_def order_snapshot_def fixture_kinds fixture_scenarios_def
        fixture_connectors_def connector_def)
  have "(''new-order'', ''expire'', 10000) \<in> set (scheduled_timeouts fixture_source order_snapshot)"
    by (simp add: scheduled_timeouts_def active_ids_def order_snapshot_def node_by_id_def fixture_eval)
  from scheduled_timeouts_fire [OF fixture_valid inv this] show ?thesis
    by (auto simp: fire_timeout_def dispatch_def runtime_action_ok_def text_eval wired_transition_def
        fixture_connectors_def connector_def apply_transition_def active_surface_def order_snapshot_def
        initial_snapshot_def scenario_for_def fixture_scenarios_def Let_def)
qed

text \<open>A timer whose node is no longer active when it fires changes nothing and reports
  nothing.\<close>

theorem stale_timeout_silent:
  assumes "\<not> active_surface s n"
  shows "fire_timeout g s n p = TimeoutStale"
proof -
  have "\<exists>e. dispatch g s (Trigger n p) = Inl e"
    using assms wired_transition_in [of g n p]
    by (auto simp: dispatch_def failIf_def apply_transition_def split: option.splits)
  then show ?thesis using assms by (auto simp: fire_timeout_def)
qed

theorem stale_timeout_silent_witness:
  "fire_timeout fixture_source empty_list_snapshot ''new-order'' ''expire'' = TimeoutStale"
  by (rule stale_timeout_silent) (simp add: active_surface_def empty_list_snapshot_def)

section \<open>Editing connectors\<close>

definition wired_prefix :: "ptransition list \<Rightarrow> scenario \<Rightarrow> scenario \<Rightarrow> bool" where
  "wired_prefix ts s s' \<longleftrightarrow>
     (\<exists>k \<ge> 1. s' = s\<lparr>expected_path := take k (expected_path s)\<rparr> \<and>
        successively (wired ts) (expected_path s') \<and>
        (k < length (expected_path s) \<longrightarrow>
           \<not> wired ts (expected_path s ! (k - 1)) (expected_path s ! k)))"

lemma truncate_wired_prefix: "expected_path s \<noteq> [] \<Longrightarrow> wired_prefix ts s (truncate_scenario ts s)"
  unfolding wired_prefix_def by (erule truncate_scenario_spec [where ts = ts]) (auto intro!: exI)

text \<open>Removing an existing connector from a valid graph always succeeds: the result is a valid
  graph without that connector, and the expected path of every scenario is cut to its longest
  prefix whose steps are still wired, never to the empty path.\<close>

theorem remove_transition_succeeds:
  assumes "valid_graph dt g" and "t \<in> set (transitions g)"
  shows "\<exists>g'. remove_transition dt g (transition_id t) = Inr g' \<and> valid_graph dt g' \<and>
    transitions g' = filter (\<lambda>u. transition_id u \<noteq> transition_id t) (transitions g) \<and>
    list_all2 (wired_prefix (transitions g')) (scenarios g) (scenarios g')"
proof -
  obtain g' where r: "remove_transition dt g (transition_id t) = Inr g'"
    using remove_transition_accepts [OF assms] by blast
  have "expected_path s \<noteq> []" if "s \<in> set (scenarios g)" for s
    using wf_scenario [OF valid_graph_wf [OF assms(1)] that] by (simp add: scenario_wf_def)
  then show ?thesis using remove_transition_Inr [OF assms(1) r] r truncate_wired_prefix
    by (auto simp: list_all2_conv_all_nth)
qed

lemma create_order_connector:
  "connector ''create-order'' (Navigate ''new-order'') ''orders'' ''create'' \<in> set (transitions fixture_source)"
  by (simp add: fixture_connectors_def)

theorem remove_transition_succeeds_witness:
  "\<exists>g'. remove_transition (\<lambda>t. True) fixture_source ''create-order'' = Inr g' \<and>
     map transition_id (transitions g') = [''filter-empty'', ''restore-orders'', ''save-order'',
       ''cancel-order'', ''dismiss-saved'', ''expire-order-draft'']"
proof -
  have i: "transition_id (connector ''create-order'' (Navigate ''new-order'') ''orders'' ''create'') = ''create-order''"
    by (simp add: connector_def)
  obtain g' where g': "remove_transition (\<lambda>t. True) fixture_source ''create-order'' = Inr g'"
      "transitions g' = filter (\<lambda>u. transition_id u \<noteq> ''create-order'') (transitions fixture_source)"
    using remove_transition_succeeds [OF fixture_valid create_order_connector, unfolded i] by blast
  have "map transition_id (filter (\<lambda>u. transition_id u \<noteq> ''create-order'') fixture_connectors) =
      [''filter-empty'', ''restore-orders'', ''save-order'', ''cancel-order'', ''dismiss-saved'',
       ''expire-order-draft'']"
    by (simp add: fixture_connectors_def connector_def)
  then show ?thesis using g' by (metis fixture_select(2))
qed

text \<open>The connectors that an upsert leaves, with the new one at the end.\<close>

definition upserted :: "graph \<Rightarrow> ptransition \<Rightarrow> ptransition list" where
  "upserted g c = filter (\<lambda>t. transition_id t \<noteq> transition_id c \<and>
     (from_node t \<noteq> from_node c \<or> from_port t \<noteq> from_port c)) (transitions g) @ [c]"

lemma upsert_transition_accepts:
  assumes v: "valid_graph dt g"
  shows "(\<exists>g'. upsert_transition dt g c = Inr g') \<longleftrightarrow>
    ptransition_ok c \<and> transition_wf g c \<and> length (upserted g c) \<le> 2000 \<and>
    (\<forall>s \<in> set (scenarios g). successively (wired (upserted g c)) (expected_path s))"
proof -
  let ?g = "g\<lparr>transitions := upserted g c\<rparr>"
  have g: "trim_labels g = g" "graph_fields_ok dt g" "graph_wf g" using v by (simp_all add: valid_graph_iff)
  have trim: "trim_labels ?g = ?g" using g(1) unfolding trim_labels_fix by simp
  have "graph_fields_ok dt ?g \<longleftrightarrow> ptransition_ok c \<and> length (upserted g c) \<le> 2000"
    using g(2) by (auto simp: graph_fields_ok_def list_all_iff upserted_def)
  moreover have "graph_wf ?g \<longleftrightarrow> transition_wf g c \<and>
      (\<forall>s \<in> set (scenarios g). successively (wired (upserted g c)) (expected_path s))"
    using g(3) by (auto simp: graph_wf_def upserted_def scenario_wf_def distinct_map inj_on_def)
  moreover have "upsert_transition dt g c = parse_graph dt ?g"
    using v by (simp add: upsert_transition_def upserted_def valid_graph_def)
  moreover have "(\<exists>g'. parse_graph dt ?g = Inr g') \<longleftrightarrow> graph_fields_ok dt ?g \<and> graph_wf ?g"
    by (simp add: parse_graph_accepts trim)
  ultimately show ?thesis by (simp only:) blast
qed

text \<open>Upserting a connector into a valid graph is accepted exactly when the connector is well
  formed, its target kind fits, the connector limit holds and every scenario path is still wired;
  it then sits on its action port, and every other port is as it was, except that a connector of
  the same name on another port is gone: the connector moved.\<close>

theorem upsert_transition_lookup:
  assumes "valid_graph dt g"
  shows "((\<exists>g'. upsert_transition dt g c = Inr g') \<longleftrightarrow>
      ptransition_ok c \<and> transition_wf g c \<and> length (upserted g c) \<le> 2000 \<and>
      (\<forall>s \<in> set (scenarios g). successively (wired (upserted g c)) (expected_path s))) \<and>
    (\<forall>g'. upsert_transition dt g c = Inr g' \<longrightarrow> valid_graph dt g' \<and>
      wired_transition g' n p =
        (if n = from_node c \<and> p = from_port c then Some c
         else case wired_transition g n p of
           None \<Rightarrow> None
         | Some d \<Rightarrow> if transition_id d = transition_id c then None else Some d))"
proof (intro conjI allI impI)
  show "(\<exists>g'. upsert_transition dt g c = Inr g') \<longleftrightarrow>
      ptransition_ok c \<and> transition_wf g c \<and> length (upserted g c) \<le> 2000 \<and>
      (\<forall>s \<in> set (scenarios g). successively (wired (upserted g c)) (expected_path s))"
    using assms by (rule upsert_transition_accepts)
next
  fix g' assume u: "upsert_transition dt g c = Inr g'"
  show "valid_graph dt g'" using connectors.put_ok [OF assms u] .
  show "wired_transition g' n p =
        (if n = from_node c \<and> p = from_port c then Some c
         else case wired_transition g n p of
           None \<Rightarrow> None
         | Some d \<Rightarrow> if transition_id d = transition_id c then None else Some d)"
    using connectors.lookup_put [OF assms u, of "(n, p)"]
    by (simp add: port_lookup_def transition_port_def)
qed

theorem upsert_transition_lookup_witness:
  "\<exists>g'. upsert_transition (\<lambda>t. True) fixture_source
      (connector ''save-order'' ResetFlow ''saved'' ''dismiss'') = Inr g' \<and>
    wired_transition g' ''new-order'' ''save'' = None"
proof -
  let ?c = "connector ''save-order'' ResetFlow ''saved'' ''dismiss''"
  have "ptransition_ok ?c" by (simp add: ptransition_ok_def connector_def text_eval)
  moreover have "transition_wf fixture_source ?c"
    by (simp add: transition_wf_def connector_def fixture_has_port)
  moreover have "length (upserted fixture_source ?c) \<le> 2000"
    by (simp add: upserted_def fixture_connectors_def connector_def)
  moreover have "\<forall>s \<in> set (scenarios fixture_source). successively (wired (upserted fixture_source ?c)) (expected_path s)"
    by (simp add: upserted_def fixture_connectors_def connector_def fixture_scenarios_def wired_def)
  ultimately obtain g' where g': "upsert_transition (\<lambda>t. True) fixture_source ?c = Inr g'"
    using upsert_transition_lookup [OF fixture_valid, of ?c] by blast
  moreover have "wired_transition fixture_source ''new-order'' ''save'' =
      Some (connector ''save-order'' (OpenOverlay ''saved'') ''new-order'' ''save'')"
    by (simp add: wired_transition_def fixture_connectors_def connector_def)
  ultimately show ?thesis
    using upsert_transition_lookup [OF fixture_valid, of ?c "''new-order''" "''save''"]
    by (simp add: connector_def)
qed

section \<open>Differences\<close>

lemma scenario_json_inject: "scenario_json s = scenario_json s' \<longleftrightarrow> s = s'"
  by (cases s; cases s')
    (auto simp: scenario_json_def inj_map_eq_map inj_def split: option.splits)

lemma scenario_json_inert: "inert (scenario_json s)"
  by (auto simp: scenario_json_def list_all_iff split: option.splits)

lemma scenario_text_inject: "stringify (scenario_json s) = stringify (scenario_json s') \<longleftrightarrow> s = s'"
  by (simp add: stringify_eq_iff scenario_json_inert scenario_json_inject)

lemma scenario_text_before_found:
  assumes "graph_wf g" "s \<in> set (scenarios g)"
  shows "scenario_text_before g (scenario_id s) = Some (stringify (scenario_json s))"
proof -
  have "distinct (map fst (rev (map (\<lambda>s. (scenario_id s, stringify (scenario_json s))) (scenarios g))))"
    using assms(1) by (simp add: graph_wf_def rev_map [symmetric] comp_def)
  then show ?thesis using assms(2) by (auto simp: scenario_text_before_def intro!: map_of_is_SomeI)
qed

lemma filter_the_one: "distinct (map f xs) \<Longrightarrow> x \<in> set xs \<Longrightarrow> filter (\<lambda>y. y = f x) (map f xs) = [f x]"
  by (induction xs) (auto simp: filter_empty_conv, metis imageI)

lemma removed_ids:
  assumes "distinct (map f xs)" "x \<in> set xs"
  shows "filter (\<lambda>i. i \<notin> set (map f (filter (\<lambda>y. f y \<noteq> f x) xs))) (map f xs) = [f x]"
proof -
  have "filter (\<lambda>i. i \<notin> set (map f (filter (\<lambda>y. f y \<noteq> f x) xs))) (map f xs) = filter (\<lambda>y. y = f x) (map f xs)"
    by (rule filter_cong) auto
  then show ?thesis using filter_the_one [OF assms] by simp
qed

lemma truncate_changes: "truncate_scenario ts s \<noteq> s \<longleftrightarrow> first_unwired ts (expected_path s) \<noteq> None"
proof (cases "first_unwired ts (expected_path s)")
  case (Some k)
  then have "k < length (expected_path s)"
    unfolding first_unwired_def by (auto dest: find_Some_in)
  then have "length (take k (expected_path s)) \<noteq> length (expected_path s)" by simp
  then show ?thesis using Some by (cases s) (auto simp: truncate_scenario_def)
qed (simp add: truncate_scenario_def)

text \<open>The difference between a valid graph and the graph after removing one of its connectors
  names exactly that connector and exactly the scenarios whose path lost its wiring: no node and
  no other connector is reported.\<close>

theorem diff_of_removed_transition:
  assumes "valid_graph dt g" and "t \<in> set (transitions g)"
    and "remove_transition dt g (transition_id t) = Inr g'"
  shows "diff_graphs dt g g' = Inr
    \<lparr>from_revision = revision_id (graph_revision g), to_revision = revision_id (graph_revision g),
     added_nodes = [], removed_nodes = [], added_transitions = [],
     removed_transitions = [transition_id t],
     changed_scenarios = map scenario_id
       (filter (\<lambda>s. first_unwired (transitions g') (expected_path s) \<noteq> None) (scenarios g))\<rparr>"
proof -
  note wf = valid_graph_wf [OF assms(1)]
  let ?ts = "filter (\<lambda>u. transition_id u \<noteq> transition_id t) (transitions g)"
  have g': "g' = g\<lparr>scenarios := map (truncate_scenario ?ts) (scenarios g), transitions := ?ts\<rparr>"
    using remove_transition_accepts [OF assms(1,2)] assms(3) by simp
  have v': "parse_graph dt g' = Inr g'" "parse_graph dt g = Inr g"
    using remove_transition_Inr [OF assms(1,3)] assms(1) by (simp_all add: valid_graph_def)
  have d: "distinct (map transition_id (transitions g))" using wf by (simp add: graph_wf_def)
  have changed: "scenario_text_before g (scenario_id s) \<noteq> Some (stringify (scenario_json (truncate_scenario ?ts s)))
      \<longleftrightarrow> first_unwired ?ts (expected_path s) \<noteq> None" if "s \<in> set (scenarios g)" for s
    using truncate_changes [of ?ts s] scenario_text_before_found [OF wf that]
    by (simp add: scenario_text_inject eq_commute [of s])
  have "map scenario_id (filter (\<lambda>s. scenario_text_before g (scenario_id s) \<noteq> Some (stringify (scenario_json s)))
          (map (truncate_scenario ?ts) (scenarios g))) =
        map scenario_id (filter (\<lambda>s. first_unwired ?ts (expected_path s) \<noteq> None) (scenarios g))"
    by (simp add: filter_map comp_def truncate_scenario_fields changed cong: filter_cong)
  moreover have "transitions g' = ?ts" "nodes g' = nodes g" "graph_revision g' = graph_revision g"
      "scenarios g' = map (truncate_scenario ?ts) (scenarios g)"
    using g' by simp_all
  ultimately show ?thesis using removed_ids [OF d assms(2)]
    by (simp add: diff_graphs_def v' Let_def filter_empty_conv)
qed

theorem diff_of_removed_transition_witness:
  "\<exists>g' d. remove_transition (\<lambda>t. True) fixture_source ''create-order'' = Inr g' \<and>
     diff_graphs (\<lambda>t. True) fixture_source g' = Inr d \<and>
     removed_transitions d = [''create-order''] \<and> changed_scenarios d = [''orders-default'']"
proof -
  let ?c = "connector ''create-order'' (Navigate ''new-order'') ''orders'' ''create''"
  let ?ts = "filter (\<lambda>u. transition_id u \<noteq> transition_id ?c) fixture_connectors"
  obtain g' where g': "remove_transition (\<lambda>t. True) fixture_source (transition_id ?c) = Inr g'"
      and ts: "transitions g' = ?ts"
    using remove_transition_accepts [OF fixture_valid create_order_connector] by simp
  have "map scenario_id (filter (\<lambda>s. first_unwired ?ts (expected_path s) \<noteq> None) fixture_scenarios) =
      [''orders-default'']"
    by (simp add: first_unwired_def wired_def fixture_scenarios_def fixture_connectors_def connector_def
        upt_rec)
  then show ?thesis
    using diff_of_removed_transition [OF fixture_valid create_order_connector g'] g' ts
    by (simp add: connector_def)
qed

end
