(* ===== verification/Design_Input.thy ===== *)
theory Design_Input
  imports Json_Data Js_Time
begin

text \<open>
  The input boundary of \<open>packages/core/src/design-revision.ts\<close>: the budgeted copy of an
  \<open>unknown\<close> value (\<open>snapshot\<close>), the check of an object's keys (\<open>exact\<close>) and the scalar parsers.
  The copy is equal to its argument, so \<open>snapshot\<close> is the value itself when the budget suffices.
  An object is a list of entries with distinct keys; a list with a repeated key is no JavaScript
  object and is refused here.

  Lemmas: what each scalar parser accepts, and that the budget only grows.
\<close>

section \<open>Errors\<close>

datatype design_error =
  Invalid | Unsupported | Unauthorized | Stale | Conflict | Replay | Recovery

section \<open>The budget\<close>

definition max_commands :: nat where "max_commands = 10000"
definition max_snapshot_bytes :: nat where "max_snapshot_bytes = 1000000"
definition max_snapshot_nodes :: nat where "max_snapshot_nodes = 10000"
definition max_state_command_nodes :: nat where "max_state_command_nodes = max_commands * 2 + 1"
definition max_state_command_bytes :: nat where "max_state_command_bytes = max_commands * 128 + 4096"

record budget =
  budget_bytes :: nat
  budget_nodes :: nat
  command_bytes :: nat
  command_nodes :: nat

definition no_budget :: budget where
  "no_budget = \<lparr>budget_bytes = 0, budget_nodes = 0, command_bytes = 0, command_nodes = 0\<rparr>"

definition count_bytes :: "bool \<Rightarrow> string \<Rightarrow> budget \<Rightarrow> budget option" where
  "count_bytes scalar s b =
     (if scalar then
        (let n = command_bytes b + utf8_length s in
         if n > max_state_command_bytes then None else Some (b\<lparr>command_bytes := n\<rparr>))
      else
        (let n = budget_bytes b + utf8_length s in
         if n > max_snapshot_bytes then None else Some (b\<lparr>budget_bytes := n\<rparr>)))"

definition count_nodes :: "bool \<Rightarrow> nat \<Rightarrow> budget \<Rightarrow> budget option" where
  "count_nodes command k b =
     (if command then
        (let n = command_nodes b + k in
         if n > max_state_command_nodes then None else Some (b\<lparr>command_nodes := n\<rparr>))
      else
        (let n = budget_nodes b + k in
         if n > max_snapshot_nodes then None else Some (b\<lparr>budget_nodes := n\<rparr>)))"

definition is_string_value :: "json \<Rightarrow> bool" where
  "is_string_value v = (case v of JStr s \<Rightarrow> True | _ \<Rightarrow> False)"

text \<open>\<open>walk depth ids recognizes scalar value\<close>: the flags are \<open>stateCommandArray\<close>,
  \<open>recognizesStateCommandIds\<close> and \<open>stateCommandScalar\<close>.\<close>

fun walk :: "nat \<Rightarrow> bool \<Rightarrow> bool \<Rightarrow> bool \<Rightarrow> json \<Rightarrow> budget \<Rightarrow> budget option" where
  "walk depth ids recognizes scalar v b =
     (if depth > 32 then None
      else case v of
        JNull \<Rightarrow> count_nodes scalar 1 b
      | JBool x \<Rightarrow> count_nodes scalar 1 b
      | JNum n \<Rightarrow> count_nodes scalar 1 b
      | JDec d \<Rightarrow> count_nodes scalar 1 b
      | JStr s \<Rightarrow> Option.bind (count_nodes scalar 1 b) (count_bytes scalar s)
      | JArr xs \<Rightarrow>
          Option.bind (count_nodes False 1 b) (\<lambda>b1.
            if length xs > max_commands then None
            else Option.bind (count_nodes ids (length xs) b1)
              (budgeted (\<lambda>x. walk (depth + 1) False False (ids \<and> is_string_value x) x) xs))
      | JObj kvs \<Rightarrow>
          Option.bind (count_nodes False 1 b) (\<lambda>b1.
            if length kvs > max_commands \<or> \<not> distinct (map fst kvs) then None
            else budgeted (\<lambda>kv b2. Option.bind (count_bytes False (fst kv) b2)
              (walk (depth + 1) (recognizes \<and> depth = 0 \<and> fst kv = ''processedCommandIds'') False False (snd kv)))
              kvs b1)
      | JOther f \<Rightarrow> None)"

declare walk.simps [simp del]

definition snapshot_value :: "json \<Rightarrow> design_error + json" where
  "snapshot_value v = (if walk 0 False False False v no_budget = None then Inl Invalid else Inr v)"

definition snapshot_state_value :: "json \<Rightarrow> design_error + json" where
  "snapshot_state_value v = (if walk 0 False True False v no_budget = None then Inl Invalid else Inr v)"

section \<open>Objects\<close>

text \<open>\<open>record[name]\<close>; an absent property is \<open>undefined\<close>.\<close>

definition field :: "(string \<times> json) list \<Rightarrow> string \<Rightarrow> json" where
  "field kvs k = (case map_of kvs k of None \<Rightarrow> JOther NonObject | Some v \<Rightarrow> v)"

definition exact :: "json \<Rightarrow> string list \<Rightarrow> string list \<Rightarrow> design_error + (string \<times> json) list" where
  "exact v required optional =
     (case v of
        JObj kvs \<Rightarrow>
          failIf (list_ex (\<lambda>kv. fst kv \<notin> set (required @ optional)) kvs \<or>
              list_ex (\<lambda>k. k \<notin> fst ` set kvs) required) Invalid (Inr kvs)
      | _ \<Rightarrow> Inl Invalid)"

definition snapshot_rejecting :: "json \<Rightarrow> string \<Rightarrow> design_error + json" where
  "snapshot_rejecting v legacy =
     andThen (snapshot_value v) (\<lambda>captured.
       failIf (case captured of JObj kvs \<Rightarrow> field kvs ''format'' = JStr legacy | _ \<Rightarrow> False)
         Unsupported (Inr captured))"

definition undefined_json :: "json \<Rightarrow> bool" where
  "undefined_json v = (v = JOther NonObject)"

text \<open>\<open>value === undefined ? undefined : parse(value)\<close>\<close>

definition optional_field :: "(json \<Rightarrow> design_error + 'a) \<Rightarrow> json \<Rightarrow> design_error + 'a option" where
  "optional_field f v = (if undefined_json v then Inr None else andThen (f v) (\<lambda>x. Inr (Some x)))"

text \<open>\<open>{ ...input, name: value }\<close>\<close>

definition with_entry :: "string \<Rightarrow> json \<Rightarrow> (string \<times> json) list \<Rightarrow> (string \<times> json) list" where
  "with_entry k v kvs =
     (if k \<in> fst ` set kvs then map (\<lambda>kv. if fst kv = k then (k, v) else kv) kvs else kvs @ [(k, v)])"

section \<open>Scalars\<close>

definition identifier_ok :: "string \<Rightarrow> bool" where
  "identifier_ok s \<longleftrightarrow>
     (case s of [] \<Rightarrow> False | c # r \<Rightarrow>
        (is_letter c \<or> is_digit c) \<and> length r \<le> 127 \<and> list_all is_id_char r)"

definition is_lower_hex :: "char \<Rightarrow> bool" where
  "is_lower_hex c \<longleftrightarrow> is_digit c \<or> (97 \<le> code_unit c \<and> code_unit c \<le> 102)"

definition digest_ok :: "string \<Rightarrow> bool" where
  "digest_ok s \<longleftrightarrow> length s = 64 \<and> list_all is_lower_hex s"

definition max_safe_integer :: int where "max_safe_integer = 9007199254740991"

definition string_where :: "(string \<Rightarrow> bool) \<Rightarrow> json \<Rightarrow> design_error + string" where
  "string_where ok v = (case v of JStr s \<Rightarrow> (if ok s then Inr s else Inl Invalid) | _ \<Rightarrow> Inl Invalid)"

definition text_value :: "json \<Rightarrow> design_error + string" where
  "text_value = string_where identifier_ok"

definition digest :: "json \<Rightarrow> design_error + string" where
  "digest = string_where digest_ok"

definition integer :: "json \<Rightarrow> design_error + int" where
  "integer v = (case v of
      JNum n \<Rightarrow> (if 1 \<le> n \<and> n \<le> max_safe_integer then Inr n else Inl Invalid)
    | _ \<Rightarrow> Inl Invalid)"

definition instant :: "json \<Rightarrow> design_error + string" where
  "instant = string_where (\<lambda>s. length s \<le> 64 \<and> is_instant s)"

text \<open>The canonical bindings are recognised by their prefix and bounded in length.\<close>

definition tuple_binding_ok :: "string \<Rightarrow> bool" where
  "tuple_binding_ok s \<longleftrightarrow>
     length s \<le> 2048 \<and> starts_with s ''[\"selene-design-revision-tuple-binding/v1\",''"

definition privacy_binding_ok :: "string \<Rightarrow> bool" where
  "privacy_binding_ok s \<longleftrightarrow>
     length s \<le> 4096 \<and>
     (starts_with s ''[\"selene-design-revision-privacy-binding/v1\",'' \<or>
      starts_with s ''[\"selene-design-revision-privacy-binding/v2\",'')"

definition commitment_ok :: "string \<Rightarrow> bool" where
  "commitment_ok s \<longleftrightarrow>
     length s \<le> 8192 \<and> starts_with s ''[\"selene-design-revision-commitment/v1\",''"

definition source_commitment_ok :: "string \<Rightarrow> bool" where
  "source_commitment_ok s \<longleftrightarrow>
     length s \<le> 8192 \<and> starts_with s ''[\"selene-design-revision-v1-source-commitment/v1\",''"

definition instance_digest_ok :: "string \<Rightarrow> bool" where
  "instance_digest_ok s \<longleftrightarrow>
     length s \<le> 8192 \<and> starts_with s ''[\"selene-compiler-rendered-instance-digest/v1\",''"

definition export_binding_ok :: "string \<Rightarrow> bool" where
  "export_binding_ok s \<longleftrightarrow>
     length s \<le> 4096 \<and> starts_with s ''[\"selene-design-revision-export-authority-binding/v2\",''"

definition tuple_binding :: "json \<Rightarrow> design_error + string" where
  "tuple_binding = string_where tuple_binding_ok"

definition privacy_binding :: "json \<Rightarrow> design_error + string" where
  "privacy_binding = string_where privacy_binding_ok"

definition revision_commitment :: "json \<Rightarrow> design_error + string" where
  "revision_commitment = string_where commitment_ok"

definition migration_source_commitment :: "json \<Rightarrow> design_error + string" where
  "migration_source_commitment = string_where source_commitment_ok"

definition rendered_instance_digest :: "json \<Rightarrow> design_error + string" where
  "rendered_instance_digest = string_where instance_digest_ok"

definition export_authority_binding :: "json \<Rightarrow> design_error + string" where
  "export_authority_binding = string_where export_binding_ok"

text \<open>\<open>array.map(parse)\<close> after an \<open>Array.isArray\<close> check\<close>

definition array_of :: "(json \<Rightarrow> design_error + 'a) \<Rightarrow> json \<Rightarrow> design_error + 'a list" where
  "array_of f v = (case v of JArr xs \<Rightarrow> mapResult f xs | _ \<Rightarrow> Inl Invalid)"

definition is_array :: "json \<Rightarrow> bool" where
  "is_array v = (case v of JArr xs \<Rightarrow> True | _ \<Rightarrow> False)"

lemmas scalar_defs = text_value_def digest_def instant_def tuple_binding_def privacy_binding_def
  revision_commitment_def migration_source_commitment_def rendered_instance_digest_def
  export_authority_binding_def

section \<open>What the scalar parsers accept\<close>

lemma string_where_Inr [simp]: "string_where ok v = Inr s \<longleftrightarrow> v = JStr s \<and> ok s"
  by (auto simp: string_where_def split: json.splits)

lemma string_where_JStr [simp]: "ok s \<Longrightarrow> string_where ok (JStr s) = Inr s"
  by simp

lemma string_where_Inl: "string_where ok v = Inl e \<Longrightarrow> e = Invalid"
  by (auto simp: string_where_def split: json.splits if_splits)

lemma integer_Inr [simp]: "integer v = Inr n \<longleftrightarrow> v = JNum n \<and> 1 \<le> n \<and> n \<le> max_safe_integer"
  by (auto simp: integer_def split: json.splits)

lemma snapshot_value_Inr [outcome_simps]:
  "snapshot_value v = Inr w \<longleftrightarrow> w = v \<and> walk 0 False False False v no_budget \<noteq> None"
  by (auto simp: snapshot_value_def)

lemma exact_Inr [outcome_simps]:
  "exact v required optional = Inr kvs \<longleftrightarrow>
     v = JObj kvs \<and> fst ` set kvs \<subseteq> set (required @ optional) \<and> set required \<subseteq> fst ` set kvs"
  by (auto simp: exact_def list_ex_iff failIf_def split: json.splits)

lemma exact_JObj:
  "fst ` set kvs \<subseteq> set (required @ optional) \<Longrightarrow> set required \<subseteq> fst ` set kvs \<Longrightarrow>
     exact (JObj kvs) required optional = Inr kvs"
  by (simp only: exact_Inr)

lemma field_Cons [simp]: "field ((k, v) # kvs) k' = (if k' = k then v else field kvs k')"
  by (auto simp: field_def)

lemma field_Nil [simp]: "field [] k = JOther NonObject"
  by (simp add: field_def)

lemma field_append: "field (kvs @ lvs) k = (if k \<in> fst ` set kvs then field kvs k else field lvs k)"
proof (induction kvs)
  case (Cons kv kvs)
  then show ?case by (cases kv) auto
qed simp

lemma optional_field_Inr [outcome_simps]:
  "optional_field f v = Inr w \<longleftrightarrow>
     (v = JOther NonObject \<and> w = None) \<or> (v \<noteq> JOther NonObject \<and> (\<exists>x. f v = Inr x \<and> w = Some x))"
  by (auto simp: optional_field_def undefined_json_def outcome_simps)

lemma array_of_Inr [outcome_simps]:
  "array_of f v = Inr ys \<longleftrightarrow> (\<exists>xs. v = JArr xs \<and> mapResult f xs = Inr ys)"
  by (auto simp: array_of_def split: json.splits)

end
