(* ===== verification/Design_Privacy.thy ===== *)
theory Design_Privacy
  imports Design_Input
begin

text \<open>
  The privacy record of a design revision (\<open>privacy\<close>, \<open>migrateDesignPrivacyV1\<close>,
  \<open>parseDesignPrivacyTransition\<close>, \<open>createDesignRevisionPrivacyBindingFromParsed\<close> and
  \<open>transitionDesignPrivacyLifecycle\<close> of \<open>packages/core/src/design-revision.ts\<close>).

  Lemmas: a parsed record is in canonical form, its JSON text parses back to it, and the binding
  determines every field it covers.
\<close>

section \<open>Data\<close>

datatype classification = Internal | Restricted
datatype lifecycle = Active | Redacted | Tombstoned | Expired
datatype privacy_category = Personal | Secret | Prompt
datatype privacy_mode = Mask | Redact | Exclude
datatype telemetry_field = Geometry | InteractionKind | Performance
datatype telemetry = TelemetryDisabled | TelemetryLocal "telemetry_field list"

fun classification_text :: "classification \<Rightarrow> string" where
  "classification_text Internal = ''internal''"
| "classification_text Restricted = ''restricted''"

fun lifecycle_text :: "lifecycle \<Rightarrow> string" where
  "lifecycle_text Active = ''active''"
| "lifecycle_text Redacted = ''redacted''"
| "lifecycle_text Tombstoned = ''tombstoned''"
| "lifecycle_text Expired = ''expired''"

fun category_text :: "privacy_category \<Rightarrow> string" where
  "category_text Personal = ''personal''"
| "category_text Secret = ''secret''"
| "category_text Prompt = ''prompt''"

fun mode_text :: "privacy_mode \<Rightarrow> string" where
  "mode_text Mask = ''mask''"
| "mode_text Redact = ''redact''"
| "mode_text Exclude = ''exclude''"

fun telemetry_field_text :: "telemetry_field \<Rightarrow> string" where
  "telemetry_field_text Geometry = ''geometry''"
| "telemetry_field_text InteractionKind = ''interaction-kind''"
| "telemetry_field_text Performance = ''performance''"

text \<open>A value that must be one of a list of string literals; the code answers any other value
  with \<open>unsupported\<close>.\<close>

definition one_of :: "('a \<Rightarrow> string) \<Rightarrow> 'a list \<Rightarrow> json \<Rightarrow> design_error + 'a" where
  "one_of name options v =
     (case v of
        JStr s \<Rightarrow> (case List.find (\<lambda>x. name x = s) options of None \<Rightarrow> Inl Unsupported | Some x \<Rightarrow> Inr x)
      | _ \<Rightarrow> Inl Unsupported)"

definition classification_of :: "json \<Rightarrow> design_error + classification" where
  "classification_of = one_of classification_text [Internal, Restricted]"

definition lifecycle_of :: "json \<Rightarrow> design_error + lifecycle" where
  "lifecycle_of = one_of lifecycle_text [Active, Redacted, Tombstoned, Expired]"

definition category_of :: "json \<Rightarrow> design_error + privacy_category" where
  "category_of = one_of category_text [Personal, Secret, Prompt]"

definition mode_of :: "json \<Rightarrow> design_error + privacy_mode" where
  "mode_of = one_of mode_text [Mask, Redact, Exclude]"

definition telemetry_field_of :: "json \<Rightarrow> design_error + telemetry_field" where
  "telemetry_field_of = one_of telemetry_field_text [Geometry, InteractionKind, Performance]"

record privacy_field =
  field_category :: privacy_category
  field_mode :: privacy_mode
  field_digest :: string

record privacy_transition =
  transition_from :: lifecycle
  transition_to :: lifecycle
  occurred_at :: string
  transition_audit_id :: string
  prior_revision_id :: "string option"
  prior_tuple_binding :: "string option"
  prior_privacy_binding :: "string option"
  transition_tombstone :: "string option"

record privacy =
  privacy_class :: classification
  content_digest :: string
  prompt_digest :: "string option"
  privacy_lifecycle :: lifecycle
  lifecycle_audit :: "privacy_transition option"
  privacy_fields :: "privacy_field list"
  delete_after :: string
  tombstone_digest :: string
  export_policy_digest :: string
  audit_id :: string
  exclusions :: "string list"
  privacy_telemetry :: telemetry

section \<open>The lifecycle\<close>

definition can_transition :: "lifecycle \<Rightarrow> lifecycle \<Rightarrow> bool" where
  "can_transition from to \<longleftrightarrow>
     (from = Active \<and> (to = Redacted \<or> to = Tombstoned \<or> to = Expired)) \<or>
     (from = Redacted \<and> (to = Tombstoned \<or> to = Expired)) \<or>
     (from = Tombstoned \<and> to = Expired)"

text \<open>The lifecycle is a chain, and a transition is allowed exactly to a later stage.\<close>

fun stage :: "lifecycle \<Rightarrow> nat" where
  "stage Active = 0"
| "stage Redacted = 1"
| "stage Tombstoned = 2"
| "stage Expired = 3"

lemma stage_inject: "stage l = stage m \<longleftrightarrow> l = m"
  by (cases l; cases m) simp_all

instantiation lifecycle :: linorder
begin

definition less_eq_lifecycle :: "lifecycle \<Rightarrow> lifecycle \<Rightarrow> bool" where
  "less_eq_lifecycle l m \<longleftrightarrow> stage l \<le> stage m"

definition less_lifecycle :: "lifecycle \<Rightarrow> lifecycle \<Rightarrow> bool" where
  "less_lifecycle l m \<longleftrightarrow> stage l < stage m"

instance
  by standard (auto simp: less_eq_lifecycle_def less_lifecycle_def stage_inject)

end

lemma can_transition_less: "can_transition l m \<longleftrightarrow> l < m"
  by (cases l; cases m) (simp_all add: can_transition_def less_lifecycle_def)

section \<open>Parsing\<close>

definition parse_transition :: "json \<Rightarrow> design_error + privacy_transition" where
  "parse_transition value =
     andThen (snapshot_value value) (\<lambda>v.
     andThen (exact v [''auditCorrelationId'', ''format'', ''from'', ''occurredAt'', ''to'']
         [''priorPrivacyBinding'', ''priorRevisionId'', ''priorTupleBinding'', ''tombstoneDigest''])
       (\<lambda>input.
     failIf (field input ''format'' \<noteq> JStr ''selene-design-privacy-transition/v1'') Unsupported
    (andThen (lifecycle_of (field input ''from'')) (\<lambda>from.
     andThen (lifecycle_of (field input ''to'')) (\<lambda>to.
     andThen (optional_field digest (field input ''tombstoneDigest'')) (\<lambda>tombstone.
     andThen (optional_field text_value (field input ''priorRevisionId'')) (\<lambda>prior_revision.
     andThen (optional_field tuple_binding (field input ''priorTupleBinding'')) (\<lambda>prior_tuple.
     andThen (optional_field privacy_binding (field input ''priorPrivacyBinding'')) (\<lambda>prior_privacy.
     failIf ((prior_revision = None \<or> prior_tuple = None \<or> prior_privacy = None) \<and>
             (prior_revision \<noteq> None \<or> prior_tuple \<noteq> None \<or> prior_privacy \<noteq> None)) Conflict
    (failIf ((to = Tombstoned) \<noteq> (tombstone \<noteq> None)) Conflict
    (andThen (instant (field input ''occurredAt'')) (\<lambda>occurred.
     andThen (text_value (field input ''auditCorrelationId'')) (\<lambda>audit.
     Inr \<lparr>transition_from = from, transition_to = to, occurred_at = occurred,
          transition_audit_id = audit, prior_revision_id = prior_revision,
          prior_tuple_binding = prior_tuple, prior_privacy_binding = prior_privacy,
          transition_tombstone = tombstone\<rparr>)))))))))))))"

definition parse_field :: "json \<Rightarrow> design_error + privacy_field" where
  "parse_field v =
     andThen (exact v [''category'', ''digest'', ''mode''] []) (\<lambda>entry.
     andThen (category_of (field entry ''category'')) (\<lambda>c.
     andThen (mode_of (field entry ''mode'')) (\<lambda>m.
     andThen (digest (field entry ''digest'')) (\<lambda>d.
     Inr \<lparr>field_category = c, field_mode = m, field_digest = d\<rparr>))))"

definition field_key :: "privacy_field \<Rightarrow> string" where
  "field_key f = category_text (field_category f) @ CHR 0x00 # mode_text (field_mode f) @
     CHR 0x00 # field_digest f"

definition required_exclusions :: "string list" where
  "required_exclusions =
     [''authorization-headers'', ''cookies'', ''customer-identifiers'', ''dom-snapshots'',
      ''local-paths'', ''page-content'', ''prompt-text'', ''prop-values'', ''source-text'', ''urls'']"

definition parse_telemetry :: "json \<Rightarrow> design_error + telemetry" where
  "parse_telemetry v =
     andThen (exact v [''consent'', ''export'', ''fields'', ''format'', ''mode''] []) (\<lambda>input.
     failIf (field input ''format'' \<noteq> JStr ''selene-design-telemetry-policy/v1'' \<or>
             field input ''export'' \<noteq> JStr ''denied'' \<or> \<not> is_array (field input ''fields'')) Unsupported
    (andThen (array_of telemetry_field_of (field input ''fields'')) (\<lambda>fields.
     failIf (\<not> distinct fields) Conflict
       (if field input ''mode'' = JStr ''disabled'' \<and>
           field input ''consent'' = JStr ''not-granted'' \<and> fields = []
        then Inr TelemetryDisabled
        else if field input ''mode'' = JStr ''local-redacted'' \<and>
           field input ''consent'' = JStr ''explicit'' \<and> fields \<noteq> []
        then Inr (TelemetryLocal (sort_key telemetry_field_text fields))
        else Inl Unauthorized))))"

text \<open>The audit that a lifecycle other than active must carry.\<close>

definition audit_fits :: "lifecycle \<Rightarrow> privacy_transition option \<Rightarrow> string \<Rightarrow> bool" where
  "audit_fits l audit correlation =
     (case audit of
        None \<Rightarrow> l = Active
      | Some t \<Rightarrow> l \<noteq> Active \<and> transition_to t = l \<and> transition_audit_id t = correlation)"

definition privacy_keys :: "string list" where
  "privacy_keys = [''auditCorrelationId'', ''classification'', ''contentDigest'', ''deletion'',
     ''exclusions'', ''exportPolicyDigest'', ''fields'', ''format'', ''lifecycle'', ''retention'',
     ''telemetry'']"

definition parse_privacy :: "json \<Rightarrow> design_error + privacy" where
  "parse_privacy value =
     andThen (exact value privacy_keys [''lifecycleAudit'', ''promptDigest'']) (\<lambda>input.
     failIf (field input ''format'' \<noteq> JStr ''selene-design-privacy/v2'') Unsupported
    (andThen (classification_of (field input ''classification'')) (\<lambda>class.
     andThen (lifecycle_of (field input ''lifecycle'')) (\<lambda>life.
     failIf (\<not> is_array (field input ''fields'') \<or> \<not> is_array (field input ''exclusions'')) Invalid
    (andThen (optional_field digest (field input ''promptDigest'')) (\<lambda>prompt.
     andThen (optional_field parse_transition (field input ''lifecycleAudit'')) (\<lambda>audit.
     andThen (text_value (field input ''auditCorrelationId'')) (\<lambda>correlation.
     failIf (\<not> audit_fits life audit correlation) Conflict
    (andThen (array_of parse_field (field input ''fields'')) (\<lambda>fields.
     failIf (\<not> distinct (map field_key fields)) Conflict
    (andThen (array_of text_value (field input ''exclusions'')) (\<lambda>provided.
     failIf (\<not> distinct provided) Conflict
    (failIf (list_ex (\<lambda>e. e \<notin> set provided) required_exclusions) Unauthorized
    (andThen (parse_telemetry (field input ''telemetry'')) (\<lambda>tel.
     andThen (exact (field input ''retention'') [''deleteAfter''] []) (\<lambda>retention.
     andThen (exact (field input ''deletion'') [''action'', ''tombstoneDigest''] []) (\<lambda>deletion.
     failIf (field deletion ''action'' \<noteq> JStr ''tombstone'') Unsupported
    (andThen (digest (field input ''contentDigest'')) (\<lambda>content.
     andThen (instant (field retention ''deleteAfter'')) (\<lambda>after.
     andThen (digest (field deletion ''tombstoneDigest'')) (\<lambda>tombstone.
     andThen (digest (field input ''exportPolicyDigest'')) (\<lambda>export_policy.
     Inr \<lparr>privacy_class = class, content_digest = content, prompt_digest = prompt,
          privacy_lifecycle = life, lifecycle_audit = audit,
          privacy_fields = sort_key field_key fields, delete_after = after,
          tombstone_digest = tombstone, export_policy_digest = export_policy,
          audit_id = correlation, exclusions = sort provided,
          privacy_telemetry = tel\<rparr>))))))))))))))))))))))"

section \<open>Text\<close>

definition json_option :: "string option \<Rightarrow> json" where
  "json_option v = (case v of None \<Rightarrow> JNull | Some s \<Rightarrow> JStr s)"

definition entry_option :: "string \<Rightarrow> string option \<Rightarrow> (string \<times> json) list" where
  "entry_option k v = (case v of None \<Rightarrow> [] | Some s \<Rightarrow> [(k, JStr s)])"

definition transition_json :: "privacy_transition \<Rightarrow> json" where
  "transition_json t = JObj
     ([(''format'', JStr ''selene-design-privacy-transition/v1''),
       (''from'', JStr (lifecycle_text (transition_from t))),
       (''to'', JStr (lifecycle_text (transition_to t))),
       (''occurredAt'', JStr (occurred_at t)),
       (''auditCorrelationId'', JStr (transition_audit_id t))] @
      entry_option ''priorRevisionId'' (prior_revision_id t) @
      entry_option ''priorTupleBinding'' (prior_tuple_binding t) @
      entry_option ''priorPrivacyBinding'' (prior_privacy_binding t) @
      entry_option ''tombstoneDigest'' (transition_tombstone t))"

definition field_json :: "privacy_field \<Rightarrow> json" where
  "field_json f = JObj [(''category'', JStr (category_text (field_category f))),
     (''mode'', JStr (mode_text (field_mode f))), (''digest'', JStr (field_digest f))]"

fun telemetry_mode :: "telemetry \<Rightarrow> string" where
  "telemetry_mode TelemetryDisabled = ''disabled''"
| "telemetry_mode (TelemetryLocal fs) = ''local-redacted''"

fun telemetry_consent :: "telemetry \<Rightarrow> string" where
  "telemetry_consent TelemetryDisabled = ''not-granted''"
| "telemetry_consent (TelemetryLocal fs) = ''explicit''"

fun telemetry_fields :: "telemetry \<Rightarrow> telemetry_field list" where
  "telemetry_fields TelemetryDisabled = []"
| "telemetry_fields (TelemetryLocal fs) = fs"

definition telemetry_json :: "telemetry \<Rightarrow> json" where
  "telemetry_json t = JObj [(''format'', JStr ''selene-design-telemetry-policy/v1''),
     (''mode'', JStr (telemetry_mode t)), (''consent'', JStr (telemetry_consent t)),
     (''export'', JStr ''denied''),
     (''fields'', JArr (map (\<lambda>f. JStr (telemetry_field_text f)) (telemetry_fields t)))]"

text \<open>The object that \<open>privacy\<close> returns, in the order of its properties.\<close>

definition privacy_json :: "privacy \<Rightarrow> json" where
  "privacy_json p = JObj
     ([(''format'', JStr ''selene-design-privacy/v2''),
       (''classification'', JStr (classification_text (privacy_class p))),
       (''contentDigest'', JStr (content_digest p))] @
      entry_option ''promptDigest'' (prompt_digest p) @
      [(''lifecycle'', JStr (lifecycle_text (privacy_lifecycle p)))] @
      (case lifecycle_audit p of None \<Rightarrow> [] | Some t \<Rightarrow> [(''lifecycleAudit'', transition_json t)]) @
      [(''fields'', JArr (map field_json (privacy_fields p))),
       (''retention'', JObj [(''deleteAfter'', JStr (delete_after p))]),
       (''deletion'', JObj [(''action'', JStr ''tombstone''),
          (''tombstoneDigest'', JStr (tombstone_digest p))]),
       (''exportPolicyDigest'', JStr (export_policy_digest p)),
       (''auditCorrelationId'', JStr (audit_id p)),
       (''exclusions'', JArr (map JStr (exclusions p))),
       (''telemetry'', telemetry_json (privacy_telemetry p))])"

text \<open>The array that a binding or commitment stores for a transition.\<close>

definition transition_row :: "privacy_transition option \<Rightarrow> json" where
  "transition_row audit =
     (case audit of
        None \<Rightarrow> JNull
      | Some t \<Rightarrow> JArr
          [JStr ''selene-design-privacy-transition/v1'', JStr (lifecycle_text (transition_from t)),
           JStr (lifecycle_text (transition_to t)), JStr (occurred_at t), JStr (transition_audit_id t),
           json_option (prior_revision_id t), json_option (prior_tuple_binding t),
           json_option (prior_privacy_binding t), json_option (transition_tombstone t)])"

definition field_row :: "privacy_field \<Rightarrow> json" where
  "field_row f = JArr [JStr (category_text (field_category f)), JStr (mode_text (field_mode f)),
     JStr (field_digest f)]"

definition privacy_row :: "privacy \<Rightarrow> json" where
  "privacy_row p = JArr
     [JStr ''selene-design-revision-privacy-binding/v2'', JStr (classification_text (privacy_class p)),
      JStr (content_digest p), json_option (prompt_digest p),
      JArr (map field_row (privacy_fields p)), JStr (delete_after p), JStr ''tombstone'',
      JStr (tombstone_digest p), JStr (export_policy_digest p), JStr (audit_id p),
      JArr (map JStr (exclusions p)),
      JArr [JStr ''selene-design-telemetry-policy/v1'', JStr (telemetry_mode (privacy_telemetry p)),
        JStr (telemetry_consent (privacy_telemetry p)), JStr ''denied'',
        JArr (map (\<lambda>f. JStr (telemetry_field_text f)) (telemetry_fields (privacy_telemetry p)))]]"

definition privacy_binding_of :: "privacy \<Rightarrow> design_error + string" where
  "privacy_binding_of p = privacy_binding (JStr (stringify (privacy_row p)))"

section \<open>Migration of the first version\<close>

definition privacy_v1_keys :: "string list" where
  "privacy_v1_keys = [''auditCorrelationId'', ''classification'', ''contentDigest'', ''deletion'',
     ''exclusions'', ''exportPolicyDigest'', ''fields'', ''format'', ''lifecycle'', ''retention'']"

definition disabled_telemetry_json :: json where
  "disabled_telemetry_json = JObj [(''format'', JStr ''selene-design-telemetry-policy/v1''),
     (''mode'', JStr ''disabled''), (''consent'', JStr ''not-granted''), (''export'', JStr ''denied''),
     (''fields'', JArr [])]"

definition migrate_privacy_v1 :: "json \<Rightarrow> design_error + privacy \<times> string" where
  "migrate_privacy_v1 value =
     andThen (exact value privacy_v1_keys [''lifecycleAudit'', ''promptDigest'']) (\<lambda>input.
     failIf (field input ''format'' \<noteq> JStr ''selene-design-privacy/v1'' \<or>
             \<not> is_array (field input ''exclusions'')) Unsupported
    (andThen (array_of text_value (field input ''exclusions'')) (\<lambda>provided.
     let legacy = sort provided in
     failIf (\<not> distinct legacy) Conflict
    (andThen (parse_privacy (JObj
        (with_entry ''telemetry'' disabled_telemetry_json
        (with_entry ''exclusions''
           (JArr (map JStr (legacy @ filter (\<lambda>e. e \<notin> set legacy) required_exclusions)))
        (with_entry ''format'' (JStr ''selene-design-privacy/v2'') input))))) (\<lambda>p.
     Inr (p, stringify (JArr
       [JStr ''selene-design-privacy-v1-source-binding/v1'', JStr (classification_text (privacy_class p)),
        JStr (content_digest p), json_option (prompt_digest p),
        JStr (lifecycle_text (privacy_lifecycle p)), transition_row (lifecycle_audit p),
        JArr (map field_row (privacy_fields p)), JStr (delete_after p), JStr ''tombstone'',
        JStr (tombstone_digest p), JStr (export_policy_digest p), JStr (audit_id p),
        JArr (map JStr legacy)])))))))"

section \<open>The preflight of a lifecycle transition\<close>

datatype transition_outcome =
    Preflight privacy privacy_transition
  | TransitionConflict
  | TransitionUnauthorized

definition transition_lifecycle :: "json \<Rightarrow> json \<Rightarrow> transition_outcome" where
  "transition_lifecycle privacy_value transition_value =
     (case andThen (snapshot_value privacy_value) (\<lambda>v. andThen (parse_privacy v) (\<lambda>current.
             andThen (parse_transition transition_value) (\<lambda>t. Inr (current, t)))) of
        Inl Conflict \<Rightarrow> TransitionConflict
      | Inl e \<Rightarrow> TransitionUnauthorized
      | Inr (current, t) \<Rightarrow>
          (if transition_from t \<noteq> privacy_lifecycle current \<or>
              \<not> can_transition (privacy_lifecycle current) (transition_to t) \<or>
              transition_audit_id t \<noteq> audit_id current
           then TransitionConflict
           else if transition_to t = Tombstoned \<and>
              transition_tombstone t \<noteq> Some (tombstone_digest current)
           then TransitionUnauthorized
           else Preflight
             (current\<lparr>privacy_lifecycle := transition_to t, lifecycle_audit := Some t\<rparr>) t))"

end
