(* ===== verification/Design_Revision.thy ===== *)
theory Design_Revision
  imports Design_Privacy
begin

text \<open>
  The immutable revision of \<open>packages/core/src/design-revision.ts\<close>: its tuple, its canonical
  bindings and commitment, the migration of the first version, and the policy, grant and authority
  records that a commit is checked against, up to \<open>parseDesignRevisionState\<close>.

  Each \<open>parse_\<close> definition follows its function statement by statement, so the error code is the
  one the code throws first; each \<open>_json\<close> definition is the object the function returns.
\<close>

section \<open>The tuple\<close>

datatype deployment = Unpublished (draft_id: string) (unpublished_manifest: string)
  | Deployed (deployment_id: string) (deployed_manifest: string)

record revision_tuple =
  source_digest :: string
  graph_digest :: string
  binding_digest :: string
  command_log_digest :: string
  design_system_lock_digest :: string
  tuple_deployment :: deployment
  preview_build_id :: string
  preview_digest :: string
  compiler_id :: string
  compiler_digest :: string

definition parse_deployment :: "json \<Rightarrow> design_error + deployment" where
  "parse_deployment value =
     andThen (exact value [''format'', ''manifestDigest'', ''state''] [''deploymentId'', ''draftId'']) (\<lambda>input.
     failIf (field input ''format'' \<noteq> JStr ''selene-deployment-identity/v1'') Unsupported
    (andThen (digest (field input ''manifestDigest'')) (\<lambda>manifest.
       let draft = field input ''draftId''; deployed = field input ''deploymentId'' in
       if field input ''state'' = JStr ''unpublished'' \<and> \<not> undefined_json draft \<and> undefined_json deployed
       then andThen (text_value draft) (\<lambda>i. Inr (Unpublished i manifest))
       else if field input ''state'' = JStr ''deployed'' \<and> \<not> undefined_json deployed \<and> undefined_json draft
       then andThen (text_value deployed) (\<lambda>i. Inr (Deployed i manifest))
       else Inl Unsupported)))"

definition tuple_keys :: "string list" where
  "tuple_keys = [''bindingDigest'', ''commandLogDigest'', ''compiler'', ''deployment'',
     ''designSystemLockDigest'', ''graphDigest'', ''preview'', ''sourceDigest'']"

definition parse_tuple :: "json \<Rightarrow> design_error + revision_tuple" where
  "parse_tuple value =
     andThen (exact value tuple_keys []) (\<lambda>input.
     andThen (exact (field input ''preview'') [''buildId'', ''format'', ''previewDigest''] []) (\<lambda>preview.
     andThen (exact (field input ''compiler'') [''compilerDigest'', ''compilerId'', ''format''] []) (\<lambda>compiler.
     failIf (field preview ''format'' \<noteq> JStr ''selene-compiled-preview-identity/v1'' \<or>
             field compiler ''format'' \<noteq> JStr ''selene-compiler-identity/v1'') Unsupported
    (andThen (digest (field input ''sourceDigest'')) (\<lambda>source.
     andThen (digest (field input ''graphDigest'')) (\<lambda>graph.
     andThen (digest (field input ''bindingDigest'')) (\<lambda>binding.
     andThen (digest (field input ''commandLogDigest'')) (\<lambda>commands.
     andThen (digest (field input ''designSystemLockDigest'')) (\<lambda>lock.
     andThen (parse_deployment (field input ''deployment'')) (\<lambda>dep.
     andThen (text_value (field preview ''buildId'')) (\<lambda>build.
     andThen (digest (field preview ''previewDigest'')) (\<lambda>pdigest.
     andThen (text_value (field compiler ''compilerId'')) (\<lambda>cid.
     andThen (digest (field compiler ''compilerDigest'')) (\<lambda>cdigest.
     Inr \<lparr>source_digest = source, graph_digest = graph, binding_digest = binding,
          command_log_digest = commands, design_system_lock_digest = lock,
          tuple_deployment = dep, preview_build_id = build, preview_digest = pdigest,
          compiler_id = cid, compiler_digest = cdigest\<rparr>))))))))))))))"

fun deployment_json :: "deployment \<Rightarrow> json" where
  "deployment_json (Unpublished i m) = JObj [(''format'', JStr ''selene-deployment-identity/v1''),
     (''state'', JStr ''unpublished''), (''draftId'', JStr i), (''manifestDigest'', JStr m)]"
| "deployment_json (Deployed i m) = JObj [(''format'', JStr ''selene-deployment-identity/v1''),
     (''state'', JStr ''deployed''), (''deploymentId'', JStr i), (''manifestDigest'', JStr m)]"

definition tuple_json :: "revision_tuple \<Rightarrow> json" where
  "tuple_json t = JObj
     [(''sourceDigest'', JStr (source_digest t)), (''graphDigest'', JStr (graph_digest t)),
      (''bindingDigest'', JStr (binding_digest t)), (''commandLogDigest'', JStr (command_log_digest t)),
      (''designSystemLockDigest'', JStr (design_system_lock_digest t)),
      (''deployment'', deployment_json (tuple_deployment t)),
      (''preview'', JObj [(''format'', JStr ''selene-compiled-preview-identity/v1''),
         (''buildId'', JStr (preview_build_id t)), (''previewDigest'', JStr (preview_digest t))]),
      (''compiler'', JObj [(''format'', JStr ''selene-compiler-identity/v1''),
         (''compilerId'', JStr (compiler_id t)), (''compilerDigest'', JStr (compiler_digest t))])]"

fun deployment_row :: "deployment \<Rightarrow> json list" where
  "deployment_row (Unpublished i m) = [JStr ''unpublished'', JStr i, JStr m]"
| "deployment_row (Deployed i m) = [JStr ''deployed'', JStr i, JStr m]"

definition tuple_row :: "revision_tuple \<Rightarrow> json" where
  "tuple_row t = JArr
     ([JStr ''selene-design-revision-tuple-binding/v1'', JStr (source_digest t), JStr (graph_digest t),
       JStr (binding_digest t), JStr (command_log_digest t), JStr (design_system_lock_digest t)] @
      deployment_row (tuple_deployment t) @
      [JStr (preview_build_id t), JStr (preview_digest t), JStr (compiler_id t), JStr (compiler_digest t)])"

definition tuple_binding_of :: "revision_tuple \<Rightarrow> design_error + string" where
  "tuple_binding_of t = tuple_binding (JStr (stringify (tuple_row t)))"

section \<open>The revision\<close>

record revision =
  revision_tenant :: string
  revision_project :: string
  revision_name :: string
  parent_revision :: "string option"
  revision_sequence :: int
  created_at :: string
  revision_tuple :: revision_tuple
  revision_binding :: string
  revision_privacy :: privacy
  commitment :: string

text \<open>The commitment is computed before it is a field of the revision.\<close>

definition commitment_row :: "revision \<Rightarrow> string \<Rightarrow> json" where
  "commitment_row r privacy_text = JArr
     [JStr ''selene-design-revision-commitment/v1'', JStr ''selene-design-revision/v2'',
      JStr (revision_tenant r), JStr (revision_project r), JStr (revision_name r),
      json_option (parent_revision r), JNum (revision_sequence r), JStr (created_at r),
      JStr (revision_binding r), JStr privacy_text,
      JStr (lifecycle_text (privacy_lifecycle (revision_privacy r))),
      transition_row (lifecycle_audit (revision_privacy r))]"

definition commitment_of :: "revision \<Rightarrow> design_error + string" where
  "commitment_of r =
     andThen (privacy_binding_of (revision_privacy r)) (\<lambda>b.
       revision_commitment (JStr (stringify (commitment_row r b))))"

definition revision_keys :: "string list" where
  "revision_keys = [''createdAt'', ''format'', ''privacy'', ''projectId'', ''revisionId'', ''sequence'',
     ''tenantId'', ''tuple'']"

definition parse_revision :: "json \<Rightarrow> design_error + revision" where
  "parse_revision value =
     andThen (snapshot_value value) (\<lambda>v.
     andThen (exact v revision_keys [''parentRevisionId'', ''revisionCommitment'', ''tupleBinding'']) (\<lambda>input.
     failIf (field input ''format'' \<noteq> JStr ''selene-design-revision/v2'') Unsupported
    (andThen (parse_tuple (field input ''tuple'')) (\<lambda>t.
     andThen (optional_field text_value (field input ''parentRevisionId'')) (\<lambda>parent.
     andThen (tuple_binding_of t) (\<lambda>computed.
     andThen (optional_field tuple_binding (field input ''tupleBinding'')) (\<lambda>given.
     failIf (given \<noteq> None \<and> given \<noteq> Some computed) Conflict
    (andThen (text_value (field input ''tenantId'')) (\<lambda>tenant.
     andThen (text_value (field input ''projectId'')) (\<lambda>project.
     andThen (text_value (field input ''revisionId'')) (\<lambda>name.
     andThen (integer (field input ''sequence'')) (\<lambda>seq.
     andThen (instant (field input ''createdAt'')) (\<lambda>created.
     andThen (parse_privacy (field input ''privacy'')) (\<lambda>p.
     let parsed = \<lparr>revision_tenant = tenant, revision_project = project, revision_name = name,
          parent_revision = parent, revision_sequence = seq, created_at = created,
          revision_tuple = t, revision_binding = computed, revision_privacy = p, commitment = []\<rparr> in
     andThen (commitment_of parsed) (\<lambda>c.
     andThen (optional_field revision_commitment (field input ''revisionCommitment'')) (\<lambda>stated.
     failIf (stated \<noteq> None \<and> stated \<noteq> Some c) Conflict
       (Inr (parsed\<lparr>commitment := c\<rparr>))))))))))))))))))"

definition revision_json :: "revision \<Rightarrow> json" where
  "revision_json r = JObj
     ([(''format'', JStr ''selene-design-revision/v2''), (''tenantId'', JStr (revision_tenant r)),
       (''projectId'', JStr (revision_project r)), (''revisionId'', JStr (revision_name r))] @
      entry_option ''parentRevisionId'' (parent_revision r) @
      [(''sequence'', JNum (revision_sequence r)), (''createdAt'', JStr (created_at r)),
       (''tuple'', tuple_json (revision_tuple r)), (''tupleBinding'', JStr (revision_binding r)),
       (''privacy'', privacy_json (revision_privacy r)),
       (''revisionCommitment'', JStr (commitment r))])"

section \<open>Migration of the first version\<close>

record migration_receipt =
  source_commitment :: string
  migrated_revision :: revision
  migrated_commitment :: string

definition migrate_revision_v1 :: "json \<Rightarrow> design_error + migration_receipt" where
  "migrate_revision_v1 value =
     andThen (snapshot_value value) (\<lambda>v.
     andThen (exact v revision_keys [''parentRevisionId'', ''tupleBinding'']) (\<lambda>input.
     failIf (field input ''format'' \<noteq> JStr ''selene-design-revision/v1'') Unsupported
    (andThen (parse_tuple (field input ''tuple'')) (\<lambda>t.
     andThen (tuple_binding_of t) (\<lambda>computed.
     andThen (optional_field tuple_binding (field input ''tupleBinding'')) (\<lambda>given.
     failIf (given \<noteq> None \<and> given \<noteq> Some computed) Conflict
    (andThen (text_value (field input ''tenantId'')) (\<lambda>tenant.
     andThen (text_value (field input ''projectId'')) (\<lambda>project.
     andThen (text_value (field input ''revisionId'')) (\<lambda>name.
     andThen (optional_field text_value (field input ''parentRevisionId'')) (\<lambda>parent.
     andThen (integer (field input ''sequence'')) (\<lambda>seq.
     andThen (instant (field input ''createdAt'')) (\<lambda>created.
     andThen (migrate_privacy_v1 (field input ''privacy'')) (\<lambda>migrated.
     andThen (migration_source_commitment (JStr (stringify (JArr
         [JStr ''selene-design-revision-v1-source-commitment/v1'', JStr tenant, JStr project, JStr name,
          json_option parent, JNum seq, JStr created, JStr computed, JStr (snd migrated)])))) (\<lambda>source.
     andThen (parse_revision (JObj
         ([(''format'', JStr ''selene-design-revision/v2''), (''tenantId'', JStr tenant),
           (''projectId'', JStr project), (''revisionId'', JStr name)] @
          entry_option ''parentRevisionId'' parent @
          [(''sequence'', JNum seq), (''createdAt'', JStr created), (''tuple'', tuple_json t),
           (''tupleBinding'', JStr computed), (''privacy'', privacy_json (fst migrated))]))) (\<lambda>r.
     Inr \<lparr>source_commitment = source, migrated_revision = r, migrated_commitment = commitment r\<rparr>))))))))))))))))"

section \<open>Compiler identities\<close>

record source_identity =
  module_id :: string
  export_name :: string
  ast_node_id :: string
  identity_source_digest :: string
  identity_binding_digest :: string

datatype instance_repeat = Singleton | CollectionKey string | Occurrence int

record instance_descriptor =
  instance_id :: string
  ancestry :: "string list"
  instance_repeat :: instance_repeat
  slot_id :: "string option"
  portal_id :: "string option"
  overlay_id :: "string option"

record node_identity =
  identity_project :: string
  identity_node :: string
  identity_compiler :: string
  node_source :: source_identity
  node_instance :: instance_descriptor
  instance_digest :: string

definition parse_source_identity :: "json \<Rightarrow> design_error + source_identity" where
  "parse_source_identity value =
     andThen (exact value [''astNodeId'', ''bindingDigest'', ''exportName'', ''format'', ''moduleId'',
         ''sourceDigest''] []) (\<lambda>source.
     failIf (field source ''format'' \<noteq> JStr ''selene-compiler-source-identity/v1'') Unsupported
    (andThen (text_value (field source ''moduleId'')) (\<lambda>m.
     andThen (text_value (field source ''exportName'')) (\<lambda>e.
     andThen (text_value (field source ''astNodeId'')) (\<lambda>a.
     andThen (digest (field source ''sourceDigest'')) (\<lambda>s.
     andThen (digest (field source ''bindingDigest'')) (\<lambda>b.
     Inr \<lparr>module_id = m, export_name = e, ast_node_id = a, identity_source_digest = s,
          identity_binding_digest = b\<rparr>)))))))"

definition parse_repeat :: "json \<Rightarrow> design_error + instance_repeat" where
  "parse_repeat value =
     andThen (exact value [''kind''] [''keyDigest'', ''occurrence'']) (\<lambda>input.
       let key = field input ''keyDigest''; occurrence = field input ''occurrence'' in
       if field input ''kind'' = JStr ''singleton'' \<and> undefined_json key \<and> undefined_json occurrence
       then Inr Singleton
       else if field input ''kind'' = JStr ''collection-key'' \<and> \<not> undefined_json key \<and> undefined_json occurrence
       then andThen (digest key) (\<lambda>d. Inr (CollectionKey d))
       else if field input ''kind'' = JStr ''occurrence'' \<and> undefined_json key \<and> \<not> undefined_json occurrence
       then andThen (integer occurrence) (\<lambda>n. Inr (Occurrence n))
       else Inl Unsupported)"

text \<open>\<open>parseRenderedInstanceDescriptor\<close>; the second component is \<open>instanceDigest\<close>, read when it is
  required.\<close>

definition parse_instance :: "json \<Rightarrow> bool \<Rightarrow> design_error + instance_descriptor \<times> string option" where
  "parse_instance value requires_digest =
     andThen (exact value ([''ancestry'', ''format'', ''instanceId'', ''repeat''] @
         (if requires_digest then [''instanceDigest''] else [])) [''overlayId'', ''portalId'', ''slotId'']) (\<lambda>input.
     failIf (field input ''format'' \<noteq> JStr ''selene-compiler-rendered-instance-identity/v1'' \<or>
             (case field input ''ancestry'' of JArr xs \<Rightarrow> length xs < 1 \<or> 32 < length xs | _ \<Rightarrow> True)) Unsupported
    (andThen (array_of text_value (field input ''ancestry'')) (\<lambda>ancestors.
     andThen (parse_repeat (field input ''repeat'')) (\<lambda>rep.
     andThen (optional_field text_value (field input ''slotId'')) (\<lambda>slot.
     andThen (optional_field text_value (field input ''portalId'')) (\<lambda>portal.
     andThen (optional_field text_value (field input ''overlayId'')) (\<lambda>over.
     andThen (text_value (field input ''instanceId'')) (\<lambda>i.
     andThen (if requires_digest
              then andThen (rendered_instance_digest (field input ''instanceDigest'')) (\<lambda>d. Inr (Some d))
              else Inr None) (\<lambda>d.
     Inr (\<lparr>instance_id = i, ancestry = ancestors, instance_repeat = rep, slot_id = slot,
           portal_id = portal, overlay_id = over\<rparr>, d))))))))))"

definition parse_node_identity :: "json \<Rightarrow> design_error + node_identity" where
  "parse_node_identity value =
     andThen (snapshot_rejecting value ''selene-compiler-node-identity/v1'') (\<lambda>v.
     andThen (exact v [''compilerDigest'', ''format'', ''instance'', ''nodeId'', ''projectId'', ''source''] []) (\<lambda>input.
     failIf (field input ''format'' \<noteq> JStr ''selene-compiler-node-identity/v2'') Unsupported
    (andThen (text_value (field input ''projectId'')) (\<lambda>project.
     andThen (text_value (field input ''nodeId'')) (\<lambda>n.
     andThen (digest (field input ''compilerDigest'')) (\<lambda>c.
     andThen (parse_source_identity (field input ''source'')) (\<lambda>s.
     andThen (parse_instance (field input ''instance'') True) (\<lambda>i.
     Inr \<lparr>identity_project = project, identity_node = n, identity_compiler = c, node_source = s,
          node_instance = fst i,
          instance_digest = (case snd i of None \<Rightarrow> [] | Some d \<Rightarrow> d)\<rparr>))))))))"

fun repeat_row :: "instance_repeat \<Rightarrow> json" where
  "repeat_row Singleton = JArr [JStr ''singleton'']"
| "repeat_row (CollectionKey d) = JArr [JStr ''collection-key'', JStr d]"
| "repeat_row (Occurrence n) = JArr [JStr ''occurrence'', JNum n]"

definition instance_row :: "revision \<Rightarrow> source_identity \<Rightarrow> instance_descriptor \<Rightarrow> json" where
  "instance_row r s i = JArr
     [JStr ''selene-compiler-rendered-instance-digest/v1'', JStr ''selene-compiler-source-identity/v1'',
      JStr (module_id s), JStr (export_name s), JStr (ast_node_id s), JStr (identity_source_digest s),
      JStr (identity_binding_digest s), JStr ''selene-compiler-rendered-instance-identity/v1'',
      JStr (instance_id i), JArr (map JStr (ancestry i)), repeat_row (instance_repeat i),
      json_option (slot_id i), json_option (portal_id i), json_option (overlay_id i),
      JStr (revision_binding r), JStr (design_system_lock_digest (revision_tuple r)),
      JStr (compiler_digest (revision_tuple r))]"

text \<open>\<open>createCompilerRenderedInstanceDigest\<close> on parsed arguments.\<close>

definition instance_digest_of ::
    "revision \<Rightarrow> source_identity \<Rightarrow> instance_descriptor \<Rightarrow> design_error + string" where
  "instance_digest_of r s i =
     failIf (identity_source_digest s \<noteq> source_digest (revision_tuple r) \<or>
             identity_binding_digest s \<noteq> binding_digest (revision_tuple r)) Conflict
       (rendered_instance_digest (JStr (stringify (instance_row r s i))))"

definition create_instance_digest :: "json \<Rightarrow> json \<Rightarrow> json \<Rightarrow> design_error + string" where
  "create_instance_digest revision_value source_value instance_value =
     andThen (parse_revision revision_value) (\<lambda>r.
     andThen (snapshot_value source_value) (\<lambda>sv.
     andThen (parse_source_identity sv) (\<lambda>s.
     andThen (snapshot_value instance_value) (\<lambda>iv.
     andThen (parse_instance iv False) (\<lambda>i.
     instance_digest_of r s (fst i))))))"

end
