(* ===== verification/Design_Binding.thy ===== *)
theory Design_Binding
  imports Design_Revision
begin

text \<open>
  The canonical bindings determine what they bind: equal tuple bindings come from equal tuples,
  equal privacy bindings from privacy records that agree outside the lifecycle, and equal revision
  commitments from equal revisions.  All three rest on the injectivity of \<open>JSON.stringify\<close>.
\<close>

lemma classification_text_inject [simp]: "classification_text c = classification_text d \<longleftrightarrow> c = d"
  by (cases c; cases d) simp_all

lemma lifecycle_text_inject [simp]: "lifecycle_text l = lifecycle_text m \<longleftrightarrow> l = m"
  by (cases l; cases m) simp_all

lemma category_text_inject [simp]: "category_text a = category_text b \<longleftrightarrow> a = b"
  by (cases a; cases b) simp_all

lemma mode_text_inject [simp]: "mode_text x = mode_text y \<longleftrightarrow> x = y"
  by (cases x; cases y) simp_all

lemma telemetry_field_text_inject [simp]: "telemetry_field_text f = telemetry_field_text g \<longleftrightarrow> f = g"
  by (cases f; cases g) simp_all

lemma json_option_inject [simp]: "json_option v = json_option w \<longleftrightarrow> v = w"
  by (cases v; cases w) (simp_all add: json_option_def)

lemma json_option_inert [simp]: "inert (json_option v)"
  by (cases v) (simp_all add: json_option_def)

lemma field_row_inject [simp]: "field_row f = field_row g \<longleftrightarrow> f = g"
  by (cases f; cases g) (simp add: field_row_def)

lemma transition_row_inject [simp]: "transition_row a = transition_row b \<longleftrightarrow> a = b"
proof (cases a; cases b)
  fix t u assume "a = Some t" "b = Some u"
  then show ?thesis by (cases t; cases u) (auto simp: transition_row_def)
qed (simp_all add: transition_row_def)

lemma transition_row_inert [simp]: "inert (transition_row a)"
  by (cases a) (simp_all add: transition_row_def)

lemma map_row_inject [simp]:
  "map field_row fs = map field_row gs \<longleftrightarrow> fs = gs"
  "map JStr xs = map JStr ys \<longleftrightarrow> xs = ys"
  "map (\<lambda>f. JStr (telemetry_field_text f)) us = map (\<lambda>f. JStr (telemetry_field_text f)) vs \<longleftrightarrow> us = vs"
  by (simp_all add: inj_map_eq_map inj_def)

lemma tuple_row_inert [simp]: "inert (tuple_row t)"
  by (cases "tuple_deployment t") (simp_all add: tuple_row_def)

lemma deployment_row_inject: "deployment_row d @ xs = deployment_row e @ ys \<longleftrightarrow> d = e \<and> xs = ys"
  by (cases d; cases e) auto

lemma tuple_row_inject [simp]: "tuple_row t = tuple_row u \<longleftrightarrow> t = u"
  by (cases t; cases u) (auto simp: tuple_row_def deployment_row_inject)

lemma privacy_row_inert [simp]: "inert (privacy_row p)"
  by (simp add: privacy_row_def field_row_def list_all_iff)

lemma telemetry_inject: "telemetry_mode t = telemetry_mode u \<Longrightarrow> telemetry_fields t = telemetry_fields u \<Longrightarrow> t = u"
  by (cases t; cases u) simp_all

text \<open>The fields that the privacy binding leaves out are the lifecycle and its audit.\<close>

definition same_policy :: "privacy \<Rightarrow> privacy \<Rightarrow> bool" where
  "same_policy p q \<longleftrightarrow>
     q = p\<lparr>privacy_lifecycle := privacy_lifecycle q, lifecycle_audit := lifecycle_audit q\<rparr>"

lemma privacy_row_eq: "privacy_row p = privacy_row q \<longleftrightarrow> same_policy p q"
proof
  assume e: "privacy_row p = privacy_row q"
  have "telemetry_fields (privacy_telemetry p) = telemetry_fields (privacy_telemetry q)"
    using e by (simp add: privacy_row_def)
  moreover have "telemetry_mode (privacy_telemetry p) = telemetry_mode (privacy_telemetry q)"
    using e by (simp add: privacy_row_def)
  ultimately have "privacy_telemetry p = privacy_telemetry q" by (intro telemetry_inject)
  then show "same_policy p q" using e
    by (cases p; cases q) (simp add: same_policy_def privacy_row_def)
next
  assume "same_policy p q"
  then show "privacy_row p = privacy_row q"
    unfolding same_policy_def by (subst (asm) eq_commute, cases p, cases q) (auto simp: privacy_row_def)
qed

section \<open>Bindings\<close>

lemma tuple_binding_of_Inr:
  "tuple_binding_of t = Inr b \<longleftrightarrow> b = stringify (tuple_row t) \<and> tuple_binding_ok b"
  by (auto simp: tuple_binding_of_def tuple_binding_def)

lemma privacy_binding_of_Inr:
  "privacy_binding_of p = Inr b \<longleftrightarrow> b = stringify (privacy_row p) \<and> privacy_binding_ok b"
  by (auto simp: privacy_binding_of_def privacy_binding_def)

lemma tuple_binding_inject:
  "tuple_binding_of t = Inr b \<Longrightarrow> tuple_binding_of u = Inr b \<Longrightarrow> t = u"
  by (metis stringify_inject tuple_binding_of_Inr tuple_row_inert tuple_row_inject)

lemma privacy_binding_inject:
  "privacy_binding_of p = Inr b \<Longrightarrow> privacy_binding_of q = Inr b \<Longrightarrow> same_policy p q"
  by (metis privacy_binding_of_Inr privacy_row_eq privacy_row_inert stringify_inject)

lemma commitment_of_Inr:
  "commitment_of r = Inr c \<longleftrightarrow>
     (\<exists>b. privacy_binding_of (revision_privacy r) = Inr b \<and>
        c = stringify (commitment_row r b) \<and> commitment_ok c)"
  by (auto simp: commitment_of_def outcome_simps revision_commitment_def)

lemma commitment_row_inert [simp]: "inert (commitment_row r b)"
  by (simp add: commitment_row_def)

lemma commitment_row_update [simp]: "commitment_row (r\<lparr>commitment := c\<rparr>) b = commitment_row r b"
  by (simp add: commitment_row_def)

lemma commitment_of_update [simp]: "commitment_of (r\<lparr>commitment := c\<rparr>) = commitment_of r"
  by (simp add: commitment_of_def)

text \<open>A revision whose derived fields are the ones the parser computes.\<close>

definition sealed :: "revision \<Rightarrow> bool" where
  "sealed r \<longleftrightarrow>
     tuple_binding_of (revision_tuple r) = Inr (revision_binding r) \<and>
     commitment_of r = Inr (commitment r)"

lemma parse_revision_sealed: "parse_revision v = Inr r \<Longrightarrow> sealed r"
  unfolding parse_revision_def Let_def
  by (auto simp: andThen_eq_Inr failIf_eq_Inr sealed_def commitment_of_def commitment_row_def)

lemma commitment_inject:
  assumes r: "sealed r" and q: "sealed q" and same: "commitment r = commitment q"
  shows "r = q"
proof -
  obtain b where b: "privacy_binding_of (revision_privacy r) = Inr b"
      "commitment r = stringify (commitment_row r b)"
    using r by (auto simp: sealed_def commitment_of_Inr)
  obtain d where d: "privacy_binding_of (revision_privacy q) = Inr d"
      "commitment q = stringify (commitment_row q d)"
    using q by (auto simp: sealed_def commitment_of_Inr)
  have row: "commitment_row r b = commitment_row q d"
    using b(2) d(2) same stringify_inject by (metis commitment_row_inert)
  then have bd: "b = d" "revision_binding r = revision_binding q"
    by (simp_all add: commitment_row_def)
  have "same_policy (revision_privacy r) (revision_privacy q)"
    using privacy_binding_inject b(1) d(1) bd(1) by blast
  moreover have "privacy_lifecycle (revision_privacy r) = privacy_lifecycle (revision_privacy q)"
      "lifecycle_audit (revision_privacy r) = lifecycle_audit (revision_privacy q)"
    using row by (simp_all add: commitment_row_def)
  ultimately have p: "revision_privacy r = revision_privacy q"
    by (cases "revision_privacy r"; cases "revision_privacy q") (simp add: same_policy_def)
  have t: "revision_tuple r = revision_tuple q"
    using tuple_binding_inject r q bd(2) by (auto simp: sealed_def)
  show ?thesis using row p t same bd
    by (intro revision.equality) (simp_all add: commitment_row_def)
qed

end
