(* ===== verification/Design_Commit.thy ===== *)
theory Design_Commit
  imports Design_Revision
begin

text \<open>
  The authority boundary of \<open>packages/core/src/design-revision.ts\<close>: policy, trust anchor, grant
  status, authority and state records, \<open>commitDesignRevision\<close>, and the operation targets and
  references that are issued for the head revision.

  A commit is a pure function of the persisted state, the command and the instant; its result is
  the next state or the error code that is thrown.
\<close>

section \<open>Capabilities\<close>

datatype capability =
    CommitCapability | PreviewCapability | SelectionCapability | InspectCapability | EditCapability
  | ProposalCapability | UndoCapability | BaselineCapability | PublishCapability | HandoffCapability

fun capability_text :: "capability \<Rightarrow> string" where
  "capability_text CommitCapability = ''design:revision.commit''"
| "capability_text PreviewCapability = ''design:revision.preview''"
| "capability_text SelectionCapability = ''design:revision.selection''"
| "capability_text InspectCapability = ''design:revision.inspect''"
| "capability_text EditCapability = ''design:revision.edit''"
| "capability_text ProposalCapability = ''design:revision.proposal''"
| "capability_text UndoCapability = ''design:revision.undo''"
| "capability_text BaselineCapability = ''design:revision.baseline''"
| "capability_text PublishCapability = ''design:revision.publish''"
| "capability_text HandoffCapability = ''design:revision.handoff''"

definition all_capabilities :: "capability list" where
  "all_capabilities = [CommitCapability, PreviewCapability, SelectionCapability, InspectCapability,
     EditCapability, ProposalCapability, UndoCapability, BaselineCapability, PublishCapability,
     HandoffCapability]"

definition capability_of :: "json \<Rightarrow> design_error + capability" where
  "capability_of = one_of capability_text all_capabilities"

definition capabilities_of :: "json \<Rightarrow> design_error + capability list" where
  "capabilities_of value =
     failIf (case value of JArr xs \<Rightarrow> length xs < 1 \<or> 10 < length xs | _ \<Rightarrow> True) Invalid
       (andThen (array_of capability_of value) (\<lambda>accepted.
         failIf (\<not> distinct accepted) Invalid (Inr (sort_key capability_text accepted))))"

datatype operation_kind =
  Preview | Selection | Inspect | Edit | Proposal | Undo | Baseline | Publish | Handoff

fun operation_text :: "operation_kind \<Rightarrow> string" where
  "operation_text Preview = ''preview''"
| "operation_text Selection = ''selection''"
| "operation_text Inspect = ''inspect''"
| "operation_text Edit = ''edit''"
| "operation_text Proposal = ''proposal''"
| "operation_text Undo = ''undo''"
| "operation_text Baseline = ''baseline''"
| "operation_text Publish = ''publish''"
| "operation_text Handoff = ''handoff''"

definition operation_of :: "json \<Rightarrow> design_error + operation_kind" where
  "operation_of = one_of operation_text
     [Preview, Selection, Inspect, Edit, Proposal, Undo, Baseline, Publish, Handoff]"

fun operation_capability :: "operation_kind \<Rightarrow> capability" where
  "operation_capability Preview = PreviewCapability"
| "operation_capability Selection = SelectionCapability"
| "operation_capability Inspect = InspectCapability"
| "operation_capability Edit = EditCapability"
| "operation_capability Proposal = ProposalCapability"
| "operation_capability Undo = UndoCapability"
| "operation_capability Baseline = BaselineCapability"
| "operation_capability Publish = PublishCapability"
| "operation_capability Handoff = HandoffCapability"

section \<open>Policy, grant status and authority\<close>

record trust_anchor =
  anchor_issuer :: string
  anchor_audience :: string
  anchor_grant :: string
  anchor_schema :: int
  anchor_commands :: string

datatype grant_state = GrantActive | GrantRevoked string

record grant_status =
  status_grant :: string
  status_epoch :: int
  status_state :: grant_state

record policy =
  policy_tenant :: string
  policy_project :: string
  policy_id :: string
  policy_revision :: int
  policy_digest :: string
  policy_capabilities :: "capability list"
  policy_anchor :: trust_anchor

record authority =
  authority_tenant :: string
  authority_project :: string
  actor_id :: string
  command_id :: string
  authority_policy :: string
  authority_policy_revision :: int
  authority_policy_digest :: string
  authority_revision :: string
  authority_binding :: string
  authority_commitment :: string
  authority_capabilities :: "capability list"
  authority_grant :: string
  authority_epoch :: int
  authority_issuer :: string
  authority_audience :: string
  authority_schema :: int
  authority_commands :: string
  issued_at :: string
  expires_at :: string
  revoked_at :: "string option"

record revision_head =
  head_name :: string
  head_sequence :: int
  head_created :: string
  head_binding :: string
  head_privacy :: privacy
  head_privacy_binding :: string
  head_revision :: revision
  head_commitment :: string

record revision_state =
  state_tenant :: string
  state_project :: string
  state_policy :: policy
  state_grant :: grant_status
  processed_commands :: "string list"
  state_head :: "revision_head option"

definition parse_trust_anchor :: "json \<Rightarrow> design_error + trust_anchor" where
  "parse_trust_anchor value =
     andThen (snapshot_value value) (\<lambda>v.
     andThen (exact v [''audience'', ''commandsDigest'', ''format'', ''grantId'', ''issuer'', ''schemaRevision''] []) (\<lambda>input.
     failIf (field input ''format'' \<noteq> JStr ''selene-design-revision-trust-anchor/v1'') Unsupported
    (andThen (text_value (field input ''issuer'')) (\<lambda>issuer.
     andThen (text_value (field input ''audience'')) (\<lambda>audience.
     andThen (text_value (field input ''grantId'')) (\<lambda>grant.
     andThen (integer (field input ''schemaRevision'')) (\<lambda>schema.
     andThen (digest (field input ''commandsDigest'')) (\<lambda>commands.
     Inr \<lparr>anchor_issuer = issuer, anchor_audience = audience, anchor_grant = grant,
          anchor_schema = schema, anchor_commands = commands\<rparr>))))))))"

definition parse_grant_status :: "json \<Rightarrow> design_error + grant_status" where
  "parse_grant_status value =
     andThen (snapshot_value value) (\<lambda>v.
     andThen (exact v [''epoch'', ''format'', ''grantId'', ''state''] [''revokedAt'']) (\<lambda>input.
     failIf (field input ''format'' \<noteq> JStr ''selene-design-revision-grant-status/v1'') Unsupported
    (andThen (text_value (field input ''grantId'')) (\<lambda>grant.
     andThen (integer (field input ''epoch'')) (\<lambda>epoch.
       let revoked = field input ''revokedAt'' in
       if field input ''state'' = JStr ''active'' \<and> undefined_json revoked
       then Inr \<lparr>status_grant = grant, status_epoch = epoch, status_state = GrantActive\<rparr>
       else if field input ''state'' = JStr ''revoked'' \<and> \<not> undefined_json revoked
       then andThen (instant revoked) (\<lambda>at.
         Inr \<lparr>status_grant = grant, status_epoch = epoch, status_state = GrantRevoked at\<rparr>)
       else Inl Invalid)))))"

definition compile_policy :: "json \<Rightarrow> design_error + policy" where
  "compile_policy value =
     andThen (snapshot_value value) (\<lambda>v.
     andThen (exact v [''capabilities'', ''digest'', ''format'', ''policyId'', ''projectId'', ''revision'',
         ''tenantId'', ''trustAnchor''] []) (\<lambda>input.
     failIf (field input ''format'' \<noteq> JStr ''selene-design-revision-policy/v1'' \<and>
             field input ''format'' \<noteq> JStr ''selene-design-revision-policy/v2'') Unsupported
    (andThen (capabilities_of (field input ''capabilities'')) (\<lambda>accepted.
     failIf (field input ''format'' = JStr ''selene-design-revision-policy/v1'' \<and>
             accepted \<noteq> [CommitCapability]) Unsupported
    (andThen (text_value (field input ''tenantId'')) (\<lambda>tenant.
     andThen (text_value (field input ''projectId'')) (\<lambda>project.
     andThen (text_value (field input ''policyId'')) (\<lambda>i.
     andThen (integer (field input ''revision'')) (\<lambda>rev.
     andThen (digest (field input ''digest'')) (\<lambda>d.
     andThen (parse_trust_anchor (field input ''trustAnchor'')) (\<lambda>anchor.
     Inr \<lparr>policy_tenant = tenant, policy_project = project, policy_id = i, policy_revision = rev,
          policy_digest = d, policy_capabilities = accepted, policy_anchor = anchor\<rparr>)))))))))))"

definition authority_keys :: "string list" where
  "authority_keys = [''actorId'', ''audience'', ''capabilities'', ''commandId'', ''commandsDigest'',
     ''expiresAt'', ''format'', ''grantId'', ''grantEpoch'', ''issuedAt'', ''issuer'', ''policyDigest'',
     ''policyId'', ''policyRevision'', ''projectId'', ''revisionCommitment'', ''revisionId'',
     ''schemaRevision'', ''tenantId'', ''tupleBinding'']"

definition parse_authority :: "json \<Rightarrow> design_error + authority" where
  "parse_authority value =
     andThen (snapshot_rejecting value ''selene-design-revision-authority/v1'') (\<lambda>v.
     andThen (exact v authority_keys [''revokedAt'']) (\<lambda>input.
     failIf (field input ''format'' \<noteq> JStr ''selene-design-revision-authority/v2'') Unsupported
    (andThen (instant (field input ''issuedAt'')) (\<lambda>issued.
     andThen (instant (field input ''expiresAt'')) (\<lambda>expires.
     failIf (expires \<le> issued) Unauthorized
    (andThen (text_value (field input ''tenantId'')) (\<lambda>tenant.
     andThen (text_value (field input ''projectId'')) (\<lambda>project.
     andThen (text_value (field input ''actorId'')) (\<lambda>actor.
     andThen (text_value (field input ''commandId'')) (\<lambda>command.
     andThen (text_value (field input ''policyId'')) (\<lambda>pid.
     andThen (integer (field input ''policyRevision'')) (\<lambda>prev.
     andThen (digest (field input ''policyDigest'')) (\<lambda>pdig.
     andThen (text_value (field input ''revisionId'')) (\<lambda>rev.
     andThen (tuple_binding (field input ''tupleBinding'')) (\<lambda>binding.
     andThen (revision_commitment (field input ''revisionCommitment'')) (\<lambda>c.
     andThen (capabilities_of (field input ''capabilities'')) (\<lambda>caps.
     andThen (text_value (field input ''grantId'')) (\<lambda>grant.
     andThen (integer (field input ''grantEpoch'')) (\<lambda>epoch.
     andThen (text_value (field input ''issuer'')) (\<lambda>issuer.
     andThen (text_value (field input ''audience'')) (\<lambda>audience.
     andThen (integer (field input ''schemaRevision'')) (\<lambda>schema.
     andThen (digest (field input ''commandsDigest'')) (\<lambda>commands.
     andThen (optional_field instant (field input ''revokedAt'')) (\<lambda>revoked.
     Inr \<lparr>authority_tenant = tenant, authority_project = project, actor_id = actor,
          command_id = command, authority_policy = pid, authority_policy_revision = prev,
          authority_policy_digest = pdig, authority_revision = rev, authority_binding = binding,
          authority_commitment = c, authority_capabilities = caps, authority_grant = grant,
          authority_epoch = epoch, authority_issuer = issuer, authority_audience = audience,
          authority_schema = schema, authority_commands = commands, issued_at = issued,
          expires_at = expires, revoked_at = revoked\<rparr>))))))))))))))))))))))))"

section \<open>The state\<close>

definition head_keys :: "string list" where
  "head_keys = [''createdAt'', ''format'', ''privacy'', ''privacyBinding'', ''revision'',
     ''revisionCommitment'', ''revisionId'', ''sequence'', ''tupleBinding'']"

definition parse_head :: "json \<Rightarrow> design_error + revision_head" where
  "parse_head value =
     andThen (exact value head_keys []) (\<lambda>input.
     failIf (field input ''format'' \<noteq> JStr ''selene-design-revision-head/v2'') Unsupported
    (andThen (parse_privacy (field input ''privacy'')) (\<lambda>p.
     andThen (privacy_binding (field input ''privacyBinding'')) (\<lambda>binding.
     andThen (parse_revision (field input ''revision'')) (\<lambda>r.
     andThen (revision_commitment (field input ''revisionCommitment'')) (\<lambda>c.
     andThen (privacy_binding_of p) (\<lambda>expected.
     failIf (binding \<noteq> expected) Conflict
    (failIf (c \<noteq> commitment r) Conflict
    (andThen (text_value (field input ''revisionId'')) (\<lambda>name.
     failIf (name \<noteq> revision_name r) Conflict
    (andThen (integer (field input ''sequence'')) (\<lambda>seq.
     failIf (seq \<noteq> revision_sequence r) Conflict
    (andThen (instant (field input ''createdAt'')) (\<lambda>created.
     failIf (created \<noteq> created_at r) Conflict
    (andThen (tuple_binding (field input ''tupleBinding'')) (\<lambda>tb.
     failIf (tb \<noteq> revision_binding r) Conflict
    (andThen (privacy_binding_of (revision_privacy r)) (\<lambda>rb.
     failIf (binding \<noteq> rb \<or>
         stringify (privacy_json p) \<noteq> stringify (privacy_json (revision_privacy r))) Conflict
     (Inr \<lparr>head_name = revision_name r, head_sequence = revision_sequence r,
          head_created = created_at r, head_binding = revision_binding r, head_privacy = p,
          head_privacy_binding = binding, head_revision = r, head_commitment = c\<rparr>)))))))))))))))))))"

text \<open>\<open>!Array.isArray(ids) || ids.length > maxCommands\<close>\<close>

definition oversized :: "json \<Rightarrow> bool" where
  "oversized v = (case v of JArr xs \<Rightarrow> max_commands < length xs | _ \<Rightarrow> True)"

definition head_elsewhere :: "revision_head option \<Rightarrow> string \<Rightarrow> string \<Rightarrow> bool" where
  "head_elsewhere head tenant project =
     (case head of None \<Rightarrow> False
      | Some h \<Rightarrow> revision_tenant (head_revision h) \<noteq> tenant \<or>
                 revision_project (head_revision h) \<noteq> project)"

definition parse_state :: "json \<Rightarrow> design_error + revision_state" where
  "parse_state value =
     andThen (snapshot_state_value value) (\<lambda>v.
     andThen (exact v [''format'', ''grantStatus'', ''policy'', ''processedCommandIds'', ''projectId'',
         ''tenantId''] [''head'']) (\<lambda>input.
       let legacy = (field input ''format'' = JStr ''selene-design-revision-state/v1'');
           commands = field input ''processedCommandIds'' in
     failIf (\<not> legacy \<and> field input ''format'' \<noteq> JStr ''selene-design-revision-state/v2'') Unsupported
    (failIf (oversized commands) Invalid
    (failIf (legacy \<and> (\<not> undefined_json (field input ''head'') \<or> commands \<noteq> JArr [])) Unsupported
    (andThen (array_of text_value commands) (\<lambda>ids.
     failIf (\<not> distinct ids) Invalid
    (andThen (optional_field parse_head (field input ''head'')) (\<lambda>head.
     andThen (compile_policy (field input ''policy'')) (\<lambda>policy.
     andThen (parse_grant_status (field input ''grantStatus'')) (\<lambda>grant.
     andThen (text_value (field input ''tenantId'')) (\<lambda>tenant.
     andThen (text_value (field input ''projectId'')) (\<lambda>project.
     failIf (policy_tenant policy \<noteq> tenant \<or> policy_project policy \<noteq> project \<or>
             anchor_grant (policy_anchor policy) \<noteq> status_grant grant \<or>
             head_elsewhere head tenant project) Conflict
       (Inr \<lparr>state_tenant = tenant, state_project = project, state_policy = policy,
            state_grant = grant, processed_commands = ids, state_head = head\<rparr>)))))))))))))"

section \<open>Committing a revision\<close>

text \<open>\<open>(revokedAt !== undefined && revokedAt <= at) || at < issuedAt || at > expiresAt\<close>\<close>

definition outside_window :: "string option \<Rightarrow> string \<Rightarrow> string \<Rightarrow> string \<Rightarrow> bool" where
  "outside_window revoked issued expires at \<longleftrightarrow>
     (case revoked of None \<Rightarrow> False | Some r \<Rightarrow> r \<le> at) \<or> at < issued \<or> expires < at"

definition foreign_grant :: "authority \<Rightarrow> trust_anchor \<Rightarrow> bool" where
  "foreign_grant a anchor \<longleftrightarrow>
     authority_issuer a \<noteq> anchor_issuer anchor \<or> authority_audience a \<noteq> anchor_audience anchor \<or>
     authority_grant a \<noteq> anchor_grant anchor \<or> authority_schema a \<noteq> anchor_schema anchor \<or>
     authority_commands a \<noteq> anchor_commands anchor"

definition grant_inactive :: "authority \<Rightarrow> grant_status \<Rightarrow> bool" where
  "grant_inactive a status \<longleftrightarrow>
     status_state status \<noteq> GrantActive \<or> authority_grant a \<noteq> status_grant status \<or>
     authority_epoch a \<noteq> status_epoch status"

definition exceeds_policy :: "authority \<Rightarrow> policy \<Rightarrow> bool" where
  "exceeds_policy a p \<longleftrightarrow>
     list_ex (\<lambda>c. c \<notin> set (policy_capabilities p)) (authority_capabilities a)"

text \<open>The checks of the privacy record against the head's.\<close>

definition lifecycle_step_error ::
    "revision_head \<Rightarrow> revision \<Rightarrow> string \<Rightarrow> string \<Rightarrow> design_error option" where
  "lifecycle_step_error h r next_binding at =
     (if next_binding \<noteq> head_privacy_binding h then Some Conflict
      else
        let before = privacy_lifecycle (head_privacy h);
            after = privacy_lifecycle (revision_privacy r) in
        if after = before
        then (if lifecycle_audit (revision_privacy r) \<noteq> None then Some Conflict else None)
        else
          (case lifecycle_audit (revision_privacy r) of
             None \<Rightarrow> Some Unauthorized
           | Some t \<Rightarrow>
               (if prior_revision_id t \<noteq> Some (head_name h) \<or>
                   prior_tuple_binding t \<noteq> Some (head_binding h) \<or>
                   prior_privacy_binding t \<noteq> Some (head_privacy_binding h) \<or>
                   transition_from t \<noteq> before \<or> transition_to t \<noteq> after \<or>
                   \<not> can_transition (transition_from t) (transition_to t) \<or>
                   transition_audit_id t \<noteq> audit_id (head_privacy h) \<or>
                   occurred_at t < head_created h \<or> created_at r < occurred_at t \<or> at < occurred_at t
                then Some Unauthorized else None)))"

definition commit_parsed ::
    "revision_state \<Rightarrow> authority \<Rightarrow> revision \<Rightarrow> string \<Rightarrow> design_error + revision_state" where
  "commit_parsed s a r at =
     (let policy = state_policy s; p = revision_privacy r in
     failIf (authority_tenant a \<noteq> state_tenant s \<or> authority_project a \<noteq> state_project s \<or>
             revision_tenant r \<noteq> state_tenant s \<or> revision_project r \<noteq> state_project s) Unauthorized
    (failIf (authority_policy a \<noteq> policy_id policy \<or> authority_policy_revision a \<noteq> policy_revision policy \<or>
             authority_policy_digest a \<noteq> policy_digest policy \<or>
             CommitCapability \<notin> set (authority_capabilities a) \<or>
             CommitCapability \<notin> set (policy_capabilities policy) \<or> exceeds_policy a policy) Stale
    (failIf (foreign_grant a (policy_anchor policy)) Unauthorized
    (failIf (grant_inactive a (state_grant s)) Unauthorized
    (failIf (authority_revision a \<noteq> revision_name r \<or> authority_binding a \<noteq> revision_binding r \<or>
             authority_commitment a \<noteq> commitment r) Unauthorized
    (failIf (outside_window (revoked_at a) (issued_at a) (expires_at a) at \<or>
             created_at r < issued_at a \<or> expires_at a < created_at r) Unauthorized
    (failIf (case state_head s of None \<Rightarrow> False
             | Some h \<Rightarrow> privacy_lifecycle (head_privacy h) = Tombstoned \<or>
                        privacy_lifecycle (head_privacy h) = Expired) Unauthorized
    (failIf (delete_after p \<le> created_at r \<or> delete_after p \<le> at) Unauthorized
    (failIf (command_id a \<in> set (processed_commands s)) Replay
    (failIf (max_commands \<le> length (processed_commands s)) Recovery
    (failIf (case state_head s of
               None \<Rightarrow> revision_sequence r \<noteq> 1 \<or> parent_revision r \<noteq> None
             | Some h \<Rightarrow>
                 revision_sequence r \<noteq> head_sequence h + 1 \<or> revision_name r = head_name h \<or>
                 parent_revision r \<noteq> Some (head_name h) \<or> created_at r < head_created h) Conflict
    (andThen (privacy_binding_of p) (\<lambda>next_binding.
     andThen (case state_head s of
                None \<Rightarrow> failIf (privacy_lifecycle p \<noteq> Active \<or> lifecycle_audit p \<noteq> None) Unauthorized (Inr ())
              | Some h \<Rightarrow>
                  (case lifecycle_step_error h r next_binding at of None \<Rightarrow> Inr () | Some e \<Rightarrow> Inl e)) (\<lambda>u.
     Inr (s\<lparr>processed_commands := processed_commands s @ [command_id a],
            state_head := Some
              \<lparr>head_name = revision_name r, head_sequence = revision_sequence r,
               head_created = created_at r, head_binding = revision_binding r, head_privacy = p,
               head_privacy_binding = next_binding, head_revision = r,
               head_commitment = commitment r\<rparr>\<rparr>)))))))))))))))"

text \<open>The command \<open>unknown\<close> value and the clock.\<close>

definition commit_command ::
    "revision_state \<Rightarrow> json \<times> string \<Rightarrow> design_error + revision_state" where
  "commit_command s c =
     andThen (snapshot_value (fst c)) (\<lambda>v.
     andThen (exact v [''authority'', ''format'', ''revision''] []) (\<lambda>input.
     failIf (field input ''format'' \<noteq> JStr ''selene-design-revision-command/v2'') Unsupported
    (andThen (parse_authority (field input ''authority'')) (\<lambda>a.
     andThen (parse_revision (field input ''revision'')) (\<lambda>r.
     andThen (instant (JStr (snd c))) (\<lambda>at.
       commit_parsed s a r at))))))"

definition commit_revision :: "json \<Rightarrow> json \<Rightarrow> string \<Rightarrow> design_error + revision_state" where
  "commit_revision state_value command_value now =
     andThen (parse_state state_value) (\<lambda>s. commit_command s (command_value, now))"

datatype commit_outcome = CommitAccepted revision_state | CommitRefused design_error

definition commit_outcome :: "json \<Rightarrow> json \<Rightarrow> string \<Rightarrow> commit_outcome" where
  "commit_outcome state_value command_value now =
     (case commit_revision state_value command_value now of
        Inl e \<Rightarrow> CommitRefused e
      | Inr s \<Rightarrow> CommitAccepted s)"

end
