(* ===== verification/Design_Roundtrip.thy ===== *)
theory Design_Roundtrip
  imports Design_Binding Design_Commit
begin

text \<open>
  The objects that the parsers return parse back to themselves.  The budgeted copy is the hard
  part: its cost is given by the size measures below, and the size of a privacy record is bounded
  by the length of its binding, so every record that was parsed once fits the budget again.
\<close>

section \<open>The cost of the budgeted copy\<close>

fun json_nodes :: "json \<Rightarrow> nat" where
  "json_nodes (JArr xs) = 1 + length xs + sum_list (map json_nodes xs)"
| "json_nodes (JObj kvs) = 1 + sum_list (map (\<lambda>kv. json_nodes (snd kv)) kvs)"
| "json_nodes _ = 1"

fun json_bytes :: "json \<Rightarrow> nat" where
  "json_bytes (JStr s) = utf8_length s"
| "json_bytes (JArr xs) = sum_list (map json_bytes xs)"
| "json_bytes (JObj kvs) = sum_list (map (\<lambda>kv. utf8_length (fst kv) + json_bytes (snd kv)) kvs)"
| "json_bytes _ = 0"

text \<open>Depth within \<open>n\<close>, no foreign value, bounded widths and distinct keys.\<close>

fun well_shaped :: "nat \<Rightarrow> json \<Rightarrow> bool" where
  "well_shaped n (JArr xs) \<longleftrightarrow> n > 0 \<and> length xs \<le> max_commands \<and> list_all (well_shaped (n - 1)) xs"
| "well_shaped n (JObj kvs) \<longleftrightarrow> n > 0 \<and> length kvs \<le> max_commands \<and> distinct (map fst kvs) \<and>
     list_all (\<lambda>kv. well_shaped (n - 1) (snd kv)) kvs"
| "well_shaped n (JOther f) \<longleftrightarrow> False"
| "well_shaped n _ \<longleftrightarrow> True"

definition charge :: "nat \<Rightarrow> nat \<Rightarrow> budget \<Rightarrow> budget" where
  "charge nodes bytes b = b\<lparr>budget_nodes := budget_nodes b + nodes, budget_bytes := budget_bytes b + bytes\<rparr>"

definition affords :: "budget \<Rightarrow> nat \<Rightarrow> nat \<Rightarrow> bool" where
  "affords b nodes bytes \<longleftrightarrow>
     budget_nodes b + nodes \<le> max_snapshot_nodes \<and> budget_bytes b + bytes \<le> max_snapshot_bytes"

lemma charge_charge [simp]: "charge m x (charge n y b) = charge (n + m) (y + x) b"
  by (simp add: charge_def algebra_simps)

lemma affords_charge [simp]: "affords (charge n y b) m x \<longleftrightarrow> affords b (n + m) (y + x)"
  by (simp add: affords_def charge_def algebra_simps)

lemma affords_mono: "affords b n y \<Longrightarrow> m \<le> n \<Longrightarrow> x \<le> y \<Longrightarrow> affords b m x"
  by (simp add: affords_def)

lemma count_nodes_affords: "affords b n y \<Longrightarrow> count_nodes False n b = Some (charge n 0 b)"
  by (simp add: count_nodes_def affords_def charge_def)

lemma count_bytes_affords: "affords b n (utf8_length s) \<Longrightarrow> count_bytes False s b = Some (charge 0 (utf8_length s) b)"
  by (simp add: count_bytes_def affords_def charge_def)

text \<open>A loop whose every step costs its measure.\<close>

lemma budgeted_charges:
  assumes "\<And>x c. x \<in> set xs \<Longrightarrow> affords c (n x) (y x) \<Longrightarrow> f x c = Some (charge (n x) (y x) c)"
    and "affords b (sum_list (map n xs)) (sum_list (map y xs))"
  shows "budgeted f xs b = Some (charge (sum_list (map n xs)) (sum_list (map y xs)) b)"
  using assms
proof (induction xs arbitrary: b)
  case Nil
  then show ?case by (simp add: charge_def)
next
  case (Cons x xs)
  have "affords b (n x) (y x)" using Cons.prems(2) by (rule affords_mono) simp_all
  then have "f x b = Some (charge (n x) (y x) b)" using Cons.prems(1) by simp
  moreover have "budgeted f xs (charge (n x) (y x) b) =
      Some (charge (sum_list (map n xs)) (sum_list (map y xs)) (charge (n x) (y x) b))"
    using Cons.prems by (intro Cons.IH) simp_all
  ultimately show ?case by simp
qed

lemma walk_charges:
  "well_shaped (32 - d) v \<Longrightarrow> d \<le> 32 \<Longrightarrow> affords b (json_nodes v) (json_bytes v) \<Longrightarrow>
     walk d False False False v b = Some (charge (json_nodes v) (json_bytes v) b)"
proof (induction v arbitrary: d b)
  case (JStr s)
  then have "affords b 1 0" by (auto elim: affords_mono)
  then show ?case using JStr by (simp add: walk.simps count_nodes_affords count_bytes_affords [where n = 0])
next
  case (JArr xs)
  let ?n = "sum_list (map json_nodes xs)" and ?y = "sum_list (map json_bytes xs)"
  have d: "d < 32" "length xs \<le> max_commands" using JArr.prems(1) by auto
  have sh: "well_shaped (32 - (d + 1)) x" if "x \<in> set xs" for x
    using JArr.prems(1) that by (simp add: list_all_iff)
  have aff: "affords b (1 + length xs + ?n) ?y" using JArr.prems(3) by simp
  have "budgeted (\<lambda>x. walk (d + 1) False False (False \<and> is_string_value x) x) xs (charge (1 + length xs) 0 b) =
      Some (charge ?n ?y (charge (1 + length xs) 0 b))"
    by (rule budgeted_charges) (use JArr.IH sh d aff in \<open>simp_all add: Suc_le_eq\<close>)
  moreover have "affords b 1 0" "affords b (1 + length xs) 0"
    using aff by (auto elim: affords_mono)
  ultimately show ?case using d
    by (simp add: walk.simps count_nodes_affords)
next
  case (JObj kvs)
  let ?y = "\<lambda>kv. utf8_length (fst kv) + json_bytes (snd kv)"
  have d: "d < 32" "length kvs \<le> max_commands" "distinct (map fst kvs)" using JObj.prems(1) by auto
  have sh: "well_shaped (32 - (d + 1)) (snd kv)" if "kv \<in> set kvs" for kv
    using JObj.prems(1) that by (auto simp: list_all_iff)
  have aff: "affords b (1 + sum_list (map (\<lambda>kv. json_nodes (snd kv)) kvs)) (sum_list (map ?y kvs))"
    using JObj.prems(3) by simp
  have step: "Option.bind (count_bytes False (fst kv) c) (walk (d + 1) False False False (snd kv)) =
      Some (charge (json_nodes (snd kv)) (?y kv) c)"
    if "kv \<in> set kvs" "affords c (json_nodes (snd kv)) (?y kv)" for kv c
  proof -
    have "affords c 0 (utf8_length (fst kv))" using that(2) by (rule affords_mono) simp_all
    moreover have "walk (d + 1) False False False (snd kv) (charge 0 (utf8_length (fst kv)) c) =
        Some (charge (json_nodes (snd kv)) (json_bytes (snd kv)) (charge 0 (utf8_length (fst kv)) c))"
      using that sh d by (intro JObj.IH [of kv]) (auto simp: snds.simps)
    ultimately show ?thesis by (simp add: count_bytes_affords)
  qed
  have "budgeted (\<lambda>kv c. Option.bind (count_bytes False (fst kv) c) (walk (d + 1) False False False (snd kv))) kvs
      (charge 1 0 b) = Some (charge (sum_list (map (\<lambda>kv. json_nodes (snd kv)) kvs)) (sum_list (map ?y kvs)) (charge 1 0 b))"
    by (rule budgeted_charges) (use step aff in simp_all)
  moreover have "affords b 1 0" using aff by (auto elim: affords_mono)
  ultimately show ?case using d by (simp add: walk.simps count_nodes_affords)
qed (simp_all add: walk.simps count_nodes_affords)

lemma affords_none: "affords no_budget n y \<longleftrightarrow> n \<le> max_snapshot_nodes \<and> y \<le> max_snapshot_bytes"
  by (simp add: affords_def no_budget_def)

lemma snapshot_fits:
  "well_shaped 32 v \<Longrightarrow> json_nodes v \<le> max_snapshot_nodes \<Longrightarrow> json_bytes v \<le> max_snapshot_bytes \<Longrightarrow>
     snapshot_value v = Inr v"
  using walk_charges [of 0 v no_budget] by (simp add: snapshot_value_def affords_none)

section \<open>The text bounds the size\<close>


lemma js_join_length:
  "length (js_join '','' xs) + 1 = sum_list (map length xs) + length xs \<or> xs = []"
  by (induction "'','' :: string" xs rule: js_join.induct) auto

lemma js_join_length_le: "sum_list (map length xs) + length xs \<le> length (js_join '','' xs) + 1"
  using js_join_length [of xs] by auto

lemma quote_text_length: "length s + 2 \<le> length (quote_text s)"
proof -
  have "length s \<le> length (concat (map escape_char s))"
  proof (induction s)
    case (Cons c s)
    have "1 \<le> length (escape_char c)" by (simp add: escape_char_def)
    then show ?case using Cons.IH by simp
  qed simp
  then show ?thesis by (simp add: quote_text_def)
qed

lemma decimal_nonempty: "text_of_decimal d \<noteq> []"
  using decimal_text_of [of d] by (auto simp: decimal_text_def)

lemma nodes_le_text: "json_nodes v \<le> length (stringify v)"
proof (induction v)
  case (JNum i)
  then show ?case using int_text_nonempty [of i] by (cases "int_text i") simp_all
next
  case (JDec d)
  then show ?case using decimal_nonempty [of d] by (cases "text_of_decimal d") simp_all
next
  case (JStr s)
  then show ?case using quote_text_length [of s] by simp
next
  case (JArr xs)
  have "sum_list (map json_nodes xs) \<le> sum_list (map (\<lambda>x. length (stringify x)) xs)"
    using JArr.IH by (intro sum_list_mono)
  then show ?case using js_join_length_le [of "map stringify xs"] by (simp add: comp_def)
next
  case (JObj kvs)
  let ?e = "\<lambda>kv. quote_text (fst kv) @ CHR '':'' # stringify (snd kv)"
  have "json_nodes (snd kv) \<le> length (?e kv)" if "kv \<in> set kvs" for kv
    using JObj.IH [OF that, of "snd kv"] by (auto simp: snds.simps)
  then have "sum_list (map (\<lambda>kv. json_nodes (snd kv)) kvs) \<le> sum_list (map (\<lambda>kv. length (?e kv)) kvs)"
    by (intro sum_list_mono)
  then show ?case using js_join_length_le [of "map ?e kvs"] by (simp add: comp_def)
qed simp_all

lemma bytes_le_text: "json_bytes v \<le> 2 * length (stringify v)"
proof (induction v)
  case (JStr s)
  then show ?case using quote_text_length [of s] utf8_length_le [of s] by simp
next
  case (JArr xs)
  have "sum_list (map json_bytes xs) \<le> sum_list (map (\<lambda>x. 2 * length (stringify x)) xs)"
    using JArr.IH by (intro sum_list_mono)
  then show ?case using js_join_length_le [of "map stringify xs"]
    by (simp add: comp_def sum_list_const_mult)
next
  case (JObj kvs)
  let ?e = "\<lambda>kv. quote_text (fst kv) @ CHR '':'' # stringify (snd kv)"
  have "utf8_length (fst kv) + json_bytes (snd kv) \<le> 2 * length (?e kv)" if "kv \<in> set kvs" for kv
    using JObj.IH [OF that, of "snd kv"] quote_text_length [of "fst kv"] utf8_length_le [of "fst kv"]
    by (auto simp: snds.simps)
  then have "sum_list (map (\<lambda>kv. utf8_length (fst kv) + json_bytes (snd kv)) kvs) \<le>
      sum_list (map (\<lambda>kv. 2 * length (?e kv)) kvs)"
    by (intro sum_list_mono)
  also have "\<dots> = 2 * sum_list (map length (map ?e kvs))"
    by (simp only: sum_list_const_mult map_map comp_def)
  finally have "sum_list (map (\<lambda>kv. utf8_length (fst kv) + json_bytes (snd kv)) kvs) \<le>
      2 * sum_list (map length (map ?e kvs))" .
  moreover have "sum_list (map length (map ?e kvs)) \<le> length (js_join '','' (map ?e kvs)) + 1"
    using js_join_length_le [of "map ?e kvs"] by (rule add_leD1)
  moreover have "length (stringify (JObj kvs)) = length (js_join '','' (map ?e kvs)) + 2" by simp
  ultimately show ?case unfolding json_bytes.simps by linarith
qed simp_all

section \<open>Records in canonical form\<close>

definition option_ok :: "('a \<Rightarrow> bool) \<Rightarrow> 'a option \<Rightarrow> bool" where
  "option_ok ok v = (case v of None \<Rightarrow> True | Some x \<Rightarrow> ok x)"

definition time_ok :: "string \<Rightarrow> bool" where
  "time_ok s \<longleftrightarrow> length s \<le> 64 \<and> is_instant s"

definition transition_ok :: "privacy_transition \<Rightarrow> bool" where
  "transition_ok t \<longleftrightarrow>
     option_ok digest_ok (transition_tombstone t) \<and> option_ok identifier_ok (prior_revision_id t) \<and>
     option_ok tuple_binding_ok (prior_tuple_binding t) \<and>
     option_ok privacy_binding_ok (prior_privacy_binding t) \<and>
     (prior_revision_id t = None \<longleftrightarrow> prior_tuple_binding t = None) \<and>
     (prior_revision_id t = None \<longleftrightarrow> prior_privacy_binding t = None) \<and>
     (transition_to t = Tombstoned \<longleftrightarrow> transition_tombstone t \<noteq> None) \<and>
     time_ok (occurred_at t) \<and> identifier_ok (transition_audit_id t)"

lemma optional_scalar_Inr:
  "optional_field (string_where ok) v = Inr w \<Longrightarrow> option_ok ok w"
  by (auto simp: outcome_simps option_ok_def)

lemma parse_transition_ok: "parse_transition v = Inr t \<Longrightarrow> transition_ok t"
  unfolding parse_transition_def scalar_defs
  by (auto simp: andThen_eq_Inr failIf_eq_Inr transition_ok_def time_ok_def dest: optional_scalar_Inr)


text \<open>Lengths of the scalars.\<close>

lemma scalar_lengths:
  "identifier_ok s \<Longrightarrow> utf8_length s \<le> 256" "digest_ok s \<Longrightarrow> utf8_length s \<le> 128"
  "time_ok s \<Longrightarrow> utf8_length s \<le> 128" "tuple_binding_ok s \<Longrightarrow> utf8_length s \<le> 4096"
  "privacy_binding_ok s \<Longrightarrow> utf8_length s \<le> 8192" "commitment_ok s \<Longrightarrow> utf8_length s \<le> 16384"
  using utf8_length_le [of s]
  by (auto simp: identifier_ok_def digest_ok_def time_ok_def tuple_binding_ok_def privacy_binding_ok_def
      commitment_ok_def split: list.splits)

lemma entry_option_simps [simp]:
  "entry_option k None = []" "entry_option k (Some s) = [(k, JStr s)]"
  by (simp_all add: entry_option_def)

lemma optional_field_undefined [simp]: "optional_field f (JOther NonObject) = Inr None"
  by (simp add: optional_field_def undefined_json_def)

lemma optional_field_JStr [simp]:
  "optional_field f (JStr s) = andThen (f (JStr s)) (\<lambda>x. Inr (Some x))"
  by (simp add: optional_field_def undefined_json_def)

lemma integer_JNum: "1 \<le> n \<Longrightarrow> n \<le> max_safe_integer \<Longrightarrow> integer (JNum n) = Inr n"
  by simp

lemma one_of_lifecycle [simp]: "lifecycle_of (JStr (lifecycle_text l)) = Inr l"
  by (cases l) (simp_all add: lifecycle_of_def one_of_def)

lemma one_of_classification [simp]: "classification_of (JStr (classification_text c)) = Inr c"
  by (cases c) (simp_all add: classification_of_def one_of_def)

lemma one_of_category [simp]: "category_of (JStr (category_text c)) = Inr c"
  by (cases c) (simp_all add: category_of_def one_of_def)

lemma one_of_mode [simp]: "mode_of (JStr (mode_text c)) = Inr c"
  by (cases c) (simp_all add: mode_of_def one_of_def)

lemma one_of_telemetry [simp]: "telemetry_field_of (JStr (telemetry_field_text f)) = Inr f"
  by (cases f) (simp_all add: telemetry_field_of_def one_of_def)

lemma exact_eq:
  "exact (JObj kvs) required optional =
     (if fst ` set kvs \<subseteq> set (required @ optional) \<and> set required \<subseteq> fst ` set kvs then Inr kvs else Inl Invalid)"
  by (auto simp: exact_def failIf_def list_ex_iff)

text \<open>Sizes of the texts that records print.\<close>

lemma lifecycle_bytes: "utf8_length (lifecycle_text l) \<le> 10"
  by (cases l) simp_all

lemma telemetry_mode_bytes: "utf8_length (telemetry_mode t) \<le> 14"
  by (cases t) simp_all

lemma telemetry_consent_bytes: "utf8_length (telemetry_consent t) \<le> 11"
  by (cases t) simp_all

lemma transition_size:
  assumes "transition_ok t"
  shows "json_nodes (transition_json t) \<le> 10" "json_bytes (transition_json t) \<le> 16000"
    "well_shaped n (transition_json t) \<longleftrightarrow> n > 0"
proof -
  have len: "option_ok (\<lambda>s. utf8_length s \<le> 256) (prior_revision_id t)"
      "option_ok (\<lambda>s. utf8_length s \<le> 4096) (prior_tuple_binding t)"
      "option_ok (\<lambda>s. utf8_length s \<le> 8192) (prior_privacy_binding t)"
      "option_ok (\<lambda>s. utf8_length s \<le> 128) (transition_tombstone t)"
      "utf8_length (occurred_at t) \<le> 128" "utf8_length (transition_audit_id t) \<le> 256"
    using assms scalar_lengths by (auto simp: transition_ok_def option_ok_def split: option.splits)
  show "json_nodes (transition_json t) \<le> 10" "well_shaped n (transition_json t) \<longleftrightarrow> n > 0"
    by (cases "prior_revision_id t"; cases "prior_tuple_binding t"; cases "prior_privacy_binding t";
        cases "transition_tombstone t"; simp add: transition_json_def max_commands_def)+
  show "json_bytes (transition_json t) \<le> 16000"
    using len lifecycle_bytes [of "transition_from t"] lifecycle_bytes [of "transition_to t"]
    by (cases "prior_revision_id t"; cases "prior_tuple_binding t"; cases "prior_privacy_binding t";
        cases "transition_tombstone t"; simp add: transition_json_def option_ok_def)
qed

lemma transition_roundtrip:
  assumes "transition_ok t"
  shows "parse_transition (transition_json t) = Inr t"
proof -
  have snap: "snapshot_value (transition_json t) = Inr (transition_json t)"
    using transition_size [OF assms]
    by (intro snapshot_fits) (simp_all add: max_snapshot_nodes_def max_snapshot_bytes_def)
  show ?thesis
    unfolding parse_transition_def snap andThen_Inr
    using assms
    by (cases "prior_revision_id t"; cases "transition_tombstone t")
      (auto simp: transition_json_def transition_ok_def option_ok_def exact_eq scalar_defs time_ok_def
        outcome_simps one_of_lifecycle [of Tombstoned, simplified]
        split: option.splits intro!: privacy_transition.equality)
qed


section \<open>Privacy records\<close>

fun telemetry_ok :: "telemetry \<Rightarrow> bool" where
  "telemetry_ok TelemetryDisabled \<longleftrightarrow> True"
| "telemetry_ok (TelemetryLocal fs) \<longleftrightarrow>
     fs \<noteq> [] \<and> distinct fs \<and> sorted (map telemetry_field_text fs)"

definition privacy_ok :: "privacy \<Rightarrow> bool" where
  "privacy_ok p \<longleftrightarrow>
     option_ok digest_ok (prompt_digest p) \<and> option_ok transition_ok (lifecycle_audit p) \<and>
     audit_fits (privacy_lifecycle p) (lifecycle_audit p) (audit_id p) \<and>
     sorted (map field_key (privacy_fields p)) \<and> distinct (map field_key (privacy_fields p)) \<and>
     (\<forall>f \<in> set (privacy_fields p). digest_ok (field_digest f)) \<and>
     sorted (exclusions p) \<and> distinct (exclusions p) \<and> list_all identifier_ok (exclusions p) \<and>
     set required_exclusions \<subseteq> set (exclusions p) \<and> telemetry_ok (privacy_telemetry p) \<and>
     digest_ok (content_digest p) \<and> time_ok (delete_after p) \<and> digest_ok (tombstone_digest p) \<and>
     digest_ok (export_policy_digest p) \<and> identifier_ok (audit_id p)"

lemma sort_key_Nil [simp]: "sort_key f xs = [] \<longleftrightarrow> xs = []"
  by (metis length_0_conv length_sort)

lemma distinct_map_sort_key [simp]: "distinct (map f (sort_key f xs)) \<longleftrightarrow> distinct (map f xs)"
  by (simp add: distinct_map)

lemma parse_telemetry_ok: "parse_telemetry v = Inr t \<Longrightarrow> telemetry_ok t"
  unfolding parse_telemetry_def
  by (auto simp: andThen_eq_Inr failIf_eq_Inr split: if_splits)

lemma parse_field_ok: "parse_field v = Inr f \<Longrightarrow> digest_ok (field_digest f)"
  by (auto simp: parse_field_def andThen_eq_Inr digest_def)

lemma array_of_all: "array_of f v = Inr ys \<Longrightarrow> (\<And>x y. f x = Inr y \<Longrightarrow> P y) \<Longrightarrow> \<forall>y \<in> set ys. P y"
  by (auto simp: array_of_Inr dest: mapResult_in_set)

lemma optional_all: "optional_field f v = Inr w \<Longrightarrow> (\<And>x y. f x = Inr y \<Longrightarrow> P y) \<Longrightarrow> option_ok P w"
  by (auto simp: outcome_simps option_ok_def)

lemma parse_privacy_ok:
  assumes "parse_privacy v = Inr p"
  shows "privacy_ok p"
proof -
  from assms obtain input prompt audit fs es t where
    f: "array_of parse_field (field input ''fields'') = Inr fs" "distinct (map field_key fs)"
    and e: "array_of text_value (field input ''exclusions'') = Inr es" "distinct es"
      "\<not> list_ex (\<lambda>e. e \<notin> set es) required_exclusions"
    and t: "parse_telemetry (field input ''telemetry'') = Inr t"
    and pr: "optional_field digest (field input ''promptDigest'') = Inr prompt"
    and au: "optional_field parse_transition (field input ''lifecycleAudit'') = Inr audit"
    and p: "prompt_digest p = prompt" "lifecycle_audit p = audit"
      "audit_fits (privacy_lifecycle p) (lifecycle_audit p) (audit_id p)"
      "privacy_fields p = sort_key field_key fs" "exclusions p = sort es" "privacy_telemetry p = t"
      "digest_ok (content_digest p)" "time_ok (delete_after p)" "digest_ok (tombstone_digest p)"
      "digest_ok (export_policy_digest p)" "identifier_ok (audit_id p)"
    unfolding parse_privacy_def
    by (auto simp: andThen_eq_Inr failIf_eq_Inr digest_def instant_def text_value_def time_ok_def)
  have "\<forall>f \<in> set fs. digest_ok (field_digest f)" using f(1) parse_field_ok by (rule array_of_all)
  moreover have "\<forall>e \<in> set es. identifier_ok e" using e(1) by (rule array_of_all) (simp add: text_value_def)
  moreover have "option_ok digest_ok prompt" using pr by (rule optional_all) (simp add: digest_def)
  moreover have "option_ok transition_ok audit" using au parse_transition_ok by (rule optional_all)
  ultimately show ?thesis using p f(2) e parse_telemetry_ok [OF t]
    by (auto simp: privacy_ok_def list_all_iff list_ex_iff)
qed

lemma telemetry_roundtrip: "telemetry_ok t \<Longrightarrow> parse_telemetry (telemetry_json t) = Inr t"
proof -
  assume ok: "telemetry_ok t"
  have "mapResult telemetry_field_of (map (\<lambda>f. JStr (telemetry_field_text f)) fs) = Inr fs" for fs
    by (rule mapResult_map_Inr) simp
  then show ?thesis using ok
    by (cases t) (simp_all add: parse_telemetry_def telemetry_json_def exact_eq is_array_def array_of_def
        sort_key_id_if_sorted)
qed

lemma field_roundtrip: "digest_ok (field_digest f) \<Longrightarrow> parse_field (field_json f) = Inr f"
  by (cases f) (simp add: parse_field_def field_json_def exact_eq digest_def)

lemma privacy_roundtrip:
  assumes ok: "privacy_ok p"
  shows "parse_privacy (privacy_json p) = Inr p"
proof -
  have fs: "array_of parse_field (JArr (map field_json (privacy_fields p))) = Inr (privacy_fields p)"
    using ok field_roundtrip by (simp add: array_of_def mapResult_map_Inr privacy_ok_def)
  have es: "array_of text_value (JArr (map JStr (exclusions p))) = Inr (exclusions p)"
    using ok by (simp add: array_of_def mapResult_map_Inr privacy_ok_def text_value_def list_all_iff)
  have tel: "parse_telemetry (telemetry_json (privacy_telemetry p)) = Inr (privacy_telemetry p)"
    using ok by (intro telemetry_roundtrip) (simp add: privacy_ok_def)
  have req: "\<not> list_ex (\<lambda>e. e \<notin> set (exclusions p)) required_exclusions"
    using ok by (auto simp: privacy_ok_def list_ex_iff)
  have audit: "\<And>t. lifecycle_audit p = Some t \<Longrightarrow> parse_transition (transition_json t) = Inr t"
    using ok transition_roundtrip by (simp add: privacy_ok_def option_ok_def)
  have tj: "transition_json t \<noteq> JOther NonObject" for t by (simp add: transition_json_def)
  show ?thesis
    unfolding parse_privacy_def
    using ok fs es tel req audit tj
    by (cases "prompt_digest p"; cases "lifecycle_audit p")
      (simp_all add: privacy_json_def privacy_ok_def option_ok_def exact_eq privacy_keys_def
        is_array_def digest_def text_value_def instant_def time_ok_def sort_key_id_if_sorted sorted_sort_id
        optional_field_def undefined_json_def)
qed


text \<open>The binding bounds the record.\<close>

lemma field_bytes: "sum_list (map (\<lambda>f. json_bytes (field_json f)) fs) = 18 * length fs +
    sum_list (map (\<lambda>f. utf8_length (category_text (field_category f)) +
      (utf8_length (mode_text (field_mode f)) + utf8_length (field_digest f))) fs)"
  by (induction fs) (simp_all add: field_json_def)

lemma privacy_size:
  assumes ok: "privacy_ok p" and b: "privacy_binding_of p = Inr b"
  shows "json_nodes (privacy_json p) \<le> 4140" "json_bytes (privacy_json p) \<le> 120000"
    "4 \<le> n \<Longrightarrow> well_shaped n (privacy_json p)"
proof -
  have len: "length (stringify (privacy_row p)) \<le> 4096"
    using b by (auto simp: privacy_binding_of_Inr privacy_binding_ok_def)
  let ?nf = "length (privacy_fields p)" and ?ne = "length (exclusions p)"
  let ?nt = "length (telemetry_fields (privacy_telemetry p))"
  let ?fb = "sum_list (map (\<lambda>f. utf8_length (category_text (field_category f)) +
      (utf8_length (mode_text (field_mode f)) + utf8_length (field_digest f))) (privacy_fields p))"
  have row_nodes: "json_nodes (privacy_row p) \<le> 4096" using nodes_le_text [of "privacy_row p"] len by simp
  have row_bytes: "json_bytes (privacy_row p) \<le> 8192" using bytes_le_text [of "privacy_row p"] len by simp
  have counts: "8 * ?nf + 2 * ?ne + 2 * ?nt \<le> 4096"
    using row_nodes by (simp add: privacy_row_def field_row_def comp_def sum_list_triv)
  have bytes: "?fb + sum_list (map utf8_length (exclusions p)) \<le> 8192"
    using row_bytes by (simp add: privacy_row_def field_row_def comp_def)
  have tb: "sum_list (map (\<lambda>f. utf8_length (telemetry_field_text f)) (telemetry_fields (privacy_telemetry p))) \<le> 8192"
    using row_bytes by (simp add: privacy_row_def comp_def)
  have audit: "lifecycle_audit p = Some t \<Longrightarrow> json_nodes (transition_json t) \<le> 10 \<and>
      json_bytes (transition_json t) \<le> 16000 \<and> (\<forall>n > 0. well_shaped n (transition_json t))" for t
    using ok transition_size by (simp add: privacy_ok_def option_ok_def)
  show "json_nodes (privacy_json p) \<le> 4140"
    using counts audit
    by (cases "prompt_digest p"; cases "lifecycle_audit p")
      (fastforce simp: privacy_json_def field_json_def telemetry_json_def comp_def sum_list_triv)+
  have scalars: "utf8_length (content_digest p) \<le> 128" "utf8_length (delete_after p) \<le> 128"
      "utf8_length (tombstone_digest p) \<le> 128" "utf8_length (export_policy_digest p) \<le> 128"
      "utf8_length (audit_id p) \<le> 256" "option_ok (\<lambda>s. utf8_length s \<le> 128) (prompt_digest p)"
    using ok scalar_lengths by (auto simp: privacy_ok_def option_ok_def split: option.splits)
  have enums: "utf8_length (classification_text (privacy_class p)) \<le> 10"
    by (cases "privacy_class p") simp_all
  have fields: "sum_list (map (\<lambda>f. json_bytes (field_json f)) (privacy_fields p)) = 18 * ?nf + ?fb"
    by (rule field_bytes)
  show "json_bytes (privacy_json p) \<le> 120000"
    using counts bytes tb audit scalars enums fields lifecycle_bytes [of "privacy_lifecycle p"]
      telemetry_mode_bytes [of "privacy_telemetry p"] telemetry_consent_bytes [of "privacy_telemetry p"]
    by (cases "prompt_digest p"; cases "lifecycle_audit p")
      (fastforce simp: privacy_json_def telemetry_json_def comp_def option_ok_def)+
  show "well_shaped n (privacy_json p)" if "4 \<le> n"
    using counts audit that
    by (cases "prompt_digest p"; cases "lifecycle_audit p")
      (auto simp: privacy_json_def telemetry_json_def field_json_def max_commands_def list_all_iff)
qed


section \<open>Revisions\<close>

fun deployment_ok :: "deployment \<Rightarrow> bool" where
  "deployment_ok (Unpublished i m) \<longleftrightarrow> identifier_ok i \<and> digest_ok m"
| "deployment_ok (Deployed i m) \<longleftrightarrow> identifier_ok i \<and> digest_ok m"

definition tuple_ok :: "revision_tuple \<Rightarrow> bool" where
  "tuple_ok t \<longleftrightarrow>
     digest_ok (source_digest t) \<and> digest_ok (graph_digest t) \<and> digest_ok (binding_digest t) \<and>
     digest_ok (command_log_digest t) \<and> digest_ok (design_system_lock_digest t) \<and>
     deployment_ok (tuple_deployment t) \<and> identifier_ok (preview_build_id t) \<and>
     digest_ok (preview_digest t) \<and> identifier_ok (compiler_id t) \<and> digest_ok (compiler_digest t)"

lemma parse_deployment_ok: "parse_deployment v = Inr d \<Longrightarrow> deployment_ok d"
  unfolding parse_deployment_def
  by (auto simp: andThen_eq_Inr failIf_eq_Inr Let_def scalar_defs split: if_splits)

lemma parse_tuple_ok: "parse_tuple v = Inr t \<Longrightarrow> tuple_ok t"
  unfolding parse_tuple_def
  by (auto simp: andThen_eq_Inr failIf_eq_Inr tuple_ok_def digest_def text_value_def dest: parse_deployment_ok)

lemma deployment_roundtrip: "deployment_ok d \<Longrightarrow> parse_deployment (deployment_json d) = Inr d"
  by (cases d) (simp_all add: parse_deployment_def exact_eq scalar_defs undefined_json_def)

lemma tuple_roundtrip: "tuple_ok t \<Longrightarrow> parse_tuple (tuple_json t) = Inr t"
  using deployment_roundtrip [of "tuple_deployment t"]
  by (simp add: parse_tuple_def tuple_json_def exact_eq tuple_keys_def tuple_ok_def digest_def text_value_def)

lemma deployment_size:
  assumes "deployment_ok d"
  shows "json_nodes (deployment_json d) = 5" "json_bytes (deployment_json d) \<le> 600"
    "well_shaped n (deployment_json d) \<longleftrightarrow> n > 0"
  using assms scalar_lengths(1,2) by (cases d; fastforce simp: max_commands_def)+

lemma tuple_size:
  assumes "tuple_ok t"
  shows "json_nodes (tuple_json t) \<le> 30" "json_bytes (tuple_json t) \<le> 4000"
    "2 \<le> n \<Longrightarrow> well_shaped n (tuple_json t)"
proof -
  note d = deployment_size [of "tuple_deployment t"]
  have len: "utf8_length (source_digest t) \<le> 128" "utf8_length (graph_digest t) \<le> 128"
      "utf8_length (binding_digest t) \<le> 128" "utf8_length (command_log_digest t) \<le> 128"
      "utf8_length (design_system_lock_digest t) \<le> 128" "utf8_length (preview_build_id t) \<le> 256"
      "utf8_length (preview_digest t) \<le> 128" "utf8_length (compiler_id t) \<le> 256"
      "utf8_length (compiler_digest t) \<le> 128"
    using assms scalar_lengths(1,2) by (simp_all add: tuple_ok_def)
  have dok: "deployment_ok (tuple_deployment t)" using assms by (simp add: tuple_ok_def)
  show "json_nodes (tuple_json t) \<le> 30" using d(1) dok by (simp add: tuple_json_def)
  show "json_bytes (tuple_json t) \<le> 4000" using d(2) dok len by (simp add: tuple_json_def)
  show "2 \<le> n \<Longrightarrow> well_shaped n (tuple_json t)" using d(3) dok
    by (simp add: tuple_json_def max_commands_def)
qed

definition revision_ok :: "revision \<Rightarrow> bool" where
  "revision_ok r \<longleftrightarrow>
     identifier_ok (revision_tenant r) \<and> identifier_ok (revision_project r) \<and>
     identifier_ok (revision_name r) \<and> option_ok identifier_ok (parent_revision r) \<and>
     1 \<le> revision_sequence r \<and> revision_sequence r \<le> max_safe_integer \<and> time_ok (created_at r) \<and>
     tuple_ok (revision_tuple r) \<and> privacy_ok (revision_privacy r) \<and> sealed r"

lemma parse_revision_ok:
  assumes "parse_revision v = Inr r"
  shows "revision_ok r"
proof -
  from assms obtain input t parent p where
    t: "parse_tuple (field input ''tuple'') = Inr t"
    and parent: "optional_field text_value (field input ''parentRevisionId'') = Inr parent"
    and p: "parse_privacy (field input ''privacy'') = Inr p"
    and r: "revision_tuple r = t" "parent_revision r = parent" "revision_privacy r = p"
      "identifier_ok (revision_tenant r)" "identifier_ok (revision_project r)"
      "identifier_ok (revision_name r)" "1 \<le> revision_sequence r"
      "revision_sequence r \<le> max_safe_integer" "time_ok (created_at r)"
    unfolding parse_revision_def Let_def
    by (auto simp: andThen_eq_Inr failIf_eq_Inr text_value_def instant_def time_ok_def)
  have "option_ok identifier_ok parent"
    using parent by (rule optional_all) (simp add: text_value_def)
  then show ?thesis
    using r parse_tuple_ok [OF t] parse_privacy_ok [OF p] parse_revision_sealed [OF assms]
    by (simp add: revision_ok_def)
qed

lemma sealed_bindings:
  assumes "sealed r"
  shows "tuple_binding_ok (revision_binding r)" "commitment_ok (commitment r)"
    "\<exists>b. privacy_binding_of (revision_privacy r) = Inr b"
  using assms by (auto simp: sealed_def tuple_binding_of_Inr commitment_of_Inr)

lemma revision_size:
  assumes ok: "revision_ok r"
  shows "json_nodes (revision_json r) \<le> 4190" "json_bytes (revision_json r) \<le> 150000"
    "5 \<le> n \<Longrightarrow> well_shaped n (revision_json r)"
proof -
  have s: "sealed r" "tuple_ok (revision_tuple r)" "privacy_ok (revision_privacy r)"
    using ok by (simp_all add: revision_ok_def)
  obtain b where b: "privacy_binding_of (revision_privacy r) = Inr b" using sealed_bindings(3) [OF s(1)] by blast
  note p = privacy_size [OF s(3) b] and t = tuple_size [OF s(2)]
  have len: "utf8_length (revision_tenant r) \<le> 256" "utf8_length (revision_project r) \<le> 256"
      "utf8_length (revision_name r) \<le> 256" "option_ok (\<lambda>s. utf8_length s \<le> 256) (parent_revision r)"
      "utf8_length (created_at r) \<le> 128" "utf8_length (revision_binding r) \<le> 4096"
      "utf8_length (commitment r) \<le> 16384"
    using ok scalar_lengths sealed_bindings [OF s(1)]
    by (auto simp: revision_ok_def option_ok_def split: option.splits)
  show "json_nodes (revision_json r) \<le> 4190"
    using p(1) t(1) by (cases "parent_revision r") (simp_all add: revision_json_def)
  show "json_bytes (revision_json r) \<le> 150000"
    using p(2) t(2) len by (cases "parent_revision r") (simp_all add: revision_json_def option_ok_def)
  show "5 \<le> n \<Longrightarrow> well_shaped n (revision_json r)"
    using p(3) t(3) by (cases "parent_revision r") (simp_all add: revision_json_def max_commands_def)
qed

lemma revision_roundtrip:
  assumes ok: "revision_ok r"
  shows "parse_revision (revision_json r) = Inr r"
proof -
  have snap: "snapshot_value (revision_json r) = Inr (revision_json r)"
    using revision_size [OF ok]
    by (intro snapshot_fits) (simp_all add: max_snapshot_nodes_def max_snapshot_bytes_def)
  have s: "sealed r" "parse_tuple (tuple_json (revision_tuple r)) = Inr (revision_tuple r)"
      "parse_privacy (privacy_json (revision_privacy r)) = Inr (revision_privacy r)"
    using ok tuple_roundtrip privacy_roundtrip by (simp_all add: revision_ok_def)
  let ?built = "\<lambda>parent c. \<lparr>revision_tenant = revision_tenant r, revision_project = revision_project r,
      revision_name = revision_name r, parent_revision = parent,
      revision_sequence = revision_sequence r, created_at = created_at r,
      revision_tuple = revision_tuple r, revision_binding = revision_binding r,
      revision_privacy = revision_privacy r, commitment = c\<rparr>"
  have built: "?built parent c = r\<lparr>commitment := c\<rparr>" if "parent_revision r = parent" for parent c
    using that by (cases r) simp
  have c: "commitment_of (?built parent []) = Inr (commitment r)" if "parent_revision r = parent" for parent
    using s(1) by (simp add: built [OF that] sealed_def)
  have fin: "?built parent (commitment r) = r" if "parent_revision r = parent" for parent
    using built [OF that] by simp
  show ?thesis
    unfolding parse_revision_def snap andThen_Inr Let_def
    using ok s(2,3) sealed_bindings [OF s(1)] s(1)
    by (cases "parent_revision r")
      (simp_all add: revision_json_def exact_eq revision_keys_def revision_ok_def option_ok_def
        scalar_defs time_ok_def sealed_def integer_JNum c fin)
qed

end
