(* ===== verification/Design_Safety.thy ===== *)
theory Design_Safety
  imports Design_Commit
begin

text \<open>
  What an accepted commit means and what every sequence of commits keeps: the state invariant, the
  forward relation between states, and the instance of the run contract for the commit step.
\<close>

section \<open>One accepted commit\<close>

definition commit_allowed ::
    "revision_state \<Rightarrow> authority \<Rightarrow> revision \<Rightarrow> string \<Rightarrow> bool" where
  "commit_allowed s a r at \<longleftrightarrow>
     authority_tenant a = state_tenant s \<and> authority_project a = state_project s \<and>
     revision_tenant r = state_tenant s \<and> revision_project r = state_project s \<and>
     authority_policy a = policy_id (state_policy s) \<and>
     authority_policy_revision a = policy_revision (state_policy s) \<and>
     authority_policy_digest a = policy_digest (state_policy s) \<and>
     CommitCapability \<in> set (authority_capabilities a) \<and>
     set (authority_capabilities a) \<subseteq> set (policy_capabilities (state_policy s)) \<and>
     \<not> foreign_grant a (policy_anchor (state_policy s)) \<and>
     status_state (state_grant s) = GrantActive \<and>
     authority_grant a = status_grant (state_grant s) \<and>
     authority_epoch a = status_epoch (state_grant s) \<and>
     authority_revision a = revision_name r \<and> authority_binding a = revision_binding r \<and>
     authority_commitment a = commitment r \<and>
     \<not> outside_window (revoked_at a) (issued_at a) (expires_at a) at \<and>
     issued_at a \<le> created_at r \<and> created_at r \<le> expires_at a \<and>
     created_at r < delete_after (revision_privacy r) \<and> at < delete_after (revision_privacy r)"

definition first_revision :: "revision \<Rightarrow> bool" where
  "first_revision r \<longleftrightarrow>
     revision_sequence r = 1 \<and> parent_revision r = None \<and>
     privacy_lifecycle (revision_privacy r) = Active \<and> lifecycle_audit (revision_privacy r) = None"

definition lifecycle_step_ok :: "revision_head \<Rightarrow> revision \<Rightarrow> string \<Rightarrow> bool" where
  "lifecycle_step_ok h r at \<longleftrightarrow>
     (case lifecycle_audit (revision_privacy r) of
        None \<Rightarrow> privacy_lifecycle (revision_privacy r) = privacy_lifecycle (head_privacy h)
      | Some t \<Rightarrow>
          privacy_lifecycle (head_privacy h) < privacy_lifecycle (revision_privacy r) \<and>
          transition_from t = privacy_lifecycle (head_privacy h) \<and>
          transition_to t = privacy_lifecycle (revision_privacy r) \<and>
          prior_revision_id t = Some (head_name h) \<and> prior_tuple_binding t = Some (head_binding h) \<and>
          prior_privacy_binding t = Some (head_privacy_binding h) \<and>
          transition_audit_id t = audit_id (head_privacy h) \<and>
          head_created h \<le> occurred_at t \<and> occurred_at t \<le> created_at r \<and> occurred_at t \<le> at)"

definition next_revision :: "revision_head \<Rightarrow> revision \<Rightarrow> string \<Rightarrow> string \<Rightarrow> bool" where
  "next_revision h r binding at \<longleftrightarrow>
     privacy_lifecycle (head_privacy h) \<le> Redacted \<and>
     revision_sequence r = head_sequence h + 1 \<and> revision_name r \<noteq> head_name h \<and>
     parent_revision r = Some (head_name h) \<and> head_created h \<le> created_at r \<and>
     binding = head_privacy_binding h \<and> lifecycle_step_ok h r at"

definition head_of :: "revision \<Rightarrow> string \<Rightarrow> revision_head" where
  "head_of r binding =
     \<lparr>head_name = revision_name r, head_sequence = revision_sequence r,
      head_created = created_at r, head_binding = revision_binding r,
      head_privacy = revision_privacy r, head_privacy_binding = binding, head_revision = r,
      head_commitment = commitment r\<rparr>"

lemma not_terminal: "\<not> (l = Tombstoned \<or> l = Expired) \<longleftrightarrow> l \<le> Redacted"
  by (cases l) (simp_all add: less_eq_lifecycle_def)

lemma lifecycle_step_none:
  "lifecycle_step_error h r binding at = None \<longleftrightarrow>
     binding = head_privacy_binding h \<and> lifecycle_step_ok h r at"
proof (cases "binding = head_privacy_binding h")
  case True
  then show ?thesis
    by (auto simp: lifecycle_step_error_def lifecycle_step_ok_def Let_def can_transition_less not_less
        split: option.splits if_splits)
qed (simp add: lifecycle_step_error_def)

lemma commit_parsed_Inr:
  "commit_parsed s a r at = Inr s' \<longleftrightarrow>
     commit_allowed s a r at \<and> command_id a \<notin> set (processed_commands s) \<and>
     length (processed_commands s) < max_commands \<and>
     (\<exists>binding. privacy_binding_of (revision_privacy r) = Inr binding \<and>
        (case state_head s of None \<Rightarrow> first_revision r | Some h \<Rightarrow> next_revision h r binding at) \<and>
        s' = s\<lparr>processed_commands := processed_commands s @ [command_id a],
               state_head := Some (head_of r binding)\<rparr>)"
proof (cases "state_head s")
  case None
  then show ?thesis
    unfolding commit_parsed_def Let_def
    by (auto simp: outcome_simps commit_allowed_def exceeds_policy_def list_ex_iff
        grant_inactive_def first_revision_def head_of_def not_less not_le)
next
  case (Some h)
  have t: "(privacy_lifecycle (head_privacy h) \<noteq> Tombstoned \<and> privacy_lifecycle (head_privacy h) \<noteq> Expired) \<longleftrightarrow>
      privacy_lifecycle (head_privacy h) \<le> Redacted"
    using not_terminal by blast
  have step: "(case lifecycle_step_error h r b at of None \<Rightarrow> Inr () | Some e \<Rightarrow> Inl e) = Inr u \<longleftrightarrow>
      b = head_privacy_binding h \<and> lifecycle_step_ok h r at" for b u
    using lifecycle_step_none [of h r b at] by (auto split: option.splits)
  show ?thesis
    unfolding commit_parsed_def Let_def
    by (auto simp: Some outcome_simps commit_allowed_def exceeds_policy_def list_ex_iff
        grant_inactive_def next_revision_def head_of_def not_less not_le t step)
qed

lemma commit_command_Inr:
  "commit_command s (v, now) = Inr s' \<longleftrightarrow>
     (\<exists>input a r. snapshot_value v = Inr v \<and> v = JObj input \<and>
        exact v [''authority'', ''format'', ''revision''] [] = Inr input \<and>
        field input ''format'' = JStr ''selene-design-revision-command/v2'' \<and>
        parse_authority (field input ''authority'') = Inr a \<and>
        parse_revision (field input ''revision'') = Inr r \<and>
        instant (JStr now) = Inr now \<and> commit_parsed s a r now = Inr s')"
proof
  assume "commit_command s (v, now) = Inr s'"
  then show "\<exists>input a r. snapshot_value v = Inr v \<and> v = JObj input \<and>
        exact v [''authority'', ''format'', ''revision''] [] = Inr input \<and>
        field input ''format'' = JStr ''selene-design-revision-command/v2'' \<and>
        parse_authority (field input ''authority'') = Inr a \<and>
        parse_revision (field input ''revision'') = Inr r \<and>
        instant (JStr now) = Inr now \<and> commit_parsed s a r now = Inr s'"
    by (auto simp: commit_command_def andThen_eq_Inr failIf_eq_Inr snapshot_value_Inr instant_def exact_Inr)
next
  assume "\<exists>input a r. snapshot_value v = Inr v \<and> v = JObj input \<and>
        exact v [''authority'', ''format'', ''revision''] [] = Inr input \<and>
        field input ''format'' = JStr ''selene-design-revision-command/v2'' \<and>
        parse_authority (field input ''authority'') = Inr a \<and>
        parse_revision (field input ''revision'') = Inr r \<and>
        instant (JStr now) = Inr now \<and> commit_parsed s a r now = Inr s'"
  then show "commit_command s (v, now) = Inr s'"
    by (auto simp: commit_command_def)
qed

text \<open>What the run arguments use of a command.\<close>

lemma commit_commandE:
  assumes "commit_command s c = Inr s'"
  obtains a r where "parse_revision (field (case fst c of JObj kvs \<Rightarrow> kvs | _ \<Rightarrow> []) ''revision'') = Inr r"
    and "commit_parsed s a r (snd c) = Inr s'"
  using assms by (cases c) (auto simp: commit_command_Inr)

section \<open>The invariant\<close>

definition state_inv :: "revision_state \<Rightarrow> bool" where
  "state_inv s \<longleftrightarrow>
     distinct (processed_commands s) \<and> length (processed_commands s) \<le> max_commands \<and>
     (case state_head s of None \<Rightarrow> True
      | Some h \<Rightarrow>
          h = head_of (head_revision h) (head_privacy_binding h) \<and>
          privacy_binding_of (head_privacy h) = Inr (head_privacy_binding h) \<and>
          revision_tenant (head_revision h) = state_tenant s \<and>
          revision_project (head_revision h) = state_project s)"

text \<open>The states that later commits can lead to.\<close>

definition head_forward :: "revision_head \<Rightarrow> revision_head \<Rightarrow> bool" where
  "head_forward h k \<longleftrightarrow>
     head_sequence h \<le> head_sequence k \<and> head_created h \<le> head_created k \<and>
     privacy_lifecycle (head_privacy h) \<le> privacy_lifecycle (head_privacy k) \<and>
     head_privacy_binding k = head_privacy_binding h"

fun head_moves :: "revision_head option \<Rightarrow> revision_head option \<Rightarrow> nat \<Rightarrow> bool" where
  "head_moves (Some h) (Some k) n \<longleftrightarrow> head_forward h k \<and> head_sequence k = head_sequence h + int n"
| "head_moves (Some h) None n \<longleftrightarrow> False"
| "head_moves None (Some k) n \<longleftrightarrow> head_sequence k = int n"
| "head_moves None None n \<longleftrightarrow> n = 0"

definition state_forward :: "revision_state \<Rightarrow> revision_state \<Rightarrow> bool" where
  "state_forward s t \<longleftrightarrow>
     state_tenant t = state_tenant s \<and> state_project t = state_project s \<and>
     state_policy t = state_policy s \<and> state_grant t = state_grant s \<and>
     (\<exists>ids. processed_commands t = processed_commands s @ ids \<and>
        head_moves (state_head s) (state_head t) (length ids))"

lemma head_forward_refl [simp]: "head_forward h h"
  by (simp add: head_forward_def)

lemma head_forward_trans: "head_forward h k \<Longrightarrow> head_forward k l \<Longrightarrow> head_forward h l"
  by (auto simp: head_forward_def)

lemma head_moves_refl: "head_moves h h 0"
  by (cases h) simp_all

lemma head_moves_trans: "head_moves h k m \<Longrightarrow> head_moves k l n \<Longrightarrow> head_moves h l (m + n)"
  by (cases h; cases k; cases l) (auto intro: head_forward_trans)

lemma state_forward_refl: "state_forward s s"
  using head_moves_refl [of "state_head s"] by (auto simp: state_forward_def)

lemma state_forward_trans:
  assumes "state_forward s t" "state_forward t u"
  shows "state_forward s u"
proof -
  obtain us where u: "processed_commands t = processed_commands s @ us"
      "head_moves (state_head s) (state_head t) (length us)"
    using assms(1) by (auto simp: state_forward_def)
  obtain vs where v: "processed_commands u = processed_commands t @ vs"
      "head_moves (state_head t) (state_head u) (length vs)"
    using assms(2) by (auto simp: state_forward_def)
  have "head_moves (state_head s) (state_head u) (length (us @ vs))"
    using head_moves_trans [OF u(2) v(2)] by simp
  moreover have "processed_commands u = processed_commands s @ (us @ vs)" using u v by simp
  ultimately show ?thesis using assms unfolding state_forward_def by metis
qed

lemma commit_step:
  assumes inv: "state_inv s" and c: "commit_parsed s a r at = Inr s'"
  shows "state_inv s' \<and> state_forward s s'"
proof -
  from c obtain b where b: "privacy_binding_of (revision_privacy r) = Inr b"
    and ok: "commit_allowed s a r at" "command_id a \<notin> set (processed_commands s)"
      "length (processed_commands s) < max_commands"
    and hd: "case state_head s of None \<Rightarrow> first_revision r | Some h \<Rightarrow> next_revision h r b at"
    and s': "s' = s\<lparr>processed_commands := processed_commands s @ [command_id a],
               state_head := Some (head_of r b)\<rparr>"
    unfolding commit_parsed_Inr by blast
  have "state_inv s'" using inv b ok s'
    by (simp add: state_inv_def head_of_def commit_allowed_def)
  moreover have "state_forward s s'"
  proof (cases "state_head s")
    case None
    then show ?thesis using hd s' by (simp add: state_forward_def first_revision_def head_of_def)
  next
    case (Some h)
    then have n: "next_revision h r b at" using hd by simp
    then have "privacy_lifecycle (head_privacy h) \<le> privacy_lifecycle (revision_privacy r)"
      by (auto simp: next_revision_def lifecycle_step_ok_def split: option.splits)
    then show ?thesis using n s' Some
      by (simp add: state_forward_def head_forward_def next_revision_def head_of_def)
  qed
  ultimately show ?thesis by blast
qed

interpretation commits: forward_machine commit_command state_inv state_forward
proof unfold_locales
  fix s c s'
  assume "state_inv s" "commit_command s c = Inr s'"
  then show "state_inv s'" by (elim commit_commandE) (use commit_step in blast)
next
  show "state_forward s s" for s by (rule state_forward_refl)
next
  show "state_forward s t \<Longrightarrow> state_forward t u \<Longrightarrow> state_forward s u" for s t u
    by (rule state_forward_trans)
next
  fix s c s'
  assume "state_inv s" "commit_command s c = Inr s'"
  then show "state_forward s s'" by (elim commit_commandE) (use commit_step in blast)
qed

lemma commit_refused_terminal:
  assumes "state_head s = Some h" and "Redacted < privacy_lifecycle (head_privacy h)"
  shows "\<exists>e. commit_command s c = Inl e"
proof (cases "commit_command s c")
  case (Inr s')
  then obtain a r where "commit_parsed s a r (snd c) = Inr s'" by (rule commit_commandE)
  then show ?thesis using assms by (auto simp: commit_parsed_Inr next_revision_def)
qed simp

end
