(* ===== verification/Design_Persist.thy ===== *)
theory Design_Persist
  imports Design_Roundtrip Design_Safety
begin

text \<open>
  The persisted state of \<open>packages/core/src/design-revision.ts\<close>: the object that
  \<open>parseDesignRevisionState\<close> and \<open>commitDesignRevision\<close> return parses back to itself, so a host
  that stores it and passes it to the next call continues from the same state.
\<close>

section \<open>Objects\<close>

definition anchor_json :: "trust_anchor \<Rightarrow> json" where
  "anchor_json a = JObj [(''format'', JStr ''selene-design-revision-trust-anchor/v1''),
     (''issuer'', JStr (anchor_issuer a)), (''audience'', JStr (anchor_audience a)),
     (''grantId'', JStr (anchor_grant a)), (''schemaRevision'', JNum (anchor_schema a)),
     (''commandsDigest'', JStr (anchor_commands a))]"

definition capabilities_json :: "capability list \<Rightarrow> json" where
  "capabilities_json cs = JArr (map (\<lambda>c. JStr (capability_text c)) cs)"

definition policy_json :: "policy \<Rightarrow> json" where
  "policy_json p = JObj [(''format'', JStr ''selene-design-revision-policy/v2''),
     (''tenantId'', JStr (policy_tenant p)), (''projectId'', JStr (policy_project p)),
     (''policyId'', JStr (policy_id p)), (''revision'', JNum (policy_revision p)),
     (''digest'', JStr (policy_digest p)), (''capabilities'', capabilities_json (policy_capabilities p)),
     (''trustAnchor'', anchor_json (policy_anchor p))]"

definition grant_json :: "grant_status \<Rightarrow> json" where
  "grant_json g = JObj
     ([(''format'', JStr ''selene-design-revision-grant-status/v1''), (''grantId'', JStr (status_grant g)),
       (''epoch'', JNum (status_epoch g))] @
      (case status_state g of GrantActive \<Rightarrow> [(''state'', JStr ''active'')]
       | GrantRevoked at \<Rightarrow> [(''state'', JStr ''revoked''), (''revokedAt'', JStr at)]))"

definition head_json :: "revision_head \<Rightarrow> json" where
  "head_json h = JObj [(''format'', JStr ''selene-design-revision-head/v2''),
     (''revisionId'', JStr (head_name h)), (''sequence'', JNum (head_sequence h)),
     (''createdAt'', JStr (head_created h)), (''tupleBinding'', JStr (head_binding h)),
     (''privacy'', privacy_json (head_privacy h)), (''privacyBinding'', JStr (head_privacy_binding h)),
     (''revision'', revision_json (head_revision h)), (''revisionCommitment'', JStr (head_commitment h))]"

definition state_json :: "revision_state \<Rightarrow> json" where
  "state_json s = JObj
     ([(''format'', JStr ''selene-design-revision-state/v2''), (''tenantId'', JStr (state_tenant s)),
       (''projectId'', JStr (state_project s)), (''policy'', policy_json (state_policy s)),
       (''grantStatus'', grant_json (state_grant s)),
       (''processedCommandIds'', JArr (map JStr (processed_commands s)))] @
      (case state_head s of None \<Rightarrow> [] | Some h \<Rightarrow> [(''head'', head_json h)]))"

section \<open>Canonical form\<close>

definition positive :: "int \<Rightarrow> bool" where
  "positive n \<longleftrightarrow> 1 \<le> n \<and> n \<le> max_safe_integer"

definition anchor_ok :: "trust_anchor \<Rightarrow> bool" where
  "anchor_ok a \<longleftrightarrow> identifier_ok (anchor_issuer a) \<and> identifier_ok (anchor_audience a) \<and>
     identifier_ok (anchor_grant a) \<and> positive (anchor_schema a) \<and> digest_ok (anchor_commands a)"

definition capabilities_ok :: "capability list \<Rightarrow> bool" where
  "capabilities_ok cs \<longleftrightarrow> 1 \<le> length cs \<and> length cs \<le> 10 \<and> distinct cs \<and> sorted (map capability_text cs)"

definition policy_ok :: "policy \<Rightarrow> bool" where
  "policy_ok p \<longleftrightarrow> identifier_ok (policy_tenant p) \<and> identifier_ok (policy_project p) \<and>
     identifier_ok (policy_id p) \<and> positive (policy_revision p) \<and> digest_ok (policy_digest p) \<and>
     capabilities_ok (policy_capabilities p) \<and> anchor_ok (policy_anchor p)"

definition grant_ok :: "grant_status \<Rightarrow> bool" where
  "grant_ok g \<longleftrightarrow> identifier_ok (status_grant g) \<and> positive (status_epoch g) \<and>
     (case status_state g of GrantActive \<Rightarrow> True | GrantRevoked at \<Rightarrow> time_ok at)"

definition head_ok :: "revision_head \<Rightarrow> bool" where
  "head_ok h \<longleftrightarrow> revision_ok (head_revision h) \<and>
     privacy_binding_of (revision_privacy (head_revision h)) = Inr (head_privacy_binding h) \<and>
     h = head_of (head_revision h) (head_privacy_binding h)"

definition state_ok :: "revision_state \<Rightarrow> bool" where
  "state_ok s \<longleftrightarrow>
     identifier_ok (state_tenant s) \<and> identifier_ok (state_project s) \<and>
     policy_ok (state_policy s) \<and> grant_ok (state_grant s) \<and>
     policy_tenant (state_policy s) = state_tenant s \<and> policy_project (state_policy s) = state_project s \<and>
     anchor_grant (policy_anchor (state_policy s)) = status_grant (state_grant s) \<and>
     distinct (processed_commands s) \<and> length (processed_commands s) \<le> max_commands \<and>
     list_all identifier_ok (processed_commands s) \<and>
     option_ok (\<lambda>h. head_ok h \<and> revision_tenant (head_revision h) = state_tenant s \<and>
       revision_project (head_revision h) = state_project s) (state_head s)"

lemma one_of_capability [simp]: "capability_of (JStr (capability_text c)) = Inr c"
  by (cases c) (simp_all add: capability_of_def one_of_def all_capabilities_def)

lemma parse_anchor_ok: "parse_trust_anchor v = Inr a \<Longrightarrow> anchor_ok a"
  unfolding parse_trust_anchor_def
  by (auto simp: andThen_eq_Inr failIf_eq_Inr scalar_defs anchor_ok_def positive_def)

lemma capabilities_of_ok: "capabilities_of v = Inr cs \<Longrightarrow> capabilities_ok cs"
  by (auto simp: capabilities_of_def andThen_eq_Inr failIf_eq_Inr capabilities_ok_def array_of_Inr not_less
      Suc_le_eq dest!: mapResult_length split: json.splits)

lemma compile_policy_ok: "compile_policy v = Inr p \<Longrightarrow> policy_ok p"
  unfolding compile_policy_def
  by (auto simp: andThen_eq_Inr failIf_eq_Inr scalar_defs policy_ok_def positive_def
      dest: parse_anchor_ok capabilities_of_ok)

lemma parse_grant_ok: "parse_grant_status v = Inr g \<Longrightarrow> grant_ok g"
  unfolding parse_grant_status_def Let_def
  by (auto simp: andThen_eq_Inr failIf_eq_Inr scalar_defs grant_ok_def positive_def time_ok_def split: if_splits)

lemma privacy_json_inject:
  assumes "privacy_ok p" "privacy_ok q" "privacy_json p = privacy_json q"
  shows "p = q"
  using privacy_roundtrip [OF assms(1)] privacy_roundtrip [OF assms(2)] assms(3) by (metis Inr_inject)

lemma privacy_json_inert: "inert (privacy_json p)"
proof -
  have "inert (transition_json t)" for t
    by (cases "prior_revision_id t"; cases "prior_tuple_binding t"; cases "prior_privacy_binding t";
        cases "transition_tombstone t"; simp add: transition_json_def)
  then show ?thesis
    by (cases "prompt_digest p"; cases "lifecycle_audit p")
      (simp_all add: privacy_json_def field_json_def telemetry_json_def list_all_iff)
qed

lemma parse_head_ok:
  assumes "parse_head v = Inr h"
  shows "head_ok h"
proof -
  from assms obtain input p r b where
    p: "parse_privacy (field input ''privacy'') = Inr p"
    and r: "parse_revision (field input ''revision'') = Inr r"
    and b: "privacy_binding_of (revision_privacy r) = Inr b"
    and same: "stringify (privacy_json p) = stringify (privacy_json (revision_privacy r))"
    and h: "h = \<lparr>head_name = revision_name r, head_sequence = revision_sequence r,
          head_created = created_at r, head_binding = revision_binding r, head_privacy = p,
          head_privacy_binding = b, head_revision = r, head_commitment = commitment r\<rparr>"
    unfolding parse_head_def by (auto simp: andThen_eq_Inr failIf_eq_Inr)
  have ok: "revision_ok r" using r by (rule parse_revision_ok)
  have "p = revision_privacy r"
    using same parse_privacy_ok [OF p] ok
    by (simp add: stringify_eq_iff privacy_json_inert revision_ok_def privacy_json_inject)
  then show ?thesis using ok b h by (simp add: head_ok_def head_of_def)
qed

lemma parse_state_ok:
  assumes "parse_state v = Inr s"
  shows "state_ok s"
proof -
  from assms obtain commands head pol grant where
    ids: "array_of text_value commands = Inr (processed_commands s)"
      "distinct (processed_commands s)" "\<not> oversized commands"
    and h: "optional_field parse_head head = Inr (state_head s)"
    and p: "compile_policy pol = Inr (state_policy s)"
    and g: "parse_grant_status grant = Inr (state_grant s)"
    and own: "identifier_ok (state_tenant s)" "identifier_ok (state_project s)"
      "policy_tenant (state_policy s) = state_tenant s" "policy_project (state_policy s) = state_project s"
      "anchor_grant (policy_anchor (state_policy s)) = status_grant (state_grant s)"
      "\<not> head_elsewhere (state_head s) (state_tenant s) (state_project s)"
    unfolding parse_state_def Let_def text_value_def by (auto simp: andThen_eq_Inr failIf_eq_Inr)
  have "\<forall>i \<in> set (processed_commands s). identifier_ok i"
    using ids(1) by (rule array_of_all) (simp add: text_value_def)
  moreover have "length (processed_commands s) \<le> max_commands"
    using ids(1,3) by (auto simp: array_of_Inr oversized_def dest: mapResult_length)
  moreover have "option_ok head_ok (state_head s)" using h parse_head_ok by (rule optional_all)
  ultimately show ?thesis
    using ids(2) own compile_policy_ok [OF p] parse_grant_ok [OF g]
    by (auto simp: state_ok_def list_all_iff option_ok_def head_elsewhere_def split: option.splits)
qed


section \<open>Round trips of the parts\<close>

lemma limits: "max_snapshot_nodes = 10000" "max_snapshot_bytes = 1000000" "max_commands = 10000"
  by (simp_all add: max_snapshot_nodes_def max_snapshot_bytes_def max_commands_def)

lemma anchor_size:
  assumes "anchor_ok a"
  shows "json_nodes (anchor_json a) = 7" "json_bytes (anchor_json a) \<le> 1100"
    "well_shaped n (anchor_json a) \<longleftrightarrow> n > 0"
  using assms scalar_lengths(1) [of "anchor_issuer a"] scalar_lengths(1) [of "anchor_audience a"]
    scalar_lengths(1) [of "anchor_grant a"] scalar_lengths(2) [of "anchor_commands a"]
  by (simp_all add: anchor_json_def anchor_ok_def max_commands_def)

lemma anchor_roundtrip:
  assumes "anchor_ok a"
  shows "parse_trust_anchor (anchor_json a) = Inr a"
proof -
  have snap: "snapshot_value (anchor_json a) = Inr (anchor_json a)"
    using anchor_size [OF assms] by (intro snapshot_fits) (simp_all add: limits)
  show ?thesis
    unfolding parse_trust_anchor_def snap andThen_Inr
    using assms by (simp add: anchor_json_def exact_eq scalar_defs anchor_ok_def positive_def integer_JNum)
qed

lemma capability_bytes: "utf8_length (capability_text c) \<le> 25"
  by (cases c) simp_all

lemma capabilities_size:
  assumes "capabilities_ok cs"
  shows "json_nodes (capabilities_json cs) \<le> 21" "json_bytes (capabilities_json cs) \<le> 250"
    "well_shaped n (capabilities_json cs) \<longleftrightarrow> n > 0"
proof -
  have len: "length cs \<le> 10" using assms by (simp add: capabilities_ok_def)
  then show "json_nodes (capabilities_json cs) \<le> 21" "well_shaped n (capabilities_json cs) \<longleftrightarrow> n > 0"
    by (simp_all add: capabilities_json_def comp_def sum_list_triv max_commands_def list_all_iff)
  have "sum_list (map (\<lambda>c. utf8_length (capability_text c)) cs) \<le> sum_list (map (\<lambda>c. 25) cs)"
    by (intro sum_list_mono capability_bytes)
  then show "json_bytes (capabilities_json cs) \<le> 250" using len
    by (simp add: capabilities_json_def comp_def sum_list_triv)
qed

lemma capabilities_roundtrip: "capabilities_ok cs \<Longrightarrow> capabilities_of (capabilities_json cs) = Inr cs"
  by (auto simp: capabilities_of_def capabilities_json_def capabilities_ok_def array_of_def
      mapResult_map_Inr sort_key_id_if_sorted Suc_le_eq)

lemma policy_size:
  assumes "policy_ok p"
  shows "json_nodes (policy_json p) \<le> 40" "json_bytes (policy_json p) \<le> 2600"
    "2 \<le> n \<Longrightarrow> well_shaped n (policy_json p)"
  using assms anchor_size [of "policy_anchor p"] capabilities_size [of "policy_capabilities p"]
    scalar_lengths(1) [of "policy_tenant p"] scalar_lengths(1) [of "policy_project p"]
    scalar_lengths(1) [of "policy_id p"] scalar_lengths(2) [of "policy_digest p"]
  by (simp_all add: policy_json_def policy_ok_def max_commands_def)

lemma policy_roundtrip:
  assumes "policy_ok p"
  shows "compile_policy (policy_json p) = Inr p"
proof -
  have snap: "snapshot_value (policy_json p) = Inr (policy_json p)"
    using policy_size [OF assms] by (intro snapshot_fits) (simp_all add: limits)
  show ?thesis
    unfolding compile_policy_def snap andThen_Inr
    using assms capabilities_roundtrip [of "policy_capabilities p"] anchor_roundtrip [of "policy_anchor p"]
    by (simp add: policy_json_def exact_eq scalar_defs policy_ok_def positive_def integer_JNum)
qed

lemma grant_size:
  assumes "grant_ok g"
  shows "json_nodes (grant_json g) \<le> 6" "json_bytes (grant_json g) \<le> 600"
    "well_shaped n (grant_json g) \<longleftrightarrow> n > 0"
  using assms scalar_lengths(1) [of "status_grant g"] scalar_lengths(3)
  by (cases "status_state g"; fastforce simp: grant_json_def grant_ok_def max_commands_def)+

lemma grant_roundtrip:
  assumes "grant_ok g"
  shows "parse_grant_status (grant_json g) = Inr g"
proof -
  have snap: "snapshot_value (grant_json g) = Inr (grant_json g)"
    using grant_size [OF assms] by (intro snapshot_fits) (simp_all add: limits)
  show ?thesis
    unfolding parse_grant_status_def snap andThen_Inr
    using assms
    by (cases "status_state g")
      (auto simp: grant_json_def exact_eq scalar_defs grant_ok_def positive_def integer_JNum time_ok_def
        undefined_json_def intro!: grant_status.equality)
qed

lemma head_parts:
  assumes "head_ok h"
  shows "revision_ok (head_revision h)" "privacy_ok (head_privacy h)"
    "privacy_binding_of (head_privacy h) = Inr (head_privacy_binding h)"
    "head_name h = revision_name (head_revision h)" "head_sequence h = revision_sequence (head_revision h)"
    "head_created h = created_at (head_revision h)" "head_binding h = revision_binding (head_revision h)"
    "head_privacy h = revision_privacy (head_revision h)" "head_commitment h = commitment (head_revision h)"
proof -
  have h: "h = head_of (head_revision h) (head_privacy_binding h)" and r: "revision_ok (head_revision h)"
    and b: "privacy_binding_of (revision_privacy (head_revision h)) = Inr (head_privacy_binding h)"
    using assms unfolding head_ok_def by blast+
  have sel: "head_name (head_of r b) = revision_name r" "head_sequence (head_of r b) = revision_sequence r"
      "head_created (head_of r b) = created_at r" "head_binding (head_of r b) = revision_binding r"
      "head_privacy (head_of r b) = revision_privacy r" "head_commitment (head_of r b) = commitment r" for r b
    by (simp_all add: head_of_def)
  show "head_name h = revision_name (head_revision h)" "head_sequence h = revision_sequence (head_revision h)"
    "head_created h = created_at (head_revision h)" "head_binding h = revision_binding (head_revision h)"
    "head_privacy h = revision_privacy (head_revision h)" "head_commitment h = commitment (head_revision h)"
    by (subst h, simp only: sel)+
  then show "revision_ok (head_revision h)" "privacy_ok (head_privacy h)"
    "privacy_binding_of (head_privacy h) = Inr (head_privacy_binding h)"
    using r b by (simp_all add: revision_ok_def)
qed

lemma privacy_binding_of_ok: "privacy_binding_of p = Inr b \<Longrightarrow> privacy_binding_ok b"
  using privacy_binding_of_Inr by blast

lemma head_size:
  assumes ok: "head_ok h"
  shows "json_nodes (head_json h) \<le> 8400" "json_bytes (head_json h) \<le> 310000"
    "6 \<le> n \<Longrightarrow> well_shaped n (head_json h)"
proof -
  note part = head_parts [OF ok]
  have s: "sealed (head_revision h)" using part(1) by (simp add: revision_ok_def)
  have "privacy_binding_ok (head_privacy_binding h)" using part(3) by (rule privacy_binding_of_ok)
  then have "utf8_length (head_privacy_binding h) \<le> 8192" by (rule scalar_lengths)
  moreover have len: "utf8_length (head_name h) \<le> 256" "utf8_length (head_created h) \<le> 128"
      "utf8_length (head_binding h) \<le> 4096"
      "utf8_length (head_commitment h) \<le> 16384"
    using part scalar_lengths sealed_bindings [OF s] by (simp_all add: revision_ok_def)
  note p = privacy_size [OF part(2,3)] and r = revision_size [OF part(1)]
  show "json_nodes (head_json h) \<le> 8400" using p(1) r(1) by (simp add: head_json_def)
  show "json_bytes (head_json h) \<le> 310000" using p(2) r(2) len calculation by (simp add: head_json_def)
  show "6 \<le> n \<Longrightarrow> well_shaped n (head_json h)" using p(3) r(3)
    by (simp add: head_json_def max_commands_def)
qed

lemma head_roundtrip:
  assumes ok: "head_ok h"
  shows "parse_head (head_json h) = Inr h"
proof -
  note part = head_parts [OF ok]
  have s: "sealed (head_revision h)" using part(1) by (simp add: revision_ok_def)
  have h: "\<lparr>head_name = revision_name (head_revision h), head_sequence = revision_sequence (head_revision h),
      head_created = created_at (head_revision h), head_binding = revision_binding (head_revision h),
      head_privacy = head_privacy h, head_privacy_binding = head_privacy_binding h,
      head_revision = head_revision h, head_commitment = commitment (head_revision h)\<rparr> = h"
    using part by (intro revision_head.equality) simp_all
  have b: "privacy_binding_of (revision_privacy (head_revision h)) = Inr (head_privacy_binding h)"
    using part(3,8) by simp
  have bok: "privacy_binding_ok (head_privacy_binding h)" using b by (rule privacy_binding_of_ok)
  show ?thesis
    using part(1,2,3) sealed_bindings [OF s] privacy_roundtrip [OF part(2)] revision_roundtrip [OF part(1)] b bok h
    by (simp add: parse_head_def head_json_def exact_eq head_keys_def scalar_defs part(4-9) integer_JNum
        revision_ok_def time_ok_def)
qed


section \<open>The state\<close>

text \<open>The command identifiers are charged to their own budget.\<close>

definition charge_commands :: "nat \<Rightarrow> nat \<Rightarrow> budget \<Rightarrow> budget" where
  "charge_commands nodes bytes b =
     b\<lparr>command_nodes := command_nodes b + nodes, command_bytes := command_bytes b + bytes\<rparr>"

lemma affords_charge_commands [simp]: "affords (charge_commands n y b) m x \<longleftrightarrow> affords b m x"
  by (simp add: affords_def charge_commands_def)

lemma identifier_bytes: "identifier_ok s \<Longrightarrow> utf8_length s \<le> 128"
proof -
  assume ok: "identifier_ok s"
  have "code_unit c < 128" if "c \<in> set s" for c
    using ok that by (cases s)
      (auto simp: identifier_ok_def list_all_iff is_letter_def is_lower_def is_upper_def is_digit_def is_id_char_def)
  then have "utf8_length s = length s" by (induction s) auto
  then show ?thesis using ok by (auto simp: identifier_ok_def split: list.splits)
qed

lemma walk_command_ids:
  "list_all identifier_ok ids \<Longrightarrow> command_nodes b + length ids \<le> max_state_command_nodes \<Longrightarrow>
     command_bytes b + 128 * length ids \<le> max_state_command_bytes \<Longrightarrow> d \<le> 32 \<Longrightarrow>
     \<exists>y. budgeted (\<lambda>x. walk d False False (True \<and> is_string_value x) x) (map JStr ids) b =
       Some (charge_commands (length ids) y b)"
proof (induction ids arbitrary: b)
  case Nil
  show ?case by (rule exI [of _ 0]) (simp add: charge_commands_def)
next
  case (Cons i ids)
  let ?c = "charge_commands 1 (utf8_length i) b"
  have i: "utf8_length i \<le> 128" using Cons.prems(1) identifier_bytes by simp
  have step: "walk d False False (True \<and> is_string_value (JStr i)) (JStr i) b = Some ?c"
    using Cons.prems i
    by (simp add: walk.simps is_string_value_def count_nodes_def count_bytes_def charge_commands_def)
  obtain y where "budgeted (\<lambda>x. walk d False False (True \<and> is_string_value x) x) (map JStr ids) ?c =
      Some (charge_commands (length ids) y ?c)"
    using Cons.IH [of ?c] Cons.prems i by (auto simp: charge_commands_def)
  then have "budgeted (\<lambda>x. walk d False False (True \<and> is_string_value x) x) (map JStr (i # ids)) b =
      Some (charge_commands (length (i # ids)) (utf8_length i + y) b)"
    using step by (simp add: charge_commands_def)
  then show ?case by blast
qed

definition entry_step :: "(string \<times> json) \<Rightarrow> budget \<Rightarrow> budget option" where
  "entry_step kv c = Option.bind (count_bytes False (fst kv) c)
     (walk 1 (fst kv = ''processedCommandIds'') False False (snd kv))"

lemma entry_step_charges:
  assumes "fst kv \<noteq> ''processedCommandIds''" "well_shaped 31 (snd kv)"
    and "affords c (json_nodes (snd kv)) (utf8_length (fst kv) + json_bytes (snd kv))"
  shows "entry_step kv c = Some (charge (json_nodes (snd kv)) (utf8_length (fst kv) + json_bytes (snd kv)) c)"
proof -
  have "affords c 0 (utf8_length (fst kv))" using assms(3) by (rule affords_mono) simp_all
  then show ?thesis using assms walk_charges [of 1 "snd kv" "charge 0 (utf8_length (fst kv)) c"]
    by (simp add: entry_step_def count_bytes_affords)
qed

lemma entry_step_commands:
  assumes "list_all identifier_ok ids" "length ids \<le> max_commands" "command_nodes c = 0" "command_bytes c = 0"
    and "affords c 1 19"
  shows "\<exists>y. entry_step (''processedCommandIds'', JArr (map JStr ids)) c =
    Some (charge_commands (length ids + length ids) y (charge 1 19 c))"
proof -
  let ?b = "charge_commands (length ids) 0 (charge 1 19 c)"
  have "count_nodes True (length ids) (charge 1 19 c) = Some ?b"
    using assms(2,3) by (simp add: count_nodes_def charge_commands_def charge_def max_state_command_nodes_def)
  moreover obtain y where "budgeted (\<lambda>x. walk 2 False False (True \<and> is_string_value x) x) (map JStr ids) ?b =
      Some (charge_commands (length ids) y ?b)"
    using walk_command_ids [of ids ?b 2] assms
    by (auto simp: charge_commands_def charge_def max_state_command_nodes_def max_state_command_bytes_def)
  moreover have len: "utf8_length ''processedCommandIds'' = 19" by simp
  moreover have "count_bytes False ''processedCommandIds'' c = Some (charge 0 19 c)"
    using count_bytes_affords [of c 1 "''processedCommandIds''"] assms(5) unfolding len by blast
  moreover have "count_nodes False 1 (charge 0 19 c) = Some (charge 1 19 c)"
    using assms(5) count_nodes_affords [of "charge 0 19 c" 1 0] by simp
  ultimately show ?thesis using assms(2)
    by (auto simp: entry_step_def walk.simps numeral_2_eq_2 charge_commands_def intro!: exI [of _ y])
qed


lemma budgeted_append: "budgeted f (xs @ ys) b = Option.bind (budgeted f xs b) (budgeted f ys)"
  by (induction xs arbitrary: b) (simp_all split: Option.bind_splits)

lemma entries_charge:
  assumes "\<forall>kv \<in> set kvs. fst kv \<noteq> ''processedCommandIds'' \<and> well_shaped 31 (snd kv)"
    and "affords b (sum_list (map (\<lambda>kv. json_nodes (snd kv)) kvs))
      (sum_list (map (\<lambda>kv. utf8_length (fst kv) + json_bytes (snd kv)) kvs))"
  shows "\<exists>n y. budgeted entry_step kvs b = Some (charge n y b) \<and>
    n = sum_list (map (\<lambda>kv. json_nodes (snd kv)) kvs) \<and>
    y = sum_list (map (\<lambda>kv. utf8_length (fst kv) + json_bytes (snd kv)) kvs)"
  using budgeted_charges [of kvs "\<lambda>kv. json_nodes (snd kv)" "\<lambda>kv. utf8_length (fst kv) + json_bytes (snd kv)"
      entry_step b] assms entry_step_charges by blast

lemma walk_state:
  assumes "length kvs \<le> max_commands" "distinct (map fst kvs)"
    and "budgeted entry_step kvs (charge 1 0 no_budget) \<noteq> None"
  shows "snapshot_state_value (JObj kvs) = Inr (JObj kvs)"
proof -
  have "affords no_budget 1 0" by (simp add: affords_none limits)
  then have "count_nodes False 1 no_budget = Some (charge 1 0 no_budget)" by (rule count_nodes_affords)
  then show ?thesis using assms
    by (simp add: snapshot_state_value_def walk.simps entry_step_def [abs_def])
qed

definition state_entries :: "revision_state \<Rightarrow> (string \<times> json) list" where
  "state_entries s = [(''format'', JStr ''selene-design-revision-state/v2''), (''tenantId'', JStr (state_tenant s)),
       (''projectId'', JStr (state_project s)), (''policy'', policy_json (state_policy s)),
       (''grantStatus'', grant_json (state_grant s))]"

definition head_entries :: "revision_state \<Rightarrow> (string \<times> json) list" where
  "head_entries s = (case state_head s of None \<Rightarrow> [] | Some h \<Rightarrow> [(''head'', head_json h)])"

lemma state_json_entries:
  "state_json s = JObj (state_entries s @
     (''processedCommandIds'', JArr (map JStr (processed_commands s))) # head_entries s)"
  by (simp add: state_json_def state_entries_def head_entries_def)

lemma state_fits:
  assumes ok: "state_ok s"
  shows "snapshot_state_value (state_json s) = Inr (state_json s)"
proof -
  let ?ids = "(''processedCommandIds'', JArr (map JStr (processed_commands s)))"
  have parts: "policy_ok (state_policy s)" "grant_ok (state_grant s)"
      "utf8_length (state_tenant s) \<le> 256" "utf8_length (state_project s) \<le> 256"
    using ok scalar_lengths by (simp_all add: state_ok_def)
  note pol = policy_size [OF parts(1)] and gr = grant_size [OF parts(2)]
  define pre where "pre = state_entries s"
  define post where "post = head_entries s"
  have pre: "\<forall>kv \<in> set pre. fst kv \<noteq> ''processedCommandIds'' \<and> well_shaped 31 (snd kv)"
      "sum_list (map (\<lambda>kv. json_nodes (snd kv)) pre) \<le> 50"
      "sum_list (map (\<lambda>kv. utf8_length (fst kv) + json_bytes (snd kv)) pre) \<le> 4000"
    using pol gr parts by (simp_all add: pre_def state_entries_def)
  have post: "\<forall>kv \<in> set post. fst kv \<noteq> ''processedCommandIds'' \<and> well_shaped 31 (snd kv)"
      "sum_list (map (\<lambda>kv. json_nodes (snd kv)) post) \<le> 8400"
      "sum_list (map (\<lambda>kv. utf8_length (fst kv) + json_bytes (snd kv)) post) \<le> 310004"
    using ok head_size(1,2) [of "the (state_head s)"] head_size(3) [of "the (state_head s)" 31]
    by (auto simp: post_def head_entries_def state_ok_def option_ok_def split: option.splits)
  obtain n y where first: "budgeted entry_step pre (charge 1 0 no_budget) = Some (charge n y (charge 1 0 no_budget))"
      "n \<le> 50" "y \<le> 4000"
    using entries_charge [OF pre(1), of "charge 1 0 no_budget"] pre(2,3) by (auto simp: affords_none limits)
  let ?b = "charge (1 + n) y no_budget"
  have "command_nodes ?b = 0" "command_bytes ?b = 0" by (simp_all add: charge_def no_budget_def)
  then obtain z where cmds: "entry_step ?ids ?b =
      Some (charge_commands (length (processed_commands s) + length (processed_commands s)) z (charge 1 19 ?b))"
    using entry_step_commands [of "processed_commands s" ?b] ok first(2,3)
    by (auto simp: state_ok_def affords_none limits simp del: charge_charge)
  let ?c = "charge_commands (length (processed_commands s) + length (processed_commands s)) z (charge 1 19 ?b)"
  obtain m x where "budgeted entry_step post ?c = Some (charge m x ?c)"
    using entries_charge [OF post(1), of ?c] post(2,3) first(2,3) by (auto simp: affords_none limits)
  then have "budgeted entry_step (pre @ ?ids # post) (charge 1 0 no_budget) \<noteq> None"
    using first cmds by (simp add: budgeted_append)
  moreover have "length (pre @ ?ids # post) \<le> max_commands" "distinct (map fst (pre @ ?ids # post))"
    by (auto simp: pre_def post_def state_entries_def head_entries_def limits split: option.splits)
  ultimately show ?thesis
    unfolding state_json_entries pre_def post_def by (intro walk_state) simp_all
qed


lemma optional_head [simp]:
  "field (head_entries s) ''head'' =
     (case state_head s of None \<Rightarrow> JOther NonObject | Some h \<Rightarrow> head_json h)"
  "k \<noteq> ''head'' \<Longrightarrow> field (head_entries s) k = JOther NonObject"
  "fst ` set (head_entries s) \<subseteq> {''head''}"
  by (auto simp: head_entries_def split: option.splits)

theorem state_roundtrip:
  assumes ok: "state_ok s"
  shows "parse_state (state_json s) = Inr s"
proof -
  let ?kvs = "state_entries s @ (''processedCommandIds'', JArr (map JStr (processed_commands s))) # head_entries s"
  have keys: "exact (JObj ?kvs) [''format'', ''grantStatus'', ''policy'', ''processedCommandIds'', ''projectId'',
         ''tenantId''] [''head''] = Inr ?kvs"
    by (rule exact_JObj; cases "state_head s"; simp add: state_entries_def head_entries_def)
  have f: "field ?kvs ''format'' = JStr ''selene-design-revision-state/v2''"
      "field ?kvs ''tenantId'' = JStr (state_tenant s)" "field ?kvs ''projectId'' = JStr (state_project s)"
      "field ?kvs ''policy'' = policy_json (state_policy s)" "field ?kvs ''grantStatus'' = grant_json (state_grant s)"
      "field ?kvs ''processedCommandIds'' = JArr (map JStr (processed_commands s))"
      "field ?kvs ''head'' = (case state_head s of None \<Rightarrow> JOther NonObject | Some h \<Rightarrow> head_json h)"
    by (simp_all add: state_entries_def)
  have ids: "array_of (string_where identifier_ok) (JArr (map JStr (processed_commands s))) = Inr (processed_commands s)"
    using ok by (auto simp: array_of_def state_ok_def list_all_iff intro: mapResult_map_Inr)
  have head: "optional_field parse_head (case state_head s of None \<Rightarrow> JOther NonObject | Some h \<Rightarrow> head_json h) =
      Inr (state_head s)"
    using ok head_roundtrip by (auto simp: optional_field_def undefined_json_def state_ok_def option_ok_def
        head_json_def split: option.splits)
  have pol: "compile_policy (policy_json (state_policy s)) = Inr (state_policy s)"
      "parse_grant_status (grant_json (state_grant s)) = Inr (state_grant s)"
    using ok policy_roundtrip grant_roundtrip by (auto simp: state_ok_def)
  have "\<not> head_elsewhere (state_head s) (state_tenant s) (state_project s)"
    using ok by (auto simp: state_ok_def head_elsewhere_def option_ok_def split: option.splits)
  then show ?thesis
    unfolding parse_state_def Let_def state_fits [OF ok, unfolded state_json_entries] state_json_entries
      andThen_Inr keys f
    using ok by (simp add: ids head pol oversized_def text_value_def state_ok_def)
qed

section \<open>Commits keep the canonical form\<close>

lemma parse_authority_command: "parse_authority v = Inr a \<Longrightarrow> identifier_ok (command_id a)"
  unfolding parse_authority_def
  by (auto simp: andThen_eq_Inr failIf_eq_Inr text_value_def)

lemma commit_keeps_ok:
  assumes ok: "state_ok s" and c: "commit_command s c = Inr s'"
  shows "state_ok s'"
proof -
  obtain a r where i: "identifier_ok (command_id a)" and r: "revision_ok r"
      and step: "commit_parsed s a r (snd c) = Inr s'"
    using c by (cases c) (auto simp: commit_command_Inr dest: parse_authority_command parse_revision_ok)
  then obtain b where b: "privacy_binding_of (revision_privacy r) = Inr b"
    and "commit_allowed s a r (snd c)" "command_id a \<notin> set (processed_commands s)"
      "length (processed_commands s) < max_commands"
    and s': "s' = s\<lparr>processed_commands := processed_commands s @ [command_id a],
               state_head := Some (head_of r b)\<rparr>"
    unfolding commit_parsed_Inr by blast
  moreover have "head_ok (head_of r b)" using r b by (simp add: head_ok_def head_of_def)
  ultimately show ?thesis using ok i
    by (simp add: state_ok_def option_ok_def commit_allowed_def head_of_def)
qed

lemma state_ok_inv: "state_ok s \<Longrightarrow> state_inv s"
  by (auto simp: state_ok_def state_inv_def option_ok_def head_ok_def head_parts(3) split: option.splits)

text \<open>A state kept as an object behaves as the record it was returned as.\<close>

lemma commit_persisted:
  assumes "state_ok s"
  shows "commit_revision (state_json s) c now = commit_command s (c, now)"
  using state_roundtrip [OF assms] by (simp add: commit_revision_def)

lemma commit_revision_ok:
  assumes "commit_revision v c now = Inr s"
  shows "state_ok s"
  using assms by (auto simp: commit_revision_def andThen_eq_Inr dest: parse_state_ok commit_keeps_ok)

end
