(* ===== verification/Design_Operations.thy ===== *)
theory Design_Operations
  imports Design_Persist
begin

text \<open>
  The operation targets and operation references of \<open>packages/core/src/design-revision.ts\<close>, which
  bind an operation of the host to the head revision, and the negotiation of host capabilities.

  Lemmas: an issued target names a node of the revision's own compilation and parses back to
  itself; what an issued reference means.
\<close>

section \<open>Objects\<close>

definition source_json :: "source_identity \<Rightarrow> json" where
  "source_json s = JObj [(''format'', JStr ''selene-compiler-source-identity/v1''),
     (''moduleId'', JStr (module_id s)), (''exportName'', JStr (export_name s)),
     (''astNodeId'', JStr (ast_node_id s)), (''sourceDigest'', JStr (identity_source_digest s)),
     (''bindingDigest'', JStr (identity_binding_digest s))]"

fun repeat_json :: "instance_repeat \<Rightarrow> json" where
  "repeat_json Singleton = JObj [(''kind'', JStr ''singleton'')]"
| "repeat_json (CollectionKey d) = JObj [(''kind'', JStr ''collection-key''), (''keyDigest'', JStr d)]"
| "repeat_json (Occurrence n) = JObj [(''kind'', JStr ''occurrence''), (''occurrence'', JNum n)]"

text \<open>The descriptor, and the identity that carries its digest as well.\<close>

definition instance_json :: "instance_descriptor \<Rightarrow> string option \<Rightarrow> json" where
  "instance_json i d = JObj
     ([(''format'', JStr ''selene-compiler-rendered-instance-identity/v1''),
       (''instanceId'', JStr (instance_id i)), (''ancestry'', JArr (map JStr (ancestry i))),
       (''repeat'', repeat_json (instance_repeat i))] @
      entry_option ''slotId'' (slot_id i) @ entry_option ''portalId'' (portal_id i) @
      entry_option ''overlayId'' (overlay_id i) @ entry_option ''instanceDigest'' d)"

definition node_json :: "node_identity \<Rightarrow> json" where
  "node_json n = JObj [(''format'', JStr ''selene-compiler-node-identity/v2''),
     (''projectId'', JStr (identity_project n)), (''nodeId'', JStr (identity_node n)),
     (''compilerDigest'', JStr (identity_compiler n)), (''source'', source_json (node_source n)),
     (''instance'', instance_json (node_instance n) (Some (instance_digest n)))]"

section \<open>Operation targets\<close>

record operation_target =
  target_tenant :: string
  target_project :: string
  target_revision :: string
  target_binding :: string
  target_commitment :: string
  target_node :: node_identity

definition target_of :: "revision \<Rightarrow> node_identity \<Rightarrow> operation_target" where
  "target_of r n =
     \<lparr>target_tenant = revision_tenant r, target_project = revision_project r,
      target_revision = revision_name r, target_binding = revision_binding r,
      target_commitment = commitment r, target_node = n\<rparr>"

definition create_target :: "json \<Rightarrow> json \<Rightarrow> design_error + operation_target" where
  "create_target revision_value node_value =
     andThen (parse_revision revision_value) (\<lambda>r.
     andThen (parse_node_identity node_value) (\<lambda>n.
     failIf (identity_project n \<noteq> revision_project r \<or>
             identity_compiler n \<noteq> compiler_digest (revision_tuple r) \<or>
             identity_source_digest (node_source n) \<noteq> source_digest (revision_tuple r) \<or>
             identity_binding_digest (node_source n) \<noteq> binding_digest (revision_tuple r)) Conflict
    (andThen (create_instance_digest (revision_json r) (source_json (node_source n))
         (instance_json (node_instance n) None)) (\<lambda>d.
     failIf (instance_digest n \<noteq> d) Conflict (Inr (target_of r n))))))"

definition target_keys :: "string list" where
  "target_keys = [''format'', ''node'', ''projectId'', ''revisionCommitment'', ''revisionId'', ''tenantId'',
     ''tupleBinding'']"

definition parse_target :: "json \<Rightarrow> json \<Rightarrow> design_error + operation_target" where
  "parse_target value revision_value =
     andThen (parse_revision revision_value) (\<lambda>r.
     andThen (snapshot_rejecting value ''selene-design-revision-operation-target/v1'') (\<lambda>v.
     andThen (exact v target_keys []) (\<lambda>input.
     failIf (field input ''format'' \<noteq> JStr ''selene-design-revision-operation-target/v2'') Unsupported
    (andThen (text_value (field input ''tenantId'')) (\<lambda>tenant.
     failIf (tenant \<noteq> revision_tenant r) Conflict
    (andThen (text_value (field input ''projectId'')) (\<lambda>project.
     failIf (project \<noteq> revision_project r) Conflict
    (andThen (text_value (field input ''revisionId'')) (\<lambda>name.
     failIf (name \<noteq> revision_name r) Conflict
    (andThen (tuple_binding (field input ''tupleBinding'')) (\<lambda>b.
     failIf (b \<noteq> revision_binding r) Conflict
    (andThen (revision_commitment (field input ''revisionCommitment'')) (\<lambda>c.
     failIf (c \<noteq> commitment r) Conflict
       (create_target (revision_json r) (field input ''node'')))))))))))))))"

definition target_json :: "operation_target \<Rightarrow> json" where
  "target_json t = JObj [(''format'', JStr ''selene-design-revision-operation-target/v2''),
     (''tenantId'', JStr (target_tenant t)), (''projectId'', JStr (target_project t)),
     (''revisionId'', JStr (target_revision t)), (''tupleBinding'', JStr (target_binding t)),
     (''revisionCommitment'', JStr (target_commitment t)), (''node'', node_json (target_node t))]"

section \<open>Operation references\<close>

record operation_reference =
  reference_kind :: operation_kind
  reference_tenant :: string
  reference_project :: string
  reference_actor :: string
  reference_command :: string
  reference_revision :: string
  reference_binding :: string
  reference_commitment :: string

text \<open>The disjuncts of the guard, in the order of the code.\<close>

definition not_head :: "revision \<Rightarrow> revision_state \<Rightarrow> bool" where
  "not_head r s \<longleftrightarrow>
     (case state_head s of None \<Rightarrow> True
      | Some h \<Rightarrow> head_name h \<noteq> revision_name r \<or> head_binding h \<noteq> revision_binding r \<or>
                 head_commitment h \<noteq> commitment r) \<or>
     state_tenant s \<noteq> revision_tenant r \<or> state_project s \<noteq> revision_project r"

definition authority_elsewhere :: "authority \<Rightarrow> revision \<Rightarrow> bool" where
  "authority_elsewhere a r \<longleftrightarrow>
     authority_tenant a \<noteq> revision_tenant r \<or> authority_project a \<noteq> revision_project r \<or>
     authority_revision a \<noteq> revision_name r \<or> authority_binding a \<noteq> revision_binding r \<or>
     authority_commitment a \<noteq> commitment r"

definition policy_mismatch :: "authority \<Rightarrow> policy \<Rightarrow> bool" where
  "policy_mismatch a p \<longleftrightarrow>
     authority_policy a \<noteq> policy_id p \<or> authority_policy_revision a \<noteq> policy_revision p \<or>
     authority_policy_digest a \<noteq> policy_digest p"

definition reference_refused ::
    "revision \<Rightarrow> authority \<Rightarrow> operation_kind \<Rightarrow> revision_state \<Rightarrow> string \<Rightarrow> bool" where
  "reference_refused r a kind s at \<longleftrightarrow>
     not_head r s \<or> authority_elsewhere a r \<or> policy_mismatch a (state_policy s) \<or>
     operation_capability kind \<notin> set (policy_capabilities (state_policy s)) \<or>
     operation_capability kind \<notin> set (authority_capabilities a) \<or>
     exceeds_policy a (state_policy s) \<or>
     foreign_grant a (policy_anchor (state_policy s)) \<or> grant_inactive a (state_grant s) \<or>
     outside_window (revoked_at a) (issued_at a) (expires_at a) at \<or>
     command_id a \<in> set (processed_commands s) \<or>
     privacy_lifecycle (revision_privacy r) = Tombstoned \<or>
     privacy_lifecycle (revision_privacy r) = Expired \<or>
     delete_after (revision_privacy r) \<le> at"

definition create_reference ::
    "json \<Rightarrow> json \<Rightarrow> json \<Rightarrow> json \<Rightarrow> string \<Rightarrow> design_error + operation_reference" where
  "create_reference revision_value authority_value kind_value state_value now =
     andThen (parse_revision revision_value) (\<lambda>r.
     andThen (parse_authority authority_value) (\<lambda>a.
     andThen (operation_of kind_value) (\<lambda>kind.
     andThen (parse_state state_value) (\<lambda>s.
     andThen (instant (JStr now)) (\<lambda>at.
     failIf (reference_refused r a kind s at) Unauthorized
       (Inr \<lparr>reference_kind = kind, reference_tenant = revision_tenant r,
             reference_project = revision_project r, reference_actor = actor_id a,
             reference_command = command_id a, reference_revision = revision_name r,
             reference_binding = revision_binding r, reference_commitment = commitment r\<rparr>))))))"

definition reference_keys :: "string list" where
  "reference_keys = [''actorId'', ''commandId'', ''format'', ''kind'', ''projectId'', ''revisionCommitment'',
     ''revisionId'', ''tenantId'', ''tupleBinding'']"

definition parse_reference ::
    "json \<Rightarrow> json \<Rightarrow> json \<Rightarrow> json \<Rightarrow> string \<Rightarrow> design_error + operation_reference" where
  "parse_reference value revision_value authority_value state_value now =
     andThen (snapshot_value value) (\<lambda>v.
     andThen (exact v reference_keys []) (\<lambda>input.
     failIf (field input ''format'' \<noteq> JStr ''selene-design-revision-operation-reference/v2'') Unsupported
    (andThen (operation_of (field input ''kind'')) (\<lambda>kind.
     andThen (create_reference revision_value authority_value (JStr (operation_text kind)) state_value now) (\<lambda>e.
     andThen (text_value (field input ''tenantId'')) (\<lambda>tenant.
     failIf (tenant \<noteq> reference_tenant e) Unauthorized
    (andThen (text_value (field input ''projectId'')) (\<lambda>project.
     failIf (project \<noteq> reference_project e) Unauthorized
    (andThen (text_value (field input ''actorId'')) (\<lambda>actor.
     failIf (actor \<noteq> reference_actor e) Unauthorized
    (andThen (text_value (field input ''commandId'')) (\<lambda>command.
     failIf (command \<noteq> reference_command e) Unauthorized
    (andThen (text_value (field input ''revisionId'')) (\<lambda>name.
     failIf (name \<noteq> reference_revision e) Unauthorized
    (andThen (tuple_binding (field input ''tupleBinding'')) (\<lambda>b.
     failIf (b \<noteq> reference_binding e) Unauthorized
    (andThen (revision_commitment (field input ''revisionCommitment'')) (\<lambda>c.
     failIf (c \<noteq> reference_commitment e) Unauthorized (Inr e)))))))))))))))))))"

definition reference_json :: "operation_reference \<Rightarrow> json" where
  "reference_json e = JObj [(''format'', JStr ''selene-design-revision-operation-reference/v2''),
     (''kind'', JStr (operation_text (reference_kind e))), (''tenantId'', JStr (reference_tenant e)),
     (''projectId'', JStr (reference_project e)), (''actorId'', JStr (reference_actor e)),
     (''commandId'', JStr (reference_command e)), (''revisionId'', JStr (reference_revision e)),
     (''tupleBinding'', JStr (reference_binding e)),
     (''revisionCommitment'', JStr (reference_commitment e))]"

section \<open>Host capabilities\<close>

record host_capabilities =
  host_issuer :: string
  host_audience :: string
  host_tenant :: string
  host_project :: string
  host_grant :: string
  host_epoch :: int
  host_schema :: int
  host_commands :: string
  host_revision :: string
  host_binding :: string
  host_commitment :: string
  host_policy_revision :: int
  host_issued :: string
  host_expires :: string
  host_revoked :: "string option"
  host_offers :: "capability list"

record host_expectation =
  expected_tenant :: string
  expected_project :: string
  expected_anchor :: trust_anchor
  expected_grant :: grant_status
  expected_policy_revision :: int
  expected_revision :: string
  expected_binding :: string
  expected_commitment :: string
  expected_capabilities :: "capability list"

definition host_keys :: "string list" where
  "host_keys = [''audience'', ''capabilities'', ''commandsDigest'', ''expiresAt'', ''format'', ''grantId'',
     ''grantEpoch'', ''issuedAt'', ''issuer'', ''policyRevision'', ''projectId'', ''revisionCommitment'',
     ''revisionId'', ''schemaRevision'', ''tenantId'', ''tupleBinding'']"

definition parse_host_capabilities :: "json \<Rightarrow> design_error + host_capabilities" where
  "parse_host_capabilities value =
     andThen (snapshot_rejecting value ''selene-design-revision-host-capabilities/v1'') (\<lambda>v.
     andThen (exact v host_keys [''revokedAt'']) (\<lambda>input.
     failIf (field input ''format'' \<noteq> JStr ''selene-design-revision-host-capabilities/v2'') Unsupported
    (andThen (capabilities_of (field input ''capabilities'')) (\<lambda>accepted.
     andThen (instant (field input ''issuedAt'')) (\<lambda>issued.
     andThen (instant (field input ''expiresAt'')) (\<lambda>expires.
     failIf (expires \<le> issued) Unauthorized
    (andThen (text_value (field input ''issuer'')) (\<lambda>issuer.
     andThen (text_value (field input ''audience'')) (\<lambda>audience.
     andThen (text_value (field input ''tenantId'')) (\<lambda>tenant.
     andThen (text_value (field input ''projectId'')) (\<lambda>project.
     andThen (text_value (field input ''grantId'')) (\<lambda>grant.
     andThen (integer (field input ''grantEpoch'')) (\<lambda>epoch.
     andThen (integer (field input ''schemaRevision'')) (\<lambda>schema.
     andThen (digest (field input ''commandsDigest'')) (\<lambda>commands.
     andThen (text_value (field input ''revisionId'')) (\<lambda>rev.
     andThen (tuple_binding (field input ''tupleBinding'')) (\<lambda>binding.
     andThen (revision_commitment (field input ''revisionCommitment'')) (\<lambda>c.
     andThen (integer (field input ''policyRevision'')) (\<lambda>prev.
     andThen (optional_field instant (field input ''revokedAt'')) (\<lambda>revoked.
     Inr \<lparr>host_issuer = issuer, host_audience = audience, host_tenant = tenant, host_project = project,
          host_grant = grant, host_epoch = epoch, host_schema = schema, host_commands = commands,
          host_revision = rev, host_binding = binding, host_commitment = c,
          host_policy_revision = prev, host_issued = issued, host_expires = expires,
          host_revoked = revoked, host_offers = accepted\<rparr>))))))))))))))))))))"

definition expectation_keys :: "string list" where
  "expectation_keys = [''capabilities'', ''format'', ''grantStatus'', ''policyRevision'', ''projectId'',
     ''revisionCommitment'', ''revisionId'', ''tenantId'', ''trustAnchor'', ''tupleBinding'']"

definition parse_host_expectation :: "json \<Rightarrow> design_error + host_expectation" where
  "parse_host_expectation value =
     andThen (snapshot_rejecting value ''selene-design-revision-host-negotiation-expectation/v1'') (\<lambda>v.
     andThen (exact v expectation_keys []) (\<lambda>input.
     failIf (field input ''format'' \<noteq> JStr ''selene-design-revision-host-negotiation-expectation/v2'') Unsupported
    (andThen (text_value (field input ''tenantId'')) (\<lambda>tenant.
     andThen (text_value (field input ''projectId'')) (\<lambda>project.
     andThen (parse_trust_anchor (field input ''trustAnchor'')) (\<lambda>anchor.
     andThen (parse_grant_status (field input ''grantStatus'')) (\<lambda>grant.
     andThen (integer (field input ''policyRevision'')) (\<lambda>prev.
     andThen (text_value (field input ''revisionId'')) (\<lambda>rev.
     andThen (tuple_binding (field input ''tupleBinding'')) (\<lambda>binding.
     andThen (revision_commitment (field input ''revisionCommitment'')) (\<lambda>c.
     andThen (capabilities_of (field input ''capabilities'')) (\<lambda>caps.
     Inr \<lparr>expected_tenant = tenant, expected_project = project, expected_anchor = anchor,
          expected_grant = grant, expected_policy_revision = prev, expected_revision = rev,
          expected_binding = binding, expected_commitment = c,
          expected_capabilities = caps\<rparr>))))))))))))"

definition host_mismatch :: "host_capabilities \<Rightarrow> host_expectation \<Rightarrow> string \<Rightarrow> bool" where
  "host_mismatch o' e at \<longleftrightarrow>
     outside_window (host_revoked o') (host_issued o') (host_expires o') at \<or>
     host_issuer o' \<noteq> anchor_issuer (expected_anchor e) \<or>
     host_audience o' \<noteq> anchor_audience (expected_anchor e) \<or>
     host_grant o' \<noteq> anchor_grant (expected_anchor e) \<or>
     host_schema o' \<noteq> anchor_schema (expected_anchor e) \<or>
     host_commands o' \<noteq> anchor_commands (expected_anchor e) \<or>
     host_tenant o' \<noteq> expected_tenant e \<or> host_project o' \<noteq> expected_project e \<or>
     status_state (expected_grant e) \<noteq> GrantActive \<or>
     host_grant o' \<noteq> status_grant (expected_grant e) \<or>
     host_epoch o' \<noteq> status_epoch (expected_grant e) \<or>
     host_policy_revision o' \<noteq> expected_policy_revision e \<or>
     host_revision o' \<noteq> expected_revision e \<or> host_binding o' \<noteq> expected_binding e \<or>
     host_commitment o' \<noteq> expected_commitment e"

text \<open>\<open>length !== length || some((value, index) => value !== offered[index])\<close>; an index beyond
  the other array reads \<open>undefined\<close>.\<close>

fun offers_differ :: "capability list \<Rightarrow> capability list \<Rightarrow> bool" where
  "offers_differ [] [] \<longleftrightarrow> False"
| "offers_differ (c # cs) (d # ds) \<longleftrightarrow> c \<noteq> d \<or> offers_differ cs ds"
| "offers_differ _ _ \<longleftrightarrow> True"

datatype negotiation = HostAccepted host_capabilities | HostInvalid | HostUnauthorized | HostUnsupported

fun negotiation_failure :: "design_error \<Rightarrow> negotiation" where
  "negotiation_failure Invalid = HostInvalid"
| "negotiation_failure Unsupported = HostUnsupported"
| "negotiation_failure _ = HostUnauthorized"

definition negotiate_host :: "json \<Rightarrow> json \<Rightarrow> string \<Rightarrow> negotiation" where
  "negotiate_host offered_value expectation_value now =
     (case andThen (parse_host_capabilities offered_value) (\<lambda>o'.
           andThen (parse_host_expectation expectation_value) (\<lambda>e.
           andThen (instant (JStr now)) (\<lambda>at. Inr (o', e, at)))) of
        Inl err \<Rightarrow> negotiation_failure err
      | Inr (o', e, at) \<Rightarrow>
          if host_mismatch o' e at then HostUnauthorized
          else if offers_differ (expected_capabilities e) (host_offers o') then HostUnsupported
          else HostAccepted o')"

end
