(* ===== verification/Design_Issue.thy ===== *)
theory Design_Issue
  imports Design_Operations
begin

text \<open>
  What the issued targets and references mean: an issued target parses back against its revision,
  a reference is issued only for the head by an unspent authority, and negotiation accepts only
  the terms that were expected.
\<close>

section \<open>Compiler identities\<close>

definition source_ok :: "source_identity \<Rightarrow> bool" where
  "source_ok s \<longleftrightarrow> identifier_ok (module_id s) \<and> identifier_ok (export_name s) \<and>
     identifier_ok (ast_node_id s) \<and> digest_ok (identity_source_digest s) \<and>
     digest_ok (identity_binding_digest s)"

fun repeat_ok :: "instance_repeat \<Rightarrow> bool" where
  "repeat_ok Singleton \<longleftrightarrow> True"
| "repeat_ok (CollectionKey d) \<longleftrightarrow> digest_ok d"
| "repeat_ok (Occurrence n) \<longleftrightarrow> positive n"

definition instance_ok :: "instance_descriptor \<Rightarrow> bool" where
  "instance_ok i \<longleftrightarrow> identifier_ok (instance_id i) \<and> list_all identifier_ok (ancestry i) \<and>
     1 \<le> length (ancestry i) \<and> length (ancestry i) \<le> 32 \<and> repeat_ok (instance_repeat i) \<and>
     option_ok identifier_ok (slot_id i) \<and> option_ok identifier_ok (portal_id i) \<and>
     option_ok identifier_ok (overlay_id i)"

definition node_ok :: "node_identity \<Rightarrow> bool" where
  "node_ok n \<longleftrightarrow> identifier_ok (identity_project n) \<and> identifier_ok (identity_node n) \<and>
     digest_ok (identity_compiler n) \<and> source_ok (node_source n) \<and> instance_ok (node_instance n) \<and>
     instance_digest_ok (instance_digest n)"

lemma parse_source_ok: "parse_source_identity v = Inr s \<Longrightarrow> source_ok s"
  unfolding parse_source_identity_def
  by (auto simp: andThen_eq_Inr failIf_eq_Inr scalar_defs source_ok_def)

lemma parse_repeat_ok: "parse_repeat v = Inr r \<Longrightarrow> repeat_ok r"
  unfolding parse_repeat_def Let_def
  by (auto simp: andThen_eq_Inr scalar_defs positive_def split: if_splits)

lemma parse_instance_ok:
  assumes "parse_instance v required = Inr (i, d)"
  shows "instance_ok i" "d = None \<longleftrightarrow> \<not> required" "option_ok instance_digest_ok d"
proof -
  from assms obtain a rep slot portal over where
    a: "array_of text_value a = Inr (ancestry i)"
      "\<not> (case a of JArr xs \<Rightarrow> length xs < 1 \<or> 32 < length xs | _ \<Rightarrow> True)"
    and rep: "parse_repeat rep = Inr (instance_repeat i)"
    and ids: "optional_field text_value slot = Inr (slot_id i)"
      "optional_field text_value portal = Inr (portal_id i)"
      "optional_field text_value over = Inr (overlay_id i)" "identifier_ok (instance_id i)"
    and d: "d = None \<longleftrightarrow> \<not> required" "option_ok instance_digest_ok d"
    unfolding parse_instance_def
    by (auto simp: andThen_eq_Inr failIf_eq_Inr text_value_def rendered_instance_digest_def option_ok_def
        split: if_splits)
  show "d = None \<longleftrightarrow> \<not> required" "option_ok instance_digest_ok d" by (fact d)+
  have "\<forall>x \<in> set (ancestry i). identifier_ok x"
    using a(1) by (rule array_of_all) (simp add: text_value_def)
  moreover have "1 \<le> length (ancestry i) \<and> length (ancestry i) \<le> 32"
    using a by (auto simp: array_of_Inr not_less Suc_le_eq dest!: mapResult_length)
  ultimately show "instance_ok i"
    using parse_repeat_ok [OF rep] ids
    by (auto simp: instance_ok_def list_all_iff text_value_def dest: optional_scalar_Inr)
qed

lemma parse_node_ok:
  assumes "parse_node_identity v = Inr n"
  shows "node_ok n"
proof -
  from assms obtain sv iv i d where s: "parse_source_identity sv = Inr (node_source n)"
    and i: "parse_instance iv True = Inr (i, d)"
    and n: "node_instance n = i" "instance_digest n = (case d of None \<Rightarrow> [] | Some x \<Rightarrow> x)"
      "identifier_ok (identity_project n)" "identifier_ok (identity_node n)" "digest_ok (identity_compiler n)"
    unfolding parse_node_identity_def by (auto simp: andThen_eq_Inr failIf_eq_Inr text_value_def digest_def)
  show ?thesis
    using parse_source_ok [OF s] parse_instance_ok [OF i] n
    by (cases d) (simp_all add: node_ok_def option_ok_def)
qed

lemma source_roundtrip: "source_ok s \<Longrightarrow> parse_source_identity (source_json s) = Inr s"
  by (simp add: parse_source_identity_def source_json_def exact_eq source_ok_def text_value_def digest_def)

lemma repeat_roundtrip: "repeat_ok r \<Longrightarrow> parse_repeat (repeat_json r) = Inr r"
  by (cases r) (simp_all add: parse_repeat_def exact_eq undefined_json_def scalar_defs positive_def integer_JNum)

lemma ids_roundtrip: "list_all identifier_ok xs \<Longrightarrow> array_of text_value (JArr (map JStr xs)) = Inr xs"
  by (auto simp: array_of_def text_value_def list_all_iff intro: mapResult_map_Inr)

lemma instance_roundtrip:
  assumes "instance_ok i" "option_ok instance_digest_ok d"
  shows "parse_instance (instance_json i d) (d \<noteq> None) = Inr (i, d)"
proof -
  have built: "\<lparr>instance_id = instance_id i, ancestry = ancestry i, instance_repeat = instance_repeat i,
      slot_id = a, portal_id = b, overlay_id = c\<rparr> = i"
    if "slot_id i = a" "portal_id i = b" "overlay_id i = c" for a b c
    using that by (cases i) simp
  have "identifier_ok (instance_id i)" "1 \<le> length (ancestry i)" "length (ancestry i) \<le> 32"
      "array_of text_value (JArr (map JStr (ancestry i))) = Inr (ancestry i)"
      "parse_repeat (repeat_json (instance_repeat i)) = Inr (instance_repeat i)"
    using assms(1) ids_roundtrip repeat_roundtrip by (simp_all add: instance_ok_def)
  then show ?thesis using assms
    by (cases "slot_id i"; cases "portal_id i"; cases "overlay_id i"; cases d)
      (simp_all add: parse_instance_def instance_json_def exact_eq instance_ok_def option_ok_def
        text_value_def rendered_instance_digest_def built not_less Suc_le_eq)
qed


lemma node_roundtrip_parts:
  assumes "node_ok n"
  shows "parse_source_identity (source_json (node_source n)) = Inr (node_source n)"
    "parse_instance (instance_json (node_instance n) (Some (instance_digest n))) True =
       Inr (node_instance n, Some (instance_digest n))"
    "parse_instance (instance_json (node_instance n) None) False = Inr (node_instance n, None)"
  using assms source_roundtrip instance_roundtrip [of "node_instance n" "Some (instance_digest n)"]
    instance_roundtrip [of "node_instance n" None]
  by (simp_all add: node_ok_def option_ok_def)

text \<open>Sizes, for the budgeted copies.\<close>

lemma source_size:
  assumes "source_ok s"
  shows "json_nodes (source_json s) = 7" "json_bytes (source_json s) \<le> 1200"
    "well_shaped n (source_json s) \<longleftrightarrow> n > 0"
proof -
  have "utf8_length (module_id s) \<le> 256" "utf8_length (export_name s) \<le> 256"
      "utf8_length (ast_node_id s) \<le> 256" "utf8_length (identity_source_digest s) \<le> 128"
      "utf8_length (identity_binding_digest s) \<le> 128"
    using assms scalar_lengths by (simp_all add: source_ok_def)
  then show "json_nodes (source_json s) = 7" "json_bytes (source_json s) \<le> 1200"
    "well_shaped n (source_json s) \<longleftrightarrow> n > 0"
    by (simp_all add: source_json_def max_commands_def)
qed

lemma repeat_size:
  assumes "repeat_ok r"
  shows "json_nodes (repeat_json r) \<le> 3" "json_bytes (repeat_json r) \<le> 200"
    "well_shaped n (repeat_json r) \<longleftrightarrow> n > 0"
  using assms scalar_lengths(2) by (cases r; fastforce simp: max_commands_def)+

lemma identifiers_bytes:
  "list_all identifier_ok xs \<Longrightarrow> sum_list (map (\<lambda>x. utf8_length x) xs) \<le> 128 * length xs"
proof (induction xs)
  case (Cons x xs)
  then show ?case using identifier_bytes [of x] by simp
qed simp

lemma instance_size:
  assumes ok: "instance_ok i" and d: "option_ok instance_digest_ok d"
  shows "json_nodes (instance_json i d) \<le> 80" "json_bytes (instance_json i d) \<le> 30000"
    "2 \<le> n \<Longrightarrow> well_shaped n (instance_json i d)"
proof -
  note rep = repeat_size [of "instance_repeat i"]
  have parts: "repeat_ok (instance_repeat i)" "length (ancestry i) \<le> 32" "utf8_length (instance_id i) \<le> 256"
      "option_ok (\<lambda>x. utf8_length x \<le> 256) (slot_id i)" "option_ok (\<lambda>x. utf8_length x \<le> 256) (portal_id i)"
      "option_ok (\<lambda>x. utf8_length x \<le> 256) (overlay_id i)"
    using ok scalar_lengths(1) by (auto simp: instance_ok_def option_ok_def split: option.splits)
  have dg: "option_ok (\<lambda>x. utf8_length x \<le> 16384) d"
    using d utf8_length_le [of "the d"] by (auto simp: option_ok_def instance_digest_ok_def split: option.splits)
  have a: "sum_list (map (\<lambda>x. utf8_length x) (ancestry i)) \<le> 4096"
    using identifiers_bytes [of "ancestry i"] ok by (simp add: instance_ok_def)
  show "json_nodes (instance_json i d) \<le> 80"
    using rep(1) parts
    by (cases "slot_id i"; cases "portal_id i"; cases "overlay_id i"; cases d)
      (simp_all add: instance_json_def comp_def sum_list_triv)
  show "json_bytes (instance_json i d) \<le> 30000"
    using rep(2) parts dg a
    by (cases "slot_id i"; cases "portal_id i"; cases "overlay_id i"; cases d)
      (simp_all add: instance_json_def comp_def option_ok_def)
  show "2 \<le> n \<Longrightarrow> well_shaped n (instance_json i d)"
    using rep(3) parts
    by (cases "slot_id i"; cases "portal_id i"; cases "overlay_id i"; cases d)
      (simp_all add: instance_json_def max_commands_def list_all_iff)
qed

lemma node_size:
  assumes "node_ok n"
  shows "json_nodes (node_json n) \<le> 100" "json_bytes (node_json n) \<le> 33000"
    "3 \<le> m \<Longrightarrow> well_shaped m (node_json n)"
proof -
  have ok: "source_ok (node_source n)" "instance_ok (node_instance n)"
      "option_ok instance_digest_ok (Some (instance_digest n))"
      "utf8_length (identity_project n) \<le> 256" "utf8_length (identity_node n) \<le> 256"
      "utf8_length (identity_compiler n) \<le> 128"
    using assms scalar_lengths by (simp_all add: node_ok_def option_ok_def)
  note s = source_size [OF ok(1)] and i = instance_size [OF ok(2,3)]
  show "json_nodes (node_json n) \<le> 100" "json_bytes (node_json n) \<le> 33000"
    "3 \<le> m \<Longrightarrow> well_shaped m (node_json n)"
    using s i ok(4-6) by (simp_all add: node_json_def max_commands_def)
qed

lemma node_roundtrip:
  assumes ok: "node_ok n"
  shows "parse_node_identity (node_json n) = Inr n"
proof -
  have snap: "snapshot_value (node_json n) = Inr (node_json n)"
    using node_size [OF ok] by (intro snapshot_fits) (simp_all add: limits)
  have rej: "snapshot_rejecting (node_json n) ''selene-compiler-node-identity/v1'' = Inr (node_json n)"
    unfolding snapshot_rejecting_def snap by (simp add: node_json_def)
  show ?thesis
    unfolding parse_node_identity_def rej andThen_Inr
    using ok node_roundtrip_parts [OF ok]
    by (simp add: node_json_def exact_eq node_ok_def text_value_def digest_def)
qed

section \<open>Operation targets\<close>

text \<open>What \<open>createDesignRevisionOperationTarget\<close> accepts: the node was compiled from the sources of
  the revision and carries the digest that the revision gives its rendered instance.\<close>

definition node_of_revision :: "revision \<Rightarrow> node_identity \<Rightarrow> bool" where
  "node_of_revision r n \<longleftrightarrow>
     identity_project n = revision_project r \<and> identity_compiler n = compiler_digest (revision_tuple r) \<and>
     identity_source_digest (node_source n) = source_digest (revision_tuple r) \<and>
     identity_binding_digest (node_source n) = binding_digest (revision_tuple r) \<and>
     instance_digest_of r (node_source n) (node_instance n) = Inr (instance_digest n)"

lemma instance_digest_parsed:
  assumes "revision_ok r" "node_ok n"
  shows "create_instance_digest (revision_json r) (source_json (node_source n)) (instance_json (node_instance n) None) =
    instance_digest_of r (node_source n) (node_instance n)"
proof -
  have ok: "source_ok (node_source n)" "instance_ok (node_instance n)"
    using assms(2) by (simp_all add: node_ok_def)
  have "snapshot_value (source_json (node_source n)) = Inr (source_json (node_source n))"
    using source_size [OF ok(1)] by (intro snapshot_fits) (simp_all add: limits)
  moreover have "snapshot_value (instance_json (node_instance n) None) = Inr (instance_json (node_instance n) None)"
    using instance_size [OF ok(2), of None] by (intro snapshot_fits) (simp_all add: limits option_ok_def)
  ultimately show ?thesis
    using revision_roundtrip [OF assms(1)] node_roundtrip_parts [OF assms(2)]
    by (simp add: create_instance_digest_def)
qed

lemma create_target_Inr:
  assumes "parse_revision rv = Inr r"
  shows "create_target rv nv = Inr t \<longleftrightarrow>
     (\<exists>n. parse_node_identity nv = Inr n \<and> node_of_revision r n \<and> t = target_of r n)"
proof -
  have ok: "revision_ok r" using assms by (rule parse_revision_ok)
  have "create_instance_digest (revision_json r) (source_json (node_source n)) (instance_json (node_instance n) None) =
      instance_digest_of r (node_source n) (node_instance n)" if "parse_node_identity nv = Inr n" for n
    using ok parse_node_ok [OF that] by (rule instance_digest_parsed)
  then show ?thesis using assms
    by (auto simp: create_target_def andThen_eq_Inr failIf_eq_Inr node_of_revision_def)
qed


lemma target_roundtrip:
  assumes c: "create_target rv nv = Inr t"
  shows "parse_target (target_json t) rv = Inr t"
proof -
  obtain r where r: "parse_revision rv = Inr r" using c by (auto simp: create_target_def andThen_eq_Inr)
  obtain n where n: "parse_node_identity nv = Inr n" and own: "node_of_revision r n" and t: "t = target_of r n"
    using c by (auto simp: create_target_Inr [OF r])
  have ok: "revision_ok r" "node_ok n" using r n by (blast intro: parse_revision_ok parse_node_ok)+
  have s: "sealed r" using ok(1) by (simp add: revision_ok_def)
  have ids: "identifier_ok (revision_tenant r)" "identifier_ok (revision_project r)" "identifier_ok (revision_name r)"
    using ok(1) by (simp_all add: revision_ok_def)
  have len: "utf8_length (revision_tenant r) \<le> 256" "utf8_length (revision_project r) \<le> 256"
      "utf8_length (revision_name r) \<le> 256" "utf8_length (revision_binding r) \<le> 4096"
      "utf8_length (commitment r) \<le> 16384"
    using ids sealed_bindings [OF s] scalar_lengths by blast+
  have snap: "snapshot_value (target_json t) = Inr (target_json t)"
    using node_size [OF ok(2)] len
    by (intro snapshot_fits) (simp_all add: limits target_json_def t target_of_def)
  have rej: "snapshot_rejecting (target_json t) ''selene-design-revision-operation-target/v1'' = Inr (target_json t)"
    unfolding snapshot_rejecting_def snap by (simp add: target_json_def)
  have "create_target (revision_json r) (node_json n) = Inr t"
    using own t node_roundtrip [OF ok(2)] by (simp add: create_target_Inr [OF revision_roundtrip [OF ok(1)]])
  then show ?thesis
    unfolding parse_target_def r rej andThen_Inr
    using ids sealed_bindings [OF s]
    by (simp add: target_json_def exact_eq target_keys_def t target_of_def text_value_def
        tuple_binding_def revision_commitment_def)
qed

text \<open>A parsed target is one that the revision issues.\<close>

lemma parse_target_issued:
  assumes p: "parse_target v rv = Inr t"
  shows "\<exists>r n. parse_revision rv = Inr r \<and> node_of_revision r n \<and> t = target_of r n"
proof -
  from p obtain r input where r: "parse_revision rv = Inr r"
    and c: "create_target (revision_json r) (field input ''node'') = Inr t"
    unfolding parse_target_def by (auto simp: andThen_eq_Inr failIf_eq_Inr)
  then show ?thesis
    using create_target_Inr [OF revision_roundtrip [OF parse_revision_ok [OF r]]] by auto
qed

section \<open>Operation references\<close>

definition reference_of :: "revision \<Rightarrow> authority \<Rightarrow> operation_kind \<Rightarrow> operation_reference" where
  "reference_of r a kind =
     \<lparr>reference_kind = kind, reference_tenant = revision_tenant r, reference_project = revision_project r,
      reference_actor = actor_id a, reference_command = command_id a, reference_revision = revision_name r,
      reference_binding = revision_binding r, reference_commitment = commitment r\<rparr>"

lemma create_reference_Inr:
  "create_reference rv av kv sv now = Inr e \<longleftrightarrow>
     (\<exists>r a kind s. parse_revision rv = Inr r \<and> parse_authority av = Inr a \<and> operation_of kv = Inr kind \<and>
        parse_state sv = Inr s \<and> instant (JStr now) = Inr now \<and> \<not> reference_refused r a kind s now \<and>
        e = reference_of r a kind)"
  by (auto simp: create_reference_def andThen_eq_Inr failIf_eq_Inr reference_of_def instant_def)

lemma operation_roundtrip [simp]: "operation_of (JStr (operation_text k)) = Inr k"
  by (cases k) (simp_all add: operation_of_def one_of_def)

lemma operation_text_bytes: "utf8_length (operation_text k) \<le> 9"
  by (cases k) simp_all

lemma parse_authority_actor: "parse_authority v = Inr a \<Longrightarrow> identifier_ok (actor_id a)"
  unfolding parse_authority_def
  by (auto simp: andThen_eq_Inr failIf_eq_Inr text_value_def)

lemma create_reference_kind:
  assumes "create_reference rv av kv sv now = Inr e"
  shows "create_reference rv av (JStr (operation_text (reference_kind e))) sv now = Inr e"
  using assms by (auto simp: create_reference_Inr reference_of_def)

lemma reference_roundtrip:
  assumes c: "create_reference rv av kv sv now = Inr e"
  shows "parse_reference (reference_json e) rv av sv now = Inr e"
proof -
  obtain r a k where r: "parse_revision rv = Inr r" and a: "parse_authority av = Inr a" and e: "e = reference_of r a k"
    using c by (auto simp: create_reference_Inr)
  have ok: "revision_ok r" using r by (rule parse_revision_ok)
  then have s: "sealed r" by (simp add: revision_ok_def)
  have ids: "identifier_ok (reference_tenant e)" "identifier_ok (reference_project e)"
      "identifier_ok (reference_revision e)" "identifier_ok (reference_actor e)" "identifier_ok (reference_command e)"
      "tuple_binding_ok (reference_binding e)" "commitment_ok (reference_commitment e)"
    using ok parse_authority_actor [OF a] parse_authority_command [OF a] sealed_bindings [OF s]
    by (simp_all add: revision_ok_def e reference_of_def)
  then have len: "utf8_length (reference_tenant e) \<le> 256" "utf8_length (reference_project e) \<le> 256"
      "utf8_length (reference_revision e) \<le> 256" "utf8_length (reference_actor e) \<le> 256"
      "utf8_length (reference_command e) \<le> 256" "utf8_length (reference_binding e) \<le> 4096"
      "utf8_length (reference_commitment e) \<le> 16384"
    using scalar_lengths by blast+
  have snap: "snapshot_value (reference_json e) = Inr (reference_json e)"
    using len operation_text_bytes [of "reference_kind e"]
    by (intro snapshot_fits) (simp_all add: limits reference_json_def)
  show ?thesis
    unfolding parse_reference_def snap andThen_Inr
    using ids create_reference_kind [OF c]
    by (simp add: reference_json_def exact_eq reference_keys_def text_value_def tuple_binding_def
        revision_commitment_def)
qed

text \<open>The conjuncts a reference rests on.\<close>

lemma reference_granted:
  assumes "\<not> reference_refused r a kind s at"
  shows "state_head s \<noteq> None" "commitment r = head_commitment (the (state_head s))"
    "operation_capability kind \<in> set (policy_capabilities (state_policy s))"
    "set (authority_capabilities a) \<subseteq> set (policy_capabilities (state_policy s))"
    "status_state (state_grant s) = GrantActive" "command_id a \<notin> set (processed_commands s)"
    "issued_at a \<le> at" "at \<le> expires_at a" "at < delete_after (revision_privacy r)"
    "privacy_lifecycle (revision_privacy r) \<le> Redacted"
  using assms not_terminal
  by (auto simp: reference_refused_def not_head_def grant_inactive_def exceeds_policy_def list_ex_iff
      outside_window_def not_less not_le split: option.splits)

section \<open>Negotiation\<close>

lemma offers_differ_iff: "offers_differ cs ds \<longleftrightarrow> cs \<noteq> ds"
  by (induction cs ds rule: offers_differ.induct) auto

lemma negotiate_accepted:
  "negotiate_host ov ev now = HostAccepted o' \<longleftrightarrow>
     (\<exists>e. parse_host_capabilities ov = Inr o' \<and> parse_host_expectation ev = Inr e \<and>
        instant (JStr now) = Inr now \<and> \<not> host_mismatch o' e now \<and>
        host_offers o' = expected_capabilities e)"
proof -
  have failure: "negotiation_failure err \<noteq> HostAccepted o'" for err by (cases err) simp_all
  show ?thesis
  proof (cases "andThen (parse_host_capabilities ov) (\<lambda>o'.
           andThen (parse_host_expectation ev) (\<lambda>e.
           andThen (instant (JStr now)) (\<lambda>at. Inr (o', e, at))))")
    case (Inl err)
    then show ?thesis using failure by (auto simp: negotiate_host_def)
  next
    case (Inr x)
    then show ?thesis
      by (auto simp: negotiate_host_def andThen_eq_Inr offers_differ_iff instant_def split: if_splits)
  qed
qed

end
