(* ===== verification/Design_Export.thy ===== *)
theory Design_Export
  imports Design_Issue
begin

text \<open>
  Export authorities of \<open>packages/core/src/design-revision.ts\<close>: their parsers, the canonical
  binding of an authority, and \<open>evaluateDesignRevisionExportEligibility\<close>.  The host's
  verification port is an argument: the value it returns for a request, or nothing when the call
  throws.

  Lemmas: an authority parses back, its binding determines it, and what an eligible outcome means.
\<close>

section \<open>Grants, authorities and host states\<close>

record export_grant =
  export_grant_authority :: string
  export_grant_epoch :: int
  export_grant_state :: grant_state

record export_terms =
  terms_authority :: string
  terms_epoch :: int
  terms_issuer :: string
  terms_audience :: string
  terms_tenant :: string
  terms_project :: string
  terms_revision :: string
  terms_binding :: string
  terms_commitment :: string
  terms_privacy :: string
  terms_lifecycle :: lifecycle
  terms_delete_after :: string
  terms_policy :: string
  terms_export_policy :: string
  terms_issued :: string
  terms_expires :: string

record export_host = export_terms +
  host_authority_binding :: string
  host_export_grant :: export_grant

text \<open>\<open>exportCapabilities\<close> accepts the one array there is.\<close>

definition export_capabilities :: "json \<Rightarrow> design_error + unit" where
  "export_capabilities value =
     (if value = JArr [JStr ''design:revision.export''] then Inr () else Inl Invalid)"

definition parse_export_grant :: "json \<Rightarrow> design_error + export_grant" where
  "parse_export_grant value =
     andThen (snapshot_value value) (\<lambda>v.
     andThen (exact v [''authorityId'', ''epoch'', ''format'', ''state''] [''revokedAt'']) (\<lambda>input.
     failIf (field input ''format'' \<noteq> JStr ''selene-design-revision-export-grant-status/v1'') Unsupported
    (andThen (text_value (field input ''authorityId'')) (\<lambda>i.
     andThen (integer (field input ''epoch'')) (\<lambda>epoch.
       let revoked = field input ''revokedAt'' in
       if field input ''state'' = JStr ''active'' \<and> undefined_json revoked
       then Inr \<lparr>export_grant_authority = i, export_grant_epoch = epoch, export_grant_state = GrantActive\<rparr>
       else if field input ''state'' = JStr ''revoked'' \<and> \<not> undefined_json revoked
       then andThen (instant revoked) (\<lambda>at.
         Inr \<lparr>export_grant_authority = i, export_grant_epoch = epoch, export_grant_state = GrantRevoked at\<rparr>)
       else Inl Invalid)))))"

definition export_keys :: "string list" where
  "export_keys = [''audience'', ''authorityId'', ''capabilities'', ''epoch'', ''expiresAt'',
     ''exportPolicyDigest'', ''format'', ''issuedAt'', ''issuer'', ''lifecycle'', ''privacyBinding'',
     ''projectId'', ''policyDigest'', ''retentionDeleteAfter'', ''revisionCommitment'', ''revisionId'',
     ''tenantId'', ''tupleBinding'']"

text \<open>The members that the two parsers read alike, up to \<open>exportPolicyDigest\<close>.\<close>

definition parse_terms :: "(string \<times> json) list \<Rightarrow> string \<Rightarrow> string \<Rightarrow> design_error + export_terms" where
  "parse_terms input issued expires =
     andThen (text_value (field input ''authorityId'')) (\<lambda>i.
     andThen (integer (field input ''epoch'')) (\<lambda>epoch.
     andThen (text_value (field input ''issuer'')) (\<lambda>issuer.
     andThen (text_value (field input ''audience'')) (\<lambda>audience.
     andThen (text_value (field input ''tenantId'')) (\<lambda>tenant.
     andThen (text_value (field input ''projectId'')) (\<lambda>project.
     andThen (text_value (field input ''revisionId'')) (\<lambda>rev.
     andThen (tuple_binding (field input ''tupleBinding'')) (\<lambda>binding.
     andThen (revision_commitment (field input ''revisionCommitment'')) (\<lambda>c.
     andThen (privacy_binding (field input ''privacyBinding'')) (\<lambda>p.
     andThen (lifecycle_of (field input ''lifecycle'')) (\<lambda>l.
     andThen (instant (field input ''retentionDeleteAfter'')) (\<lambda>del.
     andThen (digest (field input ''policyDigest'')) (\<lambda>pdig.
     andThen (digest (field input ''exportPolicyDigest'')) (\<lambda>edig.
     Inr \<lparr>terms_authority = i, terms_epoch = epoch, terms_issuer = issuer, terms_audience = audience,
          terms_tenant = tenant, terms_project = project, terms_revision = rev, terms_binding = binding,
          terms_commitment = c, terms_privacy = p, terms_lifecycle = l, terms_delete_after = del,
          terms_policy = pdig, terms_export_policy = edig, terms_issued = issued,
          terms_expires = expires\<rparr>))))))))))))))"

definition parse_export_authority :: "json \<Rightarrow> design_error + export_terms" where
  "parse_export_authority value =
     andThen (snapshot_rejecting value ''selene-design-revision-export-authority/v1'') (\<lambda>v.
     andThen (exact v export_keys []) (\<lambda>input.
     failIf (field input ''format'' \<noteq> JStr ''selene-design-revision-export-authority/v2'') Unsupported
    (andThen (instant (field input ''issuedAt'')) (\<lambda>issued.
     andThen (instant (field input ''expiresAt'')) (\<lambda>expires.
     failIf (expires \<le> issued) Unauthorized
    (andThen (parse_terms input issued expires) (\<lambda>t.
     andThen (export_capabilities (field input ''capabilities'')) (\<lambda>u. Inr t))))))))"

definition export_row :: "export_terms \<Rightarrow> json" where
  "export_row t = JArr
     [JStr ''selene-design-revision-export-authority-binding/v2'', JStr (terms_authority t),
      JNum (terms_epoch t), JStr (terms_issuer t), JStr (terms_audience t), JStr (terms_tenant t),
      JStr (terms_project t), JStr (terms_revision t), JStr (terms_binding t), JStr (terms_commitment t),
      JStr (terms_privacy t), JStr (lifecycle_text (terms_lifecycle t)), JStr (terms_delete_after t),
      JStr (terms_policy t), JStr (terms_export_policy t), JStr (terms_issued t), JStr (terms_expires t),
      JStr ''design:revision.export'']"

definition create_export_binding :: "json \<Rightarrow> design_error + string" where
  "create_export_binding value =
     andThen (parse_export_authority value) (\<lambda>t.
       export_authority_binding (JStr (stringify (export_row t))))"

definition parse_export_host :: "json \<Rightarrow> design_error + export_host" where
  "parse_export_host value =
     andThen (snapshot_rejecting value ''selene-design-revision-export-host-state/v1'') (\<lambda>v.
     andThen (exact v (''authorityBinding'' # ''grantStatus'' # export_keys) []) (\<lambda>input.
     failIf (field input ''format'' \<noteq> JStr ''selene-design-revision-export-host-state/v2'') Unsupported
    (andThen (instant (field input ''issuedAt'')) (\<lambda>issued.
     andThen (instant (field input ''expiresAt'')) (\<lambda>expires.
     failIf (expires \<le> issued) Unauthorized
    (andThen (parse_terms input issued expires) (\<lambda>t.
     andThen (export_authority_binding (field input ''authorityBinding'')) (\<lambda>b.
     andThen (export_capabilities (field input ''capabilities'')) (\<lambda>u.
     andThen (parse_export_grant (field input ''grantStatus'')) (\<lambda>g.
     Inr (export_terms.extend t \<lparr>host_authority_binding = b, host_export_grant = g\<rparr>)))))))))))"

definition terms_json :: "string \<Rightarrow> export_terms \<Rightarrow> json" where
  "terms_json format t = JObj
     [(''format'', JStr format), (''authorityId'', JStr (terms_authority t)),
      (''epoch'', JNum (terms_epoch t)), (''issuer'', JStr (terms_issuer t)),
      (''audience'', JStr (terms_audience t)), (''tenantId'', JStr (terms_tenant t)),
      (''projectId'', JStr (terms_project t)), (''revisionId'', JStr (terms_revision t)),
      (''tupleBinding'', JStr (terms_binding t)), (''revisionCommitment'', JStr (terms_commitment t)),
      (''privacyBinding'', JStr (terms_privacy t)),
      (''lifecycle'', JStr (lifecycle_text (terms_lifecycle t))),
      (''retentionDeleteAfter'', JStr (terms_delete_after t)), (''policyDigest'', JStr (terms_policy t)),
      (''exportPolicyDigest'', JStr (terms_export_policy t)), (''issuedAt'', JStr (terms_issued t)),
      (''expiresAt'', JStr (terms_expires t)), (''capabilities'', JArr [JStr ''design:revision.export''])]"

definition export_authority_json :: "export_terms \<Rightarrow> json" where
  "export_authority_json = terms_json ''selene-design-revision-export-authority/v2''"

section \<open>The answer of the host\<close>

datatype ineligibility = LifecycleIneligible | RetentionIneligible

definition ineligibility_of :: "json \<Rightarrow> ineligibility option" where
  "ineligibility_of v =
     (if v = JStr ''lifecycle'' then Some LifecycleIneligible
      else if v = JStr ''retention'' then Some RetentionIneligible else None)"

datatype verification =
    VerifiedAccepted export_host
  | VerifiedIneligible ineligibility export_host
  | VerifiedUnauthorized | VerifiedReplay | VerifiedUnsupported

definition parse_verification :: "json \<Rightarrow> design_error + verification" where
  "parse_verification value =
     andThen (snapshot_value value) (\<lambda>v.
     andThen (exact v [''kind''] [''code'', ''commitment'']) (\<lambda>input.
       let kind = field input ''kind''; code = field input ''code''; commit = field input ''commitment'' in
       if kind \<in> {JStr ''unauthorized'', JStr ''replay'', JStr ''unsupported''} \<and>
          undefined_json code \<and> undefined_json commit
       then Inr (if kind = JStr ''unauthorized'' then VerifiedUnauthorized
                 else if kind = JStr ''replay'' then VerifiedReplay else VerifiedUnsupported)
       else if kind = JStr ''accepted'' \<and> undefined_json code \<and> \<not> undefined_json commit
       then andThen (parse_export_host commit) (\<lambda>h. Inr (VerifiedAccepted h))
       else if kind = JStr ''ineligible'' \<and> \<not> undefined_json commit
       then (case ineligibility_of code of
               None \<Rightarrow> Inl Invalid
             | Some c \<Rightarrow> andThen (parse_export_host commit) (\<lambda>h. Inr (VerifiedIneligible c h)))
       else Inl Invalid))"

section \<open>Eligibility\<close>

definition ineligibility_code :: "revision \<Rightarrow> string \<Rightarrow> ineligibility option" where
  "ineligibility_code r at =
     (if privacy_lifecycle (revision_privacy r) \<noteq> Active then Some LifecycleIneligible
      else if delete_after (revision_privacy r) \<le> created_at r \<or> delete_after (revision_privacy r) \<le> at
      then Some RetentionIneligible
      else None)"

definition matches_commitment ::
    "export_terms \<Rightarrow> export_host \<Rightarrow> revision \<Rightarrow> string \<Rightarrow> string \<Rightarrow> string \<Rightarrow> bool" where
  "matches_commitment a h r privacy_text binding at \<longleftrightarrow> \<not>
     (terms_authority a \<noteq> terms_authority h \<or> terms_epoch a \<noteq> terms_epoch h \<or>
      terms_issuer a \<noteq> terms_issuer h \<or> terms_audience a \<noteq> terms_audience h \<or>
      terms_tenant a \<noteq> terms_tenant h \<or> terms_project a \<noteq> terms_project h \<or>
      terms_revision a \<noteq> terms_revision h \<or> terms_binding a \<noteq> terms_binding h \<or>
      terms_commitment a \<noteq> terms_commitment h \<or> terms_privacy a \<noteq> terms_privacy h \<or>
      terms_lifecycle a \<noteq> terms_lifecycle h \<or> terms_delete_after a \<noteq> terms_delete_after h \<or>
      terms_policy a \<noteq> terms_policy h \<or> terms_export_policy a \<noteq> terms_export_policy h \<or>
      binding \<noteq> host_authority_binding h \<or> terms_issued a \<noteq> terms_issued h \<or>
      terms_expires a \<noteq> terms_expires h \<or>
      export_grant_state (host_export_grant h) \<noteq> GrantActive \<or>
      export_grant_authority (host_export_grant h) \<noteq> terms_authority a \<or>
      export_grant_epoch (host_export_grant h) \<noteq> terms_epoch a \<or>
      terms_tenant a \<noteq> revision_tenant r \<or> terms_project a \<noteq> revision_project r \<or>
      terms_revision a \<noteq> revision_name r \<or> terms_binding a \<noteq> revision_binding r \<or>
      terms_commitment a \<noteq> commitment r \<or> terms_privacy a \<noteq> privacy_text \<or>
      terms_lifecycle a \<noteq> privacy_lifecycle (revision_privacy r) \<or>
      terms_delete_after a \<noteq> delete_after (revision_privacy r) \<or>
      terms_export_policy a \<noteq> export_policy_digest (revision_privacy r) \<or>
      at < terms_issued a \<or> terms_expires a < at)"

record export_request =
  request_authority :: string
  request_epoch :: int
  request_audience :: string
  request_tenant :: string
  request_project :: string
  request_revision :: string
  request_binding :: string
  request_commitment :: string
  request_privacy :: string
  request_lifecycle :: lifecycle
  request_delete_after :: string
  request_authority_binding :: string
  request_now :: string

datatype eligibility =
  Eligible string | Ineligible ineligibility | EligibilityReplay | EligibilityUnauthorized

text \<open>The decision on a parsed answer.\<close>

definition decide ::
    "export_terms \<Rightarrow> revision \<Rightarrow> string \<Rightarrow> string \<Rightarrow> string \<Rightarrow> verification \<Rightarrow> eligibility" where
  "decide a r privacy_text binding at answer =
     (case answer of
        VerifiedReplay \<Rightarrow> EligibilityReplay
      | VerifiedUnauthorized \<Rightarrow> EligibilityUnauthorized
      | VerifiedUnsupported \<Rightarrow> EligibilityUnauthorized
      | VerifiedIneligible code h \<Rightarrow>
          if \<not> matches_commitment a h r privacy_text binding at then EligibilityUnauthorized
          else if ineligibility_code r at \<noteq> Some code then EligibilityUnauthorized
          else Ineligible code
      | VerifiedAccepted h \<Rightarrow>
          if \<not> matches_commitment a h r privacy_text binding at then EligibilityUnauthorized
          else if ineligibility_code r at \<noteq> None then EligibilityUnauthorized
          else Eligible (terms_authority a))"

definition request_of :: "export_terms \<Rightarrow> revision \<Rightarrow> string \<Rightarrow> string \<Rightarrow> string \<Rightarrow> export_request" where
  "request_of a r privacy_text binding at =
     \<lparr>request_authority = terms_authority a, request_epoch = terms_epoch a,
      request_audience = terms_audience a, request_tenant = revision_tenant r,
      request_project = revision_project r, request_revision = revision_name r,
      request_binding = revision_binding r, request_commitment = commitment r,
      request_privacy = privacy_text, request_lifecycle = privacy_lifecycle (revision_privacy r),
      request_delete_after = delete_after (revision_privacy r), request_authority_binding = binding,
      request_now = at\<rparr>"

text \<open>The first argument is \<open>verificationFunction(port, 'verifyAndConsume')\<close>.\<close>

definition evaluate_export ::
    "(export_request \<Rightarrow> json option) option \<Rightarrow> json \<Rightarrow> json \<Rightarrow> string \<Rightarrow> eligibility" where
  "evaluate_export port revision_value authority_value now =
     (case andThen (parse_revision revision_value) (\<lambda>r.
           andThen (parse_export_authority authority_value) (\<lambda>a.
           andThen (instant (JStr now)) (\<lambda>at.
           case port of
             None \<Rightarrow> Inl Unauthorized
           | Some invoke \<Rightarrow>
               andThen (privacy_binding_of (revision_privacy r)) (\<lambda>p.
               andThen (create_export_binding (export_authority_json a)) (\<lambda>b.
               case invoke (request_of a r p b at) of
                 None \<Rightarrow> Inl Unauthorized
               | Some answer \<Rightarrow>
                   andThen (parse_verification answer) (\<lambda>v. Inr (decide a r p b at v))))))) of
        Inl e \<Rightarrow> EligibilityUnauthorized
      | Inr d \<Rightarrow> d)"


section \<open>Canonical form\<close>

definition terms_ok :: "export_terms \<Rightarrow> bool" where
  "terms_ok t \<longleftrightarrow>
     identifier_ok (terms_authority t) \<and> positive (terms_epoch t) \<and> identifier_ok (terms_issuer t) \<and>
     identifier_ok (terms_audience t) \<and> identifier_ok (terms_tenant t) \<and> identifier_ok (terms_project t) \<and>
     identifier_ok (terms_revision t) \<and> tuple_binding_ok (terms_binding t) \<and>
     commitment_ok (terms_commitment t) \<and> privacy_binding_ok (terms_privacy t) \<and>
     time_ok (terms_delete_after t) \<and> digest_ok (terms_policy t) \<and> digest_ok (terms_export_policy t) \<and>
     time_ok (terms_issued t) \<and> time_ok (terms_expires t) \<and> terms_issued t < terms_expires t"

lemma parse_terms_Inr:
  assumes "parse_terms input issued expires = Inr t" "time_ok issued" "time_ok expires" "issued < expires"
  shows "terms_ok t"
  using assms unfolding parse_terms_def
  by (auto simp: andThen_eq_Inr scalar_defs terms_ok_def positive_def time_ok_def)

lemma parse_export_authority_ok: "parse_export_authority v = Inr t \<Longrightarrow> terms_ok t"
  unfolding parse_export_authority_def
  by (auto simp: andThen_eq_Inr failIf_eq_Inr not_le instant_def time_ok_def dest: parse_terms_Inr)

lemma terms_size:
  assumes "terms_ok t" "utf8_length format \<le> 64"
  shows "json_nodes (terms_json format t) \<le> 30" "json_bytes (terms_json format t) \<le> 34000"
    "2 \<le> n \<Longrightarrow> well_shaped n (terms_json format t)"
proof -
  have len: "utf8_length (terms_authority t) \<le> 256" "utf8_length (terms_issuer t) \<le> 256"
      "utf8_length (terms_audience t) \<le> 256" "utf8_length (terms_tenant t) \<le> 256"
      "utf8_length (terms_project t) \<le> 256" "utf8_length (terms_revision t) \<le> 256"
      "utf8_length (terms_binding t) \<le> 4096" "utf8_length (terms_commitment t) \<le> 16384"
      "utf8_length (terms_privacy t) \<le> 8192" "utf8_length (terms_delete_after t) \<le> 128"
      "utf8_length (terms_policy t) \<le> 128" "utf8_length (terms_export_policy t) \<le> 128"
      "utf8_length (terms_issued t) \<le> 128" "utf8_length (terms_expires t) \<le> 128"
    using assms scalar_lengths by (simp_all add: terms_ok_def)
  then show "json_nodes (terms_json format t) \<le> 30" "json_bytes (terms_json format t) \<le> 34000"
    "2 \<le> n \<Longrightarrow> well_shaped n (terms_json format t)"
    using assms(2) lifecycle_bytes [of "terms_lifecycle t"] by (simp_all add: terms_json_def max_commands_def)
qed

text \<open>The fields that \<open>parse_terms\<close> reads determine its result.\<close>

definition terms_fields :: "(string \<times> json) list \<Rightarrow> export_terms \<Rightarrow> bool" where
  "terms_fields kvs t \<longleftrightarrow>
     field kvs ''authorityId'' = JStr (terms_authority t) \<and> field kvs ''epoch'' = JNum (terms_epoch t) \<and>
     field kvs ''issuer'' = JStr (terms_issuer t) \<and> field kvs ''audience'' = JStr (terms_audience t) \<and>
     field kvs ''tenantId'' = JStr (terms_tenant t) \<and> field kvs ''projectId'' = JStr (terms_project t) \<and>
     field kvs ''revisionId'' = JStr (terms_revision t) \<and> field kvs ''tupleBinding'' = JStr (terms_binding t) \<and>
     field kvs ''revisionCommitment'' = JStr (terms_commitment t) \<and>
     field kvs ''privacyBinding'' = JStr (terms_privacy t) \<and>
     field kvs ''lifecycle'' = JStr (lifecycle_text (terms_lifecycle t)) \<and>
     field kvs ''retentionDeleteAfter'' = JStr (terms_delete_after t) \<and>
     field kvs ''policyDigest'' = JStr (terms_policy t) \<and>
     field kvs ''exportPolicyDigest'' = JStr (terms_export_policy t)"

lemma parse_terms_fields:
  assumes "terms_ok t" "terms_fields kvs t"
  shows "parse_terms kvs (terms_issued t) (terms_expires t) = Inr t"
  using assms unfolding terms_fields_def terms_ok_def
  by (simp add: parse_terms_def scalar_defs positive_def integer_JNum time_ok_def)

lemma export_authority_roundtrip:
  assumes ok: "terms_ok t"
  shows "parse_export_authority (export_authority_json t) = Inr t"
proof -
  have snap: "snapshot_value (export_authority_json t) = Inr (export_authority_json t)"
    using terms_size [OF ok, of "''selene-design-revision-export-authority/v2''"]
    unfolding export_authority_json_def by (intro snapshot_fits) (simp_all add: limits)
  have rej: "snapshot_rejecting (export_authority_json t) ''selene-design-revision-export-authority/v1'' =
      Inr (export_authority_json t)"
    unfolding snapshot_rejecting_def snap by (simp add: export_authority_json_def terms_json_def)
  define kvs where "kvs = (case export_authority_json t of JObj kvs \<Rightarrow> kvs | _ \<Rightarrow> [])"
  have js: "export_authority_json t = JObj kvs"
    by (simp add: kvs_def export_authority_json_def terms_json_def)
  have f: "terms_fields kvs t" "field kvs ''format'' = JStr ''selene-design-revision-export-authority/v2''"
      "field kvs ''issuedAt'' = JStr (terms_issued t)" "field kvs ''expiresAt'' = JStr (terms_expires t)"
      "field kvs ''capabilities'' = JArr [JStr ''design:revision.export'']"
    by (simp_all add: kvs_def export_authority_json_def terms_json_def terms_fields_def)
  have keys: "exact (JObj kvs) export_keys [] = Inr kvs"
    by (simp add: kvs_def export_authority_json_def terms_json_def exact_eq export_keys_def)
  have window: "\<not> terms_expires t \<le> terms_issued t" using ok leD by (auto simp: terms_ok_def)
  show ?thesis
    unfolding parse_export_authority_def rej andThen_Inr unfolding js keys
    using parse_terms_fields [OF ok f(1)] ok f window
    by (simp add: keys instant_def terms_ok_def time_ok_def export_capabilities_def)
qed

section \<open>The binding determines the authority\<close>

lemma create_export_binding_Inr:
  "create_export_binding v = Inr b \<longleftrightarrow>
     (\<exists>t. parse_export_authority v = Inr t \<and> b = stringify (export_row t) \<and> export_binding_ok b)"
  by (auto simp: create_export_binding_def andThen_eq_Inr export_authority_binding_def)

lemma export_row_inert: "inert (export_row t)"
  by (simp add: export_row_def)

lemma export_row_inject: "export_row t = export_row u \<longleftrightarrow> t = u"
  by (auto simp: export_row_def intro: export_terms.equality)

section \<open>Eligibility\<close>

lemma decide_eligible:
  "decide a r p b at v = Eligible i \<longleftrightarrow>
     (\<exists>h. v = VerifiedAccepted h \<and> matches_commitment a h r p b at \<and> ineligibility_code r at = None \<and>
        i = terms_authority a)"
  by (cases v) (auto simp: decide_def)

lemma evaluate_eligible:
  "evaluate_export port rv av now = Eligible i \<longleftrightarrow>
     (\<exists>invoke r a p b answer h.
        port = Some invoke \<and> parse_revision rv = Inr r \<and> parse_export_authority av = Inr a \<and>
        instant (JStr now) = Inr now \<and> privacy_binding_of (revision_privacy r) = Inr p \<and>
        create_export_binding (export_authority_json a) = Inr b \<and>
        invoke (request_of a r p b now) = Some answer \<and>
        parse_verification answer = Inr (VerifiedAccepted h) \<and>
        matches_commitment a h r p b now \<and> ineligibility_code r now = None \<and> i = terms_authority a)"
    (is "?l \<longleftrightarrow> ?r")
proof
  assume ?l
  then show ?r
    unfolding evaluate_export_def
    by (auto simp: andThen_eq_Inr instant_def decide_eligible split: sum.splits option.splits)
next
  assume ?r
  then show ?l by (auto simp: evaluate_export_def decide_eligible)
qed

lemma ineligibility_none:
  "ineligibility_code r at = None \<longleftrightarrow>
     privacy_lifecycle (revision_privacy r) = Active \<and> created_at r < delete_after (revision_privacy r) \<and>
     at < delete_after (revision_privacy r)"
  by (auto simp: ineligibility_code_def not_le)

lemma matches_terms:
  assumes "matches_commitment a h r p b at"
  shows "export_terms.truncate h = a" "host_authority_binding h = b"
    "export_grant_state (host_export_grant h) = GrantActive"
    "terms_authority a = export_grant_authority (host_export_grant h)"
    "terms_epoch a = export_grant_epoch (host_export_grant h)"
    "terms_commitment a = commitment r" "terms_privacy a = p" "terms_issued a \<le> at" "at \<le> terms_expires a"
  using assms by (auto simp: matches_commitment_def not_less export_terms.truncate_def intro: export_terms.equality)

lemma matches_revision:
  assumes "matches_commitment a h r p b at"
  shows "terms_tenant a = revision_tenant r" "terms_project a = revision_project r" "terms_revision a = revision_name r"
    "terms_binding a = revision_binding r" "terms_lifecycle a = privacy_lifecycle (revision_privacy r)"
    "terms_delete_after a = delete_after (revision_privacy r)"
    "terms_export_policy a = export_policy_digest (revision_privacy r)"
  using assms by (simp_all add: matches_commitment_def)

end
