(* ===== verification/Metered.thy ===== *)
theory Metered
  imports Selene_Prelude
begin

text \<open>
  The boundary functions of the program copy an untrusted value while a mutable budget of nodes and
  bytes runs down, and refuse the value at the first excess.  \<open>metered\<close> is the declarative form of
  such a copy: it succeeds when the value has the required shape and the budget affords the nodes and
  bytes of the whole value.  The locale \<open>meter\<close> is the contract of a budget, under which sequences and
  loops of metered steps are metered; each boundary interprets it on its own budget.
\<close>

definition metered ::
    "('b \<Rightarrow> nat \<Rightarrow> nat \<Rightarrow> bool) \<Rightarrow> (nat \<Rightarrow> nat \<Rightarrow> 'b \<Rightarrow> 'b) \<Rightarrow> bool \<Rightarrow> nat \<Rightarrow> nat \<Rightarrow> 'b \<Rightarrow> 'b option" where
  "metered afford pay ok n y b = (if ok \<and> afford b n y then Some (pay n y b) else None)"

locale meter =
  fixes afford :: "'b \<Rightarrow> nat \<Rightarrow> nat \<Rightarrow> bool" and pay :: "nat \<Rightarrow> nat \<Rightarrow> 'b \<Rightarrow> 'b"
  assumes pay_nothing: "pay 0 0 b = b"
    and pay_pay: "pay m x (pay n y b) = pay (n + m) (y + x) b"
    and afford_pay: "afford (pay n y b) m x \<longleftrightarrow> afford b (n + m) (y + x)"
    and afford_less: "afford b (n + m) (y + x) \<Longrightarrow> afford b n y"
begin

lemma metered_Some: "metered afford pay p n y b = Some c \<Longrightarrow> afford c 0 0"
  by (auto simp: metered_def afford_pay split: if_splits)

lemma bind_metered:
  assumes "afford b 0 0" "\<And>c. afford c 0 0 \<Longrightarrow> f c = metered afford pay q m x c"
  shows "Option.bind (metered afford pay p n y b) f = metered afford pay (p \<and> q) (n + m) (y + x) b"
proof (cases "p \<and> afford b n y")
  case True
  then show ?thesis using assms(2) [of "pay n y b"] by (simp add: metered_def afford_pay pay_pay)
next
  case False
  then show ?thesis using afford_less by (auto simp: metered_def)
qed

lemma budgeted_metered:
  assumes "\<And>x c. x \<in> set xs \<Longrightarrow> afford c 0 0 \<Longrightarrow> f x c = metered afford pay (P x) (n x) (y x) c" "afford b 0 0"
  shows "budgeted f xs b =
    metered afford pay (list_all P xs) (sum_list (map n xs)) (sum_list (map y xs)) b"
  using assms
proof (induction xs arbitrary: b)
  case Nil
  then show ?case by (simp add: metered_def pay_nothing)
next
  case (Cons x xs)
  have "Option.bind (metered afford pay (P x) (n x) (y x) b) (budgeted f xs) =
      metered afford pay (P x \<and> list_all P xs) (n x + sum_list (map n xs)) (y x + sum_list (map y xs)) b"
    using Cons.prems by (intro bind_metered Cons.IH) simp_all
  then show ?case using Cons.prems by simp
qed

lemma metered_if: "(if c then None else metered afford pay ok n y b) = metered afford pay (\<not> c \<and> ok) n y b"
  by (simp add: metered_def)

end

end
