(* ===== verification/Design_Bounds.thy ===== *)
theory Design_Bounds
  imports Design_Roundtrip Metered
begin

text \<open>
  The budgeted copy of \<open>packages/core/src/design-revision.ts\<close> against a declarative measure.  The
  code threads one mutable budget through the recursion and stops at the first excess; the lemmas
  show that this accepts exactly the values whose depth, widths, node count and UTF-8 length are
  within the limits.
\<close>

text \<open>Within \<open>n\<close> levels of containers, of bounded widths and with distinct keys.\<close>

fun nested :: "nat \<Rightarrow> json \<Rightarrow> bool" where
  "nested n (JArr xs) \<longleftrightarrow> length xs \<le> max_commands \<and> list_all (\<lambda>x. 0 < n \<and> nested (n - 1) x) xs"
| "nested n (JObj kvs) \<longleftrightarrow> length kvs \<le> max_commands \<and> distinct (map fst kvs) \<and>
     list_all (\<lambda>kv. 0 < n \<and> nested (n - 1) (snd kv)) kvs"
| "nested n (JOther f) \<longleftrightarrow> False"
| "nested n _ \<longleftrightarrow> True"

definition within_budget :: "json \<Rightarrow> bool" where
  "within_budget v \<longleftrightarrow> nested 32 v \<and> json_nodes v \<le> max_snapshot_nodes \<and> json_bytes v \<le> max_snapshot_bytes"

interpretation snapshot_budget: meter affords charge
  by unfold_locales (auto simp: charge_def affords_def)

abbreviation measured :: "bool \<Rightarrow> nat \<Rightarrow> nat \<Rightarrow> budget \<Rightarrow> budget option" where
  "measured \<equiv> metered affords charge"

lemma count_bytes_measured: "count_bytes False s b = measured True 0 (utf8_length s) b"
  if "affords b 0 0"
  using that by (auto simp: count_bytes_def metered_def affords_def charge_def)

lemma count_nodes_spec: "affords b 0 0 \<Longrightarrow> count_nodes False n b = measured True n 0 b"
  by (auto simp: count_nodes_def metered_def affords_def charge_def)

lemmas bind_measured = snapshot_budget.bind_metered

lemma walk_measured:
  "d \<le> 32 \<Longrightarrow> affords b 0 0 \<Longrightarrow>
     walk d False False False v b = measured (nested (32 - d) v) (json_nodes v) (json_bytes v) b"
proof (induction v arbitrary: d b)
  case (JStr s)
  then show ?case
    by (simp add: walk.simps count_nodes_spec bind_measured [OF _ count_bytes_measured])
next
  case (JArr xs)
  have step: "walk (d + 1) False False (False \<and> is_string_value x) x c =
      measured (0 < 32 - d \<and> nested (32 - d - 1) x) (json_nodes x) (json_bytes x) c"
    if "x \<in> set xs" "affords c 0 0" for x c
  proof (cases "d < 32")
    case True
    then show ?thesis using JArr.IH [OF that(1), of "d + 1" c] that(2) by (simp add: Suc_le_eq)
  next
    case False
    then show ?thesis using JArr.prems(1) by (simp add: walk.simps metered_def)
  qed
  have loop: "budgeted (\<lambda>x. walk (d + 1) False False (False \<and> is_string_value x) x) xs c =
      measured (list_all (\<lambda>x. 0 < 32 - d \<and> nested (32 - d - 1) x) xs) (sum_list (map json_nodes xs))
        (sum_list (map json_bytes xs)) c" if "affords c 0 0" for c
    using step that by (rule snapshot_budget.budgeted_metered)
  have inner: "Option.bind (count_nodes False (length xs) c)
      (budgeted (\<lambda>x. walk (d + 1) False False (False \<and> is_string_value x) x) xs) =
      measured (list_all (\<lambda>x. 0 < 32 - d \<and> nested (32 - d - 1) x) xs)
        (length xs + sum_list (map json_nodes xs)) (sum_list (map json_bytes xs)) c" if "affords c 0 0" for c
    using that bind_measured [OF that loop, of True "length xs" 0] by (simp add: count_nodes_spec)
  have "Option.bind (measured True 1 0 b) (\<lambda>b1. if length xs > max_commands then None
      else Option.bind (count_nodes False (length xs) b1)
        (budgeted (\<lambda>x. walk (d + 1) False False (False \<and> is_string_value x) x) xs)) =
      measured (True \<and> nested (32 - d) (JArr xs)) (1 + (length xs + sum_list (map json_nodes xs)))
        (0 + sum_list (map json_bytes xs)) b"
  proof (rule bind_measured [OF JArr.prems(2)])
    show "(if length xs > max_commands then None else Option.bind (count_nodes False (length xs) c)
        (budgeted (\<lambda>x. walk (d + 1) False False (False \<and> is_string_value x) x) xs)) =
      measured (nested (32 - d) (JArr xs)) (length xs + sum_list (map json_nodes xs))
        (sum_list (map json_bytes xs)) c" if "affords c 0 0" for c
      unfolding inner [OF that] by (simp add: metered_def not_le)
  qed
  then show ?case using JArr.prems by (simp add: walk.simps count_nodes_spec)
next
  case (JObj kvs)
  let ?y = "\<lambda>kv. utf8_length (fst kv) + json_bytes (snd kv)"
  have step: "Option.bind (count_bytes False (fst kv) c) (walk (d + 1) False False False (snd kv)) =
      measured (0 < 32 - d \<and> nested (32 - d - 1) (snd kv)) (json_nodes (snd kv)) (?y kv) c"
    if "kv \<in> set kvs" "affords c 0 0" for kv c
  proof (cases "d < 32")
    case True
    have "walk (d + 1) False False False (snd kv) e =
        measured (nested (32 - d - 1) (snd kv)) (json_nodes (snd kv)) (json_bytes (snd kv)) e"
      if "affords e 0 0" for e
      using JObj.IH [OF \<open>kv \<in> set kvs\<close>, of "snd kv" "d + 1" e] True that by (simp add: snds.simps Suc_le_eq)
    then show ?thesis using True that(2) bind_measured [OF that(2), of _ _ _ _ True 0 "utf8_length (fst kv)"]
      by (simp add: count_bytes_measured)
  next
    case False
    then show ?thesis using JObj.prems(1) that(2)
      by (auto simp: walk.simps metered_def count_bytes_measured)
  qed
  have loop: "budgeted (\<lambda>kv c. Option.bind (count_bytes False (fst kv) c) (walk (d + 1) False False False (snd kv)))
      kvs c = measured (list_all (\<lambda>kv. 0 < 32 - d \<and> nested (32 - d - 1) (snd kv)) kvs)
        (sum_list (map (\<lambda>kv. json_nodes (snd kv)) kvs)) (sum_list (map ?y kvs)) c" if "affords c 0 0" for c
    using step that by (rule snapshot_budget.budgeted_metered)
  have "Option.bind (measured True 1 0 b) (\<lambda>b1. if length kvs > max_commands \<or> \<not> distinct (map fst kvs) then None
      else budgeted (\<lambda>kv c. Option.bind (count_bytes False (fst kv) c) (walk (d + 1) False False False (snd kv))) kvs b1) =
      measured (True \<and> nested (32 - d) (JObj kvs)) (1 + sum_list (map (\<lambda>kv. json_nodes (snd kv)) kvs))
        (0 + sum_list (map ?y kvs)) b"
  proof (rule bind_measured [OF JObj.prems(2)])
    show "(if length kvs > max_commands \<or> \<not> distinct (map fst kvs) then None
        else budgeted (\<lambda>kv c. Option.bind (count_bytes False (fst kv) c) (walk (d + 1) False False False (snd kv))) kvs c) =
      measured (nested (32 - d) (JObj kvs)) (sum_list (map (\<lambda>kv. json_nodes (snd kv)) kvs))
        (sum_list (map ?y kvs)) c" if "affords c 0 0" for c
      unfolding loop [OF that] by (simp add: metered_def not_le)
  qed
  then show ?case using JObj.prems by (simp add: walk.simps count_nodes_spec cong: if_cong)
qed (simp_all add: walk.simps count_nodes_spec metered_def)

lemma snapshot_measured: "snapshot_value v = (if within_budget v then Inr v else Inl Invalid)"
  using walk_measured [of 0 no_budget v]
  by (simp add: snapshot_value_def within_budget_def metered_def affords_none)

end
