(* ===== verification/Design_Fixture.thy ===== *)
theory Design_Fixture
  imports Design_Export Design_Bounds
begin

text \<open>
  Canonical commands, and the concrete revisions, authorities and states that the properties of
  the design revision contracts are applied to.  The texts of bindings are never computed: their
  lengths follow from the lengths of the parts.
\<close>

section \<open>Canonical commands\<close>

definition authority_json :: "authority \<Rightarrow> json" where
  "authority_json a = JObj
     ([(''format'', JStr ''selene-design-revision-authority/v2''),
       (''tenantId'', JStr (authority_tenant a)), (''projectId'', JStr (authority_project a)),
       (''actorId'', JStr (actor_id a)), (''commandId'', JStr (command_id a)),
       (''policyId'', JStr (authority_policy a)), (''policyRevision'', JNum (authority_policy_revision a)),
       (''policyDigest'', JStr (authority_policy_digest a)), (''revisionId'', JStr (authority_revision a)),
       (''tupleBinding'', JStr (authority_binding a)),
       (''revisionCommitment'', JStr (authority_commitment a)),
       (''capabilities'', capabilities_json (authority_capabilities a)),
       (''grantId'', JStr (authority_grant a)), (''grantEpoch'', JNum (authority_epoch a)),
       (''issuer'', JStr (authority_issuer a)), (''audience'', JStr (authority_audience a)),
       (''schemaRevision'', JNum (authority_schema a)), (''commandsDigest'', JStr (authority_commands a)),
       (''issuedAt'', JStr (issued_at a)), (''expiresAt'', JStr (expires_at a))] @
      entry_option ''revokedAt'' (revoked_at a))"

definition command_json :: "authority \<Rightarrow> revision \<Rightarrow> json" where
  "command_json a r = JObj [(''format'', JStr ''selene-design-revision-command/v2''),
     (''authority'', authority_json a), (''revision'', revision_json r)]"

definition authority_ok :: "authority \<Rightarrow> bool" where
  "authority_ok a \<longleftrightarrow>
     list_all identifier_ok [authority_tenant a, authority_project a, actor_id a, command_id a,
       authority_policy a, authority_revision a, authority_grant a, authority_issuer a, authority_audience a] \<and>
     list_all positive [authority_policy_revision a, authority_epoch a, authority_schema a] \<and>
     digest_ok (authority_policy_digest a) \<and> digest_ok (authority_commands a) \<and>
     tuple_binding_ok (authority_binding a) \<and> commitment_ok (authority_commitment a) \<and>
     capabilities_ok (authority_capabilities a) \<and> time_ok (issued_at a) \<and> time_ok (expires_at a) \<and>
     issued_at a < expires_at a \<and> option_ok time_ok (revoked_at a)"

lemma authority_size:
  assumes "authority_ok a"
  shows "json_nodes (authority_json a) \<le> 50" "json_bytes (authority_json a) \<le> 26000"
    "2 \<le> n \<Longrightarrow> well_shaped n (authority_json a)"
proof -
  have len: "utf8_length (authority_tenant a) \<le> 256" "utf8_length (authority_project a) \<le> 256"
      "utf8_length (actor_id a) \<le> 256" "utf8_length (command_id a) \<le> 256"
      "utf8_length (authority_policy a) \<le> 256" "utf8_length (authority_revision a) \<le> 256"
      "utf8_length (authority_grant a) \<le> 256" "utf8_length (authority_issuer a) \<le> 256"
      "utf8_length (authority_audience a) \<le> 256" "utf8_length (authority_policy_digest a) \<le> 128"
      "utf8_length (authority_commands a) \<le> 128" "utf8_length (authority_binding a) \<le> 4096"
      "utf8_length (authority_commitment a) \<le> 16384" "utf8_length (issued_at a) \<le> 128"
      "utf8_length (expires_at a) \<le> 128" "option_ok (\<lambda>s. utf8_length s \<le> 128) (revoked_at a)"
      "capabilities_ok (authority_capabilities a)"
    using assms scalar_lengths by (auto simp: authority_ok_def option_ok_def split: option.splits)
  note c = capabilities_size [OF len(17)]
  show "json_nodes (authority_json a) \<le> 50" using c(1)
    by (cases "revoked_at a") (simp_all add: authority_json_def)
  show "json_bytes (authority_json a) \<le> 26000" using c(2) len(1-16)
    by (cases "revoked_at a") (simp_all add: authority_json_def option_ok_def)
  show "2 \<le> n \<Longrightarrow> well_shaped n (authority_json a)" using c(3)
    by (cases "revoked_at a") (simp_all add: authority_json_def max_commands_def)
qed

lemma authority_roundtrip:
  assumes ok: "authority_ok a"
  shows "parse_authority (authority_json a) = Inr a"
proof -
  have snap: "snapshot_value (authority_json a) = Inr (authority_json a)"
    using authority_size [OF ok] by (intro snapshot_fits) (simp_all add: limits)
  have rej: "snapshot_rejecting (authority_json a) ''selene-design-revision-authority/v1'' = Inr (authority_json a)"
    unfolding snapshot_rejecting_def snap by (simp add: authority_json_def)
  define kvs where "kvs = (case authority_json a of JObj kvs \<Rightarrow> kvs | _ \<Rightarrow> [])"
  have js: "authority_json a = JObj kvs" by (simp add: kvs_def authority_json_def)
  have keys: "exact (JObj kvs) authority_keys [''revokedAt''] = Inr kvs"
    by (cases "revoked_at a") (simp_all add: kvs_def authority_json_def exact_eq authority_keys_def)
  have f: "field kvs ''format'' = JStr ''selene-design-revision-authority/v2''"
      "field kvs ''issuedAt'' = JStr (issued_at a)" "field kvs ''expiresAt'' = JStr (expires_at a)"
      "field kvs ''tenantId'' = JStr (authority_tenant a)" "field kvs ''projectId'' = JStr (authority_project a)"
      "field kvs ''actorId'' = JStr (actor_id a)" "field kvs ''commandId'' = JStr (command_id a)"
      "field kvs ''policyId'' = JStr (authority_policy a)"
      "field kvs ''policyRevision'' = JNum (authority_policy_revision a)"
      "field kvs ''policyDigest'' = JStr (authority_policy_digest a)"
      "field kvs ''revisionId'' = JStr (authority_revision a)"
      "field kvs ''tupleBinding'' = JStr (authority_binding a)"
      "field kvs ''revisionCommitment'' = JStr (authority_commitment a)"
      "field kvs ''capabilities'' = capabilities_json (authority_capabilities a)"
      "field kvs ''grantId'' = JStr (authority_grant a)" "field kvs ''grantEpoch'' = JNum (authority_epoch a)"
      "field kvs ''issuer'' = JStr (authority_issuer a)" "field kvs ''audience'' = JStr (authority_audience a)"
      "field kvs ''schemaRevision'' = JNum (authority_schema a)"
      "field kvs ''commandsDigest'' = JStr (authority_commands a)"
      "field kvs ''revokedAt'' = (case revoked_at a of None \<Rightarrow> JOther NonObject | Some t \<Rightarrow> JStr t)"
    by (cases "revoked_at a"; simp add: kvs_def authority_json_def)+
  have revoked: "optional_field instant (case revoked_at a of None \<Rightarrow> JOther NonObject | Some t \<Rightarrow> JStr t) =
      Inr (revoked_at a)"
    using ok by (cases "revoked_at a") (simp_all add: authority_ok_def option_ok_def instant_def time_ok_def)
  have window: "\<not> expires_at a \<le> issued_at a" using ok leD by (auto simp: authority_ok_def)
  show ?thesis
    unfolding parse_authority_def rej andThen_Inr unfolding js keys andThen_Inr f
    using ok window capabilities_roundtrip [of "authority_capabilities a"]
    by (simp add: revoked [unfolded instant_def] authority_ok_def text_value_def tuple_binding_def revision_commitment_def digest_def
        instant_def time_ok_def positive_def integer_JNum)
qed

lemma command_roundtrip:
  assumes a: "authority_ok a" and r: "revision_ok r" and now: "time_ok now"
  shows "commit_command s (command_json a r, now) = commit_parsed s a r now"
proof -
  have snap: "snapshot_value (command_json a r) = Inr (command_json a r)"
    using authority_size [OF a] revision_size [OF r]
    by (intro snapshot_fits) (simp_all add: command_json_def limits)
  show ?thesis
    unfolding commit_command_def fst_conv snd_conv snap andThen_Inr
    using now authority_roundtrip [OF a] revision_roundtrip [OF r]
    by (simp add: command_json_def exact_eq instant_def time_ok_def)
qed


section \<open>Lengths of printed text\<close>

definition printable :: "char \<Rightarrow> bool" where
  "printable c \<longleftrightarrow> 32 \<le> code_unit c \<and> c \<noteq> CHR 0x22 \<and> c \<noteq> CHR 0x5C"

definition readable :: "char \<Rightarrow> bool" where
  "readable c \<longleftrightarrow> 32 \<le> code_unit c"

lemma escape_printable: "printable c \<Longrightarrow> escape_char c = [c]"
  by (auto simp: printable_def escape_char_def)

lemma quote_printable: "list_all printable s \<Longrightarrow> quote_text s = CHR 0x22 # s @ [CHR 0x22]"
proof -
  have "list_all printable s \<Longrightarrow> concat (map escape_char s) = s"
    by (induction s) (simp_all add: escape_printable)
  then show "list_all printable s \<Longrightarrow> quote_text s = CHR 0x22 # s @ [CHR 0x22]"
    by (simp add: quote_text_def)
qed

lemma escape_readable: "readable c \<Longrightarrow> length (escape_char c) \<le> 2 \<and> list_all readable (escape_char c)"
  by (auto simp: readable_def escape_char_def)

lemma quote_readable:
  "list_all readable s \<Longrightarrow> length (quote_text s) \<le> 2 * length s + 2 \<and> list_all readable (quote_text s)"
proof -
  have "list_all readable s \<Longrightarrow> length (concat (map escape_char s)) \<le> 2 * length s \<and>
      list_all readable (concat (map escape_char s))"
    by (induction s) (auto dest!: escape_readable)
  then show "list_all readable s \<Longrightarrow> length (quote_text s) \<le> 2 * length s + 2 \<and> list_all readable (quote_text s)"
    by (auto simp: quote_text_def readable_def)
qed

text \<open>Scalars are printable.\<close>

lemma identifier_printable: "identifier_ok s \<Longrightarrow> list_all printable s \<and> length s \<le> 128"
  by (cases s)
    (auto simp: identifier_ok_def list_all_iff is_letter_def is_lower_def is_upper_def is_digit_def is_id_char_def
      printable_def)

lemma digest_printable: "digest_ok s \<Longrightarrow> list_all printable s \<and> length s = 64"
  by (auto simp: digest_ok_def list_all_iff is_lower_hex_def is_digit_def printable_def)

lemma quote_identifier: "identifier_ok s \<Longrightarrow> length (quote_text s) \<le> 130"
  using identifier_printable [of s] by (simp add: quote_printable)

lemma quote_digest: "digest_ok s \<Longrightarrow> length (quote_text s) = 66"
  using digest_printable [of s] by (simp add: quote_printable)

lemma printable_readable: "printable c \<Longrightarrow> readable c"
  by (simp add: printable_def readable_def)

lemma quote_printable_readable: "list_all printable s \<Longrightarrow> list_all readable (quote_text s)"
  using quote_readable [of s] printable_readable by (auto simp: list_all_iff)

text \<open>The text of every tuple fits its bound.\<close>

lemma tuple_text_fits:
  assumes ok: "tuple_ok t"
  shows "tuple_binding_ok (stringify (tuple_row t))" "list_all readable (stringify (tuple_row t))"
proof -
  have q: "length (quote_text (source_digest t)) = 66" "length (quote_text (graph_digest t)) = 66"
      "length (quote_text (binding_digest t)) = 66" "length (quote_text (command_log_digest t)) = 66"
      "length (quote_text (design_system_lock_digest t)) = 66" "length (quote_text (preview_build_id t)) \<le> 130"
      "length (quote_text (preview_digest t)) = 66" "length (quote_text (compiler_id t)) \<le> 130"
      "length (quote_text (compiler_digest t)) = 66"
    using ok quote_identifier quote_digest by (simp_all add: tuple_ok_def)
  have rd: "list_all readable (quote_text (source_digest t))" "list_all readable (quote_text (graph_digest t))"
      "list_all readable (quote_text (binding_digest t))" "list_all readable (quote_text (command_log_digest t))"
      "list_all readable (quote_text (design_system_lock_digest t))" "list_all readable (quote_text (preview_build_id t))"
      "list_all readable (quote_text (preview_digest t))" "list_all readable (quote_text (compiler_id t))"
      "list_all readable (quote_text (compiler_digest t))"
    using ok quote_printable_readable identifier_printable digest_printable by (simp_all add: tuple_ok_def)
  have tag: "quote_text ''selene-design-revision-tuple-binding/v1'' = ''\"selene-design-revision-tuple-binding/v1\"''"
      "quote_text ''unpublished'' = ''\"unpublished\"''" "quote_text ''deployed'' = ''\"deployed\"''"
    by (simp_all add: quote_printable printable_def)
  have dep: "length (js_join '','' (map stringify (deployment_row (tuple_deployment t)))) \<le> 250 \<and>
      list_all readable (js_join '','' (map stringify (deployment_row (tuple_deployment t))))"
    using ok quote_identifier quote_digest quote_printable_readable identifier_printable digest_printable
    by (cases "tuple_deployment t") (fastforce simp: tuple_ok_def tag readable_def)+
  show "tuple_binding_ok (stringify (tuple_row t))" "list_all readable (stringify (tuple_row t))"
    using q rd dep by (cases "tuple_deployment t"; simp add: tuple_row_def tuple_binding_ok_def tag starts_with_def readable_def)+
qed

end
