(* ===== verification/Design_Sample.thy ===== *)
theory Design_Sample
  imports Design_Fixture
begin

text \<open>
  A concrete project: its first revision, the revision that tombstones it, and the states before
  and after them.  The audit of the second revision names another tombstone digest than the one
  its privacy record commits to.
\<close>

section \<open>Data\<close>

definition digest_a :: string where "digest_a = replicate 64 CHR ''a''"
definition digest_b :: string where "digest_b = replicate 64 CHR ''b''"

definition time_1 :: string where "time_1 = ''2024-01-01T00:00:00.000Z''"
definition time_2 :: string where "time_2 = ''2024-02-01T00:00:00.000Z''"
definition time_3 :: string where "time_3 = ''2030-01-01T00:00:00.000Z''"

definition sample_tuple :: revision_tuple where
  "sample_tuple = \<lparr>source_digest = digest_a, graph_digest = digest_a, binding_digest = digest_a,
     command_log_digest = digest_a, design_system_lock_digest = digest_a,
     tuple_deployment = Unpublished ''draft'' digest_a, preview_build_id = ''build'',
     preview_digest = digest_a, compiler_id = ''compiler'', compiler_digest = digest_a\<rparr>"

definition sample_privacy :: privacy where
  "sample_privacy = \<lparr>privacy_class = Internal, content_digest = digest_a, prompt_digest = None,
     privacy_lifecycle = Active, lifecycle_audit = None, privacy_fields = [], delete_after = time_3,
     tombstone_digest = digest_a, export_policy_digest = digest_a, audit_id = ''audit'',
     exclusions = required_exclusions, privacy_telemetry = TelemetryDisabled\<rparr>"

text \<open>A revision with the bindings that the parser computes for it.\<close>

definition seal :: "revision \<Rightarrow> revision" where
  "seal r = (let b = stringify (tuple_row (revision_tuple r)); r' = r\<lparr>revision_binding := b\<rparr> in
     r'\<lparr>commitment := stringify (commitment_row r' (stringify (privacy_row (revision_privacy r))))\<rparr>)"

definition revision_1 :: revision where
  "revision_1 = seal \<lparr>revision_tenant = ''tenant'', revision_project = ''project'',
     revision_name = ''r1'', parent_revision = None, revision_sequence = 1, created_at = time_1,
     revision_tuple = sample_tuple, revision_binding = [], revision_privacy = sample_privacy,
     commitment = []\<rparr>"

definition sample_binding :: string where "sample_binding = stringify (tuple_row sample_tuple)"
definition sample_policy_text :: string where "sample_policy_text = stringify (privacy_row sample_privacy)"

definition sample_audit :: privacy_transition where
  "sample_audit = \<lparr>transition_from = Active, transition_to = Tombstoned, occurred_at = time_2,
     transition_audit_id = ''audit'', prior_revision_id = Some ''r1'',
     prior_tuple_binding = Some sample_binding, prior_privacy_binding = Some sample_policy_text,
     transition_tombstone = Some digest_b\<rparr>"

definition tombstoned_privacy :: privacy where
  "tombstoned_privacy = sample_privacy\<lparr>privacy_lifecycle := Tombstoned, lifecycle_audit := Some sample_audit\<rparr>"

definition revision_2 :: revision where
  "revision_2 = seal \<lparr>revision_tenant = ''tenant'', revision_project = ''project'',
     revision_name = ''r2'', parent_revision = Some ''r1'', revision_sequence = 2, created_at = time_2,
     revision_tuple = sample_tuple, revision_binding = [], revision_privacy = tombstoned_privacy,
     commitment = []\<rparr>"

definition sample_authority :: "string \<Rightarrow> revision \<Rightarrow> authority" where
  "sample_authority command r = \<lparr>authority_tenant = ''tenant'', authority_project = ''project'',
     actor_id = ''actor'', command_id = command, authority_policy = ''policy'',
     authority_policy_revision = 1, authority_policy_digest = digest_a,
     authority_revision = revision_name r, authority_binding = revision_binding r,
     authority_commitment = commitment r,
     authority_capabilities = [CommitCapability, PreviewCapability], authority_grant = ''grant'',
     authority_epoch = 1, authority_issuer = ''issuer'', authority_audience = ''audience'',
     authority_schema = 1, authority_commands = digest_a, issued_at = time_1, expires_at = time_3,
     revoked_at = None\<rparr>"

definition state_0 :: revision_state where
  "state_0 = \<lparr>state_tenant = ''tenant'', state_project = ''project'',
     state_policy = \<lparr>policy_tenant = ''tenant'', policy_project = ''project'', policy_id = ''policy'',
       policy_revision = 1, policy_digest = digest_a,
       policy_capabilities = [CommitCapability, PreviewCapability],
       policy_anchor = \<lparr>anchor_issuer = ''issuer'', anchor_audience = ''audience'', anchor_grant = ''grant'',
         anchor_schema = 1, anchor_commands = digest_a\<rparr>\<rparr>,
     state_grant = \<lparr>status_grant = ''grant'', status_epoch = 1, status_state = GrantActive\<rparr>,
     processed_commands = [], state_head = None\<rparr>"

definition state_1 :: revision_state where
  "state_1 = state_0\<lparr>processed_commands := [''c1''], state_head := Some (head_of revision_1 sample_policy_text)\<rparr>"

definition state_2 :: revision_state where
  "state_2 = state_1\<lparr>processed_commands := [''c1'', ''c2''],
     state_head := Some (head_of revision_2 sample_policy_text)\<rparr>"

definition command_1 :: "json \<times> string" where
  "command_1 = (command_json (sample_authority ''c1'' revision_1) revision_1, time_1)"

definition command_2 :: "json \<times> string" where
  "command_2 = (command_json (sample_authority ''c2'' revision_2) revision_2, time_2)"

section \<open>Checks\<close>

lemma sample_digests [simp]: "digest_ok digest_a" "digest_ok digest_b" "digest_a \<noteq> digest_b"
  by (simp_all add: digest_ok_def digest_a_def digest_b_def is_lower_hex_def is_digit_def list_all_iff)

lemma sample_ids [simp]:
  "identifier_ok ''tenant''" "identifier_ok ''project''" "identifier_ok ''r1''" "identifier_ok ''r2''"
  "identifier_ok ''audit''" "identifier_ok ''draft''" "identifier_ok ''build''" "identifier_ok ''compiler''"
  "identifier_ok ''actor''" "identifier_ok ''policy''" "identifier_ok ''grant''" "identifier_ok ''issuer''"
  "identifier_ok ''audience''" "identifier_ok ''c1''" "identifier_ok ''c2''"
  by (simp_all add: identifier_ok_def is_letter_def is_lower_def is_upper_def is_digit_def is_id_char_def)

lemma sample_times [simp]: "time_ok time_1" "time_ok time_2" "time_ok time_3"
  by (simp_all add: time_ok_def time_1_def time_2_def time_3_def is_instant_def plain_instant_def clock_ok_def
      fits_def plain_template_def clock_template_def clock_fields_def number_of_def digit_of_def is_digit_def
      days_in_month_def leap_year_def numeral_eq_Suc)

lemma sample_order [simp]:
  "time_1 < time_2" "time_2 < time_3" "time_1 < time_3" "time_1 \<le> time_2" "time_2 \<le> time_3" "time_1 \<le> time_3"
  "\<not> time_2 < time_1" "\<not> time_3 < time_1" "\<not> time_3 < time_2" "\<not> time_3 \<le> time_1" "\<not> time_3 \<le> time_2"
  "\<not> time_2 \<le> time_1"
  by (simp_all add: time_1_def time_2_def time_3_def)

lemma sample_tuple_ok [simp]: "tuple_ok sample_tuple"
  by (simp add: sample_tuple_def tuple_ok_def)

lemma required_sorted: "sorted required_exclusions" "distinct required_exclusions"
  "list_all identifier_ok required_exclusions"
  by (simp_all add: required_exclusions_def identifier_ok_def is_letter_def is_lower_def is_upper_def
      is_digit_def is_id_char_def)


lemma sample_privacy_ok [simp]: "privacy_ok sample_privacy"
  using required_sorted
  by (simp add: sample_privacy_def privacy_ok_def option_ok_def audit_fits_def)

text \<open>The text of the privacy record: printable parts only.\<close>

lemma digest_quote: "quote_text digest_a = CHR 0x22 # digest_a @ [CHR 0x22]"
  using digest_printable [OF sample_digests(1)] by (simp add: quote_printable)

lemma quote_length_printable: "list_all printable s \<Longrightarrow> length (quote_text s) = length s + 2"
  by (simp add: quote_printable)

lemma exclusions_text:
  "length (js_join '','' (map stringify (map JStr required_exclusions))) \<le> 200"
  "list_all readable (js_join '','' (map stringify (map JStr required_exclusions)))"
  by (simp_all add: required_exclusions_def quote_printable printable_def readable_def)

lemma sample_policy_facts:
  "length sample_policy_text \<le> 900" "list_all readable sample_policy_text"
  "starts_with sample_policy_text ''[\"selene-design-revision-privacy-binding/v2\",''"
proof -
  have d: "length digest_a = 64" "list_all readable digest_a"
    by (simp_all add: digest_a_def readable_def list_all_iff)
  have t: "time_3 = ''2030-01-01T00:00:00.000Z''" by (fact time_3_def)
  show "length sample_policy_text \<le> 900" "list_all readable sample_policy_text"
    "starts_with sample_policy_text ''[\"selene-design-revision-privacy-binding/v2\",''"
    using d exclusions_text
    by (simp_all add: sample_policy_text_def privacy_row_def sample_privacy_def json_option_def digest_quote t
        quote_printable printable_def readable_def starts_with_def)
qed

lemma sample_policy_binding [simp]: "privacy_binding_of sample_privacy = Inr sample_policy_text"
  using sample_policy_facts
  by (auto simp: privacy_binding_of_Inr sample_policy_text_def privacy_binding_ok_def)


lemma sample_binding_facts:
  "length sample_binding \<le> 800" "list_all readable sample_binding" "tuple_binding_ok sample_binding"
  "tuple_binding_of sample_tuple = Inr sample_binding"
proof -
  have d: "length digest_a = 64" by (simp add: digest_a_def)
  show "length sample_binding \<le> 800"
    by (simp add: sample_binding_def tuple_row_def sample_tuple_def digest_quote quote_printable printable_def d)
  show "list_all readable sample_binding" "tuple_binding_ok sample_binding"
    "tuple_binding_of sample_tuple = Inr sample_binding"
    using tuple_text_fits [OF sample_tuple_ok] by (simp_all add: sample_binding_def tuple_binding_of_Inr)
qed

lemma same_policy_row: "privacy_row tombstoned_privacy = privacy_row sample_privacy"
  by (simp add: privacy_row_eq same_policy_def tombstoned_privacy_def sample_privacy_def)

lemma tombstoned_binding [simp]: "privacy_binding_of tombstoned_privacy = Inr sample_policy_text"
  using sample_policy_binding by (simp add: privacy_binding_of_def same_policy_row)

lemma sample_audit_ok: "transition_ok sample_audit"
  using sample_binding_facts(3) sample_policy_facts privacy_binding_of_ok [OF sample_policy_binding]
  by (simp add: sample_audit_def transition_ok_def option_ok_def)

lemma tombstoned_privacy_ok [simp]: "privacy_ok tombstoned_privacy"
  using sample_privacy_ok sample_audit_ok
  by (simp add: tombstoned_privacy_def sample_privacy_def privacy_ok_def option_ok_def audit_fits_def sample_audit_def)

lemma quote_bounds:
  "length (quote_text sample_binding) \<le> 1602" "length (quote_text sample_policy_text) \<le> 1802"
  using quote_readable [OF sample_binding_facts(2)] quote_readable [OF sample_policy_facts(2)]
    sample_binding_facts(1) sample_policy_facts(1) by simp_all

lemma quote_constants:
  "length (quote_text time_1) = 26" "length (quote_text time_2) = 26" "length (quote_text digest_b) = 66"
  using quote_digest [OF sample_digests(2)]
  by (simp_all add: time_1_def time_2_def quote_printable printable_def)

lemma sample_seal:
  assumes "revision_tuple r = sample_tuple" "privacy_binding_of (revision_privacy r) = Inr p"
    and "commitment_ok (stringify (commitment_row (r\<lparr>revision_binding := sample_binding\<rparr>) p))"
  shows "sealed (seal r)"
proof -
  have same: "stringify (privacy_row (revision_privacy r)) = p"
    using assms(2) by (simp add: privacy_binding_of_Inr)
  have "seal r = r\<lparr>revision_binding := sample_binding,
      commitment := stringify (commitment_row (r\<lparr>revision_binding := sample_binding\<rparr>) p)\<rparr>"
    unfolding seal_def Let_def assms(1) same sample_binding_def [symmetric] by simp
  then show ?thesis using assms sample_binding_facts(4)
    by (auto simp: sealed_def commitment_of_Inr)
qed

lemma revision_1_sealed: "sealed revision_1"
  unfolding revision_1_def
proof (rule sample_seal)
  show "commitment_ok (stringify (commitment_row (\<lparr>revision_tenant = ''tenant'', revision_project = ''project'',
     revision_name = ''r1'', parent_revision = None, revision_sequence = 1, created_at = time_1,
     revision_tuple = sample_tuple, revision_binding = [], revision_privacy = sample_privacy,
     commitment = []\<rparr>\<lparr>revision_binding := sample_binding\<rparr>) sample_policy_text))"
    using quote_bounds quote_constants
    by (simp add: commitment_row_def commitment_ok_def json_option_def transition_row_def sample_privacy_def
        quote_printable [of "''selene-design-revision-commitment/v1''"] quote_length_printable printable_def
        starts_with_def int_text_def nat_text.simps)
qed simp_all

lemma revision_2_sealed: "sealed revision_2"
  unfolding revision_2_def
proof (rule sample_seal)
  show "commitment_ok (stringify (commitment_row (\<lparr>revision_tenant = ''tenant'', revision_project = ''project'',
     revision_name = ''r2'', parent_revision = Some ''r1'', revision_sequence = 2, created_at = time_2,
     revision_tuple = sample_tuple, revision_binding = [], revision_privacy = tombstoned_privacy,
     commitment = []\<rparr>\<lparr>revision_binding := sample_binding\<rparr>) sample_policy_text))"
    using quote_bounds quote_constants
    by (simp add: commitment_row_def commitment_ok_def json_option_def transition_row_def tombstoned_privacy_def
        sample_privacy_def sample_audit_def
        quote_printable [of "''selene-design-revision-commitment/v1''"] quote_length_printable printable_def
        starts_with_def int_text_def nat_text.simps)
qed simp_all

lemma seal_fields [simp]:
  "revision_tenant (seal r) = revision_tenant r" "revision_project (seal r) = revision_project r"
  "revision_name (seal r) = revision_name r" "parent_revision (seal r) = parent_revision r"
  "revision_sequence (seal r) = revision_sequence r" "created_at (seal r) = created_at r"
  "revision_tuple (seal r) = revision_tuple r" "revision_privacy (seal r) = revision_privacy r"
  "revision_binding (seal r) = stringify (tuple_row (revision_tuple r))"
  by (simp_all add: seal_def Let_def)

lemma revision_1_ok: "revision_ok revision_1"
  using revision_1_sealed by (simp add: revision_ok_def option_ok_def revision_1_def max_safe_integer_def)

lemma revision_2_ok: "revision_ok revision_2"
  using revision_2_sealed by (simp add: revision_ok_def option_ok_def revision_2_def max_safe_integer_def)

lemma sample_authority_ok:
  assumes "revision_ok r" "identifier_ok c"
  shows "authority_ok (sample_authority c r)"
proof -
  have "sealed r" using assms(1) by (simp add: revision_ok_def)
  then show ?thesis using assms sealed_bindings [of r]
    by (simp add: sample_authority_def authority_ok_def capabilities_ok_def positive_def max_safe_integer_def
        option_ok_def revision_ok_def)
qed

section \<open>The accepted commits\<close>

lemma commit_1: "commit_command state_0 command_1 = Inr state_1"
proof -
  have ok: "authority_ok (sample_authority ''c1'' revision_1)"
    using revision_1_ok by (rule sample_authority_ok) simp
  show ?thesis
    unfolding command_1_def command_roundtrip [OF ok revision_1_ok sample_times(1)] commit_parsed_Inr
    by (simp add: commit_allowed_def first_revision_def state_0_def state_1_def sample_authority_def
        foreign_grant_def outside_window_def max_commands_def revision_1_def sample_privacy_def
        sample_policy_binding [unfolded sample_privacy_def])
qed

lemma commit_2: "commit_command state_1 command_2 = Inr state_2"
proof -
  have ok: "authority_ok (sample_authority ''c2'' revision_2)"
    using revision_2_ok by (rule sample_authority_ok) simp
  have allowed: "commit_allowed state_1 (sample_authority ''c2'' revision_2) revision_2 time_2"
    by (simp add: commit_allowed_def state_0_def state_1_def sample_authority_def foreign_grant_def
        outside_window_def revision_2_def tombstoned_privacy_def sample_privacy_def)
  have binding: "privacy_binding_of (revision_privacy revision_2) = Inr sample_policy_text"
    by (simp add: revision_2_def)
  have step: "next_revision (head_of revision_1 sample_policy_text) revision_2 sample_policy_text time_2"
    by (simp add: next_revision_def lifecycle_step_ok_def head_of_def revision_1_def revision_2_def
        tombstoned_privacy_def sample_privacy_def sample_audit_def sample_binding_def
        less_lifecycle_def less_eq_lifecycle_def)
  show ?thesis
    unfolding command_2_def command_roundtrip [OF ok revision_2_ok sample_times(2)] commit_parsed_Inr
    using allowed binding step
    by (simp add: state_1_def state_2_def sample_authority_def max_commands_def)
qed

lemma sample_states_ok: "state_ok state_0" "state_ok state_1" "state_ok state_2"
proof -
  show "state_ok state_0"
    by (simp add: state_ok_def state_0_def policy_ok_def grant_ok_def anchor_ok_def capabilities_ok_def positive_def
        max_safe_integer_def option_ok_def max_commands_def)
  then show "state_ok state_1" using commit_1 commit_keeps_ok by blast
  then show "state_ok state_2" using commit_2 commit_keeps_ok by blast
qed

end
