(* ===== verification/Design_Exchange.thy ===== *)
theory Design_Exchange
  imports Design_Sample
begin

text \<open>
  The objects that hosts exchange with the contracts of \<open>packages/core/src/design-revision.ts\<close>
  (offered capabilities, negotiation expectations, export host states and verification answers),
  and that each parses back to the record it was printed from.
\<close>

section \<open>Negotiation\<close>

definition host_json :: "host_capabilities \<Rightarrow> json" where
  "host_json h = JObj
     ([(''format'', JStr ''selene-design-revision-host-capabilities/v2''),
       (''issuer'', JStr (host_issuer h)), (''audience'', JStr (host_audience h)),
       (''tenantId'', JStr (host_tenant h)), (''projectId'', JStr (host_project h)),
       (''grantId'', JStr (host_grant h)), (''grantEpoch'', JNum (host_epoch h)),
       (''schemaRevision'', JNum (host_schema h)), (''commandsDigest'', JStr (host_commands h)),
       (''revisionId'', JStr (host_revision h)), (''tupleBinding'', JStr (host_binding h)),
       (''revisionCommitment'', JStr (host_commitment h)),
       (''policyRevision'', JNum (host_policy_revision h)), (''issuedAt'', JStr (host_issued h)),
       (''expiresAt'', JStr (host_expires h))] @
      entry_option ''revokedAt'' (host_revoked h) @
      [(''capabilities'', capabilities_json (host_offers h))])"

definition expectation_json :: "host_expectation \<Rightarrow> json" where
  "expectation_json e = JObj
     [(''format'', JStr ''selene-design-revision-host-negotiation-expectation/v2''),
      (''tenantId'', JStr (expected_tenant e)), (''projectId'', JStr (expected_project e)),
      (''trustAnchor'', anchor_json (expected_anchor e)), (''grantStatus'', grant_json (expected_grant e)),
      (''policyRevision'', JNum (expected_policy_revision e)), (''revisionId'', JStr (expected_revision e)),
      (''tupleBinding'', JStr (expected_binding e)), (''revisionCommitment'', JStr (expected_commitment e)),
      (''capabilities'', capabilities_json (expected_capabilities e))]"

definition host_ok :: "host_capabilities \<Rightarrow> bool" where
  "host_ok h \<longleftrightarrow>
     list_all identifier_ok [host_issuer h, host_audience h, host_tenant h, host_project h, host_grant h,
       host_revision h] \<and>
     list_all positive [host_epoch h, host_schema h, host_policy_revision h] \<and> digest_ok (host_commands h) \<and>
     tuple_binding_ok (host_binding h) \<and> commitment_ok (host_commitment h) \<and> time_ok (host_issued h) \<and>
     time_ok (host_expires h) \<and> host_issued h < host_expires h \<and> option_ok time_ok (host_revoked h) \<and>
     capabilities_ok (host_offers h)"

definition expectation_ok :: "host_expectation \<Rightarrow> bool" where
  "expectation_ok e \<longleftrightarrow>
     list_all identifier_ok [expected_tenant e, expected_project e, expected_revision e] \<and>
     positive (expected_policy_revision e) \<and> anchor_ok (expected_anchor e) \<and> grant_ok (expected_grant e) \<and>
     tuple_binding_ok (expected_binding e) \<and> commitment_ok (expected_commitment e) \<and>
     capabilities_ok (expected_capabilities e)"

lemma host_size:
  assumes "host_ok h"
  shows "json_nodes (host_json h) \<le> 50" "json_bytes (host_json h) \<le> 26000"
    "2 \<le> n \<Longrightarrow> well_shaped n (host_json h)"
proof -
  have len: "utf8_length (host_issuer h) \<le> 256" "utf8_length (host_audience h) \<le> 256"
      "utf8_length (host_tenant h) \<le> 256" "utf8_length (host_project h) \<le> 256"
      "utf8_length (host_grant h) \<le> 256" "utf8_length (host_revision h) \<le> 256"
      "utf8_length (host_commands h) \<le> 128" "utf8_length (host_binding h) \<le> 4096"
      "utf8_length (host_commitment h) \<le> 16384" "utf8_length (host_issued h) \<le> 128"
      "utf8_length (host_expires h) \<le> 128" "option_ok (\<lambda>s. utf8_length s \<le> 128) (host_revoked h)"
      "capabilities_ok (host_offers h)"
    using assms scalar_lengths by (auto simp: host_ok_def option_ok_def split: option.splits)
  note c = capabilities_size [OF len(13)]
  show "json_nodes (host_json h) \<le> 50" using c(1)
    by (cases "host_revoked h") (simp_all add: host_json_def)
  show "json_bytes (host_json h) \<le> 26000" using c(2) len(1-12)
    by (cases "host_revoked h") (simp_all add: host_json_def option_ok_def)
  show "2 \<le> n \<Longrightarrow> well_shaped n (host_json h)" using c(3)
    by (cases "host_revoked h") (simp_all add: host_json_def max_commands_def)
qed

lemma host_roundtrip:
  assumes ok: "host_ok h"
  shows "parse_host_capabilities (host_json h) = Inr h"
proof -
  have snap: "snapshot_value (host_json h) = Inr (host_json h)"
    using host_size [OF ok] by (intro snapshot_fits) (simp_all add: limits)
  have rej: "snapshot_rejecting (host_json h) ''selene-design-revision-host-capabilities/v1'' = Inr (host_json h)"
    unfolding snapshot_rejecting_def snap by (simp add: host_json_def)
  define kvs where "kvs = (case host_json h of JObj kvs \<Rightarrow> kvs | _ \<Rightarrow> [])"
  have js: "host_json h = JObj kvs" by (simp add: kvs_def host_json_def)
  have keys: "exact (JObj kvs) host_keys [''revokedAt''] = Inr kvs"
    by (cases "host_revoked h") (simp_all add: kvs_def host_json_def exact_eq host_keys_def)
  have f: "field kvs ''format'' = JStr ''selene-design-revision-host-capabilities/v2''"
      "field kvs ''issuer'' = JStr (host_issuer h)" "field kvs ''audience'' = JStr (host_audience h)"
      "field kvs ''tenantId'' = JStr (host_tenant h)" "field kvs ''projectId'' = JStr (host_project h)"
      "field kvs ''grantId'' = JStr (host_grant h)" "field kvs ''grantEpoch'' = JNum (host_epoch h)"
      "field kvs ''schemaRevision'' = JNum (host_schema h)" "field kvs ''commandsDigest'' = JStr (host_commands h)"
      "field kvs ''revisionId'' = JStr (host_revision h)" "field kvs ''tupleBinding'' = JStr (host_binding h)"
      "field kvs ''revisionCommitment'' = JStr (host_commitment h)"
      "field kvs ''policyRevision'' = JNum (host_policy_revision h)"
      "field kvs ''issuedAt'' = JStr (host_issued h)" "field kvs ''expiresAt'' = JStr (host_expires h)"
      "field kvs ''capabilities'' = capabilities_json (host_offers h)"
      "field kvs ''revokedAt'' = (case host_revoked h of None \<Rightarrow> JOther NonObject | Some t \<Rightarrow> JStr t)"
    by (cases "host_revoked h"; simp add: kvs_def host_json_def)+
  have revoked: "optional_field (string_where (\<lambda>s. length s \<le> 64 \<and> is_instant s))
      (case host_revoked h of None \<Rightarrow> JOther NonObject | Some t \<Rightarrow> JStr t) = Inr (host_revoked h)"
    using ok by (cases "host_revoked h") (simp_all add: host_ok_def option_ok_def time_ok_def)
  have window: "\<not> host_expires h \<le> host_issued h" using ok leD by (auto simp: host_ok_def)
  show ?thesis
    unfolding parse_host_capabilities_def rej andThen_Inr unfolding js keys andThen_Inr f
    using ok window capabilities_roundtrip [of "host_offers h"]
    by (simp add: revoked host_ok_def text_value_def tuple_binding_def revision_commitment_def digest_def
        instant_def time_ok_def positive_def integer_JNum)
qed

lemma expectation_size:
  assumes "expectation_ok e"
  shows "json_nodes (expectation_json e) \<le> 60" "json_bytes (expectation_json e) \<le> 28000"
    "2 \<le> n \<Longrightarrow> well_shaped n (expectation_json e)"
proof -
  have len: "utf8_length (expected_tenant e) \<le> 256" "utf8_length (expected_project e) \<le> 256"
      "utf8_length (expected_revision e) \<le> 256" "utf8_length (expected_binding e) \<le> 4096"
      "utf8_length (expected_commitment e) \<le> 16384"
      and ok: "anchor_ok (expected_anchor e)" "grant_ok (expected_grant e)" "capabilities_ok (expected_capabilities e)"
    using assms scalar_lengths by (simp_all add: expectation_ok_def)
  note a = anchor_size [OF ok(1)] and g = grant_size [OF ok(2)] and c = capabilities_size [OF ok(3)]
  show "json_nodes (expectation_json e) \<le> 60" "json_bytes (expectation_json e) \<le> 28000"
    "2 \<le> n \<Longrightarrow> well_shaped n (expectation_json e)"
    using a g c len by (simp_all add: expectation_json_def max_commands_def)
qed

lemma expectation_roundtrip:
  assumes ok: "expectation_ok e"
  shows "parse_host_expectation (expectation_json e) = Inr e"
proof -
  have snap: "snapshot_value (expectation_json e) = Inr (expectation_json e)"
    using expectation_size [OF ok] by (intro snapshot_fits) (simp_all add: limits)
  have rej: "snapshot_rejecting (expectation_json e) ''selene-design-revision-host-negotiation-expectation/v1'' =
      Inr (expectation_json e)"
    unfolding snapshot_rejecting_def snap by (simp add: expectation_json_def)
  have parts: "parse_trust_anchor (anchor_json (expected_anchor e)) = Inr (expected_anchor e)"
      "parse_grant_status (grant_json (expected_grant e)) = Inr (expected_grant e)"
      "capabilities_of (capabilities_json (expected_capabilities e)) = Inr (expected_capabilities e)"
    using ok anchor_roundtrip grant_roundtrip capabilities_roundtrip by (simp_all add: expectation_ok_def)
  show ?thesis
    unfolding parse_host_expectation_def rej andThen_Inr
    using ok
    by (simp add: parts expectation_json_def exact_eq expectation_keys_def expectation_ok_def text_value_def
        tuple_binding_def revision_commitment_def positive_def integer_JNum)
qed

section \<open>Export\<close>

definition export_grant_json :: "export_grant \<Rightarrow> json" where
  "export_grant_json g = JObj
     ([(''format'', JStr ''selene-design-revision-export-grant-status/v1''),
       (''authorityId'', JStr (export_grant_authority g)), (''epoch'', JNum (export_grant_epoch g))] @
      (case export_grant_state g of GrantActive \<Rightarrow> [(''state'', JStr ''active'')]
       | GrantRevoked at \<Rightarrow> [(''state'', JStr ''revoked''), (''revokedAt'', JStr at)]))"

definition export_host_json :: "export_terms \<Rightarrow> string \<Rightarrow> export_grant \<Rightarrow> json" where
  "export_host_json t b g =
     (case terms_json ''selene-design-revision-export-host-state/v2'' t of
        JObj kvs \<Rightarrow> JObj (kvs @ [(''authorityBinding'', JStr b), (''grantStatus'', export_grant_json g)])
      | v \<Rightarrow> v)"

definition accepted_json :: "json \<Rightarrow> json" where
  "accepted_json commit = JObj [(''kind'', JStr ''accepted''), (''commitment'', commit)]"

definition export_grant_ok :: "export_grant \<Rightarrow> bool" where
  "export_grant_ok g \<longleftrightarrow> identifier_ok (export_grant_authority g) \<and> positive (export_grant_epoch g) \<and>
     (case export_grant_state g of GrantActive \<Rightarrow> True | GrantRevoked at \<Rightarrow> time_ok at)"

lemma export_grant_size:
  assumes "export_grant_ok g"
  shows "json_nodes (export_grant_json g) \<le> 6" "json_bytes (export_grant_json g) \<le> 600"
    "well_shaped n (export_grant_json g) \<longleftrightarrow> n > 0"
  using assms scalar_lengths(1) [of "export_grant_authority g"] scalar_lengths(3)
  by (cases "export_grant_state g"; fastforce simp: export_grant_json_def export_grant_ok_def max_commands_def)+

lemma export_grant_roundtrip:
  assumes "export_grant_ok g"
  shows "parse_export_grant (export_grant_json g) = Inr g"
proof -
  have snap: "snapshot_value (export_grant_json g) = Inr (export_grant_json g)"
    using export_grant_size [OF assms] by (intro snapshot_fits) (simp_all add: limits)
  show ?thesis
    unfolding parse_export_grant_def snap andThen_Inr
    using assms
    by (cases "export_grant_state g")
      (auto simp: export_grant_json_def exact_eq scalar_defs export_grant_ok_def positive_def integer_JNum
        time_ok_def undefined_json_def intro!: export_grant.equality)
qed

definition host_entries :: "export_terms \<Rightarrow> string \<Rightarrow> export_grant \<Rightarrow> (string \<times> json) list" where
  "host_entries t b g = (case export_host_json t b g of JObj kvs \<Rightarrow> kvs | _ \<Rightarrow> [])"

lemma host_entries_json: "export_host_json t b g = JObj (host_entries t b g)"
  by (simp add: host_entries_def export_host_json_def terms_json_def)

lemma export_host_size:
  assumes t: "terms_ok t" and g: "export_grant_ok g" and b: "export_binding_ok b"
  shows "json_nodes (export_host_json t b g) \<le> 40" "json_bytes (export_host_json t b g) \<le> 43000"
    "2 \<le> n \<Longrightarrow> well_shaped n (export_host_json t b g)"
proof -
  note ts = terms_size [OF t, of "''selene-design-revision-export-host-state/v2''"] and gs = export_grant_size [OF g]
  have "utf8_length b \<le> 8192" using b utf8_length_le [of b] by (auto simp: export_binding_ok_def)
  then show "json_nodes (export_host_json t b g) \<le> 40" "json_bytes (export_host_json t b g) \<le> 43000"
    "2 \<le> n \<Longrightarrow> well_shaped n (export_host_json t b g)"
    using ts gs by (simp_all add: export_host_json_def terms_json_def max_commands_def)
qed

lemma export_host_roundtrip:
  assumes t: "terms_ok t" and g: "export_grant_ok g" and b: "export_binding_ok b"
  shows "parse_export_host (export_host_json t b g) =
    Inr (export_terms.extend t \<lparr>host_authority_binding = b, host_export_grant = g\<rparr>)"
proof -
  have snap: "snapshot_value (export_host_json t b g) = Inr (export_host_json t b g)"
    using export_host_size [OF assms] by (intro snapshot_fits) (simp_all add: limits)
  let ?kvs = "host_entries t b g"
  have f: "terms_fields ?kvs t" "field ?kvs ''format'' = JStr ''selene-design-revision-export-host-state/v2''"
      "field ?kvs ''issuedAt'' = JStr (terms_issued t)" "field ?kvs ''expiresAt'' = JStr (terms_expires t)"
      "field ?kvs ''capabilities'' = JArr [JStr ''design:revision.export'']"
      "field ?kvs ''authorityBinding'' = JStr b" "field ?kvs ''grantStatus'' = export_grant_json g"
    by (simp_all add: host_entries_def export_host_json_def terms_json_def terms_fields_def)
  have rej: "snapshot_rejecting (export_host_json t b g) ''selene-design-revision-export-host-state/v1'' =
      Inr (JObj ?kvs)"
    unfolding snapshot_rejecting_def snap by (simp add: host_entries_json f)
  have keys: "exact (JObj ?kvs) (''authorityBinding'' # ''grantStatus'' # export_keys) [] = Inr ?kvs"
    by (simp add: host_entries_def export_host_json_def terms_json_def exact_eq export_keys_def)
  have window: "\<not> terms_expires t \<le> terms_issued t" using t leD by (auto simp: terms_ok_def)
  show ?thesis
    unfolding parse_export_host_def rej andThen_Inr keys
    using parse_terms_fields [OF t f(1)] t b f window export_grant_roundtrip [OF g]
    by (simp add: keys instant_def terms_ok_def time_ok_def export_capabilities_def export_authority_binding_def)
qed

lemma accepted_roundtrip:
  assumes "terms_ok t" "export_grant_ok g" "export_binding_ok b"
  shows "parse_verification (accepted_json (export_host_json t b g)) =
    Inr (VerifiedAccepted (export_terms.extend t \<lparr>host_authority_binding = b, host_export_grant = g\<rparr>))"
proof -
  have snap: "snapshot_value (accepted_json (export_host_json t b g)) = Inr (accepted_json (export_host_json t b g))"
    using export_host_size [OF assms] by (intro snapshot_fits) (simp_all add: limits accepted_json_def)
  have "\<not> undefined_json (export_host_json t b g)" by (simp add: host_entries_json undefined_json_def)
  then show ?thesis
    unfolding parse_verification_def snap andThen_Inr
    using export_host_roundtrip [OF assms]
    by (simp add: accepted_json_def exact_eq undefined_json_def)
qed

text \<open>A host that answers with the terms it issued.\<close>

lemma honest_host:
  assumes r: "revision_ok r" and p: "privacy_binding_of (revision_privacy r) = Inr p" and t: "terms_ok t"
    and now: "time_ok now" and b: "create_export_binding (export_authority_json t) = Inr b"
    and g: "g = \<lparr>export_grant_authority = terms_authority t, export_grant_epoch = terms_epoch t,
      export_grant_state = GrantActive\<rparr>"
    and own: "terms_tenant t = revision_tenant r" "terms_project t = revision_project r"
      "terms_revision t = revision_name r" "terms_binding t = revision_binding r"
      "terms_commitment t = commitment r" "terms_privacy t = p"
      "terms_lifecycle t = privacy_lifecycle (revision_privacy r)"
      "terms_delete_after t = delete_after (revision_privacy r)"
      "terms_export_policy t = export_policy_digest (revision_privacy r)"
      "terms_issued t \<le> now" "now \<le> terms_expires t"
    and eligible: "ineligibility_code r now = None"
  shows "evaluate_export (Some (\<lambda>request. Some (accepted_json (export_host_json t b g)))) (revision_json r)
    (export_authority_json t) now = Eligible (terms_authority t)"
proof -
  have bok: "export_binding_ok b" using b by (auto simp: create_export_binding_Inr)
  have gok: "export_grant_ok g" using t by (simp add: g export_grant_ok_def terms_ok_def)
  have "matches_commitment t (export_terms.extend t \<lparr>host_authority_binding = b, host_export_grant = g\<rparr>) r p b now"
    using own by (simp add: matches_commitment_def export_terms.extend_def g not_less)
  then show ?thesis
    using revision_roundtrip [OF r] export_authority_roundtrip [OF t] now p b accepted_roundtrip [OF t gok bok] eligible
    by (auto simp: evaluate_eligible instant_def time_ok_def)
qed

end
