(* ===== verification/Design_Theorems.thy ===== *)
theory Design_Theorems
  imports Design_Sample
begin

text \<open>
  The properties of the design revision contracts, each with a witness on the sample project.
  The runs are those of the instances \<open>commits\<close> and \<open>persisted\<close> of the run contract.
\<close>

section \<open>Runs\<close>

interpretation persisted: guarded_machine commit_command state_ok
  by unfold_locales (rule commit_keeps_ok)

text \<open>What a host does that stores the returned object and passes it to the next call.\<close>

definition store_step :: "json \<Rightarrow> json \<times> string \<Rightarrow> design_error + json" where
  "store_step v c = andThen (commit_revision v (fst c) (snd c)) (\<lambda>s. Inr (state_json s))"

lemma store_attempt:
  "state_ok s \<Longrightarrow> attempt store_step (state_json s) c = state_json (attempt commit_command s c)"
  by (cases c) (auto simp: attempt_def store_step_def commit_persisted split: sum.splits)

lemma store_attempts:
  "state_ok s \<Longrightarrow> attempts store_step (state_json s) cs = state_json (attempts commit_command s cs)"
  by (induction cs arbitrary: s) (simp_all add: store_attempt persisted.attempt_inv)

lemma attempt_accepted: "step s c = Inr s' \<Longrightarrow> attempt step s c = s'"
  by (simp add: attempt_def)

lemma attempts_stuck: "\<forall>c \<in> set cs. \<exists>e. step s c = Inl e \<Longrightarrow> attempts step s cs = s"
proof (induction cs)
  case (Cons c cs)
  then show ?case by (auto simp: attempt_def)
qed simp

lemma processed_grow:
  assumes "state_ok s"
  shows "set (processed_commands s) \<subseteq> set (processed_commands (attempts commit_command s cs))"
  using commits.attempts_forward [OF state_ok_inv [OF assms], of cs] by (auto simp: state_forward_def)

lemma closed_attempts:
  "state_head s = Some h \<Longrightarrow> Redacted < privacy_lifecycle (head_privacy h) \<Longrightarrow> attempts commit_command s cs = s"
  by (intro attempts_stuck ballI) (rule commit_refused_terminal)

lemma same_binding_deadline:
  assumes "privacy_binding_of p = Inr b" "privacy_binding_of q = Inr b"
  shows "delete_after q = delete_after p"
proof -
  have "q = p\<lparr>privacy_lifecycle := privacy_lifecycle q, lifecycle_audit := lifecycle_audit q\<rparr>"
    using privacy_binding_inject [OF assms] by (simp add: same_policy_def)
  then have "delete_after q = delete_after (p\<lparr>privacy_lifecycle := privacy_lifecycle q, lifecycle_audit := lifecycle_audit q\<rparr>)"
    by (rule arg_cong)
  then show ?thesis by simp
qed

text \<open>The identifier of the command that a call carries.\<close>

lemma accepted_command:
  assumes "commit_command s (v, now) = Inr s'"
  obtains input a where "v = JObj input" "parse_authority (field input ''authority'') = Inr a"
    "command_id a \<in> set (processed_commands s')" "command_id a \<notin> set (processed_commands s)"
  using assms by (auto simp: commit_command_Inr commit_parsed_Inr)

lemma refused_processed:
  assumes "v = JObj input" "parse_authority (field input ''authority'') = Inr a"
    and "command_id a \<in> set (processed_commands t)"
  shows "\<exists>e. commit_command t (v, now) = Inl e"
proof (cases "commit_command t (v, now)")
  case (Inr t')
  then show ?thesis using assms by (auto elim!: accepted_command)
qed simp

text \<open>The steps of the lifecycle.\<close>

lemma accepted_lifecycle:
  assumes c: "commit_command s c = Inr s'" and h: "state_head s = Some h"
  obtains k where "state_head s' = Some k" "head_privacy_binding k = head_privacy_binding h"
    "privacy_lifecycle (head_privacy h) \<le> Redacted"
    "privacy_lifecycle (head_privacy h) = Active \<or>
       privacy_lifecycle (head_privacy h) < privacy_lifecycle (head_privacy k)"
    "snd c < delete_after (head_privacy k)" "privacy_binding_of (head_privacy k) = Inr (head_privacy_binding k)"
    "length (processed_commands s') = Suc (length (processed_commands s))"
proof -
  obtain rv a r where r: "parse_revision rv = Inr r" and step: "commit_parsed s a r (snd c) = Inr s'"
    using c by (rule commit_commandE)
  obtain b where b: "privacy_binding_of (revision_privacy r) = Inr b" and nx: "next_revision h r b (snd c)"
    and allowed: "commit_allowed s a r (snd c)"
    and s': "s' = s\<lparr>processed_commands := processed_commands s @ [command_id a], state_head := Some (head_of r b)\<rparr>"
    using step h by (auto simp: commit_parsed_Inr)
  have "audit_fits (privacy_lifecycle (revision_privacy r)) (lifecycle_audit (revision_privacy r))
      (audit_id (revision_privacy r))"
    using parse_revision_ok [OF r] by (simp add: revision_ok_def privacy_ok_def)
  then have "privacy_lifecycle (head_privacy h) = Active \<or>
      privacy_lifecycle (head_privacy h) < privacy_lifecycle (revision_privacy r)"
    using nx by (auto simp: next_revision_def lifecycle_step_ok_def audit_fits_def split: option.splits)
  then show thesis using that [of "head_of r b"] b nx allowed s'
    by (simp add: head_of_def next_revision_def commit_allowed_def)
qed


section \<open>Properties of commits\<close>

lemma sample_run: "attempts commit_command state_0 [command_1, command_2] = state_2"
  by (simp add: attempt_accepted [of _ state_0 _ state_1] attempt_accepted [of _ state_1 _ state_2] commit_1 commit_2)

lemma sample_heads:
  "state_head state_1 = Some (head_of revision_1 sample_policy_text)"
  "state_head state_2 = Some (head_of revision_2 sample_policy_text)"
  "head_privacy (head_of revision_1 b) = sample_privacy" "head_privacy (head_of revision_2 b) = tombstoned_privacy"
  "privacy_lifecycle tombstoned_privacy = Tombstoned" "delete_after sample_privacy = time_3"
  "tombstone_digest sample_privacy = digest_a" "processed_commands state_2 = [''c1'', ''c2'']"
  by (simp_all add: state_1_def state_2_def head_of_def revision_1_def revision_2_def tombstoned_privacy_def
      sample_privacy_def)

lemma sample_audit_fields:
  "transition_from sample_audit = Active" "transition_to sample_audit = Tombstoned"
  "transition_audit_id sample_audit = ''audit''" "transition_tombstone sample_audit = Some digest_b"
  "privacy_lifecycle sample_privacy = Active" "audit_id sample_privacy = ''audit''"
  by (simp_all add: sample_audit_def sample_privacy_def)

text \<open>What a command carries: the id in its authority, and the head that its revision becomes.\<close>

definition carried_id :: "json \<times> string \<Rightarrow> string option" where
  "carried_id c =
     (case fst c of
        JObj input \<Rightarrow> (case parse_authority (field input ''authority'') of Inr a \<Rightarrow> Some (command_id a) | Inl e \<Rightarrow> None)
      | _ \<Rightarrow> None)"

definition carried_head :: "json \<times> string \<Rightarrow> revision_head option" where
  "carried_head c =
     (case fst c of
        JObj input \<Rightarrow>
          (case parse_revision (field input ''revision'') of
             Inr r \<Rightarrow> (case privacy_binding_of (revision_privacy r) of Inr b \<Rightarrow> Some (head_of r b) | Inl e \<Rightarrow> None)
           | Inl e \<Rightarrow> None)
      | _ \<Rightarrow> None)"

lemma accepted_step:
  assumes "commit_command s c = Inr s'"
  shows "map Some (processed_commands s') = map Some (processed_commands s) @ [carried_id c]"
    "state_head s' = carried_head c"
  using assms by (cases c; auto simp: commit_command_Inr commit_parsed_Inr carried_id_def carried_head_def)+

lemma accepted_run:
  "map Some (processed_commands (attempts commit_command s cs)) =
     map Some (processed_commands s) @ map carried_id (accepted commit_command s cs) \<and>
   state_head (attempts commit_command s cs) =
     (if accepted commit_command s cs = [] then state_head s else carried_head (last (accepted commit_command s cs)))"
proof (induction cs arbitrary: s)
  case (Cons c cs)
  show ?case
  proof (cases "commit_command s c")
    case (Inr s')
    then show ?thesis using Cons.IH [of s'] accepted_step [OF Inr] by (simp add: attempt_def)
  qed (use Cons.IH [of s] in \<open>simp add: attempt_def\<close>)
qed simp

lemma head_moves_accepted:
  assumes "state_forward s t" "map Some (processed_commands t) = map Some (processed_commands s) @ ids"
  shows "head_moves (state_head s) (state_head t) (length ids)"
proof -
  obtain us where us: "processed_commands t = processed_commands s @ us" "head_moves (state_head s) (state_head t) (length us)"
    using assms(1) by (auto simp: state_forward_def)
  then have "ids = map Some us" using assms(2) by simp
  then show ?thesis using us(2) by simp
qed

text \<open>C1. Whatever sequence of commands a project is given, refused ones included: the state records exactly
  the ids of the accepted commands, in the order of their acceptance and each once, after those it had;
  its head is the head of the revision in the last accepted command, or the old one when none was
  accepted; the sequence number grows by one for each accepted command; the state stays canonical,
  keeps its tenant, project, policy and grant; creation times and the privacy lifecycle never decrease,
  and the binding of the privacy policy never changes.\<close>

theorem commits_move_forward:
  assumes "state_ok s"
  shows "let t = attempts commit_command s cs; done = accepted commit_command s cs in
    state_ok t \<and> state_inv t \<and> state_forward s t \<and>
    map Some (processed_commands t) = map Some (processed_commands s) @ map carried_id done \<and>
    distinct (processed_commands t) \<and>
    state_head t = (if done = [] then state_head s else carried_head (last done)) \<and>
    head_moves (state_head s) (state_head t) (length done)"
proof -
  have ok: "state_ok (attempts commit_command s cs)" using assms by (rule persisted.attempts_inv)
  have forward: "state_forward s (attempts commit_command s cs)"
    using state_ok_inv [OF assms] by (rule commits.attempts_forward)
  have run: "map Some (processed_commands (attempts commit_command s cs)) =
      map Some (processed_commands s) @ map carried_id (accepted commit_command s cs)"
    using accepted_run by blast
  show ?thesis unfolding Let_def
    using ok forward run state_ok_inv [OF ok] accepted_run [of s cs] head_moves_accepted [OF forward run]
    by (simp add: state_inv_def)
qed

theorem commits_move_forward_witness:
  "processed_commands state_2 = [''c1'', ''c2''] \<and> map carried_id [command_1, command_2] = [Some ''c1'', Some ''c2''] \<and>
   state_head state_2 = carried_head command_2 \<and> head_sequence (the (state_head state_2)) = 2"
proof -
  have "\<exists>e. commit_command state_2 command_1 = Inl e"
    by (rule commit_refused_terminal [OF sample_heads(2)]) (simp add: sample_heads less_lifecycle_def)
  then have run: "accepted commit_command state_0 [command_1, command_2, command_1] = [command_1, command_2]"
    "attempts commit_command state_0 [command_1, command_2, command_1] = state_2"
    using commit_1 commit_2 by (auto simp: attempt_def)
  show ?thesis
    using commits_move_forward [OF sample_states_ok(1), of "[command_1, command_2, command_1]"]
    unfolding Let_def run by (auto simp: sample_heads state_0_def dest: sym [of "Some _"])
qed

text \<open>C3. A command that was accepted once is refused by every later state of the project, whatever
  was committed in between and whatever instant it is retried at.\<close>

theorem accepted_command_never_again:
  assumes "state_ok s" and "commit_command s (v, now) = Inr s'"
  shows "\<exists>e. commit_command (attempts commit_command s' cs) (v, later) = Inl e"
proof -
  obtain input a where a: "v = JObj input" "parse_authority (field input ''authority'') = Inr a"
    and m: "command_id a \<in> set (processed_commands s')"
    using assms(2) by (rule accepted_command)
  have "state_ok s'" using assms by (rule commit_keeps_ok)
  then have "command_id a \<in> set (processed_commands (attempts commit_command s' cs))"
    using m processed_grow by blast
  with a show ?thesis by (rule refused_processed)
qed

theorem accepted_command_never_again_witness:
  "\<exists>e. commit_command (attempts commit_command state_1 [command_2]) (fst command_1, time_2) = Inl e"
  using accepted_command_never_again [OF sample_states_ok(1), of "fst command_1" "snd command_1" state_1 "[command_2]" time_2]
    commit_1 by simp

text \<open>A tombstoned or expired head is final: no sequence of commands changes the state.\<close>

theorem closed_head_is_final:
  assumes "state_head s = Some h" and "Redacted < privacy_lifecycle (head_privacy h)"
  shows "attempts commit_command s cs = s"
  using assms by (rule closed_attempts)

theorem closed_head_is_final_witness: "attempts commit_command state_2 [command_1, command_2] = state_2"
  using closed_head_is_final [OF sample_heads(2), of "[command_1, command_2]"]
  by (simp add: sample_heads less_lifecycle_def del: attempts_Cons)

text \<open>Once the retention instant of the head has passed no command is accepted any more, not
  even one that would tombstone or expire the design: the retention instant is part of the privacy
  binding, which no commit may change.\<close>

theorem lapsed_retention_is_final:
  assumes ok: "state_ok s" and h: "state_head s = Some h"
    and late: "\<forall>c \<in> set cs. delete_after (head_privacy h) \<le> snd c"
  shows "attempts commit_command s cs = s"
proof (rule attempts_stuck, rule ballI)
  fix c assume c: "c \<in> set cs"
  show "\<exists>e. commit_command s c = Inl e"
  proof (cases "commit_command s c")
    case (Inr s')
    have b: "privacy_binding_of (head_privacy h) = Inr (head_privacy_binding h)"
      using ok h by (simp add: state_ok_def option_ok_def head_parts(3))
    have "snd c < delete_after (head_privacy h)"
    proof (rule accepted_lifecycle [OF Inr h])
      fix k assume "head_privacy_binding k = head_privacy_binding h"
        "privacy_binding_of (head_privacy k) = Inr (head_privacy_binding k)" and k: "snd c < delete_after (head_privacy k)"
      then have "delete_after (head_privacy k) = delete_after (head_privacy h)"
        using b by (intro same_binding_deadline) simp_all
      then show ?thesis using k by simp
    qed
    then have "\<not> delete_after (head_privacy h) \<le> snd c" by (simp only: not_le simp_thms)
    then show ?thesis using late c by blast
  qed simp
qed

theorem lapsed_retention_is_final_witness: "attempts commit_command state_1 [(fst command_2, time_3)] = state_1"
  using lapsed_retention_is_final [OF sample_states_ok(2), of "head_of revision_1 sample_policy_text" "[(fst command_2, time_3)]"]
  by (simp add: sample_heads)

text \<open>A head that has left the active lifecycle accepts at most one more commit, the one that
  closes a redacted head: a redacted design cannot be revised, because the privacy record of a
  redacted revision must carry its audit while a commit that keeps the lifecycle must not.\<close>

theorem inactive_head_commits_bounded:
  assumes "state_ok s" and "state_head s = Some h" and "privacy_lifecycle (head_privacy h) \<noteq> Active"
  shows "length (processed_commands (attempts commit_command s cs)) \<le> length (processed_commands s) +
    (if privacy_lifecycle (head_privacy h) = Redacted then 1 else 0)"
  using assms
proof (induction cs arbitrary: s h)
  case Nil
  then show ?case by simp
next
  case (Cons c cs)
  show ?case
  proof (cases "commit_command s c")
    case (Inl e)
    then show ?thesis using Cons by (simp add: attempt_def)
  next
    case (Inr s')
    obtain k where k: "state_head s' = Some k" "privacy_lifecycle (head_privacy h) \<le> Redacted"
        "privacy_lifecycle (head_privacy h) < privacy_lifecycle (head_privacy k)"
        "length (processed_commands s') = Suc (length (processed_commands s))"
      using accepted_lifecycle [OF Inr Cons.prems(2)] Cons.prems(3) by metis
    then have "privacy_lifecycle (head_privacy h) = Redacted" "Redacted < privacy_lifecycle (head_privacy k)"
      using Cons.prems(3)
      by (cases "privacy_lifecycle (head_privacy h)"; simp add: less_eq_lifecycle_def less_lifecycle_def)+
    then have "attempts commit_command s' cs = s'"
      using k(1) by (intro closed_attempts)
    then show ?thesis using Inr k(4) \<open>privacy_lifecycle (head_privacy h) = Redacted\<close>
      by (simp add: attempt_def)
  qed
qed

theorem inactive_head_commits_bounded_witness:
  "length (processed_commands (attempts commit_command state_2 [command_2])) \<le> 2"
  using inactive_head_commits_bounded [OF sample_states_ok(3), of "head_of revision_2 sample_policy_text" "[command_2]"]
  by (simp add: sample_heads)

text \<open>C4. Storing the returned object and parsing it on the next call is a refinement of keeping the
  state in memory: after any sequence of commands the stored object is the object of the state that
  the commits would have left, so no command is lost or reinterpreted by the round trip, within the
  budgets of the boundary.\<close>

theorem stored_state_refines:
  assumes "state_ok s"
  shows "attempts store_step (state_json s) cs = state_json (attempts commit_command s cs)"
  using assms by (rule store_attempts)

theorem stored_state_refines_witness:
  "attempts store_step (state_json state_0) [command_1, command_2] = state_json state_2"
  using stored_state_refines [OF sample_states_ok(1), of "[command_1, command_2]"] unfolding sample_run .

text \<open>The object of a canonical state parses to that state, and every state that the parser or a
  commit returns is canonical.\<close>

theorem state_object_roundtrip:
  assumes "parse_state v = Inr s \<or> commit_revision v c now = Inr s"
  shows "parse_state (state_json s) = Inr s"
  using assms parse_state_ok commit_revision_ok state_roundtrip by blast

theorem state_object_roundtrip_witness: "parse_state (state_json state_1) = Inr state_1"
  using state_object_roundtrip [of "state_json state_0" state_1 "fst command_1" "snd command_1"]
    commit_1 commit_persisted [OF sample_states_ok(1)] by simp

text \<open>The preflight refuses a tombstone digest other than the one the privacy record commits to,
  but the commit never compares the two: the sample command, whose audit carries another digest, is
  refused by the preflight and accepted by the commit.\<close>

theorem commit_ignores_tombstone_digest:
  "commit_command state_1 command_2 = Inr state_2 \<and>
   transition_tombstone sample_audit \<noteq> Some (tombstone_digest (head_privacy (the (state_head state_1)))) \<and>
   transition_lifecycle (privacy_json sample_privacy) (transition_json sample_audit) = TransitionUnauthorized"
proof -
  have snap: "snapshot_value (privacy_json sample_privacy) = Inr (privacy_json sample_privacy)"
    using privacy_size [OF sample_privacy_ok sample_policy_binding]
    by (intro snapshot_fits) (simp_all add: limits)
  have "transition_lifecycle (privacy_json sample_privacy) (transition_json sample_audit) = TransitionUnauthorized"
    unfolding transition_lifecycle_def snap
    using privacy_roundtrip [OF sample_privacy_ok] transition_roundtrip [OF sample_audit_ok]
      sample_digests(3) [symmetric]
    by (simp add: sample_audit_fields sample_heads can_transition_def)
  moreover have "transition_tombstone sample_audit \<noteq> Some (tombstone_digest (head_privacy (the (state_head state_1))))"
    using sample_digests(3) [symmetric]
    by (simp add: sample_audit_def sample_heads)
  ultimately show ?thesis using commit_2 by blast
qed

end
