(* ===== verification/Design_Contracts.thy ===== *)
theory Design_Contracts
  imports Design_Exchange Design_Theorems
begin

text \<open>
  The properties of the data contracts around the design revision: bindings and commitments,
  operation targets and references, negotiation, export eligibility, the input budget and the
  order of instants.
\<close>

section \<open>Samples\<close>

definition sample_source :: source_identity where
  "sample_source = \<lparr>module_id = ''module'', export_name = ''View'', ast_node_id = ''n1'',
     identity_source_digest = digest_a, identity_binding_digest = digest_a\<rparr>"

definition sample_instance :: instance_descriptor where
  "sample_instance = \<lparr>instance_id = ''i1'', ancestry = [''root''], instance_repeat = Singleton,
     slot_id = None, portal_id = None, overlay_id = None\<rparr>"

definition sample_instance_digest :: string where
  "sample_instance_digest = stringify (instance_row revision_1 sample_source sample_instance)"

definition sample_node :: node_identity where
  "sample_node = \<lparr>identity_project = ''project'', identity_node = ''n1'', identity_compiler = digest_a,
     node_source = sample_source, node_instance = sample_instance,
     instance_digest = sample_instance_digest\<rparr>"

lemma revision_1_fields:
  "revision_tenant revision_1 = ''tenant''" "revision_project revision_1 = ''project''"
  "revision_name revision_1 = ''r1''" "revision_tuple revision_1 = sample_tuple"
  "revision_binding revision_1 = sample_binding" "revision_privacy revision_1 = sample_privacy"
  "created_at revision_1 = time_1"
  by (simp_all add: revision_1_def sample_binding_def)

lemma sample_tuple_fields:
  "source_digest sample_tuple = digest_a" "binding_digest sample_tuple = digest_a"
  "compiler_digest sample_tuple = digest_a" "design_system_lock_digest sample_tuple = digest_a"
  by (simp_all add: sample_tuple_def)

lemma sample_instance_digest_ok: "instance_digest_ok sample_instance_digest"
proof -
  have d: "length digest_a = 64" by (simp add: digest_a_def)
  show ?thesis using quote_bounds(1)
    by (simp add: sample_instance_digest_def instance_row_def instance_digest_ok_def sample_source_def
        sample_instance_def revision_1_fields sample_tuple_fields digest_quote d json_option_def quote_printable printable_def
        starts_with_def)
qed

lemma sample_node_ok: "node_ok sample_node"
proof -
  have "identifier_ok ''module''" "identifier_ok ''View''" "identifier_ok ''n1''" "identifier_ok ''i1''"
      "identifier_ok ''root''"
    by (simp_all add: identifier_ok_def is_letter_def is_lower_def is_upper_def is_digit_def is_id_char_def)
  then show ?thesis using sample_instance_digest_ok
    by (simp add: sample_node_def node_ok_def source_ok_def instance_ok_def sample_source_def sample_instance_def
        option_ok_def)
qed

lemma sample_node_of: "node_of_revision revision_1 sample_node"
  using sample_instance_digest_ok
  by (simp add: node_of_revision_def sample_node_def revision_1_fields sample_tuple_fields sample_source_def
      instance_digest_of_def rendered_instance_digest_def
      sample_instance_digest_def [unfolded sample_source_def])

lemma sample_target:
  "create_target (revision_json revision_1) (node_json sample_node) = Inr (target_of revision_1 sample_node)"
  using sample_node_of node_roundtrip [OF sample_node_ok]
  by (simp add: create_target_Inr [OF revision_roundtrip [OF revision_1_ok]])

lemma sample_reference:
  "create_reference (revision_json revision_1) (authority_json (sample_authority ''c2'' revision_1))
     (JStr ''preview'') (state_json state_1) time_2 = Inr (reference_of revision_1 (sample_authority ''c2'' revision_1) Preview)"
proof -
  have a: "parse_authority (authority_json (sample_authority ''c2'' revision_1)) = Inr (sample_authority ''c2'' revision_1)"
    using sample_authority_ok [OF revision_1_ok] by (intro authority_roundtrip) simp
  have k: "operation_of (JStr ''preview'') = Inr Preview" using operation_roundtrip [of Preview] by simp
  have "\<not> reference_refused revision_1 (sample_authority ''c2'' revision_1) Preview state_1 time_2"
    by (simp add: reference_refused_def not_head_def authority_elsewhere_def policy_mismatch_def exceeds_policy_def
        foreign_grant_def grant_inactive_def outside_window_def sample_authority_def state_1_def state_0_def
        head_of_def revision_1_fields sample_heads sample_audit_fields)
  then show ?thesis
    using a k revision_roundtrip [OF revision_1_ok] state_roundtrip [OF sample_states_ok(2)] sample_times(2)
    by (auto simp: create_reference_Inr instant_def time_ok_def)
qed

section \<open>Bindings and commitments\<close>

text \<open>C19. The commitment determines the revision: two values that parse to revisions with the same
  commitment parse to the same revision, so an authority that names a commitment names one revision
  with all its fields.\<close>

theorem commitment_determines_revision:
  assumes "parse_revision v = Inr r" and "parse_revision w = Inr q" and "commitment r = commitment q"
  shows "r = q"
  using assms parse_revision_sealed commitment_inject by blast

text \<open>The object that an author sends leaves out what the parser computes, the tuple binding and the
  commitment.\<close>

definition draft_json :: "revision \<Rightarrow> json" where
  "draft_json r = (case revision_json r of
     JObj kvs \<Rightarrow> JObj (filter (\<lambda>kv. fst kv \<notin> {''tupleBinding'', ''revisionCommitment''}) kvs) | v \<Rightarrow> v)"

lemma draft_parses:
  assumes ok: "revision_ok r"
  shows "\<exists>q. parse_revision (draft_json r) = Inr q \<and> commitment q = commitment r"
proof -
  have draft: "draft_json r = JObj ([(''format'', JStr ''selene-design-revision/v2''), (''tenantId'', JStr (revision_tenant r)),
      (''projectId'', JStr (revision_project r)), (''revisionId'', JStr (revision_name r))] @
      entry_option ''parentRevisionId'' (parent_revision r) @
      [(''sequence'', JNum (revision_sequence r)), (''createdAt'', JStr (created_at r)),
       (''tuple'', tuple_json (revision_tuple r)), (''privacy'', privacy_json (revision_privacy r))])"
    by (cases "parent_revision r") (simp_all add: draft_json_def revision_json_def)
  have snap: "snapshot_value (draft_json r) = Inr (draft_json r)"
    using revision_size(1,2) [OF ok] revision_size(3) [OF ok, of 32]
    by (cases "parent_revision r"; intro snapshot_fits)
      (simp_all add: draft revision_json_def max_snapshot_nodes_def max_snapshot_bytes_def max_commands_def)
  have s: "sealed r" "parse_tuple (tuple_json (revision_tuple r)) = Inr (revision_tuple r)"
      "parse_privacy (privacy_json (revision_privacy r)) = Inr (revision_privacy r)"
    using ok tuple_roundtrip privacy_roundtrip by (simp_all add: revision_ok_def)
  let ?built = "\<lambda>parent. \<lparr>revision_tenant = revision_tenant r, revision_project = revision_project r,
      revision_name = revision_name r, parent_revision = parent,
      revision_sequence = revision_sequence r, created_at = created_at r,
      revision_tuple = revision_tuple r, revision_binding = revision_binding r,
      revision_privacy = revision_privacy r, commitment = []\<rparr>"
  have built: "?built parent = r\<lparr>commitment := []\<rparr>" if "parent_revision r = parent" for parent
    using that by (cases r) simp
  have c: "commitment_of (?built parent) = Inr (commitment r)" if "parent_revision r = parent" for parent
    using s(1) by (simp add: built [OF that] sealed_def)
  show ?thesis
    unfolding parse_revision_def draft snap [unfolded draft] andThen_Inr Let_def
    using ok s(2,3) sealed_bindings [OF s(1)] s(1)
    by (cases "parent_revision r")
      (simp_all add: exact_eq revision_keys_def revision_ok_def option_ok_def scalar_defs time_ok_def sealed_def
        integer_JNum c)
qed

theorem commitment_determines_revision_witness:
  "draft_json revision_1 \<noteq> revision_json revision_1 \<and> parse_revision (draft_json revision_1) = parse_revision (revision_json revision_1)"
proof -
  obtain q where q: "parse_revision (draft_json revision_1) = Inr q" "commitment q = commitment revision_1"
    using draft_parses [OF revision_1_ok] by blast
  then have "q = revision_1" using commitment_determines_revision revision_roundtrip [OF revision_1_ok] by blast
  then show ?thesis using q(1) revision_roundtrip [OF revision_1_ok]
    by (cases "parent_revision revision_1") (simp_all add: draft_json_def revision_json_def)
qed

text \<open>A parsed revision prints to an object that parses to the same revision.\<close>

theorem revision_object_roundtrip:
  assumes "parse_revision v = Inr r"
  shows "parse_revision (revision_json r) = Inr r"
  using assms parse_revision_ok revision_roundtrip by blast

theorem revision_object_roundtrip_witness: "parse_revision (revision_json revision_2) = Inr revision_2"
  using revision_object_roundtrip [of "revision_json revision_2"] revision_roundtrip [OF revision_2_ok] by blast

text \<open>The digest of a rendered instance determines the source anchor, the rendered occurrence and
  the tuple of the revision it was issued for.\<close>

theorem instance_digest_determines:
  assumes "sealed r" "sealed q" "instance_digest_of r s i = Inr d" "instance_digest_of q t j = Inr d"
  shows "s = t \<and> i = j \<and> revision_tuple r = revision_tuple q"
proof -
  have rep: "repeat_row a = repeat_row b \<longleftrightarrow> a = b" for a b by (cases a; cases b) simp_all
  have inert_rep: "inert (repeat_row a)" for a by (cases a) simp_all
  have inert: "inert (instance_row r s i)" for r s i
    by (simp add: instance_row_def inert_rep list_all_iff)
  have rows: "instance_row r s i = instance_row q t j"
    using assms(3,4) stringify_inject [OF inert inert]
    by (auto simp: instance_digest_of_def failIf_eq_Inr rendered_instance_digest_def)
  then have "s = t" "i = j" "revision_binding r = revision_binding q"
    by (auto simp: instance_row_def rep map_row_inject inj_on_def
        intro!: source_identity.equality instance_descriptor.equality)
  moreover have "revision_tuple r = revision_tuple q"
    using assms(1,2) calculation(3) tuple_binding_inject by (auto simp: sealed_def)
  ultimately show ?thesis by blast
qed

theorem instance_digest_determines_witness: "revision_tuple revision_1 = revision_tuple revision_1"
  using instance_digest_determines [OF revision_1_sealed revision_1_sealed, of sample_source sample_instance
      sample_instance_digest sample_source sample_instance] sample_node_of
  by (simp add: node_of_revision_def sample_node_def)

text \<open>Whatever tuple the parser accepts, its binding fits the length limit of bindings, so no
  revision is refused for the size of its tuple.\<close>

theorem tuple_binding_total:
  assumes "parse_tuple v = Inr t"
  shows "\<exists>b. tuple_binding_of t = Inr b \<and> length b \<le> 2048"
  using tuple_text_fits [OF parse_tuple_ok [OF assms]]
  by (auto simp: tuple_binding_of_Inr tuple_binding_ok_def)

theorem tuple_binding_total_witness: "\<exists>b. tuple_binding_of sample_tuple = Inr b \<and> length b \<le> 2048"
  using tuple_binding_total [OF tuple_roundtrip [OF sample_tuple_ok]] .

section \<open>Targets and references\<close>

text \<open>An issued operation target parses back against its revision, and whatever target parses
  against a revision names a node compiled from that revision's sources with the digest the revision
  gives its rendered instance.\<close>

theorem operation_targets_issued:
  assumes "create_target rv nv = Inr t \<or> parse_target v rv = Inr t"
  shows "parse_target (target_json t) rv = Inr t \<and>
    (\<exists>r n. parse_revision rv = Inr r \<and> node_of_revision r n \<and> t = target_of r n)"
proof -
  obtain r n where p: "parse_revision rv = Inr r" "node_of_revision r n" "t = target_of r n" and n: "node_ok n"
  proof (cases "create_target rv nv = Inr t")
    case True
    then obtain r where r: "parse_revision rv = Inr r" by (auto simp: create_target_def andThen_eq_Inr)
    then show thesis using True that parse_node_ok by (auto simp: create_target_Inr [OF r])
  next
    case False
    then obtain r w where r: "parse_revision rv = Inr r" and c: "create_target (revision_json r) w = Inr t"
      using assms unfolding parse_target_def by (auto simp: andThen_eq_Inr failIf_eq_Inr)
    then show thesis using that parse_node_ok
      by (auto simp: create_target_Inr [OF revision_roundtrip [OF parse_revision_ok [OF r]]])
  qed
  have "create_target rv (node_json n) = Inr t"
    using p n by (auto simp: create_target_Inr [OF p(1)] node_roundtrip)
  then show ?thesis using p target_roundtrip by blast
qed

theorem operation_targets_issued_witness:
  "parse_target (target_json (target_of revision_1 sample_node)) (revision_json revision_1) =
     Inr (target_of revision_1 sample_node)"
  using operation_targets_issued [of "revision_json revision_1" "node_json sample_node" "target_of revision_1 sample_node"]
    sample_target by blast

text \<open>An issued operation reference parses back under the same revision, authority, state and
  instant, and it rests on the head of the state: an active grant, a capability that the policy
  grants for the kind of operation, a command identifier that no commit has spent, and an instant
  within the authority's window and before the retention instant.\<close>

theorem operation_reference_issued:
  assumes "create_reference rv av kv sv now = Inr e"
  shows "parse_reference (reference_json e) rv av sv now = Inr e \<and>
    (\<exists>r a s h. parse_revision rv = Inr r \<and> parse_authority av = Inr a \<and> parse_state sv = Inr s \<and>
       state_head s = Some h \<and> head_commitment h = commitment r \<and>
       e = reference_of r a (reference_kind e) \<and> status_state (state_grant s) = GrantActive \<and>
       operation_capability (reference_kind e) \<in> set (authority_capabilities a) \<inter> set (policy_capabilities (state_policy s)) \<and>
       command_id a \<notin> set (processed_commands s) \<and> issued_at a \<le> now \<and> now \<le> expires_at a \<and>
       now < delete_after (revision_privacy r) \<and> privacy_lifecycle (revision_privacy r) \<le> Redacted)"
proof -
  obtain r a kind s where c: "parse_revision rv = Inr r" "parse_authority av = Inr a" "parse_state sv = Inr s"
    and ok: "\<not> reference_refused r a kind s now" and e: "e = reference_of r a kind"
    using assms by (auto simp: create_reference_Inr)
  obtain h where h: "state_head s = Some h" using reference_granted(1) [OF ok] by blast
  have "head_commitment h = commitment r" using reference_granted(2) [OF ok] h by simp
  moreover have "set (authority_capabilities a) \<subseteq> set (policy_capabilities (state_policy s))"
      "operation_capability kind \<in> set (authority_capabilities a)"
    using ok reference_granted(4) [OF ok] by (auto simp: reference_refused_def)
  moreover have "reference_kind e = kind" by (simp add: e reference_of_def)
  ultimately show ?thesis
    using c h e reference_granted [OF ok] reference_roundtrip [OF assms] by auto
qed

theorem operation_reference_issued_witness:
  "\<exists>e. parse_reference (reference_json e) (revision_json revision_1)
     (authority_json (sample_authority ''c2'' revision_1)) (state_json state_1) time_2 = Inr e"
  using operation_reference_issued [OF sample_reference] by blast

text \<open>An authority is spent by its commit: once a command was accepted, no later state of the
  project issues an operation reference for the authority of that command, whatever the revision,
  the kind of operation and the instant.\<close>

theorem committed_authority_is_spent:
  assumes ok: "state_ok s" and c: "commit_command s (JObj input, now) = Inr s'"
  shows "create_reference rv (field input ''authority'') kv
      (state_json (attempts commit_command s' cs)) later \<noteq> Inr e"
proof
  assume r: "create_reference rv (field input ''authority'') kv (state_json (attempts commit_command s' cs)) later = Inr e"
  obtain a where a: "parse_authority (field input ''authority'') = Inr a"
    and m: "command_id a \<in> set (processed_commands s')"
    using c by (rule accepted_command) simp
  have ok': "state_ok s'" using ok c by (rule commit_keeps_ok)
  then have t: "parse_state (state_json (attempts commit_command s' cs)) = Inr (attempts commit_command s' cs)"
    by (intro state_roundtrip persisted.attempts_inv)
  have "command_id a \<in> set (processed_commands (attempts commit_command s' cs))"
    using m processed_grow [OF ok'] by blast
  then show False using r a t by (auto simp: create_reference_Inr reference_refused_def)
qed

theorem committed_authority_is_spent_witness:
  "\<forall>e. create_reference (revision_json revision_1) (authority_json (sample_authority ''c1'' revision_1)) (JStr ''preview'')
     (state_json (attempts commit_command state_1 [])) time_2 \<noteq> Inr e"
proof
  fix e
  have c: "commit_command state_0 (JObj [(''format'', JStr ''selene-design-revision-command/v2''),
      (''authority'', authority_json (sample_authority ''c1'' revision_1)), (''revision'', revision_json revision_1)],
      time_1) = Inr state_1"
    using commit_1 by (simp add: command_1_def command_json_def)
  show "create_reference (revision_json revision_1) (authority_json (sample_authority ''c1'' revision_1)) (JStr ''preview'')
     (state_json (attempts commit_command state_1 [])) time_2 \<noteq> Inr e"
    using committed_authority_is_spent [OF sample_states_ok(1) c, of "revision_json revision_1" "JStr ''preview''" "[]" time_2 e]
    by simp
qed

section \<open>Negotiation\<close>

definition sample_host :: host_capabilities where
  "sample_host = \<lparr>host_issuer = ''issuer'', host_audience = ''audience'', host_tenant = ''tenant'',
     host_project = ''project'', host_grant = ''grant'', host_epoch = 1, host_schema = 1,
     host_commands = digest_a, host_revision = ''r1'', host_binding = sample_binding,
     host_commitment = commitment revision_1, host_policy_revision = 1, host_issued = time_1,
     host_expires = time_3, host_revoked = None, host_offers = [PreviewCapability]\<rparr>"

definition sample_expectation :: host_expectation where
  "sample_expectation = \<lparr>expected_tenant = ''tenant'', expected_project = ''project'',
     expected_anchor = policy_anchor (state_policy state_0), expected_grant = state_grant state_0,
     expected_policy_revision = 1, expected_revision = ''r1'', expected_binding = sample_binding,
     expected_commitment = commitment revision_1, expected_capabilities = [PreviewCapability]\<rparr>"

lemma sample_negotiation:
  "negotiate_host (host_json sample_host) (expectation_json sample_expectation) time_2 = HostAccepted sample_host"
proof -
  have c: "commitment_ok (commitment revision_1)" using sealed_bindings [OF revision_1_sealed] by blast
  have "host_ok sample_host" using c sample_binding_facts(3)
    by (simp add: host_ok_def sample_host_def positive_def max_safe_integer_def option_ok_def capabilities_ok_def)
  moreover have "expectation_ok sample_expectation" using c sample_binding_facts(3)
    by (simp add: expectation_ok_def sample_expectation_def state_0_def anchor_ok_def grant_ok_def positive_def
        max_safe_integer_def capabilities_ok_def)
  moreover have "\<not> host_mismatch sample_host sample_expectation time_2"
    by (simp add: host_mismatch_def outside_window_def sample_host_def sample_expectation_def state_0_def)
  moreover have "host_offers sample_host = expected_capabilities sample_expectation"
    by (simp add: sample_host_def sample_expectation_def)
  ultimately show ?thesis
    using sample_times(2) by (simp add: negotiate_accepted host_roundtrip expectation_roundtrip instant_def time_ok_def)
qed

text \<open>Negotiation accepts an offer only on the exact terms of the expectation: the same revision
  and commitment, the same ordered capabilities without more or fewer, the trusted issuer and grant in
  its active epoch, and an instant inside the offer's window and before its revocation.\<close>

theorem negotiation_accepts_exact_terms:
  assumes "negotiate_host ov ev now = HostAccepted h"
  shows "\<exists>e. parse_host_capabilities ov = Inr h \<and> parse_host_expectation ev = Inr e \<and>
    host_offers h = expected_capabilities e \<and> host_commitment h = expected_commitment e \<and>
    host_revision h = expected_revision e \<and> host_issuer h = anchor_issuer (expected_anchor e) \<and>
    host_grant h = status_grant (expected_grant e) \<and> host_epoch h = status_epoch (expected_grant e) \<and>
    status_state (expected_grant e) = GrantActive \<and> host_issued h \<le> now \<and> now \<le> host_expires h \<and>
    (case host_revoked h of None \<Rightarrow> True | Some at \<Rightarrow> now < at)"
proof -
  obtain e where e: "parse_host_capabilities ov = Inr h" "parse_host_expectation ev = Inr e"
      "\<not> host_mismatch h e now" "host_offers h = expected_capabilities e"
    using assms by (auto simp: negotiate_accepted)
  have "\<not> outside_window (host_revoked h) (host_issued h) (host_expires h) now"
    using e(3) unfolding host_mismatch_def by blast
  then have "host_issued h \<le> now" "now \<le> host_expires h" "case host_revoked h of None \<Rightarrow> True | Some at \<Rightarrow> now < at"
    by (auto simp: outside_window_def not_less not_le split: option.splits)
  then show ?thesis using e by (auto simp: host_mismatch_def)
qed

theorem negotiation_accepts_exact_terms_witness:
  "\<exists>e. parse_host_expectation (expectation_json sample_expectation) = Inr e \<and>
     host_offers sample_host = expected_capabilities e"
  using negotiation_accepts_exact_terms [OF sample_negotiation] by blast

section \<open>Export\<close>

text \<open>C16. An export is eligible only for a revision that is active and within its retention, on an
  authority within its window that names this revision, its tenant, project and source binding, its
  commitment, privacy binding, lifecycle, retention and export policy, after the host was asked for
  exactly this authority binding and answered that it accepted and consumed it, with a host state that
  repeats every term and an active grant of this very authority in its epoch.\<close>

theorem eligible_export_is_verified:
  assumes "evaluate_export port rv av now = Eligible i"
  shows "\<exists>invoke r a p b answer h. port = Some invoke \<and> parse_revision rv = Inr r \<and>
    parse_export_authority av = Inr a \<and> i = terms_authority a \<and>
    privacy_binding_of (revision_privacy r) = Inr p \<and> b = stringify (export_row a) \<and>
    invoke (request_of a r p b now) = Some answer \<and> parse_verification answer = Inr (VerifiedAccepted h) \<and>
    export_terms.truncate h = a \<and> host_authority_binding h = b \<and>
    host_export_grant h = \<lparr>export_grant_authority = i, export_grant_epoch = terms_epoch a, export_grant_state = GrantActive\<rparr> \<and>
    terms_tenant a = revision_tenant r \<and> terms_project a = revision_project r \<and>
    terms_revision a = revision_name r \<and> terms_binding a = revision_binding r \<and>
    terms_commitment a = commitment r \<and> terms_privacy a = p \<and>
    terms_lifecycle a = privacy_lifecycle (revision_privacy r) \<and>
    terms_delete_after a = delete_after (revision_privacy r) \<and>
    terms_export_policy a = export_policy_digest (revision_privacy r) \<and>
    privacy_lifecycle (revision_privacy r) = Active \<and> created_at r < delete_after (revision_privacy r) \<and>
    now < delete_after (revision_privacy r) \<and> terms_issued a \<le> now \<and> now \<le> terms_expires a"
proof -
  obtain invoke r a p b answer h where e: "port = Some invoke" "parse_revision rv = Inr r"
      "parse_export_authority av = Inr a" "privacy_binding_of (revision_privacy r) = Inr p"
      "create_export_binding (export_authority_json a) = Inr b" "invoke (request_of a r p b now) = Some answer"
      "parse_verification answer = Inr (VerifiedAccepted h)" "i = terms_authority a"
    and m: "matches_commitment a h r p b now" and n: "ineligibility_code r now = None"
    using assms unfolding evaluate_eligible by blast
  have "b = stringify (export_row a)"
    using e(5) export_authority_roundtrip [OF parse_export_authority_ok [OF e(3)]]
    by (auto simp: create_export_binding_Inr)
  moreover have "host_export_grant h = \<lparr>export_grant_authority = i, export_grant_epoch = terms_epoch a,
      export_grant_state = GrantActive\<rparr>"
    using matches_terms(3-5) [OF m] e(8) by (intro export_grant.equality) simp_all
  ultimately show ?thesis using e matches_terms [OF m] matches_revision [OF m] n unfolding ineligibility_none by blast
qed

definition sample_terms :: export_terms where
  "sample_terms = \<lparr>terms_authority = ''export'', terms_epoch = 1, terms_issuer = ''issuer'',
     terms_audience = ''audience'', terms_tenant = ''tenant'', terms_project = ''project'',
     terms_revision = ''r1'', terms_binding = sample_binding, terms_commitment = commitment revision_1,
     terms_privacy = sample_policy_text, terms_lifecycle = Active, terms_delete_after = time_3,
     terms_policy = digest_a, terms_export_policy = digest_a, terms_issued = time_1, terms_expires = time_3\<rparr>"


text \<open>The escapes that quoting adds, for the length of nested texts.\<close>

definition marks :: "string \<Rightarrow> nat" where
  "marks s = length (filter (\<lambda>c. c = CHR 0x22 \<or> c = CHR 0x5C) s)"

lemma marks_simps [simp]:
  "marks [] = 0" "marks (c # s) = (if c = CHR 0x22 \<or> c = CHR 0x5C then 1 else 0) + marks s"
  "marks (s @ t) = marks s + marks t"
  by (simp_all add: marks_def)

lemma quote_marks:
  assumes "list_all readable s"
  shows "length (quote_text s) = length s + marks s + 2 \<and> marks (quote_text s) = 2 * marks s + 2"
proof -
  have "length (concat (map escape_char s)) = length s + marks s \<and> marks (concat (map escape_char s)) = 2 * marks s"
    using assms
  proof (induction s)
    case (Cons c s)
    then show ?case by (auto simp: readable_def escape_char_def)
  qed simp
  then show ?thesis by (simp add: quote_text_def)
qed

lemma printable_marks: "list_all printable s \<Longrightarrow> marks s = 0"
  by (induction s) (auto simp: printable_def)

lemma digest_marks [simp]: "marks digest_a = 0" "length digest_a = 64"
  using printable_marks digest_printable [OF sample_digests(1)] by (simp_all add: digest_a_def)

lemma sample_binding_size: "length sample_binding \<le> 640" "marks sample_binding \<le> 30"
  by (simp_all add: sample_binding_def tuple_row_def sample_tuple_def digest_quote quote_printable printable_def)

lemma exclusions_size:
  "length (js_join '','' (map stringify (map JStr required_exclusions))) \<le> 180"
  "marks (js_join '','' (map stringify (map JStr required_exclusions))) = 20"
  by (simp_all add: required_exclusions_def quote_printable printable_def)

lemma sample_policy_size: "length sample_policy_text \<le> 640" "marks sample_policy_text \<le> 60"
  using exclusions_size
  by (simp_all add: sample_policy_text_def privacy_row_def sample_privacy_def json_option_def digest_quote
      time_3_def quote_printable printable_def)

lemma revision_1_commitment: "commitment revision_1 = stringify (commitment_row revision_1 sample_policy_text)"
  using revision_1_sealed by (auto simp: sealed_def commitment_of_Inr revision_1_fields)

lemma commitment_size:
  "length (commitment revision_1) \<le> 1600" "marks (commitment revision_1) \<le> 220"
  "list_all readable (commitment revision_1)"
proof -
  have f: "parent_revision revision_1 = None" "revision_sequence revision_1 = 1" by (simp_all add: revision_1_def)
  note q = quote_marks [OF sample_binding_facts(2)] quote_marks [OF sample_policy_facts(2)]
    sample_binding_size sample_policy_size quote_readable [OF sample_binding_facts(2)] quote_readable [OF sample_policy_facts(2)]
  show "length (commitment revision_1) \<le> 1600" "marks (commitment revision_1) \<le> 220"
    "list_all readable (commitment revision_1)"
    using q
    by (simp_all add: revision_1_commitment commitment_row_def revision_1_fields f json_option_def transition_row_def
        sample_privacy_def time_1_def quote_printable printable_def readable_def int_text_def nat_text.simps)
qed

lemma sample_terms_ok: "terms_ok sample_terms"
proof -
  have "identifier_ok ''export''"
    by (simp add: identifier_ok_def is_letter_def is_lower_def is_upper_def is_digit_def is_id_char_def)
  then show ?thesis
    using sealed_bindings [OF revision_1_sealed] sample_binding_facts(3) privacy_binding_of_ok [OF sample_policy_binding]
    by (simp add: terms_ok_def sample_terms_def positive_def max_safe_integer_def)
qed

lemma sample_export_binding:
  "create_export_binding (export_authority_json sample_terms) = Inr (stringify (export_row sample_terms))"
proof -
  have "export_binding_ok (stringify (export_row sample_terms))"
    using quote_marks [OF sample_binding_facts(2)] quote_marks [OF sample_policy_facts(2)]
      quote_marks [OF commitment_size(3)] sample_binding_size sample_policy_size commitment_size(1,2)
    by (simp add: export_row_def sample_terms_def export_binding_ok_def digest_quote time_1_def time_3_def
        quote_printable printable_def starts_with_def int_text_def nat_text.simps)
  then show ?thesis
    using export_authority_roundtrip [OF sample_terms_ok] by (simp add: create_export_binding_Inr)
qed

lemma sample_export:
  "\<exists>port. evaluate_export port (revision_json revision_1) (export_authority_json sample_terms) time_2 = Eligible ''export''"
proof -
  have "revision_name revision_1 = ''r1''" "created_at revision_1 = time_1" by (simp_all add: revision_1_def)
  then have "evaluate_export (Some (\<lambda>request. Some (accepted_json (export_host_json sample_terms
      (stringify (export_row sample_terms)) \<lparr>export_grant_authority = terms_authority sample_terms,
        export_grant_epoch = terms_epoch sample_terms, export_grant_state = GrantActive\<rparr>))))
    (revision_json revision_1) (export_authority_json sample_terms) time_2 = Eligible (terms_authority sample_terms)"
    using sample_policy_binding
    by (intro honest_host [OF revision_1_ok _ sample_terms_ok sample_times(2) sample_export_binding])
      (simp_all add: revision_1_fields sample_terms_def sample_privacy_def ineligibility_none)
  then show ?thesis by (auto simp: sample_terms_def)
qed

theorem eligible_export_is_verified_witness:
  "\<exists>r a. parse_revision (revision_json revision_1) = Inr r \<and> parse_export_authority (export_authority_json sample_terms) = Inr a \<and>
     terms_authority a = ''export'' \<and> terms_revision a = revision_name r \<and> terms_commitment a = commitment r \<and>
     time_2 < delete_after (revision_privacy r)"
  using sample_export eligible_export_is_verified by metis

text \<open>The canonical binding of an export authority determines every term of it, so a host that
  compares bindings cannot be shown one authority and be asked to consume another.\<close>

theorem export_binding_determines_authority:
  assumes "create_export_binding v = Inr b" and "create_export_binding w = Inr b"
  shows "parse_export_authority v = parse_export_authority w"
  using assms stringify_inject [OF export_row_inert export_row_inert] export_row_inject
  by (auto simp: create_export_binding_Inr)

theorem export_binding_determines_authority_witness:
  "parse_export_authority (export_authority_json sample_terms) = parse_export_authority (export_authority_json sample_terms)"
  using export_binding_determines_authority [OF sample_export_binding sample_export_binding] .

text \<open>A privacy record with 26 more exclusions, whose commitment is longer than 4096.\<close>

definition long_names :: "string list" where
  "long_names = map (\<lambda>n. replicate n CHR ''z'') [100..<126]"

definition long_privacy :: privacy where
  "long_privacy = sample_privacy\<lparr>exclusions := required_exclusions @ long_names\<rparr>"

definition long_policy_text :: string where "long_policy_text = stringify (privacy_row long_privacy)"

definition long_revision :: revision where
  "long_revision = seal \<lparr>revision_tenant = ''tenant'', revision_project = ''project'',
     revision_name = ''r1'', parent_revision = None, revision_sequence = 1, created_at = time_1,
     revision_tuple = sample_tuple, revision_binding = [], revision_privacy = long_privacy,
     commitment = []\<rparr>"

lemma replicate_le: "n \<le> m \<Longrightarrow> replicate n (c::char) \<le> replicate m c"
proof (induction n arbitrary: m)
  case (Suc n)
  then obtain k where "m = Suc k" "n \<le> k" by (cases m) auto
  then show ?case using Suc.IH by simp
qed simp

lemma long_names_facts:
  "sorted long_names" "distinct long_names" "list_all identifier_ok long_names"
  "\<forall>s \<in> set long_names. list_all printable s"
proof -
  show "sorted long_names" by (auto simp: long_names_def sorted_map intro: sorted_wrt_mono_rel [OF _ sorted_upt] replicate_le)
  show "distinct long_names" by (auto simp: long_names_def distinct_map inj_on_def dest: arg_cong [of _ _ length])
  have "identifier_ok (replicate n CHR ''z'')" if "100 \<le> n" "n < 126" for n
  proof -
    from that obtain k where "n = Suc k" by (cases n) simp_all
    then show ?thesis using that
      by (auto simp: identifier_ok_def is_letter_def is_lower_def is_id_char_def list_all_iff)
  qed
  then show "list_all identifier_ok long_names" by (auto simp: long_names_def list_all_iff)
  then show "\<forall>s \<in> set long_names. list_all printable s" using identifier_printable by (auto simp: list_all_iff)
qed

lemma long_privacy_ok: "privacy_ok long_privacy"
proof -
  have below: "e \<le> s" if "e \<in> set required_exclusions" "s \<in> set long_names" for e s
  proof -
    from that(2) obtain n where n: "100 \<le> n" "s = replicate n CHR ''z''" by (auto simp: long_names_def)
    then obtain k where "s = CHR ''z'' # replicate k CHR ''z''" by (cases n) simp_all
    then show ?thesis using that(1) by (auto simp: required_exclusions_def)
  qed
  then have apart: "set required_exclusions \<inter> set long_names = {}"
  proof -
    have "\<forall>s \<in> set long_names. hd s = CHR ''z''" by (auto simp: long_names_def hd_replicate)
    moreover have "\<forall>s \<in> set required_exclusions. hd s \<noteq> CHR ''z''" by (simp add: required_exclusions_def)
    ultimately show ?thesis by blast
  qed
  have "sorted (required_exclusions @ long_names)"
    using required_sorted(1) long_names_facts(1) below by (auto simp: sorted_append)
  then show ?thesis
    using required_sorted long_names_facts apart sample_privacy_ok
    by (simp add: long_privacy_def sample_privacy_def privacy_ok_def option_ok_def audit_fits_def)
qed

lemma names_text:
  assumes "\<forall>s \<in> set xs. list_all printable s"
  shows "map stringify (map JStr xs) = map (\<lambda>s. CHR 0x22 # s @ [CHR 0x22]) xs"
  using assms quote_printable by auto

lemma js_join_marks: "marks (js_join '','' xs) = sum_list (map marks xs)"
  by (induction "'','' :: string" xs rule: js_join.induct) auto

lemma js_join_readable: "\<forall>x \<in> set xs. list_all readable x \<Longrightarrow> list_all readable (js_join '','' xs)"
  by (induction "'','' :: string" xs rule: js_join.induct) (auto simp: readable_def)

lemma js_join_append:
  "xs \<noteq> [] \<Longrightarrow> ys \<noteq> [] \<Longrightarrow> js_join sep (xs @ ys) = js_join sep xs @ sep @ js_join sep ys"
  by (induction sep xs rule: js_join.induct) (auto simp: neq_Nil_conv)

lemma long_names_text:
  "length (js_join '','' (map stringify (map JStr long_names))) = 3002"
  "marks (js_join '','' (map stringify (map JStr long_names))) = 52"
  "list_all readable (js_join '','' (map stringify (map JStr long_names)))"
proof -
  note t = names_text [OF long_names_facts(4)]
  have ne: "long_names \<noteq> []" by (simp add: long_names_def)
  have l: "length long_names = 26" by (simp add: long_names_def)
  have "sum_list (map (\<lambda>s. length (CHR 0x22 # s @ [CHR 0x22])) long_names) = 2977"
    by (simp add: long_names_def comp_def upt_rec)
  then show "length (js_join '','' (map stringify (map JStr long_names))) = 3002"
    using js_join_length [of "map (\<lambda>s. CHR 0x22 # s @ [CHR 0x22]) long_names"] ne l
    unfolding t by (simp add: comp_def)
  have "sum_list (map (\<lambda>s. marks (CHR 0x22 # s @ [CHR 0x22])) long_names) = sum_list (map (\<lambda>s. 2) long_names)"
    using long_names_facts(4) printable_marks by (intro arg_cong [of _ _ sum_list] map_cong) auto
  then show "marks (js_join '','' (map stringify (map JStr long_names))) = 52"
    using l unfolding t js_join_marks by (simp add: comp_def sum_list_triv)
  show "list_all readable (js_join '','' (map stringify (map JStr long_names)))"
    using long_names_facts(4) printable_readable unfolding t
    by (intro js_join_readable) (auto simp: list_all_iff readable_def)
qed

lemma long_policy_facts:
  "length long_policy_text \<le> 3800" "3390 \<le> length long_policy_text" "72 \<le> marks long_policy_text" "marks long_policy_text \<le> 120"
  "list_all readable long_policy_text"
  "starts_with long_policy_text ''[\"selene-design-revision-privacy-binding/v2\",''"
proof -
  have d: "list_all readable digest_a" by (simp add: digest_a_def readable_def list_all_iff)
  have join: "js_join '','' (map stringify (map JStr (required_exclusions @ long_names))) =
      js_join '','' (map stringify (map JStr required_exclusions)) @ '','' @
      js_join '','' (map stringify (map JStr long_names))"
    by (simp only: map_append, rule js_join_append) (simp_all add: required_exclusions_def long_names_def)
  have rows: "stringify (JArr (map JStr (required_exclusions @ long_names))) =
      CHR ''['' # (js_join '','' (map stringify (map JStr required_exclusions)) @ '','' @
      js_join '','' (map stringify (map JStr long_names))) @ '']''"
    unfolding stringify.simps join ..
  note facts = long_names_text exclusions_size exclusions_text(2) d
  define e where "e = stringify (JArr (map JStr (required_exclusions @ long_names)))"
  have e: "length e \<le> 3185" "3004 \<le> length e" "marks e = 72" "list_all readable e"
    unfolding e_def rows using facts by (simp_all add: readable_def)
  have "long_policy_text = stringify (JArr [JStr ''selene-design-revision-privacy-binding/v2'', JStr ''internal'',
      JStr digest_a, JNull, JArr [], JStr time_3, JStr ''tombstone'', JStr digest_a, JStr digest_a, JStr ''audit'',
      JArr (map JStr (required_exclusions @ long_names)),
      JArr [JStr ''selene-design-telemetry-policy/v1'', JStr ''disabled'', JStr ''not-granted'', JStr ''denied'', JArr []]])"
    by (simp add: long_policy_text_def privacy_row_def long_privacy_def sample_privacy_def json_option_def)
  then have txt_eq: "long_policy_text = CHR ''['' # ''\"selene-design-revision-privacy-binding/v2\",\"internal\",\"'' @ digest_a @
      ''\",null,[],\"2030-01-01T00:00:00.000Z\",\"tombstone\",\"'' @ digest_a @ ''\",\"'' @ digest_a @ ''\",\"audit\",'' @ e @
      '',[\"selene-design-telemetry-policy/v1\",\"disabled\",\"not-granted\",\"denied\",[]]]''"
    unfolding stringify.simps(6) [of "JStr ''selene-design-revision-privacy-binding/v2'' # xs" for xs] list.map
      js_join.simps e_def [symmetric]
    by (simp add: digest_quote time_3_def quote_printable printable_def)
  show "length long_policy_text \<le> 3800" "3390 \<le> length long_policy_text" "72 \<le> marks long_policy_text" "marks long_policy_text \<le> 120"
    "list_all readable long_policy_text"
    "starts_with long_policy_text ''[\"selene-design-revision-privacy-binding/v2\",''"
    using e d unfolding txt_eq by (simp_all add: readable_def starts_with_def)
qed

lemma long_policy_binding: "privacy_binding_of long_privacy = Inr long_policy_text"
  using long_policy_facts by (auto simp: privacy_binding_of_Inr long_policy_text_def privacy_binding_ok_def)

lemma sample_binding_lower: "600 \<le> length sample_binding" "26 \<le> marks sample_binding"
  by (simp_all add: sample_binding_def tuple_row_def sample_tuple_def digest_quote quote_printable printable_def)

lemma long_commitment_facts:
  assumes r: "revision_tenant r = ''tenant''" "revision_project r = ''project''" "revision_name r = ''r1''"
    "parent_revision r = None" "revision_sequence r = 1" "created_at r = time_1"
    "revision_binding r = sample_binding" "revision_privacy r = long_privacy"
  shows "commitment_ok (stringify (commitment_row r long_policy_text))"
    "4096 < length (stringify (commitment_row r long_policy_text))"
proof -
  note q = quote_marks [OF sample_binding_facts(2)] quote_marks [OF long_policy_facts(5)]
    sample_binding_size sample_binding_lower long_policy_facts(1-4)
  show "commitment_ok (stringify (commitment_row r long_policy_text))"
    "4096 < length (stringify (commitment_row r long_policy_text))"
    using q
    by (simp_all add: commitment_row_def r json_option_def transition_row_def long_privacy_def
        sample_privacy_def time_1_def quote_printable printable_def int_text_def nat_text.simps
        commitment_ok_def starts_with_def)
qed

lemma long_revision_sealed: "sealed long_revision"
  unfolding long_revision_def
  by (rule sample_seal [where p = long_policy_text])
    (simp_all add: long_policy_binding long_commitment_facts(1))

lemma long_revision_ok: "revision_ok long_revision"
  using long_revision_sealed long_privacy_ok
  by (simp add: revision_ok_def option_ok_def long_revision_def max_safe_integer_def)

lemma long_revision_commitment: "4096 < length (commitment long_revision)"
proof -
  have "commitment long_revision = stringify (commitment_row long_revision long_policy_text)"
    using long_revision_sealed long_policy_binding
    by (auto simp: sealed_def commitment_of_Inr long_revision_def)
  moreover have "4096 < length (stringify (commitment_row long_revision long_policy_text))"
    by (rule long_commitment_facts(2)) (simp_all add: long_revision_def sample_binding_def)
  ultimately show ?thesis by simp
qed

text \<open>A revision whose commitment is longer than the bound of export bindings can be committed but
  never exported: the binding of every authority for it contains the commitment, and a commitment may
  be twice as long as an export binding.\<close>

theorem long_commitment_never_exported:
  assumes "parse_revision rv = Inr r" and "4096 < length (commitment r)"
  shows "evaluate_export port rv av now \<noteq> Eligible i"
proof
  assume "evaluate_export port rv av now = Eligible i"
  then obtain a p b h where a: "parse_export_authority av = Inr a" and m: "matches_commitment a h r p b now"
      and b: "create_export_binding (export_authority_json a) = Inr b"
    using assms(1) by (auto simp: evaluate_eligible)
  have "terms_commitment a = commitment r" using matches_terms(6) [OF m] .
  moreover have "length (terms_commitment a) \<le> length (stringify (export_row a))"
    using quote_text_length [of "terms_commitment a"] by (simp add: export_row_def)
  moreover have "length (stringify (export_row a)) \<le> 4096"
    using b export_authority_roundtrip [OF parse_export_authority_ok [OF a]]
    by (auto simp: create_export_binding_Inr export_binding_ok_def)
  ultimately show False using assms(2) by simp
qed



theorem long_commitment_never_exported_witness:
  "\<forall>port i. evaluate_export port (revision_json long_revision) (export_authority_json sample_terms) time_2 \<noteq> Eligible i"
  using long_commitment_never_exported [OF revision_roundtrip [OF long_revision_ok] long_revision_commitment] by blast

section \<open>The input boundary\<close>

text \<open>C18. The copy that threads one budget through an input and stops at the first excess accepts
  exactly the values nested at most 32 deep with at most 10000 entries per container, distinct keys, at
  most 10000 counted nodes and one million UTF-8 bytes of keys and strings.\<close>

theorem snapshot_accepts_within_budget:
  "snapshot_value v = (if within_budget v then Inr v else Inl Invalid)"
  by (rule snapshot_measured)

text \<open>On instants of four-digit years the order of the strings is the order of the times, so the
  comparisons of the contracts compare times.\<close>

theorem instants_order_as_strings:
  assumes "plain_instant s" and "plain_instant t"
  shows "s < t \<longleftrightarrow> stamp s < stamp t"
  using assms by (rule plain_instant_order)

theorem instants_order_as_strings_witness: "stamp time_1 < stamp time_2"
proof -
  have "plain_instant time_1" "plain_instant time_2"
    by (simp_all add: time_1_def time_2_def plain_instant_def clock_ok_def fits_def plain_template_def
        clock_template_def clock_fields_def number_of_def digit_of_def is_digit_def days_in_month_def leap_year_def
        numeral_eq_Suc)
  then show ?thesis using instants_order_as_strings sample_order(1) by blast
qed

text \<open>With years outside 0 to 9999, which the boundary accepts, it is not: the instant
  +010000-01-01 is later than 2024-01-01 and compares as earlier, so a contract that expires in the year
  10000 is refused as expired.\<close>

theorem expanded_instants_misordered:
  "instant (JStr ''+010000-01-01T00:00:00.000Z'') = Inr ''+010000-01-01T00:00:00.000Z'' \<and>
   instant (JStr ''2024-01-01T00:00:00.000Z'') = Inr ''2024-01-01T00:00:00.000Z'' \<and>
   (''+010000-01-01T00:00:00.000Z'' :: string) < ''2024-01-01T00:00:00.000Z'' \<and>
   stamp ''2024-01-01T00:00:00.000Z'' < stamp ''+010000-01-01T00:00:00.000Z''"
proof (intro conjI)
  have rep: "replicate 4 (None :: char option) = [None, None, None, None]"
    "replicate 6 (None :: char option) = [None, None, None, None, None, None]"
    by (simp_all add: numeral_eq_Suc)
  note defs = is_instant_def plain_instant_def expanded_instant_def clock_ok_def
    fits_def plain_template_def clock_template_def clock_fields_def number_of_def digit_of_def is_digit_def
    days_in_month_def leap_year_def rep
  have "is_instant ''+010000-01-01T00:00:00.000Z''" by (simp add: defs)
  then show "instant (JStr ''+010000-01-01T00:00:00.000Z'') = Inr ''+010000-01-01T00:00:00.000Z''"
    by (simp add: instant_def)
  have "is_instant ''2024-01-01T00:00:00.000Z''" by (simp add: defs)
  then show "instant (JStr ''2024-01-01T00:00:00.000Z'') = Inr ''2024-01-01T00:00:00.000Z''"
    by (simp add: instant_def)
  show "(''+010000-01-01T00:00:00.000Z'' :: string) < ''2024-01-01T00:00:00.000Z''" by simp
  show "stamp ''2024-01-01T00:00:00.000Z'' < stamp ''+010000-01-01T00:00:00.000Z''"
    by (simp add: stamp_def number_of_def digit_of_def is_digit_def)
qed

section \<open>Preflight and migration\<close>

text \<open>A preflight that succeeds returns a privacy record that is canonical again, has the same
  binding, a strictly later lifecycle and the transition as its audit.\<close>

theorem preflight_advances:
  assumes "transition_lifecycle pv tv = Preflight p t"
  shows "\<exists>q. parse_privacy pv = Inr q \<and> privacy_lifecycle q < privacy_lifecycle p \<and>
    privacy_binding_of p = privacy_binding_of q \<and> lifecycle_audit p = Some t \<and>
    parse_transition tv = Inr t \<and> parse_privacy (privacy_json p) = Inr p"
proof -
  let ?parsed = "andThen (snapshot_value pv) (\<lambda>v. andThen (parse_privacy v) (\<lambda>current.
             andThen (parse_transition tv) (\<lambda>t. Inr (current, t))))"
  obtain q u where parsed: "?parsed = Inr (q, u)"
    using assms by (cases ?parsed) (auto simp: transition_lifecycle_def split: design_error.splits)
  then have q: "parse_privacy pv = Inr q" "parse_transition tv = Inr u"
    by (auto simp: andThen_eq_Inr snapshot_value_Inr)
  from assms have p: "p = q\<lparr>privacy_lifecycle := transition_to u, lifecycle_audit := Some u\<rparr>" "t = u"
    and ok: "can_transition (privacy_lifecycle q) (transition_to u)" "transition_audit_id u = audit_id q"
    unfolding transition_lifecycle_def parsed by (auto split: if_splits)
  have "privacy_row p = privacy_row q" by (simp add: p privacy_row_def)
  then have b: "privacy_binding_of p = privacy_binding_of q" by (simp add: privacy_binding_of_def)
  have "transition_to u \<noteq> Active" using ok(1) by (auto simp: can_transition_def)
  then have "privacy_ok p" using parse_privacy_ok [OF q(1)] parse_transition_ok [OF q(2)] ok(2)
    by (simp add: p(1) privacy_ok_def audit_fits_def option_ok_def)
  then show ?thesis using q p b ok(1) privacy_roundtrip by (auto simp: can_transition_less)
qed

text \<open>The preflight of a redaction.\<close>

definition redaction :: privacy_transition where
  "redaction = \<lparr>transition_from = Active, transition_to = Redacted, occurred_at = time_2,
     transition_audit_id = ''audit'', prior_revision_id = None, prior_tuple_binding = None,
     prior_privacy_binding = None, transition_tombstone = None\<rparr>"

lemma redaction_preflight:
  "transition_lifecycle (privacy_json sample_privacy) (transition_json redaction) =
     Preflight (sample_privacy\<lparr>privacy_lifecycle := Redacted, lifecycle_audit := Some redaction\<rparr>) redaction"
proof -
  have snap: "snapshot_value (privacy_json sample_privacy) = Inr (privacy_json sample_privacy)"
    using privacy_size [OF sample_privacy_ok sample_policy_binding] by (intro snapshot_fits) (simp_all add: limits)
  have "transition_ok redaction" by (simp add: redaction_def transition_ok_def option_ok_def)
  then have t: "parse_transition (transition_json redaction) = Inr redaction" by (rule transition_roundtrip)
  have f: "transition_from redaction = Active" "transition_to redaction = Redacted"
      "transition_audit_id redaction = ''audit''" by (simp_all add: redaction_def)
  show ?thesis
    unfolding transition_lifecycle_def snap andThen_Inr privacy_roundtrip [OF sample_privacy_ok] t
    by (simp add: f sample_audit_fields can_transition_def)
qed

theorem preflight_advances_witness:
  "\<exists>q. parse_privacy (privacy_json sample_privacy) = Inr q \<and> privacy_lifecycle q < Redacted"
  using preflight_advances [OF redaction_preflight] by (auto simp: sample_privacy_def)

end
