(* ===== verification/Baseline.thy ===== *)
theory Baseline
  imports Design_Input
begin

text \<open>
  Design baselines, \<open>packages/core/src/design-baseline.ts\<close>: the inert copy of hostile values, the
  validation of changes and states, and the commands that mark a design ready, record a design
  mutation or record collaboration activity.

  Values are JavaScript data throughout, because every function copies and validates a value of any
  shape and returns objects that keep the properties it does not know.
\<close>

section \<open>Errors and limits\<close>

text \<open>\<open>BaselineTypeError\<close> is the engine's error for a property access on \<open>null\<close>.\<close>

datatype baseline_error = BaselineError string | BaselineTypeError

definition max_baseline_bytes :: nat where "max_baseline_bytes = 10 * 1024 * 1024"
definition max_baseline_nodes :: nat where "max_baseline_nodes = 10000"
definition max_baseline_depth :: nat where "max_baseline_depth = 64"
definition max_items :: nat where "max_items = 10000"
definition max_text :: nat where "max_text = 1000000"
definition max_identifier :: nat where "max_identifier = 128"
definition max_timestamp :: nat where "max_timestamp = 64"
definition max_url :: nat where "max_url = 2048"
definition max_evidence :: nat where "max_evidence = 1000"
definition max_references :: nat where "max_references = 1000"

section \<open>The inert copy\<close>

record owned_budget =
  owned_bytes :: nat
  owned_nodes :: nat

definition add_bytes :: "nat \<Rightarrow> owned_budget \<Rightarrow> owned_budget option" where
  "add_bytes k b =
     (let n = owned_bytes b + k in if n > max_baseline_bytes then None else Some (b\<lparr>owned_bytes := n\<rparr>))"

definition add_node :: "owned_budget \<Rightarrow> owned_budget option" where
  "add_node b =
     (let n = owned_nodes b + 1 in if n > max_baseline_nodes then None else Some (b\<lparr>owned_nodes := n\<rparr>))"

lemma indexed_size [termination_simp]:
  "ix \<in> set (enumerate n xs) \<Longrightarrow> size (snd ix) < Suc (size_list size xs)"
proof (induction xs arbitrary: n)
  case (Cons x xs)
  from Cons.prems consider "ix = (n, x)" | "ix \<in> set (enumerate (Suc n) xs)" by auto
  then show ?case
  proof cases
    case 2
    then show ?thesis using Cons.IH [of "Suc n"] by simp
  qed simp
qed simp

text \<open>\<open>visit(value, depth)\<close> without the copy it returns.  A property named \<open>length\<close> is skipped, of
  arrays and of objects.\<close>

fun visit :: "nat \<Rightarrow> json \<Rightarrow> owned_budget \<Rightarrow> owned_budget option" where
  "visit depth v b =
     (if depth > max_baseline_depth then None
      else case v of
        JNull \<Rightarrow> add_bytes 4 b
      | JBool x \<Rightarrow> add_bytes 5 b
      | JNum n \<Rightarrow> add_bytes 24 b
      | JDec d \<Rightarrow> add_bytes 24 b
      | JStr s \<Rightarrow> (if length s > max_text then None else add_bytes (utf8_length s) b)
      | JArr xs \<Rightarrow>
          Option.bind (add_node b) (\<lambda>b1.
            if length xs + 1 > max_items then None
            else budgeted (\<lambda>ix b2. Option.bind (add_bytes (length (nat_text (fst ix))) b2)
              (visit (depth + 1) (snd ix))) (enumerate 0 xs) b1)
      | JObj kvs \<Rightarrow>
          Option.bind (add_node b) (\<lambda>b1.
            if length kvs > max_items \<or> \<not> distinct (map fst kvs) then None
            else budgeted (\<lambda>kv b2. if fst kv = ''length'' then Some b2
              else Option.bind (add_bytes (utf8_length (fst kv)) b2) (visit (depth + 1) (snd kv))) kvs b1)
      | JOther f \<Rightarrow> None)"

declare visit.simps [simp del]

text \<open>The copy.\<close>

fun inert_copy :: "json \<Rightarrow> json" where
  "inert_copy (JArr xs) = JArr (map inert_copy xs)"
| "inert_copy (JObj kvs) =
     JObj (map (\<lambda>kv. (fst kv, inert_copy (snd kv))) (filter (\<lambda>kv. fst kv \<noteq> ''length'') kvs))"
| "inert_copy v = v"

definition owned :: "json \<Rightarrow> baseline_error + json" where
  "owned v =
     (if visit 0 v \<lparr>owned_bytes = 0, owned_nodes = 0\<rparr> = None
      then Inl (BaselineError ''Design baseline input is invalid'')
      else Inr (inert_copy v))"

section \<open>Validation\<close>

definition require_text :: "json \<Rightarrow> string \<Rightarrow> baseline_error + unit" where
  "require_text v name =
     failIf (case v of JStr s \<Rightarrow> js_trim s = [] \<or> length s > max_text | _ \<Rightarrow> True)
       (BaselineError (name @ '' must not be empty'')) (Inr ())"

definition unique_names :: "json \<Rightarrow> string \<Rightarrow> baseline_error + unit" where
  "unique_names v name =
     failIf (case v of
         JArr xs \<Rightarrow> length xs > max_references \<or>
           \<not> list_all (\<lambda>x. case x of JStr s \<Rightarrow> length s \<le> max_identifier | _ \<Rightarrow> False) xs \<or> \<not> distinct xs
       | _ \<Rightarrow> True)
       (BaselineError (name @ '' must be unique'')) (Inr ())"

definition as_record :: "json \<Rightarrow> string \<Rightarrow> baseline_error + (string \<times> json) list" where
  "as_record v name =
     (case v of JObj kvs \<Rightarrow> Inr kvs | _ \<Rightarrow> Inl (BaselineError (name @ '' must be an object'')))"

definition verify_reference :: "json \<Rightarrow> string \<Rightarrow> baseline_error + unit" where
  "verify_reference v name =
     andThen (as_record v name) (\<lambda>r.
     andThen (require_text (field r ''id'') (name @ ''.id'')) (\<lambda>u.
     require_text (field r ''fingerprint'') (name @ ''.fingerprint'')))"

text \<open>\<open>YYYY-MM-DDTHH:mm:ss\<close>, an optional fraction of one to three digits and \<open>Z\<close>; padding the
  fraction gives the canonical text of the instant.\<close>

definition timestamp_fraction :: "string \<Rightarrow> string option" where
  "timestamp_fraction rest =
     (if rest = ''Z'' then Some []
      else case rest of
        c # r \<Rightarrow>
          (if c = CHR ''.'' \<and> 2 \<le> length r \<and> length r \<le> 4 \<and> last r = CHR ''Z'' \<and> list_all is_digit (butlast r)
           then Some (butlast r) else None)
      | [] \<Rightarrow> None)"

definition valid_timestamp :: "json \<Rightarrow> bool" where
  "valid_timestamp v \<longleftrightarrow>
     (case v of
        JStr s \<Rightarrow>
          length s \<le> max_timestamp \<and>
          (case timestamp_fraction (drop 19 s) of
             None \<Rightarrow> False
           | Some f \<Rightarrow> plain_instant (take 19 s @ ''.'' @ f @ replicate (3 - length f) CHR ''0'' @ ''Z''))
      | _ \<Rightarrow> False)"

definition check_evidence :: "json \<Rightarrow> baseline_error + unit" where
  "check_evidence v =
     andThen (as_record v ''evidence'') (\<lambda>e.
     andThen (require_text (field e ''description'') ''evidence.description'') (\<lambda>u.
     andThen (if undefined_json (field e ''href'') then Inr ()
              else andThen (require_text (field e ''href'') ''evidence.href'') (\<lambda>u.
                failIf (case field e ''href'' of JStr s \<Rightarrow> length s > max_url | _ \<Rightarrow> False)
                  (BaselineError ''evidence.href is too long'') (Inr ()))) (\<lambda>u.
     if undefined_json (field e ''checksum'') then Inr ()
     else require_text (field e ''checksum'') ''evidence.checksum'')))"

definition check_scope :: "json \<Rightarrow> baseline_error + unit" where
  "check_scope v =
     andThen (as_record v ''change.affected'') (\<lambda>a.
     andThen (require_text (field a ''projectId'') ''change.affected.projectId'') (\<lambda>u.
     andThen (mapResult (\<lambda>name. unique_names (field a name) (''change.affected.'' @ name))
         [''screenIds'', ''routePaths'', ''scenarioIds'', ''componentIds'', ''stableNodeIds'']) (\<lambda>u. Inr ())))"

definition check_provenance :: "json \<Rightarrow> baseline_error + unit" where
  "check_provenance v =
     andThen (as_record v ''change.provenance'') (\<lambda>p.
     if field p ''kind'' = JStr ''actor''
     then require_text (field p ''actorId'') ''provenance.actorId''
     else andThen (require_text (field p ''agentId'') ''provenance.agentId'') (\<lambda>u.
       require_text (field p ''promptDigest'') ''provenance.promptDigest''))"

definition name_of :: "json \<Rightarrow> string \<Rightarrow> json" where
  "name_of v k = (case v of JObj kvs \<Rightarrow> field kvs k | _ \<Rightarrow> JOther NonObject)"

definition validate_change :: "json \<Rightarrow> baseline_error + unit" where
  "validate_change value =
     andThen (owned value) (\<lambda>v.
     andThen (as_record v ''change'') (\<lambda>change.
     andThen (require_text (field change ''id'') ''change.id'') (\<lambda>u.
     andThen (require_text (field change ''reason'') ''change.reason'') (\<lambda>u.
     andThen (require_text (field change ''occurredAt'') ''change.occurredAt'') (\<lambda>u.
     failIf (\<not> valid_timestamp (field change ''occurredAt'')) (BaselineError ''change.occurredAt must be ISO time'')
    (andThen (verify_reference (field change ''beforeRevision'') ''change.beforeRevision'') (\<lambda>u.
     andThen (verify_reference (field change ''currentRevision'') ''change.currentRevision'') (\<lambda>u.
     failIf (name_of (field change ''beforeRevision'') ''id'' = name_of (field change ''currentRevision'') ''id'')
       (BaselineError ''design changes must advance the design revision'')
    (andThen (check_scope (field change ''affected'')) (\<lambda>u.
     failIf (case field change ''evidence'' of JArr xs \<Rightarrow> xs = [] \<or> length xs > max_evidence | _ \<Rightarrow> True)
       (BaselineError ''design changes require visual evidence'')
    (andThen (case field change ''evidence'' of JArr xs \<Rightarrow> mapResult check_evidence xs | _ \<Rightarrow> Inr []) (\<lambda>u.
     check_provenance (field change ''provenance'')))))))))))))"

definition change_elsewhere :: "json \<Rightarrow> json \<Rightarrow> bool" where
  "change_elsewhere change project \<longleftrightarrow> name_of (name_of change ''affected'') ''projectId'' \<noteq> project"

definition intent_mismatch :: "json \<Rightarrow> json \<Rightarrow> bool" where
  "intent_mismatch intent readiness \<longleftrightarrow>
     (intent = JStr ''review'' \<and> readiness \<noteq> JStr ''ready-for-review'') \<or>
     (intent = JStr ''handoff'' \<and> readiness \<noteq> JStr ''ready-for-handoff'')"

definition currency_inconsistent :: "json \<Rightarrow> json \<Rightarrow> json list \<Rightarrow> bool" where
  "currency_inconsistent currency stale changes \<longleftrightarrow>
     (currency = JStr ''current'' \<and> (stale = JBool True \<or> changes \<noteq> [])) \<or>
     (currency = JStr ''stale'' \<and> (stale \<noteq> JBool True \<or> changes = [])) \<or>
     currency = JStr ''none''"

definition validate_state :: "json \<Rightarrow> baseline_error + unit" where
  "validate_state value =
     andThen (owned value) (\<lambda>v.
     andThen (as_record v ''state'') (\<lambda>state.
     andThen (require_text (field state ''projectId'') ''state.projectId'') (\<lambda>u.
     failIf (field state ''readiness'' \<notin> {JStr ''draft'', JStr ''ready-for-review'', JStr ''ready-for-handoff''})
       (BaselineError ''state.readiness is invalid'')
    (failIf (field state ''currency'' \<notin> {JStr ''current'', JStr ''stale'', JStr ''none''})
       (BaselineError ''state.currency is invalid'')
    (case (field state ''approvalsStale'', field state ''changesSinceBaseline'') of
       (JBool stale, JArr changes) \<Rightarrow>
         (if undefined_json (field state ''baseline'')
          then failIf (field state ''readiness'' \<noteq> JStr ''draft'' \<or> field state ''currency'' \<noteq> JStr ''none'' \<or>
                 stale \<or> changes \<noteq> [])
               (BaselineError ''draft state cannot contain baseline data'') (Inr ())
          else
            andThen (as_record (field state ''baseline'') ''state.baseline'') (\<lambda>baseline.
            failIf (field baseline ''projectId'' \<noteq> field state ''projectId'')
              (BaselineError ''baseline must belong to the design baseline state project'')
           (andThen (verify_reference (field baseline ''revision'') ''state.baseline.revision'') (\<lambda>u.
            andThen (require_text (field baseline ''id'') ''state.baseline.id'') (\<lambda>u.
            andThen (require_text (field baseline ''createdBy'') ''state.baseline.createdBy'') (\<lambda>u.
            failIf (\<not> valid_timestamp (field baseline ''createdAt''))
              (BaselineError ''state.baseline.createdAt must be ISO time'')
           (failIf (field baseline ''intent'' \<notin> {JStr ''review'', JStr ''handoff''})
              (BaselineError ''state.baseline.intent is invalid'')
           (failIf (intent_mismatch (field baseline ''intent'') (field state ''readiness''))
              (BaselineError ''baseline intent must match readiness'')
           (failIf (currency_inconsistent (field state ''currency'') (JBool stale) changes)
              (BaselineError ''baseline currency and changelog are inconsistent'')
           (andThen (mapResult (\<lambda>change.
              andThen (validate_change change) (\<lambda>u.
              failIf (change_elsewhere change (field state ''projectId''))
                (BaselineError ''design change must belong to the design baseline state project'') (Inr ()))) changes)
              (\<lambda>u. Inr ())))))))))))
     | _ \<Rightarrow> Inl (BaselineError ''state is invalid''))))))"

section \<open>Commands\<close>

text \<open>\<open>===\<close> on values of two different copies: objects and arrays are never identical.\<close>

definition same_value :: "json \<Rightarrow> json \<Rightarrow> bool" where
  "same_value v w \<longleftrightarrow> v = w \<and> (case v of JArr xs \<Rightarrow> False | JObj kvs \<Rightarrow> False | _ \<Rightarrow> True)"

definition mark_ready :: "json \<Rightarrow> json \<Rightarrow> json \<Rightarrow> baseline_error + json" where
  "mark_ready state_value intent baseline_value =
     andThen (owned state_value) (\<lambda>v.
     andThen (owned baseline_value) (\<lambda>b.
     andThen (validate_state v) (\<lambda>u.
     andThen (as_record b ''baseline'') (\<lambda>baseline.
     andThen (require_text (name_of v ''projectId'') ''state.projectId'') (\<lambda>u.
     andThen (verify_reference (field baseline ''revision'') ''baseline.revision'') (\<lambda>u.
     andThen (require_text (field baseline ''id'') ''baseline.id'') (\<lambda>u.
     andThen (require_text (field baseline ''projectId'') ''baseline.projectId'') (\<lambda>u.
     failIf (field baseline ''projectId'' \<noteq> name_of v ''projectId'')
       (BaselineError ''baseline must belong to the design baseline state project'')
    (andThen (require_text (field baseline ''createdBy'') ''baseline.createdBy'') (\<lambda>u.
     failIf (\<not> valid_timestamp (field baseline ''createdAt''))
       (BaselineError ''baseline.createdAt must be ISO time'')
    (failIf (\<not> same_value (field baseline ''intent'') intent)
       (BaselineError ''baseline intent must match readiness transition'')
    (owned (JObj [(''baseline'', b), (''state'', JObj
       [(''projectId'', name_of v ''projectId''),
        (''readiness'', if intent = JStr ''review'' then JStr ''ready-for-review'' else JStr ''ready-for-handoff''),
        (''baseline'', b), (''currency'', JStr ''current''), (''changesSinceBaseline'', JArr []),
        (''approvalsStale'', JBool False)])])))))))))))))"

definition changes_of :: "json \<Rightarrow> json list" where
  "changes_of v = (case name_of v ''changesSinceBaseline'' of JArr xs \<Rightarrow> xs | _ \<Rightarrow> [])"

definition record_mutation :: "json \<Rightarrow> json \<Rightarrow> baseline_error + json" where
  "record_mutation state_value change_value =
     andThen (owned state_value) (\<lambda>v.
     andThen (owned change_value) (\<lambda>change.
     andThen (validate_state v) (\<lambda>u.
     andThen (require_text (name_of v ''projectId'') ''state.projectId'') (\<lambda>u.
     andThen (validate_change change) (\<lambda>u.
     failIf (change_elsewhere change (name_of v ''projectId''))
       (BaselineError ''design change must belong to the design baseline state project'')
    (case v of
       JObj state \<Rightarrow>
         (if undefined_json (field state ''baseline'') then Inr v
          else
            andThen (as_record (field state ''baseline'') ''state.baseline'') (\<lambda>baseline.
            failIf (field baseline ''projectId'' \<noteq> field state ''projectId'')
              (BaselineError ''baseline must belong to the design baseline state project'')
            (owned (JObj
              (with_entry ''approvalsStale'' (JBool True)
              (with_entry ''changesSinceBaseline'' (JArr (changes_of v @ [change]))
              (with_entry ''currency'' (JStr ''stale'') state)))))))
     | _ \<Rightarrow> Inr v))))))"

definition record_collaboration :: "json \<Rightarrow> json \<Rightarrow> baseline_error + json" where
  "record_collaboration state_value activity_value =
     andThen (owned state_value) (\<lambda>v.
     andThen (owned activity_value) (\<lambda>a.
     andThen (validate_state v) (\<lambda>u.
     andThen (as_record a ''activity'') (\<lambda>activity.
     andThen (require_text (field activity ''type'') ''activity.type'') (\<lambda>u.
     failIf (\<not> valid_timestamp (field activity ''occurredAt''))
       (BaselineError ''activity.occurredAt must be ISO time'') (Inr v))))))"

text \<open>A \<open>switch\<close> without a default: a command of another type returns \<open>undefined\<close>.\<close>

definition execute_baseline :: "json \<Rightarrow> json \<Rightarrow> baseline_error + json" where
  "execute_baseline state_value command_value =
     andThen (owned state_value) (\<lambda>v.
     andThen (owned command_value) (\<lambda>command.
       if command = JNull then Inl BaselineTypeError
       else if name_of command ''type'' = JStr ''mark-ready''
       then andThen (mark_ready v (name_of command ''intent'') (name_of command ''baseline'')) (\<lambda>t.
         Inr (name_of t ''state''))
       else if name_of command ''type'' = JStr ''apply-design-mutation''
       then record_mutation v (name_of command ''change'')
       else if name_of command ''type'' = JStr ''record-collaboration-activity''
       then record_collaboration v (name_of command ''activity'')
       else Inr (JOther NonObject)))"

definition recheck_manifest :: "json \<Rightarrow> baseline_error + json" where
  "recheck_manifest state_value =
     andThen (owned state_value) (\<lambda>v.
     andThen (validate_state v) (\<lambda>u.
     andThen (if undefined_json (name_of v ''baseline'') then Inr []
              else as_record (name_of v ''baseline'') ''state.baseline'') (\<lambda>baseline.
     owned (JObj
       ([(''projectId'', name_of v ''projectId'')] @
        (if undefined_json (name_of v ''baseline'') then [] else [(''baselineId'', field baseline ''id'')]) @
        [(''currency'', name_of v ''currency''), (''approvalsStale'', name_of v ''approvalsStale''),
         (''exactChangesToRecheck'', JArr (changes_of v))])))))"

text \<open>The boundary that persists the result.  The host's port is a parameter: what its \<open>commit\<close> does with
  the change it is given.  The signal is read before and after the port is called.\<close>

record baseline_commit =
  commit_state :: json
  commit_activity :: "json option"

datatype port_outcome = PortCommitted | PortRejectedWith baseline_error | PortFailed

definition dispatch_baseline ::
    "(baseline_commit \<Rightarrow> port_outcome) option \<Rightarrow> bool \<Rightarrow> bool \<Rightarrow> json \<Rightarrow> json \<Rightarrow> baseline_error + json" where
  "dispatch_baseline port aborted_before aborted_after state_value command_value =
     andThen (owned state_value) (\<lambda>v.
     andThen (owned command_value) (\<lambda>command.
     andThen (execute_baseline v command) (\<lambda>result.
     failIf aborted_before (BaselineError ''Baseline persistence was cancelled'')
    (case port of
       None \<Rightarrow> Inl (BaselineError ''Baseline persistence port is invalid'')
     | Some commit \<Rightarrow>
         andThen (if name_of command ''type'' = JStr ''record-collaboration-activity''
                  then andThen (owned (name_of command ''activity'')) (\<lambda>a. Inr (Some a)) else Inr None) (\<lambda>activity.
         case commit \<lparr>commit_state = result, commit_activity = activity\<rparr> of
           PortRejectedWith (BaselineError m) \<Rightarrow> Inl (BaselineError m)
         | PortCommitted \<Rightarrow>
             failIf aborted_after (BaselineError ''Baseline persistence was cancelled'') (Inr result)
         | _ \<Rightarrow> Inl (BaselineError ''Baseline persistence failed''))))))"

end
