(* ===== verification/Baseline_Copy.thy ===== *)
theory Baseline_Copy
  imports Baseline Metered
begin

text \<open>
  What \<open>ownBaselineValue\<close> accepts, as a declarative measure of the value; the copy is stable: it
  passes the boundary again, unchanged, and so does every object inside it.
\<close>

section \<open>The measure\<close>

text \<open>Within \<open>n\<close> levels, with bounded texts and widths.\<close>

fun copyable :: "nat \<Rightarrow> json \<Rightarrow> bool" where
  "copyable n (JStr s) \<longleftrightarrow> length s \<le> max_text"
| "copyable n (JArr xs) \<longleftrightarrow> length xs + 1 \<le> max_items \<and> list_all (\<lambda>x. 0 < n \<and> copyable (n - 1) x) xs"
| "copyable n (JObj kvs) \<longleftrightarrow> length kvs \<le> max_items \<and> distinct (map fst kvs) \<and>
     list_all (\<lambda>kv. fst kv = ''length'' \<or> 0 < n \<and> copyable (n - 1) (snd kv)) kvs"
| "copyable n (JOther f) \<longleftrightarrow> False"
| "copyable n _ \<longleftrightarrow> True"

fun copy_nodes :: "json \<Rightarrow> nat" where
  "copy_nodes (JArr xs) = 1 + sum_list (map copy_nodes xs)"
| "copy_nodes (JObj kvs) = 1 + sum_list (map (\<lambda>kv. if fst kv = ''length'' then 0 else copy_nodes (snd kv)) kvs)"
| "copy_nodes _ = 0"

fun copy_bytes :: "json \<Rightarrow> nat" where
  "copy_bytes JNull = 4"
| "copy_bytes (JBool x) = 5"
| "copy_bytes (JNum n) = 24"
| "copy_bytes (JDec d) = 24"
| "copy_bytes (JStr s) = utf8_length s"
| "copy_bytes (JArr xs) = sum_list (map copy_bytes xs) + sum_list (map (\<lambda>i. length (nat_text i)) [0..<length xs])"
| "copy_bytes (JObj kvs) = sum_list (map (\<lambda>kv. if fst kv = ''length'' then 0
     else utf8_length (fst kv) + copy_bytes (snd kv)) kvs)"
| "copy_bytes (JOther f) = 0"

definition owned_affords :: "owned_budget \<Rightarrow> nat \<Rightarrow> nat \<Rightarrow> bool" where
  "owned_affords b n y \<longleftrightarrow> owned_nodes b + n \<le> max_baseline_nodes \<and> owned_bytes b + y \<le> max_baseline_bytes"

definition owned_charge :: "nat \<Rightarrow> nat \<Rightarrow> owned_budget \<Rightarrow> owned_budget" where
  "owned_charge n y b = b\<lparr>owned_nodes := owned_nodes b + n, owned_bytes := owned_bytes b + y\<rparr>"

interpretation baseline_budget: meter owned_affords owned_charge
  by unfold_locales (auto simp: owned_affords_def owned_charge_def)

abbreviation owned_metered :: "bool \<Rightarrow> nat \<Rightarrow> nat \<Rightarrow> owned_budget \<Rightarrow> owned_budget option" where
  "owned_metered \<equiv> metered owned_affords owned_charge"

lemma add_bytes_metered: "owned_affords b 0 0 \<Longrightarrow> add_bytes y b = owned_metered True 0 y b"
  by (auto simp: add_bytes_def metered_def owned_affords_def owned_charge_def Let_def)

lemma add_node_metered: "owned_affords b 0 0 \<Longrightarrow> add_node b = owned_metered True 1 0 b"
  by (auto simp: add_node_def metered_def owned_affords_def owned_charge_def Let_def)

lemma metered_nothing: "owned_affords b 0 0 \<Longrightarrow> owned_metered True 0 0 b = Some b"
  by (simp add: metered_def owned_charge_def)

lemma sum_list_split: "sum_list (map (\<lambda>x. f x + g x) xs) = sum_list (map f xs) + (sum_list (map g xs) :: nat)"
  by (induction xs) auto

lemma sum_list_indexed:
  "sum_list (map (\<lambda>ix. f (fst ix) + g (snd ix)) (enumerate 0 xs)) =
     sum_list (map g xs) + (sum_list (map f [0..<length xs]) :: nat)"
proof -
  have "map (\<lambda>ix. g (snd ix)) (enumerate 0 xs) = map g xs" "map (\<lambda>ix. f (fst ix)) (enumerate 0 xs) = map f [0..<length xs]"
    using map_map [of g snd "enumerate 0 xs"] map_map [of f fst "enumerate 0 xs"] by (simp_all add: comp_def)
  then show ?thesis by (simp add: sum_list_split)
qed

lemma list_all_indexed: "list_all (\<lambda>ix. P (snd ix)) (enumerate n xs) = list_all P xs"
  by (induction xs arbitrary: n) auto

lemma indexed_in: "ix \<in> set (enumerate n xs) \<Longrightarrow> snd ix \<in> set xs"
  by (induction xs arbitrary: n) auto

lemma visit_metered:
  "d \<le> max_baseline_depth \<Longrightarrow> owned_affords b 0 0 \<Longrightarrow>
     visit d v b = owned_metered (copyable (max_baseline_depth - d) v) (copy_nodes v) (copy_bytes v) b"
proof (induction v arbitrary: d b)
  case (JArr xs)
  let ?m = "max_baseline_depth - d"
  let ?f = "\<lambda>ix b2. Option.bind (add_bytes (length (nat_text (fst ix))) b2) (visit (d + 1) (snd ix))"
  let ?P = "\<lambda>x. 0 < ?m \<and> copyable (?m - 1) x"
  have step: "?f ix c = owned_metered (?P (snd ix)) (copy_nodes (snd ix))
      (length (nat_text (fst ix)) + copy_bytes (snd ix)) c"
    if "ix \<in> set (enumerate 0 xs)" "owned_affords c 0 0" for ix c
  proof (cases "d < max_baseline_depth")
    case True
    then show ?thesis
      using baseline_budget.bind_metered [OF that(2), of "visit (d + 1) (snd ix)" "?P (snd ix)" "copy_nodes (snd ix)"
          "copy_bytes (snd ix)" True 0] JArr.IH [OF indexed_in [OF that(1)], of "d + 1"] that(2)
      by (simp add: add_bytes_metered)
  next
    case False
    then show ?thesis using JArr.prems(1) that(2)
      by (auto simp: visit.simps add_bytes_metered metered_def)
  qed
  have loop: "budgeted ?f (enumerate 0 xs) c = owned_metered (list_all ?P xs) (sum_list (map copy_nodes xs))
      (copy_bytes (JArr xs)) c" if "owned_affords c 0 0" for c
    using baseline_budget.budgeted_metered [of "enumerate 0 xs" ?f "\<lambda>ix. ?P (snd ix)" "\<lambda>ix. copy_nodes (snd ix)"
        "\<lambda>ix. length (nat_text (fst ix)) + copy_bytes (snd ix)", OF step that]
      sum_list_indexed [of "\<lambda>i. 0" copy_nodes xs] sum_list_indexed [of "\<lambda>i. length (nat_text i)" copy_bytes xs]
    by (simp add: list_all_indexed [of "?P" 0 xs, simplified])
  have "(if length xs + 1 > max_items then None else budgeted ?f (enumerate 0 xs) c) =
      owned_metered (copyable ?m (JArr xs)) (sum_list (map copy_nodes xs)) (copy_bytes (JArr xs)) c"
    if "owned_affords c 0 0" for c
    using that unfolding loop [OF that] by (simp add: metered_def not_le)
  from baseline_budget.bind_metered [OF JArr.prems(2) this, of True 1 0]
  show ?case using JArr.prems by (simp add: visit.simps add_node_metered del: copyable.simps copy_bytes.simps)
next
  case (JObj kvs)
  let ?m = "max_baseline_depth - d"
  let ?f = "\<lambda>kv b2. if fst kv = ''length'' then Some b2
    else Option.bind (add_bytes (utf8_length (fst kv)) b2) (visit (d + 1) (snd kv))"
  let ?P = "\<lambda>kv. fst kv = ''length'' \<or> 0 < ?m \<and> copyable (?m - 1) (snd kv)"
  let ?n = "\<lambda>kv. if fst kv = ''length'' then 0 else copy_nodes (snd kv)"
  let ?y = "\<lambda>kv. if fst kv = ''length'' then 0 else utf8_length (fst kv) + copy_bytes (snd kv)"
  have step: "?f kv c = owned_metered (?P kv) (?n kv) (?y kv) c"
    if "kv \<in> set kvs" "owned_affords c 0 0" for kv c
  proof (cases "fst kv = ''length''")
    case True
    then show ?thesis using that(2) by (simp add: metered_nothing)
  next
    case name: False
    show ?thesis
    proof (cases "d < max_baseline_depth")
      case True
      then show ?thesis
        using baseline_budget.bind_metered [OF that(2), of "visit (d + 1) (snd kv)" "copyable (?m - 1) (snd kv)"
            "copy_nodes (snd kv)" "copy_bytes (snd kv)" True 0] JObj.IH [OF that(1), of "snd kv" "d + 1"] that(2) name
        by (simp add: add_bytes_metered snds.simps)
    next
      case False
      then show ?thesis using JObj.prems(1) that(2) name
        by (auto simp: visit.simps add_bytes_metered metered_def)
    qed
  qed
  have loop: "budgeted ?f kvs c = owned_metered (list_all ?P kvs) (sum_list (map ?n kvs)) (sum_list (map ?y kvs)) c"
    if "owned_affords c 0 0" for c
    using step that by (rule baseline_budget.budgeted_metered)
  have "(if length kvs > max_items \<or> \<not> distinct (map fst kvs) then None else budgeted ?f kvs c) =
      owned_metered (copyable ?m (JObj kvs)) (sum_list (map ?n kvs)) (copy_bytes (JObj kvs)) c"
    if "owned_affords c 0 0" for c
    using that unfolding loop [OF that] by (simp add: metered_def not_le)
  from baseline_budget.bind_metered [OF JObj.prems(2) this, of True 1 0]
  show ?case using JObj.prems by (simp add: visit.simps add_node_metered del: copyable.simps copy_bytes.simps)
qed (auto simp: visit.simps add_bytes_metered metered_def)

definition ownable :: "json \<Rightarrow> bool" where
  "ownable v \<longleftrightarrow> copyable max_baseline_depth v \<and> copy_nodes v \<le> max_baseline_nodes \<and>
     copy_bytes v \<le> max_baseline_bytes"

lemma owned_measured: "owned v = (if ownable v then Inr (inert_copy v)
    else Inl (BaselineError ''Design baseline input is invalid''))"
  using visit_metered [of 0 "\<lparr>owned_bytes = 0, owned_nodes = 0\<rparr>" v]
  by (simp add: owned_def ownable_def metered_def owned_affords_def)

lemma owned_Inr [outcome_simps]: "owned v = Inr w \<longleftrightarrow> ownable v \<and> w = inert_copy v"
  by (auto simp: owned_measured)

lemma ownable_owned: "ownable v \<Longrightarrow> owned v = Inr (inert_copy v)"
  by (simp add: owned_measured)

section \<open>Copies are stable\<close>

lemma inert_copy_idem [simp]: "inert_copy (inert_copy v) = inert_copy v"
  by (induction v) (auto simp: comp_def filter_map snds.simps intro!: map_cong)

lemma copyable_mono: "copyable n v \<Longrightarrow> n \<le> m \<Longrightarrow> copyable m v"
proof (induction v arbitrary: n m)
  case (JArr xs)
  then show ?case by (fastforce simp: list_all_iff)
next
  case (JObj kvs)
  have "copyable (m - 1) (snd kv)" if "kv \<in> set kvs" "copyable (n - 1) (snd kv)" for kv
    using JObj.IH [OF that(1) _ that(2), of "m - 1"] JObj.prems(2) by (simp add: snds.simps)
  then show ?case using JObj.prems by (force simp: list_all_iff)
qed simp_all

lemma distinct_filter_keys: "distinct (map fst kvs) \<Longrightarrow> distinct (map fst (filter P kvs))"
  by (induction kvs) auto

lemma copyable_copy: "copyable n v \<Longrightarrow> copyable n (inert_copy v)"
proof (induction v arbitrary: n)
  case (JArr xs)
  then show ?case by (auto simp: list_all_iff)
next
  case (JObj kvs)
  have "copyable (n - 1) (inert_copy (snd kv))" if "kv \<in> set kvs" "copyable (n - 1) (snd kv)" for kv
    using JObj.IH [OF that(1) _ that(2)] by (simp add: snds.simps)
  moreover have "length (filter P kvs) \<le> max_items" for P
    using JObj.prems order_trans [OF length_filter_le] by auto
  ultimately show ?case using JObj.prems distinct_filter_keys [of kvs]
    by (auto simp: list_all_iff comp_def)
qed simp_all

lemma sum_list_filtered:
  "sum_list (map (\<lambda>x. if P x then 0 else f x) xs) = (sum_list (map f (filter (\<lambda>x. \<not> P x) xs)) :: nat)"
  by (induction xs) auto

lemma copy_measures [simp]: "copy_nodes (inert_copy v) = copy_nodes v" "copy_bytes (inert_copy v) = copy_bytes v"
proof (induction v)
  case (JArr xs)
  {
    case 1
    from JArr(1) show ?case by (simp add: comp_def cong: map_cong)
  next
    case 2
    from JArr(2) show ?case by (simp add: comp_def cong: map_cong)
  }
next
  case (JObj kvs)
  {
    case 1
    have "copy_nodes (inert_copy (snd kv)) = copy_nodes (snd kv)" if "kv \<in> set kvs" for kv
      using JObj(1) [OF that] by (simp add: snds.simps)
    then show ?case by (auto simp: sum_list_filtered comp_def intro!: arg_cong [where f = sum_list] map_cong)
  next
    case 2
    have "copy_bytes (inert_copy (snd kv)) = copy_bytes (snd kv)" if "kv \<in> set kvs" for kv
      using JObj(2) [OF that] by (simp add: snds.simps)
    then show ?case by (auto simp: sum_list_filtered comp_def intro!: arg_cong [where f = sum_list] map_cong)
  }
qed simp_all

text \<open>A value that is its own copy.\<close>

definition settled :: "json \<Rightarrow> bool" where
  "settled v \<longleftrightarrow> ownable v \<and> inert_copy v = v"

lemma owned_settled: "owned v = Inr w \<Longrightarrow> settled w"
  by (auto simp: owned_Inr settled_def ownable_def copyable_copy)

lemma settled_owned [simp]: "settled v \<Longrightarrow> owned v = Inr v"
  by (simp add: settled_def owned_Inr)

lemma member_le_sum: "x \<in> set xs \<Longrightarrow> f x \<le> (sum_list (map f xs) :: nat)"
  by (induction xs) auto

lemma settled_element: "settled (JArr xs) \<Longrightarrow> x \<in> set xs \<Longrightarrow> settled x"
proof -
  assume s: "settled (JArr xs)" and x: "x \<in> set xs"
  have "copyable (max_baseline_depth - 1) x" using s x by (auto simp: settled_def ownable_def list_all_iff)
  then have "copyable max_baseline_depth x" by (rule copyable_mono) simp
  moreover have "copy_nodes x \<le> max_baseline_nodes" "copy_bytes x \<le> max_baseline_bytes"
    using s member_le_sum [OF x, of copy_nodes] member_le_sum [OF x, of copy_bytes]
    by (auto simp: settled_def ownable_def)
  moreover have "inert_copy x = x" using s x by (simp add: settled_def map_idI list_eq_iff_nth_eq in_set_conv_nth) metis
  ultimately show ?thesis by (simp add: settled_def ownable_def)
qed

lemma map_filter_fixed: "map f (filter P xs) = xs \<Longrightarrow> x \<in> set xs \<Longrightarrow> (\<And>x. P (f x) = P x) \<Longrightarrow> P x \<and> f x = x"
proof (induction xs)
  case (Cons y ys)
  have "length (filter P ys) \<le> length ys" by simp
  moreover have "length (filter P (y # ys)) = length (y # ys)"
    using arg_cong [OF Cons.prems(1), of length] by simp
  ultimately have "P y" by (cases "P y") (simp_all del: length_filter_le)
  then show ?case using Cons by auto
qed simp

lemma settled_entry: "settled (JObj kvs) \<Longrightarrow> kv \<in> set kvs \<Longrightarrow> fst kv \<noteq> ''length'' \<and> settled (snd kv)"
proof -
  assume s: "settled (JObj kvs)" and kv: "kv \<in> set kvs"
  have "fst kv \<noteq> ''length'' \<and> (fst kv, inert_copy (snd kv)) = kv"
    using s kv by (intro map_filter_fixed) (auto simp: settled_def)
  then have name: "fst kv \<noteq> ''length''" and fixed: "inert_copy (snd kv) = snd kv" by (auto simp: prod_eq_iff)
  have "copyable (max_baseline_depth - 1) (snd kv)"
    using s kv name by (auto simp: settled_def ownable_def list_all_iff)
  then have "copyable max_baseline_depth (snd kv)" by (rule copyable_mono) simp
  moreover have "copy_nodes (snd kv) \<le> max_baseline_nodes" "copy_bytes (snd kv) \<le> max_baseline_bytes"
    using s name
      member_le_sum [OF kv, of "\<lambda>kv. if fst kv = ''length'' then 0 else copy_nodes (snd kv)"]
      member_le_sum [OF kv, of "\<lambda>kv. if fst kv = ''length'' then 0 else utf8_length (fst kv) + copy_bytes (snd kv)"]
    by (auto simp: settled_def ownable_def)
  ultimately show ?thesis using name fixed by (simp add: settled_def ownable_def)
qed

lemma settled_field: "settled (JObj kvs) \<Longrightarrow> undefined_json (field kvs k) \<or> settled (field kvs k)"
proof (cases "map_of kvs k")
  case (Some v)
  then show "settled (JObj kvs) \<Longrightarrow> ?thesis" using settled_entry [of kvs "(k, v)"]
    by (simp add: field_def map_of_SomeD)
qed (simp add: field_def undefined_json_def)

lemma settled_keys: "settled (JObj kvs) \<Longrightarrow> distinct (map fst kvs)"
  by (simp add: settled_def ownable_def)

lemma not_settled_other [simp]: "\<not> settled (JOther f)"
  by (simp add: settled_def ownable_def)

end
