(* ===== verification/Baseline_Safety.thy ===== *)
theory Baseline_Safety
  imports Baseline_Copy
begin

text \<open>
  What the validators of \<open>packages/core/src/design-baseline.ts\<close> accept, in declarative form, and the
  effect of each command on the abstract state of a project: a draft, or a baseline with the design
  changes made since.
\<close>

section \<open>Validators\<close>

definition text_ok :: "json \<Rightarrow> bool" where
  "text_ok v \<longleftrightarrow> (case v of JStr s \<Rightarrow> js_trim s \<noteq> [] \<and> length s \<le> max_text | _ \<Rightarrow> False)"

definition reference_ok :: "json \<Rightarrow> bool" where
  "reference_ok v \<longleftrightarrow> (case v of JObj r \<Rightarrow> text_ok (field r ''id'') \<and> text_ok (field r ''fingerprint'') | _ \<Rightarrow> False)"

definition change_ok :: "json \<Rightarrow> json \<Rightarrow> bool" where
  "change_ok project c \<longleftrightarrow> validate_change c = Inr () \<and> \<not> change_elsewhere c project"

definition ready_for :: "json \<Rightarrow> json" where
  "ready_for intent = (if intent = JStr ''review'' then JStr ''ready-for-review'' else JStr ''ready-for-handoff'')"

definition based_ok :: "json \<Rightarrow> (string \<times> json) list \<Rightarrow> bool" where
  "based_ok project b \<longleftrightarrow>
     field b ''projectId'' = project \<and> reference_ok (field b ''revision'') \<and> text_ok (field b ''id'') \<and>
     text_ok (field b ''createdBy'') \<and> valid_timestamp (field b ''createdAt'') \<and>
     field b ''intent'' \<in> {JStr ''review'', JStr ''handoff''}"

text \<open>A draft carries nothing; a based state is current exactly when no change was made since.\<close>

definition baseline_state_ok :: "json \<Rightarrow> bool" where
  "baseline_state_ok v \<longleftrightarrow>
     (case v of
        JObj s \<Rightarrow> text_ok (field s ''projectId'') \<and>
          (if undefined_json (field s ''baseline'')
           then field s ''readiness'' = JStr ''draft'' \<and> field s ''currency'' = JStr ''none'' \<and>
             field s ''approvalsStale'' = JBool False \<and> field s ''changesSinceBaseline'' = JArr []
           else (case (field s ''baseline'', field s ''changesSinceBaseline'') of
              (JObj b, JArr cs) \<Rightarrow> based_ok (field s ''projectId'') b \<and>
                field s ''readiness'' = ready_for (field b ''intent'') \<and>
                field s ''currency'' = (if cs = [] then JStr ''current'' else JStr ''stale'') \<and>
                field s ''approvalsStale'' = JBool (cs \<noteq> []) \<and>
                list_all (change_ok (field s ''projectId'')) cs
            | _ \<Rightarrow> False))
      | _ \<Rightarrow> False)"

lemma require_text_Inr [outcome_simps]: "require_text v n = Inr u \<longleftrightarrow> text_ok v"
  by (auto simp: require_text_def text_ok_def failIf_eq_Inr not_less split: json.splits)

lemma as_record_Inr [outcome_simps]: "as_record v n = Inr r \<longleftrightarrow> v = JObj r"
  by (cases v) (auto simp: as_record_def)

lemma verify_reference_Inr [outcome_simps]: "verify_reference v n = Inr u \<longleftrightarrow> reference_ok v"
  by (cases v) (auto simp: verify_reference_def outcome_simps reference_ok_def)

lemma require_text_ok: "text_ok v \<Longrightarrow> require_text v n = Inr ()"
  and verify_reference_ok: "reference_ok v \<Longrightarrow> verify_reference v n = Inr ()"
  by (simp_all add: require_text_Inr verify_reference_Inr)

lemma mapResult_units: "(\<exists>us. mapResult f xs = Inr us) \<longleftrightarrow> list_all (\<lambda>x. \<exists>u. f x = Inr u) xs"
  by (induction xs) (auto simp: outcome_simps)

lemma validate_change_owned: "ownable v \<Longrightarrow> validate_change (inert_copy v) = validate_change v"
  using owned_settled [of v] by (simp add: validate_change_def ownable_owned)

lemma validate_state_settled: "settled v \<Longrightarrow> validate_state v = Inr () \<longleftrightarrow> baseline_state_ok v"
proof (cases v)
  case (JObj s)
  assume v: "settled v"
  show ?thesis
  proof (cases "field s ''changesSinceBaseline''")
    case (JArr cs)
    have each: "(\<exists>us. mapResult (\<lambda>change. andThen (validate_change change) (\<lambda>u.
        failIf (change_elsewhere change (field s ''projectId'')) e (Inr ()))) cs = Inr us) \<longleftrightarrow>
        list_all (change_ok (field s ''projectId'')) cs" for e
      unfolding mapResult_units by (auto simp: outcome_simps list_all_iff change_ok_def)
    show ?thesis using v JObj JArr
      by (cases "field s ''baseline''"; cases "field s ''approvalsStale''")
        (auto simp: validate_state_def baseline_state_ok_def based_ok_def outcome_simps each undefined_json_def
          intent_mismatch_def currency_inconsistent_def ready_for_def)
  qed (use v JObj in \<open>auto simp: validate_state_def baseline_state_ok_def outcome_simps split: json.splits\<close>)
qed (auto simp: validate_state_def baseline_state_ok_def outcome_simps)

lemma validate_state_copy: "ownable v \<Longrightarrow> validate_state (inert_copy v) = validate_state v"
  using owned_settled [of v] by (simp add: validate_state_def ownable_owned)

section \<open>Objects built from copies\<close>

abbreviation fixed :: "json \<Rightarrow> bool" where
  "fixed v \<equiv> inert_copy v = v"

lemma fixed_obj: "(\<And>kv. kv \<in> set kvs \<Longrightarrow> fst kv \<noteq> ''length'' \<and> fixed (snd kv)) \<Longrightarrow> fixed (JObj kvs)"
proof -
  assume e: "\<And>kv. kv \<in> set kvs \<Longrightarrow> fst kv \<noteq> ''length'' \<and> fixed (snd kv)"
  then have "filter (\<lambda>kv. fst kv \<noteq> ''length'') kvs = kvs" by (auto simp: filter_id_conv)
  moreover have "map (\<lambda>kv. (fst kv, inert_copy (snd kv))) kvs = kvs" using e by (simp add: map_idI)
  ultimately show ?thesis by simp
qed

lemma settled_fixed: "settled v \<Longrightarrow> fixed v"
  by (simp add: settled_def)

lemma field_fixed: "settled (JObj kvs) \<Longrightarrow> fixed (field kvs k)"
  using settled_field [of kvs k] by (auto simp: undefined_json_def settled_fixed)

lemma with_entry_set: "kv \<in> set (with_entry k v kvs) \<Longrightarrow> kv = (k, v) \<or> kv \<in> set kvs"
  by (auto simp: with_entry_def split: if_splits)

lemma field_absent: "k \<notin> fst ` set kvs \<Longrightarrow> field kvs k = JOther NonObject"
  by (simp add: field_def map_of_eq_None_iff [THEN iffD2])

lemma field_replaced:
  "field (map (\<lambda>kv. if fst kv = k then (k, v) else kv) kvs) j =
     (if j = k \<and> k \<in> fst ` set kvs then v else field kvs j)"
proof (induction kvs)
  case (Cons kv kvs)
  have keys: "k \<in> fst ` set (kv # kvs) \<longleftrightarrow> fst kv = k \<or> k \<in> fst ` set kvs" by auto
  show ?case unfolding keys using Cons.IH by (cases kv; cases "j = k") (auto simp del: image_iff split: if_splits)
qed simp

lemma field_with_entry [simp]: "field (with_entry k v kvs) j = (if j = k then v else field kvs j)"
  by (simp add: with_entry_def field_replaced field_append field_absent)

lemma name_of_JObj [simp]: "name_of (JObj kvs) k = field kvs k"
  by (simp add: name_of_def)

section \<open>The abstract state\<close>

datatype baseline_view = Draft | Based "(string \<times> json) list" "json list"

definition view_of :: "json \<Rightarrow> baseline_view" where
  "view_of v = (case name_of v ''baseline'' of JObj b \<Rightarrow> Based b (changes_of v) | _ \<Rightarrow> Draft)"

datatype baseline_intent = Review | Handoff

datatype baseline_command =
    MarkReady baseline_intent json
  | ApplyMutation json
  | RecordActivity json

fun intent_json :: "baseline_intent \<Rightarrow> json" where
  "intent_json Review = JStr ''review''"
| "intent_json Handoff = JStr ''handoff''"

fun command_value :: "baseline_command \<Rightarrow> json" where
  "command_value (MarkReady i b) =
     JObj [(''type'', JStr ''mark-ready''), (''intent'', intent_json i), (''baseline'', b)]"
| "command_value (ApplyMutation c) = JObj [(''type'', JStr ''apply-design-mutation''), (''change'', c)]"
| "command_value (RecordActivity a) =
     JObj [(''type'', JStr ''record-collaboration-activity''), (''activity'', a)]"

fun view_step :: "baseline_view \<Rightarrow> baseline_command \<Rightarrow> baseline_view" where
  "view_step s (MarkReady i b) = (case inert_copy b of JObj kvs \<Rightarrow> Based kvs [] | _ \<Rightarrow> s)"
| "view_step Draft (ApplyMutation c) = Draft"
| "view_step (Based b cs) (ApplyMutation c) = Based b (cs @ [inert_copy c])"
| "view_step s (RecordActivity a) = s"

definition baseline_step :: "json \<Rightarrow> baseline_command \<Rightarrow> baseline_error + json" where
  "baseline_step v c = execute_baseline v (command_value c)"

definition baseline_inv :: "json \<Rightarrow> json \<Rightarrow> bool" where
  "baseline_inv project v \<longleftrightarrow> settled v \<and> baseline_state_ok v \<and> name_of v ''projectId'' = project"

lemma baseline_stateE:
  assumes "baseline_state_ok v"
  obtains s where "v = JObj s" "text_ok (field s ''projectId'')" "undefined_json (field s ''baseline'')"
      "view_of v = Draft" "changes_of v = []" "field s ''changesSinceBaseline'' = JArr []"
      "field s ''readiness'' = JStr ''draft''" "field s ''currency'' = JStr ''none''" "field s ''approvalsStale'' = JBool False"
    | s b cs where "v = JObj s" "text_ok (field s ''projectId'')" "field s ''baseline'' = JObj b"
      "field s ''changesSinceBaseline'' = JArr cs" "based_ok (field s ''projectId'') b"
      "field s ''readiness'' = ready_for (field b ''intent'')" "view_of v = Based b cs" "changes_of v = cs"
      "list_all (change_ok (field s ''projectId'')) cs"
      "field s ''currency'' = (if cs = [] then JStr ''current'' else JStr ''stale'')"
      "field s ''approvalsStale'' = JBool (cs \<noteq> [])"
proof -
  obtain s where v: "v = JObj s" using assms by (cases v) (auto simp: baseline_state_ok_def)
  show ?thesis
  proof (cases "undefined_json (field s ''baseline'')")
    case True
    then show ?thesis using that(1) [of s] assms v
      by (simp add: baseline_state_ok_def view_of_def changes_of_def undefined_json_def)
  next
    case False
    then show ?thesis using that(2) [of s] assms v
      by (auto simp: baseline_state_ok_def view_of_def changes_of_def split: json.splits)
  qed
qed

lemma mark_ready_effect:
  assumes "settled v" "baseline_state_ok v" "settled b" "mark_ready v (intent_json i) b = Inr t"
  shows "settled (name_of t ''state'') \<and> baseline_state_ok (name_of t ''state'') \<and>
    name_of (name_of t ''state'') ''projectId'' = name_of v ''projectId'' \<and>
    (\<exists>kvs. b = JObj kvs \<and> view_of (name_of t ''state'') = Based kvs [])"
proof -
  let ?intent = "intent_json i"
  let ?state = "JObj [(''projectId'', name_of v ''projectId''), (''readiness'', ready_for ?intent), (''baseline'', b),
    (''currency'', JStr ''current''), (''changesSinceBaseline'', JArr []), (''approvalsStale'', JBool False)]"
  obtain s where s: "v = JObj s" using assms(2) by (rule baseline_stateE)
  obtain kvs where kvs: "b = JObj kvs" and based: "based_ok (field s ''projectId'') kvs" "field kvs ''intent'' = ?intent"
    and own: "owned (JObj [(''baseline'', b), (''state'', ?state)]) = Inr t"
    and p: "text_ok (field s ''projectId'')"
    using assms s by (cases i)
      (auto simp: mark_ready_def outcome_simps based_ok_def same_value_def ready_for_def
        simp del: inert_copy.simps split: json.splits)
  have stay: "fixed (name_of v ''projectId'')" "fixed b" "fixed (ready_for ?intent)"
    using assms s field_fixed [of s] by (simp_all add: settled_fixed ready_for_def)
  have t: "t = JObj [(''baseline'', b), (''state'', ?state)]" and "settled t"
    using own stay owned_settled [OF own] by (auto simp: owned_Inr)
  then have "settled ?state" using settled_entry [of _ "(''state'', ?state)"] by force
  moreover have "baseline_state_ok ?state" using based p s kvs
    by (auto simp: baseline_state_ok_def undefined_json_def)
  ultimately show ?thesis using t kvs by (simp add: view_of_def changes_of_def)
qed

lemma record_mutation_effect:
  assumes v: "settled v" "baseline_state_ok v" and "settled c" and r: "record_mutation v c = Inr w"
  shows "settled w \<and> baseline_state_ok w \<and> name_of w ''projectId'' = name_of v ''projectId'' \<and>
    view_of w = view_step (view_of v) (ApplyMutation c)"
  using v(2)
proof (cases rule: baseline_stateE)
  case (1 s)
  then have "w = v" using assms by (auto simp: record_mutation_def outcome_simps)
  then show ?thesis using 1 v by simp
next
  case (2 s b cs)
  let ?w = "with_entry ''approvalsStale'' (JBool True) (with_entry ''changesSinceBaseline'' (JArr (cs @ [c]))
    (with_entry ''currency'' (JStr ''stale'') s))"
  have own: "owned (JObj ?w) = Inr w" and c: "change_ok (field s ''projectId'') c"
    using assms 2 by (auto simp: record_mutation_def outcome_simps change_ok_def undefined_json_def)
  have "settled (JArr cs)" using settled_field [of s "''changesSinceBaseline''"] v(1) 2 by (simp add: undefined_json_def)
  then have cs: "fixed (JArr (cs @ [c]))" using settled_fixed \<open>settled c\<close> by fastforce
  have "fixed (JObj ?w)"
  proof (rule fixed_obj)
    fix kv assume "kv \<in> set ?w"
    then consider "kv \<in> set s" | "kv = (''approvalsStale'', JBool True)" | "kv = (''changesSinceBaseline'', JArr (cs @ [c]))"
      | "kv = (''currency'', JStr ''stale'')" by (blast dest: with_entry_set)
    then show "fst kv \<noteq> ''length'' \<and> fixed (snd kv)"
    proof cases
      case 1
      then show ?thesis using settled_entry [of s kv] v(1) 2 by (simp add: settled_fixed)
    qed (use cs in simp_all)
  qed
  then have w: "w = JObj ?w" "settled w" using own owned_settled [OF own] by (auto simp: owned_Inr)
  then show ?thesis using 2 c
    by (simp add: baseline_state_ok_def view_of_def changes_of_def undefined_json_def settled_fixed [OF \<open>settled c\<close>])
qed

lemma record_collaboration_effect:
  "settled v \<Longrightarrow> record_collaboration v a = Inr w \<Longrightarrow> w = v"
  by (auto simp: record_collaboration_def outcome_simps settled_fixed)

end
