(* ===== verification/Baseline_Theorems.thy ===== *)
theory Baseline_Theorems
  imports Baseline_Safety
begin

text \<open>
  The properties of design baselines: every command keeps a valid state valid, implements its effect on
  the abstract state, and the recheck manifest of a valid state lists exactly the changes to look at.
\<close>

section \<open>One command\<close>

lemma name_of_command [simp]:
  "name_of (inert_copy (command_value c)) ''type'' = name_of (command_value c) ''type''"
  "name_of (inert_copy (command_value (MarkReady i b))) ''intent'' = intent_json i"
  "name_of (inert_copy (command_value (MarkReady i b))) ''baseline'' = inert_copy b"
  "name_of (inert_copy (command_value (ApplyMutation ch))) ''change'' = inert_copy ch"
  "name_of (inert_copy (command_value (RecordActivity a))) ''activity'' = inert_copy a"
  by (cases c; cases i; simp)+

lemma intent_fixed [simp]: "fixed (intent_json i)"
  by (cases i) simp_all

lemma settled_member: "settled v \<Longrightarrow> v = JObj kvs \<Longrightarrow> (k, w) \<in> set kvs \<Longrightarrow> settled w"
  using settled_entry by fastforce

lemma command_args_settled:
  assumes "settled (inert_copy (command_value c))"
  shows "c = MarkReady i b \<Longrightarrow> settled (inert_copy b)" "c = ApplyMutation ch \<Longrightarrow> settled (inert_copy ch)"
proof -
  show "settled (inert_copy b)" if "c = MarkReady i b"
    using settled_member [OF assms, where k = "''baseline''" and w = "inert_copy b"] that by simp
  show "settled (inert_copy ch)" if "c = ApplyMutation ch"
    using settled_member [OF assms, where k = "''change''" and w = "inert_copy ch"] that by simp
qed

lemma baseline_step_effect:
  assumes v: "settled v" "baseline_state_ok v" and r: "baseline_step v c = Inr w"
  shows "settled w \<and> baseline_state_ok w \<and> name_of w ''projectId'' = name_of v ''projectId'' \<and>
    view_of w = view_step (view_of v) c"
proof -
  have c: "owned (command_value c) = Inr (inert_copy (command_value c))" "settled (inert_copy (command_value c))"
    using r owned_settled [of "command_value c"] by (auto simp: baseline_step_def execute_baseline_def outcome_simps)
  show ?thesis
  proof (cases c)
    case (MarkReady i b)
    then obtain t where t: "mark_ready v (intent_json i) (inert_copy b) = Inr t" "w = name_of t ''state''"
      using r c v by (auto simp: baseline_step_def execute_baseline_def outcome_simps)
    show ?thesis using mark_ready_effect [OF v _ t(1)] command_args_settled(1) [OF c(2) MarkReady] t(2) MarkReady
      by auto
  next
    case (ApplyMutation ch)
    then have t: "record_mutation v (inert_copy ch) = Inr w"
      using r c v by (auto simp: baseline_step_def execute_baseline_def outcome_simps)
    show ?thesis using record_mutation_effect [OF v _ t] command_args_settled(2) [OF c(2) ApplyMutation] ApplyMutation
      by (cases "view_of v") auto
  next
    case (RecordActivity a)
    then have "record_collaboration v (inert_copy a) = Inr w"
      using r c v by (auto simp: baseline_step_def execute_baseline_def outcome_simps)
    then have "w = v" using v(1) record_collaboration_effect by blast
    then show ?thesis using v RecordActivity by simp
  qed
qed

interpretation baselines: refining_machine baseline_step "baseline_inv project" view_of view_step
proof
  fix v c w
  assume "baseline_inv project v" "baseline_step v c = Inr w"
  then show "baseline_inv project w" "view_of w = view_step (view_of v) c"
    using baseline_step_effect [of v c w] by (simp_all add: baseline_inv_def)
qed

lemma baseline_inv_start:
  "owned value = Inr v \<Longrightarrow> validate_state v = Inr () \<Longrightarrow> baseline_inv (name_of v ''projectId'') v"
  using owned_settled [of "value" v] by (simp add: baseline_inv_def validate_state_settled)

lemma baseline_invD: "baseline_inv project v \<Longrightarrow> validate_state v = Inr () \<and> name_of v ''projectId'' = project"
  by (simp add: baseline_inv_def validate_state_settled)

section \<open>The recheck manifest\<close>

lemma sublist_sum_le:
  assumes "distinct xs" "distinct ys" "set xs \<subseteq> set ys"
  shows "sum_list (map f xs) \<le> (sum_list (map f ys) :: nat)"
  using assms by (simp add: sum_list_distinct_conv_sum_set sum_mono2)

lemma entry_of_field: "field s k \<noteq> JOther NonObject \<Longrightarrow> (k, field s k) \<in> set s"
  by (auto simp: field_def dest: map_of_SomeD split: option.splits)

lemma fields_measure_le:
  assumes "settled (JObj s)" "distinct ks" "\<And>k. k \<in> set ks \<Longrightarrow> field s k \<noteq> JOther NonObject"
  shows "sum_list (map (\<lambda>k. utf8_length k + copy_bytes (field s k)) ks) \<le> copy_bytes (JObj s)"
    "1 + sum_list (map (\<lambda>k. copy_nodes (field s k)) ks) \<le> copy_nodes (JObj s)"
proof -
  have d: "distinct s" "distinct (map (\<lambda>k. (k, field s k)) ks)"
    using settled_keys [OF assms(1)] assms(2) by (auto simp: distinct_map inj_on_def)
  have sub: "set (map (\<lambda>k. (k, field s k)) ks) \<subseteq> set s" using assms(3) entry_of_field by auto
  have plain: "filter (\<lambda>kv. fst kv \<noteq> ''length'') s = s"
    using settled_entry [OF assms(1)] by (auto simp: filter_id_conv)
  show "sum_list (map (\<lambda>k. utf8_length k + copy_bytes (field s k)) ks) \<le> copy_bytes (JObj s)"
    using sublist_sum_le [OF d(2,1) sub, of "\<lambda>kv. utf8_length (fst kv) + copy_bytes (snd kv)"]
    by (simp add: sum_list_filtered plain comp_def)
  show "1 + sum_list (map (\<lambda>k. copy_nodes (field s k)) ks) \<le> copy_nodes (JObj s)"
    using sublist_sum_le [OF d(2,1) sub, of "\<lambda>kv. copy_nodes (snd kv)"]
    by (simp add: sum_list_filtered plain comp_def)
qed

lemma field_copyable:
  assumes "copyable n (JObj s)" "fixed (JObj s)" "field s k \<noteq> JOther NonObject"
  shows "0 < n \<and> copyable (n - 1) (field s k)"
proof -
  have "fst (k, field s k) \<noteq> ''length'' \<and> (fst (k, field s k), inert_copy (snd (k, field s k))) = (k, field s k)"
    using assms(2) by (intro map_filter_fixed [where xs = s] entry_of_field [OF assms(3)]) auto
  then show ?thesis using assms(1) entry_of_field [OF assms(3)] by (auto simp: list_all_iff)
qed

lemma text_ok_defined: "text_ok v \<Longrightarrow> v \<noteq> JOther NonObject"
  by (auto simp: text_ok_def)

lemma ownable_obj:
  assumes "\<And>kv. kv \<in> set kvs \<Longrightarrow> fst kv \<noteq> ''length'' \<and> copyable (max_baseline_depth - 1) (snd kv) \<and> fixed (snd kv)"
    and "length kvs \<le> max_items" "distinct (map fst kvs)"
    and "1 + sum_list (map (\<lambda>kv. copy_nodes (snd kv)) kvs) \<le> max_baseline_nodes"
    and "sum_list (map (\<lambda>kv. utf8_length (fst kv) + copy_bytes (snd kv)) kvs) \<le> max_baseline_bytes"
  shows "owned (JObj kvs) = Inr (JObj kvs)"
proof -
  have plain: "filter (\<lambda>kv. fst kv \<noteq> ''length'') kvs = kvs" using assms(1) by (auto simp: filter_id_conv)
  have "0 < max_baseline_depth" by (simp add: max_baseline_depth_def)
  then have "ownable (JObj kvs)" using assms
    by (auto simp: ownable_def list_all_iff sum_list_filtered plain)
  moreover have "fixed (JObj kvs)" using assms(1) by (intro fixed_obj) simp
  ultimately show ?thesis by (simp add: owned_measured)
qed

definition manifest_of :: "(string \<times> json) list \<Rightarrow> json" where
  "manifest_of s = JObj
     ([(''projectId'', field s ''projectId'')] @
      (if undefined_json (field s ''baseline'') then [] else [(''baselineId'', name_of (field s ''baseline'') ''id'')]) @
      [(''currency'', field s ''currency''), (''approvalsStale'', field s ''approvalsStale''),
       (''exactChangesToRecheck'', field s ''changesSinceBaseline'')])"

lemma utf8_length_ascii: "list_all (\<lambda>c. code_unit c < 128) s \<Longrightarrow> utf8_length s = length s"
  by (induction s) auto

lemma manifest_owned:
  assumes v: "settled (JObj s)" "baseline_state_ok (JObj s)"
  shows "owned (manifest_of s) = Inr (manifest_of s)"
proof -
  have all: "copyable max_baseline_depth (JObj s)" "fixed (JObj s)"
      "copy_nodes (JObj s) \<le> max_baseline_nodes" "copy_bytes (JObj s) \<le> max_baseline_bytes"
    using v(1) unfolding settled_def ownable_def by blast+
  have defined: "field s ''projectId'' \<noteq> JOther NonObject" "field s ''currency'' \<noteq> JOther NonObject"
      "field s ''approvalsStale'' \<noteq> JOther NonObject" "field s ''changesSinceBaseline'' \<noteq> JOther NonObject"
      "field s ''readiness'' \<noteq> JOther NonObject" "5 \<le> copy_bytes (field s ''readiness'')"
    using v(2) by (cases rule: baseline_stateE; simp add: text_ok_defined ready_for_def utf8_length_ascii)+
  have part: "copyable (max_baseline_depth - 1) (field s k) \<and> fixed (field s k)" if "field s k \<noteq> JOther NonObject" for k
    using field_copyable [OF all(1,2) that] field_fixed [OF v(1)] by simp
  have room: "5 \<le> max_items" "0 < max_baseline_depth" by (simp_all add: max_items_def max_baseline_depth_def)
  show ?thesis
  proof (cases "undefined_json (field s ''baseline'')")
    case True
    have "sum_list (map (\<lambda>k. utf8_length k + copy_bytes (field s k))
        [''projectId'', ''currency'', ''approvalsStale'', ''changesSinceBaseline'', ''readiness'']) \<le> max_baseline_bytes"
      "1 + sum_list (map (\<lambda>k. copy_nodes (field s k))
        [''projectId'', ''currency'', ''approvalsStale'', ''changesSinceBaseline'', ''readiness'']) \<le> max_baseline_nodes"
      using defined all(3,4) by (intro order_trans [OF fields_measure_le(1) [OF v(1)]]
        order_trans [OF fields_measure_le(2) [OF v(1)]]; auto simp del: copy_bytes.simps copy_nodes.simps)+
    then show ?thesis unfolding manifest_of_def using True part defined room
      by (intro ownable_obj) (auto simp: utf8_length_ascii)
  next
    case False
    then obtain b where b: "field s ''baseline'' = JObj b" "text_ok (field b ''id'')"
      using v(2) by (auto simp: baseline_state_ok_def based_ok_def split: json.splits)
    have settled: "settled (JObj b)" using settled_field [OF v(1), of "''baseline''"] b by (simp add: undefined_json_def)
    have "copyable (max_baseline_depth - 1) (JObj b)" using part [of "''baseline''"] b by simp
    then have "copyable (max_baseline_depth - 1 - 1) (field b ''id'')"
      using field_copyable [OF _ settled_fixed [OF settled] text_ok_defined [OF b(2)]] by blast
    then have id: "copyable (max_baseline_depth - 1) (field b ''id'')" "fixed (field b ''id'')"
      using copyable_mono field_fixed [OF settled] by auto
    have inner: "utf8_length ''id'' + copy_bytes (field b ''id'') \<le> copy_bytes (JObj b)"
        "1 + copy_nodes (field b ''id'') \<le> copy_nodes (JObj b)"
      using fields_measure_le [OF settled, of "[''id'']"] text_ok_defined [OF b(2)] by auto
    have "sum_list (map (\<lambda>k. utf8_length k + copy_bytes (field s k))
        [''projectId'', ''baseline'', ''currency'', ''approvalsStale'', ''changesSinceBaseline'', ''readiness'']) \<le> max_baseline_bytes"
      "1 + sum_list (map (\<lambda>k. copy_nodes (field s k))
        [''projectId'', ''baseline'', ''currency'', ''approvalsStale'', ''changesSinceBaseline'', ''readiness'']) \<le> max_baseline_nodes"
      using defined all(3,4) b by (intro order_trans [OF fields_measure_le(1) [OF v(1)]]
        order_trans [OF fields_measure_le(2) [OF v(1)]]; auto simp del: copy_bytes.simps copy_nodes.simps)+
    then show ?thesis unfolding manifest_of_def using False b id inner part defined room
      by (intro ownable_obj) (auto simp: utf8_length_ascii simp del: copy_bytes.simps copy_nodes.simps)
  qed
qed

lemma recheck_manifest_total:
  assumes "settled v" "baseline_state_ok v"
  shows "\<exists>s. v = JObj s \<and> recheck_manifest v = Inr (manifest_of s)"
proof -
  obtain s where s: "v = JObj s" using assms(2) by (rule baseline_stateE)
  have "validate_state v = Inr ()" using assms by (simp add: validate_state_settled)
  moreover have "field s ''changesSinceBaseline'' = JArr (changes_of v)"
    and "undefined_json (field s ''baseline'') \<or> (\<exists>b. field s ''baseline'' = JObj b)"
    using assms(2) s by (cases rule: baseline_stateE; simp)+
  ultimately show ?thesis using s assms manifest_owned [of s]
    by (auto simp: recheck_manifest_def manifest_of_def as_record_def undefined_json_def)
qed

section \<open>Samples\<close>

definition sample_reference_value :: "string \<Rightarrow> json" where
  "sample_reference_value i = JObj [(''id'', JStr i), (''fingerprint'', JStr ''f'')]"

definition sample_baseline :: json where
  "sample_baseline = JObj [(''id'', JStr ''b1''), (''projectId'', JStr ''p''), (''revision'', sample_reference_value ''r1''),
     (''intent'', JStr ''review''), (''createdAt'', JStr ''2026-01-02T03:04:05Z''), (''createdBy'', JStr ''ana'')]"

definition sample_change :: json where
  "sample_change = JObj [(''id'', JStr ''c1''), (''kind'', JStr ''visual''),
     (''beforeRevision'', sample_reference_value ''r1''), (''currentRevision'', sample_reference_value ''r2''),
     (''affected'', JObj [(''projectId'', JStr ''p''), (''screenIds'', JArr [JStr ''s1'']), (''routePaths'', JArr []),
        (''scenarioIds'', JArr []), (''componentIds'', JArr []), (''stableNodeIds'', JArr [])]),
     (''evidence'', JArr [JObj [(''description'', JStr ''shot'')]]),
     (''provenance'', JObj [(''kind'', JStr ''actor''), (''actorId'', JStr ''ana'')]),
     (''occurredAt'', JStr ''2026-01-02T03:04:05.5Z''), (''reason'', JStr ''copy'')]"

definition sample_draft :: json where
  "sample_draft = JObj [(''projectId'', JStr ''p''), (''readiness'', JStr ''draft''), (''currency'', JStr ''none''),
     (''changesSinceBaseline'', JArr []), (''approvalsStale'', JBool False)]"

definition sample_based :: json where
  "sample_based = JObj [(''projectId'', JStr ''p''), (''readiness'', JStr ''ready-for-review''), (''baseline'', sample_baseline),
     (''currency'', JStr ''current''), (''changesSinceBaseline'', JArr []), (''approvalsStale'', JBool False)]"

definition sample_stale :: json where
  "sample_stale = JObj [(''projectId'', JStr ''p''), (''readiness'', JStr ''ready-for-review''), (''baseline'', sample_baseline),
     (''currency'', JStr ''stale''), (''changesSinceBaseline'', JArr [sample_change]), (''approvalsStale'', JBool True)]"

lemmas sample_value_defs = sample_draft_def sample_based_def sample_stale_def sample_baseline_def sample_change_def
  sample_reference_value_def

lemma baseline_limits:
  "max_baseline_depth = 64" "max_baseline_nodes = 10000" "max_baseline_bytes = 10485760" "max_items = 10000"
  "max_text = 1000000" "max_identifier = 128" "max_timestamp = 64" "max_evidence = 1000" "max_references = 1000"
  by (simp_all add: max_baseline_depth_def max_baseline_nodes_def max_baseline_bytes_def max_items_def max_text_def
      max_identifier_def max_timestamp_def max_evidence_def max_references_def)

lemma samples_settled: "settled sample_baseline" "settled sample_change" "settled sample_draft"
    "settled sample_based" "settled sample_stale"
  by (simp_all add: settled_def ownable_def sample_value_defs baseline_limits utf8_length_ascii nat_text.simps)

lemma sample_timestamps:
  "valid_timestamp (JStr ''2026-01-02T03:04:05Z'')" "valid_timestamp (JStr ''2026-01-02T03:04:05.5Z'')"
  by code_simp+

lemma sample_texts: "text_ok (JStr ''p'')" "text_ok (JStr ''r1'')" "text_ok (JStr ''r2'')" "text_ok (JStr ''f'')"
    "text_ok (JStr ''b1'')" "text_ok (JStr ''c1'')" "text_ok (JStr ''ana'')" "text_ok (JStr ''copy'')" "text_ok (JStr ''shot'')"
    "text_ok (JStr ''2026-01-02T03:04:05.5Z'')"
  by (simp_all add: text_ok_def js_trim_def is_js_space_def baseline_limits)

lemma sample_change_ok: "change_ok (JStr ''p'') sample_change"
proof -
  have "validate_change sample_change = Inr ()"
    using samples_settled(2) sample_texts sample_timestamps
    by (simp add: validate_change_def sample_change_def sample_reference_value_def as_record_def
        require_text_def text_ok_def verify_reference_def check_scope_def unique_names_def check_evidence_def
        check_provenance_def undefined_json_def baseline_limits js_trim_def is_js_space_def)
  then show ?thesis by (simp add: change_ok_def change_elsewhere_def sample_change_def)
qed

lemma sample_states_valid: "baseline_state_ok sample_draft" "baseline_state_ok sample_based" "baseline_state_ok sample_stale"
  using sample_texts sample_timestamps sample_change_ok
  by (simp_all add: baseline_state_ok_def based_ok_def sample_draft_def sample_based_def sample_stale_def
      sample_baseline_def sample_reference_value_def reference_ok_def undefined_json_def ready_for_def)

lemma sample_draft_start: "owned sample_draft = Inr sample_draft" "validate_state sample_draft = Inr ()"
  "owned sample_stale = Inr sample_stale" "validate_state sample_stale = Inr ()"
  using samples_settled sample_states_valid by (simp_all add: validate_state_settled)

section \<open>Properties\<close>

text \<open>Whatever commands a project's valid baseline state is given, refused ones included, the state
  stays one that the validator of the code accepts, and stays in its project.\<close>

theorem baseline_runs_valid:
  assumes "owned value = Inr v" and "validate_state v = Inr ()"
  shows "validate_state (attempts baseline_step v cs) = Inr () \<and>
    name_of (attempts baseline_step v cs) ''projectId'' = name_of v ''projectId''"
  using baselines.attempts_inv [OF baseline_inv_start [OF assms]] by (rule baseline_invD)

theorem baseline_runs_valid_witness:
  "validate_state (attempts baseline_step sample_draft [MarkReady Review sample_baseline, ApplyMutation sample_change]) = Inr ()"
  using baseline_runs_valid [OF sample_draft_start(1,2)] by blast

text \<open>C20. The commands implement the abstract state of a design: a draft, or a baseline with the design
  changes made since in order.  A run leaves behind what its accepted commands do to that state: marking
  ready starts an empty list of changes, a mutation of a based design appends its change and nothing
  else, and collaboration activity changes nothing.\<close>

theorem baseline_runs_refine:
  assumes "owned value = Inr v" and "validate_state v = Inr ()"
  shows "view_of (attempts baseline_step v cs) = foldl view_step (view_of v) (accepted baseline_step v cs)"
  using baselines.attempts_abs [OF baseline_inv_start [OF assms]] .

theorem baseline_runs_refine_witness:
  "view_of (attempts baseline_step sample_draft [MarkReady Review sample_baseline, ApplyMutation sample_change]) =
     foldl view_step (view_of sample_draft)
       (accepted baseline_step sample_draft [MarkReady Review sample_baseline, ApplyMutation sample_change])"
  using baseline_runs_refine [OF sample_draft_start(1,2)] by blast

fun pending_changes :: "baseline_view \<Rightarrow> json list" where
  "pending_changes Draft = []"
| "pending_changes (Based b cs) = cs"

text \<open>C22. The recheck manifest of every valid state exists, within the budget of the boundary, and names
  the project, the baseline, exactly the changes made since, and stale approvals when there are any.\<close>

theorem recheck_manifest_lists_changes:
  assumes "owned value = Inr v" and "validate_state v = Inr ()"
  shows "\<exists>m. recheck_manifest v = Inr m \<and> name_of m ''projectId'' = name_of v ''projectId'' \<and>
    name_of m ''baselineId'' = (case view_of v of Draft \<Rightarrow> JOther NonObject | Based b cs \<Rightarrow> field b ''id'') \<and>
    name_of m ''exactChangesToRecheck'' = JArr (pending_changes (view_of v)) \<and>
    name_of m ''approvalsStale'' = JBool (pending_changes (view_of v) \<noteq> [])"
proof -
  have v: "settled v" "baseline_state_ok v" using baseline_inv_start [OF assms] by (simp_all add: baseline_inv_def)
  obtain s where s: "v = JObj s" "recheck_manifest v = Inr (manifest_of s)" using recheck_manifest_total [OF v] by blast
  show ?thesis using v(2)
    by (cases rule: baseline_stateE) (use s in \<open>auto simp: manifest_of_def undefined_json_def\<close>)
qed

theorem recheck_manifest_lists_changes_witness:
  "\<exists>m. recheck_manifest sample_stale = Inr m \<and> name_of m ''exactChangesToRecheck'' = JArr [sample_change]"
  using recheck_manifest_lists_changes [OF sample_draft_start(3,4)]
  by (auto simp: sample_stale_def view_of_def sample_baseline_def changes_of_def)

lemma dispatch_baselineD:
  assumes "dispatch_baseline (Some commit) before after value k = Inr w"
  shows "\<exists>v k' act. owned value = Inr v \<and> owned k = Inr k' \<and> execute_baseline v k' = Inr w \<and>
    (if name_of k' ''type'' = JStr ''record-collaboration-activity''
     then \<exists>a. owned (name_of k' ''activity'') = Inr a \<and> act = Some a else act = None) \<and>
    commit \<lparr>commit_state = w, commit_activity = act\<rparr> = PortCommitted"
proof -
  obtain v k' act where *: "owned value = Inr v" "owned k = Inr k'" "execute_baseline v k' = Inr w"
    "(if name_of k' ''type'' = JStr ''record-collaboration-activity''
      then andThen (owned (name_of k' ''activity'')) (\<lambda>a. Inr (Some a)) else Inr None) = Inr act"
    and port: "(case commit \<lparr>commit_state = w, commit_activity = act\<rparr> of
        PortRejectedWith (BaselineError m) \<Rightarrow> Inl (BaselineError m)
      | PortCommitted \<Rightarrow> failIf after (BaselineError ''Baseline persistence was cancelled'') (Inr w)
      | _ \<Rightarrow> Inl (BaselineError ''Baseline persistence failed'')) = Inr w"
    using assms unfolding dispatch_baseline_def andThen_eq_Inr failIf_eq_Inr option.case
    by (force split: port_outcome.splits baseline_error.splits simp: failIf_eq_Inr)
  have "commit \<lparr>commit_state = w, commit_activity = act\<rparr> = PortCommitted"
    using port by (auto split: port_outcome.splits baseline_error.splits)
  with * show ?thesis by (auto simp: outcome_simps split: if_splits)
qed

text \<open>When the dispatch of a command succeeds, the port was given exactly the state that is returned,
  with the activity of a collaboration command and no activity otherwise; that state is valid and has
  the effect of the command.\<close>

theorem dispatch_commits_the_result:
  assumes "owned value = Inr v" and "validate_state v = Inr ()"
    and "dispatch_baseline (Some commit) before after value (command_value c) = Inr w"
  shows "commit \<lparr>commit_state = w,
      commit_activity = (case c of RecordActivity a \<Rightarrow> Some (inert_copy a) | _ \<Rightarrow> None)\<rparr> = PortCommitted \<and>
    validate_state w = Inr () \<and> view_of w = view_step (view_of v) c"
proof -
  have v: "baseline_inv (name_of v ''projectId'') v" "settled v"
    using baseline_inv_start [OF assms(1,2)] by (simp_all add: baseline_inv_def)
  have c: "owned (command_value c) = Inr (inert_copy (command_value c))" "settled (inert_copy (command_value c))"
    using assms(3) owned_settled [of "command_value c"] by (auto simp: dispatch_baseline_def outcome_simps)
  have own: "owned (inert_copy a) = Inr (inert_copy a)" if "c = RecordActivity a" for a
    using settled_member [OF c(2), where k = "''activity''" and w = "inert_copy a"] that by simp
  obtain k act where d: "owned value = Inr v" "owned (command_value c) = Inr k" and run: "execute_baseline v k = Inr w"
    and act: "if name_of k ''type'' = JStr ''record-collaboration-activity''
      then \<exists>a. owned (name_of k ''activity'') = Inr a \<and> act = Some a else act = None"
    and port: "commit \<lparr>commit_state = w, commit_activity = act\<rparr> = PortCommitted"
    using dispatch_baselineD [OF assms(3)] assms(1) by auto
  have k: "k = inert_copy (command_value c)" using c d by simp
  have "act = (case c of RecordActivity a \<Rightarrow> Some (inert_copy a) | _ \<Rightarrow> None)"
    using act own unfolding k by (cases c) auto
  with port have port: "commit \<lparr>commit_state = w,
      commit_activity = (case c of RecordActivity a \<Rightarrow> Some (inert_copy a) | _ \<Rightarrow> None)\<rparr> = PortCommitted" by simp
  have "execute_baseline v (command_value c) = execute_baseline v (inert_copy (command_value c))"
    using c by (simp add: execute_baseline_def)
  then have "baseline_step v c = Inr w" using run unfolding k by (simp add: baseline_step_def)
  then show ?thesis using port baselines.step_inv [OF v(1)] baselines.step_abs [OF v(1)] baseline_invD by blast
qed

lemma sample_command_settled: "settled (command_value (MarkReady Review sample_baseline))"
  by (simp add: settled_def ownable_def sample_value_defs baseline_limits utf8_length_ascii)

lemma sample_transition_settled: "settled (JObj [(''baseline'', sample_baseline), (''state'', sample_based)])"
  by (simp add: settled_def ownable_def sample_value_defs baseline_limits utf8_length_ascii nat_text.simps)

lemma sample_mark_ready:
  "mark_ready sample_draft (JStr ''review'') sample_baseline =
     Inr (JObj [(''baseline'', sample_baseline), (''state'', sample_based)])"
proof -
  have f: "field kvs ''projectId'' = JStr ''p'' \<and> field kvs ''intent'' = JStr ''review'' \<and>
      reference_ok (field kvs ''revision'') \<and> text_ok (field kvs ''id'') \<and> text_ok (field kvs ''createdBy'') \<and>
      valid_timestamp (field kvs ''createdAt'')" if "sample_baseline = JObj kvs" for kvs
    using that sample_texts sample_timestamps by (auto simp: sample_baseline_def sample_reference_value_def reference_ok_def)
  obtain kvs where kvs: "sample_baseline = JObj kvs" by (simp add: sample_baseline_def)
  have name: "name_of sample_draft ''projectId'' = JStr ''p''" by (simp add: sample_draft_def)
  have state: "JObj [(''projectId'', JStr ''p''), (''readiness'', JStr ''ready-for-review''), (''baseline'', sample_baseline),
     (''currency'', JStr ''current''), (''changesSinceBaseline'', JArr []), (''approvalsStale'', JBool False)] = sample_based"
    by (simp add: sample_based_def)
  show ?thesis
    using f [OF kvs] sample_texts settled_owned [OF samples_settled(1)] settled_owned [OF samples_settled(3)]
      settled_owned [OF sample_transition_settled] sample_draft_start
    unfolding mark_ready_def
    by (simp add: name state [unfolded kvs] same_value_def kvs as_record_def require_text_ok verify_reference_ok
        del: One_nat_def)
qed

lemma sample_step: "execute_baseline sample_draft (command_value (MarkReady Review sample_baseline)) = Inr sample_based"
  using settled_owned [OF sample_command_settled] settled_owned [OF samples_settled(3)] sample_mark_ready
  by (simp add: execute_baseline_def)

theorem dispatch_commits_the_result_witness:
  "validate_state sample_based = Inr () \<and> view_of sample_based = view_step (view_of sample_draft) (MarkReady Review sample_baseline)"
proof -
  have "dispatch_baseline (Some (\<lambda>change. PortCommitted)) False False sample_draft
      (command_value (MarkReady Review sample_baseline)) = Inr sample_based"
    using settled_owned [OF sample_command_settled] settled_owned [OF samples_settled(3)] sample_step
    by (simp add: dispatch_baseline_def)
  from dispatch_commits_the_result [OF sample_draft_start(1,2) this] show ?thesis by blast
qed

text \<open>A command of a type that the switch does not name is not refused: its result is \<open>undefined\<close>, and
  the dispatch gives the port that as the state to persist.\<close>

theorem unknown_command_commits_undefined:
  assumes "owned value = Inr v" and "validate_state v = Inr ()" and "owned k = Inr (JObj kvs)"
    and "field kvs ''type'' \<notin> {JStr ''mark-ready'', JStr ''apply-design-mutation'', JStr ''record-collaboration-activity''}"
    and "commit \<lparr>commit_state = JOther NonObject, commit_activity = None\<rparr> = PortCommitted"
  shows "dispatch_baseline (Some commit) False False value k = Inr (JOther NonObject)"
  using assms owned_settled [OF assms(1)] owned_settled [OF assms(3)]
  by (simp add: dispatch_baseline_def execute_baseline_def del: inert_copy.simps)

theorem unknown_command_commits_undefined_witness:
  "dispatch_baseline (Some (\<lambda>change. PortCommitted)) False False sample_draft (JObj [(''type'', JStr ''archive'')]) =
     Inr (JOther NonObject)"
proof -
  have "settled (JObj [(''type'', JStr ''archive'')])"
    by (simp add: settled_def ownable_def baseline_limits utf8_length_ascii)
  then show ?thesis
    by (intro unknown_command_commits_undefined [OF sample_draft_start(1,2) settled_owned]) simp_all
qed

text \<open>C40. Marking ready with an intent other than the two of the contract is accepted when the baseline
  names the same intent; the state it leaves behind is refused by the validator, so every later command
  on it fails.\<close>

theorem foreign_intent_bricks_the_state:
  assumes "owned value = Inr v" and "mark_ready v (JStr i) b = Inr t" and "i \<notin> {''review'', ''handoff''}"
  shows "validate_state (name_of t ''state'') = Inl (BaselineError ''state.baseline.intent is invalid'') \<and>
    (\<exists>e. execute_baseline (name_of t ''state'') (command_value c) = Inl e)"
proof -
  have v: "settled v" using assms(1) by (rule owned_settled)
  define w where "w = JObj [(''projectId'', name_of v ''projectId''), (''readiness'', JStr ''ready-for-handoff''),
    (''baseline'', inert_copy b), (''currency'', JStr ''current''), (''changesSinceBaseline'', JArr []),
    (''approvalsStale'', JBool False)]"
  have "validate_state v = Inr ()" and ready: "ownable b" "reference_ok (name_of (inert_copy b) ''revision'')"
      "text_ok (name_of (inert_copy b) ''id'')" "text_ok (name_of (inert_copy b) ''createdBy'')"
      "valid_timestamp (name_of (inert_copy b) ''createdAt'')" "name_of (inert_copy b) ''intent'' = JStr i"
      "name_of (inert_copy b) ''projectId'' = name_of v ''projectId''" "\<exists>kvs. inert_copy b = JObj kvs"
      "text_ok (name_of v ''projectId'')"
      and own: "owned (JObj [(''baseline'', inert_copy b), (''state'', w)]) = Inr t"
    using assms v by (auto simp: mark_ready_def outcome_simps same_value_def settled_fixed w_def
        simp del: inert_copy.simps)
  have p: "fixed (name_of v ''projectId'')" using ready(9) by (auto simp: text_ok_def split: json.splits)
  have state: "name_of t ''state'' = w" and "settled t"
    using own p owned_settled [OF own] by (auto simp: owned_Inr w_def)
  moreover have "t = JObj [(''baseline'', inert_copy b), (''state'', w)]" using own p by (auto simp: owned_Inr w_def)
  ultimately have w: "settled w" by (auto intro: settled_member)
  have validate: "validate_state w = Inl (BaselineError ''state.baseline.intent is invalid'')"
    using ready assms(3) settled_owned [OF w]
    by (auto simp: validate_state_def w_def as_record_def undefined_json_def require_text_ok
        verify_reference_ok)
  have "\<exists>e. execute_baseline w (command_value c) = Inl e"
  proof (cases "owned (command_value c)")
    case (Inr k)
    then have k: "k = inert_copy (command_value c)" by (simp add: owned_Inr)
    have failing: "\<exists>e. mark_ready w x y = Inl e" "\<exists>e. record_mutation w y = Inl e"
        "\<exists>e. record_collaboration w y = Inl e" for x y
      using settled_owned [OF w] validate
      by (cases "owned y"; auto simp: mark_ready_def record_mutation_def record_collaboration_def)+
    show ?thesis
      using failing(1) [of "name_of k ''intent''" "name_of k ''baseline''"] failing(2) [of "name_of k ''change''"]
        failing(3) [of "name_of k ''activity''"] settled_owned [OF w] Inr
      unfolding k by (cases c) (auto simp: execute_baseline_def)
  qed (use settled_owned [OF w] in \<open>auto simp: execute_baseline_def\<close>)
  with validate show ?thesis by (simp add: state)
qed

definition archive_baseline :: json where
  "archive_baseline = JObj [(''id'', JStr ''b1''), (''projectId'', JStr ''p''), (''revision'', sample_reference_value ''r1''),
     (''intent'', JStr ''archive''), (''createdAt'', JStr ''2026-01-02T03:04:05Z''), (''createdBy'', JStr ''ana'')]"

theorem foreign_intent_bricks_the_state_witness:
  "\<exists>t. mark_ready sample_draft (JStr ''archive'') archive_baseline = Inr t \<and>
     validate_state (name_of t ''state'') = Inl (BaselineError ''state.baseline.intent is invalid'')"
proof -
  define w where "w = JObj [(''projectId'', JStr ''p''), (''readiness'', JStr ''ready-for-handoff''), (''baseline'', archive_baseline),
     (''currency'', JStr ''current''), (''changesSinceBaseline'', JArr []), (''approvalsStale'', JBool False)]"
  have settled: "settled archive_baseline" "settled (JObj [(''baseline'', archive_baseline), (''state'', w)])"
    by (simp_all add: w_def settled_def ownable_def archive_baseline_def sample_reference_value_def baseline_limits
        utf8_length_ascii nat_text.simps)
  obtain kvs where kvs: "archive_baseline = JObj kvs" by (simp add: archive_baseline_def)
  have f: "field kvs ''projectId'' = JStr ''p'' \<and> field kvs ''intent'' = JStr ''archive'' \<and>
      reference_ok (field kvs ''revision'') \<and> text_ok (field kvs ''id'') \<and> text_ok (field kvs ''createdBy'') \<and>
      valid_timestamp (field kvs ''createdAt'')"
    using kvs sample_texts sample_timestamps by (auto simp: archive_baseline_def sample_reference_value_def reference_ok_def)
  have name: "name_of sample_draft ''projectId'' = JStr ''p''" by (simp add: sample_draft_def)
  have "mark_ready sample_draft (JStr ''archive'') archive_baseline =
      Inr (JObj [(''baseline'', archive_baseline), (''state'', w)])"
    using f sample_texts settled_owned [OF settled(1)] settled_owned [OF settled(2)] sample_draft_start
    unfolding mark_ready_def
    by (simp add: name w_def same_value_def kvs as_record_def require_text_ok verify_reference_ok del: One_nat_def)
  from foreign_intent_bricks_the_state [OF sample_draft_start(1) this, of "RecordActivity JNull"] this show ?thesis by auto
qed

end
