(* ===== verification/Collab_Data.thy ===== *)
theory Collab_Data
  imports Baseline_Copy Complex_Main "HOL-Library.Multiset"
begin

text \<open>
  The data of \<open>packages/collaboration/src/index.ts\<close> and the boundary of \<open>boundary.ts\<close>: one record per
  interface, with the JavaScript value of each, the inert copy \<open>ownCollaborationValue\<close> and the
  structural comparison \<open>equalCollaborationValues\<close>.

  Values have the shape that their TypeScript types declare; an absent property is \<open>None\<close>.  A number is
  whole or a fraction, known by the text it prints as; what the program computes with fractions is
  stated over the exact value of the double, which is a parameter of the platform, as are the locale
  order of strings, the URL parser and the clock.
\<close>

section \<open>Errors and platform\<close>

datatype collab_error = ErrConflict | ErrDuplicate | ErrInvalid | ErrNotFound | ErrForbidden | ErrExpired

datatype number = Whole int | Fraction decimal

record platform =
  decimal_value :: "decimal \<Rightarrow> rat"
  collate :: "string \<Rightarrow> string \<Rightarrow> int"
  https_url :: "string \<Rightarrow> bool"
  clock :: string

fun number_value :: "platform \<Rightarrow> number \<Rightarrow> rat" where
  "number_value p (Whole i) = rat_of_int i"
| "number_value p (Fraction d) = decimal_value p d"

fun number_json :: "number \<Rightarrow> json" where
  "number_json (Whole i) = JNum i"
| "number_json (Fraction d) = JDec d"

text \<open>\<open>Array.prototype.sort\<close> with a comparator: a stable sort.\<close>

fun sorted_insert :: "('a \<Rightarrow> 'a \<Rightarrow> int) \<Rightarrow> 'a \<Rightarrow> 'a list \<Rightarrow> 'a list" where
  "sorted_insert cmp x [] = [x]"
| "sorted_insert cmp x (y # ys) = (if cmp x y \<le> 0 then x # y # ys else y # sorted_insert cmp x ys)"

definition js_sort :: "('a \<Rightarrow> 'a \<Rightarrow> int) \<Rightarrow> 'a list \<Rightarrow> 'a list" where
  "js_sort cmp xs = foldr (sorted_insert cmp) xs []"

lemma sorted_insert_set [simp]: "set (sorted_insert cmp x ys) = insert x (set ys)"
  by (induction ys) auto

lemma sorted_insert_mset [simp]: "mset (sorted_insert cmp x ys) = add_mset x (mset ys)"
  by (induction ys) auto

lemma js_sort_set [simp]: "set (js_sort cmp xs) = set xs"
  unfolding js_sort_def by (induction xs) auto

lemma js_sort_mset [simp]: "mset (js_sort cmp xs) = mset xs"
  unfolding js_sort_def by (induction xs) auto

section \<open>Records\<close>

definition optional :: "string \<Rightarrow> ('a \<Rightarrow> json) \<Rightarrow> 'a option \<Rightarrow> (string \<times> json) list" where
  "optional k f v = (case v of None \<Rightarrow> [] | Some x \<Rightarrow> [(k, f x)])"

definition strings_json :: "string list \<Rightarrow> json" where
  "strings_json xs = JArr (map JStr xs)"

record project =
  project_id :: string
  project_organization :: string
  project_name :: string

definition project_json :: "project \<Rightarrow> json" where
  "project_json p = JObj [(''id'', JStr (project_id p)), (''organizationId'', JStr (project_organization p)),
     (''name'', JStr (project_name p))]"

record revision =
  rev_id :: string
  rev_project :: string
  rev_sequence :: int
  rev_parent :: "string option"
  rev_content :: json
  rev_sha :: string
  rev_scenarios :: "string list"
  rev_created_by :: string
  rev_created_at :: string

definition revision_json :: "revision \<Rightarrow> json" where
  "revision_json r = JObj ([(''id'', JStr (rev_id r)), (''projectId'', JStr (rev_project r)),
     (''sequence'', JNum (rev_sequence r))] @ optional ''parentRevisionId'' JStr (rev_parent r) @
     [(''content'', rev_content r), (''contentSha256'', JStr (rev_sha r)),
      (''scenarioIds'', strings_json (rev_scenarios r)), (''createdBy'', JStr (rev_created_by r)),
      (''createdAt'', JStr (rev_created_at r))])"

record evidence =
  ev_artifact :: string
  ev_screen :: string
  ev_revision :: string
  ev_fingerprint :: string
  ev_width :: number
  ev_height :: number
  ev_zoom :: number
  ev_scenario :: "string option"
  ev_state :: "string option"
  ev_node :: "string option"
  ev_source :: "string option"

definition evidence_json :: "evidence \<Rightarrow> json" where
  "evidence_json e = JObj ([(''artifactId'', JStr (ev_artifact e)), (''screenId'', JStr (ev_screen e)),
     (''revisionId'', JStr (ev_revision e)), (''revisionFingerprint'', JStr (ev_fingerprint e)),
     (''viewport'', JObj [(''width'', number_json (ev_width e)), (''height'', number_json (ev_height e)),
        (''zoom'', number_json (ev_zoom e))])] @
     optional ''scenarioId'' JStr (ev_scenario e) @ optional ''stateId'' JStr (ev_state e) @
     optional ''nodeId'' JStr (ev_node e) @ optional ''sourceRef'' JStr (ev_source e))"

text \<open>The coordinates of a point; x, y, width and height of a region.\<close>

datatype spatial_target = Point number number | Region number number number number

fun target_json :: "spatial_target \<Rightarrow> json" where
  "target_json (Point x y) = JObj [(''kind'', JStr ''point''),
     (''point'', JObj [(''x'', number_json x), (''y'', number_json y)])]"
| "target_json (Region x y w h) = JObj [(''kind'', JStr ''region''),
     (''region'', JObj [(''x'', number_json x), (''y'', number_json y), (''width'', number_json w), (''height'', number_json h)])]"

datatype anchor_lifecycle = AnchorCurrent | AnchorMapped | AnchorStale | AnchorOrphaned

fun anchor_lifecycle_text :: "anchor_lifecycle \<Rightarrow> string" where
  "anchor_lifecycle_text AnchorCurrent = ''current''"
| "anchor_lifecycle_text AnchorMapped = ''mapped''"
| "anchor_lifecycle_text AnchorStale = ''stale''"
| "anchor_lifecycle_text AnchorOrphaned = ''orphaned''"

record anchor =
  anchor_evidence :: evidence
  anchor_target :: spatial_target
  anchor_lifecycle :: anchor_lifecycle
  mapped_from :: "evidence option"

definition anchor_json :: "anchor \<Rightarrow> json" where
  "anchor_json a = JObj ([(''evidence'', evidence_json (anchor_evidence a)), (''target'', target_json (anchor_target a)),
     (''lifecycle'', JStr (anchor_lifecycle_text (anchor_lifecycle a)))] @
     optional ''mappedFrom'' evidence_json (mapped_from a))"

record emoji_group =
  emoji :: string
  emoji_users :: "string list"

definition emoji_json :: "emoji_group \<Rightarrow> json" where
  "emoji_json g = JObj [(''emoji'', JStr (emoji g)), (''userIds'', strings_json (emoji_users g))]"

record message =
  message_id :: string
  message_body :: string
  message_by :: string
  message_at :: string
  message_parent :: "string option"
  message_mentions :: "string list"
  message_reactions :: "emoji_group list"
  message_reads :: "string list"

definition message_json :: "message \<Rightarrow> json" where
  "message_json m = JObj ([(''id'', JStr (message_id m)), (''body'', JStr (message_body m)),
     (''createdBy'', JStr (message_by m)), (''createdAt'', JStr (message_at m))] @
     optional ''parentMessageId'' JStr (message_parent m) @
     [(''mentionedUserIds'', strings_json (message_mentions m)),
      (''reactions'', JArr (map emoji_json (message_reactions m))), (''readBy'', strings_json (message_reads m))])"

record binding =
  binding_tenant :: string
  binding_project :: string
  binding_artifact :: string
  binding_revision :: string
  binding_baseline :: string
  binding_version :: int

definition binding_json :: "binding \<Rightarrow> json" where
  "binding_json b = JObj [(''tenantId'', JStr (binding_tenant b)), (''projectId'', JStr (binding_project b)),
     (''artifactId'', JStr (binding_artifact b)), (''revisionId'', JStr (binding_revision b)),
     (''baselineId'', JStr (binding_baseline b)), (''version'', JNum (binding_version b))]"

record provenance =
  target_node :: string
  target_revision :: string
  target_binding :: string

definition provenance_json :: "provenance \<Rightarrow> json" where
  "provenance_json c = JObj [(''nodeId'', JStr (target_node c)), (''revisionId'', JStr (target_revision c)),
     (''bindingId'', JStr (target_binding c))]"

datatype review_lifecycle = ReviewOpen | ReviewResolved

fun review_lifecycle_text :: "review_lifecycle \<Rightarrow> string" where
  "review_lifecycle_text ReviewOpen = ''open''"
| "review_lifecycle_text ReviewResolved = ''resolved''"

record review_thread =
  review_id :: string
  review_project :: string
  review_binding :: "binding option"
  review_provenance :: "provenance option"
  review_version :: int
  review_anchor :: anchor
  review_messages :: "message list"
  review_link :: string
  review_lifecycle :: review_lifecycle
  review_by :: string
  review_at :: string
  resolved_at :: "string option"
  resolved_by :: "string option"
  reopened_at :: "string option"
  reopened_by :: "string option"
  moved_at :: "string option"
  moved_by :: "string option"

definition review_json :: "review_thread \<Rightarrow> json" where
  "review_json t = JObj ([(''id'', JStr (review_id t)), (''projectId'', JStr (review_project t))] @
     optional ''hostedBinding'' binding_json (review_binding t) @
     optional ''compilerTargetProvenance'' provenance_json (review_provenance t) @
     [(''version'', JNum (review_version t)), (''anchor'', anchor_json (review_anchor t)),
      (''messages'', JArr (map message_json (review_messages t))), (''deepLink'', JStr (review_link t)),
      (''lifecycle'', JStr (review_lifecycle_text (review_lifecycle t))), (''createdBy'', JStr (review_by t)),
      (''createdAt'', JStr (review_at t))] @
     optional ''resolvedAt'' JStr (resolved_at t) @ optional ''resolvedBy'' JStr (resolved_by t) @
     optional ''reopenedAt'' JStr (reopened_at t) @ optional ''reopenedBy'' JStr (reopened_by t) @
     optional ''movedAt'' JStr (moved_at t) @ optional ''movedBy'' JStr (moved_by t))"

section \<open>Requests and annotations\<close>

datatype ai_lifecycle = Queued | Running | Applied | Failed | Cancelled | Undone

fun ai_lifecycle_text :: "ai_lifecycle \<Rightarrow> string" where
  "ai_lifecycle_text Queued = ''queued''"
| "ai_lifecycle_text Running = ''running''"
| "ai_lifecycle_text Applied = ''applied''"
| "ai_lifecycle_text Failed = ''failed''"
| "ai_lifecycle_text Cancelled = ''cancelled''"
| "ai_lifecycle_text Undone = ''undone''"

record ai_provider =
  provider_id :: string
  provider_capability :: string
  provider_model :: "string option"
  provider_implementation :: "string option"

definition provider_json :: "ai_provider \<Rightarrow> json" where
  "provider_json p = JObj ([(''providerId'', JStr (provider_id p)), (''capability'', JStr (provider_capability p))] @
     optional ''model'' JStr (provider_model p) @ optional ''implementation'' JStr (provider_implementation p))"

record ai_result =
  result_revision :: string
  result_fingerprint :: string
  result_diff :: string
  result_at :: string

definition result_json :: "ai_result \<Rightarrow> json" where
  "result_json r = JObj [(''revisionId'', JStr (result_revision r)), (''revisionFingerprint'', JStr (result_fingerprint r)),
     (''diff'', JStr (result_diff r)), (''completedAt'', JStr (result_at r))]"

record revision_reference =
  reference_id :: string
  reference_fingerprint :: string

definition reference_json :: "revision_reference \<Rightarrow> json" where
  "reference_json r = JObj [(''id'', JStr (reference_id r)), (''fingerprint'', JStr (reference_fingerprint r))]"

record ai_request =
  ai_id :: string
  ai_project :: string
  ai_anchor :: "anchor option"
  ai_instruction :: string
  ai_provider :: ai_provider
  ai_base :: revision_reference
  ai_lifecycle :: ai_lifecycle
  ai_by :: string
  ai_created :: string
  ai_updated :: string
  ai_result :: "ai_result option"
  ai_undo :: "ai_result option"
  ai_failure :: "string option"

definition ai_json :: "ai_request \<Rightarrow> json" where
  "ai_json a = JObj ([(''id'', JStr (ai_id a)), (''projectId'', JStr (ai_project a))] @
     optional ''anchor'' anchor_json (ai_anchor a) @
     [(''instruction'', JStr (ai_instruction a)), (''provider'', provider_json (ai_provider a)),
      (''baseRevision'', reference_json (ai_base a)), (''lifecycle'', JStr (ai_lifecycle_text (ai_lifecycle a))),
      (''createdBy'', JStr (ai_by a)), (''createdAt'', JStr (ai_created a)), (''updatedAt'', JStr (ai_updated a))] @
     optional ''result'' result_json (ai_result a) @ optional ''undoResult'' result_json (ai_undo a) @
     optional ''failureReason'' JStr (ai_failure a))"

datatype annotation_category = Development | Interaction | Accessibility | ContentNote

fun category_text :: "annotation_category \<Rightarrow> string" where
  "category_text Development = ''development''"
| "category_text Interaction = ''interaction''"
| "category_text Accessibility = ''accessibility''"
| "category_text ContentNote = ''content''"

record annotation =
  annotation_id :: string
  annotation_project :: string
  annotation_anchor :: anchor
  annotation_category :: annotation_category
  annotation_body :: string
  annotation_by :: string
  annotation_at :: string

definition annotation_json :: "annotation \<Rightarrow> json" where
  "annotation_json a = JObj [(''id'', JStr (annotation_id a)), (''projectId'', JStr (annotation_project a)),
     (''anchor'', anchor_json (annotation_anchor a)), (''category'', JStr (category_text (annotation_category a))),
     (''body'', JStr (annotation_body a)), (''createdBy'', JStr (annotation_by a)), (''createdAt'', JStr (annotation_at a))]"

section \<open>Discussions, approvals, audit and sharing\<close>

record thread =
  thread_id :: string
  thread_project :: string
  thread_revision :: string
  thread_node :: string
  thread_scenario :: string
  thread_by :: string
  thread_at :: string
  thread_resolved_at :: "string option"
  thread_resolved_by :: "string option"

definition thread_json :: "thread \<Rightarrow> json" where
  "thread_json t = JObj ([(''id'', JStr (thread_id t)), (''projectId'', JStr (thread_project t)),
     (''revisionId'', JStr (thread_revision t)), (''reactNodeId'', JStr (thread_node t)),
     (''scenarioId'', JStr (thread_scenario t)), (''createdBy'', JStr (thread_by t)), (''createdAt'', JStr (thread_at t))] @
     optional ''resolvedAt'' JStr (thread_resolved_at t) @ optional ''resolvedBy'' JStr (thread_resolved_by t))"

record comment =
  comment_id :: string
  comment_thread :: string
  comment_parent :: "string option"
  comment_body :: string
  comment_by :: string
  comment_at :: string
  comment_mentions :: "string list"

definition comment_json :: "comment \<Rightarrow> json" where
  "comment_json c = JObj ([(''id'', JStr (comment_id c)), (''threadId'', JStr (comment_thread c))] @
     optional ''parentCommentId'' JStr (comment_parent c) @
     [(''body'', JStr (comment_body c)), (''createdBy'', JStr (comment_by c)), (''createdAt'', JStr (comment_at c)),
      (''mentionedUserIds'', strings_json (comment_mentions c))])"

record reaction =
  reaction_comment :: string
  reaction_user :: string
  reaction_emoji :: string
  reaction_at :: string

definition reaction_json :: "reaction \<Rightarrow> json" where
  "reaction_json r = JObj [(''commentId'', JStr (reaction_comment r)), (''userId'', JStr (reaction_user r)),
     (''emoji'', JStr (reaction_emoji r)), (''createdAt'', JStr (reaction_at r))]"

datatype approval_decision = Approved | ChangesRequested

fun decision_text :: "approval_decision \<Rightarrow> string" where
  "decision_text Approved = ''approved''"
| "decision_text ChangesRequested = ''changes_requested''"

record approval =
  approval_id :: string
  approval_revision :: string
  approval_user :: string
  approval_decision :: approval_decision
  approval_note :: "string option"
  approval_at :: string

definition approval_json :: "approval \<Rightarrow> json" where
  "approval_json a = JObj ([(''id'', JStr (approval_id a)), (''revisionId'', JStr (approval_revision a)),
     (''userId'', JStr (approval_user a)), (''decision'', JStr (decision_text (approval_decision a)))] @
     optional ''note'' JStr (approval_note a) @ [(''createdAt'', JStr (approval_at a))])"

record audit_event =
  audit_id :: string
  audit_organization :: string
  audit_actor :: "string option"
  audit_action :: string
  audit_type :: string
  audit_resource :: string
  audit_metadata :: json
  audit_at :: string

definition audit_json :: "audit_event \<Rightarrow> json" where
  "audit_json e = JObj ([(''id'', JStr (audit_id e)), (''organizationId'', JStr (audit_organization e))] @
     optional ''actorId'' JStr (audit_actor e) @
     [(''action'', JStr (audit_action e)), (''resourceType'', JStr (audit_type e)), (''resourceId'', JStr (audit_resource e)),
      (''metadata'', audit_metadata e), (''occurredAt'', JStr (audit_at e))])"

text \<open>An event before it is stored has no cursor.\<close>

record event_input =
  event_id :: string
  event_project :: string
  event_type :: string
  event_actor :: "string option"
  event_resource_type :: string
  event_resource :: string
  event_payload :: json
  event_at :: string

record event = event_input +
  event_cursor :: nat

definition event_entries :: "'a event_input_scheme \<Rightarrow> (string \<times> json) list" where
  "event_entries e = [(''id'', JStr (event_id e)), (''projectId'', JStr (event_project e)), (''type'', JStr (event_type e))] @
     optional ''actorId'' JStr (event_actor e) @
     [(''resourceType'', JStr (event_resource_type e)), (''resourceId'', JStr (event_resource e)),
      (''payload'', event_payload e), (''occurredAt'', JStr (event_at e))]"

definition event_json :: "event \<Rightarrow> json" where
  "event_json e = JObj (event_entries e @ [(''cursor'', JNum (int (event_cursor e)))])"

datatype share_permission = ShareViewer | ShareCommenter

fun permission_text :: "share_permission \<Rightarrow> string" where
  "permission_text ShareViewer = ''viewer''"
| "permission_text ShareCommenter = ''commenter''"

record share_link =
  link_id :: string
  link_project :: string
  link_hash :: string
  link_permission :: share_permission
  link_expires :: string
  link_by :: string
  link_at :: string
  link_revoked :: "string option"

definition link_json :: "share_link \<Rightarrow> json" where
  "link_json l = JObj ([(''id'', JStr (link_id l)), (''projectId'', JStr (link_project l)), (''tokenHash'', JStr (link_hash l)),
     (''permission'', JStr (permission_text (link_permission l))), (''expiresAt'', JStr (link_expires l)),
     (''createdBy'', JStr (link_by l)), (''createdAt'', JStr (link_at l))] @ optional ''revokedAt'' JStr (link_revoked l))"

section \<open>Design review states\<close>

datatype review_intent = ForReview | ForHandoff

fun review_intent_text :: "review_intent \<Rightarrow> string" where
  "review_intent_text ForReview = ''review''"
| "review_intent_text ForHandoff = ''handoff''"

datatype readiness = ReadyDraft | ReadyForReview | ReadyForHandoff

fun readiness_text :: "readiness \<Rightarrow> string" where
  "readiness_text ReadyDraft = ''draft''"
| "readiness_text ReadyForReview = ''ready-for-review''"
| "readiness_text ReadyForHandoff = ''ready-for-handoff''"

datatype currency = CurrencyCurrent | CurrencyStale | CurrencyNone

fun currency_text :: "currency \<Rightarrow> string" where
  "currency_text CurrencyCurrent = ''current''"
| "currency_text CurrencyStale = ''stale''"
| "currency_text CurrencyNone = ''none''"

datatype change_kind = KindSource | KindDesignSystem | KindToken | KindTemplate | KindDependency | KindVisual
  | KindFlow | KindDirection

fun change_kind_text :: "change_kind \<Rightarrow> string" where
  "change_kind_text KindSource = ''source''"
| "change_kind_text KindDesignSystem = ''design-system''"
| "change_kind_text KindToken = ''token''"
| "change_kind_text KindTemplate = ''template''"
| "change_kind_text KindDependency = ''dependency''"
| "change_kind_text KindVisual = ''visual''"
| "change_kind_text KindFlow = ''flow''"
| "change_kind_text KindDirection = ''direction''"

record change_scope =
  scope_project :: string
  scope_screens :: "string list"
  scope_routes :: "string list"
  scope_scenarios :: "string list"
  scope_components :: "string list"
  scope_nodes :: "string list"

definition scope_json :: "change_scope \<Rightarrow> json" where
  "scope_json c = JObj [(''projectId'', JStr (scope_project c)), (''screenIds'', strings_json (scope_screens c)),
     (''routePaths'', strings_json (scope_routes c)), (''scenarioIds'', strings_json (scope_scenarios c)),
     (''componentIds'', strings_json (scope_components c)), (''stableNodeIds'', strings_json (scope_nodes c))]"

record visual_evidence =
  visual_description :: string
  visual_href :: "string option"
  visual_checksum :: "string option"

definition visual_json :: "visual_evidence \<Rightarrow> json" where
  "visual_json e = JObj ([(''description'', JStr (visual_description e))] @
     optional ''href'' JStr (visual_href e) @ optional ''checksum'' JStr (visual_checksum e))"

text \<open>\<open>actor\<close> with its id, \<open>agent\<close> with its id and prompt digest.\<close>

datatype change_provenance = ByActor string | ByAgent string string

fun change_provenance_json :: "change_provenance \<Rightarrow> json" where
  "change_provenance_json (ByActor a) = JObj [(''kind'', JStr ''actor''), (''actorId'', JStr a)]"
| "change_provenance_json (ByAgent a d) = JObj [(''kind'', JStr ''agent''), (''agentId'', JStr a), (''promptDigest'', JStr d)]"

record change_input =
  change_id :: string
  change_kind :: change_kind
  change_affected :: change_scope
  change_evidence :: "visual_evidence list"
  change_provenance :: change_provenance
  change_reason :: string

record change = change_input +
  change_before :: revision_reference
  change_current :: revision_reference
  change_at :: string

definition change_entries :: "'a change_input_scheme \<Rightarrow> (string \<times> json) list" where
  "change_entries c = [(''id'', JStr (change_id c)), (''kind'', JStr (change_kind_text (change_kind c))),
     (''affected'', scope_json (change_affected c)), (''evidence'', JArr (map visual_json (change_evidence c))),
     (''provenance'', change_provenance_json (change_provenance c)), (''reason'', JStr (change_reason c))]"

definition change_json :: "change \<Rightarrow> json" where
  "change_json c = JObj (change_entries c @ [(''beforeRevision'', reference_json (change_before c)),
     (''currentRevision'', reference_json (change_current c)), (''occurredAt'', JStr (change_at c))])"

record readiness_input =
  ready_id :: string
  ready_revision :: string
  ready_intent :: review_intent
  ready_fingerprint :: string

definition readiness_json :: "readiness_input \<Rightarrow> json" where
  "readiness_json r = JObj [(''id'', JStr (ready_id r)), (''revisionId'', JStr (ready_revision r)),
     (''intent'', JStr (review_intent_text (ready_intent r))), (''revisionFingerprint'', JStr (ready_fingerprint r))]"

record design_baseline =
  base_id :: string
  base_project :: string
  base_revision :: revision_reference
  base_intent :: review_intent
  base_by :: string
  base_at :: string

definition base_json :: "design_baseline \<Rightarrow> json" where
  "base_json b = JObj [(''id'', JStr (base_id b)), (''projectId'', JStr (base_project b)),
     (''revision'', reference_json (base_revision b)), (''intent'', JStr (review_intent_text (base_intent b))),
     (''createdBy'', JStr (base_by b)), (''createdAt'', JStr (base_at b))]"

record review_state =
  state_format :: string
  state_project :: string
  state_readiness :: readiness
  state_baseline :: "design_baseline option"
  state_currency :: currency
  approvals_stale :: bool
  changes_since :: "change list"

definition review_state_json :: "review_state \<Rightarrow> json" where
  "review_state_json s = JObj ([(''format'', JStr (state_format s)), (''projectId'', JStr (state_project s)),
     (''readiness'', JStr (readiness_text (state_readiness s)))] @ optional ''baseline'' base_json (state_baseline s) @
     [(''currency'', JStr (currency_text (state_currency s))), (''approvalsStale'', JBool (approvals_stale s)),
      (''changesSinceBaseline'', JArr (map change_json (changes_since s)))])"

end
