(* ===== verification/Collab_Validate.thy ===== *)
theory Collab_Validate
  imports Collab_Data
begin

text \<open>
  The boundary copy and the validators of \<open>packages/collaboration/src/index.ts\<close>: scalars, revision
  evidence, spatial anchors, review threads and annotations, and the requests for AI changes with
  their transition rules.  Errors are the codes of \<open>CollaborationError\<close>.
\<close>

section \<open>The boundary\<close>

definition max_evidence_items :: nat where "max_evidence_items = 1000"
definition max_reaction_groups :: nat where "max_reaction_groups = min 100 max_evidence_items"

text \<open>A property name that is copied is a text of the budget as well.\<close>

fun long_names :: "json \<Rightarrow> bool" where
  "long_names (JArr xs) = list_ex long_names xs"
| "long_names (JObj kvs) =
     list_ex (\<lambda>kv. fst kv \<noteq> ''length'' \<and> (length (fst kv) > max_text \<or> long_names (snd kv))) kvs"
| "long_names v = False"

text \<open>\<open>ownCollaborationValue\<close>: the traversal and the limits are those of \<open>ownBaselineValue\<close>.\<close>

definition own_value :: "json \<Rightarrow> json option" where
  "own_value v =
     (if visit 0 v \<lparr>owned_bytes = 0, owned_nodes = 0\<rparr> = None \<or> long_names v then None
      else Some (inert_copy v))"

definition fits_boundary :: "json \<Rightarrow> bool" where
  "fits_boundary v \<longleftrightarrow> own_value v \<noteq> None"

definition owned_as :: "('a \<Rightarrow> json) \<Rightarrow> 'a \<Rightarrow> collab_error + unit" where
  "owned_as value_of x = failIf (\<not> fits_boundary (value_of x)) ErrInvalid (Inr ())"

text \<open>\<open>equalCollaborationValues\<close>: own properties in any order; a value that is not inert data is equal
  to nothing.\<close>

fun compare_values :: "json \<Rightarrow> json \<Rightarrow> bool" where
  "compare_values (JArr xs) w =
     (case w of JArr ys \<Rightarrow> list_all2 compare_values xs ys | _ \<Rightarrow> False)"
| "compare_values (JObj kvs) w =
     (case w of
        JObj lvs \<Rightarrow> length kvs = length lvs \<and>
          list_all (\<lambda>kv. fst kv \<in> fst ` set lvs \<and> compare_values (snd kv) (field lvs (fst kv))) kvs
      | _ \<Rightarrow> False)"
| "compare_values v w = (v = w)"

definition equal_values :: "json \<Rightarrow> json \<Rightarrow> bool" where
  "equal_values v w =
     (case (own_value v, own_value w) of (Some a, Some b) \<Rightarrow> compare_values a b | _ \<Rightarrow> False)"

text \<open>An absent property is \<open>undefined\<close> when it is compared.\<close>

definition value_or_undefined :: "('a \<Rightarrow> json) \<Rightarrow> 'a option \<Rightarrow> json" where
  "value_or_undefined f v = (case v of None \<Rightarrow> JOther NonObject | Some x \<Rightarrow> f x)"

section \<open>Scalars\<close>

definition text_fits :: "nat \<Rightarrow> string \<Rightarrow> bool" where
  "text_fits limit s \<longleftrightarrow> js_trim s \<noteq> [] \<and> length s \<le> limit \<and> utf8_length s \<le> limit * 4"

definition require_text_within :: "nat \<Rightarrow> string \<Rightarrow> collab_error + unit" where
  "require_text_within limit s = failIf (\<not> text_fits limit s) ErrInvalid (Inr ())"

definition stable_identifier :: "string \<Rightarrow> bool" where
  "stable_identifier s \<longleftrightarrow>
     s \<noteq> [] \<and> length s \<le> max_identifier \<and> (is_letter (hd s) \<or> is_digit (hd s)) \<and> list_all is_id_char (tl s)"

definition require_identifier :: "string \<Rightarrow> collab_error + unit" where
  "require_identifier s = failIf (\<not> stable_identifier s) ErrInvalid (Inr ())"

definition require_timestamp :: "string \<Rightarrow> collab_error + unit" where
  "require_timestamp s = failIf (\<not> valid_timestamp (JStr s)) ErrInvalid (Inr ())"

definition optionally_require :: "('a \<Rightarrow> collab_error + unit) \<Rightarrow> 'a option \<Rightarrow> collab_error + unit" where
  "optionally_require f v = (case v of None \<Rightarrow> Inr () | Some x \<Rightarrow> f x)"

definition require_coordinate :: "platform \<Rightarrow> number \<Rightarrow> collab_error + unit" where
  "require_coordinate p n = failIf (number_value p n < 0 \<or> number_value p n > 1) ErrInvalid (Inr ())"

text \<open>\<open>Date.parse\<close> on a validated timestamp, as a number in the order of time; on any other text it has
  no value, and a comparison with \<open>NaN\<close> is false.\<close>

definition time_value :: "string \<Rightarrow> nat option" where
  "time_value s =
     (if valid_timestamp (JStr s)
      then map_option (\<lambda>f. stamp (take 19 s @ ''.'' @ f @ replicate (3 - length f) CHR ''0'' @ ''Z''))
             (timestamp_fraction (drop 19 s))
      else None)"

definition earlier :: "string \<Rightarrow> string \<Rightarrow> bool" where
  "earlier s t \<longleftrightarrow> (case (time_value s, time_value t) of (Some a, Some b) \<Rightarrow> a < b | _ \<Rightarrow> False)"

definition not_later :: "string \<Rightarrow> string \<Rightarrow> bool" where
  "not_later s t \<longleftrightarrow> (case (time_value s, time_value t) of (Some a, Some b) \<Rightarrow> a \<le> b | _ \<Rightarrow> False)"

definition unsafe_path_char :: "char \<Rightarrow> bool" where
  "unsafe_path_char c \<longleftrightarrow> c = CHR 0x5C \<or> code_unit c \<le> 31 \<or> code_unit c = 127"

definition validate_deep_link :: "platform \<Rightarrow> string \<Rightarrow> collab_error + unit" where
  "validate_deep_link p s =
     andThen (owned_as JStr s) (\<lambda>u.
     andThen (require_text_within max_url s) (\<lambda>u.
       if starts_with s ''/'' \<and> \<not> starts_with s ''//''
       then failIf (list_ex unsafe_path_char s) ErrInvalid (Inr ())
       else failIf (\<not> https_url p s) ErrInvalid (Inr ())))"

section \<open>Evidence and anchors\<close>

definition validate_evidence :: "platform \<Rightarrow> evidence \<Rightarrow> collab_error + unit" where
  "validate_evidence p e =
     andThen (require_identifier (ev_artifact e)) (\<lambda>u.
     andThen (require_identifier (ev_screen e)) (\<lambda>u.
     andThen (require_identifier (ev_revision e)) (\<lambda>u.
     andThen (require_text_within 128 (ev_fingerprint e)) (\<lambda>u.
     andThen (optionally_require require_identifier (ev_scenario e)) (\<lambda>u.
     andThen (optionally_require require_identifier (ev_state e)) (\<lambda>u.
     andThen (optionally_require require_identifier (ev_node e)) (\<lambda>u.
     andThen (optionally_require (require_text_within 512) (ev_source e)) (\<lambda>u.
     failIf (number_value p (ev_width e) \<le> 0 \<or> number_value p (ev_height e) \<le> 0 \<or>
         number_value p (ev_zoom e) \<le> 0 \<or> number_value p (ev_zoom e) > 64) ErrInvalid (Inr ())))))))))"

text \<open>\<open>x + width > 1\<close> on doubles between 0 and 1: the sum is rounded to nearest, ties to even, so it exceeds
  one exactly when the exact sum exceeds one by more than half the spacing \<open>2\<^sup>-\<^sup>5\<^sup>2\<close> of the doubles there.\<close>

definition exceeds_one :: "rat \<Rightarrow> rat \<Rightarrow> bool" where
  "exceeds_one x w \<longleftrightarrow> x + w > 1 + 1 / 2 ^ 53"

fun validate_target :: "platform \<Rightarrow> spatial_target \<Rightarrow> collab_error + unit" where
  "validate_target p (Point x y) =
     andThen (require_coordinate p x) (\<lambda>u. require_coordinate p y)"
| "validate_target p (Region x y w h) =
     andThen (require_coordinate p x) (\<lambda>u.
     andThen (require_coordinate p y) (\<lambda>u.
     andThen (require_coordinate p w) (\<lambda>u.
     andThen (require_coordinate p h) (\<lambda>u.
     failIf (number_value p w \<le> 0 \<or> number_value p h \<le> 0 \<or>
         exceeds_one (number_value p x) (number_value p w) \<or> exceeds_one (number_value p y) (number_value p h))
       ErrInvalid (Inr ())))))"

definition validate_anchor :: "platform \<Rightarrow> anchor \<Rightarrow> revision \<Rightarrow> collab_error + unit" where
  "validate_anchor p a r =
     andThen (owned_as anchor_json a) (\<lambda>u.
     andThen (owned_as revision_json r) (\<lambda>u.
     failIf (ev_revision (anchor_evidence a) \<noteq> rev_id r \<or> ev_fingerprint (anchor_evidence a) \<noteq> rev_sha r) ErrInvalid
    (andThen (validate_evidence p (anchor_evidence a)) (\<lambda>u.
     failIf (case ev_scenario (anchor_evidence a) of None \<Rightarrow> False | Some s \<Rightarrow> s \<notin> set (rev_scenarios r)) ErrInvalid
    (failIf (anchor_lifecycle a = AnchorMapped \<and> mapped_from a = None) ErrInvalid
    (failIf (anchor_lifecycle a \<noteq> AnchorMapped \<and> mapped_from a \<noteq> None) ErrInvalid
    (andThen (optionally_require (validate_evidence p) (mapped_from a)) (\<lambda>u.
     validate_target p (anchor_target a)))))))))"

section \<open>Requests for AI changes\<close>

definition validate_result :: "ai_result \<Rightarrow> collab_error + unit" where
  "validate_result r =
     andThen (require_text_within 4000 (result_revision r)) (\<lambda>u.
     andThen (require_text_within 4000 (result_fingerprint r)) (\<lambda>u.
     andThen (require_text_within 1000000 (result_diff r)) (\<lambda>u.
     require_timestamp (result_at r))))"

definition validate_ai_request :: "platform \<Rightarrow> ai_request \<Rightarrow> revision \<Rightarrow> collab_error + unit" where
  "validate_ai_request p a r =
     andThen (owned_as ai_json a) (\<lambda>u.
     andThen (owned_as revision_json r) (\<lambda>u.
     andThen (optionally_require (\<lambda>x. validate_anchor p x r) (ai_anchor a)) (\<lambda>u.
     failIf (reference_id (ai_base a) \<noteq> rev_id r \<or> reference_fingerprint (ai_base a) \<noteq> rev_sha r) ErrInvalid
    (andThen (require_text_within 4000 (ai_instruction a)) (\<lambda>u.
     andThen (require_identifier (provider_id (ai_provider a))) (\<lambda>u.
     andThen (require_text_within 128 (provider_capability (ai_provider a))) (\<lambda>u.
     failIf (ai_lifecycle a \<in> {Applied, Undone} \<and> ai_result a = None) ErrInvalid
    (failIf (ai_lifecycle a \<notin> {Applied, Undone} \<and> ai_result a \<noteq> None) ErrInvalid
    (andThen (optionally_require validate_result (ai_result a)) (\<lambda>u.
     failIf (ai_lifecycle a = Undone \<and> ai_undo a = None) ErrInvalid
    (failIf (ai_lifecycle a \<noteq> Undone \<and> ai_undo a \<noteq> None) ErrInvalid
    (andThen (optionally_require validate_result (ai_undo a)) (\<lambda>u.
     failIf (ai_lifecycle a = Failed \<and> ai_failure a = None) ErrInvalid
    (failIf (ai_lifecycle a \<noteq> Failed \<and> ai_failure a \<noteq> None) ErrInvalid
    (optionally_require (require_text_within 4000) (ai_failure a))))))))))))))))"

text \<open>The map of the available revisions; a later revision with the same id replaces an earlier one.\<close>

definition revision_named :: "revision list \<Rightarrow> string \<Rightarrow> revision option" where
  "revision_named rs i = List.find (\<lambda>r. rev_id r = i) (rev rs)"

definition validate_result_reference :: "ai_request \<Rightarrow> revision list \<Rightarrow> ai_result \<Rightarrow> collab_error + unit" where
  "validate_result_reference a rs x =
     (case revision_named rs (result_revision x) of
        None \<Rightarrow> Inl ErrNotFound
      | Some r \<Rightarrow>
          failIf (rev_project r \<noteq> ai_project a) ErrNotFound
         (failIf (rev_sha r \<noteq> result_fingerprint x) ErrInvalid (Inr ())))"

definition validate_result_references :: "ai_request \<Rightarrow> revision list \<Rightarrow> collab_error + unit" where
  "validate_result_references a rs =
     andThen (owned_as ai_json a) (\<lambda>u.
     failIf (length rs > max_references \<or> \<not> list_all (\<lambda>r. fits_boundary (revision_json r)) rs) ErrInvalid
    (andThen (optionally_require (validate_result_reference a rs) (ai_result a)) (\<lambda>u.
     optionally_require (validate_result_reference a rs) (ai_undo a))))"

fun allowed_ai_transitions :: "ai_lifecycle \<Rightarrow> ai_lifecycle list" where
  "allowed_ai_transitions Queued = [Running, Cancelled]"
| "allowed_ai_transitions Running = [Applied, Failed, Cancelled]"
| "allowed_ai_transitions Applied = [Undone]"
| "allowed_ai_transitions Failed = [Queued]"
| "allowed_ai_transitions Cancelled = [Queued]"
| "allowed_ai_transitions Undone = []"

definition same_structure :: "('a \<Rightarrow> json) \<Rightarrow> 'a option \<Rightarrow> 'a option \<Rightarrow> bool" where
  "same_structure f x y = equal_values (value_or_undefined f x) (value_or_undefined f y)"

definition validate_ai_transition :: "ai_request \<Rightarrow> ai_request \<Rightarrow> collab_error + unit" where
  "validate_ai_transition prev new =
     andThen (owned_as ai_json prev) (\<lambda>u.
     andThen (owned_as ai_json new) (\<lambda>u.
     failIf (ai_id prev \<noteq> ai_id new \<or> ai_project prev \<noteq> ai_project new \<or> ai_by prev \<noteq> ai_by new \<or>
         ai_created prev \<noteq> ai_created new) ErrInvalid
    (andThen (require_timestamp (ai_created new)) (\<lambda>u.
     andThen (require_timestamp (ai_updated new)) (\<lambda>u.
     failIf (earlier (ai_updated new) (ai_created new) \<or> earlier (ai_updated new) (ai_updated prev)) ErrInvalid
    (failIf (ai_lifecycle prev \<noteq> ai_lifecycle new \<and>
         ai_lifecycle new \<notin> set (allowed_ai_transitions (ai_lifecycle prev))) ErrConflict
    (failIf (ai_instruction prev \<noteq> ai_instruction new \<or>
         \<not> same_structure provider_json (Some (ai_provider prev)) (Some (ai_provider new)) \<or>
         \<not> same_structure reference_json (Some (ai_base prev)) (Some (ai_base new)) \<or>
         \<not> same_structure anchor_json (ai_anchor prev) (ai_anchor new)) ErrInvalid
    (failIf (ai_lifecycle prev = Applied \<and> ai_lifecycle new = Undone \<and>
         \<not> same_structure result_json (ai_result prev) (ai_result new)) ErrInvalid
    (failIf (ai_lifecycle prev = ai_lifecycle new \<and>
         (\<not> same_structure result_json (ai_result prev) (ai_result new) \<or>
          \<not> same_structure result_json (ai_undo prev) (ai_undo new) \<or> ai_failure prev \<noteq> ai_failure new)) ErrInvalid
      (Inr ()))))))))))"

section \<open>Review threads\<close>

definition safe_version :: "int \<Rightarrow> bool" where
  "safe_version n \<longleftrightarrow> 1 \<le> n \<and> n \<le> max_safe_integer"

definition validate_binding :: "binding \<Rightarrow> collab_error + unit" where
  "validate_binding b =
     andThen (owned_as binding_json b) (\<lambda>u.
     andThen (require_identifier (binding_tenant b)) (\<lambda>u.
     andThen (require_identifier (binding_project b)) (\<lambda>u.
     andThen (require_identifier (binding_artifact b)) (\<lambda>u.
     andThen (require_identifier (binding_revision b)) (\<lambda>u.
     andThen (require_identifier (binding_baseline b)) (\<lambda>u.
     failIf (\<not> safe_version (binding_version b)) ErrInvalid (Inr ())))))))"

definition validate_provenance :: "provenance \<Rightarrow> collab_error + unit" where
  "validate_provenance c =
     andThen (owned_as provenance_json c) (\<lambda>u.
     andThen (require_identifier (target_node c)) (\<lambda>u.
     andThen (require_identifier (target_revision c)) (\<lambda>u.
     require_identifier (target_binding c))))"

definition validate_emoji :: "emoji_group \<Rightarrow> collab_error + unit" where
  "validate_emoji g =
     andThen (require_text_within 64 (emoji g)) (\<lambda>u.
     failIf (length (emoji_users g) > max_references) ErrInvalid
    (failIf (\<not> distinct (emoji_users g)) ErrInvalid
    (andThen (mapResult require_identifier (emoji_users g)) (\<lambda>u. Inr ()))))"

definition validate_message :: "string list \<Rightarrow> message \<Rightarrow> collab_error + unit" where
  "validate_message seen m =
     andThen (require_identifier (message_id m)) (\<lambda>u.
     failIf (message_id m \<in> set seen) ErrDuplicate
    (andThen (require_text_within 4000 (message_body m)) (\<lambda>u.
     andThen (require_identifier (message_by m)) (\<lambda>u.
     andThen (require_timestamp (message_at m)) (\<lambda>u.
     failIf (length (message_mentions m) > max_references) ErrInvalid
    (failIf (length (message_reads m) > max_references) ErrInvalid
    (failIf (length (message_reactions m) > max_reaction_groups) ErrInvalid
    (failIf (\<not> distinct (message_mentions m) \<or> \<not> distinct (message_reads m)) ErrInvalid
    (andThen (mapResult require_identifier (message_mentions m @ message_reads m)) (\<lambda>u.
     andThen (mapResult validate_emoji (message_reactions m)) (\<lambda>u.
     failIf (case message_parent m of None \<Rightarrow> False | Some q \<Rightarrow> q = message_id m \<or> q \<notin> set seen) ErrInvalid
       (Inr ()))))))))))))"

fun validate_messages :: "string list \<Rightarrow> message list \<Rightarrow> collab_error + unit" where
  "validate_messages seen [] = Inr ()"
| "validate_messages seen (m # ms) =
     andThen (validate_message seen m) (\<lambda>u. validate_messages (message_id m # seen) ms)"

definition binding_mismatch :: "review_thread \<Rightarrow> binding \<Rightarrow> bool" where
  "binding_mismatch t b \<longleftrightarrow>
     binding_project b \<noteq> review_project t \<or>
     binding_artifact b \<noteq> ev_artifact (anchor_evidence (review_anchor t)) \<or>
     binding_revision b \<noteq> ev_revision (anchor_evidence (review_anchor t))"

definition provenance_mismatch :: "review_thread \<Rightarrow> provenance \<Rightarrow> bool" where
  "provenance_mismatch t c \<longleftrightarrow>
     Some (target_node c) \<noteq> ev_node (anchor_evidence (review_anchor t)) \<or>
     target_revision c \<noteq> ev_revision (anchor_evidence (review_anchor t))"

definition validate_lifecycle :: "review_thread \<Rightarrow> collab_error + unit" where
  "validate_lifecycle t =
     failIf (review_lifecycle t = ReviewResolved \<and> (resolved_at t = None \<or> resolved_by t = None)) ErrInvalid
    (failIf (review_lifecycle t = ReviewOpen \<and> (resolved_at t \<noteq> None \<or> resolved_by t \<noteq> None)) ErrInvalid
    (andThen (optionally_require require_timestamp (resolved_at t)) (\<lambda>u.
     andThen (optionally_require require_identifier (resolved_by t)) (\<lambda>u.
     failIf ((reopened_at t = None) \<noteq> (reopened_by t = None)) ErrInvalid
    (andThen (optionally_require require_timestamp (reopened_at t)) (\<lambda>u.
     andThen (optionally_require require_identifier (reopened_by t)) (\<lambda>u.
     failIf (case reopened_at t of None \<Rightarrow> False | Some x \<Rightarrow> not_later x (review_at t)) ErrInvalid
    (failIf (case (reopened_at t, resolved_at t) of (Some x, Some y) \<Rightarrow> not_later y x | _ \<Rightarrow> False) ErrInvalid
    (failIf ((moved_at t = None) \<noteq> (moved_by t = None)) ErrInvalid
    (andThen (optionally_require require_timestamp (moved_at t)) (\<lambda>u.
     optionally_require require_identifier (moved_by t))))))))))))"

definition validate_review_thread :: "platform \<Rightarrow> review_thread \<Rightarrow> collab_error + unit" where
  "validate_review_thread p t =
     andThen (owned_as review_json t) (\<lambda>u.
     andThen (require_identifier (review_id t)) (\<lambda>u.
     andThen (require_identifier (review_project t)) (\<lambda>u.
     andThen (optionally_require (\<lambda>b. andThen (validate_binding b) (\<lambda>u.
       failIf (binding_mismatch t b) ErrInvalid (Inr ()))) (review_binding t)) (\<lambda>u.
     andThen (optionally_require (\<lambda>c. andThen (validate_provenance c) (\<lambda>u.
       failIf (provenance_mismatch t c) ErrInvalid (Inr ()))) (review_provenance t)) (\<lambda>u.
     failIf (\<not> safe_version (review_version t)) ErrInvalid
    (andThen (validate_deep_link p (review_link t)) (\<lambda>u.
     andThen (require_identifier (review_by t)) (\<lambda>u.
     andThen (require_timestamp (review_at t)) (\<lambda>u.
     andThen (validate_lifecycle t) (\<lambda>u.
     failIf (review_messages t = []) ErrInvalid
    (failIf (length (review_messages t) > max_evidence_items) ErrInvalid
    (validate_messages [] (review_messages t)))))))))))))"

section \<open>Annotations, threads and comments\<close>

definition validate_annotation :: "platform \<Rightarrow> annotation \<Rightarrow> revision \<Rightarrow> collab_error + unit" where
  "validate_annotation p a r =
     andThen (owned_as annotation_json a) (\<lambda>u.
     andThen (owned_as revision_json r) (\<lambda>u.
     andThen (require_identifier (annotation_id a)) (\<lambda>u.
     andThen (require_identifier (annotation_project a)) (\<lambda>u.
     andThen (require_identifier (annotation_by a)) (\<lambda>u.
     andThen (require_timestamp (annotation_at a)) (\<lambda>u.
     andThen (require_text_within 4000 (annotation_body a)) (\<lambda>u.
     failIf (rev_project r \<noteq> annotation_project a) ErrInvalid
       (validate_anchor p (annotation_anchor a) r))))))))"

definition validate_thread_anchor :: "thread \<Rightarrow> revision \<Rightarrow> collab_error + unit" where
  "validate_thread_anchor t r =
     andThen (owned_as thread_json t) (\<lambda>u.
     andThen (owned_as revision_json r) (\<lambda>u.
     failIf (thread_revision t \<noteq> rev_id r) ErrInvalid
    (andThen (require_identifier (thread_node t)) (\<lambda>u.
     andThen (require_identifier (thread_scenario t)) (\<lambda>u.
     failIf (thread_scenario t \<notin> set (rev_scenarios r)) ErrInvalid (Inr ()))))))"

definition validate_comment :: "comment \<Rightarrow> collab_error + unit" where
  "validate_comment c =
     andThen (owned_as comment_json c) (\<lambda>u.
     andThen (require_text_within 4000 (comment_body c)) (\<lambda>u.
     failIf (\<not> distinct (comment_mentions c)) ErrInvalid (Inr ())))"

end
