(* ===== verification/Collab_Snapshot.thy ===== *)
theory Collab_Snapshot
  imports Collab_Validate
begin

text \<open>
  Design review states and project snapshots of \<open>packages/collaboration/src/index.ts\<close>: their validators,
  which check every record and every reference of a project before an import reaches the store.
\<close>

section \<open>Design review states\<close>

definition review_state_format :: string where
  "review_state_format = ''selene-design-review-state/v1''"

definition validate_design_change :: "change \<Rightarrow> string \<Rightarrow> collab_error + unit" where
  "validate_design_change c project =
     andThen (require_text_within 4000 (change_id c)) (\<lambda>u.
     andThen (require_text_within 4000 (change_reason c)) (\<lambda>u.
     andThen (require_timestamp (change_at c)) (\<lambda>u.
     andThen (require_text_within 4000 (reference_id (change_before c))) (\<lambda>u.
     andThen (require_text_within 4000 (reference_fingerprint (change_before c))) (\<lambda>u.
     andThen (require_text_within 4000 (reference_id (change_current c))) (\<lambda>u.
     andThen (require_text_within 4000 (reference_fingerprint (change_current c))) (\<lambda>u.
     failIf (reference_id (change_before c) = reference_id (change_current c)) ErrInvalid
    (failIf (scope_project (change_affected c) \<noteq> project) ErrInvalid
    (failIf (\<not> list_all (\<lambda>f. distinct (f (change_affected c)))
         [scope_screens, scope_routes, scope_scenarios, scope_components, scope_nodes]) ErrInvalid
    (failIf (change_evidence c = []) ErrInvalid
    (andThen (mapResult (\<lambda>e.
       andThen (require_text_within 4000 (visual_description e)) (\<lambda>u.
       andThen (optionally_require (require_text_within 4000) (visual_href e)) (\<lambda>u.
       optionally_require (require_text_within 4000) (visual_checksum e)))) (change_evidence c)) (\<lambda>u.
     case change_provenance c of
       ByActor a \<Rightarrow> require_text_within 4000 a
     | ByAgent a d \<Rightarrow> andThen (require_text_within 4000 a) (\<lambda>u. require_text_within 4000 d)))))))))))))"

definition validate_review_state :: "review_state \<Rightarrow> collab_error + unit" where
  "validate_review_state s =
     andThen (owned_as review_state_json s) (\<lambda>u.
     failIf (state_format s \<noteq> review_state_format) ErrInvalid
    (andThen (require_text_within 4000 (state_project s)) (\<lambda>u.
     case state_baseline s of
       None \<Rightarrow> failIf (state_readiness s \<noteq> ReadyDraft \<or> state_currency s \<noteq> CurrencyNone \<or> approvals_stale s \<or>
           changes_since s \<noteq> []) ErrInvalid (Inr ())
     | Some b \<Rightarrow>
         andThen (require_text_within 4000 (base_id b)) (\<lambda>u.
         failIf (base_project b \<noteq> state_project s) ErrInvalid
        (andThen (require_text_within 4000 (reference_id (base_revision b))) (\<lambda>u.
         andThen (require_text_within 4000 (reference_fingerprint (base_revision b))) (\<lambda>u.
         andThen (require_text_within 4000 (base_by b)) (\<lambda>u.
         andThen (require_timestamp (base_at b)) (\<lambda>u.
         failIf (base_intent b = ForReview \<and> state_readiness s \<noteq> ReadyForReview \<or>
             base_intent b = ForHandoff \<and> state_readiness s \<noteq> ReadyForHandoff) ErrInvalid
        (failIf (state_currency s = CurrencyCurrent \<and> (approvals_stale s \<or> changes_since s \<noteq> []) \<or>
             state_currency s = CurrencyStale \<and> (\<not> approvals_stale s \<or> changes_since s = []) \<or>
             state_currency s = CurrencyNone) ErrInvalid
        (andThen (mapResult (\<lambda>c. validate_design_change c (state_project s)) (changes_since s)) (\<lambda>u.
         Inr ()))))))))))))"

section \<open>Snapshots\<close>

definition collaboration_format :: string where
  "collaboration_format = ''selene-collaboration/v2''"

record snapshot =
  snap_format :: string
  snap_project :: project
  snap_revisions :: "revision list"
  snap_threads :: "thread list"
  snap_comments :: "comment list"
  snap_reactions :: "reaction list"
  snap_approvals :: "approval list"
  snap_reviews :: "review_thread list"
  snap_requests :: "ai_request list"
  snap_annotations :: "annotation list"
  snap_review_state :: "review_state option"

definition snapshot_json :: "snapshot \<Rightarrow> json" where
  "snapshot_json s = JObj ([(''format'', JStr (snap_format s)), (''project'', project_json (snap_project s)),
     (''revisions'', JArr (map revision_json (snap_revisions s))), (''threads'', JArr (map thread_json (snap_threads s))),
     (''comments'', JArr (map comment_json (snap_comments s))), (''reactions'', JArr (map reaction_json (snap_reactions s))),
     (''approvals'', JArr (map approval_json (snap_approvals s))), (''reviewThreads'', JArr (map review_json (snap_reviews s))),
     (''aiChangeRequests'', JArr (map ai_json (snap_requests s))),
     (''developerAnnotations'', JArr (map annotation_json (snap_annotations s)))] @
     optional ''designReviewState'' review_state_json (snap_review_state s))"

definition validate_revision :: "string \<Rightarrow> string list \<Rightarrow> revision \<Rightarrow> collab_error + unit" where
  "validate_revision project seen r =
     andThen (require_identifier (rev_id r)) (\<lambda>u.
     failIf (rev_id r \<in> set seen \<or> rev_project r \<noteq> project) ErrInvalid
    (failIf (\<not> safe_version (rev_sequence r)) ErrInvalid
    (failIf (\<not> distinct (rev_scenarios r)) ErrInvalid
    (andThen (mapResult require_identifier (rev_scenarios r)) (\<lambda>u.
     andThen (require_text_within 128 (rev_sha r)) (\<lambda>u.
     andThen (require_identifier (rev_created_by r)) (\<lambda>u.
     require_timestamp (rev_created_at r))))))))"

fun validate_revisions :: "string \<Rightarrow> string list \<Rightarrow> revision list \<Rightarrow> collab_error + unit" where
  "validate_revisions project seen [] = Inr ()"
| "validate_revisions project seen (r # rs) =
     andThen (validate_revision project seen r) (\<lambda>u. validate_revisions project (rev_id r # seen) rs)"

definition validate_thread :: "string \<Rightarrow> revision list \<Rightarrow> string list \<Rightarrow> thread \<Rightarrow> collab_error + unit" where
  "validate_thread project rs seen t =
     failIf (thread_id t \<in> set seen \<or> thread_project t \<noteq> project) ErrInvalid
    (case revision_named rs (thread_revision t) of
       None \<Rightarrow> Inl ErrInvalid
     | Some r \<Rightarrow>
         andThen (validate_thread_anchor t r) (\<lambda>u.
         andThen (require_identifier (thread_by t)) (\<lambda>u.
         andThen (require_timestamp (thread_at t)) (\<lambda>u.
         failIf ((thread_resolved_at t = None) \<noteq> (thread_resolved_by t = None)) ErrInvalid
        (andThen (optionally_require require_timestamp (thread_resolved_at t)) (\<lambda>u.
         optionally_require require_identifier (thread_resolved_by t)))))))"

fun validate_threads :: "string \<Rightarrow> revision list \<Rightarrow> string list \<Rightarrow> thread list \<Rightarrow> collab_error + unit" where
  "validate_threads project rs seen [] = Inr ()"
| "validate_threads project rs seen (t # ts) =
     andThen (validate_thread project rs seen t) (\<lambda>u. validate_threads project rs (thread_id t # seen) ts)"

text \<open>The comments before this one, newest first.\<close>

fun validate_comments :: "string list \<Rightarrow> comment list \<Rightarrow> comment list \<Rightarrow> collab_error + unit" where
  "validate_comments threads seen [] = Inr ()"
| "validate_comments threads seen (c # cs) =
     failIf (comment_id c \<in> comment_id ` set seen \<or> comment_thread c \<notin> set threads) ErrInvalid
    (andThen (validate_comment c) (\<lambda>u.
     andThen (require_identifier (comment_by c)) (\<lambda>u.
     andThen (require_timestamp (comment_at c)) (\<lambda>u.
     failIf (case comment_parent c of
         None \<Rightarrow> False
       | Some q \<Rightarrow> (case List.find (\<lambda>d. comment_id d = q) seen of
             None \<Rightarrow> True | Some d \<Rightarrow> comment_thread d \<noteq> comment_thread c)) ErrInvalid
       (validate_comments threads (c # seen) cs)))))"

definition validate_reaction :: "string list \<Rightarrow> reaction \<Rightarrow> collab_error + unit" where
  "validate_reaction comments r =
     failIf (reaction_comment r \<notin> set comments) ErrInvalid
    (andThen (require_identifier (reaction_user r)) (\<lambda>u.
     andThen (require_text_within 64 (reaction_emoji r)) (\<lambda>u.
     require_timestamp (reaction_at r))))"

definition validate_approval :: "string list \<Rightarrow> approval \<Rightarrow> collab_error + unit" where
  "validate_approval revisions a =
     failIf (approval_revision a \<notin> set revisions) ErrInvalid
    (andThen (require_identifier (approval_id a)) (\<lambda>u.
     andThen (require_identifier (approval_user a)) (\<lambda>u.
     andThen (optionally_require (require_text_within 4000) (approval_note a)) (\<lambda>u.
     require_timestamp (approval_at a)))))"

definition validate_snapshot_review :: "platform \<Rightarrow> string \<Rightarrow> revision list \<Rightarrow> review_thread \<Rightarrow> collab_error + unit" where
  "validate_snapshot_review p project rs t =
     failIf (review_project t \<noteq> project) ErrInvalid
    (case revision_named rs (ev_revision (anchor_evidence (review_anchor t))) of
       None \<Rightarrow> Inl ErrInvalid
     | Some r \<Rightarrow> andThen (validate_anchor p (review_anchor t) r) (\<lambda>u. validate_review_thread p t))"

definition validate_snapshot_request :: "platform \<Rightarrow> string \<Rightarrow> revision list \<Rightarrow> ai_request \<Rightarrow> collab_error + unit" where
  "validate_snapshot_request p project rs a =
     failIf (ai_project a \<noteq> project) ErrInvalid
    (case revision_named rs (reference_id (ai_base a)) of
       None \<Rightarrow> Inl ErrInvalid
     | Some r \<Rightarrow> andThen (validate_ai_request p a r) (\<lambda>u. validate_result_references a rs))"

definition validate_snapshot_annotation :: "platform \<Rightarrow> string \<Rightarrow> revision list \<Rightarrow> annotation \<Rightarrow> collab_error + unit" where
  "validate_snapshot_annotation p project rs a =
     failIf (annotation_project a \<noteq> project) ErrInvalid
    (case revision_named rs (ev_revision (anchor_evidence (annotation_anchor a))) of
       None \<Rightarrow> Inl ErrInvalid
     | Some r \<Rightarrow> validate_annotation p a r)"

definition reaction_triple :: "reaction \<Rightarrow> string" where
  "reaction_triple r = reaction_comment r @ CHR 0x00 # reaction_user r @ CHR 0x00 # reaction_emoji r"

definition oversized :: "snapshot \<Rightarrow> bool" where
  "oversized s \<longleftrightarrow>
     length (snap_revisions s) > max_items \<or> length (snap_threads s) > max_items \<or> length (snap_comments s) > max_items \<or>
     length (snap_reactions s) > max_items \<or> length (snap_approvals s) > max_items \<or> length (snap_reviews s) > max_items \<or>
     length (snap_requests s) > max_items \<or> length (snap_annotations s) > max_items"

definition validate_snapshot :: "platform \<Rightarrow> snapshot \<Rightarrow> collab_error + unit" where
  "validate_snapshot p s =
     (let project = project_id (snap_project s); rs = snap_revisions s in
     andThen (owned_as snapshot_json s) (\<lambda>u.
     failIf (snap_format s \<noteq> collaboration_format) ErrInvalid
    (andThen (require_identifier project) (\<lambda>u.
     andThen (require_identifier (project_organization (snap_project s))) (\<lambda>u.
     andThen (require_text_within 4000 (project_name (snap_project s))) (\<lambda>u.
     failIf (oversized s) ErrInvalid
    (failIf (\<not> distinct (map review_id (snap_reviews s))) ErrDuplicate
    (failIf (\<not> distinct (map ai_id (snap_requests s))) ErrDuplicate
    (failIf (\<not> distinct (map annotation_id (snap_annotations s))) ErrDuplicate
    (failIf (\<not> distinct (map reaction_triple (snap_reactions s))) ErrDuplicate
    (andThen (validate_revisions project [] rs) (\<lambda>u.
     failIf (\<not> list_all (\<lambda>r. case rev_parent r of None \<Rightarrow> True | Some q \<Rightarrow> q \<in> rev_id ` set rs) rs) ErrInvalid
    (andThen (validate_threads project rs [] (snap_threads s)) (\<lambda>u.
     andThen (validate_comments (map thread_id (snap_threads s)) [] (snap_comments s)) (\<lambda>u.
     andThen (mapResult (validate_reaction (map comment_id (snap_comments s))) (snap_reactions s)) (\<lambda>u.
     andThen (mapResult (validate_approval (map rev_id rs)) (snap_approvals s)) (\<lambda>u.
     andThen (mapResult (validate_snapshot_review p project rs) (snap_reviews s)) (\<lambda>u.
     andThen (mapResult (validate_snapshot_request p project rs) (snap_requests s)) (\<lambda>u.
     andThen (mapResult (validate_snapshot_annotation p project rs) (snap_annotations s)) (\<lambda>u.
     optionally_require (\<lambda>x. andThen (validate_review_state x) (\<lambda>u.
       failIf (state_project x \<noteq> project) ErrInvalid (Inr ()))) (snap_review_state s)))))))))))))))))))))"

end
