(* ===== verification/Collab_Receipt.thy ===== *)
theory Collab_Receipt
  imports Collab_Validate
begin

text \<open>
  Review thread mutations of \<open>packages/collaboration/src/index.ts\<close>: the budget pass over an untrusted
  mutation, its normalization, and the canonical text that identifies what is being asked, which is
  what the store compares when the same operation id comes back.
\<close>

section \<open>The budget pass\<close>

definition max_receipt_bytes :: nat where "max_receipt_bytes = 256 * 1024"
definition max_receipt_key_bytes :: nat where "max_receipt_key_bytes = 256"
definition max_receipt_string_bytes :: nat where "max_receipt_string_bytes = 64 * 1024"
definition max_receipt_items :: nat where "max_receipt_items = 1000"
definition max_receipt_depth :: nat where "max_receipt_depth = 32"

record receipt_budget =
  receipt_bytes :: nat
  receipt_nodes :: nat

definition receipt_add :: "string \<Rightarrow> receipt_budget \<Rightarrow> receipt_budget option" where
  "receipt_add s b =
     (let n = receipt_bytes b + utf8_length s in
      if n > max_receipt_bytes then None else Some (b\<lparr>receipt_bytes := n\<rparr>))"

definition receipt_node :: "receipt_budget \<Rightarrow> receipt_budget option" where
  "receipt_node b =
     (let n = receipt_nodes b + 1 in
      if n > max_baseline_nodes then None else Some (b\<lparr>receipt_nodes := n\<rparr>))"

definition bool_text :: "bool \<Rightarrow> string" where
  "bool_text x = (if x then ''true'' else ''false'')"

fun preflight :: "nat \<Rightarrow> json \<Rightarrow> receipt_budget \<Rightarrow> receipt_budget option" where
  "preflight depth v b =
     (if depth > max_receipt_depth then None
      else case v of
        JNull \<Rightarrow> receipt_add ''null'' b
      | JBool x \<Rightarrow> receipt_add (bool_text x) b
      | JNum n \<Rightarrow> receipt_add (int_text n) b
      | JDec d \<Rightarrow> receipt_add (text_of_decimal d) b
      | JStr s \<Rightarrow> (if utf8_length s > max_receipt_string_bytes then None else receipt_add s b)
      | JArr xs \<Rightarrow>
          Option.bind (receipt_node b) (\<lambda>b1.
            if length xs + 1 > max_receipt_items then None
            else budgeted (\<lambda>ix b2. Option.bind (receipt_add (nat_text (fst ix)) b2)
              (preflight (depth + 1) (snd ix))) (enumerate 0 xs) b1)
      | JObj kvs \<Rightarrow>
          Option.bind (receipt_node b) (\<lambda>b1.
            if length kvs > max_receipt_items \<or> \<not> distinct (map fst kvs) then None
            else budgeted (\<lambda>kv b2. if fst kv = ''length'' then Some b2
              else if utf8_length (fst kv) > max_receipt_key_bytes then None
              else Option.bind (receipt_add (fst kv) b2) (preflight (depth + 1) (snd kv))) kvs b1)
      | JOther f \<Rightarrow> None)"

declare preflight.simps [simp del]

definition no_receipt :: receipt_budget where
  "no_receipt = \<lparr>receipt_bytes = 0, receipt_nodes = 0\<rparr>"

section \<open>Normalization\<close>

definition text_between :: "nat \<Rightarrow> json \<Rightarrow> bool" where
  "text_between limit v \<longleftrightarrow> (case v of JStr s \<Rightarrow> s \<noteq> [] \<and> length s \<le> limit | _ \<Rightarrow> False)"

definition plain_object :: "json \<Rightarrow> bool" where
  "plain_object v \<longleftrightarrow> (case v of JObj kvs \<Rightarrow> True | _ \<Rightarrow> False)"

definition exact_keys :: "string list \<Rightarrow> (string \<times> json) list \<Rightarrow> bool" where
  "exact_keys ks kvs \<longleftrightarrow> length kvs = length ks \<and> set (map fst kvs) = set ks"

definition mutation_shape :: "(string \<times> json) list \<Rightarrow> bool" where
  "mutation_shape m \<longleftrightarrow>
     text_between 256 (field m ''operationId'') \<and>
     (case field m ''expectedVersion'' of JNum n \<Rightarrow> 0 \<le> n \<and> n \<le> max_safe_integer | _ \<Rightarrow> False) \<and>
     (if field m ''kind'' = JStr ''create'' then
        exact_keys [''expectedVersion'', ''kind'', ''operationId'', ''thread''] m \<and>
        field m ''expectedVersion'' = JNum 0 \<and> plain_object (field m ''thread'') \<and>
        (case field m ''thread'' of JObj t \<Rightarrow> is_array (field t ''messages'') | _ \<Rightarrow> False)
      else if field m ''kind'' = JStr ''reply'' then
        exact_keys [''expectedVersion'', ''kind'', ''message'', ''operationId'', ''threadId''] m \<and>
        text_between max_identifier (field m ''threadId'') \<and> plain_object (field m ''message'')
      else if field m ''kind'' = JStr ''resolve'' \<or> field m ''kind'' = JStr ''reopen'' then
        exact_keys [''actorId'', ''expectedVersion'', ''kind'', ''occurredAt'', ''operationId'', ''threadId''] m \<and>
        text_between max_identifier (field m ''threadId'') \<and> text_between max_identifier (field m ''actorId'') \<and>
        text_between max_timestamp (field m ''occurredAt'')
      else False)"

definition normalize_mutation :: "json \<Rightarrow> collab_error + (string \<times> json) list" where
  "normalize_mutation v =
     (if preflight 0 v no_receipt = None then Inl ErrInvalid
      else case own_value v of
        Some (JObj m) \<Rightarrow> failIf (\<not> mutation_shape m) ErrInvalid (Inr m)
      | _ \<Rightarrow> Inl ErrInvalid)"

section \<open>The canonical text\<close>

text \<open>\<open>keys.sort((left, right) => left.localeCompare(right, 'en'))\<close>, a stable sort.\<close>

definition collated :: "platform \<Rightarrow> (string \<times> json) list \<Rightarrow> (string \<times> json) list" where
  "collated p kvs = js_sort (\<lambda>kv lv. collate p (fst kv) (fst lv)) kvs"

text \<open>\<open>encode(value, depth)\<close>: the text pushed so far is the second component of the state.\<close>

record chunks =
  chunk_bytes :: nat
  chunk_nodes :: nat
  chunk_text :: string

definition push_chunk :: "string \<Rightarrow> chunks \<Rightarrow> chunks option" where
  "push_chunk s c =
     (let n = chunk_bytes c + utf8_length s in
      if n > max_receipt_bytes then None else Some (c\<lparr>chunk_bytes := n, chunk_text := chunk_text c @ s\<rparr>))"

definition chunk_node :: "chunks \<Rightarrow> chunks option" where
  "chunk_node c =
     (let n = chunk_nodes c + 1 in
      if n > max_baseline_nodes then None else Some (c\<lparr>chunk_nodes := n\<rparr>))"

definition comma_before :: "nat \<Rightarrow> chunks \<Rightarrow> chunks option" where
  "comma_before i c = (if 0 < i then push_chunk '','' c else Some c)"

lemma collated_entry_size:
  "(i, k, v) \<in> set (enumerate n (collated p kvs)) \<Longrightarrow>
     size v < Suc (size_list (size_prod (\<lambda>_. 0) size) kvs)"
proof -
  assume "(i, k, v) \<in> set (enumerate n (collated p kvs))"
  then have "(k, v) \<in> set kvs" using indexed_in unfolding collated_def by fastforce
  then show ?thesis using json_entry_size [of "(k, v)" kvs] by simp
qed

function encode_value :: "platform \<Rightarrow> nat \<Rightarrow> json \<Rightarrow> chunks \<Rightarrow> chunks option" where
  "encode_value p depth v c =
     (if depth > max_receipt_depth then None
      else case v of
        JNull \<Rightarrow> push_chunk ''null'' c
      | JBool x \<Rightarrow> push_chunk (bool_text x) c
      | JNum n \<Rightarrow> push_chunk (stringify (JNum n)) c
      | JDec d \<Rightarrow> push_chunk (stringify (JDec d)) c
      | JStr s \<Rightarrow>
          (if utf8_length s > max_receipt_string_bytes then None else push_chunk (stringify (JStr s)) c)
      | JArr xs \<Rightarrow>
          Option.bind (chunk_node c) (\<lambda>c1.
            if length xs > max_receipt_items then None
            else Option.bind (push_chunk ''['' c1) (\<lambda>c2.
              Option.bind (budgeted (\<lambda>ix c3. Option.bind (comma_before (fst ix) c3)
                (encode_value p (depth + 1) (snd ix))) (enumerate 0 xs) c2) (push_chunk '']'')))
      | JObj kvs \<Rightarrow>
          Option.bind (chunk_node c) (\<lambda>c1.
            if length kvs > max_receipt_items then None
            else Option.bind (push_chunk ''{'' c1) (\<lambda>c2.
              Option.bind (budgeted (\<lambda>ix c3.
                if utf8_length (fst (snd ix)) > max_receipt_key_bytes then None
                else Option.bind (comma_before (fst ix) c3) (\<lambda>c4.
                  Option.bind (push_chunk (quote_text (fst (snd ix))) c4) (\<lambda>c5.
                  Option.bind (push_chunk '':'' c5) (encode_value p (depth + 1) (snd (snd ix))))))
                (enumerate 0 (collated p kvs)) c2) (push_chunk ''}'')))
      | JOther f \<Rightarrow> None)"

  by pat_completeness auto

termination
proof (relation "measure (\<lambda>(p, depth, v, c). size v)")
qed (auto simp: indexed_size dest: collated_entry_size)

declare encode_value.simps [simp del]

text \<open>What is encoded: the request without its operation id and without the times of its records.\<close>

definition spread :: "json \<Rightarrow> (string \<times> json) list" where
  "spread v =
     (case v of
        JObj kvs \<Rightarrow> kvs
      | JArr xs \<Rightarrow> map (\<lambda>ix. (nat_text (fst ix), snd ix)) (enumerate 0 xs)
      | JStr s \<Rightarrow> map (\<lambda>ix. (nat_text (fst ix), JStr [snd ix])) (enumerate 0 s)
      | _ \<Rightarrow> [])"

definition without_time :: "json \<Rightarrow> json" where
  "without_time v = JObj (with_entry ''createdAt'' (JStr []) (spread v))"

definition mutation_payload :: "(string \<times> json) list \<Rightarrow> json" where
  "mutation_payload m =
     (let common = [(''kind'', field m ''kind''), (''expectedVersion'', field m ''expectedVersion'')] in
      if field m ''kind'' = JStr ''create'' then
        JObj (common @ [(''thread'', JObj (with_entry ''messages''
          (case name_of (field m ''thread'') ''messages'' of JArr ms \<Rightarrow> JArr (map without_time ms) | w \<Rightarrow> w)
          (with_entry ''createdAt'' (JStr []) (spread (field m ''thread'')))))])
      else if field m ''kind'' = JStr ''reply'' then
        JObj (common @ [(''threadId'', field m ''threadId''), (''message'', without_time (field m ''message''))])
      else
        JObj (common @ [(''threadId'', field m ''threadId''), (''actorId'', field m ''actorId'')]))"

definition mutation_fingerprint :: "platform \<Rightarrow> json \<Rightarrow> collab_error + string" where
  "mutation_fingerprint p v =
     andThen (normalize_mutation v) (\<lambda>m.
       case encode_value p 0 (mutation_payload m) \<lparr>chunk_bytes = 0, chunk_nodes = 0, chunk_text = []\<rparr> of
         None \<Rightarrow> Inl ErrInvalid
       | Some c \<Rightarrow> Inr (chunk_text c))"

end
