(* ===== verification/Collab_Store.thy ===== *)
theory Collab_Store
  imports Collab_Snapshot Collab_Receipt "HOL-Library.AList"
begin

text \<open>
  The in-memory repository of \<open>packages/collaboration/src/index.ts\<close>: its maps, and projects, revisions
  and the design commands.  A \<open>Map\<close> is an association list in insertion order, where setting a present
  key keeps its place.

  An operation returns its error or its result with the next store.  Operations that can fail after
  they changed the store return the error beside the store they leave.  Where an operation awaits
  before it writes, it is two definitions, so that calls can be interleaved at that point.
\<close>

section \<open>The store\<close>

datatype receipt_kind = CreateReceipt | ReplyReceipt | ResolveReceipt | ReopenReceipt

record review_receipt =
  receipt_kind :: receipt_kind
  receipt_thread :: string
  receipt_fingerprint :: string
  receipt_message :: "string option"

text \<open>\<open>CommitDesignRevisionResult\<close> without its flag, or any other response kept for a retry.\<close>

datatype kept_response =
    RevisionCommitted revision bool
  | ReadinessCommitted readiness_input
  | BothCommitted revision readiness_input
  | OtherResponse json

type_synonym 'v table = "(string \<times> 'v) list"

record store =
  projects :: "project table"
  revisions :: "revision table"
  threads :: "thread table"
  reviews :: "review_thread table"
  receipts :: "review_receipt table"
  requests :: "ai_request table"
  annotations :: "annotation table"
  comments :: "comment table"
  reactions :: "reaction table"
  approvals :: "approval table"
  audits :: "audit_event list"
  links :: "share_link table"
  events :: "event list"
  states :: "review_state table"
  changes :: "change table"
  cursor :: nat
  responses :: "kept_response table"

definition empty_store :: store where
  "empty_store = \<lparr>projects = [], revisions = [], threads = [], reviews = [], receipts = [], requests = [],
     annotations = [], comments = [], reactions = [], approvals = [], audits = [], links = [], events = [],
     states = [], changes = [], cursor = 0, responses = []\<rparr>"

definition has :: "'v table \<Rightarrow> string \<Rightarrow> bool" where
  "has t k \<longleftrightarrow> map_of t k \<noteq> None"

definition scoped_key :: "string \<Rightarrow> string \<Rightarrow> string" where
  "scoped_key scope k = scope @ CHR 0x00 # k"

definition lacks_room :: "'v table \<Rightarrow> string \<Rightarrow> bool" where
  "lacks_room t k \<longleftrightarrow> \<not> has t k \<and> length t \<ge> max_items"

definition bounded :: "'v table \<Rightarrow> collab_error + 'v list" where
  "bounded t = failIf (length t > max_items) ErrInvalid (Inr (map snd t))"

definition copy_revision :: "revision \<Rightarrow> revision" where
  "copy_revision r = r\<lparr>rev_content := inert_copy (rev_content r)\<rparr>"

section \<open>Projects and revisions\<close>

definition create_project :: "project \<Rightarrow> store \<Rightarrow> collab_error + store" where
  "create_project x s =
     andThen (owned_as project_json x) (\<lambda>u.
     failIf (has (projects s) (project_id x)) ErrDuplicate
    (failIf (lacks_room (projects s) (project_id x)) ErrConflict
       (Inr (s\<lparr>projects := AList.update (project_id x) x (projects s)\<rparr>))))"

definition get_project :: "string \<Rightarrow> store \<Rightarrow> collab_error + project option" where
  "get_project i s = optionally (\<lambda>x. andThen (owned_as project_json x) (\<lambda>u. Inr x)) (map_of (projects s) i)"

definition get_revision :: "string \<Rightarrow> store \<Rightarrow> collab_error + revision option" where
  "get_revision i s =
     optionally (\<lambda>x. andThen (owned_as revision_json x) (\<lambda>u. Inr (copy_revision x))) (map_of (revisions s) i)"

definition newer_revision :: "platform \<Rightarrow> revision \<Rightarrow> revision \<Rightarrow> int" where
  "newer_revision p l r =
     (if rev_sequence r - rev_sequence l \<noteq> 0 then rev_sequence r - rev_sequence l
      else collate p (rev_id r) (rev_id l))"

definition latest_stored :: "platform \<Rightarrow> string \<Rightarrow> revision list \<Rightarrow> revision option" where
  "latest_stored p i rs =
     (case js_sort (newer_revision p) (filter (\<lambda>r. rev_project r = i) rs) of [] \<Rightarrow> None | r # _ \<Rightarrow> Some r)"

definition get_latest_revision :: "platform \<Rightarrow> string \<Rightarrow> store \<Rightarrow> collab_error + revision option" where
  "get_latest_revision p i s =
     andThen (bounded (revisions s)) (\<lambda>rs.
       optionally (\<lambda>x. andThen (owned_as revision_json x) (\<lambda>u. Inr (copy_revision x))) (latest_stored p i rs))"

definition next_sequence :: "revision option \<Rightarrow> int" where
  "next_sequence current = (case current of None \<Rightarrow> 1 | Some r \<Rightarrow> rev_sequence r + 1)"

text \<open>\<open>appendRevision\<close> before and after it awaits the latest revision.\<close>

definition append_begin :: "platform \<Rightarrow> revision \<Rightarrow> store \<Rightarrow> collab_error + revision \<times> revision option" where
  "append_begin p x s =
     andThen (owned_as revision_json x) (\<lambda>u.
     failIf (\<not> has (projects s) (rev_project x)) ErrNotFound
    (failIf (has (revisions s) (rev_id x)) ErrDuplicate
    (andThen (get_latest_revision p (rev_project x) s) (\<lambda>current. Inr (copy_revision x, current)))))"

definition append_finish ::
    "revision \<times> revision option \<Rightarrow> string option \<Rightarrow> store \<Rightarrow> collab_error + store" where
  "append_finish found parent s =
     (case found of (x, current) \<Rightarrow>
       failIf (map_option rev_id current \<noteq> parent) ErrConflict
      (failIf (rev_sequence x \<noteq> next_sequence current) ErrConflict
      (failIf (lacks_room (revisions s) (rev_id x)) ErrConflict
         (Inr (s\<lparr>revisions := AList.update (rev_id x) x (revisions s)\<rparr>)))))"

definition append_revision :: "platform \<Rightarrow> revision \<Rightarrow> string option \<Rightarrow> store \<Rightarrow> collab_error + store" where
  "append_revision p x parent s = andThen (append_begin p x s) (\<lambda>found. append_finish found parent s)"

section \<open>Design commands\<close>

definition draft_state :: "string \<Rightarrow> review_state" where
  "draft_state i = \<lparr>state_format = review_state_format, state_project = i, state_readiness = ReadyDraft,
     state_baseline = None, state_currency = CurrencyNone, approvals_stale = False, changes_since = []\<rparr>"

definition stored_state :: "store \<Rightarrow> string \<Rightarrow> review_state" where
  "stored_state s i = (case map_of (states s) i of None \<Rightarrow> draft_state i | Some x \<Rightarrow> x)"

definition get_review_state :: "string \<Rightarrow> store \<Rightarrow> collab_error + review_state option" where
  "get_review_state i s =
     (if \<not> has (projects s) i then Inr None
      else andThen (owned_as review_state_json (stored_state s i)) (\<lambda>u. Inr (Some (stored_state s i))))"

datatype design_command =
    AppendDesign revision "string option" "change_input option"
  | MarkDesign readiness_input
  | AppendAndMark revision "string option" readiness_input

record design_input =
  input_project :: string
  input_actor :: string
  input_at :: string
  input_key :: "string option"
  input_scope :: "string option"
  input_command :: design_command

definition change_input_json :: "change_input \<Rightarrow> json" where
  "change_input_json c = JObj (change_entries c)"

fun design_command_entries :: "design_command \<Rightarrow> (string \<times> json) list" where
  "design_command_entries (AppendDesign r q c) =
     [(''kind'', JStr ''append-revision''), (''revision'', revision_json r)] @
     optional ''expectedParentRevisionId'' JStr q @ optional ''semanticChange'' change_input_json c"
| "design_command_entries (MarkDesign d) = [(''kind'', JStr ''mark-ready''), (''readiness'', readiness_json d)]"
| "design_command_entries (AppendAndMark r q d) =
     [(''kind'', JStr ''append-revision-and-mark-ready''), (''revision'', revision_json r)] @
     optional ''expectedParentRevisionId'' JStr q @ [(''readiness'', readiness_json d)]"

definition design_input_json :: "design_input \<Rightarrow> json" where
  "design_input_json x = JObj ([(''projectId'', JStr (input_project x)), (''actorId'', JStr (input_actor x)),
     (''occurredAt'', JStr (input_at x))] @ optional ''idempotencyKey'' JStr (input_key x) @
     optional ''idempotencyScope'' JStr (input_scope x) @ design_command_entries (input_command x))"

fun command_revision :: "design_command \<Rightarrow> revision option" where
  "command_revision (AppendDesign r q c) = Some (copy_revision r)"
| "command_revision (MarkDesign d) = None"
| "command_revision (AppendAndMark r q d) = Some (copy_revision r)"

fun command_readiness :: "design_command \<Rightarrow> readiness_input option" where
  "command_readiness (AppendDesign r q c) = None"
| "command_readiness (MarkDesign d) = Some d"
| "command_readiness (AppendAndMark r q d) = Some d"

fun command_change :: "design_command \<Rightarrow> change_input option" where
  "command_change (AppendDesign r q c) = c"
| "command_change (MarkDesign d) = None"
| "command_change (AppendAndMark r q d) = None"

fun command_parent :: "design_command \<Rightarrow> string option" where
  "command_parent (AppendDesign r q c) = q"
| "command_parent (MarkDesign d) = None"
| "command_parent (AppendAndMark r q d) = q"

fun kept_json :: "kept_response \<Rightarrow> json" where
  "kept_json (RevisionCommitted r b) = JObj [(''kind'', JStr ''revision''), (''revision'', revision_json r),
     (''changeRecorded'', JBool b), (''replayed'', JBool False)]"
| "kept_json (ReadinessCommitted d) = JObj [(''kind'', JStr ''readiness''), (''readiness'', readiness_json d),
     (''replayed'', JBool False)]"
| "kept_json (BothCommitted r d) = JObj [(''kind'', JStr ''revision-and-readiness''), (''revision'', revision_json r),
     (''readiness'', readiness_json d), (''replayed'', JBool False)]"
| "kept_json (OtherResponse v) = v"

fun copy_kept :: "kept_response \<Rightarrow> kept_response" where
  "copy_kept (RevisionCommitted r b) = RevisionCommitted (copy_revision r) b"
| "copy_kept (ReadinessCommitted d) = ReadinessCommitted d"
| "copy_kept (BothCommitted r d) = BothCommitted (copy_revision r) d"
| "copy_kept (OtherResponse v) = OtherResponse (inert_copy v)"

definition response_key :: "design_input \<Rightarrow> string \<Rightarrow> string" where
  "response_key x k = scoped_key (case input_scope x of
     None \<Rightarrow> ''design:'' @ input_actor x @ '':'' @ input_project x | Some c \<Rightarrow> c) k"

text \<open>A response already kept for the key of the command.\<close>

definition kept_for :: "design_input \<Rightarrow> store \<Rightarrow> kept_response option" where
  "kept_for x s = (case input_key x of None \<Rightarrow> None | Some k \<Rightarrow> map_of (responses s) (response_key x k))"

definition readiness_error :: "design_input \<Rightarrow> readiness_input \<Rightarrow> store \<Rightarrow> bool" where
  "readiness_error x d s \<longleftrightarrow>
     (case (case command_revision (input_command x) of
          Some r \<Rightarrow> if ready_revision d = rev_id r then Some r else map_of (revisions s) (ready_revision d)
        | None \<Rightarrow> map_of (revisions s) (ready_revision d)) of
        None \<Rightarrow> True
      | Some r \<Rightarrow> rev_project r \<noteq> input_project x \<or> rev_sha r \<noteq> ready_fingerprint d)"

text \<open>\<open>commitDesignRevision\<close> until it awaits the latest revision: a kept response or the revision before.\<close>

definition commit_begin ::
    "platform \<Rightarrow> design_input \<Rightarrow> store \<Rightarrow> collab_error + kept_response + revision option" where
  "commit_begin p x s =
     andThen (owned_as design_input_json x) (\<lambda>u.
     andThen (optionally_require (require_text_within 256) (input_key x)) (\<lambda>u.
     case kept_for x s of
       Some r \<Rightarrow> andThen (owned_as kept_json r) (\<lambda>u. Inr (Inl (copy_kept r)))
     | None \<Rightarrow>
         failIf (\<not> has (projects s) (input_project x)) ErrNotFound
        (failIf (case command_revision (input_command x) of
             None \<Rightarrow> False | Some r \<Rightarrow> rev_project r \<noteq> input_project x) ErrInvalid
        (failIf (case command_readiness (input_command x) of
             None \<Rightarrow> False | Some d \<Rightarrow> readiness_error x d s) ErrInvalid
        (andThen (get_latest_revision p (input_project x) s) (\<lambda>before. Inr (Inr before)))))))"

definition change_input_error :: "design_input \<Rightarrow> change_input \<Rightarrow> store \<Rightarrow> collab_error + unit" where
  "change_input_error x c s =
     failIf (scope_project (change_affected c) \<noteq> input_project x) ErrInvalid
    (andThen (require_text_within 4000 (change_id c)) (\<lambda>u.
     andThen (require_text_within 4000 (change_reason c)) (\<lambda>u.
     failIf (change_evidence c = []) ErrInvalid
    (andThen (mapResult (\<lambda>e. require_text_within 4000 (visual_description e)) (change_evidence c)) (\<lambda>u.
     andThen (case change_provenance c of
         ByActor a \<Rightarrow> require_text_within 4000 a
       | ByAgent a d \<Rightarrow> andThen (require_text_within 4000 a) (\<lambda>u. require_text_within 4000 d)) (\<lambda>u.
     failIf (has (changes s) (change_id c)) ErrDuplicate (Inr ())))))))"

text \<open>The checks after the await, before anything is written.\<close>

definition commit_checks :: "design_input \<Rightarrow> revision option \<Rightarrow> store \<Rightarrow> collab_error + unit" where
  "commit_checks x before s =
     (let c = input_command x;
          had_baseline = (state_baseline (stored_state s (input_project x)) \<noteq> None \<and> command_readiness c = None) in
     failIf (\<not> had_baseline \<and> command_revision c \<noteq> None \<and> command_change c \<noteq> None) ErrInvalid
    (failIf (had_baseline \<and> command_revision c \<noteq> None \<and> command_change c = None) ErrInvalid
    (andThen (optionally_require (\<lambda>k. change_input_error x k s) (command_change c)) (\<lambda>u.
     case command_revision c of
       None \<Rightarrow> Inr ()
     | Some r \<Rightarrow>
         failIf (has (revisions s) (rev_id r)) ErrDuplicate
        (failIf (map_option rev_id before \<noteq> command_parent c) ErrConflict
        (failIf (rev_sequence r \<noteq> next_sequence before) ErrConflict
        (failIf (lacks_room (revisions s) (rev_id r)) ErrConflict (Inr ()))))))))"

definition baseline_of :: "design_input \<Rightarrow> readiness_input \<Rightarrow> revision \<Rightarrow> design_baseline" where
  "baseline_of x d r = \<lparr>base_id = ready_id d, base_project = input_project x,
     base_revision = \<lparr>reference_id = rev_id r, reference_fingerprint = rev_sha r\<rparr>,
     base_intent = ready_intent d, base_by = input_actor x, base_at = input_at x\<rparr>"

definition ready_state :: "design_input \<Rightarrow> readiness_input \<Rightarrow> revision \<Rightarrow> review_state" where
  "ready_state x d r = \<lparr>state_format = review_state_format, state_project = input_project x,
     state_readiness = (if ready_intent d = ForReview then ReadyForReview else ReadyForHandoff),
     state_baseline = Some (baseline_of x d r), state_currency = CurrencyCurrent, approvals_stale = False,
     changes_since = []\<rparr>"

definition recorded_change :: "change_input \<Rightarrow> revision \<Rightarrow> revision \<Rightarrow> string \<Rightarrow> change" where
  "recorded_change c before r time = change_input.extend c
     \<lparr>change_before = \<lparr>reference_id = rev_id before, reference_fingerprint = rev_sha before\<rparr>,
      change_current = \<lparr>reference_id = rev_id r, reference_fingerprint = rev_sha r\<rparr>, change_at = time\<rparr>"

text \<open>The writes, in the order of the code: the revision, then the baseline or the change, then the
  response.  A failure in between leaves the store as it is at that point.\<close>

definition write_revision :: "design_input \<Rightarrow> store \<Rightarrow> store" where
  "write_revision x s =
     (case command_revision (input_command x) of
        None \<Rightarrow> s | Some r \<Rightarrow> s\<lparr>revisions := AList.update (rev_id r) r (revisions s)\<rparr>)"

definition baseline_taken :: "readiness_input \<Rightarrow> store \<Rightarrow> bool" where
  "baseline_taken d s \<longleftrightarrow>
     list_ex (\<lambda>x. map_option base_id (state_baseline (snd x)) = Some (ready_id d)) (states s)"

definition write_baseline :: "design_input \<Rightarrow> store \<Rightarrow> collab_error + store" where
  "write_baseline x s =
     (case command_readiness (input_command x) of
        None \<Rightarrow> Inr s
      | Some d \<Rightarrow>
          failIf (length (states s) > max_items) ErrInvalid
         (failIf (baseline_taken d s) ErrDuplicate
         (case (case command_revision (input_command x) of
              Some r \<Rightarrow> Some r | None \<Rightarrow> map_of (revisions s) (ready_revision d)) of
            None \<Rightarrow> Inl ErrInvalid
          | Some r \<Rightarrow> failIf (rev_project r \<noteq> input_project x) ErrInvalid
              (Inr (s\<lparr>states := AList.update (input_project x) (ready_state x d r) (states s)\<rparr>)))))"

definition write_change :: "design_input \<Rightarrow> revision option \<Rightarrow> review_state \<Rightarrow> store \<Rightarrow> store" where
  "write_change x before state s =
     (case (command_revision (input_command x), command_change (input_command x), before) of
        (Some r, Some c, Some b) \<Rightarrow>
          if state_baseline state \<noteq> None \<and> command_readiness (input_command x) = None then
            (let k = recorded_change c b r (input_at x) in
             s\<lparr>changes := AList.update (change_id c) k (changes s),
               states := AList.update (input_project x)
                 (state\<lparr>state_currency := CurrencyStale, approvals_stale := True,
                    changes_since := changes_since state @ [k]\<rparr>) (states s)\<rparr>)
          else s
      | _ \<Rightarrow> s)"

definition commit_response :: "design_input \<Rightarrow> bool \<Rightarrow> kept_response option" where
  "commit_response x had_baseline =
     (case (command_revision (input_command x), command_readiness (input_command x)) of
        (Some r, Some d) \<Rightarrow> Some (BothCommitted r d)
      | (Some r, None) \<Rightarrow> Some (RevisionCommitted r had_baseline)
      | (None, Some d) \<Rightarrow> Some (ReadinessCommitted d)
      | (None, None) \<Rightarrow> None)"

definition keep_response :: "design_input \<Rightarrow> kept_response \<Rightarrow> store \<Rightarrow> collab_error + store" where
  "keep_response x r s =
     (case input_key x of
        None \<Rightarrow> Inr s
      | Some k \<Rightarrow>
          failIf (lacks_room (responses s) (response_key x k)) ErrConflict
         (andThen (owned_as kept_json r) (\<lambda>u.
            Inr (s\<lparr>responses := AList.update (response_key x k) (copy_kept r) (responses s)\<rparr>))))"

definition commit_finish ::
    "design_input \<Rightarrow> revision option \<Rightarrow> store \<Rightarrow> (collab_error + kept_response \<times> bool) \<times> store" where
  "commit_finish x before s =
     (case commit_checks x before s of
        Inl e \<Rightarrow> (Inl e, s)
      | Inr u \<Rightarrow>
          (let state = stored_state s (input_project x);
               had_baseline = (state_baseline state \<noteq> None \<and> command_readiness (input_command x) = None);
               s1 = write_revision x s in
           case write_baseline x s1 of
             Inl e \<Rightarrow> (Inl e, s1)
           | Inr s2 \<Rightarrow>
               (let s3 = write_change x before state s2 in
                case commit_response x had_baseline of
                  None \<Rightarrow> (Inl ErrInvalid, s3)
                | Some r \<Rightarrow>
                    (case keep_response x r s3 of
                       Inl e \<Rightarrow> (Inl e, s3)
                     | Inr s4 \<Rightarrow> (Inr (r, False), s4)))))"

definition commit_design ::
    "platform \<Rightarrow> design_input \<Rightarrow> store \<Rightarrow> (collab_error + kept_response \<times> bool) \<times> store" where
  "commit_design p x s =
     (case commit_begin p x s of
        Inl e \<Rightarrow> (Inl e, s)
      | Inr (Inl r) \<Rightarrow> (Inr (r, True), s)
      | Inr (Inr before) \<Rightarrow> commit_finish x before s)"

end
