(* ===== verification/Collab_Ops.thy ===== *)
theory Collab_Ops
  imports Collab_Store
begin

text \<open>
  The other operations of the in-memory repository of \<open>packages/collaboration/src/index.ts\<close>: review
  threads with their compare-and-swap mutations, requests for AI changes, annotations, discussions,
  approvals, the audit and event logs, share links, and the kept responses.
\<close>

section \<open>Review threads\<close>

definition revision_in :: "store \<Rightarrow> string \<Rightarrow> string \<Rightarrow> revision option" where
  "revision_in s i project =
     (case map_of (revisions s) i of
        None \<Rightarrow> None | Some r \<Rightarrow> if rev_project r = project then Some r else None)"

definition anchored_revision :: "anchor \<Rightarrow> string" where
  "anchored_revision a = ev_revision (anchor_evidence a)"

definition put_review :: "string \<Rightarrow> review_thread \<Rightarrow> store \<Rightarrow> store" where
  "put_review i t s = s\<lparr>reviews := AList.update i t (reviews s)\<rparr>"

definition create_review :: "platform \<Rightarrow> review_thread \<Rightarrow> store \<Rightarrow> collab_error + store" where
  "create_review p t s =
     andThen (owned_as review_json t) (\<lambda>u.
     failIf (has (reviews s) (review_id t)) ErrDuplicate
    (case revision_in s (anchored_revision (review_anchor t)) (review_project t) of
       None \<Rightarrow> Inl ErrNotFound
     | Some r \<Rightarrow>
         andThen (validate_anchor p (review_anchor t) r) (\<lambda>u.
         andThen (validate_review_thread p t) (\<lambda>u.
         failIf (lacks_room (reviews s) (review_id t)) ErrConflict (Inr (put_review (review_id t) t s))))))"

text \<open>An update of a stored thread: the next version is validated before it replaces the thread.\<close>

definition update_review ::
    "platform \<Rightarrow> string \<Rightarrow> (review_thread \<Rightarrow> collab_error + review_thread) \<Rightarrow> store \<Rightarrow>
       collab_error + review_thread \<times> store" where
  "update_review p i f s =
     (case map_of (reviews s) i of
        None \<Rightarrow> Inl ErrNotFound
      | Some t \<Rightarrow>
          andThen (f t) (\<lambda>t'.
          andThen (validate_review_thread p t') (\<lambda>u. Inr (t', put_review i t' s))))"

definition next_version :: "review_thread \<Rightarrow> review_thread" where
  "next_version t = t\<lparr>review_version := review_version t + 1\<rparr>"

definition append_message :: "platform \<Rightarrow> string \<Rightarrow> message \<Rightarrow> store \<Rightarrow> collab_error + review_thread \<times> store" where
  "append_message p i m s =
     andThen (owned_as message_json m) (\<lambda>u.
       update_review p i (\<lambda>t. Inr ((next_version t)\<lparr>review_messages := review_messages t @ [m]\<rparr>)) s)"

text \<open>\<open>[...new Set(xs)]\<close>\<close>

fun first_occurrences :: "string list \<Rightarrow> string list" where
  "first_occurrences [] = []"
| "first_occurrences (x # xs) = x # filter (\<lambda>y. y \<noteq> x) (first_occurrences xs)"

definition add_emoji :: "string \<Rightarrow> string \<Rightarrow> message \<Rightarrow> message" where
  "add_emoji e user m =
     m\<lparr>message_reactions :=
        if list_ex (\<lambda>g. emoji g = e) (message_reactions m)
        then map (\<lambda>g. if emoji g = e then g\<lparr>emoji_users := first_occurrences (emoji_users g @ [user])\<rparr> else g)
               (message_reactions m)
        else message_reactions m @ [\<lparr>emoji = e, emoji_users = [user]\<rparr>]\<rparr>"

definition on_message :: "string \<Rightarrow> (message \<Rightarrow> message) \<Rightarrow> review_thread \<Rightarrow> collab_error + review_thread" where
  "on_message i f t =
     failIf (\<not> list_ex (\<lambda>m. message_id m = i) (review_messages t)) ErrNotFound
       (Inr ((next_version t)\<lparr>review_messages := map (\<lambda>m. if message_id m = i then f m else m) (review_messages t)\<rparr>))"

definition react_to_message ::
    "platform \<Rightarrow> string \<Rightarrow> string \<Rightarrow> string \<Rightarrow> string \<Rightarrow> store \<Rightarrow> collab_error + review_thread \<times> store" where
  "react_to_message p i message e user s = update_review p i (on_message message (add_emoji e user)) s"

definition set_read :: "string \<Rightarrow> bool \<Rightarrow> message \<Rightarrow> message" where
  "set_read user read m =
     m\<lparr>message_reads := if read then first_occurrences (message_reads m @ [user])
        else filter (\<lambda>x. x \<noteq> user) (message_reads m)\<rparr>"

definition set_message_read ::
    "platform \<Rightarrow> string \<Rightarrow> string \<Rightarrow> string \<Rightarrow> bool \<Rightarrow> store \<Rightarrow> collab_error + review_thread \<times> store" where
  "set_message_read p i message user read s = update_review p i (on_message message (set_read user read)) s"

definition resolved :: "string \<Rightarrow> string \<Rightarrow> review_thread \<Rightarrow> review_thread" where
  "resolved by time t = (next_version t)\<lparr>review_lifecycle := ReviewResolved, resolved_by := Some by, resolved_at := Some time\<rparr>"

definition reopened :: "string \<Rightarrow> string \<Rightarrow> review_thread \<Rightarrow> review_thread" where
  "reopened by time t = (next_version t)\<lparr>review_lifecycle := ReviewOpen, resolved_by := None, resolved_at := None,
     reopened_by := Some by, reopened_at := Some time\<rparr>"

definition or_now :: "platform \<Rightarrow> string option \<Rightarrow> string" where
  "or_now p t = (case t of None \<Rightarrow> clock p | Some x \<Rightarrow> x)"

definition resolve_review ::
    "platform \<Rightarrow> string \<Rightarrow> string \<Rightarrow> string option \<Rightarrow> store \<Rightarrow> collab_error + review_thread \<times> store" where
  "resolve_review p i by time s =
     update_review p i (\<lambda>t.
       failIf (review_lifecycle t = ReviewResolved) ErrConflict (Inr (resolved by (or_now p time) t))) s"

definition reopen_review ::
    "platform \<Rightarrow> string \<Rightarrow> string \<Rightarrow> string option \<Rightarrow> store \<Rightarrow> collab_error + review_thread \<times> store" where
  "reopen_review p i by time s =
     update_review p i (\<lambda>t.
       failIf (review_lifecycle t \<noteq> ReviewResolved) ErrConflict
      (case resolved_at t of
         None \<Rightarrow> Inl ErrInvalid
       | Some x \<Rightarrow> failIf (not_later (or_now p time) x) ErrInvalid (Inr (reopened by (or_now p time) t)))) s"

definition move_review ::
    "platform \<Rightarrow> string \<Rightarrow> anchor \<Rightarrow> string \<Rightarrow> string option \<Rightarrow> store \<Rightarrow> collab_error + review_thread \<times> store" where
  "move_review p i a by time s =
     andThen (owned_as anchor_json a) (\<lambda>u.
       update_review p i (\<lambda>t.
         case revision_in s (anchored_revision a) (review_project t) of
           None \<Rightarrow> Inl ErrNotFound
         | Some r \<Rightarrow>
             andThen (validate_anchor p a r) (\<lambda>u.
               Inr ((next_version t)\<lparr>review_anchor := a, moved_by := Some by, moved_at := Some (or_now p time)\<rparr>))) s)"

section \<open>Compare-and-swap mutations\<close>

datatype mutation_request =
    CreateReview review_thread
  | ReplyReview string message
  | ResolveReview string string string
  | ReopenReview string string string

record mutation =
  operation_id :: string
  expected_version :: int
  mutation_request :: mutation_request

definition mutation_json :: "mutation \<Rightarrow> json" where
  "mutation_json m = JObj ([(''operationId'', JStr (operation_id m)), (''expectedVersion'', JNum (expected_version m))] @
     (case mutation_request m of
        CreateReview t \<Rightarrow> [(''kind'', JStr ''create''), (''thread'', review_json t)]
      | ReplyReview i x \<Rightarrow> [(''kind'', JStr ''reply''), (''threadId'', JStr i), (''message'', message_json x)]
      | ResolveReview i a t \<Rightarrow> [(''kind'', JStr ''resolve''), (''threadId'', JStr i), (''actorId'', JStr a), (''occurredAt'', JStr t)]
      | ReopenReview i a t \<Rightarrow> [(''kind'', JStr ''reopen''), (''threadId'', JStr i), (''actorId'', JStr a), (''occurredAt'', JStr t)]))"

datatype mutation_result =
    ReviewApplied review_thread string
  | ReviewReplayed review_thread string
  | ReviewConflict int "review_thread option"

fun mutation_thread :: "mutation_request \<Rightarrow> string" where
  "mutation_thread (CreateReview t) = review_id t"
| "mutation_thread (ReplyReview i x) = i"
| "mutation_thread (ResolveReview i a t) = i"
| "mutation_thread (ReopenReview i a t) = i"

fun creates_review :: "mutation_request \<Rightarrow> bool" where
  "creates_review (CreateReview t) = True"
| "creates_review r = False"

definition conflict_with :: "review_thread \<Rightarrow> collab_error + mutation_result" where
  "conflict_with t = andThen (owned_as review_json t) (\<lambda>u. Inr (ReviewConflict (review_version t) (Some t)))"

definition still_applied :: "review_receipt \<Rightarrow> review_thread \<Rightarrow> bool" where
  "still_applied r t \<longleftrightarrow>
     (receipt_kind r \<noteq> ResolveReceipt \<or> review_lifecycle t = ReviewResolved) \<and>
     (receipt_kind r \<noteq> ReopenReceipt \<or> review_lifecycle t = ReviewOpen) \<and>
     (receipt_kind r \<noteq> ReplyReceipt \<or> list_ex (\<lambda>m. Some (message_id m) = receipt_message r) (review_messages t))"

definition replay_answer :: "review_receipt \<Rightarrow> string \<Rightarrow> review_thread \<Rightarrow> collab_error + mutation_result" where
  "replay_answer r fingerprint t =
     (if receipt_fingerprint r \<noteq> fingerprint then conflict_with t
      else if still_applied r t
      then andThen (owned_as review_json t) (\<lambda>u. Inr (ReviewReplayed t (receipt_fingerprint r)))
      else conflict_with t)"

definition review_scope :: "string \<Rightarrow> string \<Rightarrow> string \<Rightarrow> string" where
  "review_scope organization project thread =
     ''review:'' @ organization @ '':'' @ project @ '':'' @ thread"

text \<open>At most a hundred receipts of a scope are kept, the newest ones.\<close>

definition prune_receipts :: "string \<Rightarrow> review_receipt table \<Rightarrow> review_receipt table" where
  "prune_receipts scope rs =
     (let stored = filter (\<lambda>k. starts_with k (scoped_key scope [])) (map fst rs);
          oldest = take (length stored - 100) stored in
      filter (\<lambda>kv. fst kv \<notin> set oldest) rs)"

definition receipt_of :: "mutation_request \<Rightarrow> string \<Rightarrow> review_receipt" where
  "receipt_of r fingerprint = \<lparr>receipt_kind =
      (case r of CreateReview t \<Rightarrow> CreateReceipt | ReplyReview i x \<Rightarrow> ReplyReceipt
       | ResolveReview i a t \<Rightarrow> ResolveReceipt | ReopenReview i a t \<Rightarrow> ReopenReceipt),
     receipt_thread = mutation_thread r, receipt_fingerprint = fingerprint,
     receipt_message = (case r of ReplyReview i x \<Rightarrow> Some (message_id x) | _ \<Rightarrow> None)\<rparr>"

definition write_review ::
    "string \<Rightarrow> string \<Rightarrow> mutation_request \<Rightarrow> string \<Rightarrow> review_thread \<Rightarrow> store \<Rightarrow> mutation_result \<times> store" where
  "write_review scope operation r fingerprint t s =
     (ReviewApplied t fingerprint,
      (put_review (mutation_thread r) t s)\<lparr>receipts := prune_receipts scope
         (AList.update (scoped_key scope operation) (receipt_of r fingerprint) (receipts s))\<rparr>)"

text \<open>What a reply, a resolution or a reopening makes of the current thread.\<close>

fun mutated :: "mutation_request \<Rightarrow> review_thread \<Rightarrow> review_thread option" where
  "mutated (CreateReview x) t = None"
| "mutated (ReplyReview i x) t = Some ((next_version t)\<lparr>review_messages := review_messages t @ [x]\<rparr>)"
| "mutated (ResolveReview i a time) t =
     (if review_lifecycle t = ReviewOpen then Some (resolved a time t) else None)"
| "mutated (ReopenReview i a time) t =
     (if review_lifecycle t = ReviewResolved then Some (reopened a time t) else None)"

definition create_by_mutation ::
    "platform \<Rightarrow> string \<Rightarrow> mutation \<Rightarrow> string \<Rightarrow> review_thread \<Rightarrow> store \<Rightarrow> collab_error + mutation_result \<times> store" where
  "create_by_mutation p scope m fingerprint x s =
     (case map_of (reviews s) (review_id x) of
        Some t \<Rightarrow> andThen (conflict_with t) (\<lambda>r. Inr (r, s))
      | None \<Rightarrow>
          (if expected_version m \<noteq> 0 then Inr (ReviewConflict 0 None, s)
           else
             (let t = x\<lparr>review_version := 1\<rparr> in
              case revision_in s (anchored_revision (review_anchor t)) (review_project t) of
                None \<Rightarrow> Inl ErrNotFound
              | Some r \<Rightarrow>
                  andThen (validate_anchor p (review_anchor t) r) (\<lambda>u.
                  andThen (validate_review_thread p t) (\<lambda>u.
                  failIf (lacks_room (reviews s) (review_id t)) ErrConflict
                    (Inr (write_review scope (operation_id m) (mutation_request m) fingerprint t s)))))))"

text \<open>The project of the request, and of the stored thread when it is not a creation.\<close>

definition mutation_project :: "mutation \<Rightarrow> store \<Rightarrow> string option" where
  "mutation_project m s =
     (case mutation_request m of
        CreateReview t \<Rightarrow> Some (review_project t)
      | r \<Rightarrow> map_option review_project (map_of (reviews s) (mutation_thread r)))"

text \<open>The mutation proper, once no receipt answers it.\<close>

definition mutate_current ::
    "platform \<Rightarrow> string \<Rightarrow> mutation \<Rightarrow> string \<Rightarrow> store \<Rightarrow> collab_error + mutation_result \<times> store" where
  "mutate_current p scope m fingerprint s =
     (case mutation_request m of
        CreateReview x \<Rightarrow> create_by_mutation p scope m fingerprint x s
      | r \<Rightarrow>
          (case map_of (reviews s) (mutation_thread r) of
             None \<Rightarrow> Inr (ReviewConflict 0 None, s)
           | Some t \<Rightarrow>
               (if review_version t \<noteq> expected_version m then andThen (conflict_with t) (\<lambda>x. Inr (x, s))
                else
                  (case mutated r t of
                     None \<Rightarrow> andThen (conflict_with t) (\<lambda>x. Inr (x, s))
                   | Some t' \<Rightarrow>
                       andThen (validate_review_thread p t') (\<lambda>u.
                         Inr (write_review scope (operation_id m) r fingerprint t' s))))))"

definition mutation_scope :: "mutation \<Rightarrow> store \<Rightarrow> string option" where
  "mutation_scope m s =
     Option.bind (mutation_project m s) (\<lambda>project.
       map_option (\<lambda>owner. review_scope (project_organization owner) project (mutation_thread (mutation_request m)))
         (map_of (projects s) project))"

definition mutate_review ::
    "platform \<Rightarrow> mutation \<Rightarrow> store \<Rightarrow> collab_error + mutation_result \<times> store" where
  "mutate_review p m s =
     andThen (normalize_mutation (mutation_json m)) (\<lambda>w.
     andThen (require_text_within 256 (operation_id m)) (\<lambda>u.
     (let current = map_of (reviews s) (mutation_thread (mutation_request m)) in
      if \<not> creates_review (mutation_request m) \<and> current = None then Inr (ReviewConflict 0 None, s)
      else
        (case mutation_scope m s of
           None \<Rightarrow> Inl ErrNotFound
         | Some scope \<Rightarrow>
             andThen (mutation_fingerprint p (mutation_json m)) (\<lambda>fingerprint.
               case (map_of (receipts s) (scoped_key scope (operation_id m)), current) of
                 (Some r, Some t) \<Rightarrow> andThen (replay_answer r fingerprint t) (\<lambda>x. Inr (x, s))
               | _ \<Rightarrow> mutate_current p scope m fingerprint s)))))"

end
