(* ===== verification/Collab_Records.thy ===== *)
theory Collab_Records
  imports Collab_Ops
begin

text \<open>
  Reads of review threads, requests for AI changes, annotations, discussions, approvals, the audit and
  event logs, share links and kept responses of the in-memory repository in
  \<open>packages/collaboration/src/index.ts\<close>.
\<close>

section \<open>Reading review threads\<close>

record review_filter =
  by_lifecycle :: "review_lifecycle option"
  by_revision :: "string option"
  by_link :: "string option"
  by_screen :: "string option"
  by_state :: "string option"
  by_creator :: "string option"
  unread_for :: "string option"

definition matches :: "'a option \<Rightarrow> 'a \<Rightarrow> bool" where
  "matches wanted x \<longleftrightarrow> (case wanted of None \<Rightarrow> True | Some y \<Rightarrow> x = y)"

definition review_selected :: "string \<Rightarrow> review_filter \<Rightarrow> review_thread \<Rightarrow> bool" where
  "review_selected project f t \<longleftrightarrow>
     review_project t = project \<and> matches (by_lifecycle f) (review_lifecycle t) \<and>
     matches (by_revision f) (anchored_revision (review_anchor t)) \<and> matches (by_link f) (review_link t) \<and>
     matches (by_screen f) (ev_screen (anchor_evidence (review_anchor t))) \<and>
     (case by_state f of None \<Rightarrow> True | Some x \<Rightarrow> ev_state (anchor_evidence (review_anchor t)) = Some x) \<and>
     matches (by_creator f) (review_by t) \<and>
     (case unread_for f of None \<Rightarrow> True | Some user \<Rightarrow> list_ex (\<lambda>m. user \<notin> set (message_reads m)) (review_messages t))"

definition by_creation :: "platform \<Rightarrow> ('a \<Rightarrow> string) \<Rightarrow> ('a \<Rightarrow> string) \<Rightarrow> 'a \<Rightarrow> 'a \<Rightarrow> int" where
  "by_creation p time name l r =
     (if collate p (time l) (time r) \<noteq> 0 then collate p (time l) (time r) else collate p (name l) (name r))"

definition owned_list :: "('a \<Rightarrow> json) \<Rightarrow> 'a list \<Rightarrow> collab_error + 'a list" where
  "owned_list value_of xs =
     andThen (mapResult (owned_as value_of) xs) (\<lambda>us.
     andThen (owned_as (\<lambda>ys. JArr (map value_of ys)) xs) (\<lambda>u. Inr xs))"

definition get_review :: "string \<Rightarrow> store \<Rightarrow> collab_error + review_thread option" where
  "get_review i s = optionally (\<lambda>t. andThen (owned_as review_json t) (\<lambda>u. Inr t)) (map_of (reviews s) i)"

definition list_reviews ::
    "platform \<Rightarrow> string \<Rightarrow> review_filter \<Rightarrow> store \<Rightarrow> collab_error + review_thread list" where
  "list_reviews p project f s =
     andThen (bounded (reviews s)) (\<lambda>ts.
       owned_list review_json (js_sort (by_creation p review_at review_id) (filter (review_selected project f) ts)))"

section \<open>Requests for AI changes and annotations\<close>

definition create_request :: "platform \<Rightarrow> ai_request \<Rightarrow> store \<Rightarrow> collab_error + store" where
  "create_request p a s =
     andThen (owned_as ai_json a) (\<lambda>u.
     failIf (has (requests s) (ai_id a)) ErrDuplicate
    (case revision_in s (reference_id (ai_base a)) (ai_project a) of
       None \<Rightarrow> Inl ErrNotFound
     | Some r \<Rightarrow>
         andThen (validate_ai_request p a r) (\<lambda>u.
         andThen (validate_result_references a (map snd (revisions s))) (\<lambda>u.
         failIf (lacks_room (requests s) (ai_id a)) ErrConflict
           (Inr (s\<lparr>requests := AList.update (ai_id a) a (requests s)\<rparr>))))))"

definition get_request :: "string \<Rightarrow> store \<Rightarrow> collab_error + ai_request option" where
  "get_request i s = optionally (\<lambda>a. andThen (owned_as ai_json a) (\<lambda>u. Inr a)) (map_of (requests s) i)"

definition list_requests :: "platform \<Rightarrow> string \<Rightarrow> store \<Rightarrow> collab_error + ai_request list" where
  "list_requests p project s =
     andThen (bounded (requests s)) (\<lambda>xs.
       owned_list ai_json (js_sort (by_creation p ai_updated ai_id) (filter (\<lambda>a. ai_project a = project) xs)))"

definition update_request :: "platform \<Rightarrow> ai_request \<Rightarrow> store \<Rightarrow> collab_error + ai_request \<times> store" where
  "update_request p a s =
     andThen (owned_as ai_json a) (\<lambda>u.
     case map_of (requests s) (ai_id a) of
       None \<Rightarrow> Inl ErrNotFound
     | Some prev \<Rightarrow>
         failIf (ai_project prev \<noteq> ai_project a \<or> ai_created prev \<noteq> ai_created a \<or> ai_by prev \<noteq> ai_by a) ErrInvalid
        (case revision_in s (reference_id (ai_base a)) (ai_project a) of
           None \<Rightarrow> Inl ErrNotFound
         | Some r \<Rightarrow>
             andThen (validate_ai_request p a r) (\<lambda>u.
             andThen (validate_result_references a (map snd (revisions s))) (\<lambda>u.
             andThen (validate_ai_transition prev a) (\<lambda>u.
               Inr (a, s\<lparr>requests := AList.update (ai_id a) a (requests s)\<rparr>))))))"

definition create_annotation :: "platform \<Rightarrow> annotation \<Rightarrow> store \<Rightarrow> collab_error + store" where
  "create_annotation p a s =
     andThen (owned_as annotation_json a) (\<lambda>u.
     failIf (has (annotations s) (annotation_id a)) ErrDuplicate
    (case revision_in s (anchored_revision (annotation_anchor a)) (annotation_project a) of
       None \<Rightarrow> Inl ErrNotFound
     | Some r \<Rightarrow>
         andThen (validate_annotation p a r) (\<lambda>u.
         failIf (lacks_room (annotations s) (annotation_id a)) ErrConflict
           (Inr (s\<lparr>annotations := AList.update (annotation_id a) a (annotations s)\<rparr>)))))"

definition list_annotations :: "platform \<Rightarrow> string \<Rightarrow> store \<Rightarrow> collab_error + annotation list" where
  "list_annotations p project s =
     andThen (bounded (annotations s)) (\<lambda>xs.
       owned_list annotation_json
         (js_sort (by_creation p annotation_at annotation_id) (filter (\<lambda>a. annotation_project a = project) xs)))"

section \<open>Discussions\<close>

definition create_thread :: "thread \<Rightarrow> store \<Rightarrow> collab_error + store" where
  "create_thread t s =
     andThen (owned_as thread_json t) (\<lambda>u.
     failIf (has (threads s) (thread_id t)) ErrDuplicate
    (case revision_in s (thread_revision t) (thread_project t) of
       None \<Rightarrow> Inl ErrNotFound
     | Some r \<Rightarrow>
         andThen (validate_thread_anchor t r) (\<lambda>u.
         failIf (lacks_room (threads s) (thread_id t)) ErrConflict
           (Inr (s\<lparr>threads := AList.update (thread_id t) t (threads s)\<rparr>)))))"

definition get_thread :: "string \<Rightarrow> store \<Rightarrow> collab_error + thread option" where
  "get_thread i s = optionally (\<lambda>t. andThen (owned_as thread_json t) (\<lambda>u. Inr t)) (map_of (threads s) i)"

definition resolve_thread ::
    "platform \<Rightarrow> string \<Rightarrow> string \<Rightarrow> string option \<Rightarrow> store \<Rightarrow> collab_error + thread \<times> store" where
  "resolve_thread p i by time s =
     (case map_of (threads s) i of
        None \<Rightarrow> Inl ErrNotFound
      | Some t \<Rightarrow>
          (let t' = t\<lparr>thread_resolved_by := Some by, thread_resolved_at := Some (or_now p time)\<rparr> in
           andThen (owned_as thread_json t') (\<lambda>u. Inr (t', s\<lparr>threads := AList.update i t' (threads s)\<rparr>))))"

text \<open>An empty parent id is falsy.\<close>

definition create_comment :: "comment \<Rightarrow> store \<Rightarrow> collab_error + store" where
  "create_comment c s =
     (let parent = (case comment_parent c of Some [] \<Rightarrow> None | q \<Rightarrow> q) in
     andThen (owned_as comment_json c) (\<lambda>u.
     failIf (has (comments s) (comment_id c)) ErrDuplicate
    (failIf (\<not> has (threads s) (comment_thread c)) ErrNotFound
    (failIf (case parent of None \<Rightarrow> False | Some q \<Rightarrow> \<not> has (comments s) q) ErrNotFound
    (failIf (case parent of
         None \<Rightarrow> False
       | Some q \<Rightarrow> map_option comment_thread (map_of (comments s) q) \<noteq> Some (comment_thread c)) ErrInvalid
    (andThen (validate_comment c) (\<lambda>u.
     failIf (lacks_room (comments s) (comment_id c)) ErrConflict
       (Inr (s\<lparr>comments := AList.update (comment_id c) c (comments s)\<rparr>)))))))))"

definition get_comment :: "string \<Rightarrow> store \<Rightarrow> collab_error + comment option" where
  "get_comment i s = optionally (\<lambda>c. andThen (owned_as comment_json c) (\<lambda>u. Inr c)) (map_of (comments s) i)"

definition reaction_key :: "reaction \<Rightarrow> string" where
  "reaction_key r = scoped_key (reaction_comment r) (reaction_user r @ '':'' @ reaction_emoji r)"

definition add_reaction :: "reaction \<Rightarrow> store \<Rightarrow> collab_error + store" where
  "add_reaction r s =
     andThen (owned_as reaction_json r) (\<lambda>u.
     failIf (\<not> has (comments s) (reaction_comment r)) ErrNotFound
    (andThen (require_text_within 64 (reaction_emoji r)) (\<lambda>u.
     failIf (lacks_room (reactions s) (reaction_key r)) ErrConflict
       (Inr (s\<lparr>reactions := AList.update (reaction_key r) r (reactions s)\<rparr>)))))"

definition approval_key :: "approval \<Rightarrow> string" where
  "approval_key a = scoped_key (approval_revision a) (approval_user a)"

definition put_approval :: "approval \<Rightarrow> store \<Rightarrow> collab_error + store" where
  "put_approval a s =
     andThen (owned_as approval_json a) (\<lambda>u.
     failIf (\<not> has (revisions s) (approval_revision a)) ErrNotFound
    (failIf (lacks_room (approvals s) (approval_key a)) ErrConflict
       (Inr (s\<lparr>approvals := AList.update (approval_key a) a (approvals s)\<rparr>))))"

section \<open>Logs\<close>

definition copy_audit :: "audit_event \<Rightarrow> audit_event" where
  "copy_audit e = e\<lparr>audit_metadata := inert_copy (audit_metadata e)\<rparr>"

definition append_audit :: "audit_event \<Rightarrow> store \<Rightarrow> collab_error + store" where
  "append_audit e s =
     failIf (length (audits s) \<ge> max_items) ErrConflict
    (andThen (owned_as audit_json e) (\<lambda>u. Inr (s\<lparr>audits := audits s @ [copy_audit e]\<rparr>)))"

text \<open>The cursor has advanced when the copy of the stored event is made, whether or not it succeeds.\<close>

definition stored_event :: "event_input \<Rightarrow> nat \<Rightarrow> event" where
  "stored_event e n =
     event_input.extend (e\<lparr>event_payload := inert_copy (event_payload e)\<rparr>) \<lparr>event_cursor = n\<rparr>"

definition event_input_json :: "event_input \<Rightarrow> json" where
  "event_input_json e = JObj (event_entries e)"

definition append_event :: "event_input \<Rightarrow> store \<Rightarrow> (collab_error + event) \<times> store" where
  "append_event e s =
     (if \<not> fits_boundary (event_input_json e) then (Inl ErrInvalid, s)
      else if length (events s) \<ge> max_items then (Inl ErrConflict, s)
      else
        (let s1 = s\<lparr>cursor := cursor s + 1\<rparr>; x = stored_event e (cursor s1) in
         if \<not> fits_boundary (event_json x) then (Inl ErrInvalid, s1)
         else (Inr x, s1\<lparr>events := events s1 @ [x]\<rparr>)))"

definition by_cursor :: "platform \<Rightarrow> event \<Rightarrow> event \<Rightarrow> int" where
  "by_cursor p l r =
     (if event_cursor l \<noteq> event_cursor r then int (event_cursor l) - int (event_cursor r)
      else collate p (event_id l) (event_id r))"

definition list_events :: "platform \<Rightarrow> string \<Rightarrow> nat \<Rightarrow> nat \<Rightarrow> store \<Rightarrow> collab_error + event list" where
  "list_events p project after limit s =
     owned_list event_json (js_sort (by_cursor p)
       (take limit (filter (\<lambda>e. event_project e = project \<and> event_cursor e > after) (events s))))"

section \<open>Share links and kept responses\<close>

definition create_link :: "share_link \<Rightarrow> store \<Rightarrow> collab_error + store" where
  "create_link l s =
     andThen (owned_as link_json l) (\<lambda>u.
     failIf (has (links s) (link_id l)) ErrDuplicate
    (failIf (lacks_room (links s) (link_id l)) ErrConflict
       (Inr (s\<lparr>links := AList.update (link_id l) l (links s)\<rparr>))))"

definition get_link :: "string \<Rightarrow> store \<Rightarrow> collab_error + share_link option" where
  "get_link i s = optionally (\<lambda>l. andThen (owned_as link_json l) (\<lambda>u. Inr l)) (map_of (links s) i)"

definition revoke_link :: "string \<Rightarrow> string \<Rightarrow> store \<Rightarrow> collab_error + store" where
  "revoke_link i time s =
     (case map_of (links s) i of
        None \<Rightarrow> Inl ErrNotFound
      | Some l \<Rightarrow>
          (let l' = l\<lparr>link_revoked := Some time\<rparr> in
           andThen (owned_as link_json l') (\<lambda>u. Inr (s\<lparr>links := AList.update i l' (links s)\<rparr>))))"

definition get_response :: "string \<Rightarrow> string \<Rightarrow> store \<Rightarrow> collab_error + kept_response option" where
  "get_response scope k s =
     optionally (\<lambda>r. andThen (owned_as kept_json r) (\<lambda>u. Inr (copy_kept r))) (map_of (responses s) (scoped_key scope k))"

definition put_response ::
    "string \<Rightarrow> string \<Rightarrow> kept_response \<Rightarrow> store \<Rightarrow> collab_error + kept_response \<times> store" where
  "put_response scope k r s =
     (case map_of (responses s) (scoped_key scope k) of
        Some old \<Rightarrow> andThen (owned_as kept_json old) (\<lambda>u. Inr (copy_kept old, s))
      | None \<Rightarrow>
          failIf (lacks_room (responses s) (scoped_key scope k)) ErrConflict
         (andThen (owned_as kept_json r) (\<lambda>u.
            Inr (copy_kept r, s\<lparr>responses := AList.update (scoped_key scope k) (copy_kept r) (responses s)\<rparr>))))"

end
