(* ===== verification/Collab_Project.thy ===== *)
theory Collab_Project
  imports Collab_Records
begin

text \<open>
  Whole projects of the in-memory repository in \<open>packages/collaboration/src/index.ts\<close>: export, replacement
  by a snapshot, deletion; and one step of the repository on a command, with what is reachable.
\<close>

section \<open>Export\<close>

definition project_snapshot :: "string \<Rightarrow> project \<Rightarrow> store \<Rightarrow> snapshot" where
  "project_snapshot i x s =
     (let rs = filter (\<lambda>r. rev_project r = i) (map snd (revisions s));
          ts = filter (\<lambda>t. thread_project t = i) (map snd (threads s));
          cs = filter (\<lambda>c. comment_thread c \<in> thread_id ` set ts) (map snd (comments s)) in
      \<lparr>snap_format = collaboration_format, snap_project = x, snap_revisions = rs, snap_threads = ts,
       snap_comments = cs,
       snap_reactions = filter (\<lambda>r. reaction_comment r \<in> comment_id ` set cs) (map snd (reactions s)),
       snap_approvals = filter (\<lambda>a. approval_revision a \<in> rev_id ` set rs) (map snd (approvals s)),
       snap_reviews = filter (\<lambda>t. review_project t = i) (map snd (reviews s)),
       snap_requests = filter (\<lambda>a. ai_project a = i) (map snd (requests s)),
       snap_annotations = filter (\<lambda>a. annotation_project a = i) (map snd (annotations s)),
       snap_review_state = map_of (states s) i\<rparr>)"

definition overfull :: "store \<Rightarrow> bool" where
  "overfull s \<longleftrightarrow>
     length (revisions s) > max_items \<or> length (threads s) > max_items \<or> length (comments s) > max_items \<or>
     length (reactions s) > max_items \<or> length (approvals s) > max_items \<or> length (reviews s) > max_items \<or>
     length (requests s) > max_items \<or> length (annotations s) > max_items"

definition copy_snapshot :: "snapshot \<Rightarrow> snapshot" where
  "copy_snapshot x = x\<lparr>snap_revisions := map copy_revision (snap_revisions x)\<rparr>"

definition export_project :: "string \<Rightarrow> store \<Rightarrow> collab_error + snapshot option" where
  "export_project i s =
     (case map_of (projects s) i of
        None \<Rightarrow> Inr None
      | Some x \<Rightarrow>
          failIf (overfull s) ErrInvalid
         (andThen (owned_as snapshot_json (project_snapshot i x s)) (\<lambda>u.
            Inr (Some (copy_snapshot (project_snapshot i x s))))))"

section \<open>Replacement\<close>

text \<open>The project that owns a stored record, found through the thread of a comment.\<close>

definition revision_owner :: "store \<Rightarrow> string \<Rightarrow> string option" where
  "revision_owner s i = map_option rev_project (map_of (revisions s) i)"

definition thread_owner :: "store \<Rightarrow> string \<Rightarrow> string option" where
  "thread_owner s i = map_option thread_project (map_of (threads s) i)"

definition comment_owner :: "store \<Rightarrow> string \<Rightarrow> string option" where
  "comment_owner s i = Option.bind (map_of (comments s) i) (\<lambda>c. thread_owner s (comment_thread c))"

definition collides :: "('a \<Rightarrow> string) \<Rightarrow> 'b table \<Rightarrow> (string \<Rightarrow> string option) \<Rightarrow> string \<Rightarrow> 'a list \<Rightarrow> bool" where
  "collides name t owner project xs \<longleftrightarrow>
     list_ex (\<lambda>x. has t (name x) \<and> owner (name x) \<noteq> Some project) xs"

definition snapshot_collides :: "snapshot \<Rightarrow> store \<Rightarrow> bool" where
  "snapshot_collides x s \<longleftrightarrow>
     (let project = project_id (snap_project x) in
      collides rev_id (revisions s) (revision_owner s) project (snap_revisions x) \<or>
      collides thread_id (threads s) (thread_owner s) project (snap_threads x) \<or>
      collides comment_id (comments s) (comment_owner s) project (snap_comments x) \<or>
      collides review_id (reviews s) (\<lambda>i. map_option review_project (map_of (reviews s) i)) project (snap_reviews x) \<or>
      collides ai_id (requests s) (\<lambda>i. map_option ai_project (map_of (requests s) i)) project (snap_requests x) \<or>
      collides annotation_id (annotations s) (\<lambda>i. map_option annotation_project (map_of (annotations s) i)) project
        (snap_annotations x) \<or>
      collides reaction_key (reactions s)
        (\<lambda>k. Option.bind (map_of (reactions s) k) (\<lambda>r. comment_owner s (reaction_comment r))) project (snap_reactions x) \<or>
      collides approval_key (approvals s)
        (\<lambda>k. Option.bind (map_of (approvals s) k) (\<lambda>a. revision_owner s (approval_revision a))) project (snap_approvals x))"

definition put_all :: "('a \<Rightarrow> string) \<Rightarrow> 'a list \<Rightarrow> 'a table \<Rightarrow> 'a table" where
  "put_all name xs t = foldl (\<lambda>t x. AList.update (name x) x t) t xs"

definition without :: "('v \<Rightarrow> bool) \<Rightarrow> 'v table \<Rightarrow> 'v table" where
  "without belongs t = filter (\<lambda>kv. \<not> belongs (snd kv)) t"

definition delete_all :: "string list \<Rightarrow> 'v table \<Rightarrow> 'v table" where
  "delete_all ks t = foldl (\<lambda>t k. AList.delete k t) t ks"

definition changes_of_state :: "store \<Rightarrow> string \<Rightarrow> change list" where
  "changes_of_state s i = (case map_of (states s) i of None \<Rightarrow> [] | Some x \<Rightarrow> changes_since x)"

text \<open>The semantic changes of an imported review state are added one by one; an id that is taken by another
  project refuses the import.\<close>

fun add_changes :: "change list \<Rightarrow> change table \<Rightarrow> collab_error + change table" where
  "add_changes [] t = Inr t"
| "add_changes (c # cs) t = failIf (has t (change_id c)) ErrConflict (add_changes cs (AList.update (change_id c) c t))"

definition replaced :: "snapshot \<Rightarrow> change table \<Rightarrow> store \<Rightarrow> store" where
  "replaced x kept s =
     (let i = project_id (snap_project x) in
      s\<lparr>projects := AList.update i (snap_project x) (projects s),
        revisions := put_all rev_id (snap_revisions x) (without (\<lambda>r. rev_project r = i) (revisions s)),
        threads := put_all thread_id (snap_threads x) (without (\<lambda>t. thread_project t = i) (threads s)),
        comments := put_all comment_id (snap_comments x)
          (without (\<lambda>c. thread_owner s (comment_thread c) = Some i) (comments s)),
        reactions := put_all reaction_key (snap_reactions x)
          (without (\<lambda>r. comment_owner s (reaction_comment r) = Some i) (reactions s)),
        approvals := put_all approval_key (snap_approvals x)
          (without (\<lambda>a. revision_owner s (approval_revision a) = Some i) (approvals s)),
        reviews := put_all review_id (snap_reviews x) (without (\<lambda>t. review_project t = i) (reviews s)),
        requests := put_all ai_id (snap_requests x) (without (\<lambda>a. ai_project a = i) (requests s)),
        annotations := put_all annotation_id (snap_annotations x)
          (without (\<lambda>a. annotation_project a = i) (annotations s)),
        states := (case snap_review_state x of
            None \<Rightarrow> AList.delete i (states s) | Some v \<Rightarrow> AList.update i v (AList.delete i (states s))),
        changes := kept\<rparr>)"

definition store_overflows :: "store \<Rightarrow> bool" where
  "store_overflows s \<longleftrightarrow>
     overfull s \<or> length (projects s) > max_items \<or> length (links s) > max_items \<or>
     length (states s) > max_items \<or> length (changes s) > max_items"

definition replace_project :: "platform \<Rightarrow> snapshot \<Rightarrow> string option \<Rightarrow> store \<Rightarrow> collab_error + store" where
  "replace_project p snap expected s =
     (let x = copy_snapshot snap; i = project_id (snap_project x) in
     andThen (owned_as snapshot_json snap) (\<lambda>u.
     failIf (snap_format x \<noteq> collaboration_format) ErrInvalid
    (andThen (validate_snapshot p x) (\<lambda>u.
     andThen (optionally_require validate_review_state (snap_review_state x)) (\<lambda>u.
     failIf (length (revisions s) > max_items) ErrInvalid
    (failIf (case expected of
         None \<Rightarrow> False
       | Some e \<Rightarrow> map_option rev_id (latest_stored p i (map snd (revisions s))) \<noteq> Some e) ErrConflict
    (failIf (length (threads s) > max_items \<or> length (comments s) > max_items) ErrInvalid
    (failIf (snapshot_collides x s) ErrConflict
    (failIf (overfull s) ErrInvalid
    (failIf (case snap_review_state x of None \<Rightarrow> False | Some v \<Rightarrow> state_project v \<noteq> i) ErrInvalid
    (andThen (add_changes (case snap_review_state x of None \<Rightarrow> [] | Some v \<Rightarrow> changes_since v)
         (delete_all (map change_id (changes_of_state s i)) (changes s))) (\<lambda>kept.
     failIf (store_overflows (replaced x kept s)) ErrConflict
       (Inr (replaced x kept s))))))))))))))"

section \<open>Deletion\<close>

definition clear_project :: "string \<Rightarrow> store \<Rightarrow> store" where
  "clear_project i s =
     (let rs = map rev_id (filter (\<lambda>r. rev_project r = i) (map snd (revisions s)));
          ts = map thread_id (filter (\<lambda>t. thread_project t = i) (map snd (threads s)));
          cs = map comment_id (filter (\<lambda>c. comment_thread c \<in> set ts) (map snd (comments s))) in
      s\<lparr>projects := AList.delete i (projects s),
        states := AList.delete i (states s),
        changes := delete_all (map change_id (changes_of_state s i)) (changes s),
        revisions := delete_all rs (revisions s),
        threads := delete_all ts (threads s),
        comments := delete_all cs (comments s),
        reactions := without (\<lambda>r. reaction_comment r \<in> set cs) (reactions s),
        approvals := without (\<lambda>a. approval_revision a \<in> set rs) (approvals s),
        reviews := without (\<lambda>t. review_project t = i) (reviews s),
        requests := without (\<lambda>a. ai_project a = i) (requests s),
        annotations := without (\<lambda>a. annotation_project a = i) (annotations s)\<rparr>)"

definition delete_project :: "string \<Rightarrow> store \<Rightarrow> collab_error + store" where
  "delete_project i s =
     (if \<not> has (projects s) i then Inr s
      else
        failIf (length (revisions s) > max_items \<or> length (threads s) > max_items \<or> length (comments s) > max_items) ErrInvalid
          (Inr (clear_project i s)))"

end
