(* ===== verification/Collab_Tables.thy ===== *)
theory Collab_Tables
  imports Collab_Project
begin

text \<open>
  The laws of the tables of the repository: lookup after the updates, deletions and bulk writes that the
  operations perform.  A table is keyed when its keys are distinct and each key is the name of its value.
\<close>

definition keyed :: "('v \<Rightarrow> string) \<Rightarrow> 'v table \<Rightarrow> bool" where
  "keyed name t \<longleftrightarrow> distinct (map fst t) \<and> list_all (\<lambda>kv. fst kv = name (snd kv)) t"

lemma keyed_Nil [simp]: "keyed name []"
  by (simp add: keyed_def)

lemma keyed_lookup: "keyed name t \<Longrightarrow> map_of t k = Some v \<Longrightarrow> name v = k"
  by (auto simp: keyed_def list_all_iff dest!: map_of_SomeD)

lemma keyed_member: "keyed name t \<Longrightarrow> v \<in> snd ` set t \<longleftrightarrow> map_of t (name v) = Some v"
  by (force simp: keyed_def list_all_iff dest: map_of_SomeD)

lemma update_set: "set (AList.update k v t) \<subseteq> insert (k, v) (set t)"
  by (induction t) auto

lemma keyed_update [intro]: "keyed name t \<Longrightarrow> name v = k \<Longrightarrow> keyed name (AList.update k v t)"
  using update_set [of k v t] by (auto simp: keyed_def list_all_iff AList.distinct_update)

lemma distinct_filter_fst: "distinct (map fst t) \<Longrightarrow> distinct (map fst (filter P t))"
  by (rule distinct_filter_keys)

lemma keyed_without [intro]: "keyed name t \<Longrightarrow> keyed name (without b t)"
  by (auto simp: keyed_def without_def list_all_iff distinct_filter_fst)

lemma delete_is_filter: "AList.delete k t = filter (\<lambda>kv. fst kv \<noteq> k) t"
  by (auto simp: AList.delete_eq case_prod_unfold intro!: filter_cong)

lemma keyed_delete [intro]: "keyed name t \<Longrightarrow> keyed name (AList.delete k t)"
  by (auto simp: keyed_def delete_is_filter list_all_iff distinct_filter_fst)

lemma delete_all_is_filter: "delete_all ks t = filter (\<lambda>kv. fst kv \<notin> set ks) t"
proof (induction ks arbitrary: t)
  case (Cons k ks)
  have "delete_all (k # ks) t = delete_all ks (AList.delete k t)" by (simp add: delete_all_def)
  also have "\<dots> = filter (\<lambda>kv. fst kv \<notin> set ks) (filter (\<lambda>kv. fst kv \<noteq> k) t)"
    by (simp add: Cons.IH delete_is_filter)
  also have "\<dots> = filter (\<lambda>kv. fst kv \<notin> set (k # ks)) t" by (auto intro: filter_cong)
  finally show ?case .
qed (simp add: delete_all_def)

lemma keyed_delete_all [intro]: "keyed name t \<Longrightarrow> keyed name (delete_all ks t)"
  by (auto simp: keyed_def delete_all_is_filter list_all_iff distinct_filter_fst)

lemma lookup_filter:
  "distinct (map fst t) \<Longrightarrow>
     map_of (filter P t) k = (case map_of t k of None \<Rightarrow> None | Some v \<Rightarrow> if P (k, v) then Some v else None)"
proof (induction t)
  case (Cons kv t)
  then have "map_of t (fst kv) = None" by (simp add: map_of_eq_None_iff)
  then show ?case using Cons by (cases kv) (auto split: option.splits)
qed simp

lemma lookup_without:
  "keyed name t \<Longrightarrow>
     map_of (without b t) k = (case map_of t k of None \<Rightarrow> None | Some v \<Rightarrow> if b v then None else Some v)"
  by (auto simp: keyed_def without_def lookup_filter split: option.splits)

lemma lookup_delete_all: "map_of (delete_all ks t) k = (if k \<in> set ks then None else map_of t k)"
  unfolding delete_all_is_filter by (induction t) auto

lemma find_append:
  "List.find P (xs @ ys) = (case List.find P xs of None \<Rightarrow> List.find P ys | Some x \<Rightarrow> Some x)"
  by (induction xs) auto

lemma lookup_put_all:
  "map_of (put_all name xs t) k =
     (case List.find (\<lambda>x. name x = k) (rev xs) of None \<Rightarrow> map_of t k | Some x \<Rightarrow> Some x)"
proof (induction xs arbitrary: t)
  case (Cons x xs)
  have "map_of (put_all name (x # xs) t) k = map_of (put_all name xs (AList.update (name x) x t)) k"
    by (simp add: put_all_def)
  also have "\<dots> = (case List.find (\<lambda>x. name x = k) (rev (x # xs)) of None \<Rightarrow> map_of t k | Some x \<Rightarrow> Some x)"
    unfolding Cons.IH by (auto simp: AList.update_conv' find_append split: option.splits)
  finally show ?case .
qed (simp add: put_all_def)

lemma lookup_put_all_distinct:
  assumes "distinct (map name xs)"
  shows "map_of (put_all name xs t) k = (if k \<in> name ` set xs then List.find (\<lambda>x. name x = k) xs else map_of t k)"
proof (cases "k \<in> name ` set xs")
  case True
  then obtain x where x: "x \<in> set xs" "name x = k" by auto
  have "List.find (\<lambda>y. name y = name x) xs = Some x" using assms x by (intro find_by_key)
  moreover have "List.find (\<lambda>y. name y = name x) (rev xs) = Some x"
    using assms x by (intro find_by_key) (simp_all add: rev_map [symmetric])
  ultimately show ?thesis using x True by (simp add: lookup_put_all)
next
  case False
  then have "List.find (\<lambda>x. name x = k) (rev xs) = None" by (auto simp: find_None_iff)
  then show ?thesis using False by (simp add: lookup_put_all)
qed

lemma keyed_put_all [intro]: "keyed name t \<Longrightarrow> keyed name (put_all name xs t)"
  unfolding put_all_def by (induction xs arbitrary: t) auto

lemma put_all_fresh:
  assumes "distinct (map name xs)" "\<And>x. x \<in> set xs \<Longrightarrow> name x \<notin> fst ` set t"
  shows "put_all name xs t = t @ map (\<lambda>x. (name x, x)) xs"
  using assms
proof (induction xs arbitrary: t)
  case (Cons x xs)
  have "AList.update k v u = u @ [(k, v)]" if "k \<notin> fst ` set u" for k v and u :: "'a table"
    using that by (induction u) auto
  then have "AList.update (name x) x t = t @ [(name x, x)]" using Cons.prems(2) by simp
  moreover have "put_all name xs (t @ [(name x, x)]) = (t @ [(name x, x)]) @ map (\<lambda>x. (name x, x)) xs"
  proof (rule Cons.IH)
    show "distinct (map name xs)" using Cons.prems(1) by simp
    fix y assume "y \<in> set xs"
    then have "name y \<noteq> name x" using Cons.prems(1) by (auto simp: image_iff)
    then show "name y \<notin> fst ` set (t @ [(name x, x)])" using Cons.prems(2) \<open>y \<in> set xs\<close> by auto
  qed
  ultimately show ?case by (simp add: put_all_def)
qed (simp add: put_all_def)

section \<open>Tables whose values satisfy a predicate\<close>

text \<open>Every value is under its own name and satisfies the predicate.\<close>

definition table_of :: "('v \<Rightarrow> string) \<Rightarrow> ('v \<Rightarrow> bool) \<Rightarrow> 'v table \<Rightarrow> bool" where
  "table_of name good t \<longleftrightarrow> keyed name t \<and> list_all (\<lambda>kv. good (snd kv)) t"

lemma table_of_Nil [simp]: "table_of name good []"
  by (simp add: table_of_def)

lemma table_of_keyed [dest]: "table_of name good t \<Longrightarrow> keyed name t"
  by (simp add: table_of_def)

lemma table_of_good: "table_of name good t \<Longrightarrow> map_of t k = Some v \<Longrightarrow> good v"
  by (auto simp: table_of_def list_all_iff dest!: map_of_SomeD)

lemma table_of_goodI:
  assumes "keyed name t" "\<And>k v. map_of t k = Some v \<Longrightarrow> good v"
  shows "table_of name good t"
proof -
  have "good v" if "(k, v) \<in> set t" for k v
  proof -
    have "map_of t k = Some v" using assms(1) that by (simp add: keyed_def)
    then show ?thesis by (rule assms(2))
  qed
  then show ?thesis using assms(1) by (auto simp: table_of_def list_all_iff)
qed

lemma table_of_iff: "table_of name good t \<longleftrightarrow> keyed name t \<and> (\<forall>k v. map_of t k = Some v \<longrightarrow> good v)"
  by (blast intro: table_of_goodI dest: table_of_good)

lemma table_of_mono:
  assumes "table_of name good t" "\<And>v. good v \<Longrightarrow> map_of t (name v) = Some v \<Longrightarrow> good' v"
  shows "table_of name good' t"
proof (rule table_of_goodI)
  fix k v assume "map_of t k = Some v"
  then show "good' v" using assms table_of_good keyed_lookup by (metis table_of_keyed)
qed (use assms in auto)

lemma table_of_update:
  "table_of name good t \<Longrightarrow> name v = k \<Longrightarrow> good v \<Longrightarrow> table_of name good (AList.update k v t)"
  by (auto simp: table_of_iff AList.update_conv')

lemma table_of_without: "table_of name good t \<Longrightarrow> table_of name good (without b t)"
  by (auto simp: table_of_iff lookup_without split: option.splits if_splits)

lemma table_of_delete_all: "table_of name good t \<Longrightarrow> table_of name good (delete_all ks t)"
  by (auto simp: table_of_iff lookup_delete_all split: if_splits)

lemma table_of_delete: "table_of name good t \<Longrightarrow> table_of name good (AList.delete k t)"
  by (auto simp: table_of_iff AList.delete_conv' split: if_splits)

lemma table_of_put_all:
  "table_of name good t \<Longrightarrow> list_all good xs \<Longrightarrow> table_of name good (put_all name xs t)"
  unfolding put_all_def by (induction xs arbitrary: t) (auto simp: table_of_update)

lemma has_update [simp]: "has (AList.update k v t) i \<longleftrightarrow> i = k \<or> has t i"
  by (simp add: has_def AList.update_conv')

lemma table_names_distinct:
  assumes "keyed name t"
  shows "distinct (map (\<lambda>v. name v) (map snd t))"
proof -
  have "map (\<lambda>v. name v) (map snd t) = map fst t" using assms by (auto simp: keyed_def list_all_iff)
  then show ?thesis using assms unfolding keyed_def by metis
qed

section \<open>One project replaced in a table\<close>

text \<open>The records of a project leave a table and those of its snapshot enter it.  An identifier of the
  snapshot that the table has belongs to a record that leaves.\<close>

definition clears :: "('v \<Rightarrow> string) \<Rightarrow> ('v \<Rightarrow> bool) \<Rightarrow> 'v list \<Rightarrow> 'v table \<Rightarrow> bool" where
  "clears name b xs t \<longleftrightarrow> list_all (\<lambda>x. case map_of t (name x) of None \<Rightarrow> True | Some v \<Rightarrow> b v) xs"

lemma swapped_other:
  assumes "keyed name t" "clears name b xs t" "map_of t k = Some v" "\<not> b v"
  shows "map_of (put_all name xs (without b t)) k = Some v"
proof -
  have "name x \<noteq> k" if "x \<in> set xs" for x
    using assms(2,3,4) that by (auto simp: clears_def list_all_iff split: option.splits)
  then have "List.find (\<lambda>x. name x = k) (rev xs) = None" by (auto simp: find_None_iff)
  then show ?thesis using assms by (simp add: lookup_put_all lookup_without)
qed

lemma swapped_new:
  "distinct (map name xs) \<Longrightarrow> x \<in> set xs \<Longrightarrow> map_of (put_all name xs t) (name x) = Some x"
  by (simp add: lookup_put_all_distinct find_by_key)

lemma swapped_cases:
  assumes "keyed name t" "map_of (put_all name xs (without b t)) k = Some v"
  obtains "v \<in> set xs" "k = name v" | "map_of t k = Some v" "\<not> b v"
proof (cases "List.find (\<lambda>x. name x = k) (rev xs)")
  case None
  then show ?thesis using assms that(2) by (auto simp: lookup_put_all lookup_without split: option.splits if_splits)
next
  case (Some x)
  then have "x \<in> set xs" "name x = k" using find_Some_in [OF Some] by auto
  then show ?thesis using Some assms(2) that(1) by (simp add: lookup_put_all)
qed

lemma swapped_append:
  assumes "keyed name t" "clears name b xs t" "distinct (map name xs)"
  shows "map snd (put_all name xs (without b t)) = filter (\<lambda>v. \<not> b v) (map snd t) @ xs"
proof -
  have "name x \<notin> fst ` set (without b t)" if "x \<in> set xs" for x
  proof -
    have "map_of (without b t) (name x) = None"
      using assms(1,2) that by (auto simp: lookup_without clears_def list_all_iff split: option.splits)
    then show ?thesis by (simp add: map_of_eq_None_iff)
  qed
  then have "put_all name xs (without b t) = without b t @ map (\<lambda>x. (name x, x)) xs"
    using assms(3) by (rule put_all_fresh [rotated])
  moreover have "map snd (map (\<lambda>x. (name x, x)) xs) = xs" by (simp add: comp_def)
  ultimately show ?thesis by (simp add: without_def filter_map comp_def)
qed

text \<open>What is selected of other records stays, in its order, even where identifiers repeat.\<close>

lemma update_selected:
  "(\<And>w. (k, w) \<in> set t \<Longrightarrow> \<not> chosen w) \<Longrightarrow> \<not> chosen v \<Longrightarrow>
     filter chosen (map snd (AList.update k v t)) = filter chosen (map snd t)"
  by (induction t) auto

lemma put_all_selected:
  assumes "\<And>x. x \<in> set xs \<Longrightarrow> \<not> chosen x"
    and "\<And>x w. x \<in> set xs \<Longrightarrow> (name x, w) \<in> set t \<Longrightarrow> \<not> chosen w"
  shows "filter chosen (map snd (put_all name xs t)) = filter chosen (map snd t)"
  using assms
proof (induction xs arbitrary: t)
  case (Cons x xs)
  let ?u = "AList.update (name x) x t"
  have "filter chosen (map snd (put_all name xs ?u)) = filter chosen (map snd ?u)"
  proof (rule Cons.IH)
    fix y w assume "y \<in> set xs" "(name y, w) \<in> set ?u"
    then show "\<not> chosen w" using update_set [of "name x" x t] Cons.prems by auto
  qed (use Cons.prems in auto)
  also have "\<dots> = filter chosen (map snd t)" using Cons.prems by (intro update_selected) auto
  finally show ?case by (simp add: put_all_def)
qed (simp add: put_all_def)

lemma swapped_selected:
  assumes "keyed name t" "clears name b xs t"
    and "\<And>x. x \<in> set xs \<Longrightarrow> \<not> chosen x" "\<And>v. v \<in> snd ` set t \<Longrightarrow> chosen v \<Longrightarrow> \<not> b v"
  shows "filter chosen (map snd (put_all name xs (without b t))) = filter chosen (map snd t)"
proof -
  have "(name x, w) \<notin> set (without b t)" if "x \<in> set xs" for x w
  proof
    assume "(name x, w) \<in> set (without b t)"
    then have "(name x, w) \<in> set t" "\<not> b w" by (simp_all add: without_def)
    moreover from this assms(1) have "map_of t (name x) = Some w" by (simp add: keyed_def)
    ultimately show False using assms(2) that by (auto simp: clears_def list_all_iff)
  qed
  then have "filter chosen (map snd (put_all name xs (without b t))) = filter chosen (map snd (without b t))"
    using assms(3) by (intro put_all_selected) auto
  also have "\<dots> = filter chosen (map snd t)"
  proof -
    have "filter (\<lambda>kv. \<not> b (snd kv) \<and> chosen (snd kv)) t = filter (\<lambda>kv. chosen (snd kv)) t"
      using assms(4) by (intro filter_cong) (auto intro: image_eqI)
    then show ?thesis by (simp add: without_def filter_map comp_def)
  qed
  finally show ?thesis .
qed

end
