(* ===== verification/Collab_Safety.thy ===== *)
theory Collab_Safety
  imports Collab_Tables
begin

text \<open>
  The repository as a machine: one call of any of its operations, run to its end, and the invariant of
  the store.  A call that throws leaves the store alone, except \<open>commitDesignRevision\<close>, which leaves
  what it had written.
\<close>

section \<open>Calls\<close>

datatype repository_command =
    CreateProject project
  | AppendRevision revision "string option"
  | CommitDesign design_input
  | CreateReviewThread review_thread
  | MutateReviewThread mutation
  | AppendReviewMessage string message
  | ReactToMessage string string string string
  | SetMessageRead string string string bool
  | ResolveReviewThread string string "string option"
  | ReopenReviewThread string string "string option"
  | MoveReviewThread string anchor string "string option"
  | CreateRequest ai_request
  | UpdateRequest ai_request
  | CreateAnnotation annotation
  | CreateThread thread
  | ResolveThread string string "string option"
  | CreateComment comment
  | AddReaction reaction
  | PutApproval approval
  | AppendAudit audit_event
  | AppendEvent event_input
  | CreateLink share_link
  | RevokeLink string string
  | PutResponse string string kept_response
  | ReplaceProject snapshot "string option"
  | DeleteProject string

definition after :: "store \<Rightarrow> collab_error + store \<Rightarrow> store" where
  "after s r = (case r of Inl e \<Rightarrow> s | Inr s' \<Rightarrow> s')"

definition after_answer :: "store \<Rightarrow> collab_error + 'a \<times> store \<Rightarrow> store" where
  "after_answer s r = (case r of Inl e \<Rightarrow> s | Inr (x, s') \<Rightarrow> s')"

fun perform :: "platform \<Rightarrow> store \<Rightarrow> repository_command \<Rightarrow> store" where
  "perform p s (CreateProject x) = after s (create_project x s)"
| "perform p s (AppendRevision r q) = after s (append_revision p r q s)"
| "perform p s (CommitDesign x) = snd (commit_design p x s)"
| "perform p s (CreateReviewThread t) = after s (create_review p t s)"
| "perform p s (MutateReviewThread m) = after_answer s (mutate_review p m s)"
| "perform p s (AppendReviewMessage i m) = after_answer s (append_message p i m s)"
| "perform p s (ReactToMessage i m e user) = after_answer s (react_to_message p i m e user s)"
| "perform p s (SetMessageRead i m user read) = after_answer s (set_message_read p i m user read s)"
| "perform p s (ResolveReviewThread i by time) = after_answer s (resolve_review p i by time s)"
| "perform p s (ReopenReviewThread i by time) = after_answer s (reopen_review p i by time s)"
| "perform p s (MoveReviewThread i a by time) = after_answer s (move_review p i a by time s)"
| "perform p s (CreateRequest a) = after s (create_request p a s)"
| "perform p s (UpdateRequest a) = after_answer s (update_request p a s)"
| "perform p s (CreateAnnotation a) = after s (create_annotation p a s)"
| "perform p s (CreateThread t) = after s (create_thread t s)"
| "perform p s (ResolveThread i by time) = after_answer s (resolve_thread p i by time s)"
| "perform p s (CreateComment c) = after s (create_comment c s)"
| "perform p s (AddReaction r) = after s (add_reaction r s)"
| "perform p s (PutApproval a) = after s (put_approval a s)"
| "perform p s (AppendAudit e) = after s (append_audit e s)"
| "perform p s (AppendEvent e) = snd (append_event e s)"
| "perform p s (CreateLink l) = after s (create_link l s)"
| "perform p s (RevokeLink i time) = after s (revoke_link i time s)"
| "perform p s (PutResponse scope k r) = after_answer s (put_response scope k r s)"
| "perform p s (ReplaceProject x e) = after s (replace_project p x e s)"
| "perform p s (DeleteProject i) = after s (delete_project i s)"

text \<open>A call and what the clock shows when it is made.\<close>

definition perform_at :: "platform \<Rightarrow> store \<Rightarrow> string \<times> repository_command \<Rightarrow> store" where
  "perform_at p s c = perform (p\<lparr>clock := fst c\<rparr>) s (snd c)"

text \<open>The contract of a machine whose every call, refused or not, keeps an invariant and moves along a
  preorder.\<close>

locale total_machine =
  fixes step :: "'s \<Rightarrow> 'c \<Rightarrow> 's"
    and inv :: "'s \<Rightarrow> bool"
    and forward :: "'s \<Rightarrow> 's \<Rightarrow> bool"
  assumes step_inv: "inv s \<Longrightarrow> inv (step s c)"
    and step_forward: "inv s \<Longrightarrow> forward s (step s c)"
    and forward_refl: "forward s s"
    and forward_trans: "forward s t \<Longrightarrow> forward t u \<Longrightarrow> forward s u"
begin

lemma run_invariant: "inv s \<Longrightarrow> inv (foldl step s cs)"
  by (induction cs arbitrary: s) (auto intro: step_inv)

lemma run_forward: "inv s \<Longrightarrow> forward s (foldl step s cs)"
proof (induction cs arbitrary: s)
  case Nil
  show ?case by (simp add: forward_refl)
next
  case (Cons c cs)
  have "forward s (step s c)" using Cons.prems by (rule step_forward)
  moreover have "forward (step s c) (foldl step (step s c) cs)" using Cons.prems by (intro Cons.IH step_inv)
  ultimately show ?case by (simp add: forward_trans)
qed

end

section \<open>The invariant\<close>

definition comment_in :: "store \<Rightarrow> string \<Rightarrow> string option" where
  "comment_in s i = map_option comment_thread (map_of (comments s) i)"

definition project_known :: "store \<Rightarrow> revision \<Rightarrow> bool" where
  "project_known s r \<longleftrightarrow> has (projects s) (rev_project r)"

definition thread_known :: "store \<Rightarrow> thread \<Rightarrow> bool" where
  "thread_known s t \<longleftrightarrow> revision_in s (thread_revision t) (thread_project t) \<noteq> None"

definition review_known :: "platform \<Rightarrow> store \<Rightarrow> review_thread \<Rightarrow> bool" where
  "review_known p s t \<longleftrightarrow>
     revision_in s (anchored_revision (review_anchor t)) (review_project t) \<noteq> None \<and>
     validate_review_thread p t = Inr ()"

text \<open>The revisions that a request for an AI change names: what it starts from, its result and the undone one.\<close>

definition request_revisions :: "ai_request \<Rightarrow> string set" where
  "request_revisions a = insert (reference_id (ai_base a))
     (result_revision ` (set_option (ai_result a) \<union> set_option (ai_undo a)))"

definition request_known :: "store \<Rightarrow> ai_request \<Rightarrow> bool" where
  "request_known s a \<longleftrightarrow> (\<forall>i \<in> request_revisions a. revision_in s i (ai_project a) \<noteq> None)"

definition annotation_known :: "store \<Rightarrow> annotation \<Rightarrow> bool" where
  "annotation_known s a \<longleftrightarrow>
     revision_in s (anchored_revision (annotation_anchor a)) (annotation_project a) \<noteq> None"

definition comment_known :: "store \<Rightarrow> comment \<Rightarrow> bool" where
  "comment_known s c \<longleftrightarrow> has (threads s) (comment_thread c) \<and>
     (case comment_parent c of
        None \<Rightarrow> True | Some q \<Rightarrow> q = [] \<or> comment_in s q = Some (comment_thread c))"

definition reaction_known :: "store \<Rightarrow> reaction \<Rightarrow> bool" where
  "reaction_known s r \<longleftrightarrow> has (comments s) (reaction_comment r)"

definition approval_known :: "store \<Rightarrow> approval \<Rightarrow> bool" where
  "approval_known s a \<longleftrightarrow> has (revisions s) (approval_revision a)"

definition state_known :: "store \<Rightarrow> review_state \<Rightarrow> bool" where
  "state_known s x \<longleftrightarrow> has (projects s) (state_project x) \<and>
     list_all (\<lambda>c. map_of (changes s) (change_id c) = Some c \<and> scope_project (change_affected c) = state_project x)
       (changes_since x)"

text \<open>Each record is stored under its own name and what it refers to is stored, in the same project.\<close>

definition consistent :: "platform \<Rightarrow> store \<Rightarrow> bool" where
  "consistent p s \<longleftrightarrow>
     keyed project_id (projects s) \<and> table_of rev_id (project_known s) (revisions s) \<and>
     table_of thread_id (thread_known s) (threads s) \<and> table_of review_id (review_known p s) (reviews s) \<and>
     table_of ai_id (request_known s) (requests s) \<and>
     table_of annotation_id (annotation_known s) (annotations s) \<and>
     table_of comment_id (comment_known s) (comments s) \<and> table_of reaction_key (reaction_known s) (reactions s) \<and>
     table_of approval_key (approval_known s) (approvals s) \<and> keyed link_id (links s) \<and>
     table_of state_project (state_known s) (states s) \<and> keyed change_id (changes s)"

lemma empty_consistent: "consistent p empty_store"
  by (simp add: consistent_def empty_store_def)

text \<open>What is stored stays stored: references remain valid.\<close>

definition keeps_references :: "store \<Rightarrow> store \<Rightarrow> bool" where
  "keeps_references s s' \<longleftrightarrow>
     (\<forall>i. has (projects s) i \<longrightarrow> has (projects s') i) \<and>
     (\<forall>i r. map_of (revisions s) i = Some r \<longrightarrow> map_of (revisions s') i = Some r) \<and>
     (\<forall>i. has (threads s) i \<longrightarrow> has (threads s') i) \<and>
     (\<forall>i t. comment_in s i = Some t \<longrightarrow> comment_in s' i = Some t) \<and>
     (\<forall>k c. map_of (changes s) k = Some c \<longrightarrow> map_of (changes s') k = Some c)"

lemma keeps_referencesD:
  assumes "keeps_references s s'"
  shows "has (projects s) i \<Longrightarrow> has (projects s') i"
    "map_of (revisions s) i = Some r \<Longrightarrow> map_of (revisions s') i = Some r"
    "has (threads s) i \<Longrightarrow> has (threads s') i"
    "comment_in s i = Some t \<Longrightarrow> comment_in s' i = Some t"
    "map_of (changes s) i = Some c \<Longrightarrow> map_of (changes s') i = Some c"
  using assms unfolding keeps_references_def by blast+

lemma has_comment: "has (comments s) i \<longleftrightarrow> (\<exists>t. comment_in s i = Some t)"
  by (auto simp: has_def comment_in_def)

lemma revision_in_Some: "revision_in s i q = Some r \<longleftrightarrow> map_of (revisions s) i = Some r \<and> rev_project r = q"
  by (auto simp: revision_in_def split: option.splits)

lemma keeps_references_known:
  assumes "keeps_references s s'"
  shows "project_known s r \<Longrightarrow> project_known s' r" "thread_known s t \<Longrightarrow> thread_known s' t"
    "review_known p s w \<Longrightarrow> review_known p s' w" "request_known s a \<Longrightarrow> request_known s' a"
    "annotation_known s n \<Longrightarrow> annotation_known s' n" "comment_known s c \<Longrightarrow> comment_known s' c"
    "reaction_known s e \<Longrightarrow> reaction_known s' e" "approval_known s v \<Longrightarrow> approval_known s' v"
    "state_known s x \<Longrightarrow> state_known s' x"
proof -
  note keeps = keeps_referencesD [OF assms]
  have revision: "revision_in s' i q \<noteq> None" if "revision_in s i q \<noteq> None" for i q
    using that keeps(2) by (auto simp: revision_in_Some)
  show "project_known s r \<Longrightarrow> project_known s' r" unfolding project_known_def by (rule keeps(1))
  show "thread_known s t \<Longrightarrow> thread_known s' t" unfolding thread_known_def by (rule revision)
  show "review_known p s w \<Longrightarrow> review_known p s' w" unfolding review_known_def using revision by blast
  show "request_known s a \<Longrightarrow> request_known s' a" unfolding request_known_def using revision by blast
  show "annotation_known s n \<Longrightarrow> annotation_known s' n" unfolding annotation_known_def by (rule revision)
  show "comment_known s c \<Longrightarrow> comment_known s' c"
    unfolding comment_known_def by (cases "comment_parent c") (use keeps(3,4) in auto)
  show "reaction_known s e \<Longrightarrow> reaction_known s' e"
    unfolding reaction_known_def has_comment using keeps(4) by blast
  show "approval_known s v \<Longrightarrow> approval_known s' v"
    unfolding approval_known_def has_def using keeps(2) by blast
  show "state_known s x \<Longrightarrow> state_known s' x"
    unfolding state_known_def list_all_iff using keeps(1,5) by blast
qed

text \<open>A table is left alone or one good record is put into it.\<close>

definition one_put :: "('v \<Rightarrow> string) \<Rightarrow> ('v \<Rightarrow> bool) \<Rightarrow> 'v table \<Rightarrow> 'v table \<Rightarrow> bool" where
  "one_put name good t t' \<longleftrightarrow> t' = t \<or> (\<exists>v. good v \<and> t' = AList.update (name v) v t)"

lemma one_put_refl [simp]: "one_put name good t t"
  by (simp add: one_put_def)

lemma one_put_update: "name v = k \<Longrightarrow> good v \<Longrightarrow> one_put name good t (AList.update k v t)"
  by (auto simp: one_put_def)

lemma table_of_one_put: "table_of name good t \<Longrightarrow> one_put name good t t' \<Longrightarrow> table_of name good t'"
  by (auto simp: one_put_def table_of_update)

lemma keyed_one_put: "keyed name t \<Longrightarrow> one_put name good t t' \<Longrightarrow> keyed name t'"
  by (auto simp: one_put_def)

lemma consistent_put:
  assumes "consistent p s" "keeps_references s s'"
    and "one_put project_id (\<lambda>x. True) (projects s) (projects s')"
    and "one_put rev_id (project_known s') (revisions s) (revisions s')"
    and "one_put thread_id (thread_known s') (threads s) (threads s')"
    and "one_put review_id (review_known p s') (reviews s) (reviews s')"
    and "one_put ai_id (request_known s') (requests s) (requests s')"
    and "one_put annotation_id (annotation_known s') (annotations s) (annotations s')"
    and "one_put comment_id (comment_known s') (comments s) (comments s')"
    and "one_put reaction_key (reaction_known s') (reactions s) (reactions s')"
    and "one_put approval_key (approval_known s') (approvals s) (approvals s')"
    and "one_put link_id (\<lambda>x. True) (links s) (links s')"
    and "one_put state_project (state_known s') (states s) (states s')"
    and "one_put change_id (\<lambda>x. True) (changes s) (changes s')"
  shows "consistent p s'"
  unfolding consistent_def
proof (intro conjI)
  note known = keeps_references_known [OF assms(2)]
  note c = assms(1) [unfolded consistent_def]
  show "keyed project_id (projects s')" using c assms(3) by (blast intro: keyed_one_put)
  show "table_of rev_id (project_known s') (revisions s')"
    using c assms(4) known(1) by (blast intro: table_of_one_put table_of_mono)
  show "table_of thread_id (thread_known s') (threads s')"
    using c assms(5) known(2) by (blast intro: table_of_one_put table_of_mono)
  show "table_of review_id (review_known p s') (reviews s')"
    using c assms(6) known(3) by (blast intro: table_of_one_put table_of_mono)
  show "table_of ai_id (request_known s') (requests s')"
    using c assms(7) known(4) by (blast intro: table_of_one_put table_of_mono)
  show "table_of annotation_id (annotation_known s') (annotations s')"
    using c assms(8) known(5) by (blast intro: table_of_one_put table_of_mono)
  show "table_of comment_id (comment_known s') (comments s')"
    using c assms(9) known(6) by (blast intro: table_of_one_put table_of_mono)
  show "table_of reaction_key (reaction_known s') (reactions s')"
    using c assms(10) known(7) by (blast intro: table_of_one_put table_of_mono)
  show "table_of approval_key (approval_known s') (approvals s')"
    using c assms(11) known(8) by (blast intro: table_of_one_put table_of_mono)
  show "keyed link_id (links s')" using c assms(12) by (blast intro: keyed_one_put)
  show "table_of state_project (state_known s') (states s')"
    using c assms(13) known(9) by (blast intro: table_of_one_put table_of_mono)
  show "keyed change_id (changes s')" using c assms(14) by (blast intro: keyed_one_put)
qed

section \<open>One record put into a table\<close>

lemmas known_defs = project_known_def thread_known_def review_known_def request_known_def annotation_known_def
  comment_known_def reaction_known_def approval_known_def state_known_def

lemma keeps_references_refl [simp]: "keeps_references s s"
  by (simp add: keeps_references_def)

lemma consistent_logs [simp]:
  "consistent p (s\<lparr>receipts := a\<rparr>) = consistent p s" "consistent p (s\<lparr>audits := b\<rparr>) = consistent p s"
  "consistent p (s\<lparr>events := c\<rparr>) = consistent p s" "consistent p (s\<lparr>cursor := d\<rparr>) = consistent p s"
  "consistent p (s\<lparr>responses := e\<rparr>) = consistent p s"
  by (simp_all add: consistent_def known_defs [abs_def] revision_in_def comment_in_def cong: option.case_cong)


lemma put_project_consistent:
  "consistent p s \<Longrightarrow> project_id x = i \<Longrightarrow> consistent p (s\<lparr>projects := AList.update i x (projects s)\<rparr>)"
  by (erule consistent_put) (simp_all add: keeps_references_def comment_in_def one_put_update)

lemma put_revision_consistent:
  "consistent p s \<Longrightarrow> has (projects s) (rev_project r) \<Longrightarrow> \<not> has (revisions s) (rev_id r) \<Longrightarrow>
     consistent p (s\<lparr>revisions := AList.update (rev_id r) r (revisions s)\<rparr>)"
  by (erule consistent_put)
     (auto simp: keeps_references_def comment_in_def AList.update_conv' has_def project_known_def intro!: one_put_update)

lemma put_thread_consistent:
  "consistent p s \<Longrightarrow> thread_known s t \<Longrightarrow> thread_id t = i \<Longrightarrow> consistent p (s\<lparr>threads := AList.update i t (threads s)\<rparr>)"
  by (erule consistent_put)
     (auto simp: keeps_references_def comment_in_def thread_known_def revision_in_def intro!: one_put_update)

lemma put_review_consistent:
  "consistent p s \<Longrightarrow> review_known p s t \<Longrightarrow> review_id t = i \<Longrightarrow> consistent p (put_review i t s)"
  unfolding put_review_def by (erule consistent_put)
     (auto simp: keeps_references_def comment_in_def review_known_def revision_in_def intro!: one_put_update)

lemma put_request_consistent:
  "consistent p s \<Longrightarrow> request_known s a \<Longrightarrow> ai_id a = i \<Longrightarrow> consistent p (s\<lparr>requests := AList.update i a (requests s)\<rparr>)"
  by (erule consistent_put)
     (auto simp: keeps_references_def comment_in_def request_known_def revision_in_def intro!: one_put_update)

lemma put_annotation_consistent:
  "consistent p s \<Longrightarrow> annotation_known s a \<Longrightarrow> annotation_id a = i \<Longrightarrow>
     consistent p (s\<lparr>annotations := AList.update i a (annotations s)\<rparr>)"
  by (erule consistent_put)
     (auto simp: keeps_references_def comment_in_def annotation_known_def revision_in_def intro!: one_put_update)

lemma put_comment_consistent:
  assumes "consistent p s" "comment_known s c" "\<not> has (comments s) (comment_id c)"
  shows "consistent p (s\<lparr>comments := AList.update (comment_id c) c (comments s)\<rparr>)"
proof -
  let ?s = "s\<lparr>comments := AList.update (comment_id c) c (comments s)\<rparr>"
  have keeps: "keeps_references s ?s"
    using assms(3) by (auto simp: keeps_references_def comment_in_def AList.update_conv' has_def)
  have "comment_known ?s c" using keeps assms(2) by (rule keeps_references_known)
  then show ?thesis using keeps by (intro consistent_put [OF assms(1)]) (auto intro: one_put_update)
qed

lemma put_reaction_consistent:
  "consistent p s \<Longrightarrow> reaction_known s r \<Longrightarrow> consistent p (s\<lparr>reactions := AList.update (reaction_key r) r (reactions s)\<rparr>)"
  by (erule consistent_put)
     (auto simp: keeps_references_def comment_in_def reaction_known_def intro!: one_put_update)

lemma put_approval_consistent:
  "consistent p s \<Longrightarrow> approval_known s a \<Longrightarrow> consistent p (s\<lparr>approvals := AList.update (approval_key a) a (approvals s)\<rparr>)"
  by (erule consistent_put)
     (auto simp: keeps_references_def comment_in_def approval_known_def intro!: one_put_update)

lemma put_link_consistent:
  "consistent p s \<Longrightarrow> link_id l = i \<Longrightarrow> consistent p (s\<lparr>links := AList.update i l (links s)\<rparr>)"
  by (erule consistent_put) (auto simp: keeps_references_def comment_in_def intro!: one_put_update)

lemma put_state_consistent:
  "consistent p s \<Longrightarrow> state_known s x \<Longrightarrow> state_project x = i \<Longrightarrow> consistent p (s\<lparr>states := AList.update i x (states s)\<rparr>)"
  by (erule consistent_put)
     (auto simp: keeps_references_def comment_in_def state_known_def list_all_iff intro!: one_put_update)

lemma put_change_consistent:
  assumes "consistent p s" "\<not> has (changes s) (change_id c)"
  shows "consistent p (s\<lparr>changes := AList.update (change_id c) c (changes s)\<rparr>)"
  using assms by (intro consistent_put [OF assms(1)])
     (auto simp: keeps_references_def comment_in_def AList.update_conv' has_def intro!: one_put_update)


section \<open>Every operation keeps the invariant\<close>

lemma consistentD:
  assumes "consistent p s"
  shows "map_of (revisions s) i = Some r \<Longrightarrow> rev_id r = i" "map_of (threads s) i = Some t \<Longrightarrow> thread_id t = i \<and> thread_known s t"
    "map_of (reviews s) i = Some w \<Longrightarrow> review_id w = i \<and> review_known p s w"
    "map_of (states s) i = Some x \<Longrightarrow> state_project x = i \<and> state_known s x"
    "map_of (links s) i = Some l \<Longrightarrow> link_id l = i"
  using assms unfolding consistent_def by (blast dest: keyed_lookup table_of_good table_of_keyed)+

lemma create_project_consistent: "consistent p s \<Longrightarrow> create_project x s = Inr s' \<Longrightarrow> consistent p s'"
  by (auto simp: create_project_def outcome_simps intro: put_project_consistent)

lemma append_begin_Inr:
  "append_begin p x s = Inr found \<Longrightarrow>
     found = (copy_revision x, snd found) \<and> has (projects s) (rev_project x) \<and> \<not> has (revisions s) (rev_id x)"
  by (auto simp: append_begin_def outcome_simps)

lemma copy_revision_simps [simp]:
  "rev_id (copy_revision r) = rev_id r" "rev_project (copy_revision r) = rev_project r"
  "rev_sequence (copy_revision r) = rev_sequence r" "rev_sha (copy_revision r) = rev_sha r"
  "rev_parent (copy_revision r) = rev_parent r" "rev_scenarios (copy_revision r) = rev_scenarios r"
  by (simp_all add: copy_revision_def)

lemma append_finish_Inr:
  "append_finish (x, current) parent s = Inr s' \<Longrightarrow>
     map_option rev_id current = parent \<and> rev_sequence x = next_sequence current \<and>
     s' = s\<lparr>revisions := AList.update (rev_id x) x (revisions s)\<rparr>"
  by (auto simp: append_finish_def outcome_simps)

lemma append_revision_consistent:
  assumes "consistent p s" "append_revision q x parent s = Inr s'"
  shows "consistent p s'"
proof -
  obtain found where "append_begin q x s = Inr found" "append_finish found parent s = Inr s'"
    using assms(2) by (auto simp: append_revision_def outcome_simps)
  then have "s' = s\<lparr>revisions := AList.update (rev_id (copy_revision x)) (copy_revision x) (revisions s)\<rparr>"
    "has (projects s) (rev_project (copy_revision x))" "\<not> has (revisions s) (rev_id (copy_revision x))"
    using append_begin_Inr append_finish_Inr by (metis copy_revision_simps(1,2) prod.collapse prod.inject)+
  then show ?thesis using put_revision_consistent [OF assms(1)] by metis
qed

text \<open>What the checks before the await left is still so after it when nothing came between.\<close>

lemma commit_begin_Inr:
  "commit_begin p x s = Inr (Inr before) \<Longrightarrow>
     has (projects s) (input_project x) \<and>
     (case command_revision (input_command x) of None \<Rightarrow> True | Some r \<Rightarrow> rev_project r = input_project x) \<and>
     get_latest_revision p (input_project x) s = Inr before"
  by (auto simp: commit_begin_def outcome_simps split: option.splits)

lemma write_revision_consistent:
  assumes "consistent p s" "has (projects s) (input_project x)" "commit_checks x before s = Inr u"
    and "case command_revision (input_command x) of None \<Rightarrow> True | Some r \<Rightarrow> rev_project r = input_project x"
  shows "consistent p (write_revision x s)"
proof (cases "command_revision (input_command x)")
  case (Some r)
  then have "\<not> has (revisions s) (rev_id r)"
    using assms(3) by (auto simp: commit_checks_def Let_def outcome_simps)
  then show ?thesis using Some assms(1,2,4) by (simp add: write_revision_def put_revision_consistent)
qed (use assms in \<open>simp add: write_revision_def\<close>)

lemma write_baseline_consistent:
  assumes "consistent p s" "has (projects s) (input_project x)" "write_baseline x s = Inr s'"
  shows "consistent p s'"
proof (cases "command_readiness (input_command x)")
  case (Some d)
  then obtain r where "s' = s\<lparr>states := AList.update (input_project x) (ready_state x d r) (states s)\<rparr>"
    using assms(3) by (auto simp: write_baseline_def outcome_simps split: option.splits)
  then show ?thesis
    using assms(1,2) by (auto simp: ready_state_def state_known_def intro!: put_state_consistent)
qed (use assms in \<open>simp add: write_baseline_def\<close>)

lemma stored_state_known:
  assumes "consistent p s" "has (projects s) i"
  shows "state_project (stored_state s i) = i \<and> state_known s (stored_state s i)"
  using consistentD(4) [OF assms(1)] assms(2)
  by (auto simp: stored_state_def draft_state_def state_known_def split: option.splits)

lemma write_change_consistent:
  assumes "consistent p s" "has (projects s) (input_project x)" "stored_state s (input_project x) = state"
    and "\<And>c. command_change (input_command x) = Some c \<Longrightarrow>
           \<not> has (changes s) (change_id c) \<and> scope_project (change_affected c) = input_project x"
  shows "consistent p (write_change x before state s)"
proof (cases "write_change x before state s = s")
  case False
  then obtain r c b where found: "command_change (input_command x) = Some c"
    "write_change x before state s =
       (let k = recorded_change c b r (input_at x) in
        s\<lparr>changes := AList.update (change_id c) k (changes s),
          states := AList.update (input_project x)
            (state\<lparr>state_currency := CurrencyStale, approvals_stale := True, changes_since := changes_since state @ [k]\<rparr>)
            (states s)\<rparr>)"
    by (auto simp: write_change_def Let_def split: option.splits if_splits)
  define k where "k = recorded_change c b r (input_at x)"
  have k: "change_id k = change_id c" "change_affected k = change_affected c"
    by (simp_all add: k_def recorded_change_def change_input.defs)
  define t where "t = s\<lparr>changes := AList.update (change_id k) k (changes s)\<rparr>"
  have fresh: "\<not> has (changes s) (change_id k)" "scope_project (change_affected k) = input_project x"
    using assms(4) [OF found(1)] k by simp_all
  have t: "consistent p t" unfolding t_def using assms(1) fresh(1) by (rule put_change_consistent)
  have keeps: "keeps_references s t"
    using fresh(1) by (auto simp: keeps_references_def comment_in_def t_def AList.update_conv' has_def)
  have state: "state_project state = input_project x" "state_known t state"
    using stored_state_known [OF assms(1,2)] assms(3) keeps_references_known(9) [OF keeps] by auto
  have "consistent p (t\<lparr>states := AList.update (input_project x)
      (state\<lparr>state_currency := CurrencyStale, approvals_stale := True, changes_since := changes_since state @ [k]\<rparr>)
      (states t)\<rparr>)"
  proof (rule put_state_consistent [OF t])
    have "map_of (changes t) (change_id k) = Some k" by (simp add: t_def AList.update_conv')
    then show "state_known t (state\<lparr>state_currency := CurrencyStale, approvals_stale := True,
        changes_since := changes_since state @ [k]\<rparr>)"
      using state fresh(2) by (simp add: state_known_def)
  qed (use state in simp)
  then show ?thesis unfolding found(2) by (simp add: Let_def t_def k k_def [symmetric])
qed (use assms in simp)

lemma commit_checks_change:
  "commit_checks x before s = Inr u \<Longrightarrow> command_change (input_command x) = Some c \<Longrightarrow>
     \<not> has (changes s) (change_id c) \<and> scope_project (change_affected c) = input_project x"
  by (auto simp: commit_checks_def Let_def outcome_simps optionally_require_def change_input_error_def)

lemma write_revision_parts [simp]:
  "projects (write_revision x s) = projects s" "states (write_revision x s) = states s"
  "changes (write_revision x s) = changes s"
  by (simp_all add: write_revision_def split: option.split)

lemma write_baseline_parts:
  "write_baseline x s = Inr s' \<Longrightarrow> projects s' = projects s \<and> changes s' = changes s \<and> revisions s' = revisions s \<and>
     (command_readiness (input_command x) = None \<longrightarrow> s' = s)"
  by (auto simp: write_baseline_def outcome_simps split: option.splits)

lemma keep_response_consistent: "consistent p s \<Longrightarrow> keep_response x r s = Inr s' \<Longrightarrow> consistent p s'"
  by (auto simp: keep_response_def outcome_simps split: option.splits)

lemma write_change_idle:
  "command_change (input_command x) = None \<or> command_readiness (input_command x) \<noteq> None \<Longrightarrow>
     write_change x before state s = s"
  by (auto simp: write_change_def split: option.splits)

lemma commit_finish_consistent:
  assumes "consistent p s" "has (projects s) (input_project x)"
    and "case command_revision (input_command x) of None \<Rightarrow> True | Some r \<Rightarrow> rev_project r = input_project x"
  shows "consistent p (snd (commit_finish x before s))"
proof (cases "commit_checks x before s")
  case (Inr u)
  note checks = Inr
  define s1 where "s1 = write_revision x s"
  have s1: "consistent p s1" unfolding s1_def by (rule write_revision_consistent [OF assms(1,2) checks assms(3)])
  have known: "has (projects s1) (input_project x)" using assms(2) by (simp add: s1_def)
  show ?thesis
  proof (cases "write_baseline x s1")
    case Inl
    then show ?thesis using checks s1 by (simp add: commit_finish_def Let_def s1_def)
  next
    case (Inr s2)
    have s2: "consistent p s2" by (rule write_baseline_consistent [OF s1 known Inr])
    define state where "state = stored_state s (input_project x)"
    define s3 where "s3 = write_change x before state s2"
    have "consistent p s3"
    proof (cases "command_change (input_command x) = None \<or> command_readiness (input_command x) \<noteq> None")
      case True
      then show ?thesis using s2 by (simp add: s3_def write_change_idle)
    next
      case False
      then have "s2 = s1" using write_baseline_parts [OF Inr] by simp
      moreover have "stored_state s1 = stored_state s" by (intro ext) (simp add: stored_state_def s1_def)
      ultimately show ?thesis unfolding s3_def
        using s1 known commit_checks_change [OF checks]
        by (intro write_change_consistent) (auto simp: state_def s1_def)
    qed
    then show ?thesis using checks Inr
      by (auto simp: commit_finish_def Let_def s1_def state_def s3_def intro: keep_response_consistent
          split: option.splits sum.splits)
  qed
qed (use assms in \<open>simp add: commit_finish_def\<close>)

lemma commit_design_consistent: "consistent p s \<Longrightarrow> consistent p (snd (commit_design q x s))"
  using commit_finish_consistent commit_begin_Inr
  by (auto simp: commit_design_def split: sum.splits)

text \<open>Validation does not look at the clock.\<close>

lemma number_value_clock [simp]: "number_value (p\<lparr>clock := n\<rparr>) = number_value p"
proof
  fix x show "number_value (p\<lparr>clock := n\<rparr>) x = number_value p x" by (cases x) simp_all
qed

lemma validate_review_thread_clock [simp]: "validate_review_thread (p\<lparr>clock := n\<rparr>) = validate_review_thread p"
  by (intro ext) (simp add: validate_review_thread_def validate_deep_link_def)

lemma consistent_clock [simp]: "consistent (p\<lparr>clock := n\<rparr>) = consistent p"
  by (intro ext) (simp add: consistent_def review_known_def [abs_def])

text \<open>An update that keeps the name of a review thread and anchors it to a stored revision.\<close>

lemma create_review_consistent: "consistent p s \<Longrightarrow> create_review p t s = Inr s' \<Longrightarrow> consistent p s'"
  by (auto simp: create_review_def outcome_simps review_known_def split: option.splits intro!: put_review_consistent)

lemma update_review_consistent:
  assumes "consistent p s" "update_review p i f s = Inr (w, s')"
    and "\<And>t t'. review_known p s t \<Longrightarrow> f t = Inr t' \<Longrightarrow>
           review_id t' = review_id t \<and> revision_in s (anchored_revision (review_anchor t')) (review_project t') \<noteq> None"
  shows "consistent p s'"
proof -
  obtain t t' where t: "map_of (reviews s) i = Some t" "f t = Inr t'" "validate_review_thread p t' = Inr ()"
    "s' = put_review i t' s"
    using assms(2) by (auto simp: update_review_def outcome_simps split: option.splits)
  then have "review_id t' = i" "review_known p s t'"
    using assms(3) [of t t'] consistentD(3) [OF assms(1) t(1)] by (auto simp: review_known_def)
  then show ?thesis unfolding t(4) using assms(1) by (intro put_review_consistent)
qed

lemma next_version_simps [simp]:
  "review_id (next_version t) = review_id t" "review_project (next_version t) = review_project t"
  "review_anchor (next_version t) = review_anchor t" "review_version (next_version t) = review_version t + 1"
  "review_lifecycle (next_version t) = review_lifecycle t" "review_messages (next_version t) = review_messages t"
  by (simp_all add: next_version_def)

lemma resolved_simps [simp]:
  "review_id (resolved by time t) = review_id t" "review_project (resolved by time t) = review_project t"
  "review_anchor (resolved by time t) = review_anchor t" "review_version (resolved by time t) = review_version t + 1"
  "review_lifecycle (resolved by time t) = ReviewResolved" "review_messages (resolved by time t) = review_messages t"
  by (simp_all add: resolved_def)

lemma reopened_simps [simp]:
  "review_id (reopened by time t) = review_id t" "review_project (reopened by time t) = review_project t"
  "review_anchor (reopened by time t) = review_anchor t" "review_version (reopened by time t) = review_version t + 1"
  "review_lifecycle (reopened by time t) = ReviewOpen" "review_messages (reopened by time t) = review_messages t"
  by (simp_all add: reopened_def)

lemma append_message_consistent: "consistent p s \<Longrightarrow> append_message p i m s = Inr (w, s') \<Longrightarrow> consistent p s'"
  by (auto simp: append_message_def outcome_simps review_known_def elim!: update_review_consistent)

lemma on_message_Inr:
  "on_message i f t = Inr t' \<Longrightarrow> review_id t' = review_id t \<and> review_anchor t' = review_anchor t \<and>
     review_project t' = review_project t \<and> review_version t' = review_version t + 1"
  by (auto simp: on_message_def outcome_simps)

lemma react_to_message_consistent:
  "consistent p s \<Longrightarrow> react_to_message p i m e user s = Inr (w, s') \<Longrightarrow> consistent p s'"
  unfolding react_to_message_def by (erule update_review_consistent) (auto dest!: on_message_Inr simp: review_known_def)

lemma set_message_read_consistent:
  "consistent p s \<Longrightarrow> set_message_read p i m user read s = Inr (w, s') \<Longrightarrow> consistent p s'"
  unfolding set_message_read_def by (erule update_review_consistent) (auto dest!: on_message_Inr simp: review_known_def)

lemma resolve_review_consistent: "consistent p s \<Longrightarrow> resolve_review p i by time s = Inr (w, s') \<Longrightarrow> consistent p s'"
  unfolding resolve_review_def by (erule update_review_consistent) (auto simp: review_known_def outcome_simps)

lemma reopen_review_consistent: "consistent p s \<Longrightarrow> reopen_review p i by time s = Inr (w, s') \<Longrightarrow> consistent p s'"
  unfolding reopen_review_def
  by (erule update_review_consistent) (auto simp: review_known_def outcome_simps split: option.splits)

lemma move_review_consistent: "consistent p s \<Longrightarrow> move_review p i a by time s = Inr (w, s') \<Longrightarrow> consistent p s'"
  by (auto simp: move_review_def outcome_simps elim!: update_review_consistent split: option.splits)

text \<open>A compare-and-swap mutation changes nothing or writes the next version of one thread.\<close>

definition mutation_outcome ::
    "platform \<Rightarrow> store \<Rightarrow> mutation \<Rightarrow> review_thread \<Rightarrow> bool" where
  "mutation_outcome p s m t' \<longleftrightarrow>
     validate_review_thread p t' = Inr () \<and>
     (case mutation_request m of
        CreateReview x \<Rightarrow> map_of (reviews s) (review_id x) = None \<and> expected_version m = 0 \<and> t' = x\<lparr>review_version := 1\<rparr> \<and>
          revision_in s (anchored_revision (review_anchor x)) (review_project x) \<noteq> None
      | r \<Rightarrow> (\<exists>t. map_of (reviews s) (mutation_thread r) = Some t \<and> review_version t = expected_version m \<and>
          mutated r t = Some t'))"

lemma replay_answer_not_applied: "replay_answer r f t \<noteq> Inr (ReviewApplied t' f')"
  by (auto simp: replay_answer_def conflict_with_def outcome_simps)

lemma conflict_with_Inr: "conflict_with t = Inr a \<Longrightarrow> a = ReviewConflict (review_version t) (Some t)"
  by (simp add: conflict_with_def outcome_simps)

lemma create_by_mutation_cases:
  assumes "create_by_mutation p scope m f x s = Inr (a, s')" "mutation_request m = CreateReview x"
  shows "(s' = s \<and> (\<exists>n t. a = ReviewConflict n t)) \<or>
     (\<exists>t'. mutation_outcome p s m t' \<and> (a, s') = write_review scope (operation_id m) (mutation_request m) f t' s)"
  using assms
  by (fastforce simp: create_by_mutation_def mutation_outcome_def Let_def outcome_simps
      dest!: conflict_with_Inr split: option.splits if_splits)

lemma mutate_current_cases:
  assumes "mutate_current p scope m f s = Inr (a, s')"
  shows "(s' = s \<and> (\<exists>n t. a = ReviewConflict n t)) \<or>
     (\<exists>t'. mutation_outcome p s m t' \<and> (a, s') = write_review scope (operation_id m) (mutation_request m) f t' s)"
proof (cases "creates_review (mutation_request m)")
  case True
  then obtain y where y: "mutation_request m = CreateReview y" by (cases "mutation_request m") auto
  then show ?thesis using create_by_mutation_cases assms by (simp add: mutate_current_def)
next
  case False
  then show ?thesis using assms
    by (cases "mutation_request m")
      (auto simp: mutate_current_def outcome_simps mutation_outcome_def dest!: conflict_with_Inr
        split: if_splits option.splits)
qed

lemma mutate_review_cases:
  assumes "mutate_review p m s = Inr (a, s')"
  shows "(s' = s \<and> (\<exists>n t. a = ReviewConflict n t)) \<or>
     (s' = s \<and> (\<exists>r f t. replay_answer r f t = Inr a)) \<or>
     (\<exists>t' f scope. mutation_scope m s = Some scope \<and>
        mutation_fingerprint p (mutation_json m) = Inr f \<and> mutation_outcome p s m t' \<and>
        (a, s') = write_review scope (operation_id m) (mutation_request m) f t' s)"
proof -
  consider "s' = s" "a = ReviewConflict 0 None"
    | r f t where "s' = s" "replay_answer r f t = Inr a"
    | scope f where "mutation_scope m s = Some scope" "mutation_fingerprint p (mutation_json m) = Inr f"
        "mutate_current p scope m f s = Inr (a, s')"
    using assms
    by (cases "map_of (reviews s) (mutation_thread (mutation_request m))")
      (auto simp: mutate_review_def Let_def outcome_simps split: option.split_asm if_splits)
  then show ?thesis
  proof cases
    case 3
    then show ?thesis using mutate_current_cases [OF 3(3)] by blast
  qed auto
qed

lemma mutated_keeps:
  "mutated r t = Some t' \<Longrightarrow> review_id t' = review_id t \<and> review_project t' = review_project t \<and>
     review_anchor t' = review_anchor t \<and> review_version t' = review_version t + 1"
  by (cases r) (auto split: if_splits)

lemma mutation_outcome_known:
  assumes "consistent p s" "mutation_outcome p s m t'"
  shows "review_id t' = mutation_thread (mutation_request m) \<and> review_known p s t'"
proof (cases "mutation_request m")
  case (CreateReview x)
  then show ?thesis using assms(2) by (auto simp: mutation_outcome_def review_known_def)
next
  case (ReplyReview i x)
  then obtain t where t: "map_of (reviews s) i = Some t" "mutated (mutation_request m) t = Some t'"
    using assms(2) by (auto simp: mutation_outcome_def)
  show ?thesis using consistentD(3) [OF assms(1) t(1)] mutated_keeps [OF t(2)] assms(2) ReplyReview
    by (auto simp: mutation_outcome_def review_known_def)
next
  case (ResolveReview i x y)
  then obtain t where t: "map_of (reviews s) i = Some t" "mutated (mutation_request m) t = Some t'"
    using assms(2) by (auto simp: mutation_outcome_def)
  show ?thesis using consistentD(3) [OF assms(1) t(1)] mutated_keeps [OF t(2)] assms(2) ResolveReview
    by (auto simp: mutation_outcome_def review_known_def)
next
  case (ReopenReview i x y)
  then obtain t where t: "map_of (reviews s) i = Some t" "mutated (mutation_request m) t = Some t'"
    using assms(2) by (auto simp: mutation_outcome_def)
  show ?thesis using consistentD(3) [OF assms(1) t(1)] mutated_keeps [OF t(2)] assms(2) ReopenReview
    by (auto simp: mutation_outcome_def review_known_def)
qed

lemma mutate_review_consistent:
  assumes "consistent p s" "mutate_review p m s = Inr (a, s')"
  shows "consistent p s'"
  using mutate_review_cases [OF assms(2)]
proof (elim disjE exE conjE)
  fix t' f scope
  assume "mutation_outcome p s m t'" "(a, s') = write_review scope (operation_id m) (mutation_request m) f t' s"
  then show ?thesis using mutation_outcome_known [OF assms(1), of m t'] put_review_consistent [OF assms(1)]
    by (auto simp: write_review_def)
qed (use assms in auto)

lemma find_named: "revision_named rs i = Some r \<Longrightarrow> r \<in> set rs \<and> rev_id r = i"
  unfolding revision_named_def by (drule find_Some_in) auto

lemma validated_results:
  assumes "validate_result_references a rs = Inr u"
  shows "i \<in> request_revisions a \<Longrightarrow>
     i = reference_id (ai_base a) \<or> (\<exists>r \<in> set rs. rev_id r = i \<and> rev_project r = ai_project a)"
  using assms
  by (auto simp: validate_result_references_def validate_result_reference_def optionally_require_def request_revisions_def
      outcome_simps split: option.splits dest!: find_named)

lemma validated_request_known:
  assumes "consistent p s" "revision_in s (reference_id (ai_base a)) (ai_project a) = Some r"
    and "validate_result_references a (map snd (revisions s)) = Inr u"
  shows "request_known s a"
proof -
  have "keyed rev_id (revisions s)" using assms(1) by (simp add: consistent_def table_of_def)
  then have "revision_in s (rev_id r) (rev_project r) = Some r" if "r \<in> snd ` set (revisions s)" for r
    using that by (simp add: keyed_member revision_in_Some)
  then show ?thesis using validated_results [OF assms(3)] assms(2) unfolding request_known_def by fastforce
qed

lemma create_request_consistent: "consistent p s \<Longrightarrow> create_request q a s = Inr s' \<Longrightarrow> consistent p s'"
  by (auto simp: create_request_def outcome_simps split: option.splits intro!: put_request_consistent validated_request_known)

lemma update_request_Inr:
  assumes "update_request q a s = Inr (b, s')"
  shows "\<exists>prev. b = a \<and> map_of (requests s) (ai_id a) = Some prev \<and> validate_ai_transition prev a = Inr () \<and>
     s' = s\<lparr>requests := AList.update (ai_id a) a (requests s)\<rparr>"
  using assms by (auto simp: update_request_def outcome_simps split: option.splits)

lemma update_request_consistent: "consistent p s \<Longrightarrow> update_request q a s = Inr (b, s') \<Longrightarrow> consistent p s'"
  by (auto simp: update_request_def outcome_simps split: option.splits intro!: put_request_consistent validated_request_known)

lemma create_annotation_consistent: "consistent p s \<Longrightarrow> create_annotation q a s = Inr s' \<Longrightarrow> consistent p s'"
  by (auto simp: create_annotation_def outcome_simps annotation_known_def split: option.splits
      intro!: put_annotation_consistent)

lemma create_thread_consistent: "consistent p s \<Longrightarrow> create_thread t s = Inr s' \<Longrightarrow> consistent p s'"
  by (auto simp: create_thread_def outcome_simps thread_known_def split: option.splits intro!: put_thread_consistent)

lemma resolve_thread_Inr:
  assumes "resolve_thread q i by time s = Inr (t, s')" "map_of (threads s) i = Some u"
  shows "t = u\<lparr>thread_resolved_by := Some by, thread_resolved_at := Some (or_now q time)\<rparr> \<and>
     s' = s\<lparr>threads := AList.update i t (threads s)\<rparr>"
  using assms by (simp add: resolve_thread_def Let_def outcome_simps) (elim conjE, hypsubst, simp)

lemma resolve_thread_consistent:
  assumes "consistent p s" "resolve_thread q i by time s = Inr (t, s')"
  shows "consistent p s'"
proof (cases "map_of (threads s) i")
  case None
  then show ?thesis using assms(2) by (simp add: resolve_thread_def)
next
  case (Some u)
  note new = resolve_thread_Inr [OF assms(2) Some]
  have "thread_id t = i" "thread_known s t"
    using consistentD(2) [OF assms(1) Some] new by (simp_all add: thread_known_def)
  then show ?thesis using new put_thread_consistent [OF assms(1), of t i] by simp
qed

lemma create_comment_consistent:
  assumes "consistent p s" "create_comment c s = Inr s'"
  shows "consistent p s'"
proof -
  have "has (threads s) (comment_thread c)" "\<not> has (comments s) (comment_id c)"
    "s' = s\<lparr>comments := AList.update (comment_id c) c (comments s)\<rparr>"
    using assms(2) by (auto simp: create_comment_def Let_def outcome_simps)
  moreover have "q = [] \<or> comment_in s q = Some (comment_thread c)" if "comment_parent c = Some q" for q
    using assms(2) that by (cases q) (auto simp: create_comment_def Let_def outcome_simps comment_in_def)
  ultimately show ?thesis
    using put_comment_consistent [OF assms(1), of c] by (auto simp: comment_known_def split: option.split)
qed

lemma add_reaction_consistent: "consistent p s \<Longrightarrow> add_reaction r s = Inr s' \<Longrightarrow> consistent p s'"
  by (auto simp: add_reaction_def outcome_simps reaction_known_def intro!: put_reaction_consistent)

lemma put_approval_op_consistent: "consistent p s \<Longrightarrow> put_approval a s = Inr s' \<Longrightarrow> consistent p s'"
  by (auto simp: put_approval_def outcome_simps approval_known_def intro!: put_approval_consistent)

lemma append_audit_consistent: "consistent p s \<Longrightarrow> append_audit e s = Inr s' \<Longrightarrow> consistent p s'"
  by (auto simp: append_audit_def outcome_simps)

lemma append_event_consistent: "consistent p s \<Longrightarrow> consistent p (snd (append_event e s))"
  by (auto simp: append_event_def Let_def)

lemma create_link_consistent: "consistent p s \<Longrightarrow> create_link l s = Inr s' \<Longrightarrow> consistent p s'"
  by (auto simp: create_link_def outcome_simps intro!: put_link_consistent)

lemma revoke_link_consistent: "consistent p s \<Longrightarrow> revoke_link i time s = Inr s' \<Longrightarrow> consistent p s'"
  by (auto simp: revoke_link_def Let_def outcome_simps split: option.splits intro!: put_link_consistent
      dest: consistentD(5))

lemma put_response_consistent: "consistent p s \<Longrightarrow> put_response scope k r s = Inr (v, s') \<Longrightarrow> consistent p s'"
  by (auto simp: put_response_def outcome_simps split: option.splits)

end
