(* ===== verification/Collab_Swap.thy ===== *)
theory Collab_Swap
  imports Collab_Safety
begin

text \<open>
  Replacement and deletion of a whole project: what the validation of a snapshot establishes, what the
  other projects of the store notice, and that the invariant is kept.
\<close>

section \<open>What a valid snapshot contains\<close>

lemma mapResult_all: "mapResult f xs = Inr ys \<Longrightarrow> x \<in> set xs \<Longrightarrow> \<exists>y. f x = Inr y"
  by (induction xs arbitrary: ys) (auto simp: outcome_simps)

lemma mapResult_each: "\<exists>ys. mapResult f xs = Inr ys \<Longrightarrow> x \<in> set xs \<Longrightarrow> \<exists>y. f x = Inr y"
  by (blast dest: mapResult_all)

lemma validate_revisions_Inr:
  "validate_revisions i seen rs = Inr () \<Longrightarrow>
     distinct (map rev_id rs) \<and> set (map rev_id rs) \<inter> set seen = {} \<and> (\<forall>r \<in> set rs. rev_project r = i)"
  by (induction rs arbitrary: seen) (fastforce simp: outcome_simps validate_revision_def)+

lemma revision_named_in: "revision_named rs i = Some r \<Longrightarrow> i \<in> rev_id ` set rs"
  unfolding revision_named_def by (drule find_Some_in) auto

lemma validate_threads_Inr:
  "validate_threads i rs seen ts = Inr () \<Longrightarrow>
     distinct (map thread_id ts) \<and> set (map thread_id ts) \<inter> set seen = {} \<and>
     (\<forall>t \<in> set ts. thread_project t = i \<and> thread_revision t \<in> rev_id ` set rs)"
proof (induction ts arbitrary: seen)
  case (Cons t ts)
  then have t: "validate_thread i rs seen t = Inr ()" "validate_threads i rs (thread_id t # seen) ts = Inr ()"
    by (auto simp: outcome_simps)
  then have "thread_id t \<notin> set seen" "thread_project t = i" "thread_revision t \<in> rev_id ` set rs"
    by (auto simp: validate_thread_def outcome_simps dest!: revision_named_in split: option.splits)
  then show ?case using Cons.IH [of "thread_id t # seen"] t(2) by auto
qed simp

lemma validate_comments_Inr:
  "validate_comments ts seen cs = Inr () \<Longrightarrow>
     distinct (map comment_id cs) \<and> set (map comment_id cs) \<inter> set (map comment_id seen) = {} \<and>
     (\<forall>c \<in> set cs. comment_thread c \<in> set ts \<and>
        (\<forall>q. comment_parent c = Some q \<longrightarrow>
           (\<exists>d \<in> set (seen @ cs). comment_id d = q \<and> comment_thread d = comment_thread c)))"
proof (induction cs arbitrary: seen)
  case (Cons c cs)
  then have later: "validate_comments ts (c # seen) cs = Inr ()"
    and here: "comment_id c \<notin> comment_id ` set seen" "comment_thread c \<in> set ts"
    by (auto simp: outcome_simps)
  have "\<exists>d \<in> set seen. comment_id d = q \<and> comment_thread d = comment_thread c" if "comment_parent c = Some q" for q
    using Cons.prems that by (auto simp: outcome_simps dest!: find_Some_in split: option.splits)
  moreover have "\<exists>d \<in> set (seen @ c # cs). comment_id d = q \<and> comment_thread d = comment_thread e"
    if "e \<in> set cs" "comment_parent e = Some q" for e q
    using Cons.IH [OF later] that by auto
  ultimately show ?case using Cons.IH [OF later] here by auto
qed simp

text \<open>The facts about a validated snapshot that the store relies on.\<close>

definition snapshot_sound :: "platform \<Rightarrow> snapshot \<Rightarrow> bool" where
  "snapshot_sound p x \<longleftrightarrow>
     (let i = project_id (snap_project x); rs = rev_id ` set (snap_revisions x) in
      distinct (map rev_id (snap_revisions x)) \<and> (\<forall>r \<in> set (snap_revisions x). rev_project r = i) \<and>
      distinct (map thread_id (snap_threads x)) \<and>
      (\<forall>t \<in> set (snap_threads x). thread_project t = i \<and> thread_revision t \<in> rs) \<and>
      distinct (map comment_id (snap_comments x)) \<and>
      (\<forall>c \<in> set (snap_comments x). comment_thread c \<in> thread_id ` set (snap_threads x) \<and>
         (\<forall>q. comment_parent c = Some q \<longrightarrow>
            (\<exists>d \<in> set (snap_comments x). comment_id d = q \<and> comment_thread d = comment_thread c))) \<and>
      (\<forall>r \<in> set (snap_reactions x). reaction_comment r \<in> comment_id ` set (snap_comments x)) \<and>
      (\<forall>a \<in> set (snap_approvals x). approval_revision a \<in> rs) \<and>
      distinct (map review_id (snap_reviews x)) \<and>
      (\<forall>t \<in> set (snap_reviews x). review_project t = i \<and> anchored_revision (review_anchor t) \<in> rs \<and>
         validate_review_thread p t = Inr ()) \<and>
      distinct (map ai_id (snap_requests x)) \<and>
      (\<forall>a \<in> set (snap_requests x). ai_project a = i \<and> request_revisions a \<subseteq> rs) \<and>
      distinct (map annotation_id (snap_annotations x)) \<and>
      (\<forall>a \<in> set (snap_annotations x). annotation_project a = i \<and> anchored_revision (annotation_anchor a) \<in> rs) \<and>
      (\<forall>v. snap_review_state x = Some v \<longrightarrow> state_project v = i \<and>
         (\<forall>c \<in> set (changes_since v). scope_project (change_affected c) = i)))"

lemma validate_review_state_scope:
  "validate_review_state v = Inr u \<Longrightarrow> c \<in> set (changes_since v) \<Longrightarrow>
     scope_project (change_affected c) = state_project v"
  by (auto simp: validate_review_state_def outcome_simps validate_design_change_def dest!: mapResult_all
      split: option.splits)

lemma validate_snapshot_sound:
  assumes "validate_snapshot p x = Inr ()"
  shows "snapshot_sound p x"
proof -
  let ?i = "project_id (snap_project x)" and ?rs = "snap_revisions x"
  have v: "validate_revisions ?i [] ?rs = Inr ()" "validate_threads ?i ?rs [] (snap_threads x) = Inr ()"
    "validate_comments (map thread_id (snap_threads x)) [] (snap_comments x) = Inr ()"
    "\<exists>ys. mapResult (validate_reaction (map comment_id (snap_comments x))) (snap_reactions x) = Inr ys"
    "\<exists>ys. mapResult (validate_approval (map rev_id ?rs)) (snap_approvals x) = Inr ys"
    "\<exists>ys. mapResult (validate_snapshot_review p ?i ?rs) (snap_reviews x) = Inr ys"
    "\<exists>ys. mapResult (validate_snapshot_request p ?i ?rs) (snap_requests x) = Inr ys"
    "\<exists>ys. mapResult (validate_snapshot_annotation p ?i ?rs) (snap_annotations x) = Inr ys"
    "distinct (map review_id (snap_reviews x))" "distinct (map ai_id (snap_requests x))"
    "distinct (map annotation_id (snap_annotations x))"
    and state: "\<And>y. snap_review_state x = Some y \<Longrightarrow> validate_review_state y = Inr () \<and> state_project y = ?i"
    using assms by (auto simp: validate_snapshot_def Let_def outcome_simps optionally_require_def)
  have "reaction_comment r \<in> comment_id ` set (snap_comments x)" if "r \<in> set (snap_reactions x)" for r
    using mapResult_each [OF v(4) that] by (auto simp: validate_reaction_def outcome_simps)
  moreover have "approval_revision a \<in> rev_id ` set ?rs" if "a \<in> set (snap_approvals x)" for a
    using mapResult_each [OF v(5) that] by (auto simp: validate_approval_def outcome_simps)
  moreover have "review_project t = ?i \<and> anchored_revision (review_anchor t) \<in> rev_id ` set ?rs \<and>
      validate_review_thread p t = Inr ()" if here: "t \<in> set (snap_reviews x)" for t
  proof -
    obtain y where "validate_snapshot_review p ?i ?rs t = Inr y" using mapResult_each [OF v(6) here] by blast
    then show ?thesis by (auto simp: validate_snapshot_review_def outcome_simps anchored_revision_def
        dest!: revision_named_in split: option.splits)
  qed
  moreover have "ai_project a = ?i \<and> request_revisions a \<subseteq> rev_id ` set ?rs" if here: "a \<in> set (snap_requests x)" for a
  proof -
    obtain y where "validate_snapshot_request p ?i ?rs a = Inr y" using mapResult_each [OF v(7) here] by blast
    then show ?thesis by (auto simp: validate_snapshot_request_def outcome_simps
        dest!: revision_named_in validated_results split: option.splits)
  qed
  moreover have "annotation_project a = ?i \<and> anchored_revision (annotation_anchor a) \<in> rev_id ` set ?rs"
    if here: "a \<in> set (snap_annotations x)" for a
  proof -
    obtain y where "validate_snapshot_annotation p ?i ?rs a = Inr y" using mapResult_each [OF v(8) here] by blast
    then show ?thesis by (auto simp: validate_snapshot_annotation_def outcome_simps anchored_revision_def
        dest!: revision_named_in split: option.splits)
  qed
  moreover have "state_project y = ?i \<and> (\<forall>c \<in> set (changes_since y). scope_project (change_affected c) = ?i)"
    if "snap_review_state x = Some y" for y
    using state [OF that] validate_review_state_scope by auto
  ultimately show ?thesis
    using validate_revisions_Inr [OF v(1)] validate_threads_Inr [OF v(2)] validate_comments_Inr [OF v(3)] v(9-11)
    unfolding snapshot_sound_def Let_def by auto
qed

section \<open>Semantic changes\<close>

lemma add_changes_keeps: "add_changes cs t = Inr t' \<Longrightarrow> map_of t k = Some c \<Longrightarrow> map_of t' k = Some c"
proof (induction cs arbitrary: t)
  case (Cons d cs)
  then have "add_changes cs (AList.update (change_id d) d t) = Inr t'" "change_id d \<noteq> k"
    by (auto simp: outcome_simps has_def)
  then show ?case using Cons by (auto simp: AList.update_conv')
qed simp

lemma add_changes_adds: "add_changes cs t = Inr t' \<Longrightarrow> c \<in> set cs \<Longrightarrow> map_of t' (change_id c) = Some c"
proof (induction cs arbitrary: t)
  case (Cons d cs)
  then have "add_changes cs (AList.update (change_id d) d t) = Inr t'" by (simp add: outcome_simps)
  then show ?case using Cons.IH Cons.prems(2) add_changes_keeps by (fastforce simp: AList.update_conv')
qed simp

lemma add_changes_keyed: "keyed change_id t \<Longrightarrow> add_changes cs t = Inr t' \<Longrightarrow> keyed change_id t'"
  by (induction cs arbitrary: t) (auto simp: outcome_simps)

lemma changes_of_state_scope:
  assumes "consistent p s" "c \<in> set (changes_of_state s i)"
  shows "map_of (changes s) (change_id c) = Some c \<and> scope_project (change_affected c) = i"
proof (cases "map_of (states s) i")
  case (Some v)
  then show ?thesis using assms(2) consistentD(4) [OF assms(1) Some]
    by (auto simp: changes_of_state_def state_known_def list_all_iff)
qed (use assms(2) in \<open>simp add: changes_of_state_def\<close>)

text \<open>The identifiers that a leaving project frees are not those of another project.\<close>

lemma foreign_change_kept:
  assumes "consistent p s" "c \<in> set (changes_of_state s j)" "j \<noteq> i"
  shows "map_of (delete_all (map change_id (changes_of_state s i)) (changes s)) (change_id c) = Some c"
proof -
  note mine = changes_of_state_scope [OF assms(1,2)]
  have "change_id c \<notin> set (map change_id (changes_of_state s i))"
  proof
    assume "change_id c \<in> set (map change_id (changes_of_state s i))"
    then obtain d where d: "d \<in> set (changes_of_state s i)" "change_id d = change_id c" by (auto simp: image_iff)
    then have "map_of (changes s) (change_id c) = Some d" "scope_project (change_affected d) = i"
      using changes_of_state_scope [OF assms(1) d(1)] by simp_all
    then show False using mine assms(3) by simp
  qed
  then show ?thesis using mine by (simp add: lookup_delete_all)
qed

section \<open>Replacement\<close>

lemma copy_snapshot_simps [simp]:
  "snap_project (copy_snapshot x) = snap_project x" "snap_review_state (copy_snapshot x) = snap_review_state x"
  "snap_threads (copy_snapshot x) = snap_threads x" "snap_comments (copy_snapshot x) = snap_comments x"
  by (simp_all add: copy_snapshot_def)

lemma unit_answer: "(\<exists>x. m = Inr x) \<longleftrightarrow> m = Inr ()"
  by auto

lemma replace_project_Inr:
  assumes "replace_project p snap e s = Inr s'"
  shows "\<exists>kept. snapshot_sound p (copy_snapshot snap) \<and> \<not> snapshot_collides (copy_snapshot snap) s \<and>
     add_changes (case snap_review_state snap of None \<Rightarrow> [] | Some v \<Rightarrow> changes_since v)
       (delete_all (map change_id (changes_of_state s (project_id (snap_project snap)))) (changes s)) = Inr kept \<and>
     \<not> store_overflows s' \<and> s' = replaced (copy_snapshot snap) kept s"
proof -
  have "validate_snapshot p (copy_snapshot snap) = Inr () \<and> \<not> snapshot_collides (copy_snapshot snap) s \<and>
    (\<exists>kept. add_changes (case snap_review_state snap of None \<Rightarrow> [] | Some v \<Rightarrow> changes_since v)
       (delete_all (map change_id (changes_of_state s (project_id (snap_project snap)))) (changes s)) = Inr kept \<and>
       \<not> store_overflows (replaced (copy_snapshot snap) kept s) \<and> replaced (copy_snapshot snap) kept s = s')"
    using assms unfolding replace_project_def Let_def
    by (simp only: outcome_simps copy_snapshot_simps sum.inject simp_thms ex_simps unit_answer)
  then show ?thesis using validate_snapshot_sound by blast
qed

lemma collides_clears:
  assumes "\<not> collides name t owner i xs" "\<And>k v. map_of t k = Some v \<Longrightarrow> owner k = Some i \<Longrightarrow> b v"
  shows "clears name b xs t"
  using assms by (auto simp: collides_def clears_def has_def list_all_iff list_ex_iff split: option.splits)

text \<open>What of a table belongs to a project.\<close>

abbreviation comment_of :: "store \<Rightarrow> string \<Rightarrow> comment \<Rightarrow> bool" where
  "comment_of s i c \<equiv> thread_owner s (comment_thread c) = Some i"

abbreviation reaction_of :: "store \<Rightarrow> string \<Rightarrow> reaction \<Rightarrow> bool" where
  "reaction_of s i r \<equiv> comment_owner s (reaction_comment r) = Some i"

abbreviation approval_of :: "store \<Rightarrow> string \<Rightarrow> approval \<Rightarrow> bool" where
  "approval_of s i a \<equiv> revision_owner s (approval_revision a) = Some i"

lemma no_collision_clears:
  assumes "\<not> snapshot_collides x s" "i = project_id (snap_project x)"
  shows "clears rev_id (\<lambda>r. rev_project r = i) (snap_revisions x) (revisions s)"
    "clears thread_id (\<lambda>t. thread_project t = i) (snap_threads x) (threads s)"
    "clears comment_id (comment_of s i) (snap_comments x) (comments s)"
    "clears review_id (\<lambda>t. review_project t = i) (snap_reviews x) (reviews s)"
    "clears ai_id (\<lambda>a. ai_project a = i) (snap_requests x) (requests s)"
    "clears annotation_id (\<lambda>a. annotation_project a = i) (snap_annotations x) (annotations s)"
    "clears reaction_key (reaction_of s i) (snap_reactions x) (reactions s)"
    "clears approval_key (approval_of s i) (snap_approvals x) (approvals s)"
  using assms unfolding snapshot_collides_def Let_def
  by (auto intro!: collides_clears simp: revision_owner_def thread_owner_def comment_owner_def)

lemma replaced_parts:
  assumes "i = project_id (snap_project x)"
  shows "projects (replaced x kept s) = AList.update i (snap_project x) (projects s)"
    "revisions (replaced x kept s) = put_all rev_id (snap_revisions x) (without (\<lambda>r. rev_project r = i) (revisions s))"
    "threads (replaced x kept s) = put_all thread_id (snap_threads x) (without (\<lambda>t. thread_project t = i) (threads s))"
    "comments (replaced x kept s) = put_all comment_id (snap_comments x) (without (comment_of s i) (comments s))"
    "reactions (replaced x kept s) = put_all reaction_key (snap_reactions x) (without (reaction_of s i) (reactions s))"
    "approvals (replaced x kept s) = put_all approval_key (snap_approvals x) (without (approval_of s i) (approvals s))"
    "reviews (replaced x kept s) = put_all review_id (snap_reviews x) (without (\<lambda>t. review_project t = i) (reviews s))"
    "requests (replaced x kept s) = put_all ai_id (snap_requests x) (without (\<lambda>a. ai_project a = i) (requests s))"
    "annotations (replaced x kept s) =
       put_all annotation_id (snap_annotations x) (without (\<lambda>a. annotation_project a = i) (annotations s))"
    "states (replaced x kept s) =
       (case snap_review_state x of None \<Rightarrow> AList.delete i (states s)
        | Some v \<Rightarrow> AList.update i v (AList.delete i (states s)))"
    "changes (replaced x kept s) = kept" "links (replaced x kept s) = links s"
  using assms by (simp_all add: replaced_def Let_def cong: option.case_cong)

lemma consistent_tables:
  assumes "consistent p s"
  shows "keyed project_id (projects s)" "keyed rev_id (revisions s)" "keyed thread_id (threads s)" "keyed review_id (reviews s)"
    "keyed ai_id (requests s)" "keyed annotation_id (annotations s)" "keyed comment_id (comments s)"
    "keyed reaction_key (reactions s)" "keyed approval_key (approvals s)" "keyed link_id (links s)"
    "keyed state_project (states s)" "keyed change_id (changes s)"
  using assms unfolding consistent_def table_of_def by blast+

lemma consistent_values:
  assumes "consistent p s"
  shows "map_of (revisions s) k = Some r \<Longrightarrow> project_known s r" "map_of (threads s) k = Some t \<Longrightarrow> thread_known s t"
    "map_of (reviews s) k = Some w \<Longrightarrow> review_known p s w" "map_of (requests s) k = Some a \<Longrightarrow> request_known s a"
    "map_of (annotations s) k = Some n \<Longrightarrow> annotation_known s n" "map_of (comments s) k = Some c \<Longrightarrow> comment_known s c"
    "map_of (reactions s) k = Some e \<Longrightarrow> reaction_known s e" "map_of (approvals s) k = Some v \<Longrightarrow> approval_known s v"
    "map_of (states s) k = Some y \<Longrightarrow> state_known s y"
  using assms unfolding consistent_def by (blast dest: table_of_good)+

text \<open>References across the replacement: those of other projects stay, and those of the snapshot hold.\<close>

lemma replaced_lookups:
  assumes "consistent p s" "snapshot_sound p x" "\<not> snapshot_collides x s" "i = project_id (snap_project x)"
  shows "revision_in s k j \<noteq> None \<Longrightarrow> j \<noteq> i \<Longrightarrow> revision_in (replaced x kept s) k j \<noteq> None"
    and "k \<in> rev_id ` set (snap_revisions x) \<Longrightarrow> revision_in (replaced x kept s) k i \<noteq> None"
    and "map_of (threads s) k = Some t \<Longrightarrow> thread_project t \<noteq> i \<Longrightarrow> map_of (threads (replaced x kept s)) k = Some t"
    and "k \<in> thread_id ` set (snap_threads x) \<Longrightarrow> has (threads (replaced x kept s)) k"
    and "map_of (comments s) k = Some c \<Longrightarrow> \<not> comment_of s i c \<Longrightarrow> map_of (comments (replaced x kept s)) k = Some c"
    and "c \<in> set (snap_comments x) \<Longrightarrow> map_of (comments (replaced x kept s)) (comment_id c) = Some c"
    and "has (projects s) k \<Longrightarrow> has (projects (replaced x kept s)) k"
proof -
  note clear = no_collision_clears [OF assms(3,4)] and tables = consistent_tables [OF assms(1)]
  note parts = replaced_parts [OF assms(4)] and sound = assms(2) [unfolded snapshot_sound_def Let_def]
  show "revision_in (replaced x kept s) k j \<noteq> None" if "revision_in s k j \<noteq> None" "j \<noteq> i"
    using that swapped_other [OF tables(2) clear(1)] by (auto simp: revision_in_Some parts)
  show "revision_in (replaced x kept s) k i \<noteq> None" if "k \<in> rev_id ` set (snap_revisions x)"
    using that sound assms(4) swapped_new [of rev_id "snap_revisions x"] by (auto simp: revision_in_Some parts)
  show "map_of (threads (replaced x kept s)) k = Some t" if "map_of (threads s) k = Some t" "thread_project t \<noteq> i"
    using that swapped_other [OF tables(3) clear(2)] by (simp add: parts)
  show "has (threads (replaced x kept s)) k" if "k \<in> thread_id ` set (snap_threads x)"
    using that sound swapped_new [of thread_id "snap_threads x"] by (auto simp: has_def parts)
  show "map_of (comments (replaced x kept s)) k = Some c" if "map_of (comments s) k = Some c" "\<not> comment_of s i c"
    using that swapped_other [OF tables(7) clear(3)] by (simp add: parts)
  show "map_of (comments (replaced x kept s)) (comment_id c) = Some c" if "c \<in> set (snap_comments x)"
    using that sound swapped_new [of comment_id "snap_comments x"] by (simp add: parts)
  show "has (projects (replaced x kept s)) k" if "has (projects s) k"
    using that by (simp add: parts)
qed

lemma replaced_discussions:
  assumes "consistent p s" "snapshot_sound p x" "\<not> snapshot_collides x s" "i = project_id (snap_project x)"
  shows "table_of comment_id (comment_known (replaced x kept s)) (comments (replaced x kept s))"
    "table_of reaction_key (reaction_known (replaced x kept s)) (reactions (replaced x kept s))"
    "table_of approval_key (approval_known (replaced x kept s)) (approvals (replaced x kept s))"
proof -
  define s' where "s' = replaced x kept s"
  note look = replaced_lookups [OF assms, where kept = kept, folded s'_def]
  note tables = consistent_tables [OF assms(1)] and stored = consistent_values [OF assms(1)]
  note parts = replaced_parts [OF assms(4), where kept = kept and s = s, folded s'_def]
  note sound = assms(2) [unfolded snapshot_sound_def Let_def, folded assms(4)]
  show "table_of comment_id (comment_known s') (comments s')"
  proof (rule table_of_goodI)
    fix k v assume "map_of (comments s') k = Some v"
    then show "comment_known s' v" unfolding parts(4)
    proof (rule swapped_cases [OF tables(7)])
      assume v: "v \<in> set (snap_comments x)"
      then have "comment_thread v \<in> thread_id ` set (snap_threads x)" using sound by blast
      then have "has (threads s') (comment_thread v)" by (rule look(4))
      moreover have "comment_in s' q = Some (comment_thread v)" if q: "comment_parent v = Some q" for q
      proof -
        obtain d where "d \<in> set (snap_comments x)" "comment_id d = q" "comment_thread d = comment_thread v"
          using sound v q by blast
        then show ?thesis using look(6) [of d] by (simp add: comment_in_def)
      qed
      ultimately show ?thesis by (simp add: comment_known_def split: option.split)
    next
      assume old: "map_of (comments s) k = Some v" "\<not> comment_of s i v"
      then obtain t where t: "map_of (threads s) (comment_thread v) = Some t" "thread_project t \<noteq> i"
        using stored(6) [OF old(1)] old(2) by (auto simp: comment_known_def has_def thread_owner_def)
      have "comment_in s' q = Some (comment_thread v)" if "comment_parent v = Some q" "q \<noteq> []" for q
      proof -
        have "comment_in s q = Some (comment_thread v)"
          using stored(6) [OF old(1)] that by (auto simp: comment_known_def)
        then show ?thesis using look(5) t by (auto simp: comment_in_def thread_owner_def)
      qed
      then show ?thesis using look(3) [OF t] by (auto simp: comment_known_def has_def split: option.split)
    qed
  qed (use tables in \<open>auto simp: parts\<close>)
  show "table_of reaction_key (reaction_known s') (reactions s')"
  proof (rule table_of_goodI)
    fix k v assume "map_of (reactions s') k = Some v"
    then show "reaction_known s' v" unfolding parts(5)
    proof (rule swapped_cases [OF tables(8)])
      assume "v \<in> set (snap_reactions x)"
      then obtain c where "c \<in> set (snap_comments x)" "comment_id c = reaction_comment v" using sound by fastforce
      then show ?thesis using look(6) [of c] by (simp add: reaction_known_def has_def)
    next
      assume old: "map_of (reactions s) k = Some v" "\<not> reaction_of s i v"
      then obtain c where "map_of (comments s) (reaction_comment v) = Some c" "\<not> comment_of s i c"
        using stored(7) [OF old(1)] old(2) by (auto simp: reaction_known_def has_def comment_owner_def)
      then show ?thesis using look(5) by (simp add: reaction_known_def has_def)
    qed
  qed (use tables in \<open>auto simp: parts\<close>)
  show "table_of approval_key (approval_known s') (approvals s')"
  proof (rule table_of_goodI)
    fix k v assume "map_of (approvals s') k = Some v"
    then show "approval_known s' v" unfolding parts(6)
    proof (rule swapped_cases [OF tables(9)])
      assume "v \<in> set (snap_approvals x)"
      then have "revision_in s' (approval_revision v) i \<noteq> None" using sound look(2) by auto
      then show ?thesis by (auto simp: approval_known_def has_def revision_in_Some)
    next
      assume old: "map_of (approvals s) k = Some v" "\<not> approval_of s i v"
      then obtain r where "map_of (revisions s) (approval_revision v) = Some r" "rev_project r \<noteq> i"
        using stored(8) [OF old(1)] old(2) by (auto simp: approval_known_def has_def revision_owner_def)
      then have "revision_in s' (approval_revision v) (rev_project r) \<noteq> None"
        by (intro look(1)) (auto simp: revision_in_Some)
      then show ?thesis by (auto simp: approval_known_def has_def revision_in_Some)
    qed
  qed (use tables in \<open>auto simp: parts\<close>)
qed

lemma replaced_states:
  assumes "consistent p s" "snapshot_sound p x" "\<not> snapshot_collides x s" "i = project_id (snap_project x)"
    and changes: "add_changes (case snap_review_state x of None \<Rightarrow> [] | Some v \<Rightarrow> changes_since v)
      (delete_all (map change_id (changes_of_state s (project_id (snap_project x)))) (changes s)) = Inr kept"
  shows "table_of state_project (state_known (replaced x kept s)) (states (replaced x kept s)) \<and> keyed change_id kept"
proof -
  define s' where "s' = replaced x kept s"
  note look = replaced_lookups [OF assms(1-4), where kept = kept, folded s'_def]
  note tables = consistent_tables [OF assms(1)] and stored = consistent_values [OF assms(1)]
  note parts = replaced_parts [OF assms(4), where kept = kept and s = s, folded s'_def]
  note sound = assms(2) [unfolded snapshot_sound_def Let_def, folded assms(4)]
  note changes' = changes [folded assms(4)]
  have old: "state_known s' v" if v: "map_of (states s) k = Some v" "k \<noteq> i" for k v
  proof -
    have v': "state_project v = k" "state_known s v" using consistentD(4) [OF assms(1) v(1)] by auto
    have "map_of (changes s') (change_id c) = Some c" if "c \<in> set (changes_since v)" for c
    proof -
      have "c \<in> set (changes_of_state s k)" using that v by (simp add: changes_of_state_def)
      then show ?thesis
        using foreign_change_kept [OF assms(1) _ v(2)] add_changes_keeps [OF changes'] by (simp add: parts)
    qed
    then show ?thesis using v' look(7) by (simp add: state_known_def list_all_iff)
  qed
  have new: "state_known s' v \<and> state_project v = i" if "snap_review_state x = Some v" for v
    using that sound add_changes_adds [OF changes'] by (simp add: state_known_def list_all_iff parts)
  have "table_of state_project (state_known s') (AList.delete i (states s))"
  proof (rule table_of_goodI)
    fix k v assume "map_of (AList.delete i (states s)) k = Some v"
    then show "state_known s' v" using old by (auto simp: AList.delete_conv' split: if_splits)
  qed (use tables in auto)
  then have "table_of state_project (state_known s') (states s')"
    using new by (auto simp: parts(10) intro: table_of_update split: option.split)
  moreover have "keyed change_id kept" using add_changes_keyed [OF _ changes'] tables by blast
  ultimately show ?thesis by (simp add: s'_def)
qed

lemma replaced_consistent:
  assumes "consistent p s" "snapshot_sound p x" "\<not> snapshot_collides x s"
    and changes: "add_changes (case snap_review_state x of None \<Rightarrow> [] | Some v \<Rightarrow> changes_since v)
      (delete_all (map change_id (changes_of_state s (project_id (snap_project x)))) (changes s)) = Inr kept"
  shows "consistent p (replaced x kept s)"
proof -
  define i where "i = project_id (snap_project x)"
  define s' where "s' = replaced x kept s"
  note look = replaced_lookups [OF assms(1-3) i_def, where kept = kept, folded s'_def]
  note tables = consistent_tables [OF assms(1)] and stored = consistent_values [OF assms(1)]
  note parts = replaced_parts [OF i_def, where kept = kept and s = s, folded s'_def]
  note sound = assms(2) [unfolded snapshot_sound_def Let_def, folded i_def]
  have project: "has (projects s') i" by (simp add: parts)
  have "table_of rev_id (project_known s') (revisions s')"
  proof (rule table_of_goodI)
    fix k v assume "map_of (revisions s') k = Some v"
    then show "project_known s' v" unfolding parts(2)
      by (rule swapped_cases [OF tables(2)]) (use sound project stored(1) look(7) in \<open>auto simp: project_known_def\<close>)
  qed (use tables in \<open>auto simp: parts\<close>)
  moreover have "table_of thread_id (thread_known s') (threads s')"
  proof (rule table_of_goodI)
    fix k v assume "map_of (threads s') k = Some v"
    then show "thread_known s' v" unfolding parts(3)
      by (rule swapped_cases [OF tables(3)]) (use sound stored(2) look(1,2) in \<open>auto simp: thread_known_def\<close>)
  qed (use tables in \<open>auto simp: parts\<close>)
  moreover have "table_of review_id (review_known p s') (reviews s')"
  proof (rule table_of_goodI)
    fix k v assume "map_of (reviews s') k = Some v"
    then show "review_known p s' v" unfolding parts(7)
      by (rule swapped_cases [OF tables(4)]) (use sound stored(3) look(1,2) in \<open>auto simp: review_known_def\<close>)
  qed (use tables in \<open>auto simp: parts\<close>)
  moreover have "table_of ai_id (request_known s') (requests s')"
  proof (rule table_of_goodI)
    fix k v assume "map_of (requests s') k = Some v"
    then show "request_known s' v" unfolding parts(8)
      by (rule swapped_cases [OF tables(5)]) (use sound stored(4) look(1,2) in \<open>auto 0 3 simp: request_known_def\<close>)
  qed (use tables in \<open>auto simp: parts\<close>)
  moreover have "table_of annotation_id (annotation_known s') (annotations s')"
  proof (rule table_of_goodI)
    fix k v assume "map_of (annotations s') k = Some v"
    then show "annotation_known s' v" unfolding parts(9)
      by (rule swapped_cases [OF tables(6)]) (use sound stored(5) look(1,2) in \<open>auto simp: annotation_known_def\<close>)
  qed (use tables in \<open>auto simp: parts\<close>)
  ultimately show ?thesis
    using replaced_discussions [OF assms(1-3) i_def, where kept = kept, folded s'_def]
      replaced_states [OF assms(1,2,3) i_def changes, folded s'_def] tables
      keyed_update [OF tables(1), of "snap_project x" i]
    unfolding s'_def [symmetric] consistent_def by (simp add: parts i_def)
qed

lemma replace_project_consistent:
  "consistent p s \<Longrightarrow> replace_project p snap e s = Inr s' \<Longrightarrow> consistent p s'"
  by (drule replace_project_Inr) (auto intro: replaced_consistent)

section \<open>Deletion\<close>

lemma delete_project_Inr: "delete_project i s = Inr s' \<Longrightarrow> s' = s \<or> s' = clear_project i s"
  by (auto simp: delete_project_def outcome_simps split: if_splits)

text \<open>The identifiers that leave are those of the records of the project.\<close>

definition revisions_of :: "string \<Rightarrow> store \<Rightarrow> string set" where
  "revisions_of i s = rev_id ` set (filter (\<lambda>r. rev_project r = i) (map snd (revisions s)))"

definition threads_of :: "string \<Rightarrow> store \<Rightarrow> string set" where
  "threads_of i s = thread_id ` set (filter (\<lambda>t. thread_project t = i) (map snd (threads s)))"

definition comments_of :: "string \<Rightarrow> store \<Rightarrow> string set" where
  "comments_of i s = comment_id ` set (filter (\<lambda>c. comment_thread c \<in> threads_of i s) (map snd (comments s)))"

lemma keyed_ids:
  assumes "keyed name t"
  shows "k \<in> name ` set (filter b (map snd t)) \<longleftrightarrow> (\<exists>v. map_of t k = Some v \<and> b v)"
proof
  assume "k \<in> name ` set (filter b (map snd t))"
  then obtain v where "v \<in> snd ` set t" "b v" "k = name v" by auto
  then show "\<exists>v. map_of t k = Some v \<and> b v" using keyed_member [OF assms] by auto
next
  assume "\<exists>v. map_of t k = Some v \<and> b v"
  then obtain v where v: "map_of t k = Some v" "b v" by blast
  then have "name v = k" using keyed_lookup [OF assms] by blast
  moreover have "v \<in> snd ` set t" using v(1) by (force dest: map_of_SomeD)
  ultimately show "k \<in> name ` set (filter b (map snd t))" using v(2) by auto
qed

lemma clear_project_parts:
  "projects (clear_project i s) = AList.delete i (projects s)" "states (clear_project i s) = AList.delete i (states s)"
  "changes (clear_project i s) = delete_all (map change_id (changes_of_state s i)) (changes s)"
  "map_of (revisions (clear_project i s)) k = (if k \<in> revisions_of i s then None else map_of (revisions s) k)"
  "map_of (threads (clear_project i s)) k = (if k \<in> threads_of i s then None else map_of (threads s) k)"
  "map_of (comments (clear_project i s)) k = (if k \<in> comments_of i s then None else map_of (comments s) k)"
  "reactions (clear_project i s) = without (\<lambda>r. reaction_comment r \<in> comments_of i s) (reactions s)"
  "approvals (clear_project i s) = without (\<lambda>a. approval_revision a \<in> revisions_of i s) (approvals s)"
  "reviews (clear_project i s) = without (\<lambda>t. review_project t = i) (reviews s)"
  "requests (clear_project i s) = without (\<lambda>a. ai_project a = i) (requests s)"
  "annotations (clear_project i s) = without (\<lambda>a. annotation_project a = i) (annotations s)"
  "links (clear_project i s) = links s"
  by (simp_all add: clear_project_def Let_def lookup_delete_all revisions_of_def threads_of_def comments_of_def image_image)

lemma clear_project_keyed:
  assumes "consistent p s"
  shows "keyed rev_id (revisions (clear_project i s))" "keyed thread_id (threads (clear_project i s))"
    "keyed comment_id (comments (clear_project i s))"
  using consistent_tables [OF assms] by (auto simp: clear_project_def Let_def)

lemma cleared_consistent:
  assumes "consistent p s"
  shows "consistent p (clear_project i s)"
proof -
  define s' where "s' = clear_project i s"
  note tables = consistent_tables [OF assms] and stored = consistent_values [OF assms]
  note parts = clear_project_parts [of i s, folded s'_def]
  note keys = clear_project_keyed [OF assms, of i, folded s'_def]
  have rev: "k \<in> revisions_of i s \<longleftrightarrow> (\<exists>r. map_of (revisions s) k = Some r \<and> rev_project r = i)" for k
    unfolding revisions_of_def by (rule keyed_ids [OF tables(2)])
  have thr: "k \<in> threads_of i s \<longleftrightarrow> (\<exists>t. map_of (threads s) k = Some t \<and> thread_project t = i)" for k
    unfolding threads_of_def by (rule keyed_ids [OF tables(3)])
  have com: "k \<in> comments_of i s \<longleftrightarrow> (\<exists>c. map_of (comments s) k = Some c \<and> comment_thread c \<in> threads_of i s)" for k
    unfolding comments_of_def by (rule keyed_ids [OF tables(7)])
  have revision: "revision_in s' k j \<noteq> None" if "revision_in s k j \<noteq> None" "j \<noteq> i" for k j
    using that by (auto simp: revision_in_Some parts rev)
  have project: "has (projects s') j" if "has (projects s) j" "j \<noteq> i" for j
    using that by (simp add: has_def parts AList.delete_conv')
  have "table_of rev_id (project_known s') (revisions s')"
    using stored(1) project keys(1)
    by (auto simp: table_of_iff parts rev project_known_def split: if_splits)
  moreover have "table_of thread_id (thread_known s') (threads s')"
    using stored(2) revision keys(2) by (auto simp: table_of_iff parts thr thread_known_def split: if_splits)
  moreover have "table_of comment_id (comment_known s') (comments s')"
  proof (rule table_of_goodI [OF keys(3)])
    fix k c assume "map_of (comments s') k = Some c"
    then have c: "map_of (comments s) k = Some c" "comment_thread c \<notin> threads_of i s"
      by (auto simp: parts com split: if_splits)
    have "comment_in s' q = Some (comment_thread c)" if "comment_parent c = Some q" "q \<noteq> []" for q
      using stored(6) [OF c(1)] that c(2) by (auto simp: comment_known_def comment_in_def parts com)
    then show "comment_known s' c"
      using stored(6) [OF c(1)] c(2) by (auto simp: comment_known_def has_def parts split: option.split)
  qed
  moreover have "table_of state_project (state_known s') (states s')"
  proof (rule table_of_goodI)
    fix k v assume "map_of (states s') k = Some v"
    then have v: "map_of (states s) k = Some v" "k \<noteq> i" by (auto simp: parts AList.delete_conv' split: if_splits)
    have v': "state_project v = k" "state_known s v" using consistentD(4) [OF assms v(1)] by auto
    have "map_of (changes s') (change_id c) = Some c" if "c \<in> set (changes_since v)" for c
      using foreign_change_kept [OF assms _ v(2), of c] that v(1) by (simp add: parts changes_of_state_def)
    then show "state_known s' v" using v' v(2) project by (simp add: state_known_def list_all_iff)
  qed (use tables in \<open>auto simp: parts\<close>)
  moreover have "table_of review_id (review_known p s') (reviews s')"
    using stored(3) revision tables
    by (auto simp: table_of_iff parts lookup_without review_known_def split: option.splits if_splits)
  moreover have "table_of ai_id (request_known s') (requests s')"
    using stored(4) revision tables
    by (auto simp: table_of_iff parts lookup_without request_known_def split: option.splits if_splits)
  moreover have "table_of annotation_id (annotation_known s') (annotations s')"
    using stored(5) revision tables
    by (auto simp: table_of_iff parts lookup_without annotation_known_def split: option.splits if_splits)
  moreover have "table_of reaction_key (reaction_known s') (reactions s')"
    using stored(7) tables
    by (auto simp: table_of_iff parts lookup_without reaction_known_def has_def split: option.splits if_splits)
  moreover have "table_of approval_key (approval_known s') (approvals s')"
    using stored(8) tables
    by (auto simp: table_of_iff parts lookup_without approval_known_def has_def split: option.splits if_splits)
  ultimately show ?thesis
    using tables unfolding s'_def [symmetric] consistent_def by (auto simp: parts)
qed

lemma delete_project_consistent: "consistent p s \<Longrightarrow> delete_project i s = Inr s' \<Longrightarrow> consistent p s'"
  using delete_project_Inr cleared_consistent by blast

end
