(* ===== verification/Collab_Machine.thy ===== *)
theory Collab_Machine
  imports Collab_Swap
begin

text \<open>
  The repository as an instance of the contract of machines: its invariant over every sequence of
  calls, what replacing or deleting one project leaves to the others, and how stored requests for AI
  changes and review threads move.
\<close>

section \<open>The invariant over runs\<close>

lemma after_inv: "Q s \<Longrightarrow> (\<And>s'. r = Inr s' \<Longrightarrow> Q s') \<Longrightarrow> Q (after s r)"
  by (cases r) (simp_all add: after_def)

lemma after_answer_inv: "Q s \<Longrightarrow> (\<And>x s'. r = Inr (x, s') \<Longrightarrow> Q s') \<Longrightarrow> Q (after_answer s r)"
  by (cases r) (auto simp: after_answer_def)

lemma perform_consistent:
  assumes "consistent p s"
  shows "consistent p (perform p s c)"
proof (cases c)
  case (CommitDesign x)
  then show ?thesis using commit_design_consistent [OF assms] by simp
next
  case (AppendEvent e)
  then show ?thesis using append_event_consistent [OF assms] by simp
qed (simp_all, (rule after_inv after_answer_inv, rule assms, erule
    create_project_consistent [OF assms] append_revision_consistent [OF assms] create_review_consistent [OF assms]
    mutate_review_consistent [OF assms] append_message_consistent [OF assms] react_to_message_consistent [OF assms]
    set_message_read_consistent [OF assms] resolve_review_consistent [OF assms] reopen_review_consistent [OF assms]
    move_review_consistent [OF assms] create_request_consistent [OF assms] update_request_consistent [OF assms]
    create_annotation_consistent [OF assms] create_thread_consistent [OF assms] resolve_thread_consistent [OF assms]
    create_comment_consistent [OF assms] add_reaction_consistent [OF assms] put_approval_op_consistent [OF assms]
    append_audit_consistent [OF assms] create_link_consistent [OF assms] revoke_link_consistent [OF assms]
    put_response_consistent [OF assms] replace_project_consistent [OF assms] delete_project_consistent [OF assms])+)

lemma perform_at_consistent: "consistent p s \<Longrightarrow> consistent p (perform_at p s c)"
  using perform_consistent [of "p\<lparr>clock := fst c\<rparr>" s "snd c"] by (simp add: perform_at_def)

section \<open>What no call ever takes back\<close>

text \<open>Logs only grow, kept responses never change, and a link keeps its terms and has a time of revocation once it
  has one; that time may be overwritten, even by an empty one.\<close>

definition only_appends :: "store \<Rightarrow> store \<Rightarrow> bool" where
  "only_appends s s' \<longleftrightarrow>
     (\<exists>es. events s' = events s @ es) \<and> (\<exists>as. audits s' = audits s @ as) \<and> cursor s \<le> cursor s' \<and>
     (\<forall>k r. map_of (responses s) k = Some r \<longrightarrow> map_of (responses s') k = Some r) \<and>
     (\<forall>i l. map_of (links s) i = Some l \<longrightarrow>
        (\<exists>l'. map_of (links s') i = Some l' \<and> l'\<lparr>link_revoked := None\<rparr> = l\<lparr>link_revoked := None\<rparr> \<and>
           (link_revoked l \<noteq> None \<longrightarrow> link_revoked l' \<noteq> None)))"

definition ordered_log :: "store \<Rightarrow> bool" where
  "ordered_log s \<longleftrightarrow>
     sorted_wrt (<) (map event_cursor (events s)) \<and> list_all (\<lambda>e. event_cursor e \<le> cursor s) (events s)"

lemma only_appends_refl: "only_appends s s"
  by (auto simp: only_appends_def)

lemma only_appendsD:
  assumes "only_appends s t"
  shows "\<exists>es. events t = events s @ es" "\<exists>as. audits t = audits s @ as" "cursor s \<le> cursor t"
    "map_of (responses s) k = Some r \<Longrightarrow> map_of (responses t) k = Some r"
    "map_of (links s) i = Some l \<Longrightarrow>
       \<exists>l'. map_of (links t) i = Some l' \<and> l'\<lparr>link_revoked := None\<rparr> = l\<lparr>link_revoked := None\<rparr> \<and>
         (link_revoked l \<noteq> None \<longrightarrow> link_revoked l' \<noteq> None)"
  using assms unfolding only_appends_def by blast+

lemma only_appends_trans:
  assumes "only_appends s t" "only_appends t u"
  shows "only_appends s u"
  unfolding only_appends_def
proof (intro conjI allI impI)
  show "\<exists>es. events u = events s @ es" "\<exists>as. audits u = audits s @ as"
    using only_appendsD(1,2) [OF assms(1)] only_appendsD(1,2) [OF assms(2)] by auto
  show "cursor s \<le> cursor u" using only_appendsD(3) [OF assms(1)] only_appendsD(3) [OF assms(2)] by simp
  show "map_of (responses u) k = Some r" if "map_of (responses s) k = Some r" for k r
    using that only_appendsD(4) [OF assms(1)] only_appendsD(4) [OF assms(2)] by blast
  fix i l assume "map_of (links s) i = Some l"
  then obtain l1 where l1: "map_of (links t) i = Some l1" "l1\<lparr>link_revoked := None\<rparr> = l\<lparr>link_revoked := None\<rparr>"
    "link_revoked l \<noteq> None \<longrightarrow> link_revoked l1 \<noteq> None"
    using only_appendsD(5) [OF assms(1)] by blast
  then obtain l2 where "map_of (links u) i = Some l2" "l2\<lparr>link_revoked := None\<rparr> = l1\<lparr>link_revoked := None\<rparr>"
    "link_revoked l1 \<noteq> None \<longrightarrow> link_revoked l2 \<noteq> None"
    using only_appendsD(5) [OF assms(2)] by blast
  then show "\<exists>l'. map_of (links u) i = Some l' \<and> l'\<lparr>link_revoked := None\<rparr> = l\<lparr>link_revoked := None\<rparr> \<and>
      (link_revoked l \<noteq> None \<longrightarrow> link_revoked l' \<noteq> None)"
    using l1 by auto
qed

text \<open>Most calls do not touch the logs, the links or the responses at all.\<close>

definition same_logs :: "store \<Rightarrow> store \<Rightarrow> bool" where
  "same_logs s s' \<longleftrightarrow> events s' = events s \<and> audits s' = audits s \<and> cursor s' = cursor s \<and>
     responses s' = responses s \<and> links s' = links s"

lemma same_logs_appends: "same_logs s s' \<Longrightarrow> only_appends s s'"
  by (auto simp: same_logs_def only_appends_def)

lemma same_logs_refl [simp]: "same_logs s s"
  by (simp add: same_logs_def)

lemma update_review_logs: "update_review p i f s = Inr (w, s') \<Longrightarrow> same_logs s s'"
  by (auto simp: update_review_def outcome_simps put_review_def same_logs_def split: option.splits)

lemma mutate_review_logs: "mutate_review p m s = Inr (a, s') \<Longrightarrow> same_logs s s'"
  by (drule mutate_review_cases) (auto simp: write_review_def put_review_def same_logs_def)

lemma replaced_logs [simp]: "same_logs s (replaced x kept s)"
  by (simp add: same_logs_def replaced_def Let_def)

lemma cleared_logs [simp]: "same_logs s (clear_project i s)"
  by (simp add: same_logs_def clear_project_def Let_def)

lemma replace_project_logs: "replace_project p x e s = Inr s' \<Longrightarrow> same_logs s s'"
  by (drule replace_project_Inr) auto

lemma delete_project_logs: "delete_project i s = Inr s' \<Longrightarrow> same_logs s s'"
  by (drule delete_project_Inr) auto

lemma append_revision_logs: "append_revision p r q s = Inr s' \<Longrightarrow> same_logs s s'"
  by (auto simp: append_revision_def append_begin_def append_finish_def outcome_simps same_logs_def split: prod.splits)

lemma update_request_logs: "update_request p a s = Inr (b, s') \<Longrightarrow> same_logs s s'"
  by (drule update_request_Inr) (auto simp: same_logs_def)

lemma resolve_thread_logs: "resolve_thread p i by time s = Inr (t, s') \<Longrightarrow> same_logs s s'"
  by (cases "map_of (threads s) i") (auto simp: resolve_thread_def Let_def outcome_simps same_logs_def)

lemmas creation_defs = create_project_def create_review_def create_request_def create_annotation_def create_thread_def
  create_comment_def add_reaction_def put_approval_def

lemma creation_logs:
  "create_project x s = Inr s' \<Longrightarrow> same_logs s s'" "create_review p t s = Inr s' \<Longrightarrow> same_logs s s'"
  "create_request p a s = Inr s' \<Longrightarrow> same_logs s s'" "create_annotation p n s = Inr s' \<Longrightarrow> same_logs s s'"
  "create_thread d s = Inr s' \<Longrightarrow> same_logs s s'" "create_comment c s = Inr s' \<Longrightarrow> same_logs s s'"
  "add_reaction e s = Inr s' \<Longrightarrow> same_logs s s'" "put_approval v s = Inr s' \<Longrightarrow> same_logs s s'"
  by (auto simp: creation_defs Let_def outcome_simps same_logs_def put_review_def split: option.splits)

lemma review_operation_logs:
  "append_message p i m s = Inr (w, s') \<Longrightarrow> same_logs s s'" "react_to_message p i k e user s = Inr (w, s') \<Longrightarrow> same_logs s s'"
  "set_message_read p i k user read s = Inr (w, s') \<Longrightarrow> same_logs s s'" "resolve_review p i by time s = Inr (w, s') \<Longrightarrow> same_logs s s'"
  "reopen_review p i by time s = Inr (w, s') \<Longrightarrow> same_logs s s'" "move_review p i a by time s = Inr (w, s') \<Longrightarrow> same_logs s s'"
  by (auto simp: append_message_def react_to_message_def set_message_read_def resolve_review_def reopen_review_def
      move_review_def outcome_simps intro: update_review_logs)

lemma kept_for_None: "kept_for x s = None \<Longrightarrow> input_key x = Some k \<Longrightarrow> map_of (responses s) (response_key x k) = None"
  by (simp add: kept_for_def)

lemma write_change_logs: "same_logs s (write_change x before state s)"
  by (simp add: write_change_def Let_def same_logs_def split: option.split)

lemma write_revision_logs: "same_logs s (write_revision x s)"
  by (simp add: write_revision_def same_logs_def split: option.split)

lemma write_baseline_logs: "write_baseline x s = Inr s' \<Longrightarrow> same_logs s s'"
  by (auto simp: write_baseline_def outcome_simps same_logs_def split: option.splits)

lemma same_logs_trans: "same_logs s t \<Longrightarrow> same_logs t u \<Longrightarrow> same_logs s u"
  by (simp add: same_logs_def)

text \<open>A commit leaves the logs alone up to the response that it keeps.\<close>

lemma commit_finish_cases:
  "same_logs s (snd (commit_finish x before s)) \<or>
   (\<exists>s3 r s'. same_logs s s3 \<and> keep_response x r s3 = Inr s' \<and> commit_finish x before s = (Inr (r, False), s'))"
proof (cases "commit_checks x before s")
  case (Inr u)
  note checks = Inr
  define s1 where "s1 = write_revision x s"
  have s1: "same_logs s s1" unfolding s1_def by (rule write_revision_logs)
  show ?thesis
  proof (cases "write_baseline x s1")
    case Inl
    then show ?thesis using checks s1 by (simp add: commit_finish_def Let_def s1_def)
  next
    case (Inr s2)
    define s3 where "s3 = write_change x before (stored_state s (input_project x)) s2"
    have s3: "same_logs s s3"
      using s1 write_baseline_logs [OF Inr] write_change_logs same_logs_trans unfolding s3_def by blast
    define had where "had = (state_baseline (stored_state s (input_project x)) \<noteq> None \<and>
      command_readiness (input_command x) = None)"
    have whole: "commit_finish x before s = (case commit_response x had of
        None \<Rightarrow> (Inl ErrInvalid, s3)
      | Some r \<Rightarrow> (case keep_response x r s3 of Inl e \<Rightarrow> (Inl e, s3) | Inr s4 \<Rightarrow> (Inr (r, False), s4)))"
      using checks Inr unfolding commit_finish_def Let_def s1_def [symmetric] had_def [symmetric]
      by (simp add: s3_def cong: option.case_cong sum.case_cong)
    show ?thesis
    proof (cases "commit_response x had")
      case (Some r)
      then show ?thesis using s3 whole by (cases "keep_response x r s3") auto
    qed (use s3 whole in simp)
  qed
qed (simp add: commit_finish_def)

lemma commit_design_appends: "only_appends s (snd (commit_design p x s))"
proof (cases "commit_begin p x s")
  case (Inr found)
  show ?thesis
  proof (cases found)
    case (Inr before)
    then have fresh: "kept_for x s = None" using \<open>commit_begin p x s = Inr found\<close>
      by (auto simp: commit_begin_def outcome_simps split: option.splits)
    have whole: "commit_design p x s = commit_finish x before s"
      using Inr \<open>commit_begin p x s = Inr found\<close> by (simp add: commit_design_def)
    show ?thesis using commit_finish_cases [of s x before]
    proof (elim disjE exE conjE)
      fix s3 r s' assume s3: "same_logs s s3" "keep_response x r s3 = Inr s'"
        "commit_finish x before s = (Inr (r, False), s')"
      then show ?thesis using kept_for_None [OF fresh]
        by (auto simp: whole keep_response_def outcome_simps same_logs_def only_appends_def AList.update_conv'
            split: option.splits)
    qed (simp add: whole same_logs_appends)
  qed (use Inr in \<open>simp add: commit_design_def only_appends_refl\<close>)
qed (simp add: commit_design_def only_appends_refl)

lemma append_event_appends: "only_appends s (snd (append_event e s))"
  by (auto simp: append_event_def Let_def only_appends_def)

lemma append_audit_appends: "append_audit e s = Inr s' \<Longrightarrow> only_appends s s'"
  by (auto simp: append_audit_def outcome_simps only_appends_def)

lemma create_link_appends: "create_link l s = Inr s' \<Longrightarrow> only_appends s s'"
  by (auto simp: create_link_def outcome_simps only_appends_def AList.update_conv' has_def)

lemma revoke_link_appends: "revoke_link i time s = Inr s' \<Longrightarrow> only_appends s s'"
  by (auto simp: revoke_link_def Let_def outcome_simps only_appends_def AList.update_conv' split: option.splits)

lemma put_response_appends: "put_response scope k r s = Inr (v, s') \<Longrightarrow> only_appends s s'"
  by (auto simp: put_response_def outcome_simps only_appends_def AList.update_conv' split: option.splits)

lemma perform_appends: "only_appends s (perform p s c)"
proof (cases c)
  case (CommitDesign x)
  then show ?thesis by (simp add: commit_design_appends)
next
  case (AppendEvent e)
  then show ?thesis by (simp add: append_event_appends)
qed (simp_all, (rule after_inv after_answer_inv, rule only_appends_refl,
    (erule append_audit_appends create_link_appends revoke_link_appends put_response_appends |
     rule same_logs_appends, erule creation_logs append_revision_logs mutate_review_logs review_operation_logs
       update_request_logs resolve_thread_logs replace_project_logs delete_project_logs))+)

section \<open>Revoked links\<close>

text \<open>A stored link that \<open>revokedAt\<close> makes unusable; an empty time does not.\<close>

definition link_dead :: "string \<Rightarrow> store \<Rightarrow> bool" where
  "link_dead i s \<longleftrightarrow> (\<exists>l. map_of (links s) i = Some l \<and> link_revoked l \<notin> {None, Some []})"

lemma dead_same_logs: "link_dead i s \<Longrightarrow> same_logs s s' \<Longrightarrow> link_dead i s'"
  by (simp add: link_dead_def same_logs_def)

lemma dead_same_links: "link_dead i s \<Longrightarrow> links s' = links s \<Longrightarrow> link_dead i s'"
  by (simp add: link_dead_def)

lemma other_links:
  "append_audit e s = Inr s' \<Longrightarrow> links s' = links s"
  "put_response scope k r s = Inr (v, s') \<Longrightarrow> links s' = links s"
  "links (snd (append_event x s)) = links s"
  by (auto simp: append_audit_def put_response_def append_event_def Let_def outcome_simps split: option.splits)

lemma create_link_dead: "link_dead i s \<Longrightarrow> create_link l s = Inr s' \<Longrightarrow> link_dead i s'"
  by (auto simp: create_link_def outcome_simps link_dead_def AList.update_conv' has_def)

lemma revoke_link_dead:
  "link_dead i s \<Longrightarrow> j \<noteq> i \<or> time \<noteq> [] \<Longrightarrow> revoke_link j time s = Inr s' \<Longrightarrow> link_dead i s'"
  by (auto simp: revoke_link_def Let_def outcome_simps link_dead_def AList.update_conv' split: option.splits)

lemma commit_design_links: "links (snd (commit_design p x s)) = links s"
proof -
  have "links (snd (commit_finish x before s)) = links s" for before
    using commit_finish_cases [of s x before]
    by (auto simp: same_logs_def keep_response_def outcome_simps split: option.splits)
  then show ?thesis by (auto simp: commit_design_def split: sum.splits)
qed

lemma perform_dead: "link_dead i s \<Longrightarrow> c \<noteq> RevokeLink i [] \<Longrightarrow> link_dead i (perform p s c)"
proof (cases c)
  case (CommitDesign x)
  assume "link_dead i s"
  then show ?thesis using CommitDesign by (simp add: link_dead_def commit_design_links)
next
  case (AppendEvent e)
  assume "link_dead i s"
  then show ?thesis using AppendEvent by (simp add: link_dead_def other_links)
next
  case (RevokeLink j time)
  assume "link_dead i s" "c \<noteq> RevokeLink i []"
  then show ?thesis using RevokeLink revoke_link_dead [of i s j time] by (auto intro: after_inv)
qed (simp_all, (rule after_inv after_answer_inv, assumption,
    (erule create_link_dead, assumption | erule dead_same_links, erule other_links |
     erule dead_same_logs, erule creation_logs append_revision_logs mutate_review_logs review_operation_logs
       update_request_logs resolve_thread_logs replace_project_logs delete_project_logs))+)

lemma perform_at_dead: "link_dead i s \<Longrightarrow> snd c \<noteq> RevokeLink i [] \<Longrightarrow> link_dead i (perform_at p s c)"
  by (simp add: perform_at_def perform_dead)

lemma run_dead: "link_dead i s \<Longrightarrow> RevokeLink i [] \<notin> snd ` set cs \<Longrightarrow> link_dead i (foldl (perform_at p) s cs)"
  by (induction cs arbitrary: s) (auto simp: perform_at_dead image_iff)

text \<open>The links that stay revoked over a sequence of calls: all but those for which it has a revocation with
  an empty time.\<close>

definition revoked_stay :: "(string \<times> repository_command) list \<Rightarrow> store \<Rightarrow> store \<Rightarrow> bool" where
  "revoked_stay cs s t \<longleftrightarrow> (\<forall>i. link_dead i s \<longrightarrow> RevokeLink i [] \<notin> snd ` set cs \<longrightarrow> link_dead i t)"

section \<open>The order of the log\<close>

lemma ordered_same_logs: "same_logs s s' \<Longrightarrow> ordered_log s' = ordered_log s"
  by (simp add: same_logs_def ordered_log_def)

lemma append_event_ordered: "ordered_log s \<Longrightarrow> ordered_log (snd (append_event e s))"
  by (auto simp: append_event_def Let_def ordered_log_def stored_event_def event_input.defs sorted_wrt_append
      list_all_iff le_Suc_eq)

lemma keeps_log_ordered: "events s' = events s \<Longrightarrow> cursor s' = cursor s \<Longrightarrow> ordered_log s' = ordered_log s"
  by (simp add: ordered_log_def)

lemma commit_design_ordered: "ordered_log (snd (commit_design p x s)) = ordered_log s"
proof -
  have "events (snd (commit_finish x before s)) = events s \<and> cursor (snd (commit_finish x before s)) = cursor s" for before
    using commit_finish_cases [of s x before]
    by (auto simp: same_logs_def keep_response_def outcome_simps split: option.splits)
  then show ?thesis by (auto simp: commit_design_def intro!: keeps_log_ordered split: sum.splits)
qed

lemma other_logs_ordered:
  "append_audit e s = Inr s' \<Longrightarrow> ordered_log s' = ordered_log s"
  "create_link l s = Inr s' \<Longrightarrow> ordered_log s' = ordered_log s"
  "revoke_link i time s = Inr s' \<Longrightarrow> ordered_log s' = ordered_log s"
  "put_response scope k r s = Inr (v, s') \<Longrightarrow> ordered_log s' = ordered_log s"
  by (auto simp: append_audit_def create_link_def revoke_link_def put_response_def Let_def outcome_simps
      intro!: keeps_log_ordered split: option.splits)

lemma perform_ordered:
  assumes "ordered_log s"
  shows "ordered_log (perform p s c)"
proof (cases c)
  case (CommitDesign x)
  then show ?thesis using assms by (simp add: commit_design_ordered)
next
  case (AppendEvent e)
  then show ?thesis using assms by (simp add: append_event_ordered)
qed (simp_all, (rule after_inv after_answer_inv, rule assms,
     (erule other_logs_ordered [THEN iffD2, OF _ assms] |
      rule ordered_same_logs [THEN iffD2, OF _ assms], erule creation_logs append_revision_logs mutate_review_logs
        review_operation_logs update_request_logs resolve_thread_logs replace_project_logs delete_project_logs))+)

text \<open>The repository is a machine of the contract.\<close>

interpretation repository: total_machine "perform_at p" "\<lambda>s. consistent p s \<and> ordered_log s" only_appends
  by unfold_locales
    (auto simp: perform_at_def perform_ordered perform_appends only_appends_refl
      intro: only_appends_trans dest: perform_at_consistent [unfolded perform_at_def])

end
