(* ===== verification/Collab_Progress.thy ===== *)
theory Collab_Progress
  imports Collab_Machine
begin

text \<open>
  How the stored records of a project move while no project is replaced or deleted: revisions are
  immutable, the version of a review thread counts its mutations, and requests for AI changes follow
  the lifecycle of \<open>allowedAITransitions\<close>.
\<close>

section \<open>The boundary\<close>

lemma fits_boundary_iff: "fits_boundary v \<longleftrightarrow> ownable v \<and> \<not> long_names v"
  using owned_measured [of v] by (auto simp: fits_boundary_def own_value_def owned_def split: option.splits if_splits)

lemma own_value_fits: "own_value v = (if fits_boundary v then Some (inert_copy v) else None)"
  by (simp add: fits_boundary_def own_value_def)

lemma owned_as_Inr: "owned_as f x = Inr u \<longleftrightarrow> fits_boundary (f x)"
  by (simp add: owned_as_def failIf_def)

lemma owned_as_ok [simp]: "fits_boundary (f x) \<Longrightarrow> owned_as f x = Inr ()"
  by (simp add: owned_as_def)

text \<open>An absent value is not data: it equals nothing, not even another absent value.\<close>

lemma absent_not_data: "own_value (JOther f) = None"
  by (simp add: own_value_fits fits_boundary_iff ownable_def)

lemma same_structure_None: "\<not> same_structure f None x" "\<not> same_structure f x None"
  by (simp_all add: same_structure_def equal_values_def value_or_undefined_def absent_not_data split: option.split)

section \<open>Transitions of AI requests\<close>

definition ai_moves :: "ai_lifecycle \<Rightarrow> ai_lifecycle \<Rightarrow> bool" where
  "ai_moves a b \<longleftrightarrow> b \<in> set (allowed_ai_transitions a)"

lemma validate_ai_transition_Inr:
  assumes "validate_ai_transition prev new = Inr ()"
  shows "ai_id new = ai_id prev \<and> ai_project new = ai_project prev \<and> ai_by new = ai_by prev \<and>
     ai_created new = ai_created prev \<and> ai_instruction new = ai_instruction prev \<and>
     ai_anchor prev \<noteq> None \<and>
     (ai_moves (ai_lifecycle prev) (ai_lifecycle new) \<or>
      ai_lifecycle new = ai_lifecycle prev \<and> ai_undo prev \<noteq> None)"
proof -
  have same: "same_structure anchor_json (ai_anchor prev) (ai_anchor new)"
    and undo: "ai_lifecycle prev = ai_lifecycle new \<Longrightarrow> same_structure result_json (ai_undo prev) (ai_undo new)"
    and rest: "ai_id new = ai_id prev \<and> ai_project new = ai_project prev \<and> ai_by new = ai_by prev \<and>
      ai_created new = ai_created prev \<and> ai_instruction new = ai_instruction prev"
      "ai_lifecycle prev = ai_lifecycle new \<or> ai_lifecycle new \<in> set (allowed_ai_transitions (ai_lifecycle prev))"
    using assms unfolding validate_ai_transition_def by (simp_all add: outcome_simps)
  have "ai_anchor prev \<noteq> None" using same same_structure_None(1) by (cases "ai_anchor prev") auto
  moreover have "ai_undo prev \<noteq> None" if "ai_lifecycle prev = ai_lifecycle new"
    using undo [OF that] same_structure_None(1) by (cases "ai_undo prev") auto
  ultimately show ?thesis using rest by (auto simp: ai_moves_def)
qed

lemma validate_ai_request_undo: "validate_ai_request p a r = Inr () \<Longrightarrow> ai_undo a \<noteq> None \<longleftrightarrow> ai_lifecycle a = Undone"
  unfolding validate_ai_request_def by (auto simp: outcome_simps)

lemma undone_is_final: "ai_moves\<^sup>*\<^sup>* Undone b \<Longrightarrow> b = Undone"
  by (induction rule: rtranclp_induct) (auto simp: ai_moves_def)

section \<open>Progress\<close>

definition review_progress :: "review_thread \<Rightarrow> review_thread \<Rightarrow> bool" where
  "review_progress t t' \<longleftrightarrow>
     review_id t' = review_id t \<and> review_project t' = review_project t \<and> review_by t' = review_by t \<and>
     review_at t' = review_at t \<and> review_version t \<le> review_version t' \<and>
     (review_version t' = review_version t \<longrightarrow> t' = t) \<and>
     (\<exists>ms. map message_id (review_messages t') = map message_id (review_messages t) @ ms)"

definition request_progress :: "ai_request \<Rightarrow> ai_request \<Rightarrow> bool" where
  "request_progress a a' \<longleftrightarrow>
     ai_id a' = ai_id a \<and> ai_project a' = ai_project a \<and> ai_by a' = ai_by a \<and> ai_created a' = ai_created a \<and>
     ai_instruction a' = ai_instruction a \<and> ai_moves\<^sup>*\<^sup>* (ai_lifecycle a) (ai_lifecycle a') \<and>
     (ai_anchor a = None \<longrightarrow> a' = a)"

definition progresses :: "store \<Rightarrow> store \<Rightarrow> bool" where
  "progresses s s' \<longleftrightarrow>
     (\<forall>i r. map_of (revisions s) i = Some r \<longrightarrow> map_of (revisions s') i = Some r) \<and>
     (\<forall>i t. map_of (reviews s) i = Some t \<longrightarrow> (\<exists>t'. map_of (reviews s') i = Some t' \<and> review_progress t t')) \<and>
     (\<forall>i a. map_of (requests s) i = Some a \<longrightarrow> (\<exists>a'. map_of (requests s') i = Some a' \<and> request_progress a a'))"

lemma review_progress_refl [simp]: "review_progress t t"
  by (simp add: review_progress_def)

lemma request_progress_refl [simp]: "request_progress a a"
  by (simp add: request_progress_def)

lemma review_progress_trans: "review_progress t u \<Longrightarrow> review_progress u v \<Longrightarrow> review_progress t v"
  unfolding review_progress_def by auto

lemma request_progress_trans: "request_progress a b \<Longrightarrow> request_progress b c \<Longrightarrow> request_progress a c"
  unfolding request_progress_def by auto

lemma progresses_refl [simp]: "progresses s s"
  by (auto simp: progresses_def)

lemma progressesD:
  assumes "progresses s s'"
  shows "map_of (revisions s) i = Some r \<Longrightarrow> map_of (revisions s') i = Some r"
    "map_of (reviews s) i = Some t \<Longrightarrow> \<exists>t'. map_of (reviews s') i = Some t' \<and> review_progress t t'"
    "map_of (requests s) i = Some a \<Longrightarrow> \<exists>a'. map_of (requests s') i = Some a' \<and> request_progress a a'"
  using assms unfolding progresses_def by blast+

lemma progresses_trans:
  assumes "progresses s t" "progresses t u"
  shows "progresses s u"
  unfolding progresses_def
proof (intro conjI allI impI)
  show "map_of (revisions u) i = Some r" if "map_of (revisions s) i = Some r" for i r
    using that progressesD(1) [OF assms(1)] progressesD(1) [OF assms(2)] by blast
  show "\<exists>t'. map_of (reviews u) i = Some t' \<and> review_progress w t'" if "map_of (reviews s) i = Some w" for i w
    using progressesD(2) [OF assms(1) that] progressesD(2) [OF assms(2)] review_progress_trans by blast
  show "\<exists>a'. map_of (requests u) i = Some a' \<and> request_progress a a'" if "map_of (requests s) i = Some a" for i a
    using progressesD(3) [OF assms(1) that] progressesD(3) [OF assms(2)] request_progress_trans by blast
qed

text \<open>A new revision, a new or moved thread, a new or moved request; other tables do not matter.\<close>

lemma progresses_same:
  "revisions s' = revisions s \<Longrightarrow> reviews s' = reviews s \<Longrightarrow> requests s' = requests s \<Longrightarrow> progresses s s'"
  by (simp add: progresses_def)

lemma progresses_revision:
  "\<not> has (revisions s) i \<Longrightarrow> revisions s' = AList.update i r (revisions s) \<Longrightarrow> reviews s' = reviews s \<Longrightarrow>
     requests s' = requests s \<Longrightarrow> progresses s s'"
  by (auto simp: progresses_def AList.update_conv' has_def)

lemma progresses_review:
  "(\<And>t. map_of (reviews s) i = Some t \<Longrightarrow> review_progress t t') \<Longrightarrow> revisions s' = revisions s \<Longrightarrow>
     reviews s' = AList.update i t' (reviews s) \<Longrightarrow> requests s' = requests s \<Longrightarrow> progresses s s'"
  by (auto simp: progresses_def AList.update_conv')

lemma progresses_request:
  "(\<And>a. map_of (requests s) i = Some a \<Longrightarrow> request_progress a a') \<Longrightarrow> revisions s' = revisions s \<Longrightarrow>
     reviews s' = reviews s \<Longrightarrow> requests s' = AList.update i a' (requests s) \<Longrightarrow> progresses s s'"
  by (auto simp: progresses_def AList.update_conv')

section \<open>Every call in place progresses\<close>

definition in_place :: "repository_command \<Rightarrow> bool" where
  "in_place c \<longleftrightarrow> (case c of ReplaceProject x e \<Rightarrow> False | DeleteProject i \<Rightarrow> False | _ \<Rightarrow> True)"

definition step_in_place :: "platform \<Rightarrow> store \<Rightarrow> string \<times> repository_command \<Rightarrow> store" where
  "step_in_place p s c = (if in_place (snd c) then perform_at p s c else s)"

lemma foldl_in_place: "list_all (\<lambda>c. in_place (snd c)) cs \<Longrightarrow> foldl (step_in_place p) s cs = foldl (perform_at p) s cs"
  by (induction cs arbitrary: s) (simp_all add: step_in_place_def)

lemma append_revision_progresses: "append_revision p x q s = Inr s' \<Longrightarrow> progresses s s'"
proof -
  assume "append_revision p x q s = Inr s'"
  then obtain found where "append_begin p x s = Inr found" "append_finish found q s = Inr s'"
    by (auto simp: append_revision_def outcome_simps)
  then have "s' = s\<lparr>revisions := AList.update (rev_id x) (copy_revision x) (revisions s)\<rparr>" "\<not> has (revisions s) (rev_id x)"
    using append_begin_Inr append_finish_Inr by (metis copy_revision_simps(1) prod.collapse prod.inject)+
  then show ?thesis by (intro progresses_revision [of s "rev_id x" s' "copy_revision x"]) simp_all
qed

lemma write_revision_progresses: "commit_checks x before s = Inr u \<Longrightarrow> progresses s (write_revision x s)"
  by (auto simp: write_revision_def commit_checks_def Let_def outcome_simps intro!: progresses_revision split: option.split)

lemma write_baseline_progresses: "write_baseline x s = Inr s' \<Longrightarrow> progresses s s'"
  by (auto simp: write_baseline_def outcome_simps intro!: progresses_same split: option.splits)

lemma write_change_progresses: "progresses s (write_change x before state s)"
  by (auto simp: write_change_def Let_def intro!: progresses_same split: option.split)

lemma keep_response_progresses: "keep_response x r s = Inr s' \<Longrightarrow> progresses s s'"
  by (auto simp: keep_response_def outcome_simps intro!: progresses_same split: option.splits)

lemma commit_finish_progresses: "progresses s (snd (commit_finish x before s))"
proof (cases "commit_checks x before s")
  case (Inr u)
  define s1 where "s1 = write_revision x s"
  have s1: "progresses s s1" unfolding s1_def using Inr by (rule write_revision_progresses)
  define had where "had = (state_baseline (stored_state s (input_project x)) \<noteq> None \<and>
    command_readiness (input_command x) = None)"
  show ?thesis
  proof (cases "write_baseline x s1")
    case Inl
    then show ?thesis using Inr s1 by (simp add: commit_finish_def Let_def s1_def)
  next
    case s2: (Inr s2)
    define s3 where "s3 = write_change x before (stored_state s (input_project x)) s2"
    have s3: "progresses s s3"
      using s1 write_baseline_progresses [OF s2] write_change_progresses progresses_trans unfolding s3_def by blast
    have whole: "snd (commit_finish x before s) = (case commit_response x had of
        None \<Rightarrow> s3 | Some r \<Rightarrow> (case keep_response x r s3 of Inl e \<Rightarrow> s3 | Inr s4 \<Rightarrow> s4))"
      using Inr s2 unfolding commit_finish_def Let_def s1_def [symmetric] had_def [symmetric]
      by (simp add: s3_def split: option.split sum.split)
    show ?thesis
    proof (cases "commit_response x had")
      case (Some r)
      then show ?thesis using s3 whole keep_response_progresses [of x r s3] progresses_trans [of s s3]
        by (cases "keep_response x r s3") auto
    qed (use s3 whole in simp)
  qed
qed (simp add: commit_finish_def)

lemma commit_design_progresses: "progresses s (snd (commit_design p x s))"
  by (auto simp: commit_design_def commit_finish_progresses split: sum.split)

lemma create_review_progresses: "create_review p t s = Inr s' \<Longrightarrow> progresses s s'"
  by (auto simp: create_review_def outcome_simps put_review_def has_def split: option.splits intro!: progresses_review)

lemma update_review_progresses:
  assumes "update_review p i f s = Inr (w, s')" "\<And>t t'. f t = Inr t' \<Longrightarrow> review_progress t t'"
  shows "progresses s s'"
proof -
  obtain t where "map_of (reviews s) i = Some t" "f t = Inr w" "s' = put_review i w s"
    using assms(1) by (auto simp: update_review_def outcome_simps split: option.splits)
  then show ?thesis using assms(2) [of t w] by (auto simp: put_review_def intro!: progresses_review)
qed

lemmas review_change_defs = review_progress_def next_version_def resolved_def reopened_def

lemma on_message_progress:
  assumes "on_message i f t = Inr t'" "\<And>m. message_id (f m) = message_id m"
  shows "review_progress t t'"
proof -
  have "map message_id (map (\<lambda>m. if message_id m = i then f m else m) ms) = map message_id ms" for ms
    using assms(2) by (induction ms) auto
  moreover have "t' = (next_version t)\<lparr>review_messages :=
      map (\<lambda>m. if message_id m = i then f m else m) (review_messages t)\<rparr>"
    using assms(1) by (simp add: on_message_def outcome_simps)
  ultimately show ?thesis by (simp add: review_change_defs del: map_map)
qed

lemma message_changes [simp]: "message_id (add_emoji e user m) = message_id m" "message_id (set_read user read m) = message_id m"
  by (simp_all add: add_emoji_def set_read_def)

lemma review_operation_progresses:
  "append_message p i m s = Inr (w, s') \<Longrightarrow> progresses s s'" "react_to_message p i k e user s = Inr (w, s') \<Longrightarrow> progresses s s'"
  "set_message_read p i k user read s = Inr (w, s') \<Longrightarrow> progresses s s'" "resolve_review p i by time s = Inr (w, s') \<Longrightarrow> progresses s s'"
  "reopen_review p i by time s = Inr (w, s') \<Longrightarrow> progresses s s'" "move_review p i a by time s = Inr (w, s') \<Longrightarrow> progresses s s'"
       apply (auto simp: append_message_def outcome_simps review_change_defs elim!: update_review_progresses)[]
      apply (unfold react_to_message_def, erule update_review_progresses, erule on_message_progress, simp)[]
     apply (unfold set_message_read_def, erule update_review_progresses, erule on_message_progress, simp)[]
    apply (unfold resolve_review_def, erule update_review_progresses, auto simp: outcome_simps review_change_defs)[]
   apply (unfold reopen_review_def, erule update_review_progresses, auto simp: outcome_simps review_change_defs split: option.splits)[]
  apply (auto simp: move_review_def outcome_simps review_change_defs elim!: update_review_progresses split: option.splits)[]
  done

lemma mutated_progress: "mutated r t = Some t' \<Longrightarrow> review_progress t t'"
  by (cases r) (auto simp: review_change_defs split: if_splits)

lemma mutation_outcome_progress:
  assumes "mutation_outcome p s m t'" "map_of (reviews s) (mutation_thread (mutation_request m)) = Some t"
  shows "review_progress t t' \<and> review_version t = expected_version m \<and> review_version t' = expected_version m + 1"
proof -
  have "review_version t = expected_version m \<and> mutated (mutation_request m) t = Some t'"
    using assms by (cases "mutation_request m") (simp_all add: mutation_outcome_def)
  then show ?thesis using mutated_progress mutated_keeps by metis
qed

lemma mutate_review_progresses:
  assumes "mutate_review p m s = Inr (a, s')"
  shows "progresses s s'"
  using mutate_review_cases [OF assms]
proof (elim disjE exE conjE)
  fix t' f scope
  assume "mutation_outcome p s m t'" "(a, s') = write_review scope (operation_id m) (mutation_request m) f t' s"
  then show ?thesis using mutation_outcome_progress
    by (intro progresses_review [of s "mutation_thread (mutation_request m)" t'])
      (auto simp: write_review_def put_review_def)
qed simp_all

lemma create_request_progresses: "create_request p a s = Inr s' \<Longrightarrow> progresses s s'"
  by (auto simp: create_request_def outcome_simps has_def split: option.splits intro!: progresses_request)

lemma update_request_progress: "validate_ai_transition prev a = Inr () \<Longrightarrow> request_progress prev a"
  by (drule validate_ai_transition_Inr) (auto simp: request_progress_def)

lemma update_request_progresses: "update_request p a s = Inr (b, s') \<Longrightarrow> progresses s s'"
  by (drule update_request_Inr) (auto dest: update_request_progress intro!: progresses_request)

lemma other_progresses:
  "create_project x s = Inr s' \<Longrightarrow> progresses s s'" "create_annotation p n s = Inr s' \<Longrightarrow> progresses s s'"
  "create_thread d s = Inr s' \<Longrightarrow> progresses s s'" "create_comment c s = Inr s' \<Longrightarrow> progresses s s'"
  "add_reaction e s = Inr s' \<Longrightarrow> progresses s s'" "put_approval v s = Inr s' \<Longrightarrow> progresses s s'"
  "append_audit u s = Inr s' \<Longrightarrow> progresses s s'" "create_link l s = Inr s' \<Longrightarrow> progresses s s'"
  by (auto simp: creation_defs append_audit_def create_link_def Let_def outcome_simps intro!: progresses_same
      split: option.splits)

lemma more_progresses:
  "resolve_thread p i by time s = Inr (t, s') \<Longrightarrow> progresses s s'" "revoke_link i till s = Inr s' \<Longrightarrow> progresses s s'"
  "put_response scope k r s = Inr (v, s') \<Longrightarrow> progresses s s'"
    apply (cases "map_of (threads s) i"; auto simp: resolve_thread_def Let_def outcome_simps intro!: progresses_same)[]
   apply (auto simp: revoke_link_def Let_def outcome_simps intro!: progresses_same split: option.splits)[]
  apply (auto simp: put_response_def outcome_simps intro!: progresses_same split: option.splits)[]
  done

lemma append_event_progresses: "progresses s (snd (append_event e s))"
  by (auto simp: append_event_def Let_def intro!: progresses_same)

lemma perform_progresses: "in_place c \<Longrightarrow> progresses s (perform p s c)"
proof (cases c)
  case (CommitDesign x)
  then show ?thesis by (simp add: commit_design_progresses)
next
  case (AppendEvent e)
  then show ?thesis by (simp add: append_event_progresses)
qed (simp_all add: in_place_def, (rule after_inv after_answer_inv, rule progresses_refl,
    erule other_progresses more_progresses append_revision_progresses create_review_progresses
      review_operation_progresses mutate_review_progresses create_request_progresses update_request_progresses)+)

interpretation in_place: total_machine "step_in_place p" "consistent p" progresses
  by unfold_locales
    (auto simp: step_in_place_def perform_at_consistent perform_at_def perform_progresses
      intro: progresses_trans dest: perform_at_consistent [unfolded perform_at_def])

lemma in_place_run:
  "consistent p s \<Longrightarrow> list_all (\<lambda>c. in_place (snd c)) cs \<Longrightarrow> progresses s (foldl (perform_at p) s cs)"
  using in_place.run_forward [of p s cs] by (simp add: foldl_in_place)

lemma run_consistent: "consistent p s \<Longrightarrow> ordered_log s \<Longrightarrow> consistent p (foldl (perform_at p) s cs)"
  using repository.run_invariant [of p s cs] by simp

end
