(* ===== verification/Collab_Isolation.thy ===== *)
theory Collab_Isolation
  imports Collab_Progress
begin

text \<open>
  What the other projects notice of the replacement or the deletion of one project, and that an export
  after a replacement returns the snapshot.
\<close>

section \<open>The records of a project\<close>

text \<open>The lists that an export selects, and the identifiers among them.\<close>

lemma selected_lookup:
  "keyed name t \<Longrightarrow> v \<in> set (filter b (map snd t)) \<Longrightarrow> map_of t (name v) = Some v \<and> b v"
  using keyed_member by fastforce

lemma clears_lookup: "clears name b xs t \<Longrightarrow> x \<in> set xs \<Longrightarrow> map_of t (name x) = Some v \<Longrightarrow> b v"
  by (auto simp: clears_def list_all_iff)

definition selected_comments :: "string \<Rightarrow> store \<Rightarrow> comment list" where
  "selected_comments i s = filter (\<lambda>c. comment_thread c \<in> threads_of i s) (map snd (comments s))"

definition selected_reactions :: "string \<Rightarrow> store \<Rightarrow> reaction list" where
  "selected_reactions i s = filter (\<lambda>r. reaction_comment r \<in> comments_of i s) (map snd (reactions s))"

definition selected_approvals :: "string \<Rightarrow> store \<Rightarrow> approval list" where
  "selected_approvals i s = filter (\<lambda>a. approval_revision a \<in> revisions_of i s) (map snd (approvals s))"

lemma project_snapshot_parts:
  "project_snapshot i x s = \<lparr>snap_format = collaboration_format, snap_project = x,
     snap_revisions = filter (\<lambda>r. rev_project r = i) (map snd (revisions s)),
     snap_threads = filter (\<lambda>t. thread_project t = i) (map snd (threads s)),
     snap_comments = selected_comments i s, snap_reactions = selected_reactions i s,
     snap_approvals = selected_approvals i s,
     snap_reviews = filter (\<lambda>t. review_project t = i) (map snd (reviews s)),
     snap_requests = filter (\<lambda>a. ai_project a = i) (map snd (requests s)),
     snap_annotations = filter (\<lambda>a. annotation_project a = i) (map snd (annotations s)),
     snap_review_state = map_of (states s) i\<rparr>"
  by (simp add: project_snapshot_def Let_def selected_comments_def selected_reactions_def selected_approvals_def
      threads_of_def comments_of_def revisions_of_def)

lemma thread_ids:
  assumes "consistent p s"
  shows "k \<in> threads_of i s \<longleftrightarrow> thread_owner s k = Some i"
proof -
  have "k \<in> threads_of i s \<longleftrightarrow> (\<exists>t. map_of (threads s) k = Some t \<and> thread_project t = i)"
    unfolding threads_of_def by (rule keyed_ids [OF consistent_tables(3) [OF assms]])
  then show ?thesis by (simp add: thread_owner_def)
qed

lemma revision_ids:
  assumes "consistent p s"
  shows "k \<in> revisions_of i s \<longleftrightarrow> revision_owner s k = Some i"
proof -
  have "k \<in> revisions_of i s \<longleftrightarrow> (\<exists>r. map_of (revisions s) k = Some r \<and> rev_project r = i)"
    unfolding revisions_of_def by (rule keyed_ids [OF consistent_tables(2) [OF assms]])
  then show ?thesis by (simp add: revision_owner_def)
qed

lemma comment_ids:
  assumes "consistent p s"
  shows "k \<in> comments_of i s \<longleftrightarrow> comment_owner s k = Some i"
proof -
  have "k \<in> comments_of i s \<longleftrightarrow> (\<exists>c. map_of (comments s) k = Some c \<and> comment_thread c \<in> threads_of i s)"
    unfolding comments_of_def by (rule keyed_ids [OF consistent_tables(7) [OF assms]])
  then show ?thesis by (simp add: comment_owner_def bind_eq_Some_conv thread_ids [OF assms])
qed

section \<open>Replacement leaves the other projects alone\<close>

lemma replaced_threads_of:
  assumes "consistent p s" "snapshot_sound p x" "\<not> snapshot_collides x s" "j \<noteq> project_id (snap_project x)"
  shows "filter (\<lambda>t. thread_project t = j) (map snd (threads (replaced x kept s))) =
       filter (\<lambda>t. thread_project t = j) (map snd (threads s))"
    "filter (\<lambda>r. rev_project r = j) (map snd (revisions (replaced x kept s))) =
       filter (\<lambda>r. rev_project r = j) (map snd (revisions s))"
    "filter (\<lambda>t. review_project t = j) (map snd (reviews (replaced x kept s))) =
       filter (\<lambda>t. review_project t = j) (map snd (reviews s))"
    "filter (\<lambda>a. ai_project a = j) (map snd (requests (replaced x kept s))) =
       filter (\<lambda>a. ai_project a = j) (map snd (requests s))"
    "filter (\<lambda>a. annotation_project a = j) (map snd (annotations (replaced x kept s))) =
       filter (\<lambda>a. annotation_project a = j) (map snd (annotations s))"
proof -
  note clear = no_collision_clears [OF assms(3) refl] and tables = consistent_tables [OF assms(1)]
  note parts = replaced_parts [OF refl, of x kept s] and sound = assms(2) [unfolded snapshot_sound_def Let_def]
  show "filter (\<lambda>t. thread_project t = j) (map snd (threads (replaced x kept s))) =
       filter (\<lambda>t. thread_project t = j) (map snd (threads s))"
    unfolding parts(3) by (rule swapped_selected [OF tables(3) clear(2)]) (use sound assms(4) in auto)
  show "filter (\<lambda>r. rev_project r = j) (map snd (revisions (replaced x kept s))) =
       filter (\<lambda>r. rev_project r = j) (map snd (revisions s))"
    unfolding parts(2) by (rule swapped_selected [OF tables(2) clear(1)]) (use sound assms(4) in auto)
  show "filter (\<lambda>t. review_project t = j) (map snd (reviews (replaced x kept s))) =
       filter (\<lambda>t. review_project t = j) (map snd (reviews s))"
    unfolding parts(7) by (rule swapped_selected [OF tables(4) clear(4)]) (use sound assms(4) in auto)
  show "filter (\<lambda>a. ai_project a = j) (map snd (requests (replaced x kept s))) =
       filter (\<lambda>a. ai_project a = j) (map snd (requests s))"
    unfolding parts(8) by (rule swapped_selected [OF tables(5) clear(5)]) (use sound assms(4) in auto)
  show "filter (\<lambda>a. annotation_project a = j) (map snd (annotations (replaced x kept s))) =
       filter (\<lambda>a. annotation_project a = j) (map snd (annotations s))"
    unfolding parts(9) by (rule swapped_selected [OF tables(6) clear(6)]) (use sound assms(4) in auto)
qed

lemma snapshot_members:
  assumes "snapshot_sound p x" "i = project_id (snap_project x)"
  shows "r \<in> set (snap_revisions x) \<Longrightarrow> rev_project r = i" "c \<in> set (snap_comments x) \<Longrightarrow> comment_thread c \<in> thread_id ` set (snap_threads x)"
    "e \<in> set (snap_reactions x) \<Longrightarrow> reaction_comment e \<in> comment_id ` set (snap_comments x)"
    "a \<in> set (snap_approvals x) \<Longrightarrow> approval_revision a \<in> rev_id ` set (snap_revisions x)"
  using assms by (auto simp: snapshot_sound_def Let_def)

lemma replaced_selected:
  assumes "consistent p s" "snapshot_sound p x" "\<not> snapshot_collides x s" "j \<noteq> i" "i = project_id (snap_project x)"
  shows "selected_comments j (replaced x kept s) = selected_comments j s"
    "selected_reactions j (replaced x kept s) = selected_reactions j s"
    "selected_approvals j (replaced x kept s) = selected_approvals j s"
proof -
  define s' where "s' = replaced x kept s"
  note clear = no_collision_clears [OF assms(3,5)] and tables = consistent_tables [OF assms(1)]
  note parts = replaced_parts [OF assms(5), where kept = kept and s = s, folded s'_def]
  note same = replaced_threads_of [OF assms(1-3), of j, folded assms(5), OF assms(4), where kept = kept, folded s'_def]
  note member = snapshot_members [OF assms(2,5)]
  have threads: "threads_of j s' = threads_of j s" and revisions: "revisions_of j s' = revisions_of j s"
    by (simp_all add: threads_of_def revisions_of_def same)
  have thread: "thread_id t \<notin> threads_of j s" if "t \<in> set (snap_threads x)" for t
    using clears_lookup [OF clear(2) that] assms(4) by (auto simp: thread_ids [OF assms(1)] thread_owner_def)
  have comment: "comment_id c \<notin> comments_of j s" if "c \<in> set (snap_comments x)" for c
    using clears_lookup [OF clear(3) that] assms(4)
    by (auto simp: comment_ids [OF assms(1)] comment_owner_def bind_eq_Some_conv)
  have revision: "rev_id r \<notin> revisions_of j s" if "r \<in> set (snap_revisions x)" for r
    using clears_lookup [OF clear(1) that] assms(4) by (auto simp: revision_ids [OF assms(1)] revision_owner_def)
  have new_comment: "comment_thread c \<notin> threads_of j s" if "c \<in> set (snap_comments x)" for c
    using member(2) [OF that] thread by auto
  have new_reaction: "reaction_comment e \<notin> comments_of j s" if "e \<in> set (snap_reactions x)" for e
    using member(3) [OF that] comment by auto
  have new_approval: "approval_revision a \<notin> revisions_of j s" if "a \<in> set (snap_approvals x)" for a
    using member(4) [OF that] revision by auto
  show comments: "selected_comments j s' = selected_comments j s"
    unfolding selected_comments_def threads parts(4)
    by (rule swapped_selected [OF tables(7) clear(3) new_comment])
      (use assms(4) in \<open>auto simp: thread_ids [OF assms(1)]\<close>)
  have comments_of: "comments_of j s' = comments_of j s"
    using comments by (simp add: comments_of_def selected_comments_def)
  show "selected_reactions j s' = selected_reactions j s"
    unfolding selected_reactions_def comments_of parts(5)
    by (rule swapped_selected [OF tables(8) clear(7) new_reaction])
      (use assms(4) in \<open>auto simp: comment_ids [OF assms(1)]\<close>)
  show "selected_approvals j s' = selected_approvals j s"
    unfolding selected_approvals_def revisions parts(6)
    by (rule swapped_selected [OF tables(9) clear(8) new_approval])
      (use assms(4) in \<open>auto simp: revision_ids [OF assms(1)]\<close>)
qed

lemma replaced_state_other:
  "j \<noteq> project_id (snap_project x) \<Longrightarrow> map_of (states (replaced x kept s)) j = map_of (states s) j"
  by (simp add: replaced_parts [OF refl] AList.update_conv' AList.delete_conv' split: option.split)

lemma replaced_isolated:
  assumes "consistent p s" "snapshot_sound p x" "\<not> snapshot_collides x s" "j \<noteq> project_id (snap_project x)"
  shows "project_snapshot j y (replaced x kept s) = project_snapshot j y s"
  unfolding project_snapshot_parts
  by (simp add: replaced_threads_of [OF assms] replaced_selected [OF assms refl] replaced_state_other [OF assms(4)])

section \<open>Deletion leaves the other projects alone and nothing of its own\<close>

lemma delete_selected:
  assumes "keyed name t"
  shows "map snd (delete_all (map name (filter b (map snd t))) t) = filter (\<lambda>v. \<not> b v) (map snd t)"
proof -
  have "fst kv \<in> set (map name (filter b (map snd t))) \<longleftrightarrow> b (snd kv)" if "kv \<in> set t" for kv
  proof -
    have "map_of t (fst kv) = Some (snd kv)" using assms that by (simp add: keyed_def)
    then show ?thesis using keyed_ids [OF assms, of "fst kv" b] by simp
  qed
  then have "delete_all (map name (filter b (map snd t))) t = filter (\<lambda>kv. \<not> b (snd kv)) t"
    unfolding delete_all_is_filter by (intro filter_cong) auto
  then show ?thesis by (simp add: filter_map comp_def)
qed

lemma cleared_lists:
  assumes "consistent p s"
  shows "map snd (revisions (clear_project i s)) = filter (\<lambda>r. rev_project r \<noteq> i) (map snd (revisions s))"
    "map snd (threads (clear_project i s)) = filter (\<lambda>t. thread_project t \<noteq> i) (map snd (threads s))"
    "map snd (comments (clear_project i s)) = filter (\<lambda>c. comment_thread c \<notin> threads_of i s) (map snd (comments s))"
    "map snd (reviews (clear_project i s)) = filter (\<lambda>t. review_project t \<noteq> i) (map snd (reviews s))"
    "map snd (requests (clear_project i s)) = filter (\<lambda>a. ai_project a \<noteq> i) (map snd (requests s))"
    "map snd (annotations (clear_project i s)) = filter (\<lambda>a. annotation_project a \<noteq> i) (map snd (annotations s))"
    "map snd (reactions (clear_project i s)) = filter (\<lambda>r. reaction_comment r \<notin> comments_of i s) (map snd (reactions s))"
    "map snd (approvals (clear_project i s)) = filter (\<lambda>a. approval_revision a \<notin> revisions_of i s) (map snd (approvals s))"
  using delete_selected [OF consistent_tables(2) [OF assms], of "\<lambda>r. rev_project r = i"]
    delete_selected [OF consistent_tables(3) [OF assms], of "\<lambda>t. thread_project t = i"]
    delete_selected [OF consistent_tables(7) [OF assms], of "\<lambda>c. comment_thread c \<in> threads_of i s"]
  by (simp_all add: clear_project_def Let_def without_def filter_map comp_def threads_of_def comments_of_def
      revisions_of_def image_image)

lemma filter_other: "j \<noteq> i \<Longrightarrow> filter (\<lambda>v. f v = j) (filter (\<lambda>v. f v \<noteq> i) xs) = filter (\<lambda>v. f v = j) xs"
  by (auto intro: filter_cong)

lemma cleared_isolated:
  assumes "consistent p s" "j \<noteq> i"
  shows "project_snapshot j y (clear_project i s) = project_snapshot j y s"
proof -
  note lists = cleared_lists [OF assms(1), of i]
  have threads: "threads_of j (clear_project i s) = threads_of j s"
    and revisions: "revisions_of j (clear_project i s) = revisions_of j s"
    unfolding threads_of_def revisions_of_def lists using assms(2) by (auto intro!: arg_cong [where f = "image _"])
  have "k \<notin> threads_of i s" if "k \<in> threads_of j s" for k
    using that assms(2) by (simp add: thread_ids [OF assms(1)])
  then have comments: "selected_comments j (clear_project i s) = selected_comments j s"
    unfolding selected_comments_def threads lists by (auto intro: filter_cong)
  then have comments_of: "comments_of j (clear_project i s) = comments_of j s"
    by (simp add: comments_of_def selected_comments_def)
  have "k \<notin> comments_of i s" if "k \<in> comments_of j s" for k
    using that assms(2) by (simp add: comment_ids [OF assms(1)])
  then have "selected_reactions j (clear_project i s) = selected_reactions j s"
    unfolding selected_reactions_def comments_of lists by (auto intro: filter_cong)
  moreover have "k \<notin> revisions_of i s" if "k \<in> revisions_of j s" for k
    using that assms(2) by (simp add: revision_ids [OF assms(1)])
  then have "selected_approvals j (clear_project i s) = selected_approvals j s"
    unfolding selected_approvals_def revisions lists by (auto intro: filter_cong)
  ultimately show ?thesis
    using comments assms(2) unfolding project_snapshot_parts lists
    by (simp add: clear_project_parts AList.delete_conv' filter_other del: filter_filter)
qed

text \<open>Nothing of the deleted project can be found.\<close>

lemma cleared_empty:
  assumes "consistent p s"
  shows "project_snapshot i y (clear_project i s) = \<lparr>snap_format = collaboration_format, snap_project = y,
     snap_revisions = [], snap_threads = [], snap_comments = [], snap_reactions = [], snap_approvals = [],
     snap_reviews = [], snap_requests = [], snap_annotations = [], snap_review_state = None\<rparr>"
    "map_of (projects (clear_project i s)) i = None"
proof -
  note lists = cleared_lists [OF assms, of i]
  have none: "threads_of i (clear_project i s) = {}" "revisions_of i (clear_project i s) = {}"
    unfolding threads_of_def revisions_of_def lists by auto
  then have comments: "selected_comments i (clear_project i s) = []" by (simp add: selected_comments_def)
  then have "comments_of i (clear_project i s) = {}" by (simp add: comments_of_def selected_comments_def)
  then show "project_snapshot i y (clear_project i s) = \<lparr>snap_format = collaboration_format, snap_project = y,
     snap_revisions = [], snap_threads = [], snap_comments = [], snap_reactions = [], snap_approvals = [],
     snap_reviews = [], snap_requests = [], snap_annotations = [], snap_review_state = None\<rparr>"
    unfolding project_snapshot_parts lists
    by (simp add: comments selected_reactions_def selected_approvals_def none clear_project_parts AList.delete_conv')
  show "map_of (projects (clear_project i s)) i = None" by (simp add: clear_project_parts AList.delete_conv')
qed

section \<open>An export after a replacement\<close>

lemma swapped_filter:
  assumes "keyed name t" "clears name b xs t" "distinct (map name xs)"
    and "\<And>x. x \<in> set xs \<Longrightarrow> chosen x" "\<And>v. v \<in> snd ` set t \<Longrightarrow> chosen v \<Longrightarrow> b v"
  shows "filter chosen (map snd (put_all name xs (without b t))) = xs"
  unfolding swapped_append [OF assms(1-3)]
  using assms(4,5) by (auto simp: filter_empty_conv)

lemma replaced_snapshot:
  assumes "consistent p s" "snapshot_sound p x" "\<not> snapshot_collides x s" "i = project_id (snap_project x)"
    and "snap_format x = collaboration_format"
    and "distinct (map reaction_key (snap_reactions x))" "distinct (map approval_key (snap_approvals x))"
  shows "project_snapshot i (snap_project x) (replaced x kept s) = x"
proof -
  define s' where "s' = replaced x kept s"
  note clear = no_collision_clears [OF assms(3,4)] and tables = consistent_tables [OF assms(1)]
  note parts = replaced_parts [OF assms(4), where kept = kept and s = s, folded s'_def]
  note sound = assms(2) [unfolded snapshot_sound_def Let_def, folded assms(4)]
  note member = snapshot_members [OF assms(2,4)]
  have threads: "filter (\<lambda>t. thread_project t = i) (map snd (threads s')) = snap_threads x"
    unfolding parts(3) by (rule swapped_filter [OF tables(3) clear(2)]) (use sound in auto)
  have revisions: "filter (\<lambda>r. rev_project r = i) (map snd (revisions s')) = snap_revisions x"
    unfolding parts(2) by (rule swapped_filter [OF tables(2) clear(1)]) (use sound in auto)
  have lists: "filter (\<lambda>t. review_project t = i) (map snd (reviews s')) = snap_reviews x"
    "filter (\<lambda>a. ai_project a = i) (map snd (requests s')) = snap_requests x"
    "filter (\<lambda>a. annotation_project a = i) (map snd (annotations s')) = snap_annotations x"
    unfolding parts(7-9)
    by (rule swapped_filter [OF tables(4) clear(4)] swapped_filter [OF tables(5) clear(5)]
        swapped_filter [OF tables(6) clear(6)]; use sound in auto)+
  have ids: "threads_of i s' = thread_id ` set (snap_threads x)" "revisions_of i s' = rev_id ` set (snap_revisions x)"
    by (simp_all add: threads_of_def revisions_of_def threads revisions del: set_filter)
  have comments: "selected_comments i s' = snap_comments x"
    unfolding selected_comments_def ids parts(4)
  proof (rule swapped_filter [OF tables(7) clear(3)])
    fix c assume c: "c \<in> snd ` set (comments s)" "comment_thread c \<in> thread_id ` set (snap_threads x)"
    then obtain t where t: "t \<in> set (snap_threads x)" "thread_id t = comment_thread c" by auto
    have "map_of (comments s) (comment_id c) = Some c" using keyed_member [OF tables(7)] c(1) by blast
    then obtain u where "map_of (threads s) (thread_id t) = Some u"
      using consistent_values(6) [OF assms(1)] t(2) by (auto simp: comment_known_def has_def)
    then show "comment_of s i c" using clears_lookup [OF clear(2) t(1)] t(2) by (simp add: thread_owner_def)
  qed (use sound member in auto)
  have comments_of: "comments_of i s' = comment_id ` set (snap_comments x)"
    using comments by (simp add: comments_of_def selected_comments_def del: set_filter)
  have "selected_reactions i s' = snap_reactions x"
    unfolding selected_reactions_def comments_of parts(5)
  proof (rule swapped_filter [OF tables(8) clear(7) assms(6)])
    fix r assume r: "r \<in> snd ` set (reactions s)" "reaction_comment r \<in> comment_id ` set (snap_comments x)"
    then obtain c where c: "c \<in> set (snap_comments x)" "comment_id c = reaction_comment r" by auto
    have "map_of (reactions s) (reaction_key r) = Some r" using keyed_member [OF tables(8)] r(1) by blast
    then obtain d where "map_of (comments s) (comment_id c) = Some d"
      using consistent_values(7) [OF assms(1)] c(2) by (auto simp: reaction_known_def has_def)
    then show "reaction_of s i r" using clears_lookup [OF clear(3) c(1)] c(2) by (simp add: comment_owner_def)
  qed (use member(3) in auto)
  moreover have "selected_approvals i s' = snap_approvals x"
    unfolding selected_approvals_def ids parts(6)
  proof (rule swapped_filter [OF tables(9) clear(8) assms(7)])
    fix a assume a: "a \<in> snd ` set (approvals s)" "approval_revision a \<in> rev_id ` set (snap_revisions x)"
    then obtain r where r: "r \<in> set (snap_revisions x)" "rev_id r = approval_revision a" by auto
    have "map_of (approvals s) (approval_key a) = Some a" using keyed_member [OF tables(9)] a(1) by blast
    then obtain q where "map_of (revisions s) (rev_id r) = Some q"
      using consistent_values(8) [OF assms(1)] r(2) by (auto simp: approval_known_def has_def)
    then show "approval_of s i a" using clears_lookup [OF clear(1) r(1)] r(2) by (simp add: revision_owner_def)
  qed (use member(4) in auto)
  moreover have "map_of (states s') i = snap_review_state x"
    by (simp add: parts(10) AList.update_conv' AList.delete_conv' split: option.split)
  ultimately show ?thesis
    unfolding s'_def [symmetric] project_snapshot_parts using threads revisions lists comments assms(5) by simp
qed

end
