(* ===== verification/Collab_Fixture.thy ===== *)
theory Collab_Fixture
  imports Collab_Isolation
begin

text \<open>
  A small repository: a platform, two projects, revisions, a review thread and its mutations, requests
  and events, with what the validators say of them.  The witnesses of the properties use it.
\<close>

definition sample_platform :: platform where
  "sample_platform = \<lparr>decimal_value = (\<lambda>d. 0), collate = (\<lambda>s t. if s = t then 0 else if s < t then -1 else 1),
     https_url = (\<lambda>s. False), clock = ''2026-01-01T00:00:00Z''\<rparr>"

definition sample_project :: project where
  "sample_project = \<lparr>project_id = ''p'', project_organization = ''o'', project_name = ''P''\<rparr>"

definition other_project :: project where
  "other_project = \<lparr>project_id = ''q'', project_organization = ''o'', project_name = ''Q''\<rparr>"

definition sample_revision :: revision where
  "sample_revision = \<lparr>rev_id = ''r1'', rev_project = ''p'', rev_sequence = 1, rev_parent = None, rev_content = JObj [],
     rev_sha = ''f1'', rev_scenarios = [''s''], rev_created_by = ''u'', rev_created_at = ''2026-01-02T03:04:05Z''\<rparr>"

definition next_revision :: revision where
  "next_revision = sample_revision\<lparr>rev_id := ''r2'', rev_sequence := 2, rev_parent := Some ''r1'', rev_sha := ''f2''\<rparr>"

definition sample_evidence :: evidence where
  "sample_evidence = \<lparr>ev_artifact = ''a'', ev_screen = ''w'', ev_revision = ''r1'', ev_fingerprint = ''f1'',
     ev_width = Whole 10, ev_height = Whole 10, ev_zoom = Whole 1, ev_scenario = None, ev_state = None, ev_node = None,
     ev_source = None\<rparr>"

definition sample_anchor :: anchor where
  "sample_anchor = \<lparr>anchor_evidence = sample_evidence, anchor_target = Point (Whole 0) (Whole 1),
     anchor_lifecycle = AnchorCurrent, mapped_from = None\<rparr>"

definition sample_message :: message where
  "sample_message = \<lparr>message_id = ''m1'', message_body = ''hi'', message_by = ''u'', message_at = ''2026-01-02T03:04:05Z'',
     message_parent = None, message_mentions = [], message_reactions = [], message_reads = []\<rparr>"

definition sample_reply :: message where
  "sample_reply = sample_message\<lparr>message_id := ''m2'', message_parent := Some ''m1''\<rparr>"

definition sample_review :: review_thread where
  "sample_review = \<lparr>review_id = ''t'', review_project = ''p'', review_binding = None, review_provenance = None,
     review_version = 1, review_anchor = sample_anchor, review_messages = [sample_message], review_link = ''/x'',
     review_lifecycle = ReviewOpen, review_by = ''u'', review_at = ''2026-01-02T03:04:05Z'', resolved_at = None,
     resolved_by = None, reopened_at = None, reopened_by = None, moved_at = None, moved_by = None\<rparr>"

definition sample_store :: store where
  "sample_store = empty_store\<lparr>projects := [(''p'', sample_project), (''q'', other_project)],
     revisions := [(''r1'', sample_revision)], reviews := [(''t'', sample_review)]\<rparr>"

lemmas sample_records = sample_platform_def sample_project_def other_project_def sample_revision_def next_revision_def
  sample_evidence_def sample_anchor_def sample_message_def sample_reply_def sample_review_def

lemmas record_jsons = project_json_def revision_json_def evidence_json_def anchor_json_def message_json_def emoji_json_def
  review_json_def binding_json_def provenance_json_def optional_def strings_json_def

lemma collab_limits:
  "max_baseline_depth = 64" "max_baseline_nodes = 10000" "max_baseline_bytes = 10485760" "max_items = 10000"
  "max_text = 1000000" "max_identifier = 128" "max_timestamp = 64" "max_evidence_items = 1000" "max_references = 1000"
  "max_url = 2048" "max_reaction_groups = 100" "max_receipt_bytes = 262144" "max_receipt_key_bytes = 256"
  "max_receipt_string_bytes = 65536" "max_receipt_items = 1000" "max_receipt_depth = 32"
  by (simp_all add: max_baseline_depth_def max_baseline_nodes_def max_baseline_bytes_def max_items_def max_text_def
      max_identifier_def max_timestamp_def max_evidence_items_def max_references_def max_url_def max_reaction_groups_def
      max_receipt_bytes_def max_receipt_key_bytes_def max_receipt_string_bytes_def max_receipt_items_def max_receipt_depth_def)

lemmas boundary_eval = fits_boundary_iff ownable_def collab_limits

lemma sample_fits:
  "fits_boundary (revision_json sample_revision)" "fits_boundary (revision_json next_revision)"
  "fits_boundary (project_json sample_project)" "fits_boundary (anchor_json sample_anchor)"
  "fits_boundary (message_json sample_reply)" "fits_boundary (review_json sample_review)" "fits_boundary (JStr ''/x'')"
  by (simp_all add: boundary_eval sample_records record_jsons nat_text.simps)

lemma sample_timestamp: "require_timestamp ''2026-01-02T03:04:05Z'' = Inr ()"
  by code_simp

lemmas text_eval = require_text_within_def text_fits_def require_identifier_def stable_identifier_def js_trim_def
  is_js_space_def is_letter_def is_lower_def is_upper_def is_digit_def is_id_char_def

lemma sample_identifiers:
  "require_identifier ''p'' = Inr ()" "require_identifier ''t'' = Inr ()" "require_identifier ''u'' = Inr ()"
  "require_identifier ''m1'' = Inr ()" "require_identifier ''m2'' = Inr ()" "require_identifier ''a'' = Inr ()"
  "require_identifier ''w'' = Inr ()" "require_identifier ''r1'' = Inr ()"
  by (simp_all add: text_eval collab_limits)

lemma sample_texts_fit:
  "require_text_within 4000 ''hi'' = Inr ()" "require_text_within 128 ''f1'' = Inr ()" "require_text_within 2048 ''/x'' = Inr ()"
  by (simp_all add: text_eval)

lemma sample_validates:
  "validate_review_thread sample_platform sample_review = Inr ()"
  "validate_anchor sample_platform sample_anchor sample_revision = Inr ()"
  using sample_fits sample_timestamp sample_identifiers sample_texts_fit
  by (simp_all add: validate_review_thread_def validate_anchor_def validate_lifecycle_def validate_message_def
      validate_evidence_def optionally_require_def sample_review_def sample_anchor_def sample_evidence_def sample_message_def
      sample_revision_def sample_platform_def validate_deep_link_def safe_version_def max_safe_integer_def collab_limits
      starts_with_def unsafe_path_char_def require_coordinate_def)

lemma sample_consistent: "consistent sample_platform sample_store" "ordered_log sample_store"
  using sample_validates
  by (simp_all add: consistent_def sample_store_def empty_store_def table_of_def keyed_def known_defs has_def
      revision_in_def sample_project_def other_project_def sample_revision_def sample_review_def sample_anchor_def
      sample_evidence_def anchored_revision_def ordered_log_def)

section \<open>A resolution of the review thread\<close>

definition sample_resolution :: mutation where
  "sample_resolution = \<lparr>operation_id = ''op'', expected_version = 1,
     mutation_request = ResolveReview ''t'' ''u'' ''2026-01-02T03:04:05Z''\<rparr>"

definition resolution_entries :: "(string \<times> json) list" where
  "resolution_entries = [(''operationId'', JStr ''op''), (''expectedVersion'', JNum 1), (''kind'', JStr ''resolve''),
     (''threadId'', JStr ''t''), (''actorId'', JStr ''u''), (''occurredAt'', JStr ''2026-01-02T03:04:05Z'')]"

definition resolution_text :: string where
  "resolution_text = stringify (JObj [(''actorId'', JStr ''u''), (''expectedVersion'', JNum 1), (''kind'', JStr ''resolve''),
     (''threadId'', JStr ''t'')])"

lemmas receipt_eval = preflight.simps receipt_node_def receipt_add_def no_receipt_def nat_text.simps int_text_def
  own_value_fits boundary_eval

lemmas encode_eval = encode_value.simps collated_def js_sort_def push_chunk_def chunk_node_def comma_before_def
  bool_text_def

lemma sample_normalized: "normalize_mutation (mutation_json sample_resolution) = Inr resolution_entries"
proof -
  have "mutation_shape resolution_entries"
    by (simp add: resolution_entries_def mutation_shape_def field_def text_between_def exact_keys_def collab_limits
        max_safe_integer_def insert_commute)
  then show ?thesis
    by (simp add: normalize_mutation_def sample_resolution_def resolution_entries_def mutation_json_def receipt_eval)
qed

lemma sample_fingerprint:
  "mutation_fingerprint sample_platform (mutation_json sample_resolution) = Inr resolution_text"
  by (simp add: mutation_fingerprint_def sample_normalized resolution_entries_def mutation_payload_def field_def encode_eval
      sample_platform_def collab_limits quote_text_def escape_char_def int_text_def nat_text.simps Let_def
      resolution_text_def)

definition resolved_review :: review_thread where
  "resolved_review = resolved ''u'' ''2026-01-02T03:04:05Z'' sample_review"

lemma resolved_validates: "validate_review_thread sample_platform resolved_review = Inr ()"
proof -
  have "fits_boundary (review_json resolved_review)"
    by (simp add: boundary_eval resolved_review_def resolved_def next_version_def sample_records record_jsons nat_text.simps)
  moreover have "validate_deep_link sample_platform ''/x'' = Inr () \<and> validate_message [] sample_message = Inr () \<and>
      max_evidence_items \<noteq> 0"
    using sample_validates(1) by (simp add: validate_review_thread_def sample_review_def outcome_simps)
  ultimately show ?thesis using sample_timestamp sample_identifiers
    by (simp add: validate_review_thread_def validate_lifecycle_def resolved_review_def resolved_def next_version_def
      sample_review_def owned_as_Inr safe_version_def max_safe_integer_def optionally_require_def)
qed

definition resolved_store :: store where
  "resolved_store = (put_review ''t'' resolved_review sample_store)\<lparr>receipts :=
     [(scoped_key (review_scope ''o'' ''p'' ''t'') ''op'', receipt_of (mutation_request sample_resolution) resolution_text)]\<rparr>"

lemma sample_scope: "mutation_scope sample_resolution sample_store = Some (review_scope ''o'' ''p'' ''t'')"
  by (simp add: mutation_scope_def mutation_project_def sample_store_def empty_store_def sample_resolution_def
      sample_review_def sample_project_def)

lemma sample_applied:
  "mutate_review sample_platform sample_resolution sample_store = Inr (ReviewApplied resolved_review resolution_text, resolved_store)"
proof -
  have current: "map_of (reviews sample_store) ''t'' = Some sample_review" "receipts sample_store = []"
    by (simp_all add: sample_store_def empty_store_def)
  have open_thread: "review_lifecycle sample_review = ReviewOpen" "review_version sample_review = 1"
    by (simp_all add: sample_review_def)
  have operation: "mutation_request sample_resolution = ResolveReview ''t'' ''u'' ''2026-01-02T03:04:05Z''"
    "operation_id sample_resolution = ''op''" "expected_version sample_resolution = 1"
    by (simp_all add: sample_resolution_def)
  have written: "write_review (review_scope ''o'' ''p'' ''t'') ''op'' (ResolveReview ''t'' ''u'' ''2026-01-02T03:04:05Z'')
      resolution_text resolved_review sample_store = (ReviewApplied resolved_review resolution_text, resolved_store)"
    by (simp add: write_review_def resolved_store_def current operation prune_receipts_def Let_def)
  have "require_text_within 256 ''op'' = Inr ()" by (simp add: text_eval)
  then show ?thesis
    using sample_normalized sample_fingerprint sample_scope resolved_validates written
    by (simp add: mutate_review_def operation current mutate_current_def open_thread resolved_review_def [symmetric])
qed

section \<open>Events\<close>

definition sample_event :: event_input where
  "sample_event = \<lparr>event_id = ''e1'', event_project = ''p'', event_type = ''x'', event_actor = None,
     event_resource_type = ''y'', event_resource = ''r1'', event_payload = JObj [], event_at = ''2026-01-02T03:04:05Z''\<rparr>"

definition event_calls :: "(string \<times> repository_command) list" where
  "event_calls = [('''', AppendEvent sample_event), ('''', AppendEvent (sample_event\<lparr>event_id := ''e2''\<rparr>))]"

lemma event_log:
  "foldl (perform_at sample_platform) empty_store event_calls = empty_store\<lparr>cursor := 2,
     events := [stored_event sample_event 1, stored_event (sample_event\<lparr>event_id := ''e2''\<rparr>) 2]\<rparr>"
proof -
  have "fits_boundary (event_input_json sample_event)" "fits_boundary (event_input_json (sample_event\<lparr>event_id := ''e2''\<rparr>))"
    "fits_boundary (event_json (stored_event sample_event 1))"
    "fits_boundary (event_json (stored_event (sample_event\<lparr>event_id := ''e2''\<rparr>) 2))"
    by (simp_all add: boundary_eval sample_event_def event_input_json_def event_json_def event_entries_def stored_event_def
        event_input.defs optional_def nat_text.simps)
  then show ?thesis by (simp add: event_calls_def perform_at_def append_event_def empty_store_def Let_def collab_limits numeral_2_eq_2)
qed

lemma event_page:
  "list_events sample_platform ''p'' 0 1 (foldl (perform_at sample_platform) empty_store event_calls) = Inr [stored_event sample_event 1]"
proof -
  have "fits_boundary (event_json (stored_event sample_event 1))" "fits_boundary (JArr [event_json (stored_event sample_event 1)])"
    "event_project (stored_event e n) = event_project e" "event_cursor (stored_event e n) = n" for e n
    by (simp_all add: boundary_eval sample_event_def event_json_def event_entries_def stored_event_def
        event_input.defs optional_def nat_text.simps)
  then show ?thesis
    by (simp add: event_log list_events_def owned_list_def js_sort_def sample_event_def owned_as_Inr)
qed

section \<open>Requests for AI changes\<close>

definition sample_request :: ai_request where
  "sample_request = \<lparr>ai_id = ''a'', ai_project = ''p'', ai_anchor = Some sample_anchor, ai_instruction = ''do'',
     ai_provider = \<lparr>provider_id = ''v'', provider_capability = ''c'', provider_model = None, provider_implementation = None\<rparr>,
     ai_base = \<lparr>reference_id = ''r1'', reference_fingerprint = ''f1''\<rparr>, ai_lifecycle = Queued, ai_by = ''u'',
     ai_created = ''2026-01-02T03:04:05Z'', ai_updated = ''2026-01-02T03:04:05Z'', ai_result = None, ai_undo = None,
     ai_failure = None\<rparr>"

definition request_store :: store where
  "request_store = sample_store\<lparr>requests := [(''a'', sample_request)]\<rparr>"

lemma request_consistent: "consistent sample_platform request_store"
  using sample_consistent(1)
  by (simp add: consistent_def request_store_def table_of_def keyed_def known_defs has_def sample_store_def empty_store_def
      revision_in_def request_revisions_def sample_request_def sample_project_def sample_revision_def other_project_def sample_review_def
      sample_anchor_def sample_evidence_def anchored_revision_def)

section \<open>Design commands\<close>

definition sample_readiness :: readiness_input where
  "sample_readiness = \<lparr>ready_id = ''b1'', ready_revision = ''r1'', ready_intent = ForReview, ready_fingerprint = ''f1''\<rparr>"

definition sample_marking :: design_input where
  "sample_marking = \<lparr>input_project = ''p'', input_actor = ''u'', input_at = ''2026-01-02T03:04:05Z'', input_key = Some ''k'',
     input_scope = None, input_command = MarkDesign sample_readiness\<rparr>"

definition sample_advance :: "string \<Rightarrow> design_input" where
  "sample_advance i = sample_marking\<lparr>input_key := None,
     input_command := AppendAndMark next_revision (Some ''r1'') (sample_readiness\<lparr>ready_id := i\<rparr>)\<rparr>"

lemmas command_records = sample_marking_def sample_advance_def sample_readiness_def

lemma commands_fit:
  "fits_boundary (design_input_json sample_marking)" "fits_boundary (design_input_json (sample_advance ''b1''))"
  "fits_boundary (design_input_json (sample_advance ''b2''))" "fits_boundary (kept_json (ReadinessCommitted sample_readiness))"
  by (simp_all add: boundary_eval command_records design_input_json_def readiness_json_def record_jsons sample_records
      optional_def nat_text.simps)

lemma sample_latest: "get_latest_revision sample_platform ''p'' sample_store = Inr (Some (copy_revision sample_revision))"
  using sample_fits(1)
  by (simp add: get_latest_revision_def bounded_def collab_limits latest_stored_def sample_store_def empty_store_def
      sample_revision_def js_sort_def owned_as_Inr)

definition marked_store :: store where
  "marked_store = sample_store\<lparr>states := [(''p'', ready_state sample_marking sample_readiness sample_revision)],
     responses := [(scoped_key ''design:u:p'' ''k'', ReadinessCommitted sample_readiness)]\<rparr>"

lemmas command_eval = commit_begin_def commit_finish_def commit_checks_def commit_response_def kept_for_def readiness_error_def
  write_revision_def write_baseline_def baseline_taken_def write_change_def keep_response_def response_key_def
  stored_state_def draft_state_def next_sequence_def has_def lacks_room_def optionally_require_def collab_limits Let_def
  text_eval

lemma sample_store_parts:
  "projects sample_store = [(''p'', sample_project), (''q'', other_project)]"
  "revisions sample_store = [(''r1'', sample_revision)]" "states sample_store = []" "responses sample_store = []"
  "reviews sample_store = [(''t'', sample_review)]" "requests sample_store = []" "receipts sample_store = []"
  by (simp_all add: sample_store_def empty_store_def)

lemma sample_revision_parts:
  "rev_id sample_revision = ''r1''" "rev_project sample_revision = ''p''" "rev_sequence sample_revision = 1"
  "rev_sha sample_revision = ''f1''" "copy_revision sample_revision = sample_revision"
  "rev_id next_revision = ''r2''" "rev_project next_revision = ''p''" "rev_sequence next_revision = 2"
  "rev_sha next_revision = ''f2''" "copy_revision next_revision = next_revision"
  by (simp_all add: sample_revision_def next_revision_def copy_revision_def)

lemma sample_command_parts:
  "input_project sample_marking = ''p''" "input_actor sample_marking = ''u''" "input_key sample_marking = Some ''k''"
  "input_scope sample_marking = None" "input_command sample_marking = MarkDesign sample_readiness"
  "input_project (sample_advance i) = ''p''" "input_key (sample_advance i) = None"
  "input_command (sample_advance i) = AppendAndMark next_revision (Some ''r1'') (sample_readiness\<lparr>ready_id := i\<rparr>)"
  "ready_revision sample_readiness = ''r1''" "ready_fingerprint sample_readiness = ''f1''" "ready_id sample_readiness = ''b1''"
  by (simp_all add: command_records)

lemmas sample_parts = sample_store_parts sample_revision_parts sample_command_parts

lemma sample_marked: "commit_design sample_platform sample_marking sample_store = (Inr (ReadinessCommitted sample_readiness, False), marked_store)"
proof -
  have "commit_begin sample_platform sample_marking sample_store = Inr (Inr (Some sample_revision))"
    using commands_fit sample_latest by (simp add: command_eval sample_parts)
  moreover have "commit_finish sample_marking (Some sample_revision) sample_store = (Inr (ReadinessCommitted sample_readiness, False), marked_store)"
    using commands_fit by (simp add: command_eval sample_parts marked_store_def owned_as_Inr)
  ultimately show ?thesis by (simp add: commit_design_def)
qed

lemma marked_parts:
  "projects marked_store = projects sample_store" "revisions marked_store = revisions sample_store"
  "states marked_store = [(''p'', ready_state sample_marking sample_readiness sample_revision)]"
  "responses marked_store = [(scoped_key ''design:u:p'' ''k'', ReadinessCommitted sample_readiness)]"
  by (simp_all add: marked_store_def)

lemma sample_advance_blocked:
  "commit_begin sample_platform (sample_advance ''b1'') marked_store = Inr (Inr (Some sample_revision))"
  "commit_checks (sample_advance ''b1'') (Some sample_revision) marked_store = Inr ()"
  "baseline_taken (sample_readiness\<lparr>ready_id := ''b1''\<rparr>) marked_store"
proof -
  have latest: "get_latest_revision sample_platform ''p'' marked_store = get_latest_revision sample_platform ''p'' sample_store"
    by (simp add: get_latest_revision_def marked_parts)
  show "commit_begin sample_platform (sample_advance ''b1'') marked_store = Inr (Inr (Some sample_revision))"
    using commands_fit latest sample_latest by (simp add: command_eval sample_parts marked_parts)
  show "commit_checks (sample_advance ''b1'') (Some sample_revision) marked_store = Inr ()"
    by (simp add: command_eval sample_parts marked_parts)
  show "baseline_taken (sample_readiness\<lparr>ready_id := ''b1''\<rparr>) marked_store"
    by (simp add: baseline_taken_def marked_parts ready_state_def baseline_of_def sample_parts)
qed

lemma sample_advanced:
  "commit_design sample_platform (sample_advance ''b2'') sample_store =
     (Inr (BothCommitted next_revision (sample_readiness\<lparr>ready_id := ''b2''\<rparr>), False),
      sample_store\<lparr>revisions := [(''r1'', sample_revision), (''r2'', next_revision)],
        states := [(''p'', ready_state (sample_advance ''b2'') (sample_readiness\<lparr>ready_id := ''b2''\<rparr>) next_revision)]\<rparr>)"
proof -
  have "commit_begin sample_platform (sample_advance ''b2'') sample_store = Inr (Inr (Some sample_revision))"
    using commands_fit sample_latest by (simp add: command_eval sample_parts)
  moreover have "commit_finish (sample_advance ''b2'') (Some sample_revision) sample_store =
     (Inr (BothCommitted next_revision (sample_readiness\<lparr>ready_id := ''b2''\<rparr>), False),
      sample_store\<lparr>revisions := [(''r1'', sample_revision), (''r2'', next_revision)],
        states := [(''p'', ready_state (sample_advance ''b2'') (sample_readiness\<lparr>ready_id := ''b2''\<rparr>) next_revision)]\<rparr>)"
    by (simp add: command_eval sample_parts)
  ultimately show ?thesis by (simp add: commit_design_def)
qed

section \<open>Appends\<close>

definition rival_revision :: revision where
  "rival_revision = next_revision\<lparr>rev_id := ''r3''\<rparr>"

lemma rival_parts:
  "rev_id rival_revision = ''r3''" "rev_project rival_revision = ''p''" "rev_sequence rival_revision = 2"
  "copy_revision rival_revision = rival_revision" "fits_boundary (revision_json rival_revision)"
  by (simp_all add: rival_revision_def sample_revision_parts copy_revision_def boundary_eval sample_records record_jsons
      nat_text.simps)

lemma sample_appends:
  "append_begin sample_platform next_revision sample_store = Inr (next_revision, Some sample_revision)"
  "append_begin sample_platform rival_revision sample_store = Inr (rival_revision, Some sample_revision)"
  "append_finish (next_revision, Some sample_revision) (Some ''r1'') sample_store =
     Inr (sample_store\<lparr>revisions := [(''r1'', sample_revision), (''r2'', next_revision)]\<rparr>)"
  "append_finish (rival_revision, Some sample_revision) (Some ''r1'') sample_store =
     Inr (sample_store\<lparr>revisions := [(''r1'', sample_revision), (''r3'', rival_revision)]\<rparr>)"
proof -
  show "append_begin sample_platform next_revision sample_store = Inr (next_revision, Some sample_revision)"
    "append_begin sample_platform rival_revision sample_store = Inr (rival_revision, Some sample_revision)"
    using sample_fits sample_latest rival_parts by (simp_all add: append_begin_def owned_as_Inr sample_parts has_def)
  show "append_finish (next_revision, Some sample_revision) (Some ''r1'') sample_store =
     Inr (sample_store\<lparr>revisions := [(''r1'', sample_revision), (''r2'', next_revision)]\<rparr>)"
    "append_finish (rival_revision, Some sample_revision) (Some ''r1'') sample_store =
     Inr (sample_store\<lparr>revisions := [(''r1'', sample_revision), (''r3'', rival_revision)]\<rparr>)"
    using rival_parts by (simp_all add: append_finish_def sample_parts next_sequence_def lacks_room_def collab_limits)
qed

section \<open>Snapshots\<close>

definition sample_snapshot :: snapshot where
  "sample_snapshot = \<lparr>snap_format = collaboration_format, snap_project = sample_project, snap_revisions = [sample_revision],
     snap_threads = [], snap_comments = [], snap_reactions = [], snap_approvals = [],
     snap_reviews = [sample_review\<lparr>review_id := ''t2''\<rparr>], snap_requests = [], snap_annotations = [], snap_review_state = None\<rparr>"

definition imported_store :: store where
  "imported_store = replaced sample_snapshot [] sample_store"

lemma sample_snapshot_fits: "fits_boundary (snapshot_json sample_snapshot)" "fits_boundary (review_json (sample_review\<lparr>review_id := ''t2''\<rparr>))"
  by (simp_all add: boundary_eval sample_snapshot_def snapshot_json_def sample_records record_jsons nat_text.simps collaboration_format_def)

lemma snapshot_review_validates: "validate_review_thread sample_platform (sample_review\<lparr>review_id := ''t2''\<rparr>) = Inr ()"
proof -
  have "require_identifier ''t2'' = Inr ()" by (simp add: text_eval collab_limits)
  moreover have "validate_deep_link sample_platform ''/x'' = Inr () \<and> validate_message [] sample_message = Inr () \<and>
      max_evidence_items \<noteq> 0"
    using sample_validates(1) by (simp add: validate_review_thread_def sample_review_def outcome_simps)
  ultimately show ?thesis using sample_timestamp sample_identifiers sample_snapshot_fits(2)
    by (simp add: validate_review_thread_def validate_lifecycle_def sample_review_def owned_as_Inr safe_version_def
        max_safe_integer_def optionally_require_def)
qed

lemma snapshot_validates: "validate_snapshot sample_platform sample_snapshot = Inr ()"
proof -
  have "validate_snapshot_review sample_platform ''p'' [sample_revision] (sample_review\<lparr>review_id := ''t2''\<rparr>) = Inr ()"
    using sample_validates(2) snapshot_review_validates
    by (simp add: validate_snapshot_review_def sample_records revision_named_def)
  moreover have "require_identifier ''o'' = Inr ()" "require_text_within 4000 ''P'' = Inr ()" "require_identifier ''s'' = Inr ()"
    by (simp_all add: text_eval collab_limits)
  ultimately show ?thesis using sample_snapshot_fits(1) sample_identifiers sample_texts_fit sample_timestamp
    by (simp add: validate_snapshot_def sample_snapshot_def owned_as_Inr sample_project_def oversized_def collab_limits
        validate_revision_def sample_revision_def safe_version_def max_safe_integer_def optionally_require_def)
qed

lemma sample_replaced: "replace_project sample_platform sample_snapshot None sample_store = Inr imported_store"
proof -
  have "copy_snapshot sample_snapshot = sample_snapshot"
    by (simp add: copy_snapshot_def sample_snapshot_def sample_parts)
  moreover have "\<not> snapshot_collides sample_snapshot sample_store"
    by (simp add: snapshot_collides_def collides_def sample_snapshot_def has_def sample_parts revision_owner_def sample_project_def)
  moreover have "\<not> store_overflows imported_store" "\<not> overfull sample_store"
    by (simp_all add: store_overflows_def overfull_def imported_store_def replaced_parts [OF refl] sample_snapshot_def put_all_def
        without_def sample_store_def empty_store_def collab_limits sample_project_def sample_revision_def sample_review_def)
  moreover have "length (revisions sample_store) \<le> max_items" "length (threads sample_store) \<le> max_items"
    "length (comments sample_store) \<le> max_items" "changes sample_store = []"
    by (simp_all add: sample_store_def empty_store_def collab_limits)
  ultimately show ?thesis using sample_snapshot_fits(1) snapshot_validates
    by (simp add: replace_project_def Let_def owned_as_Inr imported_store_def sample_snapshot_def optionally_require_def
        changes_of_state_def sample_parts delete_all_def)
qed

end
