(* ===== verification/Collab_Theorems.thy ===== *)
theory Collab_Theorems
  imports Collab_Fixture
begin

text \<open>
  The properties of the collaboration repository, with their witnesses and the lemmas that only they
  use.
\<close>

section \<open>Whole histories\<close>

text \<open>C5. Whatever calls a new repository receives, refused ones included, every record stays under its
  own name and these references hold: a revision belongs to a stored project; a thread, an annotation, a
  review thread and a request for an AI change belong with the revision they are anchored to, and the
  request with the revisions of its result and of its undone result, to one project in which those revisions
  are stored; a comment names a stored thread and a parent in it; a reaction names a stored comment, an
  approval a stored revision; a review state names a stored project and, with the changes since its baseline,
  stored changes of that project; and every stored review thread is valid.  Not among them, because the
  repository does not check or keep them: the parent of a revision, the revision of a baseline (a snapshot may
  bring one without it), and the projects of share links, events and audit entries.\<close>

theorem repository_stays_consistent: "consistent p (foldl (perform_at p) empty_store calls)"
  using run_consistent [of p empty_store] empty_consistent by (simp add: ordered_log_def empty_store_def)

text \<open>C21. Later calls take nothing back: the event and audit logs keep what they had as a prefix, a kept
  response never changes, a share link keeps its terms, and a link whose revocation the service honours stays
  so, unless one of the later calls revokes it with an empty time, which the service takes for no
  revocation.\<close>

theorem repository_takes_nothing_back:
  "only_appends (foldl (perform_at p) empty_store calls) (foldl (perform_at p) empty_store (calls @ later)) \<and>
   revoked_stay later (foldl (perform_at p) empty_store calls) (foldl (perform_at p) empty_store (calls @ later))"
proof -
  have "ordered_log empty_store" by (simp add: ordered_log_def empty_store_def)
  then have "consistent p empty_store \<and> ordered_log empty_store" using empty_consistent by simp
  then have "consistent p (foldl (perform_at p) empty_store calls) \<and> ordered_log (foldl (perform_at p) empty_store calls)"
    by (rule repository.run_invariant)
  from repository.run_forward [OF this, of later] show ?thesis by (simp add: revoked_stay_def run_dead)
qed

section \<open>The event log\<close>

lemma js_sort_ascending: "sorted_wrt (\<lambda>x y. cmp x y \<le> 0) xs \<Longrightarrow> js_sort cmp xs = xs"
proof (induction xs)
  case (Cons x xs)
  then show ?case by (cases xs) (simp_all add: js_sort_def)
qed (simp add: js_sort_def)

lemma sorted_wrt_filter: "sorted_wrt P xs \<Longrightarrow> sorted_wrt P (filter Q xs)"
  by (induction xs) auto

lemma sorted_wrt_take_prefix: "sorted_wrt P xs \<Longrightarrow> sorted_wrt P (take n xs)"
  by (induction xs arbitrary: n) (auto simp: take_Cons split: nat.split dest: in_set_takeD)

definition later_events :: "string \<Rightarrow> nat \<Rightarrow> store \<Rightarrow> event list" where
  "later_events i n s = filter (\<lambda>e. event_project e = i \<and> event_cursor e > n) (events s)"

lemma list_events_page:
  assumes "ordered_log s" "list_events p i n limit s = Inr page"
  shows "page = take limit (later_events i n s)"
proof -
  have "sorted_wrt (\<lambda>x y. event_cursor x < event_cursor y) (events s)"
    using assms(1) by (simp add: ordered_log_def sorted_wrt_map)
  then have "sorted_wrt (\<lambda>x y. event_cursor x < event_cursor y) (take limit (later_events i n s))"
    unfolding later_events_def by (intro sorted_wrt_take_prefix sorted_wrt_filter)
  then have "sorted_wrt (\<lambda>x y. by_cursor p x y \<le> 0) (take limit (later_events i n s))"
    by (rule sorted_wrt_mono_rel [rotated]) (simp add: by_cursor_def)
  then show ?thesis using assms(2)
    by (simp add: list_events_def owned_list_def outcome_simps js_sort_ascending later_events_def)
qed

lemma later_than_last:
  assumes "sorted_wrt (\<lambda>x y. f x < (f y :: nat)) xs" "take k xs \<noteq> []"
  shows "filter (\<lambda>x. f x > f (last (take k xs))) xs = drop k xs"
proof -
  let ?l = "last (take k xs)"
  have split: "sorted_wrt (\<lambda>x y. f x < f y) (take k xs @ drop k xs)" using assms(1) by simp
  have low: "f x \<le> f ?l" if "x \<in> set (take k xs)" for x
  proof -
    have "take k xs = butlast (take k xs) @ [?l]" using assms(2) by simp
    then have "sorted_wrt (\<lambda>x y. f x < f y) (butlast (take k xs) @ [?l])"
      using split sorted_wrt_append by metis
    moreover have "x \<in> set (butlast (take k xs)) \<or> x = ?l"
      using that assms(2) by (metis append_butlast_last_id in_set_butlastD insert_iff list.simps(15) rotate1.simps(2) set_rotate1)
    ultimately show ?thesis by (auto simp: sorted_wrt_append)
  qed
  have high: "f ?l < f x" if "x \<in> set (drop k xs)" for x
    using split [unfolded sorted_wrt_append] that last_in_set [OF assms(2)] by blast
  have "filter (\<lambda>x. f x > f ?l) (take k xs) = []" using low by (auto simp: filter_empty_conv not_less)
  moreover have "filter (\<lambda>x. f x > f ?l) (drop k xs) = drop k xs" using high by (simp add: filter_id_conv)
  ultimately show ?thesis by (metis append_Nil append_take_drop_id filter_append)
qed

text \<open>C23. Catching up loses and repeats nothing: a page that \<open>listEvents\<close> returns is the next events of the
  project in the order in which they were appended, and what is left after the cursor of its last event
  is exactly the rest.\<close>

theorem event_pages_are_complete:
  assumes "list_events p i n limit (foldl (perform_at p) empty_store calls) = Inr page"
  shows "later_events i n (foldl (perform_at p) empty_store calls) =
       page @ (if page = [] then drop limit (later_events i n (foldl (perform_at p) empty_store calls))
               else later_events i (event_cursor (last page)) (foldl (perform_at p) empty_store calls))"
proof -
  define s where "s = foldl (perform_at p) empty_store calls"
  have "ordered_log empty_store" by (simp add: ordered_log_def empty_store_def)
  then have log: "ordered_log s"
    using repository.run_invariant [of p empty_store calls] empty_consistent unfolding s_def by simp
  have page: "page = take limit (later_events i n s)" using list_events_page [OF log] assms unfolding s_def by blast
  show ?thesis
  proof (cases "page = []")
    case True
    then show ?thesis using page append_take_drop_id [of limit "later_events i n s"] unfolding s_def [symmetric] by simp
  next
    case False
    have "sorted_wrt (\<lambda>x y. event_cursor x < event_cursor y) (later_events i n s)"
      using log unfolding later_events_def ordered_log_def by (intro sorted_wrt_filter) (simp add: sorted_wrt_map)
    from later_than_last [OF this, of limit] False page
    have "filter (\<lambda>e. event_cursor e > event_cursor (last page)) (later_events i n s) = drop limit (later_events i n s)"
      by simp
    moreover have "last page \<in> set (later_events i n s)" using page last_in_set [OF False] in_set_takeD by metis
    then have "event_cursor (last page) > n" by (simp add: later_events_def)
    then have "filter (\<lambda>e. event_cursor e > event_cursor (last page)) (later_events i n s) =
        later_events i (event_cursor (last page)) s"
      by (auto simp: later_events_def intro: filter_cong)
    ultimately show ?thesis
      using False page append_take_drop_id [of limit "later_events i n s"] unfolding s_def [symmetric] by simp
  qed
qed

theorem event_pages_are_complete_witness:
  "later_events ''p'' 0 (foldl (perform_at sample_platform) empty_store event_calls) = [stored_event sample_event 1] @
     later_events ''p'' 1 (foldl (perform_at sample_platform) empty_store event_calls)"
  using event_pages_are_complete [OF event_page] by (simp add: stored_event_def event_input.defs)

section \<open>Compare-and-swap mutations\<close>

lemma mutate_review_applied:
  assumes "mutate_review p m s = Inr (ReviewApplied t f, s')"
  shows "\<exists>scope. mutation_scope m s = Some scope \<and> mutation_fingerprint p (mutation_json m) = Inr f \<and>
     mutation_outcome p s m t \<and> (ReviewApplied t f, s') = write_review scope (operation_id m) (mutation_request m) f t s"
  using mutate_review_cases [OF assms] by (auto simp: replay_answer_not_applied write_review_def)

lemma applied_version:
  assumes "mutation_outcome p s m t"
  shows "review_version t = expected_version m + 1"
  using assms by (cases "mutation_request m") (auto simp: mutation_outcome_def split: if_splits)

text \<open>A mutation that finds its thread at a later version than it expects cannot apply.\<close>

lemma stale_mutation:
  assumes "map_of (reviews s) (mutation_thread (mutation_request m)) = Some t" "review_version t \<noteq> expected_version m"
  shows "\<not> mutation_outcome p s m t'"
  using assms by (cases "mutation_request m") (auto simp: mutation_outcome_def)

text \<open>C6. A mutation is applied at most once: after it was applied, and whatever calls follow that do not
  replace or delete a project, the same request is never applied again, even when its receipt was pruned.\<close>

theorem mutation_applied_at_most_once:
  assumes "mutate_review p m s = Inr (ReviewApplied t f, s1)"
    and "list_all (\<lambda>c. in_place (snd c)) later" and "consistent p s"
  shows "mutate_review q m (foldl (perform_at p) s1 later) \<noteq> Inr (ReviewApplied t' f', s2)"
proof
  assume again: "mutate_review q m (foldl (perform_at p) s1 later) = Inr (ReviewApplied t' f', s2)"
  obtain scope where first: "mutation_outcome p s m t"
    "(ReviewApplied t f, s1) = write_review scope (operation_id m) (mutation_request m) f t s"
    using mutate_review_applied [OF assms(1)] by blast
  have stored: "map_of (reviews s1) (mutation_thread (mutation_request m)) = Some t"
    using first(2) by (simp add: write_review_def put_review_def AList.update_conv')
  have "consistent p s1" using mutate_review_consistent [OF assms(3,1)] .
  then obtain u where u: "map_of (reviews (foldl (perform_at p) s1 later)) (mutation_thread (mutation_request m)) = Some u"
    "review_version t \<le> review_version u"
    using progressesD(2) [OF in_place_run [OF _ assms(2)] stored] by (auto simp: review_progress_def)
  have "review_version u \<noteq> expected_version m" using u(2) applied_version [OF first(1)] by simp
  from stale_mutation [OF u(1) this] mutate_review_applied [OF again] show False by blast
qed

theorem mutation_applied_at_most_once_witness:
  "mutate_review sample_platform sample_resolution sample_store =
     Inr (ReviewApplied resolved_review resolution_text, resolved_store) \<and>
   mutate_review sample_platform sample_resolution (foldl (perform_at sample_platform) resolved_store
     [([], ReopenReviewThread ''t'' ''u'' (Some ''2026-01-02T03:04:06Z''))]) \<noteq>
     Inr (ReviewApplied resolved_review resolution_text, resolved_store)"
  using mutation_applied_at_most_once [OF sample_applied, of "[([], ReopenReviewThread ''t'' ''u'' (Some ''2026-01-02T03:04:06Z''))]"]
    sample_applied sample_consistent(1) by (simp add: in_place_def)

text \<open>The receipt of a fresh operation is the newest of its scope and is not pruned with it.\<close>

lemma take_less_append: "k \<in> set (take n (xs @ [k])) \<Longrightarrow> n \<le> length xs \<Longrightarrow> k \<in> set xs"
  by (auto dest: in_set_takeD)

lemma fresh_receipt_kept:
  assumes "map_of rs k = None"
  shows "map_of (prune_receipts scope (AList.update k r rs)) k = Some r"
proof -
  let ?new = "AList.update k r rs"
  let ?stored = "filter (\<lambda>k. starts_with k (scoped_key scope [])) (map fst ?new)"
  have names: "map fst ?new = map fst rs @ [k]" and absent: "k \<notin> fst ` set rs"
    using assms by (simp_all add: AList.update_keys map_of_eq_None_iff)
  have "k \<notin> set (take (length ?stored - 100) ?stored)"
  proof
    assume k: "k \<in> set (take (length ?stored - 100) ?stored)"
    then have "k \<in> set ?stored" by (rule in_set_takeD)
    then have "starts_with k (scoped_key scope [])" by (simp only: set_filter mem_Collect_eq)
    then have stored: "?stored = filter (\<lambda>k. starts_with k (scoped_key scope [])) (map fst rs) @ [k]"
      unfolding names by simp
    define old where "old = filter (\<lambda>k. starts_with k (scoped_key scope [])) (map fst rs)"
    have "k \<in> set (take (Suc (length old) - 100) (old @ [k]))"
      using k unfolding stored old_def [symmetric] by simp
    then have "k \<in> set old" by (rule take_less_append) simp
    then have "k \<in> set (map fst rs)" by (simp add: old_def)
    then show False using absent by auto
  qed
  moreover have "map_of (filter (\<lambda>kv. fst kv \<notin> bad) t) k = map_of t k" if "k \<notin> bad" for bad and t :: "review_receipt table"
    using that by (induction t) auto
  ultimately show ?thesis by (simp add: prune_receipts_def Let_def AList.update_conv')
qed

lemma applied_still_applied:
  "mutation_outcome p s m t \<Longrightarrow> still_applied (receipt_of (mutation_request m) f) t"
  by (cases "mutation_request m") (auto simp: mutation_outcome_def still_applied_def receipt_of_def split: if_splits)

lemma validated_review_owned: "validate_review_thread p t = Inr u \<Longrightarrow> owned_as review_json t = Inr ()"
  by (simp add: validate_review_thread_def outcome_simps)

lemma applied_scope:
  assumes "mutation_outcome p s m t" "mutation_scope m s = Some scope"
    and "s' = (put_review (mutation_thread (mutation_request m)) t s)\<lparr>receipts := rs\<rparr>"
  shows "mutation_scope m s' = Some scope"
proof -
  have "mutation_project m s' = mutation_project m s"
  proof (cases "mutation_request m")
    case (CreateReview x)
    then show ?thesis by (simp add: mutation_project_def)
  qed (use assms(1,3) in \<open>auto simp: mutation_project_def mutation_outcome_def put_review_def AList.update_conv'
      split: if_splits\<close>)
  then show ?thesis using assms(2,3) by (simp add: mutation_scope_def put_review_def)
qed

text \<open>C8. Retrying is safe: a mutation under an operation id that its scope has not seen is applied by its
  first delivery, and the next delivery reports the same thread as replayed and changes nothing.\<close>

theorem mutation_retry_replays:
  assumes "mutate_review p m s = Inr (ReviewApplied t f, s1)"
    and "case mutation_scope m s of None \<Rightarrow> True | Some scope \<Rightarrow> map_of (receipts s) (scoped_key scope (operation_id m)) = None"
  shows "mutate_review p m s1 = Inr (ReviewReplayed t f, s1)"
proof -
  obtain scope where first: "mutation_scope m s = Some scope" "mutation_fingerprint p (mutation_json m) = Inr f"
    "mutation_outcome p s m t"
    "s1 = (put_review (mutation_thread (mutation_request m)) t s)\<lparr>receipts := prune_receipts scope
       (AList.update (scoped_key scope (operation_id m)) (receipt_of (mutation_request m) f) (receipts s))\<rparr>"
    using mutate_review_applied [OF assms(1)] by (auto simp: write_review_def)
  have pre: "\<exists>w. normalize_mutation (mutation_json m) = Inr w" "require_text_within 256 (operation_id m) = Inr ()"
    using assms(1) by (auto simp: mutate_review_def outcome_simps)
  have stored: "map_of (reviews s1) (mutation_thread (mutation_request m)) = Some t"
    by (simp add: first(4) put_review_def AList.update_conv')
  have scope: "mutation_scope m s1 = Some scope" using applied_scope [OF first(3,1)] first(4) by blast
  have receipt: "map_of (receipts s1) (scoped_key scope (operation_id m)) = Some (receipt_of (mutation_request m) f)"
    using assms(2) first(1) by (simp add: first(4) fresh_receipt_kept)
  have "owned_as review_json t = Inr ()"
    using first(3) unfolding mutation_outcome_def by (blast intro: validated_review_owned)
  then have "replay_answer (receipt_of (mutation_request m) f) f t = Inr (ReviewReplayed t f)"
    using applied_still_applied [OF first(3)] by (simp add: replay_answer_def receipt_of_def)
  then show ?thesis using pre stored scope receipt first(2)
    by (auto simp: mutate_review_def Let_def)
qed

theorem mutation_retry_replays_witness:
  "mutate_review sample_platform sample_resolution sample_store =
     Inr (ReviewApplied resolved_review resolution_text, resolved_store) \<and>
   mutate_review sample_platform sample_resolution resolved_store =
     Inr (ReviewReplayed resolved_review resolution_text, resolved_store)"
  using mutation_retry_replays [OF sample_applied] sample_applied by (simp add: sample_scope sample_store_parts)

section \<open>Whole projects\<close>

text \<open>C10. Replacing or deleting one project leaves every other one as it was: its record, everything an
  export of it selects and its review state are the same, in the same order.\<close>

theorem other_projects_untouched:
  assumes "consistent p s"
    and "case c of ReplaceProject x e \<Rightarrow> j \<noteq> project_id (snap_project x) | DeleteProject i \<Rightarrow> j \<noteq> i | _ \<Rightarrow> False"
  shows "map_of (projects (perform p s c)) j = map_of (projects s) j \<and>
    project_snapshot j y (perform p s c) = project_snapshot j y s"
proof (cases c)
  case (ReplaceProject x e)
  then have other: "j \<noteq> project_id (snap_project x)" using assms(2) by simp
  show ?thesis
  proof (cases "replace_project p x e s")
    case (Inr s')
    then obtain kept where kept: "snapshot_sound p (copy_snapshot x)" "\<not> snapshot_collides (copy_snapshot x) s"
      "s' = replaced (copy_snapshot x) kept s"
      using replace_project_Inr by blast
    then show ?thesis using replaced_isolated [OF assms(1) kept(1,2), of j y] other Inr
      by (simp add: ReplaceProject after_def replaced_parts [OF refl] AList.update_conv')
  qed (simp add: ReplaceProject after_def)
next
  case (DeleteProject i)
  then have other: "j \<noteq> i" using assms(2) by simp
  show ?thesis
  proof (cases "delete_project i s")
    case (Inr s')
    then have "s' = s \<or> s' = clear_project i s" by (rule delete_project_Inr)
    then show ?thesis using cleared_isolated [OF assms(1) other, of y] other Inr
      by (auto simp: DeleteProject after_def clear_project_parts AList.delete_conv')
  qed (simp add: DeleteProject after_def)
qed (use assms(2) in simp_all)

theorem other_projects_untouched_witness:
  "map_of (projects (perform sample_platform sample_store (DeleteProject ''q''))) ''p'' = Some sample_project \<and>
   project_snapshot ''p'' sample_project (perform sample_platform sample_store (DeleteProject ''q'')) =
     project_snapshot ''p'' sample_project sample_store"
  using other_projects_untouched [OF sample_consistent(1), where c = "DeleteProject ''q''" and j = "''p''" and y = sample_project]
  by (simp add: sample_store_parts)

text \<open>C12. An accepted snapshot comes back: after \<open>replaceProject\<close> the export of the project is the snapshot,
  provided that copying changes nothing in it, so that its revision contents are inert data, and that no two
  of its reactions and no two of its approvals have one storage key.  The repository accepts snapshots that
  break the last condition, and stores one of the two.\<close>

theorem replaced_project_exports:
  assumes "replace_project p x e s = Inr s'" and "consistent p s"
    and "copy_snapshot x = x" "distinct (map reaction_key (snap_reactions x))" "distinct (map approval_key (snap_approvals x))"
  shows "export_project (project_id (snap_project x)) s' = Inr (Some x)"
proof -
  obtain kept where kept: "snapshot_sound p x" "\<not> snapshot_collides x s" "\<not> store_overflows s'" "s' = replaced x kept s"
    using replace_project_Inr [OF assms(1)] assms(3) by auto
  have input: "owned_as snapshot_json x = Inr ()" "snap_format x = collaboration_format"
    using assms(1,3) unfolding replace_project_def Let_def by (simp_all only: outcome_simps simp_thms ex_simps unit_answer)
  have "project_snapshot (project_id (snap_project x)) (snap_project x) s' = x"
    unfolding kept(4) using replaced_snapshot [OF assms(2) kept(1,2) refl input(2) assms(4,5)] .
  moreover have "map_of (projects s') (project_id (snap_project x)) = Some (snap_project x)"
    unfolding kept(4) by (simp add: replaced_parts [OF refl] AList.update_conv')
  moreover have "\<not> overfull s'" using kept(3) by (simp add: store_overflows_def)
  ultimately show ?thesis using input(1) assms(3) by (simp add: export_project_def)
qed

theorem replaced_project_exports_witness:
  "replace_project sample_platform sample_snapshot None sample_store = Inr imported_store \<and>
   export_project ''p'' imported_store = Inr (Some sample_snapshot)"
  using replaced_project_exports [OF sample_replaced sample_consistent(1)] sample_replaced
  by (simp add: copy_snapshot_def sample_snapshot_def sample_revision_parts sample_project_def)

section \<open>Requests for AI changes\<close>

text \<open>C25. While projects are not replaced or deleted, a request for an AI change keeps its identity, author
  and instruction and moves only along the allowed transitions; once undone it stays undone.\<close>

theorem ai_request_follows_lifecycle:
  assumes "consistent p s" and "list_all (\<lambda>c. in_place (snd c)) later" and "map_of (requests s) i = Some a"
  shows "\<exists>b. map_of (requests (foldl (perform_at p) s later)) i = Some b \<and> ai_id b = ai_id a \<and> ai_project b = ai_project a \<and>
    ai_by b = ai_by a \<and> ai_created b = ai_created a \<and> ai_instruction b = ai_instruction a \<and>
    ai_moves\<^sup>*\<^sup>* (ai_lifecycle a) (ai_lifecycle b) \<and> (ai_lifecycle a = Undone \<longrightarrow> ai_lifecycle b = Undone)"
  using progressesD(3) [OF in_place_run [OF assms(1,2)] assms(3)] undone_is_final
  by (auto simp: request_progress_def)

theorem ai_request_follows_lifecycle_witness:
  "\<exists>b. map_of (requests (foldl (perform_at sample_platform) request_store
       [([], UpdateRequest (sample_request\<lparr>ai_lifecycle := Running\<rparr>))])) ''a'' = Some b \<and> ai_by b = ''u'' \<and>
     ai_moves\<^sup>*\<^sup>* Queued (ai_lifecycle b)"
  using ai_request_follows_lifecycle [OF request_consistent,
      of "[([], UpdateRequest (sample_request\<lparr>ai_lifecycle := Running\<rparr>))]" "''a''" sample_request]
  by (auto simp: in_place_def request_store_def sample_request_def)

text \<open>A request without an anchor, which the types allow, can never be updated: an absent anchor does not
  compare equal to itself.  For the same reason an update that keeps the lifecycle of a request is refused,
  unless the request is undone.\<close>

theorem anchorless_request_is_stuck:
  assumes "map_of (requests s) (ai_id a) = Some prev"
    and "ai_anchor prev = None \<or> ai_lifecycle a = ai_lifecycle prev \<and> ai_lifecycle a \<noteq> Undone"
  shows "\<exists>e. update_request p a s = Inl e"
proof (cases "update_request p a s")
  case (Inr r)
  then obtain b s' where "update_request p a s = Inr (b, s')" by (cases r) auto
  then have transition: "validate_ai_transition prev a = Inr ()"
    using update_request_Inr [of p a s b s'] assms(1) by auto
  moreover have "\<exists>r. validate_ai_request p a r = Inr ()"
    using Inr assms(1) by (auto simp: update_request_def outcome_simps split: option.splits)
  then have "ai_undo a \<noteq> None \<longleftrightarrow> ai_lifecycle a = Undone" using validate_ai_request_undo by blast
  moreover have "same_structure result_json (ai_undo prev) (ai_undo a)" if "ai_lifecycle prev = ai_lifecycle a"
    using transition that unfolding validate_ai_transition_def by (simp add: outcome_simps)
  ultimately show ?thesis
    using assms(2) validate_ai_transition_Inr [OF transition] same_structure_None(2) by (cases "ai_undo a") auto
qed simp

theorem anchorless_request_is_stuck_witness:
  "\<exists>e. update_request sample_platform (sample_request\<lparr>ai_anchor := None, ai_lifecycle := Running\<rparr>)
     (sample_store\<lparr>requests := [(''a'', sample_request\<lparr>ai_anchor := None\<rparr>)]\<rparr>) = Inl e"
  using anchorless_request_is_stuck [of "sample_store\<lparr>requests := [(''a'', sample_request\<lparr>ai_anchor := None\<rparr>)]\<rparr>"
      "sample_request\<lparr>ai_anchor := None, ai_lifecycle := Running\<rparr>" "sample_request\<lparr>ai_anchor := None\<rparr>"]
  by (simp add: sample_request_def)

section \<open>Design commands\<close>

lemma copy_revision_idem [simp]: "copy_revision (copy_revision r) = copy_revision r"
  by (simp add: copy_revision_def)

lemma command_revision_copied: "command_revision c = Some r \<Longrightarrow> copy_revision r = r"
  by (cases c) auto

lemma commit_response_copied: "commit_response x b = Some r \<Longrightarrow> copy_kept r = r"
  by (auto simp: commit_response_def dest: command_revision_copied split: option.splits)

lemma commit_design_keeps:
  assumes "commit_design p x s = (Inr (r, False), s')" "input_key x = Some k"
  shows "map_of (responses s') (response_key x k) = Some r \<and> copy_kept r = r \<and> fits_boundary (kept_json r)"
proof -
  obtain before where "commit_finish x before s = (Inr (r, False), s')"
    using assms(1) by (auto simp: commit_design_def split: sum.splits)
  then obtain b s3 where "commit_response x b = Some r" "keep_response x r s3 = Inr s'"
    by (auto simp: commit_finish_def Let_def split: sum.splits option.splits)
  then show ?thesis using assms(2) commit_response_copied
    by (auto simp: keep_response_def outcome_simps owned_as_Inr AList.update_conv')
qed

text \<open>C27. An idempotency key answers for ever: once a command was committed under a key, every later command
  whose key maps to the same slot gets that first result, marked as replayed, and writes nothing, whatever
  happened in between and whatever it asks for.\<close>

theorem idempotency_key_answers_forever:
  assumes "commit_design p x s = (Inr (r, False), s1)" and "input_key x = Some k"
    and "input_key y = Some k'" "response_key y k' = response_key x k"
    and "fits_boundary (design_input_json y)" "require_text_within 256 k' = Inr ()"
  shows "commit_design q y (foldl (perform_at p) s1 later) = (Inr (r, True), foldl (perform_at p) s1 later)"
proof -
  define s2 where "s2 = foldl (perform_at p) s1 later"
  have kept: "map_of (responses s1) (response_key x k) = Some r" "copy_kept r = r" "fits_boundary (kept_json r)"
    using commit_design_keeps [OF assms(1,2)] by simp_all
  have "only_appends t (foldl (perform_at p) t later)" for t
    by (induction later arbitrary: t)
      (auto simp: only_appends_refl perform_at_def intro: only_appends_trans perform_appends)
  then have "map_of (responses s2) (response_key x k) = Some r"
    using only_appendsD(4) kept(1) unfolding s2_def by blast
  then show ?thesis unfolding s2_def [symmetric] using assms(3-6) kept
    by (simp add: commit_design_def commit_begin_def kept_for_def optionally_require_def)
qed

theorem idempotency_key_answers_forever_witness:
  "commit_design sample_platform sample_marking sample_store =
     (Inr (ReadinessCommitted sample_readiness, False), marked_store) \<and>
   commit_design sample_platform sample_marking (foldl (perform_at sample_platform) marked_store [([], DeleteProject ''p'')]) =
     (Inr (ReadinessCommitted sample_readiness, True), foldl (perform_at sample_platform) marked_store [([], DeleteProject ''p'')])"
proof -
  have "require_text_within 256 ''k'' = Inr ()" by (simp add: text_eval)
  then show ?thesis
    using idempotency_key_answers_forever [OF sample_marked, of "''k''" sample_marking "''k''" sample_platform
        "[([], DeleteProject ''p'')]"] sample_marked commands_fit(1) by (simp add: sample_command_parts)
qed

text \<open>C36. A design command is not atomic: when the baseline id of an \<open>append-revision-and-mark-ready\<close> command is
  taken in any project, the command fails as a duplicate and yet its revision is stored, so that repeating
  it under another baseline id fails as well.\<close>

theorem failed_commit_keeps_revision:
  assumes "commit_begin p x s = Inr (Inr before)" and "commit_checks x before s = Inr ()"
    and "input_command x = AppendAndMark r q d" and "baseline_taken d s" and "length (states s) \<le> max_items"
  shows "commit_design p x s = (Inl ErrDuplicate, write_revision x s) \<and>
    map_of (revisions s) (rev_id r) = None \<and>
    map_of (revisions (write_revision x s)) (rev_id r) = Some (copy_revision r) \<and>
    (\<forall>before' d'. \<exists>e. commit_checks (x\<lparr>input_command := AppendAndMark r q d'\<rparr>) before' (write_revision x s) = Inl e)"
proof -
  have "write_baseline x (write_revision x s) = Inl ErrDuplicate"
    using assms(3-5) by (simp add: write_baseline_def baseline_taken_def)
  then have "commit_design p x s = (Inl ErrDuplicate, write_revision x s)"
    using assms(1,2) by (simp add: commit_design_def commit_finish_def Let_def)
  moreover have "map_of (revisions s) (rev_id r) = None"
    using assms(2,3) by (auto simp: commit_checks_def Let_def outcome_simps has_def)
  moreover have stored: "map_of (revisions (write_revision x s)) (rev_id r) = Some (copy_revision r)"
    using assms(3) by (simp add: write_revision_def AList.update_conv')
  moreover have "\<exists>e. commit_checks (x\<lparr>input_command := AppendAndMark r q d'\<rparr>) before' (write_revision x s) = Inl e" for before' d'
    using stored by (simp add: commit_checks_def Let_def has_def failIf_def optionally_require_def)
  ultimately show ?thesis by blast
qed

theorem failed_commit_keeps_revision_witness:
  "commit_design sample_platform (sample_advance ''b1'') marked_store =
     (Inl ErrDuplicate, write_revision (sample_advance ''b1'') marked_store) \<and>
   map_of (revisions marked_store) ''r2'' = None \<and>
   map_of (revisions (write_revision (sample_advance ''b1'') marked_store)) ''r2'' = Some next_revision"
  using failed_commit_keeps_revision [OF sample_advance_blocked(1,2) sample_command_parts(8) sample_advance_blocked(3)]
  by (simp add: marked_parts collab_limits sample_revision_parts)

text \<open>C37. The baseline of an \<open>append-revision-and-mark-ready\<close> command pins the new revision, whichever stored
  revision its readiness names: the id and fingerprint that were checked are not the ones recorded.\<close>

theorem baseline_pins_appended_revision:
  assumes "commit_design p x s = (Inr (BothCommitted r d, False), s')"
  shows "\<exists>v. map_of (states s') (input_project x) = Some v \<and>
    map_option base_revision (state_baseline v) = Some \<lparr>reference_id = rev_id r, reference_fingerprint = rev_sha r\<rparr> \<and>
    command_readiness (input_command x) = Some d \<and> command_revision (input_command x) = Some r"
proof -
  obtain before where fin: "commit_finish x before s = (Inr (BothCommitted r d, False), s')"
    using assms by (auto simp: commit_design_def split: sum.splits)
  obtain s2 b s3 where s2: "write_baseline x (write_revision x s) = Inr s2" "commit_response x b = Some (BothCommitted r d)"
    "s3 = write_change x before (stored_state s (input_project x)) s2" "keep_response x (BothCommitted r d) s3 = Inr s'"
    using fin by (auto simp: commit_finish_def Let_def split: sum.splits option.splits)
  have command: "command_revision (input_command x) = Some r" "command_readiness (input_command x) = Some d"
    using s2(2) by (auto simp: commit_response_def split: option.splits)
  have "s3 = s2" using s2(3) command(2) by (simp add: write_change_idle)
  moreover have "map_of (states s2) (input_project x) = Some (ready_state x d r)"
    using s2(1) command by (auto simp: write_baseline_def outcome_simps AList.update_conv')
  moreover have "states s' = states s3" using s2(4) by (auto simp: keep_response_def outcome_simps split: option.splits)
  ultimately show ?thesis using command by (auto simp: ready_state_def baseline_of_def)
qed

theorem baseline_pins_appended_revision_witness:
  "ready_revision (sample_readiness\<lparr>ready_id := ''b2''\<rparr>) = ''r1'' \<and>
   (\<exists>v. map_of (states (snd (commit_design sample_platform (sample_advance ''b2'') sample_store))) ''p'' = Some v \<and>
     map_option base_revision (state_baseline v) = Some \<lparr>reference_id = ''r2'', reference_fingerprint = ''f2''\<rparr>)"
  using baseline_pins_appended_revision [OF sample_advanced]
  by (auto simp: sample_advanced sample_command_parts sample_revision_parts)

section \<open>Interleaved calls\<close>

lemma js_sort_last_first:
  assumes "\<And>y. y \<in> set xs \<Longrightarrow> \<not> cmp y x \<le> 0"
  shows "\<exists>ys. js_sort cmp (xs @ [x]) = x # ys"
  using assms
proof (induction xs)
  case (Cons z zs)
  then obtain ys where "js_sort cmp (zs @ [x]) = x # ys" by auto
  then show ?case using Cons.prems [of z] by (simp add: js_sort_def)
qed (simp add: js_sort_def)

lemma sorted_insert_sequence:
  "sorted_wrt (\<lambda>l r. rev_sequence r \<le> rev_sequence l) ys \<Longrightarrow>
     sorted_wrt (\<lambda>l r. rev_sequence r \<le> rev_sequence l) (sorted_insert (newer_revision p) x ys)"
proof (induction ys)
  case (Cons y ys)
  show ?case
  proof (cases "newer_revision p x y \<le> 0")
    case True
    then have "rev_sequence y \<le> rev_sequence x" by (auto simp: newer_revision_def split: if_splits)
    then show ?thesis using True Cons.prems by fastforce
  next
    case False
    then have "rev_sequence x \<le> rev_sequence y" by (auto simp: newer_revision_def split: if_splits)
    then show ?thesis using False Cons by auto
  qed
qed simp

lemma js_sort_sequence: "sorted_wrt (\<lambda>l r. rev_sequence r \<le> rev_sequence l) (js_sort (newer_revision p) xs)"
  unfolding js_sort_def by (induction xs) (auto intro: sorted_insert_sequence)

lemma latest_is_newest:
  assumes "r \<in> set rs" "rev_project r = i"
  shows "\<exists>l. latest_stored p i rs = Some l \<and> rev_sequence r \<le> rev_sequence l"
proof -
  let ?ys = "js_sort (newer_revision p) (filter (\<lambda>r. rev_project r = i) rs)"
  have r: "r \<in> set ?ys" using assms by simp
  then obtain l ys where "?ys = l # ys" by (cases ?ys) auto
  moreover have "rev_sequence r \<le> rev_sequence l"
    using r js_sort_sequence [of p "filter (\<lambda>r. rev_project r = i) rs"] calculation by auto
  ultimately show ?thesis by (simp add: latest_stored_def)
qed

lemma update_appends: "k \<notin> fst ` set t \<Longrightarrow> AList.update k v t = t @ [(k, v)]"
  by (induction t) auto

text \<open>The revision that an accepted append wrote is the latest of its project.\<close>

lemma latest_of_appended:
  assumes "map_of (revisions s) (rev_id x) = None"
    and "latest_stored p (rev_project x) (map snd (revisions s)) = current" "rev_sequence x = next_sequence current"
  shows "latest_stored p (rev_project x) (map snd (AList.update (rev_id x) x (revisions s))) = Some x"
proof -
  have appended: "map snd (AList.update (rev_id x) x (revisions s)) = map snd (revisions s) @ [x]"
    using assms(1) by (simp add: update_appends map_of_eq_None_iff)
  have older: "\<not> newer_revision p y x \<le> 0" if "y \<in> set (map snd (revisions s))" "rev_project y = rev_project x" for y
    using latest_is_newest [OF that, of p] assms(2,3) by (auto simp: next_sequence_def newer_revision_def)
  have "\<exists>ys. js_sort (newer_revision p) (filter (\<lambda>r. rev_project r = rev_project x) (map snd (revisions s)) @ [x]) = x # ys"
    by (rule js_sort_last_first) (use older in auto)
  then show ?thesis unfolding appended by (auto simp: latest_stored_def)
qed

lemma interleaved_appends:
  assumes "append_begin p x s = Inr fx" and "append_begin p y s = Inr fy"
    and "append_finish fx parent s = Inr s1" and "append_finish fy parent s = Inr t"
    and "rev_id x \<noteq> rev_id y" "rev_project y = rev_project x" and "length (revisions s) + 1 < max_items"
  shows "\<exists>s2. append_finish fy parent s1 = Inr s2 \<and>
      map_of (revisions s2) (rev_id x) = Some (copy_revision x) \<and> map_of (revisions s2) (rev_id y) = Some (copy_revision y) \<and>
      rev_sequence x = rev_sequence y"
    and "append_revision p x parent s = Inr s1" and "\<exists>e. append_revision p y parent s1 = Inl e"
proof -
  obtain current where fx: "fx = (copy_revision x, current)" and fy: "fy = (copy_revision y, current)"
    and fresh: "\<not> has (revisions s) (rev_id x)" "\<not> has (revisions s) (rev_id y)"
    and latest: "get_latest_revision p (rev_project x) s = Inr current"
    using assms(1,2,6) by (auto simp: append_begin_def outcome_simps)
  have s1: "s1 = s\<lparr>revisions := AList.update (rev_id x) (copy_revision x) (revisions s)\<rparr>"
    and accepted: "map_option rev_id current = parent" "rev_sequence x = next_sequence current" "rev_sequence y = next_sequence current"
    using append_finish_Inr assms(3,4) unfolding fx fy by fastforce+
  have small: "length (revisions s1) < max_items"
    using fresh(1) assms(7) by (simp add: s1 update_appends has_def map_of_eq_None_iff)
  have "append_finish fy parent s1 = Inr (s1\<lparr>revisions := AList.update (rev_id y) (copy_revision y) (revisions s1)\<rparr>)"
    unfolding fy append_finish_def using accepted small by (simp add: lacks_room_def)
  then show "\<exists>s2. append_finish fy parent s1 = Inr s2 \<and>
      map_of (revisions s2) (rev_id x) = Some (copy_revision x) \<and> map_of (revisions s2) (rev_id y) = Some (copy_revision y) \<and>
      rev_sequence x = rev_sequence y"
    using accepted(2,3) assms(5) by (simp add: s1 AList.update_conv')
  show "append_revision p x parent s = Inr s1" using assms(1,3) by (simp add: append_revision_def)
  have sorted: "latest_stored p (rev_project x) (map snd (revisions s1)) = Some (copy_revision x)"
  proof -
    obtain c where "latest_stored p (rev_project x) (map snd (revisions s)) = c" "next_sequence c = next_sequence current"
      using latest by (auto simp: get_latest_revision_def bounded_def outcome_simps next_sequence_def
          optionally_def split: option.splits)
    then show ?thesis using latest_of_appended [of s "copy_revision x" p c] fresh(1) accepted(2)
      by (simp add: s1 has_def)
  qed
  show "\<exists>e. append_revision p y parent s1 = Inl e"
  proof (cases "append_revision p y parent s1")
    case (Inr u)
    then obtain f where f: "append_begin p y s1 = Inr f" "append_finish f parent s1 = Inr u"
      by (auto simp: append_revision_def outcome_simps)
    have "f = (copy_revision y, Some (copy_revision (copy_revision x)))"
      using f(1) sorted assms(6) by (auto simp: append_begin_def get_latest_revision_def bounded_def outcome_simps)
    then have "rev_sequence y = rev_sequence x + 1"
      using append_finish_Inr f(2) by (fastforce simp: next_sequence_def)
    then show ?thesis using accepted(2,3) by simp
  qed simp
qed

text \<open>C35. \<open>appendRevision\<close> reads the latest revision, awaits, and writes: two calls that both read before
  either writes are both accepted, and the project has two revisions of one sequence over one parent.
  The same two calls one after the other are not: the second is refused as a conflict.\<close>

theorem interleaved_appends_fork:
  assumes "append_begin p x s = Inr fx" and "append_begin p y s = Inr fy"
    and "append_finish fx parent s = Inr s1" and "append_finish fy parent s = Inr t"
    and "rev_id x \<noteq> rev_id y" "rev_project y = rev_project x" and "length (revisions s) + 1 < max_items"
  shows "(\<exists>s2. append_finish fy parent s1 = Inr s2 \<and>
      map_of (revisions s2) (rev_id x) = Some (copy_revision x) \<and> map_of (revisions s2) (rev_id y) = Some (copy_revision y) \<and>
      rev_sequence x = rev_sequence y) \<and>
    append_revision p x parent s = Inr s1 \<and> (\<exists>e. append_revision p y parent s1 = Inl e)"
  using interleaved_appends [OF assms] by blast

theorem interleaved_appends_fork_witness:
  "(\<exists>s2. append_finish (rival_revision, Some sample_revision) (Some ''r1'')
       (sample_store\<lparr>revisions := [(''r1'', sample_revision), (''r2'', next_revision)]\<rparr>) = Inr s2 \<and>
     map_of (revisions s2) ''r2'' = Some next_revision \<and> map_of (revisions s2) ''r3'' = Some rival_revision) \<and>
   (\<exists>e. append_revision sample_platform rival_revision (Some ''r1'')
     (sample_store\<lparr>revisions := [(''r1'', sample_revision), (''r2'', next_revision)]\<rparr>) = Inl e)"
  using interleaved_appends_fork [OF sample_appends]
  by (auto simp: rival_parts sample_revision_parts sample_store_parts collab_limits)

end
