(* ===== verification/Collab_Parse.thy ===== *)
theory Collab_Parse
  imports Collab_Snapshot
begin

text \<open>
  Serialized snapshots of \<open>packages/collaboration/src/index.ts\<close>: \<open>parseSnapshot\<close> with the readers of
  every record, \<open>parseDesignReviewState\<close> and \<open>serializeSnapshot\<close>.  \<open>parseSnapshot\<close> turns every error into
  the same one, so the order in which the readers fail does not show.
\<close>

section \<open>Text and numbers\<close>

text \<open>What the code takes from the JavaScript runtime for text: \<open>JSON.parse\<close>, where \<open>None\<close> is an exception,
  \<open>JSON.stringify(value, null, 2)\<close>, and the finite number of a numeric text.\<close>

record runtime =
  json_parse :: "string \<Rightarrow> json option"
  json_indented :: "json \<Rightarrow> string"
  text_number :: "string \<Rightarrow> number option"

text \<open>\<open>String(value)\<close> of an array element, where \<open>null\<close> is empty.\<close>

fun plain_text :: "json \<Rightarrow> string" where
  "plain_text (JBool b) = (if b then ''true'' else ''false'')"
| "plain_text (JNum n) = int_text n"
| "plain_text (JDec d) = text_of_decimal d"
| "plain_text (JStr s) = s"
| "plain_text (JArr xs) = js_join '','' (map plain_text xs)"
| "plain_text (JObj kvs) = ''[object Object]''"
| "plain_text v = []"

text \<open>\<open>Number(value)\<close>; a number that is not finite is \<open>None\<close> and fails the boundary copy of the result.\<close>

fun js_number :: "runtime \<Rightarrow> json \<Rightarrow> number option" where
  "js_number t JNull = Some (Whole 0)"
| "js_number t (JBool b) = Some (Whole (if b then 1 else 0))"
| "js_number t (JNum n) = Some (Whole n)"
| "js_number t (JDec d) = Some (Fraction d)"
| "js_number t (JStr s) = text_number t s"
| "js_number t (JArr xs) = text_number t (plain_text (JArr xs))"
| "js_number t v = None"

definition read_number :: "runtime \<Rightarrow> json \<Rightarrow> collab_error + number" where
  "read_number t v = (case js_number t v of None \<Rightarrow> Inl ErrInvalid | Some n \<Rightarrow> Inr n)"

section \<open>Readers\<close>

definition read_object :: "json \<Rightarrow> collab_error + (string \<times> json) list" where
  "read_object v = (case v of JObj kvs \<Rightarrow> Inr kvs | _ \<Rightarrow> Inl ErrInvalid)"

definition read_array :: "json \<Rightarrow> collab_error + json list" where
  "read_array v = (case v of JArr xs \<Rightarrow> Inr xs | _ \<Rightarrow> Inl ErrInvalid)"

definition read_text :: "json \<Rightarrow> collab_error + string" where
  "read_text v =
     (case v of JStr s \<Rightarrow> andThen (require_text_within 4000 s) (\<lambda>u. Inr s) | _ \<Rightarrow> Inl ErrInvalid)"

definition read_time :: "json \<Rightarrow> collab_error + string" where
  "read_time v = andThen (read_text v) (\<lambda>s. andThen (require_timestamp s) (\<lambda>u. Inr s))"

definition read_flag :: "json \<Rightarrow> collab_error + bool" where
  "read_flag v = (case v of JBool b \<Rightarrow> Inr b | _ \<Rightarrow> Inl ErrInvalid)"

definition read_string :: "json \<Rightarrow> collab_error + string" where
  "read_string v = (case v of JStr s \<Rightarrow> Inr s | _ \<Rightarrow> Inl ErrInvalid)"

definition read_strings :: "json \<Rightarrow> collab_error + string list" where
  "read_strings v =
     andThen (read_array v) (\<lambda>xs.
     andThen (mapResult read_string xs) (\<lambda>ss. failIf (\<not> distinct ss) ErrInvalid (Inr ss)))"

text \<open>\<open>value === undefined ? undefined : read(value)\<close>\<close>

definition read_if :: "(json \<Rightarrow> collab_error + 'a) \<Rightarrow> json \<Rightarrow> collab_error + 'a option" where
  "read_if f v = (if v = JOther NonObject then Inr None else andThen (f v) (\<lambda>x. Inr (Some x)))"

definition one_of :: "(string \<times> 'a) list \<Rightarrow> json \<Rightarrow> collab_error + 'a" where
  "one_of table v =
     (case v of
        JStr s \<Rightarrow> (case map_of table s of None \<Rightarrow> Inl ErrInvalid | Some x \<Rightarrow> Inr x)
      | _ \<Rightarrow> Inl ErrInvalid)"

section \<open>Review threads\<close>

definition parse_evidence :: "runtime \<Rightarrow> json \<Rightarrow> collab_error + evidence" where
  "parse_evidence t v =
     andThen (read_object v) (\<lambda>s.
     andThen (read_object (field s ''viewport'')) (\<lambda>w.
     andThen (read_text (field s ''artifactId'')) (\<lambda>artifact.
     andThen (read_text (field s ''screenId'')) (\<lambda>screen.
     andThen (read_text (field s ''revisionId'')) (\<lambda>revision.
     andThen (read_text (field s ''revisionFingerprint'')) (\<lambda>fingerprint.
     andThen (read_number t (field w ''width'')) (\<lambda>width.
     andThen (read_number t (field w ''height'')) (\<lambda>height.
     andThen (read_number t (field w ''zoom'')) (\<lambda>zoom.
     andThen (read_if read_text (field s ''scenarioId'')) (\<lambda>scenario.
     andThen (read_if read_text (field s ''stateId'')) (\<lambda>state.
     andThen (read_if read_text (field s ''nodeId'')) (\<lambda>node.
     andThen (read_if read_text (field s ''sourceRef'')) (\<lambda>source.
       Inr \<lparr>ev_artifact = artifact, ev_screen = screen, ev_revision = revision, ev_fingerprint = fingerprint,
            ev_width = width, ev_height = height, ev_zoom = zoom, ev_scenario = scenario, ev_state = state,
            ev_node = node, ev_source = source\<rparr>)))))))))))))"

definition anchor_lifecycles :: "(string \<times> anchor_lifecycle) list" where
  "anchor_lifecycles = [(''current'', AnchorCurrent), (''mapped'', AnchorMapped), (''stale'', AnchorStale),
     (''orphaned'', AnchorOrphaned)]"

definition parse_target :: "runtime \<Rightarrow> (string \<times> json) list \<Rightarrow> collab_error + spatial_target" where
  "parse_target t s =
     (if field s ''kind'' = JStr ''point'' then
        andThen (read_object (field s ''point'')) (\<lambda>q.
        andThen (read_number t (field q ''x'')) (\<lambda>x.
        andThen (read_number t (field q ''y'')) (\<lambda>y. Inr (Point x y))))
      else if field s ''kind'' = JStr ''region'' then
        andThen (read_object (field s ''region'')) (\<lambda>q.
        andThen (read_number t (field q ''x'')) (\<lambda>x.
        andThen (read_number t (field q ''y'')) (\<lambda>y.
        andThen (read_number t (field q ''width'')) (\<lambda>w.
        andThen (read_number t (field q ''height'')) (\<lambda>h. Inr (Region x y w h))))))
      else Inl ErrInvalid)"

definition parse_anchor :: "runtime \<Rightarrow> json \<Rightarrow> collab_error + anchor" where
  "parse_anchor t v =
     andThen (read_object v) (\<lambda>s.
     andThen (read_object (field s ''target'')) (\<lambda>target.
     andThen (one_of anchor_lifecycles (field s ''lifecycle'')) (\<lambda>lifecycle.
     andThen (parse_evidence t (field s ''evidence'')) (\<lambda>evidence.
     andThen (read_if (parse_evidence t) (field s ''mappedFrom'')) (\<lambda>mapped.
     andThen (parse_target t target) (\<lambda>x.
       Inr \<lparr>anchor_evidence = evidence, anchor_target = x, anchor_lifecycle = lifecycle, mapped_from = mapped\<rparr>))))))"

definition parse_emoji :: "json \<Rightarrow> collab_error + emoji_group" where
  "parse_emoji v =
     andThen (read_object v) (\<lambda>s.
     andThen (read_text (field s ''emoji'')) (\<lambda>e.
     andThen (read_strings (field s ''userIds'')) (\<lambda>us. Inr \<lparr>emoji = e, emoji_users = us\<rparr>)))"

definition parse_message :: "json \<Rightarrow> collab_error + message" where
  "parse_message v =
     andThen (read_object v) (\<lambda>s.
     andThen (read_array (field s ''reactions'')) (\<lambda>reactions.
     andThen (read_if read_text (field s ''parentMessageId'')) (\<lambda>parent.
     andThen (read_text (field s ''id'')) (\<lambda>i.
     andThen (read_text (field s ''body'')) (\<lambda>body.
     andThen (read_text (field s ''createdBy'')) (\<lambda>by.
     andThen (read_time (field s ''createdAt'')) (\<lambda>time.
     andThen (read_strings (field s ''mentionedUserIds'')) (\<lambda>mentions.
     andThen (mapResult parse_emoji reactions) (\<lambda>groups.
     andThen (read_strings (field s ''readBy'')) (\<lambda>reads.
       Inr \<lparr>message_id = i, message_body = body, message_by = by, message_at = time, message_parent = parent,
            message_mentions = mentions, message_reactions = groups, message_reads = reads\<rparr>))))))))))"

definition parse_provenance :: "json \<Rightarrow> collab_error + provenance" where
  "parse_provenance v =
     andThen (read_object v) (\<lambda>s.
     andThen (read_text (field s ''nodeId'')) (\<lambda>node.
     andThen (read_text (field s ''revisionId'')) (\<lambda>revision.
     andThen (read_text (field s ''bindingId'')) (\<lambda>b.
       Inr \<lparr>target_node = node, target_revision = revision, target_binding = b\<rparr>))))"

definition read_version :: "json \<Rightarrow> collab_error + int" where
  "read_version v = (case v of JNum n \<Rightarrow> failIf (\<not> safe_version n) ErrInvalid (Inr n) | _ \<Rightarrow> Inl ErrInvalid)"

definition parse_binding :: "json \<Rightarrow> collab_error + binding" where
  "parse_binding v =
     andThen (read_object v) (\<lambda>s.
     andThen (read_version (field s ''version'')) (\<lambda>version.
     andThen (read_text (field s ''tenantId'')) (\<lambda>tenant.
     andThen (read_text (field s ''projectId'')) (\<lambda>project.
     andThen (read_text (field s ''artifactId'')) (\<lambda>artifact.
     andThen (read_text (field s ''revisionId'')) (\<lambda>revision.
     andThen (read_text (field s ''baselineId'')) (\<lambda>baseline.
       Inr \<lparr>binding_tenant = tenant, binding_project = project, binding_artifact = artifact,
            binding_revision = revision, binding_baseline = baseline, binding_version = version\<rparr>)))))))"

definition review_lifecycles :: "(string \<times> review_lifecycle) list" where
  "review_lifecycles = [(''open'', ReviewOpen), (''resolved'', ReviewResolved)]"

definition parse_review :: "runtime \<Rightarrow> json \<Rightarrow> collab_error + review_thread" where
  "parse_review t v =
     andThen (read_object v) (\<lambda>s.
     andThen (read_array (field s ''messages'')) (\<lambda>messages.
     andThen (one_of review_lifecycles (field s ''lifecycle'')) (\<lambda>lifecycle.
     andThen (read_if read_time (field s ''resolvedAt'')) (\<lambda>resolvedAt.
     andThen (read_if read_text (field s ''resolvedBy'')) (\<lambda>resolvedBy.
     andThen (read_if read_time (field s ''reopenedAt'')) (\<lambda>reopenedAt.
     andThen (read_if read_text (field s ''reopenedBy'')) (\<lambda>reopenedBy.
     andThen (read_if read_time (field s ''movedAt'')) (\<lambda>movedAt.
     andThen (read_if read_text (field s ''movedBy'')) (\<lambda>movedBy.
     andThen (read_if read_version (field s ''version'')) (\<lambda>version.
     andThen (read_if parse_binding (field s ''hostedBinding'')) (\<lambda>b.
     andThen (read_if parse_provenance (field s ''compilerTargetProvenance'')) (\<lambda>provenance.
     andThen (read_text (field s ''id'')) (\<lambda>i.
     andThen (read_text (field s ''projectId'')) (\<lambda>project.
     andThen (parse_anchor t (field s ''anchor'')) (\<lambda>anchor.
     andThen (mapResult parse_message messages) (\<lambda>ms.
     andThen (read_text (field s ''deepLink'')) (\<lambda>link.
     andThen (read_text (field s ''createdBy'')) (\<lambda>by.
     andThen (read_time (field s ''createdAt'')) (\<lambda>time.
       Inr \<lparr>review_id = i, review_project = project, review_binding = b, review_provenance = provenance,
            review_version = (case version of None \<Rightarrow> 1 | Some n \<Rightarrow> n), review_anchor = anchor,
            review_messages = ms, review_link = link, review_lifecycle = lifecycle, review_by = by,
            review_at = time, resolved_at = resolvedAt, resolved_by = resolvedBy, reopened_at = reopenedAt,
            reopened_by = reopenedBy, moved_at = movedAt, moved_by = movedBy\<rparr>)))))))))))))))))))"

section \<open>Revisions, discussions and requests\<close>

definition read_integer :: "json \<Rightarrow> collab_error + int" where
  "read_integer v = (case v of JNum n \<Rightarrow> Inr n | _ \<Rightarrow> Inl ErrInvalid)"

text \<open>\<open>parseSnapshotRevision\<close> takes any number as the sequence; a fraction is refused by the validation of the
  snapshot.\<close>

definition parse_revision :: "json \<Rightarrow> collab_error + revision" where
  "parse_revision v =
     andThen (read_object v) (\<lambda>s.
     andThen (read_if read_text (field s ''parentRevisionId'')) (\<lambda>parent.
     andThen (read_integer (field s ''sequence'')) (\<lambda>n.
     andThen (read_text (field s ''id'')) (\<lambda>i.
     andThen (read_text (field s ''projectId'')) (\<lambda>project.
     andThen (read_text (field s ''contentSha256'')) (\<lambda>sha.
     andThen (read_strings (field s ''scenarioIds'')) (\<lambda>scenarios.
     andThen (read_text (field s ''createdBy'')) (\<lambda>by.
     andThen (read_time (field s ''createdAt'')) (\<lambda>time.
       Inr \<lparr>rev_id = i, rev_project = project, rev_sequence = n, rev_parent = parent,
            rev_content = field s ''content'', rev_sha = sha, rev_scenarios = scenarios, rev_created_by = by,
            rev_created_at = time\<rparr>)))))))))"

definition parse_thread :: "json \<Rightarrow> collab_error + thread" where
  "parse_thread v =
     andThen (read_object v) (\<lambda>s.
     andThen (read_if read_time (field s ''resolvedAt'')) (\<lambda>resolvedAt.
     andThen (read_if read_text (field s ''resolvedBy'')) (\<lambda>resolvedBy.
     andThen (read_text (field s ''id'')) (\<lambda>i.
     andThen (read_text (field s ''projectId'')) (\<lambda>project.
     andThen (read_text (field s ''revisionId'')) (\<lambda>revision.
     andThen (read_text (field s ''reactNodeId'')) (\<lambda>node.
     andThen (read_text (field s ''scenarioId'')) (\<lambda>scenario.
     andThen (read_text (field s ''createdBy'')) (\<lambda>by.
     andThen (read_time (field s ''createdAt'')) (\<lambda>time.
       Inr \<lparr>thread_id = i, thread_project = project, thread_revision = revision, thread_node = node,
            thread_scenario = scenario, thread_by = by, thread_at = time, thread_resolved_at = resolvedAt,
            thread_resolved_by = resolvedBy\<rparr>))))))))))"

definition parse_comment :: "json \<Rightarrow> collab_error + comment" where
  "parse_comment v =
     andThen (read_object v) (\<lambda>s.
     andThen (read_if read_text (field s ''parentCommentId'')) (\<lambda>parent.
     andThen (read_text (field s ''id'')) (\<lambda>i.
     andThen (read_text (field s ''threadId'')) (\<lambda>thread.
     andThen (read_text (field s ''body'')) (\<lambda>body.
     andThen (read_text (field s ''createdBy'')) (\<lambda>by.
     andThen (read_time (field s ''createdAt'')) (\<lambda>time.
     andThen (read_strings (field s ''mentionedUserIds'')) (\<lambda>mentions.
       Inr \<lparr>comment_id = i, comment_thread = thread, comment_parent = parent, comment_body = body,
            comment_by = by, comment_at = time, comment_mentions = mentions\<rparr>))))))))"

definition parse_reaction :: "json \<Rightarrow> collab_error + reaction" where
  "parse_reaction v =
     andThen (read_object v) (\<lambda>s.
     andThen (read_text (field s ''commentId'')) (\<lambda>comment.
     andThen (read_text (field s ''userId'')) (\<lambda>user.
     andThen (read_text (field s ''emoji'')) (\<lambda>e.
     andThen (read_time (field s ''createdAt'')) (\<lambda>time.
       Inr \<lparr>reaction_comment = comment, reaction_user = user, reaction_emoji = e, reaction_at = time\<rparr>)))))"

definition decisions :: "(string \<times> approval_decision) list" where
  "decisions = [(''approved'', Approved), (''changes_requested'', ChangesRequested)]"

definition parse_approval :: "json \<Rightarrow> collab_error + approval" where
  "parse_approval v =
     andThen (read_object v) (\<lambda>s.
     andThen (one_of decisions (field s ''decision'')) (\<lambda>decision.
     andThen (read_if read_text (field s ''note'')) (\<lambda>note.
     andThen (read_text (field s ''id'')) (\<lambda>i.
     andThen (read_text (field s ''revisionId'')) (\<lambda>revision.
     andThen (read_text (field s ''userId'')) (\<lambda>user.
     andThen (read_time (field s ''createdAt'')) (\<lambda>time.
       Inr \<lparr>approval_id = i, approval_revision = revision, approval_user = user, approval_decision = decision,
            approval_note = note, approval_at = time\<rparr>)))))))"

definition ai_lifecycles :: "(string \<times> ai_lifecycle) list" where
  "ai_lifecycles = [(''queued'', Queued), (''running'', Running), (''applied'', Applied), (''failed'', Failed),
     (''cancelled'', Cancelled), (''undone'', Undone)]"

definition parse_result :: "json \<Rightarrow> collab_error + ai_result" where
  "parse_result v =
     andThen (read_object v) (\<lambda>s.
     andThen (read_text (field s ''revisionId'')) (\<lambda>revision.
     andThen (read_text (field s ''revisionFingerprint'')) (\<lambda>fingerprint.
     andThen (read_text (field s ''diff'')) (\<lambda>diff.
     andThen (read_time (field s ''completedAt'')) (\<lambda>time.
       Inr \<lparr>result_revision = revision, result_fingerprint = fingerprint, result_diff = diff, result_at = time\<rparr>)))))"

definition parse_reference :: "json \<Rightarrow> collab_error + revision_reference" where
  "parse_reference v =
     andThen (read_object v) (\<lambda>s.
     andThen (read_text (field s ''id'')) (\<lambda>i.
     andThen (read_text (field s ''fingerprint'')) (\<lambda>f. Inr \<lparr>reference_id = i, reference_fingerprint = f\<rparr>)))"

definition parse_provider :: "json \<Rightarrow> collab_error + ai_provider" where
  "parse_provider v =
     andThen (read_object v) (\<lambda>s.
     andThen (read_if read_text (field s ''model'')) (\<lambda>model.
     andThen (read_if read_text (field s ''implementation'')) (\<lambda>implementation.
     andThen (read_text (field s ''providerId'')) (\<lambda>i.
     andThen (read_text (field s ''capability'')) (\<lambda>capability.
       Inr \<lparr>provider_id = i, provider_capability = capability, provider_model = model,
            provider_implementation = implementation\<rparr>)))))"

text \<open>An undone request without \<open>undoResult\<close> was undone to its result.\<close>

definition parse_request :: "runtime \<Rightarrow> json \<Rightarrow> collab_error + ai_request" where
  "parse_request t v =
     andThen (read_object v) (\<lambda>s.
     andThen (one_of ai_lifecycles (field s ''lifecycle'')) (\<lambda>lifecycle.
     andThen (read_if read_text (field s ''failureReason'')) (\<lambda>failure.
     andThen (read_if parse_result (field s ''result'')) (\<lambda>result.
     andThen (read_if parse_result (field s ''undoResult'')) (\<lambda>undo.
     andThen (read_text (field s ''id'')) (\<lambda>i.
     andThen (read_text (field s ''projectId'')) (\<lambda>project.
     andThen (read_if (parse_anchor t) (field s ''anchor'')) (\<lambda>anchor.
     andThen (read_text (field s ''instruction'')) (\<lambda>instruction.
     andThen (parse_provider (field s ''provider'')) (\<lambda>provider.
     andThen (parse_reference (field s ''baseRevision'')) (\<lambda>base.
     andThen (read_text (field s ''createdBy'')) (\<lambda>by.
     andThen (read_time (field s ''createdAt'')) (\<lambda>created.
     andThen (read_time (field s ''updatedAt'')) (\<lambda>updated.
       Inr \<lparr>ai_id = i, ai_project = project, ai_anchor = anchor, ai_instruction = instruction,
            ai_provider = provider, ai_base = base, ai_lifecycle = lifecycle, ai_by = by, ai_created = created,
            ai_updated = updated, ai_result = result,
            ai_undo = (if undo = None \<and> lifecycle = Undone then result else undo), ai_failure = failure\<rparr>))))))))))))))"

definition categories :: "(string \<times> annotation_category) list" where
  "categories = [(''development'', Development), (''interaction'', Interaction), (''accessibility'', Accessibility),
     (''content'', ContentNote)]"

definition parse_annotation :: "runtime \<Rightarrow> json \<Rightarrow> collab_error + annotation" where
  "parse_annotation t v =
     andThen (read_object v) (\<lambda>s.
     andThen (one_of categories (field s ''category'')) (\<lambda>category.
     andThen (read_text (field s ''id'')) (\<lambda>i.
     andThen (read_text (field s ''projectId'')) (\<lambda>project.
     andThen (parse_anchor t (field s ''anchor'')) (\<lambda>anchor.
     andThen (read_text (field s ''body'')) (\<lambda>body.
     andThen (read_text (field s ''createdBy'')) (\<lambda>by.
     andThen (read_time (field s ''createdAt'')) (\<lambda>time.
       Inr \<lparr>annotation_id = i, annotation_project = project, annotation_anchor = anchor,
            annotation_category = category, annotation_body = body, annotation_by = by,
            annotation_at = time\<rparr>))))))))"

section \<open>Review states\<close>

definition intents :: "(string \<times> review_intent) list" where
  "intents = [(''review'', ForReview), (''handoff'', ForHandoff)]"

definition readinesses :: "(string \<times> readiness) list" where
  "readinesses = [(''draft'', ReadyDraft), (''ready-for-review'', ReadyForReview), (''ready-for-handoff'', ReadyForHandoff)]"

definition currencies :: "(string \<times> currency) list" where
  "currencies = [(''current'', CurrencyCurrent), (''stale'', CurrencyStale), (''none'', CurrencyNone)]"

definition change_kinds :: "(string \<times> change_kind) list" where
  "change_kinds = [(''source'', KindSource), (''design-system'', KindDesignSystem), (''token'', KindToken),
     (''template'', KindTemplate), (''dependency'', KindDependency), (''visual'', KindVisual), (''flow'', KindFlow),
     (''direction'', KindDirection)]"

definition parse_baseline :: "json \<Rightarrow> collab_error + design_baseline" where
  "parse_baseline v =
     andThen (read_object v) (\<lambda>s.
     andThen (one_of intents (field s ''intent'')) (\<lambda>intent.
     andThen (read_time (field s ''createdAt'')) (\<lambda>time.
     andThen (read_text (field s ''id'')) (\<lambda>i.
     andThen (read_text (field s ''projectId'')) (\<lambda>project.
     andThen (parse_reference (field s ''revision'')) (\<lambda>revision.
     andThen (read_text (field s ''createdBy'')) (\<lambda>by.
       Inr \<lparr>base_id = i, base_project = project, base_revision = revision, base_intent = intent, base_by = by,
            base_at = time\<rparr>)))))))"

definition parse_change_provenance :: "json \<Rightarrow> collab_error + change_provenance" where
  "parse_change_provenance v =
     andThen (read_object v) (\<lambda>s.
       if field s ''kind'' = JStr ''actor'' then
         andThen (read_text (field s ''actorId'')) (\<lambda>a. Inr (ByActor a))
       else if field s ''kind'' = JStr ''agent'' then
         andThen (read_text (field s ''agentId'')) (\<lambda>a.
         andThen (read_text (field s ''promptDigest'')) (\<lambda>d. Inr (ByAgent a d)))
       else Inl ErrInvalid)"

definition parse_scope :: "json \<Rightarrow> collab_error + change_scope" where
  "parse_scope v =
     andThen (read_object v) (\<lambda>s.
     andThen (read_text (field s ''projectId'')) (\<lambda>project.
     andThen (read_strings (field s ''screenIds'')) (\<lambda>screens.
     andThen (read_strings (field s ''routePaths'')) (\<lambda>routes.
     andThen (read_strings (field s ''scenarioIds'')) (\<lambda>scenarios.
     andThen (read_strings (field s ''componentIds'')) (\<lambda>components.
     andThen (read_strings (field s ''stableNodeIds'')) (\<lambda>nodes.
       Inr \<lparr>scope_project = project, scope_screens = screens, scope_routes = routes, scope_scenarios = scenarios,
            scope_components = components, scope_nodes = nodes\<rparr>)))))))"

definition parse_visual :: "json \<Rightarrow> collab_error + visual_evidence" where
  "parse_visual v =
     andThen (read_object v) (\<lambda>s.
     andThen (read_text (field s ''description'')) (\<lambda>description.
     andThen (read_if read_text (field s ''href'')) (\<lambda>href.
     andThen (read_if read_text (field s ''checksum'')) (\<lambda>checksum.
       Inr \<lparr>visual_description = description, visual_href = href, visual_checksum = checksum\<rparr>))))"

definition parse_change :: "json \<Rightarrow> collab_error + change" where
  "parse_change v =
     andThen (read_object v) (\<lambda>s.
     andThen (one_of change_kinds (field s ''kind'')) (\<lambda>kind.
     andThen (read_array (field s ''evidence'')) (\<lambda>evidence.
     andThen (parse_change_provenance (field s ''provenance'')) (\<lambda>provenance.
     andThen (read_time (field s ''occurredAt'')) (\<lambda>time.
     andThen (read_text (field s ''id'')) (\<lambda>i.
     andThen (parse_reference (field s ''beforeRevision'')) (\<lambda>before.
     andThen (parse_reference (field s ''currentRevision'')) (\<lambda>current.
     andThen (parse_scope (field s ''affected'')) (\<lambda>affected.
     andThen (mapResult parse_visual evidence) (\<lambda>es.
     andThen (read_text (field s ''reason'')) (\<lambda>reason.
       Inr \<lparr>change_id = i, change_kind = kind, change_affected = affected, change_evidence = es,
            change_provenance = provenance, change_reason = reason, change_before = before,
            change_current = current, change_at = time\<rparr>)))))))))))"

text \<open>The value is copied before and the state after; both copies are within the budget or the parse fails.\<close>

definition parse_review_state :: "json \<Rightarrow> collab_error + review_state" where
  "parse_review_state w =
     (case own_value w of
        None \<Rightarrow> Inl ErrInvalid
      | Some v \<Rightarrow>
          andThen (read_object v) (\<lambda>s.
          failIf (field s ''format'' \<noteq> JStr review_state_format) ErrInvalid
         (andThen (read_text (field s ''projectId'')) (\<lambda>project.
          andThen (one_of readinesses (field s ''readiness'')) (\<lambda>ready.
          andThen (one_of currencies (field s ''currency'')) (\<lambda>currency.
          andThen (read_flag (field s ''approvalsStale'')) (\<lambda>stale.
          andThen (read_array (field s ''changesSinceBaseline'')) (\<lambda>items.
          andThen (read_if parse_baseline (field s ''baseline'')) (\<lambda>baseline.
          andThen (mapResult parse_change items) (\<lambda>cs.
          (let x = \<lparr>state_format = review_state_format, state_project = project, state_readiness = ready,
                 state_baseline = baseline, state_currency = currency, approvals_stale = stale, changes_since = cs\<rparr> in
           andThen (validate_review_state x) (\<lambda>u.
           andThen (owned_as review_state_json x) (\<lambda>u. Inr x)))))))))))))"

section \<open>Snapshots\<close>

definition legacy_format :: string where
  "legacy_format = ''selene-collaboration/v1''"

definition parse_project :: "json \<Rightarrow> collab_error + project" where
  "parse_project v =
     andThen (read_object v) (\<lambda>s.
     andThen (read_text (field s ''id'')) (\<lambda>i.
     andThen (read_text (field s ''organizationId'')) (\<lambda>organization.
     andThen (read_text (field s ''name'')) (\<lambda>name.
       Inr \<lparr>project_id = i, project_organization = organization, project_name = name\<rparr>))))"

text \<open>The aggregates that the first format did not have are empty when they are absent from it.\<close>

definition read_aggregate :: "bool \<Rightarrow> json \<Rightarrow> collab_error + json list" where
  "read_aggregate required v = (if \<not> required \<and> v = JOther NonObject then Inr [] else read_array v)"

definition parse_aggregates :: "runtime \<Rightarrow> (string \<times> json) list \<Rightarrow> collab_error + snapshot" where
  "parse_aggregates t s =
     (let v2 = (field s ''format'' = JStr collaboration_format) in
     andThen (read_array (field s ''revisions'')) (\<lambda>revisions.
     andThen (read_array (field s ''threads'')) (\<lambda>threads.
     andThen (read_array (field s ''comments'')) (\<lambda>comments.
     andThen (read_array (field s ''reactions'')) (\<lambda>reactions.
     andThen (read_array (field s ''approvals'')) (\<lambda>approvals.
     andThen (read_aggregate v2 (field s ''reviewThreads'')) (\<lambda>reviews.
     andThen (read_aggregate v2 (field s ''aiChangeRequests'')) (\<lambda>requests.
     andThen (read_aggregate v2 (field s ''developerAnnotations'')) (\<lambda>annotations.
     andThen (parse_project (field s ''project'')) (\<lambda>project.
     andThen (mapResult parse_revision revisions) (\<lambda>rs.
     andThen (mapResult parse_thread threads) (\<lambda>ts.
     andThen (mapResult parse_comment comments) (\<lambda>cs.
     andThen (mapResult parse_reaction reactions) (\<lambda>es.
     andThen (mapResult parse_approval approvals) (\<lambda>as.
     andThen (mapResult (parse_review t) reviews) (\<lambda>ws.
     andThen (mapResult (parse_request t) requests) (\<lambda>qs.
     andThen (mapResult (parse_annotation t) annotations) (\<lambda>ns.
     andThen (read_if parse_review_state (field s ''designReviewState'')) (\<lambda>state.
       Inr \<lparr>snap_format = collaboration_format, snap_project = project, snap_revisions = rs, snap_threads = ts,
            snap_comments = cs, snap_reactions = es, snap_approvals = as, snap_reviews = ws, snap_requests = qs,
            snap_annotations = ns, snap_review_state = state\<rparr>)))))))))))))))))))"

definition parse_snapshot_value :: "platform \<Rightarrow> runtime \<Rightarrow> json \<Rightarrow> collab_error + snapshot" where
  "parse_snapshot_value p t w =
     (case own_value w of
        None \<Rightarrow> Inl ErrInvalid
      | Some v \<Rightarrow>
          andThen (read_object v) (\<lambda>s.
          failIf (field s ''format'' \<notin> {JStr collaboration_format, JStr legacy_format}) ErrInvalid
         (andThen (parse_aggregates t s) (\<lambda>x.
          andThen (validate_snapshot p x) (\<lambda>u.
          andThen (owned_as snapshot_json x) (\<lambda>u. Inr x))))))"

definition parse_snapshot :: "platform \<Rightarrow> runtime \<Rightarrow> string \<Rightarrow> collab_error + snapshot" where
  "parse_snapshot p t s =
     (if utf8_length s > max_baseline_bytes then Inl ErrInvalid
      else case json_parse t s of
        None \<Rightarrow> Inl ErrInvalid
      | Some v \<Rightarrow> (case parse_snapshot_value p t v of Inl e \<Rightarrow> Inl ErrInvalid | Inr x \<Rightarrow> Inr x))"

definition serialize_snapshot :: "platform \<Rightarrow> runtime \<Rightarrow> snapshot \<Rightarrow> collab_error + string" where
  "serialize_snapshot p t x =
     andThen (owned_as snapshot_json x) (\<lambda>u.
     andThen (validate_snapshot p x) (\<lambda>u. Inr (json_indented t (snapshot_json x) @ [CHR 0x0A])))"

end
