(* ===== verification/Collab_Roundtrip.thy ===== *)
theory Collab_Roundtrip
  imports Collab_Parse Collab_Progress Collab_Swap
begin

text \<open>
  The records of a valid snapshot print to values that parse back to them: one lemma per record, from what
  its validator establishes, and the conditions that the validators leave open.
\<close>

section \<open>Reading fields\<close>

definition chosen :: "('a \<Rightarrow> json) \<Rightarrow> 'a option \<Rightarrow> json \<Rightarrow> json" where
  "chosen f v absent = (case v of None \<Rightarrow> absent | Some x \<Rightarrow> f x)"

lemma field_entry: "field ((k, w) # xs) j = (if j = k then w else field xs j)"
  and field_none: "field [] j = JOther NonObject"
  and field_optional: "field (optional k f v @ xs) j = (if j = k then chosen f v (field xs j) else field xs j)"
  and field_last: "field (optional k f v) j = (if j = k then chosen f v (JOther NonObject) else JOther NonObject)"
  by (auto simp: field_def optional_def chosen_def split: option.split)

lemmas field_simps = field_none field_entry field_optional field_last

lemma read_if_optional:
  assumes "\<And>x. v = Some x \<Longrightarrow> g (f x) = Inr x" "\<And>x. f x \<noteq> JOther NonObject"
  shows "read_if g (chosen f v (JOther NonObject)) = Inr v"
  using assms by (cases v) (simp_all add: read_if_def chosen_def)

lemma read_if_present: "v \<noteq> JOther NonObject \<Longrightarrow> g v = Inr x \<Longrightarrow> read_if g v = Inr (Some x)"
  by (simp add: read_if_def)

definition readable :: "string \<Rightarrow> bool" where
  "readable s \<longleftrightarrow> require_text_within 4000 s = Inr ()"

definition datable :: "string \<Rightarrow> bool" where
  "datable s \<longleftrightarrow> readable s \<and> require_timestamp s = Inr ()"

lemma read_text_readable [simp]: "readable s \<Longrightarrow> read_text (JStr s) = Inr s"
  by (simp add: readable_def read_text_def)

lemma read_time_datable [simp]: "datable s \<Longrightarrow> read_time (JStr s) = Inr s"
  by (simp add: datable_def read_time_def)

lemma trim_starts: "s \<noteq> [] \<Longrightarrow> \<not> is_js_space (hd s) \<Longrightarrow> js_trim s \<noteq> []"
  by (cases s) (simp_all add: js_trim_def dropWhile_append3 rev_eq_Cons_iff)

lemma readable_within: "require_text_within n s = Inr () \<Longrightarrow> n \<le> 4000 \<Longrightarrow> readable s"
  by (auto simp: readable_def require_text_within_def text_fits_def outcome_simps)

lemma readable_identifier: "require_identifier s = Inr () \<Longrightarrow> readable s"
proof -
  assume "require_identifier s = Inr ()"
  then have s: "s \<noteq> []" "length s \<le> 128" "is_letter (hd s) \<or> is_digit (hd s)"
    by (simp_all add: require_identifier_def stable_identifier_def max_identifier_def outcome_simps)
  then have "\<not> is_js_space (hd s)"
    by (auto simp: is_js_space_def is_letter_def is_lower_def is_upper_def is_digit_def)
  then show ?thesis using s utf8_length_le [of s] trim_starts [of s]
    by (simp add: readable_def require_text_within_def text_fits_def)
qed

lemma datable_timestamp: "require_timestamp s = Inr () \<Longrightarrow> datable s"
proof -
  assume time: "require_timestamp s = Inr ()"
  then obtain f where s: "length s \<le> max_timestamp" "timestamp_fraction (drop 19 s) = Some f"
    "plain_instant (take 19 s @ ''.'' @ f @ replicate (3 - length f) CHR ''0'' @ ''Z'')"
    by (auto simp: require_timestamp_def valid_timestamp_def outcome_simps split: option.splits)
  then obtain c r where c: "s = c # r" by (cases s) (simp_all add: timestamp_fraction_def)
  have "is_digit c" using s(3) by (simp add: c plain_instant_def plain_template_def fits_def numeral_eq_Suc)
  then have "\<not> is_js_space (hd s)" by (auto simp: c is_digit_def is_js_space_def)
  then show ?thesis using time s(1) trim_starts [of s] utf8_length_le [of s]
    by (simp add: datable_def readable_def require_text_within_def text_fits_def c max_timestamp_def)
qed

lemma read_number_json [simp]: "read_number t (number_json n) = Inr n"
  by (cases n) (simp_all add: read_number_def)

lemma read_strings_json [simp]: "distinct ss \<Longrightarrow> read_strings (strings_json ss) = Inr ss"
  by (simp add: read_strings_def read_array_def strings_json_def mapResult_map_Inr read_string_def)

lemma read_object_JObj [simp]: "read_object (JObj kvs) = Inr kvs"
  and read_array_JArr [simp]: "read_array (JArr xs) = Inr xs"
  by (simp_all add: read_object_def read_array_def)

lemma one_of_text:
  "one_of anchor_lifecycles (JStr (anchor_lifecycle_text a)) = Inr a"
  "one_of review_lifecycles (JStr (review_lifecycle_text b)) = Inr b"
  "one_of ai_lifecycles (JStr (ai_lifecycle_text c)) = Inr c"
  "one_of decisions (JStr (decision_text d)) = Inr d"
  "one_of categories (JStr (category_text e)) = Inr e"
  "one_of intents (JStr (review_intent_text f)) = Inr f"
  "one_of readinesses (JStr (readiness_text g)) = Inr g"
  "one_of currencies (JStr (currency_text h)) = Inr h"
  "one_of change_kinds (JStr (change_kind_text k)) = Inr k"
  by (cases a, simp_all add: one_of_def anchor_lifecycles_def) (cases b, simp_all add: one_of_def review_lifecycles_def,
      cases c, simp_all add: one_of_def ai_lifecycles_def, cases d, simp_all add: one_of_def decisions_def,
      cases e, simp_all add: one_of_def categories_def, cases f, simp_all add: one_of_def intents_def,
      cases g, simp_all add: one_of_def readinesses_def, cases h, simp_all add: one_of_def currencies_def,
      cases k, simp_all add: one_of_def change_kinds_def)

section \<open>Review threads\<close>

lemmas record_kinds = evidence_json_def anchor_json_def emoji_json_def message_json_def provenance_json_def
  binding_json_def review_json_def revision_json_def thread_json_def comment_json_def reaction_json_def
  approval_json_def result_json_def reference_json_def provider_json_def ai_json_def annotation_json_def
  base_json_def scope_json_def visual_json_def change_json_def change_entries_def review_state_json_def
  project_json_def snapshot_json_def

lemma json_not_undefined [simp]:
  "evidence_json a \<noteq> JOther NonObject" "anchor_json b \<noteq> JOther NonObject" "provenance_json c \<noteq> JOther NonObject"
  "binding_json d \<noteq> JOther NonObject" "result_json e \<noteq> JOther NonObject" "base_json f \<noteq> JOther NonObject"
  "review_state_json g \<noteq> JOther NonObject"
  by (simp_all add: record_kinds)

definition evidence_readable :: "evidence \<Rightarrow> bool" where
  "evidence_readable e \<longleftrightarrow> readable (ev_artifact e) \<and> readable (ev_screen e) \<and> readable (ev_revision e) \<and>
     readable (ev_fingerprint e) \<and> pred_option readable (ev_scenario e) \<and> pred_option readable (ev_state e) \<and>
     pred_option readable (ev_node e) \<and> pred_option readable (ev_source e)"

lemma read_if_text [simp]:
  "pred_option readable v \<Longrightarrow> read_if read_text (chosen JStr v (JOther NonObject)) = Inr v"
  "pred_option datable v \<Longrightarrow> read_if read_time (chosen JStr v (JOther NonObject)) = Inr v"
  by (rule read_if_optional; simp)+

lemma parse_evidence_json: "evidence_readable e \<Longrightarrow> parse_evidence t (evidence_json e) = Inr e"
  by (simp add: evidence_readable_def parse_evidence_def evidence_json_def field_simps)

lemma optional_readable:
  "optionally_require require_identifier v = Inr () \<Longrightarrow> pred_option readable v"
  "optionally_require (require_text_within n) v = Inr () \<Longrightarrow> n \<le> 4000 \<Longrightarrow> pred_option readable v"
  "optionally_require require_timestamp v = Inr () \<Longrightarrow> pred_option datable v"
  by (cases v; simp add: optionally_require_def readable_identifier readable_within datable_timestamp)+

lemma validated_evidence: "validate_evidence p e = Inr () \<Longrightarrow> evidence_readable e"
  by (auto simp: validate_evidence_def outcome_simps evidence_readable_def
      intro: readable_identifier readable_within optional_readable)

lemma parse_target_json: "\<exists>kvs. target_json x = JObj kvs \<and> parse_target t kvs = Inr x"
  by (cases x) (simp_all add: parse_target_def field_simps)

definition anchor_readable :: "anchor \<Rightarrow> bool" where
  "anchor_readable a \<longleftrightarrow> evidence_readable (anchor_evidence a) \<and> pred_option evidence_readable (mapped_from a)"

lemma parse_anchor_json: "anchor_readable a \<Longrightarrow> parse_anchor t (anchor_json a) = Inr a"
proof -
  assume a: "anchor_readable a"
  obtain kvs where kvs: "target_json (anchor_target a) = JObj kvs" "parse_target t kvs = Inr (anchor_target a)"
    using parse_target_json by blast
  have "read_if (parse_evidence t) (chosen evidence_json (mapped_from a) (JOther NonObject)) =
      Inr (mapped_from a)"
    using a by (intro read_if_optional) (auto simp: anchor_readable_def parse_evidence_json)
  then show ?thesis using a kvs
    by (simp add: parse_anchor_def anchor_json_def field_simps one_of_text anchor_readable_def parse_evidence_json)
qed

lemma validated_anchor: "validate_anchor p a r = Inr u \<Longrightarrow> anchor_readable a"
  by (auto simp: validate_anchor_def outcome_simps anchor_readable_def optionally_require_def validated_evidence
      split: option.splits)

definition message_readable :: "message \<Rightarrow> bool" where
  "message_readable m \<longleftrightarrow> readable (message_id m) \<and> readable (message_body m) \<and> readable (message_by m) \<and>
     datable (message_at m) \<and> pred_option readable (message_parent m) \<and> distinct (message_mentions m) \<and>
     distinct (message_reads m) \<and> list_all (\<lambda>g. readable (emoji g) \<and> distinct (emoji_users g)) (message_reactions m)"

lemma parse_message_json: "message_readable m \<Longrightarrow> parse_message (message_json m) = Inr m"
proof -
  assume m: "message_readable m"
  then have "mapResult parse_emoji (map emoji_json (message_reactions m)) = Inr (message_reactions m)"
    by (intro mapResult_map_Inr) (auto simp: message_readable_def parse_emoji_def emoji_json_def field_simps list_all_iff)
  then show ?thesis using m by (simp add: parse_message_def message_json_def field_simps message_readable_def)
qed

lemma validated_messages: "validate_messages seen ms = Inr () \<Longrightarrow> list_all readable seen \<Longrightarrow> list_all message_readable ms"
proof (induction ms arbitrary: seen)
  case (Cons m ms)
  then have m: "validate_message seen m = Inr ()" "validate_messages (message_id m # seen) ms = Inr ()"
    by (simp_all add: outcome_simps)
  have groups: "readable (emoji g) \<and> distinct (emoji_users g)" if here: "g \<in> set (message_reactions m)" for g
  proof -
    obtain y where "validate_emoji g = Inr y"
      using m(1) by (auto simp: validate_message_def outcome_simps dest: mapResult_all [OF _ here])
    then show ?thesis by (auto simp: validate_emoji_def outcome_simps intro: readable_within)
  qed
  have i: "readable (message_id m)" using m(1) by (auto simp: validate_message_def outcome_simps intro: readable_identifier)
  have "message_readable m" using m(1) groups Cons.prems(2)
    by (auto simp: message_readable_def validate_message_def outcome_simps list_all_iff
        intro: readable_identifier readable_within datable_timestamp split: option.splits)
  then show ?case using Cons.IH [OF m(2)] Cons.prems(2) i by simp
qed simp

lemma parse_provenance_json: "validate_provenance c = Inr () \<Longrightarrow> parse_provenance (provenance_json c) = Inr c"
  by (auto simp: validate_provenance_def outcome_simps parse_provenance_def provenance_json_def field_simps
      dest!: readable_identifier)

lemma parse_binding_json: "validate_binding b = Inr () \<Longrightarrow> parse_binding (binding_json b) = Inr b"
  by (auto simp: validate_binding_def outcome_simps parse_binding_def binding_json_def field_simps read_version_def
      dest!: readable_identifier)

lemma validate_deep_link_readable: "validate_deep_link p s = Inr () \<Longrightarrow> readable s"
  by (auto simp: validate_deep_link_def outcome_simps max_url_def dest!: readable_within)

definition review_readable :: "review_thread \<Rightarrow> bool" where
  "review_readable t \<longleftrightarrow> readable (review_id t) \<and> readable (review_project t) \<and>
     pred_option (\<lambda>b. parse_binding (binding_json b) = Inr b) (review_binding t) \<and>
     pred_option (\<lambda>c. parse_provenance (provenance_json c) = Inr c) (review_provenance t) \<and>
     safe_version (review_version t) \<and> anchor_readable (review_anchor t) \<and>
     list_all message_readable (review_messages t) \<and> readable (review_link t) \<and> readable (review_by t) \<and>
     datable (review_at t) \<and> pred_option datable (resolved_at t) \<and> pred_option readable (resolved_by t) \<and>
     pred_option datable (reopened_at t) \<and> pred_option readable (reopened_by t) \<and>
     pred_option datable (moved_at t) \<and> pred_option readable (moved_by t)"

lemma parse_review_json: "review_readable w \<Longrightarrow> parse_review t (review_json w) = Inr w"
proof -
  assume w: "review_readable w"
  then have "mapResult parse_message (map message_json (review_messages w)) = Inr (review_messages w)"
    by (intro mapResult_map_Inr) (simp add: review_readable_def list_all_iff parse_message_json)
  moreover have "read_if parse_binding (chosen binding_json (review_binding w) (JOther NonObject)) = Inr (review_binding w)"
    "read_if parse_provenance (chosen provenance_json (review_provenance w) (JOther NonObject)) = Inr (review_provenance w)"
    by (rule read_if_optional; use w in \<open>simp add: review_readable_def\<close>)+
  moreover have "read_if read_version (JNum (review_version w)) = Inr (Some (review_version w))"
    using w by (simp add: read_if_def read_version_def review_readable_def)
  ultimately show ?thesis using w
    by (simp add: parse_review_def review_json_def field_simps one_of_text review_readable_def parse_anchor_json)
qed

lemma validated_review:
  assumes "validate_review_thread p w = Inr ()" "anchor_readable (review_anchor w)"
  shows "review_readable w"
proof -
  have "list_all message_readable (review_messages w)"
    using assms(1) by (auto simp: validate_review_thread_def outcome_simps intro: validated_messages [of "[]"])
  moreover have "pred_option (\<lambda>b. parse_binding (binding_json b) = Inr b) (review_binding w)"
    using assms(1) by (auto simp: validate_review_thread_def outcome_simps optionally_require_def parse_binding_json
        split: option.splits)
  moreover have "pred_option (\<lambda>c. parse_provenance (provenance_json c) = Inr c) (review_provenance w)"
    using assms(1) by (auto simp: validate_review_thread_def outcome_simps optionally_require_def parse_provenance_json
        split: option.splits)
  moreover have "validate_lifecycle w = Inr ()" "require_identifier (review_id w) = Inr ()"
    "require_identifier (review_project w) = Inr ()" "safe_version (review_version w)" "require_identifier (review_by w) = Inr ()"
    "require_timestamp (review_at w) = Inr ()" "validate_deep_link p (review_link w) = Inr ()"
    using assms(1) by (auto simp: validate_review_thread_def outcome_simps)
  ultimately show ?thesis using assms(2)
    by (auto simp: review_readable_def validate_lifecycle_def outcome_simps
        intro: readable_identifier datable_timestamp optional_readable validate_deep_link_readable)
qed

section \<open>Revisions, discussions and requests\<close>

definition revision_readable :: "revision \<Rightarrow> bool" where
  "revision_readable r \<longleftrightarrow> readable (rev_id r) \<and> readable (rev_project r) \<and> pred_option readable (rev_parent r) \<and>
     readable (rev_sha r) \<and> distinct (rev_scenarios r) \<and> readable (rev_created_by r) \<and> datable (rev_created_at r)"

lemma parse_revision_json: "revision_readable r \<Longrightarrow> parse_revision (revision_json r) = Inr r"
  by (simp add: revision_readable_def parse_revision_def revision_json_def field_simps read_integer_def)

definition thread_readable :: "thread \<Rightarrow> bool" where
  "thread_readable t \<longleftrightarrow> readable (thread_id t) \<and> readable (thread_project t) \<and> readable (thread_revision t) \<and>
     readable (thread_node t) \<and> readable (thread_scenario t) \<and> readable (thread_by t) \<and> datable (thread_at t) \<and>
     pred_option datable (thread_resolved_at t) \<and> pred_option readable (thread_resolved_by t)"

lemma parse_thread_json: "thread_readable t \<Longrightarrow> parse_thread (thread_json t) = Inr t"
  by (simp add: thread_readable_def parse_thread_def thread_json_def field_simps)

definition comment_readable :: "comment \<Rightarrow> bool" where
  "comment_readable c \<longleftrightarrow> readable (comment_id c) \<and> readable (comment_thread c) \<and> pred_option readable (comment_parent c) \<and>
     readable (comment_body c) \<and> readable (comment_by c) \<and> datable (comment_at c) \<and> distinct (comment_mentions c)"

lemma parse_comment_json: "comment_readable c \<Longrightarrow> parse_comment (comment_json c) = Inr c"
  by (simp add: comment_readable_def parse_comment_def comment_json_def field_simps)

definition reaction_readable :: "reaction \<Rightarrow> bool" where
  "reaction_readable r \<longleftrightarrow> readable (reaction_comment r) \<and> readable (reaction_user r) \<and> readable (reaction_emoji r) \<and>
     datable (reaction_at r)"

lemma parse_reaction_json: "reaction_readable r \<Longrightarrow> parse_reaction (reaction_json r) = Inr r"
  by (simp add: reaction_readable_def parse_reaction_def reaction_json_def field_simps)

definition approval_readable :: "approval \<Rightarrow> bool" where
  "approval_readable a \<longleftrightarrow> readable (approval_id a) \<and> readable (approval_revision a) \<and> readable (approval_user a) \<and>
     pred_option readable (approval_note a) \<and> datable (approval_at a)"

lemma parse_approval_json: "approval_readable a \<Longrightarrow> parse_approval (approval_json a) = Inr a"
  by (simp add: approval_readable_def parse_approval_def approval_json_def field_simps one_of_text)

definition result_readable :: "ai_result \<Rightarrow> bool" where
  "result_readable r \<longleftrightarrow> readable (result_revision r) \<and> readable (result_fingerprint r) \<and> readable (result_diff r) \<and>
     datable (result_at r)"

lemma parse_result_json: "result_readable r \<Longrightarrow> parse_result (result_json r) = Inr r"
  by (simp add: result_readable_def parse_result_def result_json_def field_simps)

definition reference_readable :: "revision_reference \<Rightarrow> bool" where
  "reference_readable r \<longleftrightarrow> readable (reference_id r) \<and> readable (reference_fingerprint r)"

lemma parse_reference_json: "reference_readable r \<Longrightarrow> parse_reference (reference_json r) = Inr r"
  by (simp add: reference_readable_def parse_reference_def reference_json_def field_simps)

definition provider_readable :: "ai_provider \<Rightarrow> bool" where
  "provider_readable p \<longleftrightarrow> readable (provider_id p) \<and> readable (provider_capability p) \<and>
     pred_option readable (provider_model p) \<and> pred_option readable (provider_implementation p)"

lemma parse_provider_json: "provider_readable p \<Longrightarrow> parse_provider (provider_json p) = Inr p"
  by (simp add: provider_readable_def parse_provider_def provider_json_def field_simps)

definition request_readable :: "ai_request \<Rightarrow> bool" where
  "request_readable a \<longleftrightarrow> readable (ai_id a) \<and> readable (ai_project a) \<and> pred_option anchor_readable (ai_anchor a) \<and>
     readable (ai_instruction a) \<and> provider_readable (ai_provider a) \<and> reference_readable (ai_base a) \<and>
     readable (ai_by a) \<and> datable (ai_created a) \<and> datable (ai_updated a) \<and> pred_option result_readable (ai_result a) \<and>
     pred_option result_readable (ai_undo a) \<and> pred_option readable (ai_failure a) \<and>
     (ai_lifecycle a = Undone \<longrightarrow> ai_undo a \<noteq> None)"

lemma parse_request_json: "request_readable a \<Longrightarrow> parse_request t (ai_json a) = Inr a"
proof -
  assume a: "request_readable a"
  have "read_if parse_result (chosen result_json (ai_result a) (JOther NonObject)) = Inr (ai_result a)"
    "read_if parse_result (chosen result_json (ai_undo a) (JOther NonObject)) = Inr (ai_undo a)"
    "read_if (parse_anchor t) (chosen anchor_json (ai_anchor a) (JOther NonObject)) = Inr (ai_anchor a)"
    by (rule read_if_optional; use a in \<open>simp add: request_readable_def parse_result_json parse_anchor_json\<close>)+
  moreover have "\<not> (ai_undo a = None \<and> ai_lifecycle a = Undone)" using a by (auto simp: request_readable_def)
  ultimately show ?thesis using a
    by (auto simp: parse_request_def ai_json_def field_simps one_of_text request_readable_def parse_provider_json
        parse_reference_json)
qed

definition annotation_readable :: "annotation \<Rightarrow> bool" where
  "annotation_readable n \<longleftrightarrow> readable (annotation_id n) \<and> readable (annotation_project n) \<and>
     anchor_readable (annotation_anchor n) \<and> readable (annotation_body n) \<and> readable (annotation_by n) \<and>
     datable (annotation_at n)"

lemma parse_annotation_json: "annotation_readable n \<Longrightarrow> parse_annotation t (annotation_json n) = Inr n"
  by (simp add: annotation_readable_def parse_annotation_def annotation_json_def field_simps one_of_text parse_anchor_json)

section \<open>Review states\<close>

definition change_readable :: "change \<Rightarrow> bool" where
  "change_readable c \<longleftrightarrow> readable (change_id c) \<and> readable (change_reason c) \<and> datable (change_at c) \<and>
     reference_readable (change_before c) \<and> reference_readable (change_current c) \<and>
     readable (scope_project (change_affected c)) \<and>
     list_all (\<lambda>f. distinct (f (change_affected c))) [scope_screens, scope_routes, scope_scenarios, scope_components, scope_nodes] \<and>
     list_all (\<lambda>e. readable (visual_description e) \<and> pred_option readable (visual_href e) \<and>
       pred_option readable (visual_checksum e)) (change_evidence c) \<and>
     (case change_provenance c of ByActor a \<Rightarrow> readable a | ByAgent a d \<Rightarrow> readable a \<and> readable d)"

lemma parse_change_json: "change_readable c \<Longrightarrow> parse_change (change_json c) = Inr c"
proof -
  assume c: "change_readable c"
  have "parse_visual (visual_json e) = Inr e" if "e \<in> set (change_evidence c)" for e
  proof -
    have "readable (visual_description e) \<and> pred_option readable (visual_href e) \<and> pred_option readable (visual_checksum e)"
      using c that by (auto simp: change_readable_def list_all_iff)
    then show ?thesis by (simp add: parse_visual_def visual_json_def field_simps)
  qed
  then have "mapResult parse_visual (map visual_json (change_evidence c)) = Inr (change_evidence c)"
    by (rule mapResult_map_Inr)
  moreover have "parse_change_provenance (change_provenance_json (change_provenance c)) = Inr (change_provenance c)"
    using c by (cases "change_provenance c") (simp_all add: change_readable_def parse_change_provenance_def field_simps)
  moreover have "parse_scope (scope_json (change_affected c)) = Inr (change_affected c)"
    using c by (simp add: change_readable_def parse_scope_def scope_json_def field_simps)
  ultimately show ?thesis using c
    by (simp add: parse_change_def change_json_def change_entries_def field_simps one_of_text change_readable_def
        parse_reference_json)
qed

definition state_readable :: "review_state \<Rightarrow> bool" where
  "state_readable s \<longleftrightarrow> state_format s = review_state_format \<and> readable (state_project s) \<and>
     pred_option (\<lambda>b. readable (base_id b) \<and> readable (base_project b) \<and> reference_readable (base_revision b) \<and>
       readable (base_by b) \<and> datable (base_at b)) (state_baseline s) \<and> list_all change_readable (changes_since s)"

lemma validated_change: "validate_design_change c i = Inr () \<Longrightarrow> readable i \<Longrightarrow> change_readable c"
proof -
  assume v: "validate_design_change c i = Inr ()" and i: "readable i"
  have "readable (visual_description e) \<and> pred_option readable (visual_href e) \<and> pred_option readable (visual_checksum e)"
    if here: "e \<in> set (change_evidence c)" for e
    using v by (auto simp: validate_design_change_def outcome_simps dest!: mapResult_all [OF _ here]
        intro: readable_within optional_readable)
  then show ?thesis using v i
    by (auto simp: validate_design_change_def outcome_simps change_readable_def reference_readable_def list_all_iff
        intro: readable_within datable_timestamp split: change_provenance.splits)
qed

lemma validated_state: "validate_review_state s = Inr () \<Longrightarrow> state_readable s"
proof -
  assume v: "validate_review_state s = Inr ()"
  have project: "state_format s = review_state_format \<and> readable (state_project s)"
    using v by (auto simp: validate_review_state_def outcome_simps intro: readable_within)
  show ?thesis
  proof (cases "state_baseline s")
    case None
    then show ?thesis using v project by (simp add: validate_review_state_def outcome_simps state_readable_def)
  next
    case (Some b)
    have "change_readable c" if here: "c \<in> set (changes_since s)" for c
    proof -
      obtain y where "validate_design_change c (state_project s) = Inr y"
        using v Some by (auto simp: validate_review_state_def outcome_simps dest: mapResult_all [OF _ here])
      then show ?thesis using validated_change project by simp
    qed
    then show ?thesis using v Some project
      by (auto simp: validate_review_state_def outcome_simps state_readable_def reference_readable_def list_all_iff
          intro: readable_within datable_timestamp)
  qed
qed

section \<open>Copies of printed records\<close>

definition still :: "(string \<times> json) list \<Rightarrow> bool" where
  "still kvs \<longleftrightarrow> list_all (\<lambda>kv. fst kv \<noteq> ''length'' \<and> inert_copy (snd kv) = snd kv) kvs"

lemma still_simps [simp]:
  "still []" "still ((k, v) # kvs) \<longleftrightarrow> k \<noteq> ''length'' \<and> inert_copy v = v \<and> still kvs"
  "still (xs @ ys) \<longleftrightarrow> still xs \<and> still ys"
  by (simp_all add: still_def)

lemma still_optional [simp]: "k \<noteq> ''length'' \<Longrightarrow> (\<And>x. inert_copy (f x) = f x) \<Longrightarrow> still (optional k f v)"
  by (cases v) (simp_all add: optional_def)

lemma still_copy: "still kvs \<Longrightarrow> inert_copy (JObj kvs) = JObj kvs"
  by (simp add: still_def list_all_iff map_idI filter_id_conv)

lemma still_list: "(\<And>x. x \<in> set xs \<Longrightarrow> inert_copy (f x) = f x) \<Longrightarrow> inert_copy (JArr (map f xs)) = JArr (map f xs)"
  by (simp add: comp_def)

lemma strings_still [simp]: "inert_copy (strings_json ss) = strings_json ss"
  by (simp add: strings_json_def comp_def)

lemma numbers_still [simp]: "inert_copy (number_json n) = number_json n"
  by (cases n) simp_all

lemma still_from: "v = JObj kvs \<Longrightarrow> still kvs \<Longrightarrow> inert_copy v = v"
  using still_copy by simp

lemma variants_still [simp]:
  "inert_copy (target_json b) = target_json b" "inert_copy (change_provenance_json r) = change_provenance_json r"
  by (cases b; simp) (cases r; simp)

lemma small_still [simp]:
  "inert_copy (evidence_json a) = evidence_json a" "inert_copy (provenance_json c) = provenance_json c"
  "inert_copy (binding_json d) = binding_json d" "inert_copy (emoji_json e) = emoji_json e"
  "inert_copy (reaction_json f) = reaction_json f" "inert_copy (result_json g) = result_json g"
  "inert_copy (reference_json h) = reference_json h" "inert_copy (project_json i) = project_json i"
  "inert_copy (thread_json j) = thread_json j" "inert_copy (comment_json k) = comment_json k"
  "inert_copy (approval_json l) = approval_json l" "inert_copy (provider_json m) = provider_json m"
  "inert_copy (scope_json n) = scope_json n" "inert_copy (visual_json q) = visual_json q"
  by (rule still_from, (rule evidence_json_def provenance_json_def binding_json_def emoji_json_def reaction_json_def
      result_json_def reference_json_def project_json_def thread_json_def comment_json_def approval_json_def
      provider_json_def scope_json_def visual_json_def)?, simp)+

lemma composed_still [simp]:
  "inert_copy (anchor_json a) = anchor_json a" "inert_copy (message_json m) = message_json m"
  "inert_copy (base_json b) = base_json b" "inert_copy (change_json c) = change_json c"
  by (rule still_from, (rule anchor_json_def message_json_def base_json_def change_json_def)?,
      simp add: change_entries_def comp_def)+

lemma records_still [simp]:
  "inert_copy (review_json t) = review_json t" "inert_copy (ai_json q) = ai_json q"
  "inert_copy (annotation_json n) = annotation_json n" "inert_copy (review_state_json v) = review_state_json v"
  by (rule still_from, (rule review_json_def ai_json_def annotation_json_def review_state_json_def)?,
      simp add: comp_def)+

lemma revision_still: "copy_revision r = r \<Longrightarrow> inert_copy (revision_json r) = revision_json r"
proof -
  assume "copy_revision r = r"
  then have "inert_copy (rev_content r) = rev_content r" by (metis copy_revision_def revision.select_convs(5) revision.surjective revision.update_convs(5))
  then show ?thesis by (intro still_from [OF revision_json_def]) simp
qed

section \<open>Snapshots\<close>

text \<open>What the validation of a snapshot does not check and its parser does.\<close>

definition importable :: "snapshot \<Rightarrow> bool" where
  "importable x \<longleftrightarrow>
     list_all (\<lambda>t. readable (thread_id t)) (snap_threads x) \<and> list_all (\<lambda>c. readable (comment_id c)) (snap_comments x) \<and>
     list_all (\<lambda>a. readable (ai_id a) \<and> readable (ai_by a) \<and> datable (ai_created a) \<and> datable (ai_updated a) \<and>
       pred_option readable (provider_model (ai_provider a)) \<and> pred_option readable (provider_implementation (ai_provider a)) \<and>
       pred_option (\<lambda>r. readable (result_diff r)) (ai_result a) \<and> pred_option (\<lambda>r. readable (result_diff r)) (ai_undo a))
       (snap_requests x)"

lemma snapshot_still: "copy_snapshot x = x \<Longrightarrow> inert_copy (snapshot_json x) = snapshot_json x"
proof -
  assume "copy_snapshot x = x"
  then have "map copy_revision (snap_revisions x) = snap_revisions x"
    by (metis copy_snapshot_def snapshot.select_convs(3) snapshot.surjective snapshot.update_convs(3))
  then have "copy_revision r = r" if "r \<in> set (snap_revisions x)" for r using that by (metis map_eq_conv map_ident)
  then show ?thesis by (intro still_from [OF snapshot_json_def]) (simp add: comp_def revision_still)
qed

lemma parse_review_state_json:
  assumes "validate_review_state v = Inr ()"
  shows "parse_review_state (review_state_json v) = Inr v"
proof -
  have v: "state_readable v" using assms by (rule validated_state)
  have "parse_baseline (base_json b) = Inr b" if "state_baseline v = Some b" for b
    using v that by (simp add: state_readable_def parse_baseline_def base_json_def field_simps one_of_text parse_reference_json)
  then have "read_if parse_baseline (chosen base_json (state_baseline v) (JOther NonObject)) = Inr (state_baseline v)"
    by (intro read_if_optional) simp_all
  moreover have "mapResult parse_change (map change_json (changes_since v)) = Inr (changes_since v)"
    using v by (intro mapResult_map_Inr) (auto simp: state_readable_def list_all_iff parse_change_json)
  moreover have fits: "fits_boundary (review_state_json v)"
    using assms by (simp add: validate_review_state_def outcome_simps owned_as_Inr)
  moreover have "own_value (review_state_json v) = Some (review_state_json v)" using fits by (simp add: own_value_fits)
  ultimately show ?thesis using v assms
    by (cases v) (auto simp: parse_review_state_def review_state_json_def field_simps one_of_text state_readable_def
        read_flag_def Let_def)
qed

lemma parse_aggregates_json:
  assumes "snap_format x = collaboration_format" "parse_project (project_json (snap_project x)) = Inr (snap_project x)"
    and "\<And>r. r \<in> set (snap_revisions x) \<Longrightarrow> revision_readable r" "\<And>r. r \<in> set (snap_threads x) \<Longrightarrow> thread_readable r"
    and "\<And>r. r \<in> set (snap_comments x) \<Longrightarrow> comment_readable r" "\<And>r. r \<in> set (snap_reactions x) \<Longrightarrow> reaction_readable r"
    and "\<And>r. r \<in> set (snap_approvals x) \<Longrightarrow> approval_readable r" "\<And>r. r \<in> set (snap_reviews x) \<Longrightarrow> review_readable r"
    and "\<And>r. r \<in> set (snap_requests x) \<Longrightarrow> request_readable r" "\<And>r. r \<in> set (snap_annotations x) \<Longrightarrow> annotation_readable r"
    and "\<And>v. snap_review_state x = Some v \<Longrightarrow> validate_review_state v = Inr ()"
  shows "\<exists>kvs. snapshot_json x = JObj kvs \<and> parse_aggregates t kvs = Inr x \<and> field kvs ''format'' = JStr collaboration_format"
proof -
  have "read_if parse_review_state (chosen review_state_json (snap_review_state x) (JOther NonObject)) = Inr (snap_review_state x)"
    using assms(11) by (intro read_if_optional) (simp_all add: parse_review_state_json)
  moreover have "mapResult parse_revision (map revision_json (snap_revisions x)) = Inr (snap_revisions x)"
    "mapResult parse_thread (map thread_json (snap_threads x)) = Inr (snap_threads x)"
    "mapResult parse_comment (map comment_json (snap_comments x)) = Inr (snap_comments x)"
    "mapResult parse_reaction (map reaction_json (snap_reactions x)) = Inr (snap_reactions x)"
    "mapResult parse_approval (map approval_json (snap_approvals x)) = Inr (snap_approvals x)"
    "mapResult (parse_review t) (map review_json (snap_reviews x)) = Inr (snap_reviews x)"
    "mapResult (parse_request t) (map ai_json (snap_requests x)) = Inr (snap_requests x)"
    "mapResult (parse_annotation t) (map annotation_json (snap_annotations x)) = Inr (snap_annotations x)"
    by (rule mapResult_map_Inr, simp add: assms parse_revision_json parse_thread_json parse_comment_json parse_reaction_json
        parse_approval_json parse_review_json parse_request_json parse_annotation_json)+
  ultimately show ?thesis using assms(1,2)
    by (simp add: snapshot_json_def parse_aggregates_def field_simps read_aggregate_def Let_def)
qed

lemma validate_revisions_each: "validate_revisions i seen rs = Inr () \<Longrightarrow> r \<in> set rs \<Longrightarrow> \<exists>k. validate_revision i k r = Inr ()"
  by (induction rs arbitrary: seen) (auto simp: outcome_simps)

lemma validate_threads_each: "validate_threads i rs seen ts = Inr () \<Longrightarrow> t \<in> set ts \<Longrightarrow> \<exists>k. validate_thread i rs k t = Inr ()"
  by (induction ts arbitrary: seen) (auto simp: outcome_simps)

lemma validate_comments_each:
  "validate_comments ts seen cs = Inr () \<Longrightarrow> c \<in> set cs \<Longrightarrow>
     validate_comment c = Inr () \<and> require_identifier (comment_by c) = Inr () \<and> require_timestamp (comment_at c) = Inr ()"
  by (induction cs arbitrary: seen) (auto simp: outcome_simps)

lemma named_revision: "revision_named rs i = Some r \<Longrightarrow> r \<in> set rs \<and> rev_id r = i"
  unfolding revision_named_def by (drule find_Some_in) auto

lemma validated_request:
  assumes "validate_ai_request p a r = Inr ()" "rev_id r = reference_id (ai_base a)" "readable (rev_id r)"
    "readable (rev_sha r)" "readable (ai_project a)"
    and "readable (ai_id a)" "readable (ai_by a)" "datable (ai_created a)" "datable (ai_updated a)"
    "pred_option readable (provider_model (ai_provider a))" "pred_option readable (provider_implementation (ai_provider a))"
    "pred_option (\<lambda>r. readable (result_diff r)) (ai_result a)" "pred_option (\<lambda>r. readable (result_diff r)) (ai_undo a)"
  shows "request_readable a"
proof -
  have result: "result_readable q" if "validate_result q = Inr u" "readable (result_diff q)" for q u
    using that by (auto simp: validate_result_def outcome_simps result_readable_def intro: readable_within datable_timestamp)
  have "pred_option result_readable (ai_result a)" "pred_option result_readable (ai_undo a)"
    using assms(1,12,13) by (auto simp: validate_ai_request_def outcome_simps optionally_require_def option.pred_set
        intro: result split: option.splits)
  moreover have "pred_option anchor_readable (ai_anchor a)"
    using assms(1) by (auto simp: validate_ai_request_def outcome_simps optionally_require_def option.pred_set
        intro: validated_anchor split: option.splits)
  moreover have "readable (ai_instruction a)" "provider_readable (ai_provider a)" "reference_readable (ai_base a)"
    "pred_option readable (ai_failure a)" "ai_lifecycle a = Undone \<longrightarrow> ai_undo a \<noteq> None"
    using assms by (auto simp: validate_ai_request_def outcome_simps provider_readable_def reference_readable_def
        intro: readable_within readable_identifier optional_readable)
  ultimately show ?thesis using assms(5-9) by (simp add: request_readable_def)
qed

lemma validated_members:
  assumes "validate_snapshot p x = Inr ()" "importable x"
  shows "parse_project (project_json (snap_project x)) = Inr (snap_project x)"
    "\<And>r. r \<in> set (snap_revisions x) \<Longrightarrow> revision_readable r" "\<And>r. r \<in> set (snap_threads x) \<Longrightarrow> thread_readable r"
    "\<And>r. r \<in> set (snap_comments x) \<Longrightarrow> comment_readable r" "\<And>r. r \<in> set (snap_reactions x) \<Longrightarrow> reaction_readable r"
    "\<And>r. r \<in> set (snap_approvals x) \<Longrightarrow> approval_readable r" "\<And>r. r \<in> set (snap_reviews x) \<Longrightarrow> review_readable r"
    "\<And>r. r \<in> set (snap_requests x) \<Longrightarrow> request_readable r" "\<And>r. r \<in> set (snap_annotations x) \<Longrightarrow> annotation_readable r"
    "\<And>v. snap_review_state x = Some v \<Longrightarrow> validate_review_state v = Inr ()"
proof -
  let ?i = "project_id (snap_project x)" and ?rs = "snap_revisions x"
  have v: "validate_revisions ?i [] ?rs = Inr ()" "validate_threads ?i ?rs [] (snap_threads x) = Inr ()"
    "validate_comments (map thread_id (snap_threads x)) [] (snap_comments x) = Inr ()"
    "\<exists>ys. mapResult (validate_reaction (map comment_id (snap_comments x))) (snap_reactions x) = Inr ys"
    "\<exists>ys. mapResult (validate_approval (map rev_id ?rs)) (snap_approvals x) = Inr ys"
    "\<exists>ys. mapResult (validate_snapshot_review p ?i ?rs) (snap_reviews x) = Inr ys"
    "\<exists>ys. mapResult (validate_snapshot_request p ?i ?rs) (snap_requests x) = Inr ys"
    "\<exists>ys. mapResult (validate_snapshot_annotation p ?i ?rs) (snap_annotations x) = Inr ys"
    "require_identifier ?i = Inr ()" "require_identifier (project_organization (snap_project x)) = Inr ()"
    "require_text_within 4000 (project_name (snap_project x)) = Inr ()"
    and parents: "list_all (\<lambda>r. case rev_parent r of None \<Rightarrow> True | Some q \<Rightarrow> q \<in> rev_id ` set ?rs) ?rs"
    and state: "\<And>y. snap_review_state x = Some y \<Longrightarrow> validate_review_state y = Inr ()"
    using assms(1) by (auto simp: validate_snapshot_def Let_def outcome_simps optionally_require_def)
  show "\<And>v. snap_review_state x = Some v \<Longrightarrow> validate_review_state v = Inr ()" by (rule state)
  have i: "readable ?i" using v(9) by (rule readable_identifier)
  show "parse_project (project_json (snap_project x)) = Inr (snap_project x)"
    using i readable_identifier [OF v(10)] readable_within [OF v(11)]
    by (simp add: parse_project_def project_json_def field_simps)
  have ids: "readable (rev_id r)" if "r \<in> set ?rs" for r
    using validate_revisions_each [OF v(1) that] by (auto simp: validate_revision_def outcome_simps intro: readable_identifier)
  show revision: "revision_readable r" if here: "r \<in> set ?rs" for r
  proof -
    have "pred_option readable (rev_parent r)"
      using parents here ids by (auto simp: list_all_iff option.pred_set split: option.splits)
    then show ?thesis using validate_revisions_each [OF v(1) here] ids [OF here] i
      by (auto simp: validate_revision_def outcome_simps revision_readable_def
          intro: readable_identifier readable_within datable_timestamp)
  qed
  show threads: "thread_readable t" if here: "t \<in> set (snap_threads x)" for t
  proof -
    obtain k where k: "validate_thread ?i ?rs k t = Inr ()" using validate_threads_each [OF v(2) here] by blast
    then obtain r where "revision_named ?rs (thread_revision t) = Some r"
      by (auto simp: validate_thread_def outcome_simps split: option.splits)
    then have "readable (thread_revision t)" using named_revision ids by metis
    then show ?thesis using k assms(2) here i
      by (auto simp: validate_thread_def validate_thread_anchor_def outcome_simps thread_readable_def importable_def list_all_iff
          intro: readable_identifier datable_timestamp optional_readable split: option.splits)
  qed
  have named: "readable (comment_id c)" if "c \<in> set (snap_comments x)" for c
    using assms(2) that by (simp add: importable_def list_all_iff)
  show "comment_readable c" if here: "c \<in> set (snap_comments x)" for c
  proof -
    have "comment_thread c \<in> thread_id ` set (snap_threads x)" "pred_option readable (comment_parent c)"
      using validate_comments_Inr [OF v(3)] here named by (fastforce simp: option.pred_set)+
    then show ?thesis using validate_comments_each [OF v(3) here] named [OF here] threads
      by (auto simp: validate_comment_def outcome_simps comment_readable_def thread_readable_def readable_def
          intro: readable_identifier [unfolded readable_def] datable_timestamp)
  qed
  show "reaction_readable r" if here: "r \<in> set (snap_reactions x)" for r
    using mapResult_each [OF v(4) here] named
    by (auto simp: validate_reaction_def outcome_simps reaction_readable_def
        intro: readable_identifier readable_within datable_timestamp)
  show "approval_readable a" if here: "a \<in> set (snap_approvals x)" for a
    using mapResult_each [OF v(5) here] ids
    by (auto simp: validate_approval_def outcome_simps approval_readable_def
        intro: readable_identifier datable_timestamp optional_readable)
  show "review_readable w" if here: "w \<in> set (snap_reviews x)" for w
  proof -
    obtain y where "validate_snapshot_review p ?i ?rs w = Inr y" using mapResult_each [OF v(6) here] by blast
    then show ?thesis by (auto simp: validate_snapshot_review_def outcome_simps
        intro: validated_review validated_anchor split: option.splits)
  qed
  show "annotation_readable n" if here: "n \<in> set (snap_annotations x)" for n
  proof -
    obtain y where "validate_snapshot_annotation p ?i ?rs n = Inr y" using mapResult_each [OF v(8) here] by blast
    then show ?thesis by (auto simp: validate_snapshot_annotation_def validate_annotation_def outcome_simps annotation_readable_def
        intro: validated_anchor readable_identifier readable_within datable_timestamp split: option.splits)
  qed
  show "request_readable a" if here: "a \<in> set (snap_requests x)" for a
  proof -
    obtain y where "validate_snapshot_request p ?i ?rs a = Inr y" using mapResult_each [OF v(7) here] by blast
    then obtain r where r: "revision_named ?rs (reference_id (ai_base a)) = Some r" "validate_ai_request p a r = Inr ()"
      "ai_project a = ?i"
      by (auto simp: validate_snapshot_request_def outcome_simps split: option.splits)
    have "r \<in> set ?rs" "rev_id r = reference_id (ai_base a)" using named_revision [OF r(1)] by simp_all
    then show ?thesis using r assms(2) here i revision [of r]
      by (intro validated_request [of p a r]) (auto simp: importable_def list_all_iff revision_readable_def)
  qed
qed

lemma snapshot_value_roundtrip:
  assumes "validate_snapshot p x = Inr ()" "importable x" "copy_snapshot x = x"
  shows "parse_snapshot_value p t (snapshot_json x) = Inr x"
proof -
  have x: "fits_boundary (snapshot_json x)" "snap_format x = collaboration_format"
    using assms(1) by (auto simp: validate_snapshot_def Let_def outcome_simps owned_as_Inr)
  obtain kvs where "snapshot_json x = JObj kvs" "parse_aggregates t kvs = Inr x" "field kvs ''format'' = JStr collaboration_format"
    using parse_aggregates_json [OF x(2) validated_members [OF assms(1,2)]] by blast
  moreover have "own_value (snapshot_json x) = Some (snapshot_json x)"
    using x(1) snapshot_still [OF assms(3)] by (simp add: own_value_fits)
  ultimately show ?thesis using assms(1) x(1) by (simp add: parse_snapshot_value_def)
qed

end
