(* ===== verification/Collab_Exchange.thy ===== *)
theory Collab_Exchange
  imports Collab_Roundtrip Collab_Theorems
begin

text \<open>
  Exchange of projects as text: what \<open>serializeSnapshot\<close> writes \<open>parseSnapshot\<close> reads back, except for the
  requests whose result the parser's text limit refuses.
\<close>

section \<open>The round trip\<close>

lemma serialized_validates:
  assumes "serialize_snapshot p t x = Inr s"
  shows "validate_snapshot p x = Inr ()" "s = json_indented t (snapshot_json x) @ [CHR 0x0A]"
  using assms by (auto simp: serialize_snapshot_def outcome_simps)

text \<open>C13. What is serialized parses back to the same snapshot, provided \<open>JSON.parse\<close> inverts
  \<open>JSON.stringify\<close> on it, the text is within the import limit, the contents of its revisions are inert, and
  the texts that the validators do not bound are within the limit of the parser.\<close>

theorem snapshot_text_roundtrip:
  assumes "serialize_snapshot p t x = Inr s"
    and "json_parse t s = Some (snapshot_json x)" "utf8_length s \<le> max_baseline_bytes"
    and "copy_snapshot x = x" "importable x"
  shows "parse_snapshot p t s = Inr x"
  using snapshot_value_roundtrip [OF serialized_validates(1) [OF assms(1)] assms(5,4), of t] assms(2,3)
  by (simp add: parse_snapshot_def)

section \<open>A result that does not come back\<close>

lemma parsed_requests: "parse_aggregates t kvs = Inr y \<Longrightarrow> field kvs ''aiChangeRequests'' = JArr xs \<Longrightarrow>
    \<exists>qs. mapResult (parse_request t) xs = Inr qs"
  by (auto simp: parse_aggregates_def Let_def outcome_simps read_aggregate_def read_array_def split: if_splits)

lemma parsed_diff: "parse_result (result_json r) = Inr y \<Longrightarrow> text_fits 4000 (result_diff r)"
  by (auto simp: parse_result_def result_json_def outcome_simps read_object_def field_def read_text_def
      require_text_within_def)

lemma parsed_result: "parse_request t (JObj kvs) = Inr y \<Longrightarrow> \<exists>z. read_if parse_result (field kvs ''result'') = Inr z"
  by (auto simp: parse_request_def outcome_simps read_object_def)

lemma parsed_request_diff:
  assumes "parse_request t (ai_json a) = Inr y" "ai_result a = Some r"
  shows "text_fits 4000 (result_diff r)"
proof -
  obtain kvs where kvs: "ai_json a = JObj kvs" "field kvs ''result'' = result_json r"
    using assms(2) by (simp add: ai_json_def field_simps chosen_def)
  then obtain z where "read_if parse_result (result_json r) = Inr z" using parsed_result assms(1) by metis
  moreover have "result_json r \<noteq> JOther NonObject" by (simp add: result_json_def)
  ultimately show ?thesis by (auto simp: read_if_def outcome_simps intro: parsed_diff)
qed

text \<open>A request whose result has a diff of more than 4,000 characters, which the validation accepts up to
  1,000,000, makes the exported text of its project unreadable: \<open>parseSnapshot\<close> refuses it.\<close>

theorem long_diff_refused:
  assumes "serialize_snapshot p t x = Inr s" "json_parse t s = Some (snapshot_json x)" "copy_snapshot x = x"
    and "a \<in> set (snap_requests x)" "ai_result a = Some r" "4000 < length (result_diff r)"
  shows "parse_snapshot p t s = Inl ErrInvalid"
proof -
  have "parse_snapshot_value p t (snapshot_json x) \<noteq> Inr y" for y
  proof
    assume "parse_snapshot_value p t (snapshot_json x) = Inr y"
    then obtain kvs where kvs: "snapshot_json x = JObj kvs" "parse_aggregates t kvs = Inr y"
      using snapshot_still [OF assms(3)]
      by (auto simp: parse_snapshot_value_def own_value_fits outcome_simps read_object_def split: if_splits option.splits json.splits)
    have "field kvs ''aiChangeRequests'' = JArr (map ai_json (snap_requests x))"
      using kvs(1) by (auto simp: snapshot_json_def field_def)
    then obtain qs where "mapResult (parse_request t) (map ai_json (snap_requests x)) = Inr qs"
      using parsed_requests [OF kvs(2)] by blast
    then obtain q where "parse_request t (ai_json a) = Inr q" using mapResult_each assms(4) by fastforce
    then show False using parsed_request_diff [OF _ assms(5)] assms(6) by (fastforce simp: text_fits_def)
  qed
  then show ?thesis using assms(2) by (auto simp: parse_snapshot_def split: sum.split)
qed

section \<open>Witnesses\<close>

definition fixed_runtime :: "json \<Rightarrow> runtime" where
  "fixed_runtime v = \<lparr>json_parse = (\<lambda>s. Some v), json_indented = (\<lambda>v. ''{}''), text_number = (\<lambda>s. None)\<rparr>"

lemma sample_snapshot_still: "copy_snapshot sample_snapshot = sample_snapshot"
  by (simp add: copy_snapshot_def sample_snapshot_def sample_revision_parts)

theorem snapshot_text_roundtrip_witness:
  "serialize_snapshot sample_platform (fixed_runtime (snapshot_json sample_snapshot)) sample_snapshot = Inr (''{}'' @ [CHR 0x0A]) \<and>
   parse_snapshot sample_platform (fixed_runtime (snapshot_json sample_snapshot)) (''{}'' @ [CHR 0x0A]) = Inr sample_snapshot"
proof -
  let ?t = "fixed_runtime (snapshot_json sample_snapshot)"
  have "serialize_snapshot sample_platform ?t sample_snapshot = Inr (''{}'' @ [CHR 0x0A])"
    using snapshot_validates sample_snapshot_fits(1) by (simp add: serialize_snapshot_def fixed_runtime_def)
  moreover from this have "parse_snapshot sample_platform ?t (''{}'' @ [CHR 0x0A]) = Inr sample_snapshot"
    by (rule snapshot_text_roundtrip)
      (simp_all add: fixed_runtime_def collab_limits sample_snapshot_still, simp add: importable_def sample_snapshot_def)
  ultimately show ?thesis by blast
qed

definition long_result :: ai_result where
  "long_result = \<lparr>result_revision = ''r1'', result_fingerprint = ''f1'', result_diff = replicate 4001 CHR ''d'',
     result_at = ''2026-01-02T03:04:05Z''\<rparr>"

definition long_request :: ai_request where
  "long_request = sample_request\<lparr>ai_lifecycle := Applied, ai_result := Some long_result\<rparr>"

definition long_snapshot :: snapshot where
  "long_snapshot = sample_snapshot\<lparr>snap_requests := [long_request]\<rparr>"

lemma long_length: "utf8_length (replicate n CHR ''d'') = n"
  by (induction n) simp_all

lemma long_fits:
  "fits_boundary (ai_json long_request)" "fits_boundary (snapshot_json long_snapshot)"
  by (simp_all add: boundary_eval long_snapshot_def long_request_def long_result_def sample_request_def sample_snapshot_def
      snapshot_json_def sample_records record_jsons nat_text.simps collaboration_format_def ai_json_def result_json_def
      provider_json_def reference_json_def long_length)

lemma long_texts: "require_text_within 1000000 (replicate 4001 CHR ''d'') = Inr ()" "require_text_within 4000 ''do'' = Inr ()"
  "require_identifier ''v'' = Inr ()" "require_text_within 128 ''c'' = Inr ()" "require_text_within 4000 ''r1'' = Inr ()"
  "require_text_within 4000 ''f1'' = Inr ()"
proof -
  have "replicate 4001 CHR ''d'' = CHR ''d'' # replicate 4000 CHR ''d''" by (simp add: numeral_eq_Suc)
  then have "js_trim (replicate 4001 CHR ''d'') \<noteq> []" by (intro trim_starts) (simp_all add: is_js_space_def)
  then show "require_text_within 1000000 (replicate 4001 CHR ''d'') = Inr ()"
    by (simp add: require_text_within_def text_fits_def long_length)
qed (simp_all add: text_eval collab_limits)

lemma long_request_validates: "validate_ai_request sample_platform long_request sample_revision = Inr ()"
  using long_fits(1) sample_fits(1) sample_validates(2) long_texts sample_timestamp
  by (simp add: validate_ai_request_def long_request_def sample_request_def optionally_require_def validate_result_def
      long_result_def sample_revision_def)

lemma long_snapshot_validates: "validate_snapshot sample_platform long_snapshot = Inr ()"
proof -
  have "validate_snapshot_request sample_platform ''p'' [sample_revision] long_request = Inr ()"
    using long_request_validates long_fits(1) sample_fits(1)
    by (simp add: validate_snapshot_request_def long_request_def sample_request_def revision_named_def sample_revision_def
        validate_result_references_def validate_result_reference_def long_result_def optionally_require_def collab_limits)
  then show ?thesis using snapshot_validates long_fits(2)
    by (simp add: validate_snapshot_def long_snapshot_def sample_snapshot_def sample_project_def outcome_simps oversized_def
        collab_limits Let_def)
qed

theorem long_diff_refused_witness:
  "serialize_snapshot sample_platform (fixed_runtime (snapshot_json long_snapshot)) long_snapshot = Inr (''{}'' @ [CHR 0x0A]) \<and>
   parse_snapshot sample_platform (fixed_runtime (snapshot_json long_snapshot)) (''{}'' @ [CHR 0x0A]) = Inl ErrInvalid"
proof -
  let ?t = "fixed_runtime (snapshot_json long_snapshot)"
  have "serialize_snapshot sample_platform ?t long_snapshot = Inr (''{}'' @ [CHR 0x0A])"
    using long_snapshot_validates long_fits(2) by (simp add: serialize_snapshot_def fixed_runtime_def)
  moreover from this have "parse_snapshot sample_platform ?t (''{}'' @ [CHR 0x0A]) = Inl ErrInvalid"
    by (rule long_diff_refused [where a = long_request and r = long_result])
      (simp_all add: fixed_runtime_def long_snapshot_def long_request_def long_result_def,
       simp add: copy_snapshot_def sample_snapshot_def sample_revision_parts)
  ultimately show ?thesis by blast
qed

end
