(* ===== verification/Collab_History.thy ===== *)
theory Collab_History
  imports Collab_Project
begin

text \<open>
  Revision history of \<open>packages/collaboration/src/history.ts\<close>: the roles of an organization, structural
  differences of design contents, restored revisions, merge plans and approval policies.
\<close>

section \<open>Roles and actions\<close>

datatype membership_role = RoleOwner | RoleAdmin | RoleEditor | RoleCommenter | RoleViewer | RoleGuest

fun role_text :: "membership_role \<Rightarrow> string" where
  "role_text RoleOwner = ''owner''"
| "role_text RoleAdmin = ''admin''"
| "role_text RoleEditor = ''editor''"
| "role_text RoleCommenter = ''commenter''"
| "role_text RoleViewer = ''viewer''"
| "role_text RoleGuest = ''guest''"

datatype collaboration_action =
    CreatesProject | ReadsProject | DesignsProject | CommentsProject | ApprovesProject
  | ManagesSharing | RestoresProject | MergesProject | DeletesProject

fun allowed_roles :: "collaboration_action \<Rightarrow> membership_role list" where
  "allowed_roles CreatesProject = [RoleOwner, RoleAdmin, RoleEditor]"
| "allowed_roles ReadsProject = [RoleOwner, RoleAdmin, RoleEditor, RoleCommenter, RoleViewer, RoleGuest]"
| "allowed_roles DesignsProject = [RoleOwner, RoleAdmin, RoleEditor]"
| "allowed_roles CommentsProject = [RoleOwner, RoleAdmin, RoleEditor, RoleCommenter]"
| "allowed_roles ApprovesProject = [RoleOwner, RoleAdmin, RoleEditor]"
| "allowed_roles ManagesSharing = [RoleOwner, RoleAdmin, RoleEditor]"
| "allowed_roles RestoresProject = [RoleOwner, RoleAdmin]"
| "allowed_roles MergesProject = [RoleOwner, RoleAdmin]"
| "allowed_roles DeletesProject = [RoleOwner, RoleAdmin]"

definition role_allows :: "membership_role \<Rightarrow> collaboration_action \<Rightarrow> bool" where
  "role_allows r a \<longleftrightarrow> r \<in> set (allowed_roles a)"

record membership =
  member_organization :: string
  member_user :: string
  member_role :: membership_role

definition membership_json :: "membership \<Rightarrow> json" where
  "membership_json m = JObj [(''organizationId'', JStr (member_organization m)), (''userId'', JStr (member_user m)),
     (''role'', JStr (role_text (member_role m)))]"

datatype revision_action = RevisionRead | RevisionComment | RevisionEdit | RevisionApprove | RevisionRestore | RevisionMerge

fun action_of_revision :: "revision_action \<Rightarrow> collaboration_action" where
  "action_of_revision RevisionRead = ReadsProject"
| "action_of_revision RevisionComment = CommentsProject"
| "action_of_revision RevisionEdit = DesignsProject"
| "action_of_revision RevisionApprove = ApprovesProject"
| "action_of_revision RevisionRestore = RestoresProject"
| "action_of_revision RevisionMerge = MergesProject"

definition can_perform_revision_action :: "membership_role \<Rightarrow> revision_action \<Rightarrow> bool" where
  "can_perform_revision_action r a = role_allows r (action_of_revision a)"

text \<open>What the functions throw: a \<open>CollaborationError\<close>, the error of the boundary copy of a result, and
  the plain \<open>Error\<close> of a policy.\<close>

datatype history_error = HistoryInvalid | HistoryBoundary | HistoryPolicy

definition owned_input :: "json \<Rightarrow> history_error + unit" where
  "owned_input v = failIf (\<not> fits_boundary v) HistoryInvalid (Inr ())"

definition owned_output :: "('a \<Rightarrow> json) \<Rightarrow> 'a \<Rightarrow> history_error + 'a" where
  "owned_output value_of x = failIf (\<not> fits_boundary (value_of x)) HistoryBoundary (Inr x)"

section \<open>Differences\<close>

text \<open>What reading a property gives: data, nothing, or what a copied object inherits from
  \<open>Object.prototype\<close>: its methods, and itself as the value of \<open>__proto__\<close>.\<close>

datatype operand = Missing | Method | RootPrototype | Data json

definition inherited_methods :: "string list" where
  "inherited_methods = [''constructor'', ''__defineGetter__'', ''__defineSetter__'', ''hasOwnProperty'',
     ''__lookupGetter__'', ''__lookupSetter__'', ''isPrototypeOf'', ''propertyIsEnumerable'', ''toString'',
     ''valueOf'', ''toLocaleString'']"

definition inherited_name :: "string \<Rightarrow> bool" where
  "inherited_name k \<longleftrightarrow> k = ''__proto__'' \<or> k \<in> set inherited_methods"

text \<open>The own enumerable properties of what \<open>recordObject\<close> accepts.\<close>

fun own_entries :: "operand \<Rightarrow> (string \<times> json) list option" where
  "own_entries (Data (JObj kvs)) = Some kvs"
| "own_entries RootPrototype = Some []"
| "own_entries x = None"

text \<open>\<open>key in value\<close> and \<open>value[key]\<close>; the prototype of \<open>Object.prototype\<close> is \<open>null\<close>.\<close>

definition has_property :: "(string \<times> json) list \<Rightarrow> string \<Rightarrow> bool" where
  "has_property kvs k \<longleftrightarrow> k \<in> fst ` set kvs \<or> inherited_name k"

fun get_property :: "operand \<Rightarrow> string \<Rightarrow> operand" where
  "get_property (Data (JObj kvs)) k =
     (case map_of kvs k of
        Some v \<Rightarrow> Data v
      | None \<Rightarrow> if k = ''__proto__'' then RootPrototype else if k \<in> set inherited_methods then Method else Missing)"
| "get_property RootPrototype k =
     (if k = ''__proto__'' then Data JNull else if k \<in> set inherited_methods then Method else Missing)"
| "get_property x k = Missing"

definition equal_operands :: "operand \<Rightarrow> operand \<Rightarrow> bool" where
  "equal_operands x y = (case (x, y) of (Data v, Data w) \<Rightarrow> equal_values v w | _ \<Rightarrow> False)"

datatype edit_kind = EditAdd | EditRemove | EditReplace

fun edit_kind_text :: "edit_kind \<Rightarrow> string" where
  "edit_kind_text EditAdd = ''add''"
| "edit_kind_text EditRemove = ''remove''"
| "edit_kind_text EditReplace = ''replace''"

record edit =
  edit_kind :: edit_kind
  edit_path :: string
  edit_before :: operand
  edit_after :: operand

fun operand_entry :: "string \<Rightarrow> operand \<Rightarrow> (string \<times> json) list" where
  "operand_entry k Missing = []"
| "operand_entry k (Data v) = [(k, v)]"
| "operand_entry k x = [(k, JOther ExoticObject)]"

definition edit_json :: "edit \<Rightarrow> json" where
  "edit_json e = JObj ([(''kind'', JStr (edit_kind_text (edit_kind e))), (''path'', JStr (edit_path e))] @
     operand_entry ''before'' (edit_before e) @ operand_entry ''after'' (edit_after e))"

fun pointer_char :: "char \<Rightarrow> string" where
  "pointer_char c = (if c = CHR ''~'' then ''~0'' else if c = CHR ''/'' then ''~1'' else [c])"

definition pointer_token :: "string \<Rightarrow> string" where
  "pointer_token s = concat (map pointer_char s)"

definition child_path :: "string \<Rightarrow> string \<Rightarrow> string" where
  "child_path path k = path @ CHR ''/'' # pointer_token k"

definition replaced_edit :: "operand \<Rightarrow> operand \<Rightarrow> string \<Rightarrow> edit" where
  "replaced_edit x y path = \<lparr>edit_kind = (if x = Missing then EditAdd else if y = Missing then EditRemove else EditReplace),
     edit_path = path, edit_before = x, edit_after = y\<rparr>"

fun operand_size :: "operand \<Rightarrow> nat" where
  "operand_size (Data v) = size v"
| "operand_size RootPrototype = 1"
| "operand_size x = 0"

lemma entry_size: "map_of kvs k = Some v \<Longrightarrow> size v < size (JObj kvs)"
  using json_entry_size [of "(k, v)" kvs] by (auto dest: map_of_SomeD)

lemma get_property_size: "operand_size (get_property x k) \<le> operand_size x"
  by (cases "(x, k)" rule: get_property.cases) (auto split: option.split dest!: entry_size)

lemma own_property_size: "own_entries x = Some kvs \<Longrightarrow> k \<in> fst ` set kvs \<Longrightarrow> operand_size (get_property x k) < operand_size x"
  by (cases x rule: own_entries.cases) (auto split: option.split simp: map_of_eq_None_iff image_iff dest!: entry_size)

lemma diff_decreases:
  assumes "own_entries x = Some xs" "own_entries y = Some ys" "k \<in> fst ` set xs \<union> fst ` set ys"
  shows "operand_size (get_property x k) + operand_size (get_property y k) < operand_size x + operand_size y"
  using assms own_property_size [of x xs k] own_property_size [of y ys k] get_property_size [of x k] get_property_size [of y k]
  by fastforce

text \<open>\<open>diffValue\<close>: the list of the changes that it appends.  The only exception is the one of the limit,
  which \<open>diff_revisions\<close> checks on the whole list.\<close>

function diff_value :: "operand \<Rightarrow> operand \<Rightarrow> string \<Rightarrow> edit list" where
  "diff_value x y path =
     (if equal_operands x y then []
      else case (own_entries x, own_entries y) of
        (Some xs, Some ys) \<Rightarrow>
          concat (map (\<lambda>k.
            if \<not> has_property xs k then
              [\<lparr>edit_kind = EditAdd, edit_path = child_path path k, edit_before = Missing, edit_after = get_property y k\<rparr>]
            else if \<not> has_property ys k then
              [\<lparr>edit_kind = EditRemove, edit_path = child_path path k, edit_before = get_property x k, edit_after = Missing\<rparr>]
            else diff_value (get_property x k) (get_property y k) (child_path path k))
            (sort (remdups (map fst xs @ map fst ys))))
      | _ \<Rightarrow> [replaced_edit x y path])"
  by pat_completeness auto

termination
  by (relation "measure (\<lambda>(x, y, path). operand_size x + operand_size y)") (auto dest!: sym [of "Some _"] intro!: diff_decreases rev_image_eqI)

declare diff_value.simps [simp del]

record revision_diff =
  diff_from :: string
  diff_to :: string
  diff_changes :: "edit list"

definition diff_json :: "revision_diff \<Rightarrow> json" where
  "diff_json d = JObj [(''fromRevisionId'', JStr (diff_from d)), (''toRevisionId'', JStr (diff_to d)),
     (''changes'', JArr (map edit_json (diff_changes d)))]"

definition content_diff :: "revision \<Rightarrow> revision \<Rightarrow> edit list" where
  "content_diff a b = diff_value (Data (inert_copy (rev_content a))) (Data (inert_copy (rev_content b))) []"

definition diff_revisions :: "revision \<Rightarrow> revision \<Rightarrow> history_error + revision_diff" where
  "diff_revisions a b =
     andThen (owned_input (revision_json a)) (\<lambda>u.
     andThen (owned_input (revision_json b)) (\<lambda>u.
     failIf (rev_project a \<noteq> rev_project b) HistoryInvalid
    (failIf (length (content_diff a b) > max_items) HistoryInvalid
    (owned_output diff_json \<lparr>diff_from = rev_id a, diff_to = rev_id b, diff_changes = content_diff a b\<rparr>))))"

section \<open>Restored revisions\<close>

record restore_input =
  restore_id :: string
  restore_sha :: string
  restore_by :: string
  restore_at :: string
  restore_reason :: string

definition restore_json :: "restore_input \<Rightarrow> json" where
  "restore_json i = JObj [(''id'', JStr (restore_id i)), (''contentSha256'', JStr (restore_sha i)),
     (''createdBy'', JStr (restore_by i)), (''createdAt'', JStr (restore_at i)), (''reason'', JStr (restore_reason i))]"

record restored_revision =
  restored_revision :: revision
  restored_from :: string
  restored_reason :: string

definition restored_json :: "restored_revision \<Rightarrow> json" where
  "restored_json r = JObj [(''restoredFromRevisionId'', JStr (restored_from r)), (''reason'', JStr (restored_reason r)),
     (''revision'', revision_json (restored_revision r))]"

definition create_restored_revision :: "revision \<Rightarrow> revision \<Rightarrow> restore_input \<Rightarrow> history_error + restored_revision" where
  "create_restored_revision target current i =
     andThen (owned_input (revision_json target)) (\<lambda>u.
     andThen (owned_input (revision_json current)) (\<lambda>u.
     andThen (owned_input (restore_json i)) (\<lambda>u.
     failIf (rev_project target \<noteq> rev_project current) HistoryInvalid
    (failIf (js_trim (restore_reason i) = []) HistoryInvalid
    (owned_output restored_json
       \<lparr>restored_revision = \<lparr>rev_id = restore_id i, rev_project = rev_project current,
          rev_sequence = rev_sequence current + 1, rev_parent = Some (rev_id current),
          rev_content = inert_copy (rev_content target), rev_sha = restore_sha i, rev_scenarios = rev_scenarios target,
          rev_created_by = restore_by i, rev_created_at = restore_at i\<rparr>,
        restored_from = rev_id target, restored_reason = restore_reason i\<rparr>)))))"

section \<open>Merge plans\<close>

definition paths_overlap :: "string \<Rightarrow> string \<Rightarrow> bool" where
  "paths_overlap l r \<longleftrightarrow> l = r \<or> starts_with l (r @ ''/'') \<or> starts_with r (l @ ''/'')"

record merge_conflict =
  conflict_path :: string
  conflict_target :: edit
  conflict_source :: edit

definition conflict_json :: "merge_conflict \<Rightarrow> json" where
  "conflict_json c = JObj [(''path'', JStr (conflict_path c)), (''target'', edit_json (conflict_target c)),
     (''source'', edit_json (conflict_source c))]"

record merge_plan =
  plan_base :: string
  plan_target :: string
  plan_source :: string
  plan_changes :: "edit list"
  plan_conflicts :: "merge_conflict list"

definition plan_json :: "merge_plan \<Rightarrow> json" where
  "plan_json p = JObj [(''baseRevisionId'', JStr (plan_base p)), (''targetRevisionId'', JStr (plan_target p)),
     (''sourceRevisionId'', JStr (plan_source p)), (''changes'', JArr (map edit_json (plan_changes p))),
     (''conflicts'', JArr (map conflict_json (plan_conflicts p)))]"

text \<open>The first target change that touches the path of the candidate decides; \<open>None\<close> is a safe change.\<close>

definition colliding_edit :: "edit list \<Rightarrow> edit \<Rightarrow> edit option" where
  "colliding_edit targets e =
     (case List.find (\<lambda>t. paths_overlap (edit_path t) (edit_path e)) targets of
        None \<Rightarrow> None
      | Some t \<Rightarrow> if equal_operands (edit_after t) (edit_after e) then None else Some t)"

definition merge_conflicts :: "edit list \<Rightarrow> edit list \<Rightarrow> merge_conflict list" where
  "merge_conflicts targets sources =
     List.map_filter (\<lambda>e. map_option (\<lambda>t. \<lparr>conflict_path = edit_path e, conflict_target = t, conflict_source = e\<rparr>)
       (colliding_edit targets e)) sources"

definition plan_revision_merge :: "revision \<Rightarrow> revision \<Rightarrow> revision \<Rightarrow> history_error + merge_plan" where
  "plan_revision_merge base target source =
     andThen (owned_input (revision_json base)) (\<lambda>u.
     andThen (owned_input (revision_json target)) (\<lambda>u.
     andThen (owned_input (revision_json source)) (\<lambda>u.
     failIf (rev_project base \<noteq> rev_project target \<or> rev_project base \<noteq> rev_project source) HistoryInvalid
    (andThen (diff_revisions (copy_revision base) (copy_revision target)) (\<lambda>t.
     andThen (diff_revisions (copy_revision base) (copy_revision source)) (\<lambda>s.
     owned_output plan_json
       \<lparr>plan_base = rev_id base, plan_target = rev_id target, plan_source = rev_id source,
        plan_changes = filter (\<lambda>e. colliding_edit (diff_changes t) e = None) (diff_changes s),
        plan_conflicts = merge_conflicts (diff_changes t) (diff_changes s)\<rparr>))))))"

section \<open>Approval policies\<close>

record approval_policy =
  minimum_approvals :: number
  required_roles :: "membership_role list"
  changes_block :: bool

definition policy_value :: "approval_policy \<Rightarrow> json" where
  "policy_value p = JObj [(''minimumApprovals'', number_json (minimum_approvals p)),
     (''requiredRoles'', strings_json (map role_text (required_roles p))),
     (''changesRequestedBlocks'', JBool (changes_block p))]"

record policy_evaluation =
  policy_approved :: bool
  approved_by :: "string list"
  missing_roles :: "membership_role list"
  changes_requested_by :: "string list"

definition evaluation_json :: "policy_evaluation \<Rightarrow> json" where
  "evaluation_json e = JObj [(''approved'', JBool (policy_approved e)), (''approvedBy'', strings_json (approved_by e)),
     (''missingRoles'', strings_json (map role_text (missing_roles e))),
     (''changesRequestedBy'', strings_json (changes_requested_by e))]"

text \<open>Maps in insertion order, where a later entry with the same key replaces the value.\<close>

definition role_by_user :: "membership list \<Rightarrow> (string \<times> membership_role) list" where
  "role_by_user ms = foldl (\<lambda>t m. AList.update (member_user m) (member_role m) t) [] ms"

definition latest_approvals :: "approval list \<Rightarrow> (string \<times> approval) list" where
  "latest_approvals as = foldl (\<lambda>t a. AList.update (approval_user a) a t) [] as"

definition may_approve :: "(string \<times> membership_role) list \<Rightarrow> string \<Rightarrow> bool" where
  "may_approve roles u =
     (case map_of roles u of None \<Rightarrow> False | Some r \<Rightarrow> can_perform_revision_action r RevisionApprove)"

fun least_approvals :: "number \<Rightarrow> nat option" where
  "least_approvals (Whole n) = (if n < 1 then None else Some (nat n))"
| "least_approvals (Fraction d) = None"

definition evaluate_approval_policy :: "approval_policy \<Rightarrow> approval list \<Rightarrow> membership list \<Rightarrow> history_error + policy_evaluation" where
  "evaluate_approval_policy p as ms =
     andThen (owned_input (policy_value p)) (\<lambda>u.
     andThen (owned_input (JArr (map approval_json as))) (\<lambda>u.
     andThen (owned_input (JArr (map membership_json ms))) (\<lambda>u.
     failIf (length as > max_items \<or> length ms > max_items \<or> length (required_roles p) > max_references) HistoryInvalid
    (case least_approvals (minimum_approvals p) of
       None \<Rightarrow> Inl HistoryPolicy
     | Some least \<Rightarrow>
         (let roles = role_by_user ms;
              latest = map snd (latest_approvals as);
              approvers = sort (map approval_user (filter (\<lambda>a. may_approve roles (approval_user a))
                (filter (\<lambda>a. approval_decision a = Approved) latest)));
              requesters = sort (map approval_user (filter (\<lambda>a. approval_decision a = ChangesRequested) latest));
              missing = sort_key role_text (filter (\<lambda>r. Some r \<notin> map_of roles ` set approvers) (remdups (required_roles p)))
          in owned_output evaluation_json
            \<lparr>policy_approved = (length approvers \<ge> least \<and> missing = [] \<and> (\<not> changes_block p \<or> requesters = [])),
             approved_by = approvers, missing_roles = missing, changes_requested_by = requesters\<rparr>)))))"

record baseline_status =
  status_currency :: currency
  status_stale :: bool

definition status_json :: "baseline_status \<Rightarrow> json" where
  "status_json b = JObj [(''currency'', JStr (currency_text (status_currency b))), (''approvalsStale'', JBool (status_stale b))]"

definition evaluate_baseline_approval :: "baseline_status \<Rightarrow> approval_policy \<Rightarrow> approval list \<Rightarrow> membership list
    \<Rightarrow> history_error + policy_evaluation" where
  "evaluate_baseline_approval b p as ms =
     andThen (owned_input (status_json b)) (\<lambda>u.
     andThen (evaluate_approval_policy p as ms) (\<lambda>e.
     owned_output evaluation_json
       (if status_currency b \<noteq> CurrencyCurrent \<or> status_stale b then e\<lparr>policy_approved := False\<rparr> else e)))"

end
