(* ===== verification/Collab_Patch.thy ===== *)
theory Collab_Patch
  imports Collab_History Collab_Roundtrip "HOL-Library.AList"
begin

text \<open>
  What a structural difference means: the edits as JSON pointer operations on a value, and the proof that
  the edits of \<open>diffValue\<close> turn the first value into the second.
\<close>

section \<open>JSON pointers\<close>

fun split_slash :: "string \<Rightarrow> string list" where
  "split_slash [] = [[]]"
| "split_slash (c # cs) =
     (if c = CHR ''/'' then [] # split_slash cs
      else case split_slash cs of [] \<Rightarrow> [[c]] | t # ts \<Rightarrow> (c # t) # ts)"

fun unescape_token :: "string \<Rightarrow> string" where
  "unescape_token (c # d # cs) =
     (if c = CHR ''~'' \<and> d = CHR ''0'' then CHR ''~'' # unescape_token cs
      else if c = CHR ''~'' \<and> d = CHR ''1'' then CHR ''/'' # unescape_token cs
      else c # unescape_token (d # cs))"
| "unescape_token cs = cs"

definition pointer_of :: "string \<Rightarrow> string list" where
  "pointer_of path = map unescape_token (tl (split_slash path))"

lemma split_slash_nonempty [simp]: "split_slash s \<noteq> []"
  by (induction s) (auto split: list.split)

lemma split_slash_append: "split_slash (s @ CHR ''/'' # t) = split_slash s @ split_slash t"
  by (induction s) (auto split: list.split simp: append_eq_Cons_conv Cons_eq_append_conv)

lemma pointer_token_no_slash: "CHR ''/'' \<notin> set (pointer_token k)"
  by (induction k) (auto simp: pointer_token_def)

lemma split_slash_token: "CHR ''/'' \<notin> set s \<Longrightarrow> split_slash s = [s]"
  by (induction s) auto

lemma unescape_other: "c \<noteq> CHR ''~'' \<Longrightarrow> unescape_token (c # cs) = c # unescape_token cs"
  by (cases cs) auto

lemma unescape_pointer_token [simp]: "unescape_token (pointer_token k) = k"
  by (induction k) (auto simp: pointer_token_def unescape_other)

lemma pointer_of_Nil [simp]: "pointer_of [] = []"
  by (simp add: pointer_of_def)

lemma pointer_of_child: "pointer_of (child_path p k) = pointer_of p @ [k]"
  by (simp add: pointer_of_def child_path_def split_slash_append split_slash_token [OF pointer_token_no_slash])

definition rooted :: "string \<Rightarrow> bool" where
  "rooted q \<longleftrightarrow> q = [] \<or> hd q = CHR ''/''"

lemma pointer_of_below: "rooted q \<Longrightarrow> pointer_of (child_path [] k @ q) = k # pointer_of q"
proof (cases q)
  case (Cons c r)
  assume "rooted q"
  then have "child_path [] k @ q = child_path [] k @ CHR ''/'' # r" using Cons by (simp add: rooted_def)
  then show ?thesis using Cons \<open>rooted q\<close> split_slash_token [OF pointer_token_no_slash, of k]
    by (simp only: pointer_of_def split_slash_append) (simp add: child_path_def rooted_def)
qed (simp add: pointer_of_child)

section \<open>Applying edits\<close>

fun edit_at :: "string list \<Rightarrow> json option \<Rightarrow> json \<Rightarrow> json option" where
  "edit_at [] a v = a"
| "edit_at [k] a (JObj kvs) =
     Some (JObj (case a of None \<Rightarrow> AList.delete k kvs | Some w \<Rightarrow> AList.update k w kvs))"
| "edit_at (k # j # ks) a (JObj kvs) =
     Option.bind (map_of kvs k) (\<lambda>v. map_option (\<lambda>w. JObj (AList.update k w kvs)) (edit_at (j # ks) a v))"
| "edit_at ks a v = None"

definition apply_edit :: "edit \<Rightarrow> json \<Rightarrow> json option" where
  "apply_edit e v =
     (case edit_after e of
        Missing \<Rightarrow> edit_at (pointer_of (edit_path e)) None v
      | Data w \<Rightarrow> edit_at (pointer_of (edit_path e)) (Some w) v
      | _ \<Rightarrow> None)"

fun apply_edits :: "edit list \<Rightarrow> json \<Rightarrow> json option" where
  "apply_edits [] v = Some v"
| "apply_edits (e # es) v = Option.bind (apply_edit e v) (apply_edits es)"

lemma apply_edits_append: "apply_edits (es @ fs) v = Option.bind (apply_edits es v) (apply_edits fs)"
  by (induction es arbitrary: v) (auto simp: Option.bind_assoc split: Option.bind_splits)

text \<open>An edit of a child, moved to the parent.\<close>

definition under :: "string \<Rightarrow> edit \<Rightarrow> edit" where
  "under p e = e\<lparr>edit_path := p @ edit_path e\<rparr>"

lemma under_simps [simp]:
  "edit_path (under p e) = p @ edit_path e" "edit_after (under p e) = edit_after e"
  by (simp_all add: under_def)

text \<open>Edits of a value itself carry the new value.\<close>

definition proper :: "edit \<Rightarrow> bool" where
  "proper e \<longleftrightarrow> rooted (edit_path e) \<and> (edit_path e = [] \<longrightarrow> (\<exists>w. edit_after e = Data w))"

lemma rooted_pointer: "rooted q \<Longrightarrow> pointer_of q = [] \<longleftrightarrow> q = []"
  by (cases q) (auto simp: rooted_def pointer_of_def)

lemma edit_at_below:
  "map_of kvs k = Some v \<Longrightarrow> ks \<noteq> [] \<or> a \<noteq> None \<Longrightarrow>
     edit_at (k # ks) a (JObj kvs) = map_option (\<lambda>w. JObj (AList.update k w kvs)) (edit_at ks a v)"
  by (cases ks) (auto split: option.split)

lemma apply_edit_below:
  assumes "map_of kvs k = Some v" "proper e"
  shows "apply_edit (under (child_path [] k) e) (JObj kvs) = map_option (\<lambda>w. JObj (AList.update k w kvs)) (apply_edit e v)"
  using assms rooted_pointer [of "edit_path e"]
  by (cases "edit_after e") (auto simp: apply_edit_def proper_def pointer_of_below edit_at_below)

lemma apply_edits_below:
  assumes "map_of kvs k = Some v" "list_all proper es"
  shows "apply_edits (map (under (child_path [] k)) es) (JObj kvs) =
     map_option (\<lambda>w. JObj (AList.update k w kvs)) (apply_edits es v)"
  using assms
proof (induction es arbitrary: kvs v)
  case Nil
  then show ?case by (simp add: update_triv)
next
  case (Cons e es)
  show ?case
  proof (cases "apply_edit e v")
    case None
    then show ?thesis using Cons.prems by (simp add: apply_edit_below)
  next
    case (Some w)
    have "map_of (AList.update k w kvs) k = Some w" by (simp add: update_conv')
    then have "apply_edits (map (under (child_path [] k)) es) (JObj (AList.update k w kvs)) =
        map_option (\<lambda>x. JObj (AList.update k x (AList.update k w kvs))) (apply_edits es w)"
      using Cons.IH Cons.prems(2) by simp
    then show ?thesis using Cons.prems Some by (simp add: apply_edit_below update_last)
  qed
qed

section \<open>The shape of a difference\<close>

lemma rooted_child [simp]: "rooted (child_path [] k @ q)"
  by (simp add: rooted_def child_path_def)

lemma child_path_append: "child_path (r @ p) k = r @ child_path p k"
  by (simp add: child_path_def)

lemma diff_value_append: "diff_value x y (r @ p) = map (under r) (diff_value x y p)"
proof (induction x y p rule: diff_value.induct)
  case (1 x y p)
  show ?case
  proof (cases "equal_operands x y \<or> own_entries x = None \<or> own_entries y = None")
    case True
    then show ?thesis
      by (auto simp: diff_value.simps [of x y] replaced_edit_def under_def split: option.split)
  next
    case False
    then obtain xs ys where e: "own_entries x = Some xs" "own_entries y = Some ys" and differ: "\<not> equal_operands x y" by auto
    have "diff_value (get_property x k) (get_property y k) (r @ child_path p k) =
        map (under r) (diff_value (get_property x k) (get_property y k) (child_path p k))"
      if k: "k \<in> fst ` set xs \<union> fst ` set ys" "has_property xs k" "has_property ys k" for k
      by (rule "1.IH" [OF differ refl e]) (use k in auto)
    then show ?thesis using differ e
      by (auto simp: diff_value.simps [of x y] child_path_append map_concat under_def intro!: arg_cong [where f = concat])
  qed
qed

lemma diff_value_at: "diff_value x y p = map (under p) (diff_value x y [])"
  using diff_value_append [of x y p "[]"] by simp

text \<open>The edits of one property of two objects.\<close>

definition key_edits :: "(string \<times> json) list \<Rightarrow> (string \<times> json) list \<Rightarrow> string \<Rightarrow> edit list" where
  "key_edits xs ys k =
     (let x = get_property (Data (JObj xs)) k; y = get_property (Data (JObj ys)) k in
      if \<not> has_property xs k then
        [\<lparr>edit_kind = EditAdd, edit_path = child_path [] k, edit_before = Missing, edit_after = y\<rparr>]
      else if \<not> has_property ys k then
        [\<lparr>edit_kind = EditRemove, edit_path = child_path [] k, edit_before = x, edit_after = Missing\<rparr>]
      else map (under (child_path [] k)) (diff_value x y []))"

lemma diff_objects:
  assumes "\<not> equal_values (JObj xs) (JObj ys)"
  shows "diff_value (Data (JObj xs)) (Data (JObj ys)) [] =
     concat (map (key_edits xs ys) (sort (remdups (map fst xs @ map fst ys))))"
  using assms
  by (simp add: diff_value.simps [of "Data (JObj xs)"] equal_operands_def key_edits_def [abs_def] Let_def
      diff_value_at [of _ _ "child_path [] k" for k] cong: if_cong)

lemma diff_same: "equal_values v w \<Longrightarrow> diff_value (Data v) (Data w) p = []"
  by (simp add: diff_value.simps equal_operands_def)

lemma diff_scalar:
  assumes "\<not> equal_values v w" "own_entries (Data v) = None \<or> own_entries (Data w) = None"
  shows "diff_value (Data v) (Data w) [] = [\<lparr>edit_kind = EditReplace, edit_path = [], edit_before = Data v, edit_after = Data w\<rparr>]"
  using assms by (auto simp: diff_value.simps equal_operands_def replaced_edit_def split: option.split)

lemma diff_proper: "list_all proper (diff_value (Data v) (Data w) [])"
proof (cases "equal_values v w \<or> own_entries (Data v) = None \<or> own_entries (Data w) = None")
  case True
  then show ?thesis by (cases "equal_values v w") (simp_all add: diff_same diff_scalar proper_def rooted_def)
next
  case False
  then obtain xs ys where o: "v = JObj xs" "w = JObj ys" by (cases v; cases w) auto
  have "list_all proper (key_edits xs ys k)" for k
    using rooted_child [of k "[]"] by (auto simp: key_edits_def Let_def list_all_iff proper_def child_path_def rooted_def)
  then show ?thesis using False by (auto simp: o diff_objects list_all_iff)
qed

section \<open>Values that agree\<close>

text \<open>Data whose objects have distinct names, none of them inherited from \<open>Object.prototype\<close>.\<close>

fun ordinary :: "json \<Rightarrow> bool" where
  "ordinary (JArr xs) = list_all ordinary xs"
| "ordinary (JObj kvs) = (distinct (map fst kvs) \<and> list_all (\<lambda>kv. \<not> inherited_name (fst kv) \<and> ordinary (snd kv)) kvs)"
| "ordinary v = True"

lemma ordinary_lookup: "ordinary (JObj kvs) \<Longrightarrow> map_of kvs k = Some v \<Longrightarrow> ordinary v"
  by (auto simp: list_all_iff dest!: map_of_SomeD)

lemma lookup_entry: "distinct (map fst kvs) \<Longrightarrow> kv \<in> set kvs \<Longrightarrow> map_of kvs (fst kv) = Some (snd kv)"
  by (cases kv) simp

lemma compare_refl: "ordinary v \<Longrightarrow> compare_values v v"
proof (induction v)
  case (JArr xs)
  then show ?case by (auto simp: list_all_iff list_all2_conv_all_nth)
next
  case (JObj kvs)
  have "fst kv \<in> fst ` set kvs \<and> compare_values (snd kv) (field kvs (fst kv))" if "kv \<in> set kvs" for kv
  proof -
    have "map_of kvs (fst kv) = Some (snd kv)" by (rule lookup_entry) (use JObj.prems that in auto)
    then have "field kvs (fst kv) = snd kv" by (simp add: field_def)
    then show ?thesis using JObj that by (auto simp: list_all_iff snds.simps)
  qed
  then show ?case by (simp add: list_all_iff)
qed simp_all

lemma compare_objects:
  assumes "distinct (map fst xs)" "distinct (map fst ys)"
    and "\<And>k. rel_option compare_values (map_of xs k) (map_of ys k)"
  shows "compare_values (JObj xs) (JObj ys)"
proof -
  have "map_of xs k = None \<longleftrightarrow> map_of ys k = None" for k using assms(3) [of k] by (auto elim: option.rel_cases)
  then have keys: "fst ` set xs = fst ` set ys" by (metis (no_types) map_of_eq_None_iff subsetI subset_antisym)
  then have "length xs = length ys"
    using distinct_card [OF assms(1)] distinct_card [OF assms(2)] by simp
  moreover have "compare_values (snd kv) (field ys (fst kv))" if "kv \<in> set xs" for kv
    using assms(3) [of "fst kv"] unfolding lookup_entry [OF assms(1) that] by (auto simp: field_def option_rel_Some1)
  ultimately show ?thesis using keys by (auto simp: list_all_iff)
qed

section \<open>The edits of a difference\<close>

lemma ordinary_names: "ordinary (JObj kvs) \<Longrightarrow> has_property kvs k \<Longrightarrow> k \<in> fst ` set kvs \<or> inherited_name k"
  by (simp add: has_property_def)

lemma key_edits_effect:
  assumes plain: "ordinary (JObj xs)" "ordinary (JObj ys)" and k: "k \<in> fst ` set xs \<union> fst ` set ys"
    and kvs: "distinct (map fst kvs)" "map_of kvs k = map_of xs k"
    and below: "\<And>v w. map_of xs k = Some v \<Longrightarrow> map_of ys k = Some w \<Longrightarrow>
      \<exists>c. apply_edits (diff_value (Data v) (Data w) []) v = Some c \<and> compare_values c w"
  shows "\<exists>lvs. apply_edits (key_edits xs ys k) (JObj kvs) = Some (JObj lvs) \<and> distinct (map fst lvs) \<and>
    rel_option compare_values (map_of lvs k) (map_of ys k) \<and> (\<forall>j. j \<noteq> k \<longrightarrow> map_of lvs j = map_of kvs j)"
proof -
  have name: "\<not> inherited_name k" using plain k by (auto simp: list_all_iff)
  then have present: "has_property xs k \<longleftrightarrow> map_of xs k \<noteq> None" "has_property ys k \<longleftrightarrow> map_of ys k \<noteq> None"
    by (simp_all add: has_property_def map_of_eq_None_iff)
  have at: "pointer_of (child_path [] k) = [k]" by (simp add: pointer_of_child)
  consider (add) w where "map_of xs k = None" "map_of ys k = Some w" | (remove) v where "map_of xs k = Some v" "map_of ys k = None"
    | (both) v w where "map_of xs k = Some v" "map_of ys k = Some w"
    using k by (cases "map_of xs k"; cases "map_of ys k") (auto simp: map_of_eq_None_iff)
  then show ?thesis
  proof cases
    case add
    then have "apply_edits (key_edits xs ys k) (JObj kvs) = Some (JObj (AList.update k w kvs))"
      using present by (simp add: key_edits_def apply_edit_def at)
    moreover have "compare_values w w" using compare_refl ordinary_lookup [OF plain(2) add(2)] by blast
    ultimately show ?thesis using add(2) distinct_update [OF kvs(1)] by (auto simp: update_conv')
  next
    case remove
    then have "apply_edits (key_edits xs ys k) (JObj kvs) = Some (JObj (AList.delete k kvs))"
      using present by (simp add: key_edits_def apply_edit_def at)
    then show ?thesis using remove(2) distinct_delete [OF kvs(1)] by (auto simp: delete_conv')
  next
    case both
    then obtain c where c: "apply_edits (diff_value (Data v) (Data w) []) v = Some c" "compare_values c w" using below by blast
    have "apply_edits (key_edits xs ys k) (JObj kvs) = Some (JObj (AList.update k c kvs))"
      using present both kvs(2) apply_edits_below [OF _ diff_proper] c(1) by (simp add: key_edits_def)
    then show ?thesis using both(2) c(2) distinct_update [OF kvs(1)] by (auto simp: update_conv')
  qed
qed

lemma all_keys_effect:
  assumes "ordinary (JObj xs)" "ordinary (JObj ys)"
    and "\<And>k v w. map_of xs k = Some v \<Longrightarrow> map_of ys k = Some w \<Longrightarrow>
      \<exists>c. apply_edits (diff_value (Data v) (Data w) []) v = Some c \<and> compare_values c w"
    and "distinct ks" "set ks \<subseteq> fst ` set xs \<union> fst ` set ys" "distinct (map fst kvs)" "\<And>k. k \<in> set ks \<Longrightarrow> map_of kvs k = map_of xs k"
  shows "\<exists>lvs. apply_edits (concat (map (key_edits xs ys) ks)) (JObj kvs) = Some (JObj lvs) \<and> distinct (map fst lvs) \<and>
    (\<forall>k \<in> set ks. rel_option compare_values (map_of lvs k) (map_of ys k)) \<and> (\<forall>j. j \<notin> set ks \<longrightarrow> map_of lvs j = map_of kvs j)"
  using assms(4-7)
proof (induction ks arbitrary: kvs)
  case (Cons k ks)
  obtain mvs where m: "apply_edits (key_edits xs ys k) (JObj kvs) = Some (JObj mvs)" "distinct (map fst mvs)"
    "rel_option compare_values (map_of mvs k) (map_of ys k)" "\<forall>j. j \<noteq> k \<longrightarrow> map_of mvs j = map_of kvs j"
    using key_edits_effect [OF assms(1,2) _ Cons.prems(3) _ assms(3), of k "\<lambda>_ _. k"] Cons.prems(2,4) by auto
  have "map_of mvs j = map_of xs j" if "j \<in> set ks" for j
    using m(4) Cons.prems(1) Cons.prems(4) [of j] that by (cases "j = k") auto
  then obtain lvs where "apply_edits (concat (map (key_edits xs ys) ks)) (JObj mvs) = Some (JObj lvs)" "distinct (map fst lvs)"
    "\<forall>k \<in> set ks. rel_option compare_values (map_of lvs k) (map_of ys k)" "\<forall>j. j \<notin> set ks \<longrightarrow> map_of lvs j = map_of mvs j"
    using Cons.IH [of mvs] Cons.prems(1,2) m(2) by auto
  then show ?case using m Cons.prems(1) by (auto simp: apply_edits_append)
qed simp

lemma equal_values_compare: "equal_values v w \<Longrightarrow> inert_copy v = v \<Longrightarrow> inert_copy w = w \<Longrightarrow> compare_values v w"
  by (auto simp: equal_values_def own_value_fits split: if_splits)

lemma still_entry: "inert_copy (JObj kvs) = JObj kvs \<Longrightarrow> map_of kvs k = Some v \<Longrightarrow> inert_copy v = v"
  using map_filter_fixed [of "\<lambda>kv. (fst kv, inert_copy (snd kv))" "\<lambda>kv. fst kv \<noteq> ''length''" kvs "(k, v)"]
  by (auto dest: map_of_SomeD)

lemma diff_value_patches:
  assumes "ordinary v" "ordinary w" "inert_copy v = v" "inert_copy w = w"
  shows "\<exists>c. apply_edits (diff_value (Data v) (Data w) []) v = Some c \<and> compare_values c w"
  using assms
proof (induction v arbitrary: w rule: measure_induct_rule [where f = size])
  case (less v)
  show ?case
  proof (cases "equal_values v w \<or> own_entries (Data v) = None \<or> own_entries (Data w) = None")
    case True
    then show ?thesis using equal_values_compare less.prems compare_refl [of w]
      by (cases "equal_values v w") (simp_all add: diff_same diff_scalar apply_edit_def)
  next
    case False
    then obtain xs ys where o: "v = JObj xs" "w = JObj ys" by (cases v; cases w) auto
    let ?ks = "sort (remdups (map fst xs @ map fst ys))"
    have below: "\<exists>c. apply_edits (diff_value (Data a) (Data b) []) a = Some c \<and> compare_values c b"
      if "map_of xs k = Some a" "map_of ys k = Some b" for k a b
    proof (rule less.IH)
      show "size a < size v" using entry_size [OF that(1)] by (simp add: o)
      show "ordinary a" "ordinary b" using less.prems(1,2) that ordinary_lookup unfolding o by blast+
      show "inert_copy a = a" "inert_copy b = b" using less.prems(3,4) that still_entry unfolding o by blast+
    qed
    have "\<exists>lvs. apply_edits (concat (map (key_edits xs ys) ?ks)) (JObj xs) = Some (JObj lvs) \<and> distinct (map fst lvs) \<and>
        (\<forall>k \<in> set ?ks. rel_option compare_values (map_of lvs k) (map_of ys k)) \<and> (\<forall>j. j \<notin> set ?ks \<longrightarrow> map_of lvs j = map_of xs j)"
      using less.prems unfolding o by (intro all_keys_effect below) auto
    then obtain lvs where l: "apply_edits (concat (map (key_edits xs ys) ?ks)) (JObj xs) = Some (JObj lvs)" "distinct (map fst lvs)"
      "\<forall>k \<in> set ?ks. rel_option compare_values (map_of lvs k) (map_of ys k)" "\<forall>j. j \<notin> set ?ks \<longrightarrow> map_of lvs j = map_of xs j"
      by blast
    have "rel_option compare_values (map_of lvs k) (map_of ys k)" for k
    proof (cases "k \<in> set ?ks")
      case other: False
      then have "map_of xs k = None" "map_of ys k = None" by (auto simp: map_of_eq_None_iff)
      then show ?thesis using l(4) other by simp
    qed (use l(3) in blast)
    then have "compare_values (JObj lvs) (JObj ys)" using l(2) less.prems(2) o by (intro compare_objects) auto
    then show ?thesis using l(1) False o by (simp add: diff_objects)
  qed
qed

end
