(* ===== verification/Collab_Merge.thy ===== *)
theory Collab_Merge
  imports Collab_Patch "HOL-Library.Sublist"
begin

text \<open>
  Edits at places that are apart: what one edit leaves of the rest of a value, that the edits of a
  difference are apart from each other, and where the edits of one branch find room in the other.
\<close>

section \<open>Places\<close>

fun value_at :: "string list \<Rightarrow> json \<Rightarrow> json option" where
  "value_at [] v = Some v"
| "value_at (k # ks) (JObj kvs) = Option.bind (map_of kvs k) (value_at ks)"
| "value_at (k # ks) v = None"

definition apart :: "string list \<Rightarrow> string list \<Rightarrow> bool" where
  "apart q r \<longleftrightarrow> \<not> prefix q r \<and> \<not> prefix r q"

lemma apart_simps [simp]:
  "\<not> apart [] r" "\<not> apart q []" "apart (k # q) (j # r) \<longleftrightarrow> (k = j \<longrightarrow> apart q r)"
  by (auto simp: apart_def)

lemma apart_sym: "apart q r \<longleftrightarrow> apart r q"
  by (auto simp: apart_def)

lemma edit_at_place: "edit_at q a v = Some w \<Longrightarrow> q \<noteq> [] \<Longrightarrow> value_at q w = a"
proof (induction q a v arbitrary: w rule: edit_at.induct)
  case (2 k a kvs)
  then show ?case by (auto simp: update_conv' delete_conv' split: option.splits)
next
  case (3 k j ks a kvs)
  then obtain v x where "map_of kvs k = Some v" "edit_at (j # ks) a v = Some x" "w = JObj (AList.update k x kvs)"
    by (auto split: bind_splits)
  then show ?case using "3.IH" by (simp add: update_conv')
qed simp_all

lemma edit_at_elsewhere: "edit_at q a v = Some w \<Longrightarrow> apart q r \<Longrightarrow> value_at r w = value_at r v"
proof (induction q a v arbitrary: w r rule: edit_at.induct)
  case (2 k a kvs)
  then show ?case by (cases r) (auto simp: update_conv' delete_conv' split: option.splits)
next
  case (3 k j ks a kvs)
  then obtain v x where "map_of kvs k = Some v" "edit_at (j # ks) a v = Some x" "w = JObj (AList.update k x kvs)"
    by (auto split: bind_splits)
  then show ?case using "3.IH" "3.prems"(2) by (cases r) (auto simp: update_conv')
qed simp_all

text \<open>There is room for an edit where its parent is an object.\<close>

definition room :: "string list \<Rightarrow> json \<Rightarrow> bool" where
  "room q v \<longleftrightarrow> (\<forall>a. q = [] \<or> edit_at q a v \<noteq> None)"

lemma room_simps [simp]:
  "room [] v" "room [k] (JObj kvs)"
  "room (k # j # ks) (JObj kvs) \<longleftrightarrow> (\<exists>v. map_of kvs k = Some v \<and> room (j # ks) v)"
  by (auto simp: room_def split: bind_splits)

lemma room_object: "room (k # ks) v \<Longrightarrow> \<exists>kvs. v = JObj kvs"
  by (cases "(k # ks, None :: json option, v)" rule: edit_at.cases) (auto simp: room_def)

lemma edit_at_room: "edit_at q a v = Some w \<Longrightarrow> apart q r \<Longrightarrow> room r v \<Longrightarrow> room r w"
proof (induction q a v arbitrary: w r rule: edit_at.induct)
  case (2 k a kvs)
  show ?case
  proof (cases r rule: remdups_adj.cases)
    case (3 i j ks)
    then show ?thesis using 2 by (auto simp: update_conv' delete_conv' split: option.splits)
  qed (use 2 in \<open>auto split: option.splits\<close>)
next
  case (3 k j ks a kvs)
  obtain v x where v: "map_of kvs k = Some v" "edit_at (j # ks) a v = Some x" "w = JObj (AList.update k x kvs)"
    using "3.prems"(1) by (auto split: bind_splits)
  show ?case
  proof (cases r rule: remdups_adj.cases)
    case (3 i l ls)
    show ?thesis
    proof (cases "i = k")
      case True
      then have "apart (j # ks) (l # ls)" "room (l # ls) v" using 3 v(1) "3.prems"(2,3) by auto
      then have "room (l # ls) x" using "3.IH" [OF v(1,2)] by blast
      then show ?thesis using 3 v(3) True by (simp add: update_conv')
    qed (use 3 v "3.prems"(3) in \<open>auto simp: update_conv'\<close>)
  qed (use v in auto)
qed simp_all

section \<open>The places of a difference\<close>

abbreviation place :: "edit \<Rightarrow> string list" where
  "place e \<equiv> pointer_of (edit_path e)"

definition path_of :: "string list \<Rightarrow> string" where
  "path_of ks = concat (map (child_path []) ks)"

lemma path_of_simps [simp]: "path_of [] = []" "path_of (k # ks) = child_path [] k @ path_of ks"
  "path_of (ks @ ls) = path_of ks @ path_of ls"
  by (simp_all add: path_of_def)

lemma path_of_rooted: "rooted (path_of ks)"
  by (cases ks) (auto simp: rooted_def child_path_def)

lemma pointer_of_path_of [simp]: "pointer_of (path_of ks) = ks"
  by (induction ks) (simp_all add: pointer_of_below path_of_rooted)

lemma concat_member: "e \<in> set (concat (map f ks)) \<Longrightarrow> (\<And>k. k \<in> set ks \<Longrightarrow> e \<in> set (f k) \<Longrightarrow> thesis) \<Longrightarrow> thesis"
  by auto

lemma diff_paths: "e \<in> set (diff_value x y p) \<Longrightarrow> \<exists>ks. edit_path e = p @ path_of ks"
proof (induction x y p rule: diff_value.induct)
  case (1 x y p)
  show ?case
  proof (cases "equal_operands x y \<or> own_entries x = None \<or> own_entries y = None")
    case True
    then show ?thesis using "1.prems"
      by (auto simp: diff_value.simps [of x y] replaced_edit_def intro: exI [of _ "[]"] split: option.splits if_splits)
  next
    case False
    then obtain xs ys where e: "own_entries x = Some xs" "own_entries y = Some ys" and differ: "\<not> equal_operands x y" by auto
    let ?edits = "\<lambda>k. if \<not> has_property xs k then
          [\<lparr>edit_kind = EditAdd, edit_path = child_path p k, edit_before = Missing, edit_after = get_property y k\<rparr>]
        else if \<not> has_property ys k then
          [\<lparr>edit_kind = EditRemove, edit_path = child_path p k, edit_before = get_property x k, edit_after = Missing\<rparr>]
        else diff_value (get_property x k) (get_property y k) (child_path p k)"
    have "e \<in> set (concat (map ?edits (sort (remdups (map fst xs @ map fst ys)))))"
      using "1.prems" differ e by (simp only: diff_value.simps [of x y]) simp
    then obtain k where keys: "k \<in> set (sort (remdups (map fst xs @ map fst ys)))" and member: "e \<in> set (?edits k)"
      by (rule concat_member)
    then have k: "k \<in> fst ` set xs \<union> fst ` set ys" by simp
    have step: "child_path p k @ path_of ks = p @ path_of (k # ks)" for ks using child_path_append [of p "[]"] by simp
    show ?thesis
    proof (cases "edit_path e = child_path p k")
      case True
      then show ?thesis using step [of "[]"] by (intro exI [of _ "[k]"]) simp
    next
      case other: False
      then have "has_property xs k" "has_property ys k" "e \<in> set (diff_value (get_property x k) (get_property y k) (child_path p k))"
        using member by (auto split: if_splits)
      then have "\<exists>ks. edit_path e = child_path p k @ path_of ks"
        by (intro "1.IH" [OF differ refl e]) (use k in auto)
      then show ?thesis using step by metis
    qed
  qed
qed

lemma diff_place: "e \<in> set (diff_value x y []) \<Longrightarrow> edit_path e = path_of (place e)"
  using diff_paths [of e x y "[]"] by auto

text \<open>Places that are not apart have paths that overlap.\<close>

lemma overlap_unless_apart: "\<not> apart q r \<Longrightarrow> paths_overlap (path_of q) (path_of r)"
proof -
  have below: "path_of ks = [] \<or> (\<exists>s. path_of ks = CHR ''/'' # s)" for ks
    by (cases ks) (simp_all add: child_path_def)
  have starts: "starts_with (s @ CHR ''/'' # t) (s @ ''/'')" for s t by (simp add: starts_with_def)
  assume "\<not> apart q r"
  then consider ks where "r = q @ ks" | ks where "q = r @ ks" by (auto simp: apart_def prefix_def)
  then show ?thesis
    by cases (metis append_Nil2 below path_of_simps(3) paths_overlap_def starts)+
qed

section \<open>The edits of a difference, one by one\<close>

fun operand_json :: "operand \<Rightarrow> json option" where
  "operand_json (Data v) = Some v"
| "operand_json x = None"

lemma key_edits_cases:
  assumes "ordinary (JObj xs)" "ordinary (JObj ys)" "k \<in> fst ` set xs \<union> fst ` set ys"
  shows "(\<exists>b. map_of xs k = None \<and> map_of ys k = Some b \<and> key_edits xs ys k =
      [\<lparr>edit_kind = EditAdd, edit_path = child_path [] k, edit_before = Missing, edit_after = Data b\<rparr>]) \<or>
    (\<exists>a. map_of xs k = Some a \<and> map_of ys k = None \<and> key_edits xs ys k =
      [\<lparr>edit_kind = EditRemove, edit_path = child_path [] k, edit_before = Data a, edit_after = Missing\<rparr>]) \<or>
    (\<exists>a b. map_of xs k = Some a \<and> map_of ys k = Some b \<and> ordinary a \<and> ordinary b \<and> size a < size (JObj xs) \<and>
      key_edits xs ys k = map (under (child_path [] k)) (diff_value (Data a) (Data b) []))"
proof -
  have name: "\<not> inherited_name k" using assms by (auto simp: list_all_iff)
  then have present: "has_property xs k \<longleftrightarrow> map_of xs k \<noteq> None" "has_property ys k \<longleftrightarrow> map_of ys k \<noteq> None"
    by (simp_all add: has_property_def map_of_eq_None_iff)
  have "map_of xs k \<noteq> None \<or> map_of ys k \<noteq> None" using assms(3) by (auto simp: map_of_eq_None_iff)
  then show ?thesis using present assms(1,2) ordinary_lookup entry_size
    by (cases "map_of xs k"; cases "map_of ys k") (auto simp: key_edits_def)
qed

text \<open>Induction over the edits of two ordinary values.\<close>

lemma diff_edit_cases [consumes 3, case_names root add remove below]:
  assumes "e \<in> set (diff_value (Data v) (Data w) [])" "ordinary v" "ordinary w"
  obtains (root) "diff_value (Data v) (Data w) [] = [e]" "place e = []" "edit_after e = Data w"
  | (add) xs ys k b where "v = JObj xs" "w = JObj ys" "map_of ys k = Some b" "place e = [k]" "edit_after e = Data b"
  | (remove) xs ys k where "v = JObj xs" "w = JObj ys" "map_of ys k = None" "place e = [k]" "edit_after e = Missing"
  | (below) xs ys k a b d where "v = JObj xs" "w = JObj ys" "map_of xs k = Some a" "map_of ys k = Some b" "ordinary a" "ordinary b"
      "size a < size v" "d \<in> set (diff_value (Data a) (Data b) [])" "place e = k # place d" "edit_after e = edit_after d"
proof (cases "equal_values v w \<or> own_entries (Data v) = None \<or> own_entries (Data w) = None")
  case True
  then show ?thesis using assms(1) root by (cases "equal_values v w") (auto simp: diff_same diff_scalar)
next
  case False
  then obtain xs ys where o: "v = JObj xs" "w = JObj ys" by (cases v; cases w) auto
  then have "e \<in> set (concat (map (key_edits xs ys) (sort (remdups (map fst xs @ map fst ys)))))"
    using assms(1) False diff_objects by simp
  then obtain k where k: "k \<in> set (sort (remdups (map fst xs @ map fst ys)))" "e \<in> set (key_edits xs ys k)" by (rule concat_member)
  then have "k \<in> fst ` set xs \<union> fst ` set ys" by simp
  from key_edits_cases [OF _ _ this] assms(2,3) o
  consider b where "map_of ys k = Some b" "key_edits xs ys k =
      [\<lparr>edit_kind = EditAdd, edit_path = child_path [] k, edit_before = Missing, edit_after = Data b\<rparr>]"
    | a where "map_of ys k = None" "key_edits xs ys k =
      [\<lparr>edit_kind = EditRemove, edit_path = child_path [] k, edit_before = Data a, edit_after = Missing\<rparr>]"
    | a b where "map_of xs k = Some a" "map_of ys k = Some b" "ordinary a" "ordinary b" "size a < size (JObj xs)"
      "key_edits xs ys k = map (under (child_path [] k)) (diff_value (Data a) (Data b) [])" by blast
  then show ?thesis
  proof cases
    case 1
    then show ?thesis using k(2) add [OF o 1(1)] by (simp add: pointer_of_child)
  next
    case 2
    then show ?thesis using k(2) remove [OF o 2(1)] by (simp add: pointer_of_child)
  next
    case 3
    then obtain d where d: "d \<in> set (diff_value (Data a) (Data b) [])" "e = under (child_path [] k) d" using k(2) by auto
    moreover have "rooted (edit_path d)" using diff_proper d(1) by (auto simp: list_all_iff proper_def)
    ultimately show ?thesis using below [OF o 3(1-4) _ d(1)] 3(5) o by (simp add: pointer_of_below)
  qed
qed

lemma diff_after: "e \<in> set (diff_value (Data v) (Data w) []) \<Longrightarrow> ordinary v \<Longrightarrow> ordinary w \<Longrightarrow>
    value_at (place e) w = operand_json (edit_after e)"
proof (induction v arbitrary: w e rule: measure_induct_rule [where f = size])
  case (less v)
  from less.prems show ?case by (cases rule: diff_edit_cases) (auto simp: less.IH)
qed

lemma diff_applies: "e \<in> set (diff_value (Data v) (Data w) []) \<Longrightarrow> ordinary v \<Longrightarrow> ordinary w \<Longrightarrow>
    edit_after e = Missing \<or> (\<exists>x. edit_after e = Data x)"
proof (induction v arbitrary: w e rule: measure_induct_rule [where f = size])
  case (less v)
  from less.prems show ?case by (cases rule: diff_edit_cases) (auto simp: less.IH)
qed

lemma diff_room: "e \<in> set (diff_value (Data v) (Data w) []) \<Longrightarrow> ordinary v \<Longrightarrow> ordinary w \<Longrightarrow> room (place e) v"
proof (induction v arbitrary: w e rule: measure_induct_rule [where f = size])
  case (less v)
  from less.prems show ?case
  proof (cases rule: diff_edit_cases)
    case (below xs ys k a b d)
    then show ?thesis using less.IH [OF below(7,8,5,6)] by (cases "place d") auto
  qed auto
qed

lemma diff_apart:
  "ordinary v \<Longrightarrow> ordinary w \<Longrightarrow> sorted_wrt (\<lambda>e f. apart (place e) (place f)) (diff_value (Data v) (Data w) [])"
proof (induction v arbitrary: w rule: measure_induct_rule [where f = size])
  case (less v)
  show ?case
  proof (cases "equal_values v w \<or> own_entries (Data v) = None \<or> own_entries (Data w) = None")
    case True
    then show ?thesis by (cases "equal_values v w") (simp_all add: diff_same diff_scalar)
  next
    case False
    then obtain xs ys where o: "v = JObj xs" "w = JObj ys" by (cases v; cases w) auto
    let ?ks = "sort (remdups (map fst xs @ map fst ys))"
    have keys: "\<exists>q. place e = k # q" if "e \<in> set (key_edits xs ys k)" "k \<in> fst ` set xs \<union> fst ` set ys" for e k
      using key_edits_cases [OF _ _ that(2)] that(1) less.prems diff_proper unfolding o
      by (fastforce simp: pointer_of_child pointer_of_below list_all_iff proper_def)
    have each: "sorted_wrt (\<lambda>e f. apart (place e) (place f)) (key_edits xs ys k)" if "k \<in> fst ` set xs \<union> fst ` set ys" for k
    proof -
      have "sorted_wrt (\<lambda>e f. apart (place e) (place f)) (map (under (child_path [] k)) (diff_value (Data a) (Data b) []))"
        if "ordinary a" "ordinary b" "size a < size v" for a b
        unfolding sorted_wrt_map using less.IH [OF that(3,1,2)] diff_proper [of a b]
        by (rule_tac sorted_wrt_mono_rel [rotated]) (auto simp: pointer_of_below list_all_iff proper_def)
      then show ?thesis using key_edits_cases [OF _ _ that] less.prems unfolding o by fastforce
    qed
    have "sorted_wrt (\<lambda>e f. apart (place e) (place f)) (concat (map (key_edits xs ys) ks))"
      if "distinct ks" "set ks \<subseteq> fst ` set xs \<union> fst ` set ys" for ks
      using that
    proof (induction ks)
      case (Cons k ks)
      have "apart (place e) (place f)" if "e \<in> set (key_edits xs ys k)" "f \<in> set (concat (map (key_edits xs ys) ks))" for e f
        using that keys [of e k] Cons.prems by (auto dest!: keys)
      then show ?case using Cons each by (auto simp: sorted_wrt_append)
    qed simp
    then have "sorted_wrt (\<lambda>e f. apart (place e) (place f)) (concat (map (key_edits xs ys) ?ks))" by simp
    then show ?thesis using False o by (simp add: diff_objects)
  qed
qed

section \<open>Both branches\<close>

lemma compare_room: "compare_values v w \<Longrightarrow> room q v \<Longrightarrow> room q w"
proof (induction q arbitrary: v w)
  case (Cons k ks)
  from Cons.prems(2) obtain kvs where v: "v = JObj kvs" by (blast dest: room_object)
  with Cons.prems(1) obtain lvs where w: "w = JObj lvs" by (cases w) auto
  show ?case
  proof (cases ks)
    case Nil
    then show ?thesis by (simp add: w)
  next
    case (Cons j js)
    then obtain a where a: "map_of kvs k = Some a" "room ks a" using Cons.prems(2) v by auto
    have "\<forall>kv \<in> set kvs. fst kv \<in> fst ` set lvs \<and> compare_values (snd kv) (field lvs (fst kv))"
      using Cons.prems(1) by (simp add: v w list_all_iff)
    from bspec [OF this map_of_SomeD [OF a(1)]] have "k \<in> fst ` set lvs \<and> compare_values a (field lvs k)" by simp
    then obtain b where "map_of lvs k = Some b" "compare_values a b"
      by (cases "map_of lvs k") (auto simp: field_def map_of_eq_None_iff)
    then show ?thesis using Cons.IH a(2) Cons w by auto
  qed
qed simp

lemma diff_keeps_room:
  assumes "ordinary v" "ordinary w" "inert_copy v = v" "inert_copy w = w" "room q v"
    and "\<And>e. e \<in> set (diff_value (Data v) (Data w) []) \<Longrightarrow> apart (place e) q"
  shows "room q w"
  using assms
proof (induction q arbitrary: v w)
  case (Cons k ks)
  show ?case
  proof (cases "equal_values v w")
    case True
    then show ?thesis using equal_values_compare Cons.prems(3-5) compare_room by blast
  next
    case differ: False
    then have objects: "own_entries (Data v) \<noteq> None" "own_entries (Data w) \<noteq> None"
      using Cons.prems(6) diff_scalar [OF differ] by fastforce+
    then obtain xs ys where o: "v = JObj xs" "w = JObj ys" by (cases v; cases w) auto
    show ?thesis
    proof (cases ks)
      case Nil
      then show ?thesis by (simp add: o)
    next
      case (Cons j js)
      then obtain a where a: "map_of xs k = Some a" "room ks a" using Cons.prems(5) o by auto
      then have k: "k \<in> fst ` set xs \<union> fst ` set ys" by (force dest: map_of_SomeD)
      have inside: "e \<in> set (diff_value (Data v) (Data w) [])" if "e \<in> set (key_edits xs ys k)" for e
        using that k differ o by (auto simp: diff_objects)
      obtain b where b: "map_of ys k = Some b"
        and edits: "key_edits xs ys k = map (under (child_path [] k)) (diff_value (Data a) (Data b) [])"
        using key_edits_cases [OF _ _ k] Cons.prems(1,2) a(1) inside Cons.prems(6) Cons unfolding o
        by (fastforce simp: pointer_of_child)
      have "apart (place d) ks" if "d \<in> set (diff_value (Data a) (Data b) [])" for d
      proof -
        have "apart (place (under (child_path [] k) d)) (k # ks)" using that by (intro Cons.prems(6) inside) (simp add: edits)
        moreover have "rooted (edit_path d)" using diff_proper that by (auto simp: list_all_iff proper_def)
        ultimately show ?thesis by (simp add: pointer_of_below)
      qed
      moreover have "ordinary a" "ordinary b" "inert_copy a = a" "inert_copy b = b"
        using Cons.prems(1-4) a(1) b ordinary_lookup still_entry unfolding o by blast+
      ultimately have "room ks b" using Cons.IH a(2) by blast
      then show ?thesis using b Cons o by simp
    qed
  qed
qed simp

lemma apply_apart:
  assumes "sorted_wrt (\<lambda>e f. apart (place e) (place f)) es" "\<And>e. e \<in> set es \<Longrightarrow> room (place e) v"
    and "\<And>e. e \<in> set es \<Longrightarrow> edit_after e = Missing \<and> place e \<noteq> [] \<or> (\<exists>x. edit_after e = Data x)"
  shows "\<exists>m. apply_edits es v = Some m \<and> (\<forall>e \<in> set es. value_at (place e) m = operand_json (edit_after e)) \<and>
    (\<forall>q. (\<forall>e \<in> set es. apart (place e) q) \<longrightarrow> value_at q m = value_at q v)"
  using assms
proof (induction es arbitrary: v)
  case (Cons e es)
  show ?case
  proof (cases "place e = []")
    case True
    then have "es = []" using Cons.prems(1) by (cases es) auto
    then show ?thesis using True Cons.prems(3) [of e] by (auto simp: apply_edit_def)
  next
    case False
    have applied: "apply_edit e v = edit_at (place e) (operand_json (edit_after e)) v"
      using Cons.prems(3) [of e] by (auto simp: apply_edit_def)
    then obtain x where x: "apply_edit e v = Some x" using Cons.prems(2) [of e] False by (auto simp: room_def)
    note step = applied [unfolded x, symmetric]
    have "room (place f) x" if "f \<in> set es" for f
      using edit_at_room [OF step] Cons.prems(1,2) that by auto
    then obtain m where m: "apply_edits es x = Some m" "\<forall>f \<in> set es. value_at (place f) m = operand_json (edit_after f)"
      "\<forall>q. (\<forall>f \<in> set es. apart (place f) q) \<longrightarrow> value_at q m = value_at q x"
      using Cons.IH [of x] Cons.prems by auto
    have "\<forall>f \<in> set es. apart (place f) (place e)" using Cons.prems(1) apart_sym by auto
    then have "value_at (place e) m = operand_json (edit_after e)" using m(3) edit_at_place [OF step False] by simp
    moreover have "value_at q m = value_at q v" if "\<forall>f \<in> set (e # es). apart (place f) q" for q
      using that m(3) edit_at_elsewhere [OF step, of q] by simp
    ultimately show ?thesis using x m(1,2) by auto
  qed
qed simp

text \<open>The edits of one branch, applied to another branch that changed other places.\<close>

lemma branches_apart_merge:
  assumes plain: "ordinary v" "ordinary w" "ordinary s" "inert_copy v = v" "inert_copy w = w"
    and apart: "\<And>e u. e \<in> set (diff_value (Data v) (Data s) []) \<Longrightarrow> u \<in> set (diff_value (Data v) (Data w) []) \<Longrightarrow>
      apart (place u) (place e)"
  shows "\<exists>m. apply_edits (diff_value (Data v) (Data s) []) w = Some m \<and>
    (\<forall>e \<in> set (diff_value (Data v) (Data s) []). value_at (place e) m = value_at (place e) s) \<and>
    (\<forall>q. (\<forall>e \<in> set (diff_value (Data v) (Data s) []). apart (place e) q) \<longrightarrow> value_at q m = value_at q w)"
proof -
  let ?es = "diff_value (Data v) (Data s) []"
  have "room (place e) w" if "e \<in> set ?es" for e
    using diff_keeps_room [OF plain(1,2,4,5) diff_room [OF that plain(1,3)]] apart [OF that] by blast
  moreover have "edit_after e = Missing \<and> place e \<noteq> [] \<or> (\<exists>x. edit_after e = Data x)" if "e \<in> set ?es" for e
    using diff_applies [OF that plain(1,3)] diff_after [OF that plain(1,3)] by (cases "place e") auto
  ultimately show ?thesis
    using apply_apart [OF diff_apart [OF plain(1,3)], of w] diff_after [OF _ plain(1,3)] by fastforce
qed

end
