(* ===== verification/Collab_Versions.thy ===== *)
theory Collab_Versions
  imports Collab_Merge Collab_Exchange
begin

text \<open>
  The properties of revision history: differences, restored revisions, merge plans and approval policies,
  with their witnesses.
\<close>

section \<open>Differences\<close>

lemma fits_entry:
  assumes "fits_boundary (JObj kvs)" "(k, v) \<in> set kvs" "k \<noteq> ''length''"
  shows "fits_boundary v"
proof -
  have o: "ownable (JObj kvs)" "\<not> long_names (JObj kvs)" using assms(1) by (simp_all add: fits_boundary_iff)
  have "copyable (max_baseline_depth - 1) v" using o(1) assms(2,3) by (auto simp: ownable_def list_all_iff)
  then have "copyable max_baseline_depth v" by (rule copyable_mono) simp
  moreover have "copy_nodes v \<le> max_baseline_nodes" "copy_bytes v \<le> max_baseline_bytes"
    using o(1) assms(3)
      member_le_sum [OF assms(2), of "\<lambda>kv. if fst kv = ''length'' then 0 else copy_nodes (snd kv)"]
      member_le_sum [OF assms(2), of "\<lambda>kv. if fst kv = ''length'' then 0 else utf8_length (fst kv) + copy_bytes (snd kv)"]
    by (auto simp: ownable_def)
  moreover have "\<not> long_names v" using o(2) assms(2,3) by (auto simp: list_ex_iff)
  ultimately show ?thesis by (simp add: fits_boundary_iff ownable_def)
qed

lemma long_names_copy [simp]: "long_names (inert_copy v) = long_names v"
proof (induction v)
  case (JObj kvs)
  have "long_names (inert_copy (snd kv)) = long_names (snd kv)" if "kv \<in> set kvs" for kv
    using JObj [OF that] by (simp add: snds.simps)
  then show ?case by (auto simp: list_ex_iff Bex_def)
qed (auto simp: list_ex_iff)

lemma fits_copy: "fits_boundary v \<Longrightarrow> fits_boundary (inert_copy v)"
  using owned_settled [of v "inert_copy v"] by (simp add: fits_boundary_iff owned_Inr settled_def)

lemma content_fits: "fits_boundary (revision_json r) \<Longrightarrow> fits_boundary (inert_copy (rev_content r))"
  by (rule fits_copy) (auto simp: revision_json_def intro: fits_entry)

lemma compare_equal: "compare_values v w \<Longrightarrow> fits_boundary v \<Longrightarrow> fits_boundary w \<Longrightarrow> inert_copy v = v \<Longrightarrow>
    inert_copy w = w \<Longrightarrow> equal_values v w"
  by (simp add: equal_values_def own_value_fits)

lemma diff_revisions_Inr:
  assumes "diff_revisions a b = Inr d"
  shows "fits_boundary (revision_json a)" "fits_boundary (revision_json b)" "rev_project a = rev_project b"
    "diff_changes d = content_diff a b" "diff_from d = rev_id a" "diff_to d = rev_id b"
  using assms by (auto simp: diff_revisions_def owned_input_def owned_output_def outcome_simps)


text \<open>C39. A property whose name is that of a method of \<open>Object.prototype\<close> breaks the comparison: adding
  it to an empty design makes \<open>diffRevisions\<close> fail, although both revisions are valid.\<close>

theorem inherited_name_breaks_diff:
  assumes "fits_boundary (revision_json a)" "fits_boundary (revision_json b)" "rev_project a = rev_project b"
    and "rev_content a = JObj []" "rev_content b = JObj [(k, v)]" "k \<in> set inherited_methods"
  shows "diff_revisions a b = Inl HistoryBoundary"
proof -
  have k: "k \<noteq> ''length'' \<and> k \<noteq> ''__proto__''" using assms(6) by (auto simp: inherited_methods_def)
  let ?w = "JObj [(k, inert_copy v)]"
  have "\<not> equal_values (JObj []) ?w" by (simp add: equal_values_def own_value_fits k)
  then have changes: "content_diff a b = [\<lparr>edit_kind = EditReplace, edit_path = child_path [] k, edit_before = Method,
      edit_after = Data (inert_copy v)\<rparr>]"
    using assms(4-6) k
    by (simp add: content_diff_def diff_value.simps [of "Data (JObj _)"] has_property_def inherited_name_def equal_operands_def)
       (simp add: diff_value.simps equal_operands_def replaced_edit_def)
  have "\<not> fits_boundary (edit_json e)" if "edit_before e = Method" for e
    using that by (auto simp: edit_json_def fits_boundary_iff ownable_def)
  then have "\<not> fits_boundary (diff_json \<lparr>diff_from = i, diff_to = j, diff_changes = content_diff a b\<rparr>)" for i j
    unfolding changes by (auto simp: diff_json_def edit_json_def fits_boundary_iff ownable_def)
  then show ?thesis using assms(1-3) changes collab_limits
    by (simp add: diff_revisions_def owned_input_def owned_output_def)
qed

section \<open>Restored revisions\<close>

text \<open>A restored revision continues the current one, under a new identity, and differs in nothing from
  the restored design.\<close>

theorem restored_revision_is_target:
  assumes "create_restored_revision target current i = Inr r" "diff_revisions target (restored_revision r) = Inr d"
    and "ordinary (inert_copy (rev_content target))"
  shows "rev_parent (restored_revision r) = Some (rev_id current) \<and>
    rev_sequence (restored_revision r) = rev_sequence current + 1 \<and> rev_project (restored_revision r) = rev_project target \<and>
    diff_changes d = []"
proof -
  have r: "rev_parent (restored_revision r) = Some (rev_id current)" "rev_sequence (restored_revision r) = rev_sequence current + 1"
    "rev_content (restored_revision r) = inert_copy (rev_content target)"
    using assms(1) by (auto simp: create_restored_revision_def owned_output_def outcome_simps)
  have "fits_boundary (inert_copy (rev_content target))" using diff_revisions_Inr(1) [OF assms(2)] content_fits by blast
  then have "equal_values (inert_copy (rev_content target)) (inert_copy (rev_content target))"
    using compare_refl [OF assms(3)] by (simp add: equal_values_def own_value_fits)
  then have "diff_changes d = []"
    using diff_revisions_Inr(4) [OF assms(2)] r(3) by (simp add: content_diff_def diff_same)
  then show ?thesis using r diff_revisions_Inr(3) [OF assms(2)] by simp
qed

section \<open>Merge plans\<close>

lemma content_diff_copy [simp]: "content_diff (copy_revision a) (copy_revision b) = content_diff a b"
  by (simp add: content_diff_def copy_revision_def)

lemma plan_revision_merge_Inr:
  assumes "plan_revision_merge b t s = Inr p"
  shows "fits_boundary (revision_json b)" "fits_boundary (revision_json t)" "fits_boundary (revision_json s)"
    "plan_changes p = filter (\<lambda>e. colliding_edit (content_diff b t) e = None) (content_diff b s)"
    "plan_conflicts p = merge_conflicts (content_diff b t) (content_diff b s)"
  using assms by (auto simp: plan_revision_merge_def owned_input_def owned_output_def outcome_simps diff_revisions_Inr(4))

lemma merge_conflicts_member:
  "c \<in> set (merge_conflicts ts es) \<longleftrightarrow> conflict_source c \<in> set es \<and>
     colliding_edit ts (conflict_source c) = Some (conflict_target c) \<and> conflict_path c = edit_path (conflict_source c)"
  by (cases c) (auto simp: merge_conflicts_def map_filter_def image_iff)

lemma colliding_edit_Some: "colliding_edit ts e = Some t \<Longrightarrow>
    t \<in> set ts \<and> paths_overlap (edit_path t) (edit_path e) \<and> \<not> equal_operands (edit_after t) (edit_after e)"
  by (auto simp: colliding_edit_def dest: find_Some_in split: option.splits if_splits)

text \<open>C29. A merge plan sorts every change of the source branch into exactly one of its two lists, keeps all
  that touch nothing the target branch changed, and reports only conflicts with an overlapping change of the
  target that leaves another value.\<close>

theorem merge_plan_partitions:
  assumes "plan_revision_merge b t s = Inr p"
  shows "set (plan_changes p) \<union> conflict_source ` set (plan_conflicts p) = set (content_diff b s) \<and>
    set (plan_changes p) \<inter> conflict_source ` set (plan_conflicts p) = {} \<and>
    (\<forall>e \<in> set (content_diff b s). (\<forall>u \<in> set (content_diff b t). \<not> paths_overlap (edit_path u) (edit_path e)) \<longrightarrow>
       e \<in> set (plan_changes p)) \<and>
    (\<forall>c \<in> set (plan_conflicts p). conflict_target c \<in> set (content_diff b t) \<and>
       paths_overlap (edit_path (conflict_target c)) (edit_path (conflict_source c)) \<and>
       \<not> equal_operands (edit_after (conflict_target c)) (edit_after (conflict_source c)))"
proof -
  let ?ts = "content_diff b t" and ?es = "content_diff b s"
  note p = plan_revision_merge_Inr(4,5) [OF assms]
  have conflict: "\<exists>c \<in> set (plan_conflicts p). conflict_source c = e" if "e \<in> set ?es" "colliding_edit ?ts e = Some u" for e u
    using that by (intro bexI [of _ "\<lparr>conflict_path = edit_path e, conflict_target = u, conflict_source = e\<rparr>"])
      (simp_all add: p merge_conflicts_member)
  have clear: "colliding_edit ?ts e = None" if "\<forall>u \<in> set ?ts. \<not> paths_overlap (edit_path u) (edit_path e)" for e
    using that colliding_edit_Some [of ?ts e] by (cases "colliding_edit ?ts e") auto
  have "set (plan_changes p) \<union> conflict_source ` set (plan_conflicts p) = set ?es"
    using conflict by (auto simp: p(1) p(2) merge_conflicts_member) (metis image_eqI p(2) option.exhaust)
  then show ?thesis using clear by (auto simp: p merge_conflicts_member dest: colliding_edit_Some)
qed


lemma nested_diffs:
  assumes "k \<noteq> ''length''" "l \<noteq> ''length''" "x \<noteq> y"
    and "rev_content b = JObj [(k, JObj [(l, JStr x)])]" "rev_content t = JObj [(k, JObj [(l, JStr y)])]"
    and "rev_content s = JObj [(k, JStr y)]"
  shows "content_diff b t = [\<lparr>edit_kind = EditReplace, edit_path = child_path [] k @ child_path [] l,
      edit_before = Data (JStr x), edit_after = Data (JStr y)\<rparr>]"
    and "content_diff b s = [\<lparr>edit_kind = EditReplace, edit_path = child_path [] k,
      edit_before = Data (JObj [(l, JStr x)]), edit_after = Data (JStr y)\<rparr>]"
proof -
  have differ: "\<not> equal_values (JObj [(k, JObj [(l, JStr x)])]) (JObj [(k, JObj [(l, JStr y)])])"
    "\<not> equal_values (JObj [(l, JStr x)]) (JObj [(l, JStr y)])" "\<not> equal_values (JStr x) (JStr y)"
    "\<not> equal_values (JObj [(k, JObj [(l, JStr x)])]) (JObj [(k, JStr y)])" "\<not> equal_values (JObj [(l, JStr x)]) (JStr y)"
    using assms(1-3) by (simp_all add: equal_values_def own_value_fits field_def)
  have "diff_value (Data (JObj [(l, JStr x)])) (Data (JObj [(l, JStr y)])) [] =
      [\<lparr>edit_kind = EditReplace, edit_path = child_path [] l, edit_before = Data (JStr x), edit_after = Data (JStr y)\<rparr>]"
    using differ(2,3) by (simp add: diff_objects key_edits_def has_property_def diff_scalar under_def)
  then show "content_diff b t = [\<lparr>edit_kind = EditReplace, edit_path = child_path [] k @ child_path [] l,
      edit_before = Data (JStr x), edit_after = Data (JStr y)\<rparr>]"
    using differ(1) assms(1,2) by (simp add: content_diff_def assms(4,5) diff_objects key_edits_def has_property_def under_def)
  show "content_diff b s = [\<lparr>edit_kind = EditReplace, edit_path = child_path [] k,
      edit_before = Data (JObj [(l, JStr x)]), edit_after = Data (JStr y)\<rparr>]"
    using differ(4,5) assms(1,2) by (simp add: content_diff_def assms(4,6) diff_objects key_edits_def has_property_def diff_scalar under_def)
qed

lemma removal_diff:
  assumes "k \<noteq> ''length''" "\<not> inherited_name k" "rev_content b = JObj [(k, v)]" "rev_content t = JObj []"
  shows "content_diff b t = [\<lparr>edit_kind = EditRemove, edit_path = child_path [] k, edit_before = Data (inert_copy v),
      edit_after = Missing\<rparr>]"
proof -
  have "\<not> equal_values (JObj [(k, inert_copy v)]) (JObj [])"
    using assms(1) by (simp add: equal_values_def own_value_fits)
  then show ?thesis using assms(1,2) by (simp add: content_diff_def assms(3,4) diff_objects key_edits_def has_property_def)
qed

text \<open>C38. A plan without conflicts can undo a change of the target branch: when the source replaces an object
  by the very value that the target wrote into one of its properties, the two changes count as equal although
  they are at different paths, and applying the plan to the target loses what the target did.\<close>

theorem merge_overwrites_target:
  assumes "plan_revision_merge b t s = Inr p" "k \<noteq> ''length''" "l \<noteq> ''length''" "x \<noteq> y"
    and "rev_content b = JObj [(k, JObj [(l, JStr x)])]" "rev_content t = JObj [(k, JObj [(l, JStr y)])]"
    and "rev_content s = JObj [(k, JStr y)]"
  shows "plan_conflicts p = [] \<and> apply_edits (plan_changes p) (rev_content t) = Some (rev_content s)"
proof -
  note diffs = nested_diffs [OF assms(2-7)]
  have "fits_boundary (rev_content s)"
    using plan_revision_merge_Inr(3) [OF assms(1)] by (auto simp: revision_json_def intro: fits_entry)
  then have "fits_boundary (JStr y)" using assms(2,7) by (auto intro: fits_entry)
  then have "equal_values (JStr y) (JStr y)" by (simp add: equal_values_def own_value_fits)
  moreover have "paths_overlap (child_path [] k @ child_path [] l) (child_path [] k)"
    by (simp add: paths_overlap_def starts_with_def child_path_def)
  ultimately have "colliding_edit (content_diff b t) (hd (content_diff b s)) = None"
    by (simp add: diffs colliding_edit_def equal_operands_def)
  then show ?thesis using plan_revision_merge_Inr(4,5) [OF assms(1)]
    by (simp add: diffs merge_conflicts_def map_filter_def apply_edit_def pointer_of_child assms(6,7))
qed

text \<open>Two branches that agree are reported as a conflict when what they agree on is the removal of a
  property: the absent values do not compare equal.\<close>

theorem agreed_removal_conflicts:
  assumes "plan_revision_merge b t s = Inr p" "k \<noteq> ''length''" "\<not> inherited_name k"
    and "rev_content b = JObj [(k, v)]" "rev_content t = JObj []" "rev_content s = JObj []"
  shows "plan_changes p = [] \<and> map conflict_path (plan_conflicts p) = [child_path [] k]"
proof -
  note removed = removal_diff [OF assms(2-5)] removal_diff [OF assms(2-4,6)]
  have "colliding_edit (content_diff b t) (hd (content_diff b s)) = Some (hd (content_diff b t))"
    by (simp add: removed colliding_edit_def paths_overlap_def equal_operands_def)
  then show ?thesis using plan_revision_merge_Inr(4,5) [OF assms(1)] by (simp add: removed merge_conflicts_def map_filter_def)
qed

section \<open>Approval policies\<close>

text \<open>The policy in declarative form: the last decision of a user counts, and the last role.\<close>

definition latest_decision :: "approval list \<Rightarrow> string \<Rightarrow> approval_decision option" where
  "latest_decision as u = map_option approval_decision (List.find (\<lambda>a. approval_user a = u) (rev as))"

definition latest_role :: "membership list \<Rightarrow> string \<Rightarrow> membership_role option" where
  "latest_role ms u = map_option member_role (List.find (\<lambda>m. member_user m = u) (rev ms))"

definition approves :: "approval list \<Rightarrow> membership list \<Rightarrow> string \<Rightarrow> bool" where
  "approves as ms u \<longleftrightarrow> latest_decision as u = Some Approved \<and>
     latest_role ms u \<in> {Some RoleOwner, Some RoleAdmin, Some RoleEditor}"

lemma updates_lookup:
  "map_of (foldl (\<lambda>t m. AList.update (f m) (g m) t) [] ms) u = map_option g (List.find (\<lambda>m. f m = u) (rev ms))"
  by (induction ms rule: rev_induct) (auto simp: update_conv')

lemma updates_distinct: "distinct (map fst (foldl (\<lambda>t m. AList.update (f m) (g m) t) [] ms))"
  by (induction ms rule: rev_induct) (simp_all add: distinct_update)

lemma latest_approvals_lookup: "map_of (latest_approvals as) u = List.find (\<lambda>a. approval_user a = u) (rev as)"
  by (simp add: latest_approvals_def updates_lookup option.map_ident)

lemma latest_approvals_keyed: "(u, a) \<in> set (latest_approvals as) \<Longrightarrow> approval_user a = u"
  using updates_distinct [of approval_user "\<lambda>a. a" as] latest_approvals_lookup [of as u]
  by (auto simp: latest_approvals_def dest!: sym [of "Some _", THEN find_Some_in])

lemma latest_users:
  "map approval_user (filter P (map snd (latest_approvals as))) =
     map fst (filter (\<lambda>kv. P (snd kv)) (latest_approvals as))"
  by (auto simp: filter_map comp_def dest: latest_approvals_keyed)

lemma latest_approvals_member: "(u, a) \<in> set (latest_approvals as) \<longleftrightarrow> List.find (\<lambda>a. approval_user a = u) (rev as) = Some a"
  using updates_distinct [of approval_user "\<lambda>a. a" as] latest_approvals_lookup [of as u]
  by (metis latest_approvals_def map_of_eq_Some_iff)

lemma deciding_users:
  "u \<in> set (map approval_user (filter (\<lambda>a. approval_decision a = d) (map snd (latest_approvals as)))) \<longleftrightarrow>
     latest_decision as u = Some d"
  by (auto simp: latest_users latest_decision_def image_iff Bex_def latest_approvals_member)

lemma distinct_users: "distinct (map approval_user (filter P (map snd (latest_approvals as))))"
  unfolding latest_users using updates_distinct [of approval_user "\<lambda>a. a" as]
  by (simp add: distinct_map_filter latest_approvals_def)

lemma may_approve_iff: "may_approve (role_by_user ms) u \<longleftrightarrow> latest_role ms u \<in> {Some RoleOwner, Some RoleAdmin, Some RoleEditor}"
  by (auto simp: may_approve_def role_by_user_def updates_lookup latest_role_def can_perform_revision_action_def role_allows_def
      split: option.splits)

lemma sort_empty_iff: "sort_key f xs = [] \<longleftrightarrow> xs = []"
  by (metis set_empty set_sort)

text \<open>C28. A baseline is approved exactly when it is current and not stale, enough users approve it whose last
  role allows it, each required role is among them, and, where the policy says so, nobody's last decision asks
  for changes; the approvers are listed in order, each once.\<close>

theorem baseline_approval_decides:
  assumes "evaluate_baseline_approval b p as ms = Inr e" "minimum_approvals p = Whole n"
  shows "approved_by e = sorted_list_of_set {u. approves as ms u} \<and>
    (policy_approved e \<longleftrightarrow> status_currency b = CurrencyCurrent \<and> \<not> status_stale b \<and> n \<le> int (card {u. approves as ms u}) \<and>
      (\<forall>r \<in> set (required_roles p). \<exists>u. approves as ms u \<and> latest_role ms u = Some r) \<and>
      (changes_block p \<longrightarrow> (\<forall>u. latest_decision as u \<noteq> Some ChangesRequested)))"
proof -
  let ?users = "\<lambda>P. map approval_user (filter P (map snd (latest_approvals as)))"
  let ?approvers = "?users (\<lambda>a. approval_decision a = Approved \<and> may_approve (role_by_user ms) (approval_user a))"
  let ?requesters = "?users (\<lambda>a. approval_decision a = ChangesRequested)"
  let ?missing = "filter (\<lambda>r. Some r \<notin> map_of (role_by_user ms) ` set ?approvers) (remdups (required_roles p))"
  obtain x where x: "evaluate_approval_policy p as ms = Inr x"
    "e = (if status_currency b \<noteq> CurrencyCurrent \<or> status_stale b then x\<lparr>policy_approved := False\<rparr> else x)"
    using assms(1) by (auto simp: evaluate_baseline_approval_def owned_output_def outcome_simps)
  have n: "1 \<le> n" using x(1) assms(2)
    by (auto simp: evaluate_approval_policy_def outcome_simps split: option.splits if_splits)
  have parts: "approved_by x = sort ?approvers"
    "policy_approved x \<longleftrightarrow> nat n \<le> length ?approvers \<and> ?missing = [] \<and> (\<not> changes_block p \<or> ?requesters = [])"
    using x(1) assms(2) n
    by (auto simp: evaluate_approval_policy_def owned_output_def outcome_simps Let_def sort_empty_iff conj_commute)
  have "u \<in> set ?approvers \<longleftrightarrow> latest_decision as u = Some Approved \<and> may_approve (role_by_user ms) u" for u
    unfolding deciding_users [symmetric] by auto
  then have approvers: "set ?approvers = {u. approves as ms u}" by (auto simp: approves_def may_approve_iff)
  have "length ?approvers = card {u. approves as ms u}" using distinct_card [OF distinct_users] approvers by metis
  moreover have "sort ?approvers = sorted_list_of_set {u. approves as ms u}"
    using sorted_list_of_set_sort_remdups [of ?approvers] approvers distinct_remdups_id [OF distinct_users] by metis
  moreover have "map_of (role_by_user ms) u = latest_role ms u" for u
    by (simp add: role_by_user_def updates_lookup latest_role_def)
  then have "?missing = [] \<longleftrightarrow> (\<forall>r \<in> set (required_roles p). \<exists>u. approves as ms u \<and> latest_role ms u = Some r)"
    unfolding approvers filter_empty_conv by (auto simp: image_iff) (metis, metis)
  moreover have "?requesters = [] \<longleftrightarrow> (\<forall>u. latest_decision as u \<noteq> Some ChangesRequested)"
    unfolding deciding_users [symmetric] by (auto simp: filter_empty_conv)
  ultimately show ?thesis using parts x(2) n by (auto simp: nat_le_iff)
qed

section \<open>Witnesses\<close>

definition version_with :: "string \<Rightarrow> json \<Rightarrow> revision" where
  "version_with i c = sample_revision\<lparr>rev_id := i, rev_content := c\<rparr>"

definition flat :: "string \<Rightarrow> string \<Rightarrow> json" where
  "flat x y = JObj [(''a'', JStr x), (''b'', JStr y)]"

definition nested :: "json \<Rightarrow> json" where
  "nested v = JObj [(''a'', v)]"

lemma version_parts [simp]:
  "rev_id (version_with i c) = i" "rev_content (version_with i c) = c" "rev_project (version_with i c) = ''p''"
  "rev_sequence (version_with i c) = 1"
  "inert_copy (flat x y) = flat x y"
  by (simp_all add: version_with_def sample_revision_def flat_def)

lemma equal_flat: "utf8_length x \<le> 10 \<Longrightarrow> utf8_length y \<le> 10 \<Longrightarrow> utf8_length z \<le> 10 \<Longrightarrow> utf8_length w \<le> 10 \<Longrightarrow>
    equal_values (flat x y) (flat z w) \<longleftrightarrow> x = z \<and> y = w"
  using length_le_utf8_length [of x] length_le_utf8_length [of y] length_le_utf8_length [of z] length_le_utf8_length [of w]
  by (auto simp: equal_values_def own_value_fits boundary_eval flat_def field_def)

lemma equal_texts: "utf8_length x \<le> 10 \<Longrightarrow> equal_values (JStr x) (JStr y) \<longleftrightarrow> x = y"
  using length_le_utf8_length [of x]
  by (auto simp: equal_values_def own_value_fits boundary_eval)

lemma flat_diff: "utf8_length x \<le> 10 \<Longrightarrow> utf8_length y \<le> 10 \<Longrightarrow> utf8_length z \<le> 10 \<Longrightarrow> utf8_length w \<le> 10 \<Longrightarrow>
    diff_value (Data (flat x y)) (Data (flat z w)) [] =
      (if x = z then [] else [\<lparr>edit_kind = EditReplace, edit_path = ''/a'', edit_before = Data (JStr x), edit_after = Data (JStr z)\<rparr>]) @
      (if y = w then [] else [\<lparr>edit_kind = EditReplace, edit_path = ''/b'', edit_before = Data (JStr y), edit_after = Data (JStr w)\<rparr>])"
  using equal_flat [of x y z w] equal_texts [of x z] equal_texts [of y w]
  by (cases "x = z \<and> y = w")
    (simp_all add: diff_same, auto simp: flat_def diff_objects key_edits_def has_property_def diff_same diff_scalar under_def
      child_path_def pointer_token_def)

lemmas edit_jsons = diff_json_def edit_json_def plan_json_def conflict_json_def

lemma version_fits: "fits_boundary (revision_json (version_with ''v'' (flat ''x'' ''x'')))"
  "fits_boundary (revision_json (version_with ''w'' (flat ''y'' ''x'')))"
  "fits_boundary (revision_json (version_with ''z'' (flat ''x'' ''y'')))"
  by (simp_all add: boundary_eval version_with_def flat_def sample_records record_jsons nat_text.simps)

lemma version_diffs:
  "diff_revisions (version_with ''v'' (flat ''x'' ''x'')) (version_with ''w'' (flat ''y'' ''x'')) =
     Inr \<lparr>diff_from = ''v'', diff_to = ''w'', diff_changes =
       [\<lparr>edit_kind = EditReplace, edit_path = ''/a'', edit_before = Data (JStr ''x''), edit_after = Data (JStr ''y'')\<rparr>]\<rparr>"
  "diff_revisions (version_with ''v'' (flat ''x'' ''x'')) (version_with ''z'' (flat ''x'' ''y'')) =
     Inr \<lparr>diff_from = ''v'', diff_to = ''z'', diff_changes =
       [\<lparr>edit_kind = EditReplace, edit_path = ''/b'', edit_before = Data (JStr ''x''), edit_after = Data (JStr ''y'')\<rparr>]\<rparr>"
  using version_fits
  by (simp_all add: diff_revisions_def content_diff_def flat_diff owned_input_def owned_output_def boundary_eval edit_jsons nat_text.simps)

lemma copied_version: "copy_revision (version_with i (flat x y)) = version_with i (flat x y)"
  by (simp add: copy_revision_def version_with_def flat_def sample_revision_def)

definition disjoint_plan :: merge_plan where
  "disjoint_plan = \<lparr>plan_base = ''v'', plan_target = ''w'', plan_source = ''z'', plan_changes =
     [\<lparr>edit_kind = EditReplace, edit_path = ''/b'', edit_before = Data (JStr ''x''), edit_after = Data (JStr ''y'')\<rparr>],
     plan_conflicts = []\<rparr>"

lemma disjoint_planned: "plan_revision_merge (version_with ''v'' (flat ''x'' ''x'')) (version_with ''w'' (flat ''y'' ''x''))
    (version_with ''z'' (flat ''x'' ''y'')) = Inr disjoint_plan"
  using version_fits version_diffs
  by (simp add: plan_revision_merge_def owned_input_def owned_output_def copied_version colliding_edit_def paths_overlap_def
      starts_with_def merge_conflicts_def map_filter_def disjoint_plan_def boundary_eval edit_jsons nat_text.simps)

lemma flat_ordinary: "ordinary (flat x y)"
  by (simp add: flat_def inherited_name_def inherited_methods_def)



theorem merge_plan_partitions_witness:
  "set (plan_changes disjoint_plan) \<union> conflict_source ` set (plan_conflicts disjoint_plan) =
     set (content_diff (version_with ''v'' (flat ''x'' ''x'')) (version_with ''z'' (flat ''x'' ''y'')))"
  using merge_plan_partitions [OF disjoint_planned] by blast

theorem inherited_name_breaks_diff_witness:
  "diff_revisions (version_with ''v'' (JObj [])) (version_with ''w'' (JObj [(''constructor'', JNull)])) = Inl HistoryBoundary"
  by (rule inherited_name_breaks_diff [where k = "''constructor''" and v = JNull])
    (simp_all add: inherited_methods_def, simp_all add: boundary_eval version_with_def sample_records record_jsons nat_text.simps)

definition sample_restore :: restore_input where
  "sample_restore = \<lparr>restore_id = ''n'', restore_sha = ''f3'', restore_by = ''u'', restore_at = ''t'', restore_reason = ''r''\<rparr>"

definition sample_restored :: restored_revision where
  "sample_restored = \<lparr>restored_revision = (version_with ''n'' (flat ''x'' ''x''))\<lparr>rev_sequence := 2, rev_parent := Some ''w'',
     rev_sha := ''f3'', rev_created_at := ''t''\<rparr>, restored_from = ''v'', restored_reason = ''r''\<rparr>"

lemma sample_restored_created: "create_restored_revision (version_with ''v'' (flat ''x'' ''x'')) (version_with ''w'' (flat ''y'' ''x''))
    sample_restore = Inr sample_restored"
proof -
  have "fits_boundary (restore_json sample_restore)" "fits_boundary (restored_json sample_restored)"
    "js_trim ''r'' \<noteq> []"
    by (simp_all add: boundary_eval sample_restore_def restore_json_def sample_restored_def restored_json_def version_with_def
        flat_def sample_records record_jsons nat_text.simps js_trim_def is_js_space_def)
  then show ?thesis using version_fits
    by (simp add: create_restored_revision_def owned_input_def owned_output_def sample_restored_def sample_restore_def)
      (simp add: version_with_def sample_revision_def)
qed

theorem restored_revision_is_target_witness:
  "rev_sequence (restored_revision sample_restored) = 2 \<and>
   (\<exists>d. diff_revisions (version_with ''v'' (flat ''x'' ''x'')) (restored_revision sample_restored) = Inr d \<and> diff_changes d = [])"
proof -
  have "rev_content (restored_revision sample_restored) = flat ''x'' ''x''" "rev_project (restored_revision sample_restored) = ''p''"
    by (simp_all add: sample_restored_def)
  moreover have "fits_boundary (revision_json (restored_revision sample_restored))"
    by (simp add: boundary_eval sample_restored_def version_with_def flat_def sample_records record_jsons nat_text.simps)
  ultimately obtain d where "diff_revisions (version_with ''v'' (flat ''x'' ''x'')) (restored_revision sample_restored) = Inr d"
    using version_fits(1)
    by (simp add: diff_revisions_def content_diff_def flat_diff owned_input_def owned_output_def)
       (simp add: boundary_eval edit_jsons sample_restored_def)
  then show ?thesis using restored_revision_is_target [OF sample_restored_created] flat_ordinary by simp
qed

lemma diff_exists:
  assumes "fits_boundary (revision_json a)" "fits_boundary (revision_json b)" "rev_project a = rev_project b"
    and "length (content_diff a b) \<le> max_items"
    and "fits_boundary (diff_json \<lparr>diff_from = rev_id a, diff_to = rev_id b, diff_changes = content_diff a b\<rparr>)"
  shows "diff_revisions a b = Inr \<lparr>diff_from = rev_id a, diff_to = rev_id b, diff_changes = content_diff a b\<rparr>"
  using assms by (simp add: diff_revisions_def owned_input_def owned_output_def)

lemma plan_exists:
  assumes "fits_boundary (revision_json b)" "fits_boundary (revision_json t)" "fits_boundary (revision_json s)"
    and "copy_revision b = b" "copy_revision t = t" "copy_revision s = s" "rev_project b = rev_project t" "rev_project b = rev_project s"
    and "length (content_diff b t) \<le> max_items" "length (content_diff b s) \<le> max_items"
    and "fits_boundary (diff_json \<lparr>diff_from = rev_id b, diff_to = rev_id t, diff_changes = content_diff b t\<rparr>)"
    and "fits_boundary (diff_json \<lparr>diff_from = rev_id b, diff_to = rev_id s, diff_changes = content_diff b s\<rparr>)"
    and "fits_boundary (plan_json \<lparr>plan_base = rev_id b, plan_target = rev_id t, plan_source = rev_id s,
      plan_changes = filter (\<lambda>x. colliding_edit (content_diff b t) x = None) (content_diff b s),
      plan_conflicts = merge_conflicts (content_diff b t) (content_diff b s)\<rparr>)"
  shows "\<exists>p. plan_revision_merge b t s = Inr p"
  using assms diff_exists [OF assms(1,2,7,9,11)] diff_exists [OF assms(1,3,8,10,12)]
  by (simp add: plan_revision_merge_def owned_input_def owned_output_def)

lemmas plan_eval = child_path_def pointer_token_def colliding_edit_def merge_conflicts_def map_filter_def paths_overlap_def
  starts_with_def equal_operands_def equal_texts boundary_eval edit_jsons nat_text.simps

theorem merge_overwrites_target_witness:
  "\<exists>p. plan_revision_merge (version_with ''v'' (nested (JObj [(''b'', JStr ''x'')]))) (version_with ''w'' (nested (JObj [(''b'', JStr ''y'')])))
     (version_with ''z'' (nested (JStr ''y''))) = Inr p \<and> plan_conflicts p = [] \<and>
     apply_edits (plan_changes p) (nested (JObj [(''b'', JStr ''y'')])) = Some (nested (JStr ''y''))"
proof -
  let ?b = "version_with ''v'' (nested (JObj [(''b'', JStr ''x'')]))" and ?t = "version_with ''w'' (nested (JObj [(''b'', JStr ''y'')]))"
    and ?s = "version_with ''z'' (nested (JStr ''y''))"
  have fits: "fits_boundary (revision_json ?b)" "fits_boundary (revision_json ?t)" "fits_boundary (revision_json ?s)"
    by (simp_all add: boundary_eval version_with_def nested_def sample_records record_jsons nat_text.simps)
  have copies: "copy_revision ?b = ?b" "copy_revision ?t = ?t" "copy_revision ?s = ?s"
    by (simp_all add: copy_revision_def version_with_def nested_def sample_revision_def)
  note diffs = nested_diffs [of "''a''" "''b''" "''x''" "''y''" ?b ?t ?s, simplified version_parts, unfolded nested_def, OF _ _ _ refl refl refl, simplified]
  have "\<exists>p. plan_revision_merge ?b ?t ?s = Inr p"
    by (rule plan_exists [OF fits copies]) (simp_all add: diffs nested_def, simp_all add: plan_eval)
  then show ?thesis
    using merge_overwrites_target [of ?b ?t ?s _ "''a''" "''b''" "''x''" "''y''"] by (auto simp: nested_def)
qed

theorem agreed_removal_conflicts_witness:
  "\<exists>p. plan_revision_merge (version_with ''v'' (nested JNull)) (version_with ''w'' (JObj [])) (version_with ''z'' (JObj [])) = Inr p \<and>
     plan_changes p = [] \<and> map conflict_path (plan_conflicts p) = [''/a'']"
proof -
  let ?b = "version_with ''v'' (nested JNull)" and ?t = "version_with ''w'' (JObj [])" and ?s = "version_with ''z'' (JObj [])"
  have fits: "fits_boundary (revision_json ?b)" "fits_boundary (revision_json ?t)" "fits_boundary (revision_json ?s)"
    by (simp_all add: boundary_eval version_with_def nested_def sample_records record_jsons nat_text.simps)
  have copies: "copy_revision ?b = ?b" "copy_revision ?t = ?t" "copy_revision ?s = ?s"
    by (simp_all add: copy_revision_def version_with_def nested_def sample_revision_def)
  have name: "\<not> inherited_name ''a''" by (simp add: inherited_name_def inherited_methods_def)
  have diffs: "content_diff ?b ?t = [\<lparr>edit_kind = EditRemove, edit_path = ''/a'', edit_before = Data JNull, edit_after = Missing\<rparr>]"
    "content_diff ?b ?s = content_diff ?b ?t"
    using removal_diff [of "''a''" ?b JNull ?t] removal_diff [of "''a''" ?b JNull ?s] name
    by (simp_all add: nested_def child_path_def pointer_token_def)
  have "\<exists>p. plan_revision_merge ?b ?t ?s = Inr p"
    by (rule plan_exists [OF fits copies]) (simp_all add: diffs, simp_all add: plan_eval)
  then show ?thesis
    using agreed_removal_conflicts [of ?b ?t ?s _ "''a''" JNull] name by (auto simp: nested_def child_path_def pointer_token_def)
qed

definition sample_policy :: approval_policy where
  "sample_policy = \<lparr>minimum_approvals = Whole 1, required_roles = [RoleOwner], changes_block = True\<rparr>"

definition sample_approval :: approval where
  "sample_approval = \<lparr>approval_id = ''x'', approval_revision = ''r1'', approval_user = ''u'', approval_decision = Approved,
     approval_note = None, approval_at = ''t''\<rparr>"

definition sample_member :: membership where
  "sample_member = \<lparr>member_organization = ''o'', member_user = ''u'', member_role = RoleOwner\<rparr>"

lemma evaluate_with:
  assumes "fits_boundary (policy_value p)" "fits_boundary (JArr (map approval_json as))" "fits_boundary (JArr (map membership_json ms))"
    and "length as \<le> max_items" "length ms \<le> max_items" "length (required_roles p) \<le> max_references"
    and "least_approvals (minimum_approvals p) = Some least"
    and "sort (map approval_user (filter (\<lambda>a. may_approve (role_by_user ms) (approval_user a))
        (filter (\<lambda>a. approval_decision a = Approved) (map snd (latest_approvals as))))) = us"
    and "sort (map approval_user (filter (\<lambda>a. approval_decision a = ChangesRequested) (map snd (latest_approvals as)))) = rs"
    and "sort_key role_text (filter (\<lambda>r. Some r \<notin> map_of (role_by_user ms) ` set us) (remdups (required_roles p))) = lacking"
    and "e = \<lparr>policy_approved = (length us \<ge> least \<and> lacking = [] \<and> (\<not> changes_block p \<or> rs = [])), approved_by = us,
      missing_roles = lacking, changes_requested_by = rs\<rparr>"
  shows "evaluate_approval_policy p as ms = owned_output evaluation_json e"
  using assms(1-6) unfolding evaluate_approval_policy_def Let_def assms(7-11)
  by (simp add: owned_input_def)

theorem baseline_approval_decides_witness:
  "evaluate_baseline_approval \<lparr>status_currency = CurrencyCurrent, status_stale = False\<rparr> sample_policy [sample_approval] [sample_member] =
     Inr \<lparr>policy_approved = True, approved_by = [''u''], missing_roles = [], changes_requested_by = []\<rparr> \<and>
   1 \<le> card {u. approves [sample_approval] [sample_member] u}"
proof -
  let ?e = "\<lparr>policy_approved = True, approved_by = [''u''], missing_roles = [], changes_requested_by = []\<rparr>"
  have fits: "fits_boundary (policy_value sample_policy)" "fits_boundary (JArr [approval_json sample_approval])"
    "fits_boundary (JArr [membership_json sample_member])" "fits_boundary (evaluation_json ?e)"
    by (simp_all add: sample_policy_def sample_approval_def sample_member_def boundary_eval policy_value_def approval_json_def
        membership_json_def evaluation_json_def strings_json_def optional_def nat_text.simps)
  have parts: "latest_approvals [sample_approval] = [(''u'', sample_approval)]" "role_by_user [sample_member] = [(''u'', RoleOwner)]"
    "may_approve [(''u'', RoleOwner)] ''u''" "approval_user sample_approval = ''u''" "approval_decision sample_approval = Approved"
    by (simp_all add: latest_approvals_def role_by_user_def sample_approval_def sample_member_def may_approve_def
        can_perform_revision_action_def role_allows_def)
  have "evaluate_approval_policy sample_policy [sample_approval] [sample_member] = owned_output evaluation_json ?e"
    by (rule evaluate_with [where least = 1 and us = "[''u'']" and rs = "[]"])
      (simp_all add: fits parts collab_limits, simp_all add: sample_policy_def)
  then have "evaluate_approval_policy sample_policy [sample_approval] [sample_member] = Inr ?e"
    using fits(4) by (simp add: owned_output_def)
  then have "evaluate_baseline_approval \<lparr>status_currency = CurrencyCurrent, status_stale = False\<rparr> sample_policy [sample_approval]
      [sample_member] = Inr ?e"
    by (simp add: evaluate_baseline_approval_def owned_input_def owned_output_def status_json_def boundary_eval evaluation_json_def
        strings_json_def nat_text.simps)
  from baseline_approval_decides [OF this] this show ?thesis by (simp add: sample_policy_def)
qed

end
