(* ===== verification/Service_Base.thy ===== *)
theory Service_Base
  imports Collab_Safety Collab_Parse Collab_History "HOL-Library.Word"
begin

text \<open>
  The ground of the HTTP service in \<open>packages/collaboration/src/service.ts\<close>: requests and responses, what
  the service takes from the host that deploys it, and computations over the repository of
  \<open>index.ts\<close>.

  Every call that the service makes to a port (the repository, the authorizer, the clock, the id source,
  the signer) is awaited, so other requests run in between: before each call the store goes through any
  commands that the others issue.  The supervisor of the host may refuse to make a call, or make it and
  lose its answer.  What a port answers may depend on the number of calls made before.  The store itself
  is the in-memory repository, one \<open>perform_at\<close> per write.

  The world also keeps a trace of what the service asked, found and wrote, which the program does not
  store: the statements about authorization are about the order of these events.
\<close>

section \<open>Requests and responses\<close>

text \<open>A body is read in parts; reading a part may fail.\<close>

datatype body_part = BodyBytes "8 word list" | BodyFails

text \<open>\<open>request_aborted\<close> is the number of reads of the body after which the signal is aborted.\<close>

record request =
  request_method :: string
  request_path :: string
  request_query :: "(string \<times> string) list"
  request_headers :: "(string \<times> string) list"
  request_body :: "body_part list option"
  request_aborted :: "nat option"

definition header :: "request \<Rightarrow> string \<Rightarrow> string option" where
  "header q k = map_of (request_headers q) k"

definition query :: "request \<Rightarrow> string \<Rightarrow> string option" where
  "query q k = map_of (request_query q) k"

datatype payload = JsonBody json | TextBody string | Attachment string string | NoBody | EventStream string nat

record response =
  response_status :: nat
  response_payload :: payload
  response_origin :: "string option"
  retry_after :: "string option"

definition respond :: "nat \<Rightarrow> payload \<Rightarrow> response" where
  "respond n b = \<lparr>response_status = n, response_payload = b, response_origin = None, retry_after = None\<rparr>"

text \<open>What a handler throws: an error of the service with its code, an outage of the host, and any other
  error, which the service reports as internal.\<close>

datatype fault = Refused collab_error | Unavailable | Internal

section \<open>What the host supplies\<close>

datatype supervision = Runs | Blocked | Lost

datatype target = InOrganization string | InProject string

datatype js_number = NotNumber | Infinite bool | Finite number

text \<open>The ports, the options of the service, and what it takes from the JavaScript runtime for text: the
  UTF-8 decoder, \<open>Number\<close> of a text, whether \<open>Date.parse\<close> gives a number, the origin of a URL that uses
  https and carries no credentials, and division and addition of doubles.\<close>

record site =
  site_platform :: platform
  site_runtime :: runtime
  decode_text :: "8 word list \<Rightarrow> string"
  to_number :: "string \<Rightarrow> js_number"
  parses_date :: "string \<Rightarrow> bool"
  url_origin :: "string \<Rightarrow> string option"
  quotient :: "number \<Rightarrow> number \<Rightarrow> js_number"
  sum_of :: "number \<Rightarrow> number \<Rightarrow> number"
  opens_context :: "nat \<Rightarrow> bool"
  supervises :: "nat \<Rightarrow> supervision"
  others :: "nat \<Rightarrow> (string \<times> repository_command) list"
  authorizes :: "nat \<Rightarrow> string \<Rightarrow> collaboration_action \<Rightarrow> target \<Rightarrow> bool"
  makes_id :: "nat \<Rightarrow> string \<Rightarrow> json"
  tells_time :: "nat \<Rightarrow> json"
  signs :: "nat \<Rightarrow> string \<Rightarrow> json"
  verifies :: "nat \<Rightarrow> string \<Rightarrow> string \<Rightarrow> json"
  hashes :: "nat \<Rightarrow> string \<Rightarrow> json"
  has_signer :: bool
  binds :: "(nat \<Rightarrow> string \<Rightarrow> binding option) option"
  allowed_origins :: "string list option"
  max_requests :: nat
  max_body :: nat
  max_snapshot :: nat

section \<open>Computations\<close>

datatype resource = ReviewThreads | DiscussionThreads | CommentThreads | ChangeRequests | DesignRevisions | ShareLinks

text \<open>The trace: the authorizer's answer to a question, a resource and the project (for a comment, the thread)
  it was found in, a project that was looked for and not found, a share link with the permission that it was
  admitted for, and a write.\<close>

datatype service_event =
    Asked string collaboration_action target bool
  | Found resource string string
  | Missing string
  | Admitted share_link share_permission
  | Issued repository_command

record world =
  world_store :: store
  world_tick :: nat
  world_trace :: "service_event list"

type_synonym 'a action = "world \<Rightarrow> (fault + 'a) \<times> world"

definition give :: "'a \<Rightarrow> 'a action" where
  "give x = (\<lambda>w. (Inr x, w))"

definition refuse :: "fault \<Rightarrow> 'a action" where
  "refuse f = (\<lambda>w. (Inl f, w))"

definition andDo :: "'a action \<Rightarrow> ('a \<Rightarrow> 'b action) \<Rightarrow> 'b action" where
  "andDo a f = (\<lambda>w. case a w of (Inl e, w') \<Rightarrow> (Inl e, w') | (Inr x, w') \<Rightarrow> f x w')"

definition rescue :: "'a action \<Rightarrow> (fault \<Rightarrow> 'a action) \<Rightarrow> 'a action" where
  "rescue a f = (\<lambda>w. case a w of (Inl e, w') \<Rightarrow> f e w' | (Inr x, w') \<Rightarrow> (Inr x, w'))"

definition refuseIf :: "bool \<Rightarrow> fault \<Rightarrow> 'a action \<Rightarrow> 'a action" where
  "refuseIf c f a = (if c then refuse f else a)"

definition observe :: "service_event \<Rightarrow> unit action" where
  "observe x = (\<lambda>w. (Inr (), w\<lparr>world_trace := world_trace w @ [x]\<rparr>))"

text \<open>An error of a pure check, as a fault of the given kind.\<close>

definition checked :: "fault + 'a \<Rightarrow> 'a action" where
  "checked r = (case r of Inl f \<Rightarrow> refuse f | Inr x \<Rightarrow> give x)"

section \<open>Calls to ports\<close>

text \<open>The other requests run until the call is made.\<close>

definition before_call :: "site \<Rightarrow> world \<Rightarrow> world" where
  "before_call e w = w\<lparr>world_tick := Suc (world_tick w),
     world_store := foldl (perform_at (site_platform e)) (world_store w) (others e (world_tick w))\<rparr>"

text \<open>\<open>callCollaborationHostPort\<close> behind the handlers' \<open>host\<close>: the arguments are copied at the boundary, and
  whatever goes wrong is an outage.\<close>

definition port_call :: "site \<Rightarrow> json list \<Rightarrow> (world \<Rightarrow> (collab_error + 'a) \<times> world) \<Rightarrow> 'a action" where
  "port_call e args f w =
     (let w1 = before_call e w in
      if \<not> list_all fits_boundary args then (Inl Unavailable, w1)
      else
        (case supervises e (world_tick w1) of
           Blocked \<Rightarrow> (Inl Unavailable, w1)
         | Lost \<Rightarrow> (Inl Unavailable, snd (f w1))
         | Runs \<Rightarrow> (case f w1 of (Inl x, w2) \<Rightarrow> (Inl Unavailable, w2) | (Inr x, w2) \<Rightarrow> (Inr x, w2))))"

text \<open>A copied answer; \<open>undefined\<close> is passed on as it is.\<close>

definition owned_answer :: "json \<Rightarrow> collab_error + json" where
  "owned_answer v =
     (if v = JOther NonObject then Inr v
      else (case own_value v of None \<Rightarrow> Inl ErrInvalid | Some x \<Rightarrow> Inr x))"

definition asks_port :: "site \<Rightarrow> json list \<Rightarrow> (nat \<Rightarrow> json) \<Rightarrow> json action" where
  "asks_port e args f = port_call e args (\<lambda>w. (owned_answer (f (world_tick w)), w))"

definition reads :: "site \<Rightarrow> json list \<Rightarrow> (store \<Rightarrow> collab_error + 'a) \<Rightarrow> 'a action" where
  "reads e args r = port_call e args (\<lambda>w. (r (world_store w), w))"

definition issue :: "site \<Rightarrow> repository_command \<Rightarrow> world \<Rightarrow> world" where
  "issue e c w = w\<lparr>world_store := perform_at (site_platform e) (world_store w) (clock (site_platform e), c),
     world_trace := world_trace w @ [Issued c]\<rparr>"

definition writes ::
    "site \<Rightarrow> json list \<Rightarrow> repository_command \<Rightarrow> (store \<Rightarrow> collab_error + 'a) \<Rightarrow> 'a action" where
  "writes e args c answer = port_call e args (\<lambda>w. (answer (world_store w), issue e c w))"

text \<open>The answer of an operation that returns nothing, and of one that returns a value with the store.\<close>

definition answers_unit :: "collab_error + store \<Rightarrow> collab_error + unit" where
  "answers_unit r = (case r of Inl e \<Rightarrow> Inl e | Inr s \<Rightarrow> Inr ())"

definition answers_value :: "('a \<Rightarrow> json) \<Rightarrow> collab_error + 'a \<times> store \<Rightarrow> collab_error + 'a" where
  "answers_value value_of r =
     (case r of Inl e \<Rightarrow> Inl e | Inr (x, s) \<Rightarrow> andThen (owned_as value_of x) (\<lambda>u. Inr x))"

section \<open>Time, ids and events\<close>

text \<open>\<open>Date.parse\<close> of the empty text is not a number in any runtime.\<close>

definition issued_at :: "site \<Rightarrow> string action" where
  "issued_at e = andDo (asks_port e [] (tells_time e)) (\<lambda>v.
     case v of
       JStr s \<Rightarrow> refuseIf (s = [] \<or> \<not> parses_date e s) Unavailable (give s)
     | _ \<Rightarrow> refuse Unavailable)"

definition next_id :: "site \<Rightarrow> string \<Rightarrow> string action" where
  "next_id e kind = andDo (asks_port e [JStr kind] (\<lambda>n. makes_id e n kind)) (\<lambda>v.
     case v of
       JStr s \<Rightarrow> refuseIf (length s > max_identifier) Unavailable (give s)
     | _ \<Rightarrow> refuse Unavailable)"

definition emit ::
    "site \<Rightarrow> string \<Rightarrow> string \<Rightarrow> string option \<Rightarrow> string \<Rightarrow> string \<Rightarrow> (string \<times> json) list \<Rightarrow> event action" where
  "emit e project type user kind resource details =
     andDo (next_id e ''event'') (\<lambda>i.
     andDo (issued_at e) (\<lambda>time.
       (let x = \<lparr>event_id = i, event_project = project, event_type = type,
              event_actor = (case user of Some [] \<Rightarrow> None | u \<Rightarrow> u), event_resource_type = kind, event_resource = resource,
              event_payload = JObj details, event_at = time\<rparr> in
        writes e [event_input_json x] (AppendEvent x) (\<lambda>s. fst (append_event x s)))))"

section \<open>Reading a request\<close>

definition aborted :: "request \<Rightarrow> nat \<Rightarrow> bool" where
  "aborted q n \<longleftrightarrow> (case request_aborted q of None \<Rightarrow> False | Some k \<Rightarrow> k \<le> n)"

fun read_parts :: "request \<Rightarrow> nat \<Rightarrow> nat \<Rightarrow> 8 word list list \<Rightarrow> body_part list \<Rightarrow> fault + 8 word list" where
  "read_parts q limit n chunks [] =
     failIf (aborted q (Suc n)) (Refused ErrInvalid) (Inr (concat chunks))"
| "read_parts q limit n chunks (BodyFails # ps) = Inl Internal"
| "read_parts q limit n chunks (BodyBytes bs # ps) =
     failIf (aborted q (Suc n)) (Refused ErrInvalid)
    (failIf (length (concat chunks) + length bs > limit) (Refused ErrInvalid)
    (failIf (length chunks \<ge> max_items) (Refused ErrInvalid)
       (read_parts q limit (Suc n) (chunks @ [bs]) ps)))"

definition declares_more :: "site \<Rightarrow> string \<Rightarrow> nat \<Rightarrow> bool" where
  "declares_more e s limit \<longleftrightarrow>
     (case to_number e s of
        NotNumber \<Rightarrow> False
      | Infinite positive \<Rightarrow> positive
      | Finite n \<Rightarrow> number_value (site_platform e) n > rat_of_nat limit)"

definition read_serialized :: "site \<Rightarrow> request \<Rightarrow> nat \<Rightarrow> fault + string" where
  "read_serialized e q limit =
     failIf (case header q ''content-length'' of None \<Rightarrow> False | Some s \<Rightarrow> declares_more e s limit) (Refused ErrInvalid)
    (case request_body q of
       None \<Rightarrow> Inr []
     | Some ps \<Rightarrow>
         failIf (aborted q 0) (Refused ErrInvalid)
        (andThen (read_parts q limit 0 [] ps) (\<lambda>bs. Inr (decode_text e bs))))"

definition read_body :: "site \<Rightarrow> request \<Rightarrow> fault + (string \<times> json) list" where
  "read_body e q =
     andThen (read_serialized e q (max_body e)) (\<lambda>s.
     case Option.bind (json_parse (site_runtime e) s) own_value of
       Some (JObj kvs) \<Rightarrow> Inr kvs
     | _ \<Rightarrow> Inl (Refused ErrInvalid))"

text \<open>The errors of \<open>parseSnapshot\<close> are not the service's own.\<close>

definition read_snapshot :: "site \<Rightarrow> request \<Rightarrow> fault + snapshot" where
  "read_snapshot e q =
     andThen (read_serialized e q (max_snapshot e)) (\<lambda>s.
     case parse_snapshot (site_platform e) (site_runtime e) s of
       Inl x \<Rightarrow> Inl Internal
     | Inr x \<Rightarrow> Inr x)"

definition route_id :: "string \<Rightarrow> string action" where
  "route_id s = refuseIf (\<not> stable_identifier s) (Refused ErrInvalid) (give s)"

definition actor :: "request \<Rightarrow> string action" where
  "actor q =
     (case header q ''x-selene-user-id'' of
        None \<Rightarrow> refuse (Refused ErrForbidden)
      | Some s \<Rightarrow> refuseIf (\<not> stable_identifier s) (Refused ErrForbidden) (give s))"

end
