(* ===== verification/Share_Token.thy ===== *)
theory Share_Token
  imports Service_Base
begin

text \<open>
  Signed share tokens of \<open>packages/collaboration/src/index.ts\<close>, as the service uses them: the payload in
  base64url, a tilde and the signature that the host's signer made for the payload.
\<close>

section \<open>Bytes and base64url\<close>

text \<open>\<open>TextEncoder\<close> on code units below 256.\<close>

fun utf8_char :: "char \<Rightarrow> nat list" where
  "utf8_char c = (if code_unit c < 128 then [code_unit c] else [192 + code_unit c div 64, 128 + code_unit c mod 64])"

definition utf8_bytes :: "string \<Rightarrow> nat list" where
  "utf8_bytes s = concat (map utf8_char s)"

fun sextets :: "nat list \<Rightarrow> nat list" where
  "sextets (a # b # c # r) =
     [a div 4, (a mod 4) * 16 + b div 16, (b mod 16) * 4 + c div 64, c mod 64] @ sextets r"
| "sextets [a, b] = [a div 4, (a mod 4) * 16 + b div 16, (b mod 16) * 4]"
| "sextets [a] = [a div 4, (a mod 4) * 16]"
| "sextets [] = []"

fun octets :: "nat list \<Rightarrow> nat list" where
  "octets (a # b # c # d # r) = [a * 4 + b div 16, (b mod 16) * 16 + c div 4, (c mod 4) * 64 + d] @ octets r"
| "octets [a, b, c] = [a * 4 + b div 16, (b mod 16) * 16 + c div 4]"
| "octets [a, b] = [a * 4 + b div 16]"
| "octets r = []"

definition base64_char :: "nat \<Rightarrow> char" where
  "base64_char n =
     (if n < 26 then char_of (65 + n) else if n < 52 then char_of (71 + n) else if n < 62 then char_of (n - 4)
      else if n = 62 then CHR ''+'' else CHR ''/'')"

definition base64_value :: "char \<Rightarrow> nat option" where
  "base64_value c =
     (if is_upper c then Some (code_unit c - 65) else if is_lower c then Some (code_unit c - 71)
      else if is_digit c then Some (code_unit c + 4)
      else if c = CHR ''+'' then Some 62 else if c = CHR ''/'' then Some 63 else None)"

text \<open>\<open>btoa\<close> pads with \<open>=\<close>, and the code strips it again.\<close>

definition url_safe :: "char \<Rightarrow> char" where
  "url_safe c = (if c = CHR ''+'' then CHR ''-'' else if c = CHR ''/'' then CHR ''_'' else c)"

definition encode_base64_url :: "string \<Rightarrow> string" where
  "encode_base64_url s = map (\<lambda>n. url_safe (base64_char n)) (sextets (utf8_bytes s))"

text \<open>\<open>atob\<close>: the forgiving decoder of the Infra standard.\<close>

definition ascii_space :: "char \<Rightarrow> bool" where
  "ascii_space c \<longleftrightarrow> code_unit c \<in> {9, 10, 12, 13, 32}"

definition drop_padding :: "string \<Rightarrow> string" where
  "drop_padding s =
     (if length s mod 4 \<noteq> 0 \<or> s = [] \<or> last s \<noteq> CHR ''='' then s
      else if butlast s \<noteq> [] \<and> last (butlast s) = CHR ''='' then butlast (butlast s) else butlast s)"

definition atob :: "string \<Rightarrow> nat list option" where
  "atob s =
     (let t = drop_padding (filter (\<lambda>c. \<not> ascii_space c) s) in
      if length t mod 4 = 1 \<or> list_ex (\<lambda>c. base64_value c = None) t then None
      else Some (octets (map (\<lambda>c. the (base64_value c)) t)))"

definition url_unsafe :: "char \<Rightarrow> char" where
  "url_unsafe c = (if c = CHR ''-'' then CHR ''+'' else if c = CHR ''_'' then CHR ''/'' else c)"

definition decode_base64_url :: "site \<Rightarrow> string \<Rightarrow> string option" where
  "decode_base64_url e s =
     map_option (\<lambda>bs. decode_text e (map of_nat bs))
       (atob (map url_unsafe s @ drop ((length s + 3) mod 4) ''===''))"

section \<open>Tokens\<close>

record share_grant =
  grant_link :: string
  grant_project :: string
  grant_permission :: share_permission
  grant_expires :: string

definition grant_json :: "share_grant \<Rightarrow> json" where
  "grant_json g = JObj [(''linkId'', JStr (grant_link g)), (''projectId'', JStr (grant_project g)),
     (''permission'', JStr (permission_text (grant_permission g))), (''expiresAt'', JStr (grant_expires g))]"

text \<open>An answer that the signer's port is trusted to shape is checked for its type only.\<close>

definition asks_signer :: "site \<Rightarrow> json list \<Rightarrow> (nat \<Rightarrow> json) \<Rightarrow> json action" where
  "asks_signer e args f = port_call e args (\<lambda>w. (Inr (f (world_tick w)), w))"

definition create_share_token :: "site \<Rightarrow> share_grant \<Rightarrow> string action" where
  "create_share_token e g =
     refuseIf (\<not> fits_boundary (grant_json g) \<or> \<not> valid_timestamp (JStr (grant_expires g)) \<or>
         \<not> stable_identifier (grant_link g) \<or> \<not> stable_identifier (grant_project g)) (Refused ErrInvalid)
    (let payload = stringify (grant_json g) in
     andDo (asks_signer e [JStr payload] (\<lambda>n. signs e n payload)) (\<lambda>v.
       case v of
         JStr s \<Rightarrow> refuseIf (length s > max_text) Unavailable (give (encode_base64_url payload @ CHR ''~'' # s))
       | _ \<Rightarrow> refuse Unavailable))"

text \<open>\<open>token.split('~')\<close>\<close>

fun split_at :: "char \<Rightarrow> string \<Rightarrow> string list" where
  "split_at c [] = [[]]"
| "split_at c (x # s) =
     (if x = c then [] # split_at c s else (case split_at c s of [] \<Rightarrow> [[x]] | t # r \<Rightarrow> (x # t) # r))"

text \<open>The first two parts of a token; a third one must be empty.\<close>

definition token_parts :: "string \<Rightarrow> (string \<times> string) option" where
  "token_parts t =
     (case split_at CHR ''~'' t of
        a # b # r \<Rightarrow> if a = [] \<or> b = [] \<or> (r \<noteq> [] \<and> hd r \<noteq> []) then None else Some (a, b)
      | _ \<Rightarrow> None)"

fun truthy :: "json \<Rightarrow> bool" where
  "truthy JNull = False"
| "truthy (JBool b) = b"
| "truthy (JNum i) = (i \<noteq> 0)"
| "truthy (JStr s) = (s \<noteq> [])"
| "truthy (JOther NonObject) = False"
| "truthy (JOther NonFinite) = False"
| "truthy v = True"

text \<open>What a verified payload grants; the link and the project are whatever truthy values it carries.\<close>

record token_grant =
  token_link :: json
  token_project :: json
  token_permission :: share_permission
  token_expires :: string

definition read_grant :: "json \<Rightarrow> token_grant option" where
  "read_grant v =
     (case v of
        JObj kvs \<Rightarrow>
          (case (field kvs ''permission'', field kvs ''expiresAt'') of
             (JStr m, JStr x) \<Rightarrow>
               if \<not> truthy (field kvs ''linkId'') \<or> \<not> truthy (field kvs ''projectId'') \<or>
                  m \<notin> {''viewer'', ''commenter''} \<or> \<not> valid_timestamp (JStr x) then None
               else Some \<lparr>token_link = field kvs ''linkId'', token_project = field kvs ''projectId'',
                 token_permission = (if m = ''viewer'' then ShareViewer else ShareCommenter), token_expires = x\<rparr>
           | _ \<Rightarrow> None)
      | _ \<Rightarrow> None)"

definition verify_share_token :: "site \<Rightarrow> string \<Rightarrow> string \<Rightarrow> token_grant action" where
  "verify_share_token e token now =
     refuseIf (length token > max_text) (Refused ErrForbidden)
    (case token_parts token of
       None \<Rightarrow> refuse (Refused ErrForbidden)
     | Some (encoded, signature) \<Rightarrow>
         (case decode_base64_url e encoded of
            None \<Rightarrow> refuse (Refused ErrForbidden)
          | Some payload \<Rightarrow>
              andDo (asks_signer e [JStr payload, JStr signature] (\<lambda>n. verifies e n payload signature)) (\<lambda>v.
                case v of
                  JBool b \<Rightarrow>
                    refuseIf (\<not> b) (Refused ErrForbidden)
                   (case Option.bind (Option.bind (json_parse (site_runtime e) payload) own_value) read_grant of
                      None \<Rightarrow> refuse (Refused ErrForbidden)
                    | Some g \<Rightarrow>
                        refuseIf (\<not> valid_timestamp (JStr now)) (Refused ErrForbidden)
                       (refuseIf (not_later (token_expires g) now) (Refused ErrExpired) (give g)))
                | _ \<Rightarrow> refuse Unavailable)))"

end
