(* ===== verification/Service_Access.thy ===== *)
theory Service_Access
  imports Share_Token
begin

text \<open>
  Who may use the service of \<open>packages/collaboration/src/service.ts\<close>: the rate limit, the published
  review of a project, and the two checks of access, for a user that the host's authorizer answers for and
  for a guest with a share token.
\<close>

section \<open>The rate limit\<close>

text \<open>The limiter's map from clients to the start and the count of their window, in insertion order.\<close>

type_synonym counters = "(string \<times> int \<times> nat) list"

definition max_clients :: nat where "max_clients = 10000"
definition window_ms :: int where "window_ms = 60000"

fun hex_text :: "nat \<Rightarrow> string" where
  "hex_text n = (if n < 16 then [hex_digit n] else hex_text (n div 16) @ [hex_digit (n mod 16)])"

declare hex_text.simps [simp del]

definition token_hash :: "string \<Rightarrow> 32 word" where
  "token_hash s = foldl (\<lambda>h c. xor h (of_nat (code_unit c)) * 16777619) 2166136261 s"

definition client_of :: "request \<Rightarrow> string" where
  "client_of q =
     (case header q ''x-selene-user-id'' of
        Some user \<Rightarrow> user
      | None \<Rightarrow>
          (case header q ''x-selene-share-token'' of
             Some t \<Rightarrow> if t = [] then ''anonymous'' else ''share:'' @ hex_text (unat (token_hash t))
           | None \<Rightarrow> ''anonymous''))"

definition expired_at :: "int \<Rightarrow> int \<times> nat \<Rightarrow> bool" where
  "expired_at now r \<longleftrightarrow> now - fst r \<ge> window_ms"

text \<open>One request of a client: whether it is let through, and the counters after it.\<close>

definition count_request :: "nat \<Rightarrow> string \<Rightarrow> int \<Rightarrow> counters \<Rightarrow> bool \<times> counters" where
  "count_request maximum client now cs =
     (case map_of cs client of
        None \<Rightarrow>
          (let kept = (if length cs \<ge> max_clients then filter (\<lambda>c. \<not> expired_at now (snd c)) cs else cs) in
           if length kept \<ge> max_clients then (False, kept)
           else (True, AList.update client (now, 1) kept))
      | Some (start, n) \<Rightarrow>
          if expired_at now (start, n) then (True, AList.update client (now, 1) cs)
          else (n + 1 \<le> maximum, AList.update client (start, n + 1) cs))"

definition lets_through :: "nat \<Rightarrow> request \<Rightarrow> int \<Rightarrow> counters \<Rightarrow> bool \<times> counters" where
  "lets_through maximum q now cs =
     (case header q ''x-selene-share-token'' of
        Some t \<Rightarrow> if length t > max_text then (False, cs) else count_request maximum (client_of q) now cs
      | None \<Rightarrow> count_request maximum (client_of q) now cs)"

section \<open>The published review\<close>

definition hosted_request :: "request \<Rightarrow> bool action" where
  "hosted_request q =
     (case header q ''x-selene-review-provider'' of
        None \<Rightarrow> give False
      | Some p \<Rightarrow> refuseIf (p \<noteq> ''hosted'') (Refused ErrInvalid) (give True))"

definition published_binding :: "site \<Rightarrow> string \<Rightarrow> binding action" where
  "published_binding e i =
     (case binds e of
        None \<Rightarrow> refuse (Refused ErrNotFound)
      | Some resolve \<Rightarrow>
          andDo (port_call e [JStr i] (\<lambda>w. (optionally (\<lambda>b. andThen (owned_as binding_json b) (\<lambda>u. Inr b))
                   (resolve (world_tick w) i), w))) (\<lambda>found.
          case found of
            None \<Rightarrow> refuse (Refused ErrNotFound)
          | Some b \<Rightarrow>
              refuseIf (validate_binding b \<noteq> Inr ()) Unavailable
             (andDo (reads e [JStr i] (get_project i)) (\<lambda>project.
              andDo (reads e [JStr (binding_revision b)] (get_revision (binding_revision b))) (\<lambda>revision.
              andDo (reads e [JStr i] (get_review_state i)) (\<lambda>state.
              case (project, revision) of
                (Some x, Some r) \<Rightarrow>
                  refuseIf (rev_project r \<noteq> i \<or> binding_project b \<noteq> i \<or> binding_tenant b \<noteq> project_organization x)
                    Unavailable
                 (case Option.bind state (\<lambda>s. map_option (Pair s) (state_baseline s)) of
                    None \<Rightarrow> refuse (Refused ErrNotFound)
                  | Some (s, base) \<Rightarrow>
                      refuseIf (state_project s \<noteq> i \<or> base_project base \<noteq> i \<or> base_id base \<noteq> binding_baseline b \<or>
                          state_readiness s = ReadyDraft) (Refused ErrNotFound) (give b))
              | _ \<Rightarrow> refuse Unavailable))))))"

definition require_published :: "site \<Rightarrow> request \<Rightarrow> review_thread \<Rightarrow> unit action" where
  "require_published e q t =
     andDo (hosted_request q) (\<lambda>hosted.
       if \<not> hosted then give ()
       else andDo (published_binding e (review_project t)) (\<lambda>b.
         refuseIf (review_binding t \<noteq> Some b) (Refused ErrNotFound) (give ())))"

section \<open>Users and guests\<close>

fun action_text :: "collaboration_action \<Rightarrow> string" where
  "action_text CreatesProject = ''organization:create-project''"
| "action_text ReadsProject = ''project:read''"
| "action_text DesignsProject = ''project:design''"
| "action_text CommentsProject = ''project:comment''"
| "action_text ApprovesProject = ''project:approve''"
| "action_text ManagesSharing = ''project:manage-sharing''"
| "action_text RestoresProject = ''project:restore''"
| "action_text MergesProject = ''project:merge''"
| "action_text DeletesProject = ''project:delete''"

definition question_json :: "string \<Rightarrow> collaboration_action \<Rightarrow> target \<Rightarrow> json" where
  "question_json user a t = JObj [(''userId'', JStr user), (''action'', JStr (action_text a)),
     (case t of InOrganization i \<Rightarrow> (''organizationId'', JStr i) | InProject i \<Rightarrow> (''projectId'', JStr i))]"

definition asks_authorizer :: "site \<Rightarrow> string \<Rightarrow> collaboration_action \<Rightarrow> target \<Rightarrow> bool action" where
  "asks_authorizer e user a t = port_call e [question_json user a t] (\<lambda>w.
     (let b = authorizes e (world_tick w) user a t in
      (Inr b, w\<lparr>world_trace := world_trace w @ [Asked user a t b]\<rparr>)))"

definition require_user :: "site \<Rightarrow> request \<Rightarrow> collaboration_action \<Rightarrow> target \<Rightarrow> string action" where
  "require_user e q a t =
     andDo (actor q) (\<lambda>user.
     andDo (asks_authorizer e user a t) (\<lambda>b.
       refuseIf (\<not> b) (Refused ErrForbidden) (give user)))"

fun permission_action :: "share_permission \<Rightarrow> collaboration_action" where
  "permission_action ShareViewer = ReadsProject"
| "permission_action ShareCommenter = CommentsProject"

text \<open>A stored link allows what the verified token says, for the project that is asked for.\<close>

definition link_admits ::
    "share_link \<Rightarrow> token_grant \<Rightarrow> string \<Rightarrow> string \<Rightarrow> string \<Rightarrow> share_permission \<Rightarrow> bool" where
  "link_admits l g hash now project permission \<longleftrightarrow>
     token_project g = JStr project \<and> link_project l = project \<and> link_permission l = token_permission g \<and>
     link_expires l = token_expires g \<and> link_hash l = hash \<and> link_revoked l \<in> {None, Some []} \<and>
     time_value (link_expires l) \<noteq> None \<and> time_value now \<noteq> None \<and> \<not> not_later (link_expires l) now \<and>
     (permission = ShareCommenter \<longrightarrow> link_permission l = ShareCommenter)"

definition admit_guest :: "site \<Rightarrow> request \<Rightarrow> string \<Rightarrow> share_permission \<Rightarrow> unit action" where
  "admit_guest e q project permission =
     (case header q ''x-selene-share-token'' of
        None \<Rightarrow> refuse (Refused ErrForbidden)
      | Some token \<Rightarrow>
          refuseIf (token = [] \<or> \<not> has_signer e) (Refused ErrForbidden)
         (andDo (issued_at e) (\<lambda>now.
          andDo (rescue (verify_share_token e token now)
              (\<lambda>f. refuse (if f = Unavailable then Unavailable else Refused ErrForbidden))) (\<lambda>g.
          andDo (reads e [token_link g] (\<lambda>s.
              case token_link g of JStr i \<Rightarrow> get_link i s | _ \<Rightarrow> Inr None)) (\<lambda>found.
          andDo (asks_port e [JStr token] (\<lambda>n. hashes e n token)) (\<lambda>h.
          case h of
            JStr hash \<Rightarrow>
              refuseIf (length hash > max_text) Unavailable
             (case found of
                None \<Rightarrow> refuse (Refused ErrForbidden)
              | Some l \<Rightarrow>
                  refuseIf (\<not> link_admits l g hash now project permission) (Refused ErrForbidden)
                    (observe (Admitted l permission)))
          | _ \<Rightarrow> refuse Unavailable))))))"

text \<open>The id of the user, or nothing for a guest.\<close>

definition require_access :: "site \<Rightarrow> request \<Rightarrow> string \<Rightarrow> share_permission \<Rightarrow> string option action" where
  "require_access e q project permission =
     (case header q ''x-selene-user-id'' of
        Some (c # user) \<Rightarrow>
          refuseIf (\<not> stable_identifier (c # user)) (Refused ErrForbidden)
         (andDo (asks_authorizer e (c # user) (permission_action permission) (InProject project)) (\<lambda>b.
            refuseIf (\<not> b) (Refused ErrForbidden) (give (Some (c # user)))))
      | _ \<Rightarrow> andDo (admit_guest e q project permission) (\<lambda>u. give None))"

end
