(* ===== verification/Service_Input.thy ===== *)
theory Service_Input
  imports Service_Base
begin

text \<open>
  Readers of request bodies of \<open>packages/collaboration/src/service.ts\<close>: scalars, the identity of a review
  operation, anchors, deep links, provider snapshots, results and semantic changes.  Every failure is the
  service's own error \<open>INVALID\<close>.
\<close>

definition max_list_items :: nat where "max_list_items = 1000"

definition input_text :: "json \<Rightarrow> fault + string" where
  "input_text v =
     (case v of JStr s \<Rightarrow> failIf (js_trim s = []) (Refused ErrInvalid) (Inr s) | _ \<Rightarrow> Inl (Refused ErrInvalid))"

definition input_string :: "json \<Rightarrow> fault + string" where
  "input_string v = (case v of JStr s \<Rightarrow> Inr s | _ \<Rightarrow> Inl (Refused ErrInvalid))"

definition input_strings :: "json \<Rightarrow> fault + string list" where
  "input_strings v =
     (case v of
        JArr xs \<Rightarrow> failIf (length xs > max_list_items) (Refused ErrInvalid) (mapResult input_string xs)
      | _ \<Rightarrow> Inl (Refused ErrInvalid))"

definition unique_strings :: "json \<Rightarrow> fault + string list" where
  "unique_strings v =
     andThen (input_strings v) (\<lambda>ss. failIf (\<not> distinct ss) (Refused ErrInvalid) (Inr ss))"

definition input_object :: "json \<Rightarrow> fault + (string \<times> json) list" where
  "input_object v = (case v of JObj kvs \<Rightarrow> Inr kvs | _ \<Rightarrow> Inl (Refused ErrInvalid))"

definition input_number :: "json \<Rightarrow> fault + number" where
  "input_number v =
     (case v of JNum i \<Rightarrow> Inr (Whole i) | JDec d \<Rightarrow> Inr (Fraction d) | _ \<Rightarrow> Inl (Refused ErrInvalid))"

text \<open>\<open>value === undefined ? undefined : read(value)\<close> and \<open>value ?? fallback\<close>.\<close>

definition if_present :: "(json \<Rightarrow> fault + 'a) \<Rightarrow> json \<Rightarrow> fault + 'a option" where
  "if_present f v = (if v = JOther NonObject then Inr None else andThen (f v) (\<lambda>x. Inr (Some x)))"

definition nullish :: "json \<Rightarrow> bool" where
  "nullish v \<longleftrightarrow> v = JNull \<or> v = JOther NonObject"

definition or_else :: "json \<Rightarrow> json \<Rightarrow> json" where
  "or_else v w = (if nullish v then w else v)"

section \<open>Review operations\<close>

definition safe_count :: "number \<Rightarrow> int option" where
  "safe_count n = (case n of Whole i \<Rightarrow> if 0 \<le> i \<and> i \<le> 2 ^ 53 - 1 then Some i else None | Fraction d \<Rightarrow> None)"

text \<open>The operation id and the expected version; a hosted request is strict and has no fallback.\<close>

definition review_operation ::
    "request \<Rightarrow> (string \<times> json) list \<Rightarrow> (string \<times> int) option \<Rightarrow> bool \<Rightarrow> fault + string \<times> int" where
  "review_operation q kvs fallback strict =
     andThen (if_present input_text (field kvs ''operationId'')) (\<lambda>given.
     case (case given of None \<Rightarrow> map_option fst fallback | Some s \<Rightarrow> Some s) of
       None \<Rightarrow> Inl (Refused ErrInvalid)
     | Some operation \<Rightarrow>
         failIf (length operation > 256 \<or> (strict \<and> header q ''idempotency-key'' \<noteq> Some operation) \<or>
             (header q ''idempotency-key'' \<noteq> None \<and> header q ''idempotency-key'' \<noteq> Some operation)) (Refused ErrInvalid)
        (andThen (if_present input_number (field kvs ''expectedVersion'')) (\<lambda>version.
         case (case version of None \<Rightarrow> map_option snd fallback | Some n \<Rightarrow> safe_count n) of
           None \<Rightarrow> Inl (Refused ErrInvalid)
         | Some i \<Rightarrow> failIf (i < 0 \<or> i > 2 ^ 53 - 1) (Refused ErrInvalid) (Inr (operation, i)))))"

section \<open>Anchors and links\<close>

definition input_evidence :: "json \<Rightarrow> fault + evidence" where
  "input_evidence v =
     andThen (input_object v) (\<lambda>s.
     andThen (input_object (field s ''viewport'')) (\<lambda>w.
     andThen (if_present input_text (field s ''scenarioId'')) (\<lambda>scenario.
     andThen (if_present input_text (field s ''stateId'')) (\<lambda>state.
     andThen (if_present input_text (field s ''nodeId'')) (\<lambda>node.
     andThen (if_present input_text (field s ''sourceRef'')) (\<lambda>source.
     andThen (input_text (field s ''artifactId'')) (\<lambda>artifact.
     andThen (input_text (field s ''screenId'')) (\<lambda>screen.
     andThen (input_text (field s ''revisionId'')) (\<lambda>revision.
     andThen (input_text (field s ''revisionFingerprint'')) (\<lambda>fingerprint.
     andThen (input_number (field w ''width'')) (\<lambda>width.
     andThen (input_number (field w ''height'')) (\<lambda>height.
     andThen (input_number (field w ''zoom'')) (\<lambda>zoom.
       Inr \<lparr>ev_artifact = artifact, ev_screen = screen, ev_revision = revision, ev_fingerprint = fingerprint,
            ev_width = width, ev_height = height, ev_zoom = zoom, ev_scenario = scenario, ev_state = state,
            ev_node = node, ev_source = source\<rparr>)))))))))))))"

definition input_lifecycle :: "json \<Rightarrow> fault + anchor_lifecycle" where
  "input_lifecycle v =
     (case v of
        JStr s \<Rightarrow> (case map_of anchor_lifecycles s of None \<Rightarrow> Inl (Refused ErrInvalid) | Some l \<Rightarrow> Inr l)
      | _ \<Rightarrow> Inl (Refused ErrInvalid))"

definition input_target :: "(string \<times> json) list \<Rightarrow> fault + spatial_target" where
  "input_target t =
     (if field t ''kind'' = JStr ''point'' then
        andThen (input_object (field t ''point'')) (\<lambda>b.
        andThen (input_number (field b ''x'')) (\<lambda>x.
        andThen (input_number (field b ''y'')) (\<lambda>y. Inr (Point x y))))
      else if field t ''kind'' = JStr ''region'' then
        andThen (input_object (field t ''region'')) (\<lambda>b.
        andThen (input_number (field b ''x'')) (\<lambda>x.
        andThen (input_number (field b ''y'')) (\<lambda>y.
        andThen (input_number (field b ''width'')) (\<lambda>w.
        andThen (input_number (field b ''height'')) (\<lambda>h. Inr (Region x y w h))))))
      else Inl (Refused ErrInvalid))"

definition input_anchor :: "json \<Rightarrow> fault + anchor" where
  "input_anchor v =
     andThen (input_object v) (\<lambda>a.
     andThen (input_object (field a ''target'')) (\<lambda>t.
     andThen (input_lifecycle (field a ''lifecycle'')) (\<lambda>life.
     (let origin = field a ''mappedFrom''; absent = (origin = JOther NonObject) in
     failIf (life = AnchorMapped \<and> absent) (Refused ErrInvalid)
    (failIf (life \<noteq> AnchorMapped \<and> \<not> absent) (Refused ErrInvalid)
    (andThen (input_evidence (field a ''evidence'')) (\<lambda>ev.
     andThen (if_present input_evidence origin) (\<lambda>mapped.
     andThen (input_target t) (\<lambda>target.
       Inr \<lparr>anchor_evidence = ev, anchor_target = target, anchor_lifecycle = life, mapped_from = mapped\<rparr>)))))))))"

definition input_deep_link :: "site \<Rightarrow> json \<Rightarrow> fault + string" where
  "input_deep_link e v =
     andThen (input_text v) (\<lambda>s.
     failIf (validate_deep_link (site_platform e) s \<noteq> Inr ()) (Refused ErrInvalid)
    (if starts_with s ''/'' \<and> \<not> starts_with s ''//'' then Inr s
     else
       (case (url_origin e s, allowed_origins e) of
          (Some origin, Some origins) \<Rightarrow> failIf (origin \<notin> set origins) (Refused ErrInvalid) (Inr s)
        | _ \<Rightarrow> Inl (Refused ErrInvalid))))"

section \<open>Requests for AI changes\<close>

definition input_provider :: "json \<Rightarrow> fault + ai_provider" where
  "input_provider v =
     andThen (input_object v) (\<lambda>s.
     andThen (if_present input_text (field s ''model'')) (\<lambda>model.
     andThen (if_present input_text (field s ''implementation'')) (\<lambda>implementation.
     andThen (input_text (field s ''providerId'')) (\<lambda>i.
     andThen (input_text (field s ''capability'')) (\<lambda>capability.
       Inr \<lparr>provider_id = i, provider_capability = capability, provider_model = model,
            provider_implementation = implementation\<rparr>)))))"

definition input_result :: "json \<Rightarrow> fault + ai_result" where
  "input_result v =
     andThen (input_object v) (\<lambda>s.
     andThen (input_text (field s ''revisionId'')) (\<lambda>revision.
     andThen (input_text (field s ''revisionFingerprint'')) (\<lambda>fingerprint.
     andThen (input_text (field s ''diff'')) (\<lambda>diff.
     andThen (input_text (field s ''completedAt'')) (\<lambda>time.
       Inr \<lparr>result_revision = revision, result_fingerprint = fingerprint, result_diff = diff, result_at = time\<rparr>)))))"

section \<open>Semantic changes\<close>

definition affected_scope :: "(string \<times> json) list \<Rightarrow> fault + change_scope" where
  "affected_scope s =
     andThen (input_text (field s ''projectId'')) (\<lambda>project.
     andThen (unique_strings (field s ''screenIds'')) (\<lambda>screens.
     andThen (unique_strings (field s ''routePaths'')) (\<lambda>routes.
     andThen (unique_strings (field s ''scenarioIds'')) (\<lambda>scenarios.
     andThen (unique_strings (field s ''componentIds'')) (\<lambda>components.
     andThen (unique_strings (field s ''stableNodeIds'')) (\<lambda>nodes.
       Inr \<lparr>scope_project = project, scope_screens = screens, scope_routes = routes, scope_scenarios = scenarios,
            scope_components = components, scope_nodes = nodes\<rparr>))))))"

definition text_or_none :: "json \<Rightarrow> string option" where
  "text_or_none v = (case v of JStr s \<Rightarrow> Some s | _ \<Rightarrow> None)"

definition input_visual :: "json \<Rightarrow> fault + visual_evidence" where
  "input_visual v =
     andThen (input_object v) (\<lambda>s.
     andThen (input_text (field s ''description'')) (\<lambda>d.
       Inr \<lparr>visual_description = d, visual_href = text_or_none (field s ''href''),
            visual_checksum = text_or_none (field s ''checksum'')\<rparr>))"

definition input_visuals :: "json \<Rightarrow> fault + visual_evidence list" where
  "input_visuals v =
     (case v of
        JArr xs \<Rightarrow> failIf (length xs > max_list_items) (Refused ErrInvalid) (mapResult input_visual xs)
      | _ \<Rightarrow> Inl (Refused ErrInvalid))"

text \<open>The service takes six of the kinds.\<close>

definition service_kinds :: "(string \<times> change_kind) list" where
  "service_kinds = [(''source'', KindSource), (''design-system'', KindDesignSystem), (''token'', KindToken),
     (''template'', KindTemplate), (''dependency'', KindDependency), (''visual'', KindVisual)]"

definition input_kind :: "json \<Rightarrow> fault + change_kind" where
  "input_kind v =
     (case v of
        JStr s \<Rightarrow> (case map_of service_kinds s of None \<Rightarrow> Inl (Refused ErrInvalid) | Some k \<Rightarrow> Inr k)
      | _ \<Rightarrow> Inl (Refused ErrInvalid))"

definition input_provenance :: "(string \<times> json) list \<Rightarrow> fault + change_provenance" where
  "input_provenance s =
     (if field s ''kind'' = JStr ''actor'' then
        andThen (input_text (field s ''actorId'')) (\<lambda>a. Inr (ByActor a))
      else if field s ''kind'' = JStr ''agent'' then
        andThen (input_text (field s ''agentId'')) (\<lambda>a.
        andThen (input_text (field s ''promptDigest'')) (\<lambda>d. Inr (ByAgent a d)))
      else Inl (Refused ErrInvalid))"

definition input_change :: "json \<Rightarrow> fault + change_input" where
  "input_change v =
     andThen (input_object v) (\<lambda>s.
     andThen (input_object (field s ''affected'')) (\<lambda>affected.
     andThen (input_object (field s ''provenance'')) (\<lambda>provenance.
     andThen (input_kind (field s ''kind'')) (\<lambda>kind.
     andThen (input_text (field s ''id'')) (\<lambda>i.
     andThen (affected_scope affected) (\<lambda>scope.
     andThen (input_visuals (field s ''evidence'')) (\<lambda>evidence.
     andThen (input_text (field s ''reason'')) (\<lambda>reason.
     andThen (input_provenance provenance) (\<lambda>author.
       Inr \<lparr>change_id = i, change_kind = kind, change_affected = scope, change_evidence = evidence,
            change_provenance = author, change_reason = reason\<rparr>)))))))))"

section \<open>Queries\<close>

definition event_cursor_of :: "site \<Rightarrow> string option \<Rightarrow> fault + nat" where
  "event_cursor_of e v =
     (case v of
        None \<Rightarrow> Inr 0
      | Some s \<Rightarrow>
          if s = [] then Inr 0
          else
            (case to_number e s of
               Finite n \<Rightarrow> (case safe_count n of Some i \<Rightarrow> Inr (nat i) | None \<Rightarrow> Inl (Refused ErrInvalid))
             | _ \<Rightarrow> Inl (Refused ErrInvalid)))"

definition page_limit :: "site \<Rightarrow> string option \<Rightarrow> fault + nat" where
  "page_limit e v =
     (case v of
        None \<Rightarrow> Inr 100
      | Some s \<Rightarrow>
          if s = [] then Inr 100
          else
            (case to_number e s of
               Finite (Whole i) \<Rightarrow> failIf (i < 1 \<or> i > 500) (Refused ErrInvalid) (Inr (nat i))
             | _ \<Rightarrow> Inl (Refused ErrInvalid)))"

end
