(* ===== verification/Service_Projects.thy ===== *)
theory Service_Projects
  imports Service_Access Service_Input Collab_Project
begin

text \<open>
  The handlers of \<open>packages/collaboration/src/service.ts\<close> for projects: creation, revisions, readiness,
  share links, the event log, export, import, synchronization and deletion.  Each one is the handler from
  its route to its response; errors are faults that the last step of the service turns into a response.
\<close>

section \<open>Shared steps\<close>

definition json_response :: "nat \<Rightarrow> json \<Rightarrow> response action" where
  "json_response n v = give (respond n (JsonBody v))"

definition body_of :: "site \<Rightarrow> request \<Rightarrow> (string \<times> json) list action" where
  "body_of e q = checked (read_body e q)"

text \<open>\<open>string(input.id ?? (await nextId(kind)), 'id')\<close>\<close>

definition body_id :: "site \<Rightarrow> (string \<times> json) list \<Rightarrow> string \<Rightarrow> string action" where
  "body_id e kvs kind =
     andDo (if nullish (field kvs ''id'') then andDo (next_id e kind) (\<lambda>s. give (JStr s)) else give (field kvs ''id''))
       (\<lambda>v. checked (input_text v))"

text \<open>A value that must be there.\<close>

definition found_or :: "collab_error \<Rightarrow> 'a option \<Rightarrow> 'a action" where
  "found_or x v = (case v of None \<Rightarrow> refuse (Refused x) | Some y \<Rightarrow> give y)"

definition filled :: "string option \<Rightarrow> string option" where
  "filled v = (case v of Some [] \<Rightarrow> None | x \<Rightarrow> x)"

section \<open>Idempotent operations\<close>

text \<open>\<open>idempotent\<close> calls the repository itself, so what goes wrong there is not the service's own error.\<close>

definition internally :: "'a action \<Rightarrow> 'a action" where
  "internally a = rescue a (\<lambda>f. refuse Internal)"

definition idempotent :: "site \<Rightarrow> string \<Rightarrow> string option \<Rightarrow> json action \<Rightarrow> json action" where
  "idempotent e scope key operation =
     (case key of
        None \<Rightarrow> operation
      | Some k \<Rightarrow>
          refuseIf (\<not> fits_boundary (JStr scope) \<or> \<not> text_fits 256 k) Internal
         (andDo (internally (reads e [JStr scope, JStr k] (get_response scope k))) (\<lambda>found.
          case found of
            Some r \<Rightarrow> refuseIf (\<not> fits_boundary (kept_json r)) Internal (give (kept_json r))
          | None \<Rightarrow>
              andDo operation (\<lambda>v.
              refuseIf (\<not> fits_boundary v) Internal
             (andDo (internally (writes e [JStr scope, JStr k, v] (PutResponse scope k (OtherResponse (inert_copy v)))
                 (\<lambda>s. answers_value kept_json (put_response scope k (OtherResponse (inert_copy v)) s)))) (\<lambda>r.
              give (kept_json r)))))))"

section \<open>Projects\<close>

definition write_project :: "site \<Rightarrow> project \<Rightarrow> string \<Rightarrow> json action" where
  "write_project e x user =
     andDo (writes e [project_json x] (CreateProject x) (\<lambda>s. answers_unit (create_project x s))) (\<lambda>u.
     andDo (next_id e ''audit'') (\<lambda>i.
     andDo (issued_at e) (\<lambda>time.
     (let a = \<lparr>audit_id = i, audit_organization = project_organization x, audit_actor = Some user,
            audit_action = ''project.created'', audit_type = ''project'', audit_resource = project_id x,
            audit_metadata = JObj [], audit_at = time\<rparr> in
      andDo (writes e [audit_json a] (AppendAudit a) (\<lambda>s. answers_unit (append_audit a s))) (\<lambda>u.
      andDo (emit e (project_id x) ''project.created'' (Some user) ''project'' (project_id x)
          [(''organizationId'', JStr (project_organization x)), (''name'', JStr (project_name x))]) (\<lambda>v.
      give (project_json x)))))))"

definition post_project :: "site \<Rightarrow> request \<Rightarrow> response action" where
  "post_project e q =
     andDo (body_of e q) (\<lambda>kvs.
     andDo (checked (input_text (field kvs ''organizationId''))) (\<lambda>organization.
     andDo (require_user e q CreatesProject (InOrganization organization)) (\<lambda>user.
     andDo (body_id e kvs ''project'') (\<lambda>i.
     andDo (checked (input_text (field kvs ''name''))) (\<lambda>name.
     (let x = \<lparr>project_id = i, project_organization = organization, project_name = name\<rparr> in
      andDo (idempotent e (''project:'' @ user @ '':'' @ i) (header q ''idempotency-key'') (write_project e x user)) (\<lambda>v.
      json_response 201 v)))))))"

definition delete_project_route :: "site \<Rightarrow> request \<Rightarrow> string \<Rightarrow> response action" where
  "delete_project_route e q i =
     andDo (reads e [JStr i] (get_project i)) (\<lambda>found.
     andDo (found_or ErrNotFound found) (\<lambda>x.
     andDo (require_user e q DeletesProject (InProject i)) (\<lambda>user.
     andDo (emit e i ''project.deleted'' (Some user) ''project'' i []) (\<lambda>v.
     andDo (writes e [JStr i] (DeleteProject i) (\<lambda>s. answers_unit (delete_project i s))) (\<lambda>u.
     give (respond 204 NoBody))))))"

section \<open>Revisions\<close>

text \<open>A sequence that is not whole is never the next one, and neither is zero.\<close>

definition body_sequence :: "(string \<times> json) list \<Rightarrow> revision option \<Rightarrow> int" where
  "body_sequence kvs latest =
     (case field kvs ''sequence'' of
        JNum n \<Rightarrow> n
      | JDec d \<Rightarrow> 0
      | _ \<Rightarrow> (case latest of None \<Rightarrow> 0 | Some r \<Rightarrow> rev_sequence r) + 1)"

definition body_parent :: "(string \<times> json) list \<Rightarrow> revision option \<Rightarrow> string option" where
  "body_parent kvs latest =
     (case field kvs ''parentRevisionId'' of JStr s \<Rightarrow> Some s | _ \<Rightarrow> map_option rev_id latest)"

definition body_revision ::
    "site \<Rightarrow> (string \<times> json) list \<Rightarrow> string \<Rightarrow> string \<Rightarrow> revision option \<Rightarrow> revision action" where
  "body_revision e kvs project user latest =
     andDo (body_id e kvs ''revision'') (\<lambda>i.
     andDo (checked (input_text (field kvs ''contentSha256''))) (\<lambda>sha.
     andDo (checked (input_strings (or_else (field kvs ''scenarioIds'') (JArr [])))) (\<lambda>scenarios.
     andDo (issued_at e) (\<lambda>time.
       give \<lparr>rev_id = i, rev_project = project, rev_sequence = body_sequence kvs latest,
             rev_parent = body_parent kvs latest, rev_content = field kvs ''content'', rev_sha = sha,
             rev_scenarios = scenarios, rev_created_by = user, rev_created_at = time\<rparr>))))"

definition committed :: "collab_error + kept_response \<times> bool \<Rightarrow> collab_error + kept_response \<times> bool" where
  "committed r =
     (case r of Inl x \<Rightarrow> Inl x | Inr (k, b) \<Rightarrow> andThen (owned_as kept_json k) (\<lambda>u. Inr (k, b)))"

definition commits :: "site \<Rightarrow> design_input \<Rightarrow> (kept_response \<times> bool) action" where
  "commits e x =
     writes e [design_input_json x] (CommitDesign x) (\<lambda>s. committed (fst (commit_design (site_platform e) x s)))"

definition commit_input ::
    "request \<Rightarrow> string \<Rightarrow> string \<Rightarrow> string \<Rightarrow> string \<Rightarrow> design_command \<Rightarrow> design_input" where
  "commit_input q kind user project time c = \<lparr>input_project = project, input_actor = user, input_at = time,
     input_key = filled (header q ''idempotency-key''),
     input_scope = (if filled (header q ''idempotency-key'') = None then None
       else Some (kind @ user @ '':'' @ project)),
     input_command = c\<rparr>"

definition post_revision :: "site \<Rightarrow> request \<Rightarrow> string \<Rightarrow> response action" where
  "post_revision e q project =
     andDo (body_of e q) (\<lambda>kvs.
     andDo (require_user e q DesignsProject (InProject project)) (\<lambda>user.
     andDo (reads e [JStr project] (get_latest_revision (site_platform e) project)) (\<lambda>latest.
     andDo (body_revision e kvs project user latest) (\<lambda>r.
     andDo (checked (if_present input_change (field kvs ''semanticChange''))) (\<lambda>change.
     andDo (reads e [JStr project] (get_review_state project)) (\<lambda>state.
     (let had = (Option.bind state state_baseline \<noteq> None) in
     refuseIf (had \<and> change = None) (Refused ErrInvalid)
    (refuseIf (\<not> had \<and> change \<noteq> None) (Refused ErrInvalid)
    (andDo (issued_at e) (\<lambda>time.
     andDo (commits e (commit_input q ''revision:'' user project time
         (AppendDesign r (map_option rev_id latest) change))) (\<lambda>saved.
     case saved of
       (RevisionCommitted x recorded, replayed) \<Rightarrow>
         andDo (if replayed then give ()
            else andDo (emit e project ''revision.created'' (Some user) ''revision'' (rev_id r)
              ([(''sequence'', JNum (rev_sequence r))] @ optional ''parentRevisionId'' JStr (rev_parent r) @
               [(''semanticChangeRecorded'', JBool recorded)])) (\<lambda>v. give ())) (\<lambda>u.
         json_response 201 (revision_json x))
     | _ \<Rightarrow> refuse (Refused ErrConflict))))))))))))"

section \<open>Readiness\<close>

definition get_readiness :: "site \<Rightarrow> request \<Rightarrow> string \<Rightarrow> response action" where
  "get_readiness e q project =
     andDo (require_user e q ReadsProject (InProject project)) (\<lambda>user.
     andDo (reads e [JStr project] (get_review_state project)) (\<lambda>found.
     andDo (found_or ErrNotFound found) (\<lambda>s. json_response 200 (review_state_json s))))"

definition body_intent :: "json \<Rightarrow> fault + review_intent" where
  "body_intent v =
     (if v = JStr ''review'' then Inr ForReview else if v = JStr ''handoff'' then Inr ForHandoff
      else Inl (Refused ErrInvalid))"

definition post_readiness :: "site \<Rightarrow> request \<Rightarrow> string \<Rightarrow> response action" where
  "post_readiness e q project =
     andDo (body_of e q) (\<lambda>kvs.
     andDo (require_user e q DesignsProject (InProject project)) (\<lambda>user.
     andDo (checked (body_intent (field kvs ''intent''))) (\<lambda>intent.
     andDo (body_id e kvs ''baseline'') (\<lambda>i.
     andDo (checked (input_text (field kvs ''revisionId''))) (\<lambda>revision.
     andDo (checked (input_text (field kvs ''revisionFingerprint''))) (\<lambda>fingerprint.
     andDo (issued_at e) (\<lambda>time.
     andDo (commits e (commit_input q ''readiness:'' user project time
         (MarkDesign \<lparr>ready_id = i, ready_revision = revision, ready_intent = intent, ready_fingerprint = fingerprint\<rparr>)))
       (\<lambda>saved.
     case saved of
       (ReadinessCommitted d, replayed) \<Rightarrow>
         andDo (if replayed then give ()
            else andDo (emit e project ''design.ready'' (Some user) ''design_baseline'' i
              [(''intent'', JStr (review_intent_text intent)), (''revisionId'', JStr revision)]) (\<lambda>v. give ())) (\<lambda>u.
         json_response 201 (readiness_json d))
     | _ \<Rightarrow> refuse (Refused ErrConflict)))))))))"

section \<open>Share links\<close>

definition body_permission :: "json \<Rightarrow> fault + share_permission" where
  "body_permission v =
     (if v = JStr ''commenter'' then Inr ShareCommenter else if v = JStr ''viewer'' then Inr ShareViewer
      else Inl (Refused ErrInvalid))"

definition signer_hash :: "site \<Rightarrow> string \<Rightarrow> string action" where
  "signer_hash e token = andDo (asks_port e [JStr token] (\<lambda>n. hashes e n token)) (\<lambda>v.
     case v of JStr s \<Rightarrow> refuseIf (length s > max_text) Unavailable (give s) | _ \<Rightarrow> refuse Unavailable)"

definition post_share_link :: "site \<Rightarrow> request \<Rightarrow> string \<Rightarrow> response action" where
  "post_share_link e q project =
     refuseIf (\<not> has_signer e) (Refused ErrNotFound)
    (andDo (body_of e q) (\<lambda>kvs.
     andDo (require_user e q ManagesSharing (InProject project)) (\<lambda>user.
     andDo (reads e [JStr project] (get_project project)) (\<lambda>found.
     andDo (found_or ErrNotFound found) (\<lambda>x.
     andDo (checked (body_permission (field kvs ''permission''))) (\<lambda>permission.
     andDo (checked (input_text (field kvs ''expiresAt''))) (\<lambda>expires.
     andDo (next_id e ''share'') (\<lambda>i.
     andDo (create_share_token e \<lparr>grant_link = i, grant_project = project, grant_permission = permission,
         grant_expires = expires\<rparr>) (\<lambda>token.
     andDo (signer_hash e token) (\<lambda>hash.
     andDo (issued_at e) (\<lambda>time.
     (let l = \<lparr>link_id = i, link_project = project, link_hash = hash, link_permission = permission,
            link_expires = expires, link_by = user, link_at = time, link_revoked = None\<rparr> in
      andDo (writes e [link_json l] (CreateLink l) (\<lambda>s. answers_unit (create_link l s))) (\<lambda>u.
      andDo (emit e project ''share_link.created'' (Some user) ''share_link'' i
          [(''permission'', JStr (permission_text permission))]) (\<lambda>v.
      json_response 201 (JObj [(''id'', JStr i), (''token'', JStr token),
        (''permission'', JStr (permission_text permission)), (''expiresAt'', JStr expires)])))))))))))))))"

definition delete_share_link :: "site \<Rightarrow> request \<Rightarrow> string \<Rightarrow> response action" where
  "delete_share_link e q i =
     andDo (reads e [JStr i] (get_link i)) (\<lambda>found.
     andDo (found_or ErrNotFound found) (\<lambda>l.
     andDo (observe (Found ShareLinks i (link_project l))) (\<lambda>u.
     andDo (require_user e q ManagesSharing (InProject (link_project l))) (\<lambda>user.
     andDo (issued_at e) (\<lambda>time.
     andDo (writes e [JStr i, JStr time] (RevokeLink i time) (\<lambda>s. answers_unit (revoke_link i time s))) (\<lambda>u.
     andDo (emit e (link_project l) ''share_link.revoked'' (Some user) ''share_link'' i []) (\<lambda>v.
     give (respond 204 NoBody))))))))"

section \<open>Events and export\<close>

definition get_events :: "site \<Rightarrow> request \<Rightarrow> string \<Rightarrow> response action" where
  "get_events e q project =
     andDo (require_access e q project ShareViewer) (\<lambda>user.
     andDo (checked (event_cursor_of e (case query q ''after'' of
         None \<Rightarrow> header q ''last-event-id'' | Some s \<Rightarrow> Some s))) (\<lambda>after.
     andDo (checked (page_limit e (query q ''limit''))) (\<lambda>limit.
     andDo (reads e [JStr project, JNum (int after), JNum (int limit)]
         (list_events (site_platform e) project after limit)) (\<lambda>page.
     json_response 200 (JObj [(''events'', JArr (map event_json page)),
       (''nextCursor'', JNum (int (if page = [] then after else event_cursor (last page)))),
       (''hasMore'', JBool (length page = limit))])))))"

definition get_event_stream :: "site \<Rightarrow> request \<Rightarrow> string \<Rightarrow> response action" where
  "get_event_stream e q project =
     andDo (require_access e q project ShareViewer) (\<lambda>user.
     andDo (checked (event_cursor_of e (case query q ''after'' of
         None \<Rightarrow> header q ''last-event-id'' | Some s \<Rightarrow> Some s))) (\<lambda>after.
     give (respond 200 (EventStream project after))))"

text \<open>The errors of \<open>serializeSnapshot\<close> are not the service's own.\<close>

definition get_export :: "site \<Rightarrow> request \<Rightarrow> string \<Rightarrow> response action" where
  "get_export e q project =
     andDo (require_access e q project ShareViewer) (\<lambda>user.
     andDo (reads e [JStr project] (export_project project)) (\<lambda>found.
     andDo (found_or ErrNotFound found) (\<lambda>x.
     case serialize_snapshot (site_platform e) (site_runtime e) x of
       Inl y \<Rightarrow> refuse Internal
     | Inr s \<Rightarrow> give (respond 200 (Attachment (project @ ''.selene-collaboration.json'') s)))))"

section \<open>Import and synchronization\<close>

definition replaces :: "site \<Rightarrow> snapshot \<Rightarrow> string option \<Rightarrow> unit action" where
  "replaces e x expected =
     writes e [snapshot_json x, JObj (optional ''expectedLatestRevisionId'' JStr expected)] (ReplaceProject x expected)
       (\<lambda>s. answers_unit (replace_project (site_platform e) x expected s))"

abbreviation snapshot_project :: "snapshot \<Rightarrow> string" where
  "snapshot_project x \<equiv> project_id (snap_project x)"

text \<open>A lost race is told from the stored revision, not from the error.\<close>

definition import_operation :: "site \<Rightarrow> snapshot \<Rightarrow> string \<Rightarrow> string \<Rightarrow> json action" where
  "import_operation e x user expected =
     (let i = snapshot_project x; latest = reads e [JStr i] (get_latest_revision (site_platform e) i) in
     andDo latest (\<lambda>current.
     refuseIf (map_option rev_id current \<noteq> Some expected) (Refused ErrConflict)
    (andDo (rescue (replaces e x (Some expected)) (\<lambda>f.
        if f \<noteq> Unavailable then refuse f
        else andDo latest (\<lambda>now. refuse (if map_option rev_id now \<noteq> Some expected then Refused ErrConflict else f)))) (\<lambda>u.
     andDo (emit e i ''project.imported'' (Some user) ''project'' i []) (\<lambda>v.
     give (JObj [(''projectId'', JStr i), (''imported'', JBool True)])))))) "

definition import_scope :: "string \<Rightarrow> string \<Rightarrow> string \<Rightarrow> string" where
  "import_scope user project expected = stringify (strings_json [''import'', user, project, expected])"

definition post_import :: "site \<Rightarrow> request \<Rightarrow> response action" where
  "post_import e q =
     andDo (checked (read_snapshot e q)) (\<lambda>x.
     andDo (reads e [JStr (snapshot_project x)] (get_project (snapshot_project x))) (\<lambda>found.
     andDo (found_or ErrNotFound found) (\<lambda>existing.
     andDo (require_user e q RestoresProject (InProject (project_id existing))) (\<lambda>user.
     refuseIf (project_organization existing \<noteq> project_organization (snap_project x)) (Refused ErrForbidden)
    (case header q ''x-selene-expected-revision-id'' of
       None \<Rightarrow> refuse (Refused ErrInvalid)
     | Some expected \<Rightarrow>
         refuseIf (expected = [] \<or> length expected > max_text) (Refused ErrInvalid)
        (andDo (idempotent e (import_scope user (snapshot_project x) expected) (header q ''idempotency-key'')
            (import_operation e x user expected)) (\<lambda>v. json_response 201 v)))))))"

definition sync_operation :: "site \<Rightarrow> snapshot \<Rightarrow> string \<Rightarrow> bool \<Rightarrow> string option \<Rightarrow> json action" where
  "sync_operation e x user known expected =
     (let i = snapshot_project x; n = JNum (int (length (snap_revisions x))) in
     andDo (replaces e x expected) (\<lambda>u.
     andDo (emit e i ''project.synchronized'' (Some user) ''project'' i
         [(''replaced'', JBool known), (''revisions'', n)]) (\<lambda>v.
     give (JObj [(''projectId'', JStr i), (''synchronized'', JBool True), (''replaced'', JBool known),
       (''revisions'', n)]))))"

definition post_sync :: "site \<Rightarrow> request \<Rightarrow> response action" where
  "post_sync e q =
     andDo (checked (read_snapshot e q)) (\<lambda>x.
     andDo (reads e [JStr (snapshot_project x)] (export_project (snapshot_project x))) (\<lambda>existing.
     andDo (if existing \<noteq> None then require_user e q DesignsProject (InProject (snapshot_project x))
       else andDo (observe (Missing (snapshot_project x))) (\<lambda>u.
         require_user e q CreatesProject (InOrganization (project_organization (snap_project x))))) (\<lambda>user.
     andDo (idempotent e (''sync:'' @ user @ '':'' @ snapshot_project x) (header q ''idempotency-key'')
         (sync_operation e x user (existing \<noteq> None) (header q ''x-selene-expected-revision-id''))) (\<lambda>v.
     json_response 200 v))))"

section \<open>The published review of a project\<close>

definition get_review_binding :: "site \<Rightarrow> request \<Rightarrow> string \<Rightarrow> response action" where
  "get_review_binding e q project =
     andDo (require_access e q project ShareViewer) (\<lambda>user.
     andDo (published_binding e project) (\<lambda>b. json_response 200 (binding_json b)))"

end
