(* ===== verification/Service_Reviews.thy ===== *)
theory Service_Reviews
  imports Service_Projects
begin

text \<open>
  The handlers of \<open>packages/collaboration/src/service.ts\<close> for review threads, with the grid clusters of
  \<open>index.ts\<close>.  The text of a cell's number is exact for cell sizes above \<open>10\<^sup>-\<^sup>2\<^sup>1\<close>.
\<close>

section \<open>Clusters\<close>

text \<open>Floor, ceiling, minimum and text of the numbers that a cell is computed with.\<close>

definition rounded :: "(rat \<Rightarrow> int) \<Rightarrow> platform \<Rightarrow> js_number \<Rightarrow> js_number" where
  "rounded f p n = (case n of Finite x \<Rightarrow> Finite (Whole (f (number_value p x))) | m \<Rightarrow> m)"

definition lesser :: "platform \<Rightarrow> js_number \<Rightarrow> js_number \<Rightarrow> js_number" where
  "lesser p m n =
     (case (m, n) of
        (Finite x, Finite y) \<Rightarrow> if number_value p x \<le> number_value p y then m else n
      | (Infinite True, _) \<Rightarrow> n
      | (_, Infinite True) \<Rightarrow> m
      | _ \<Rightarrow> NotNumber)"

fun js_number_text :: "js_number \<Rightarrow> string" where
  "js_number_text (Finite x) = plain_text (number_json x)"
| "js_number_text (Infinite positive) = (if positive then ''Infinity'' else ''-Infinity'')"
| "js_number_text NotNumber = ''NaN''"

definition one_less :: "site \<Rightarrow> js_number \<Rightarrow> js_number" where
  "one_less e n = (case n of Finite x \<Rightarrow> Finite (sum_of e x (Whole (-1))) | m \<Rightarrow> m)"

definition cell_of :: "site \<Rightarrow> number \<Rightarrow> number \<Rightarrow> string" where
  "cell_of e cell x =
     (let p = site_platform e in
      js_number_text (lesser p (rounded floor p (quotient e x cell))
        (one_less e (rounded ceiling p (quotient e (Whole 1) cell)))))"

definition middle :: "site \<Rightarrow> number \<Rightarrow> number \<Rightarrow> number" where
  "middle e x w = (case quotient e w (Whole 2) of Finite h \<Rightarrow> sum_of e x h | _ \<Rightarrow> x)"

definition target_point :: "site \<Rightarrow> spatial_target \<Rightarrow> number \<times> number" where
  "target_point e t = (case t of Point x y \<Rightarrow> (x, y) | Region x y w h \<Rightarrow> (middle e x w, middle e y h))"

type_synonym buckets = "(string \<times> string list \<times> (number \<times> number) list) list"

definition add_to_bucket :: "site \<Rightarrow> number \<Rightarrow> review_thread \<Rightarrow> buckets \<Rightarrow> buckets" where
  "add_to_bucket e cell t bs =
     (let point = target_point e (anchor_target (review_anchor t));
          k = cell_of e cell (fst point) @ '':'' @ cell_of e cell (snd point);
          old = (case map_of bs k of None \<Rightarrow> ([], []) | Some b \<Rightarrow> b) in
      AList.update k (fst old @ [review_id t], snd old @ [point]) bs)"

definition mean_json :: "site \<Rightarrow> number list \<Rightarrow> json" where
  "mean_json e xs =
     (case quotient e (foldl (sum_of e) (Whole 0) xs) (Whole (int (length xs))) of
        Finite n \<Rightarrow> number_json n
      | _ \<Rightarrow> JOther NonFinite)"

definition cluster_json :: "site \<Rightarrow> string \<times> string list \<times> (number \<times> number) list \<Rightarrow> json" where
  "cluster_json e b =
     (case b of (k, ids, points) \<Rightarrow>
        JObj [(''key'', JStr k), (''threadIds'', strings_json (js_sort (collate (site_platform e)) ids)),
          (''centroid'', JObj [(''x'', mean_json e (map fst points)), (''y'', mean_json e (map snd points))])])"

definition cluster_review_threads :: "site \<Rightarrow> review_thread list \<Rightarrow> js_number \<Rightarrow> collab_error + json" where
  "cluster_review_threads e ts cell_size =
     (let p = site_platform e in
     andThen (owned_as (\<lambda>ys. JArr (map review_json ys)) ts) (\<lambda>u.
     case cell_size of
       Finite cell \<Rightarrow>
         failIf (number_value p cell \<le> 0 \<or> number_value p cell > 1) ErrInvalid
        (let buckets = fold (add_to_bucket e cell) ts [];
             clusters = JArr (map (cluster_json e) (js_sort (\<lambda>l r. collate p (fst l) (fst r)) buckets)) in
         case own_value clusters of None \<Rightarrow> Inl ErrInvalid | Some v \<Rightarrow> Inr v)
     | _ \<Rightarrow> Inl ErrInvalid))"

section \<open>Listing\<close>

definition filter_json :: "review_filter \<Rightarrow> json" where
  "filter_json f = JObj (
     optional ''lifecycle'' (\<lambda>l. JStr (review_lifecycle_text l)) (by_lifecycle f) @
     optional ''revisionId'' JStr (by_revision f) @ optional ''deepLink'' JStr (by_link f) @
     optional ''screenId'' JStr (by_screen f) @ optional ''stateId'' JStr (by_state f) @
     optional ''createdBy'' JStr (by_creator f) @ optional ''unreadFor'' JStr (unread_for f))"

definition query_lifecycle :: "request \<Rightarrow> fault + review_lifecycle option" where
  "query_lifecycle q =
     (case query q ''lifecycle'' of
        None \<Rightarrow> Inr None
      | Some s \<Rightarrow> if s = ''open'' then Inr (Some ReviewOpen) else if s = ''resolved'' then Inr (Some ReviewResolved)
          else Inl (Refused ErrInvalid))"

definition get_review_threads :: "site \<Rightarrow> request \<Rightarrow> string \<Rightarrow> response action" where
  "get_review_threads e q project =
     andDo (require_access e q project ShareViewer) (\<lambda>viewer.
     andDo (hosted_request q) (\<lambda>hosted.
     andDo (if hosted then andDo (published_binding e project) (\<lambda>b. give (Some b)) else give None) (\<lambda>published.
     andDo (checked (query_lifecycle q)) (\<lambda>lifecycle.
     (let f = \<lparr>by_lifecycle = lifecycle, by_revision = query q ''revisionId'', by_link = query q ''deepLink'',
            by_screen = query q ''screenId'', by_state = query q ''stateId'', by_creator = query q ''author'',
            unread_for = (if query q ''unread'' = Some ''true'' then viewer else None)\<rparr> in
     andDo (reads e [JStr project, filter_json f] (list_reviews (site_platform e) project f)) (\<lambda>listed.
     (let ts = (case published of None \<Rightarrow> listed | Some b \<Rightarrow> filter (\<lambda>t. review_binding t = Some b) listed);
          listing = (''threads'', JArr (map review_json ts)) in
     case query q ''clusterCellSize'' of
       None \<Rightarrow> json_response 200 (JObj [listing])
     | Some s \<Rightarrow>
         (case cluster_review_threads e ts (to_number e s) of
            Inl x \<Rightarrow> refuse Internal
          | Inr v \<Rightarrow> json_response 200 (JObj [listing, (''clusters'', v)])))))))))"

section \<open>Mutations\<close>

fun mutation_answer_json :: "mutation_result \<Rightarrow> json" where
  "mutation_answer_json (ReviewApplied t f) =
     JObj [(''kind'', JStr ''applied''), (''thread'', review_json t), (''fingerprint'', JStr f)]"
| "mutation_answer_json (ReviewReplayed t f) =
     JObj [(''kind'', JStr ''replayed''), (''thread'', review_json t), (''fingerprint'', JStr f)]"
| "mutation_answer_json (ReviewConflict n t) =
     JObj ([(''kind'', JStr ''conflict''), (''currentVersion'', JNum n)] @ optional ''thread'' review_json t)"

definition mutates :: "site \<Rightarrow> mutation \<Rightarrow> mutation_result action" where
  "mutates e m =
     writes e [mutation_json m] (MutateReviewThread m)
       (\<lambda>s. answers_value mutation_answer_json (mutate_review (site_platform e) m s))"

definition conflict_response :: "int \<Rightarrow> review_thread option \<Rightarrow> response action" where
  "conflict_response n t = json_response 409 (JObj ([(''error'', JStr ''conflict''), (''currentVersion'', JNum n)] @
     optional ''thread'' review_json t))"

text \<open>The identity of an operation: a request that is not hosted and names none gets a fresh one.\<close>

definition operation_of ::
    "site \<Rightarrow> request \<Rightarrow> (string \<times> json) list \<Rightarrow> bool \<Rightarrow> string \<Rightarrow> int \<Rightarrow> (string \<times> int) action" where
  "operation_of e q kvs hosted kind version =
     andDo (if hosted then give None
        else if field kvs ''operationId'' = JOther NonObject
        then andDo (next_id e kind) (\<lambda>s. give (Some (s, version)))
        else give (Some (''unused'', version)))
       (\<lambda>fallback. checked (review_operation q kvs fallback hosted))"

definition existing_review :: "site \<Rightarrow> string \<Rightarrow> review_thread action" where
  "existing_review e i =
     andDo (reads e [JStr i] (get_review i)) (\<lambda>found.
     andDo (found_or ErrNotFound found) (\<lambda>t.
     andDo (observe (Found ReviewThreads i (review_project t))) (\<lambda>u. give t)))"

definition user_or_guest :: "string option \<Rightarrow> string" where
  "user_or_guest user = (case user of None \<Rightarrow> ''guest'' | Some s \<Rightarrow> s)"

text \<open>An id that the body may leave out, but not as \<open>null\<close>.\<close>

definition given_id :: "site \<Rightarrow> json \<Rightarrow> string \<Rightarrow> string action" where
  "given_id e v kind = (if v = JOther NonObject then next_id e kind else checked (input_text v))"

definition body_mentions :: "(string \<times> json) list \<Rightarrow> fault + string list" where
  "body_mentions kvs = unique_strings (or_else (field kvs ''mentionedUserIds'') (JArr []))"

definition anchored_in :: "site \<Rightarrow> anchor \<Rightarrow> string \<Rightarrow> binding option \<Rightarrow> revision option \<Rightarrow> bool" where
  "anchored_in e a project published found \<longleftrightarrow>
     (case found of
        None \<Rightarrow> False
      | Some r \<Rightarrow> rev_project r = project \<and>
          (case published of
             None \<Rightarrow> True
           | Some b \<Rightarrow> ev_artifact (anchor_evidence a) = binding_artifact b \<and> anchored_revision a = binding_revision b) \<and>
          validate_anchor (site_platform e) a r = Inr ())"

text \<open>The thread that a request creates, with its first message.\<close>

definition body_thread ::
    "site \<Rightarrow> (string \<times> json) list \<Rightarrow> string \<Rightarrow> string \<Rightarrow> string \<Rightarrow> anchor \<Rightarrow> binding option \<Rightarrow> review_thread action" where
  "body_thread e kvs project user time a published =
     andDo (given_id e (field kvs ''id'') ''review-thread'') (\<lambda>i.
     andDo (checked (input_deep_link e (field kvs ''deepLink''))) (\<lambda>link.
     andDo (given_id e (field kvs ''messageId'') ''review-message'') (\<lambda>mi.
     andDo (checked (input_text (field kvs ''body''))) (\<lambda>body.
     andDo (checked (body_mentions kvs)) (\<lambda>mentions.
       give \<lparr>review_id = i, review_project = project, review_binding = published, review_provenance = None,
             review_version = 1, review_anchor = a,
             review_messages = [\<lparr>message_id = mi, message_body = body, message_by = user, message_at = time,
               message_parent = None, message_mentions = mentions, message_reactions = [], message_reads = [user]\<rparr>],
             review_link = link, review_lifecycle = ReviewOpen, review_by = user, review_at = time,
             resolved_at = None, resolved_by = None, reopened_at = None, reopened_by = None,
             moved_at = None, moved_by = None\<rparr>)))))"

definition post_review_thread :: "site \<Rightarrow> request \<Rightarrow> string \<Rightarrow> response action" where
  "post_review_thread e q project =
     andDo (body_of e q) (\<lambda>kvs.
     andDo (hosted_request q) (\<lambda>hosted.
     andDo (operation_of e q kvs hosted ''review-create-operation'' 0) (\<lambda>operation.
     if snd operation \<noteq> 0 then conflict_response 0 None
     else
       andDo (require_access e q project ShareCommenter) (\<lambda>user.
       andDo (if hosted then andDo (published_binding e project) (\<lambda>b. give (Some b)) else give None) (\<lambda>published.
       andDo (issued_at e) (\<lambda>time.
       andDo (checked (input_anchor (field kvs ''anchor''))) (\<lambda>a.
       andDo (reads e [JStr (anchored_revision a)] (get_revision (anchored_revision a))) (\<lambda>found.
       refuseIf (\<not> anchored_in e a project published found) (Refused ErrInvalid)
      (andDo (body_thread e kvs project (user_or_guest user) time a published) (\<lambda>t.
       andDo (mutates e \<lparr>operation_id = fst operation, expected_version = 0, mutation_request = CreateReview t\<rparr>) (\<lambda>r.
       case r of
         ReviewConflict n other \<Rightarrow> conflict_response n other
       | ReviewReplayed x f \<Rightarrow> json_response 200 (review_json x)
       | ReviewApplied x f \<Rightarrow>
           andDo (emit e project ''review_thread.created'' user ''review_thread'' (review_id t)
             [(''revisionId'', JStr (anchored_revision a))]) (\<lambda>v. json_response 201 (review_json x)))))))))))))"

text \<open>What the three mutations of a stored thread do with the result.\<close>

definition mutation_response ::
    "site \<Rightarrow> string \<Rightarrow> string option \<Rightarrow> string \<Rightarrow> (string \<times> json) list \<Rightarrow> mutation_result \<Rightarrow> (review_thread \<Rightarrow> string) \<Rightarrow>
       response action" where
  "mutation_response e project user type details r subject =
     (case r of
        ReviewConflict n other \<Rightarrow> conflict_response n other
      | ReviewReplayed x f \<Rightarrow> json_response 200 (review_json x)
      | ReviewApplied x f \<Rightarrow>
          andDo (emit e project type user ''review_thread'' (subject x) details) (\<lambda>v. json_response 200 (review_json x)))"

definition body_message :: "site \<Rightarrow> (string \<times> json) list \<Rightarrow> string \<Rightarrow> message action" where
  "body_message e kvs user =
     andDo (given_id e (field kvs ''id'') ''review-message'') (\<lambda>i.
     andDo (case field kvs ''parentMessageId'' of
         JStr s \<Rightarrow> andDo (checked (input_text (JStr s))) (\<lambda>x. give (Some x))
       | _ \<Rightarrow> give None) (\<lambda>parent.
     andDo (checked (input_text (field kvs ''body''))) (\<lambda>body.
     andDo (issued_at e) (\<lambda>time.
     andDo (checked (body_mentions kvs)) (\<lambda>mentions.
       give \<lparr>message_id = i, message_body = body, message_by = user, message_at = time, message_parent = parent,
             message_mentions = mentions, message_reactions = [], message_reads = [user]\<rparr>)))))"

definition post_review_message :: "site \<Rightarrow> request \<Rightarrow> string \<Rightarrow> response action" where
  "post_review_message e q i =
     andDo (body_of e q) (\<lambda>kvs.
     andDo (existing_review e i) (\<lambda>t.
     andDo (hosted_request q) (\<lambda>hosted.
     andDo (operation_of e q kvs hosted ''review-reply-operation'' (review_version t)) (\<lambda>operation.
     andDo (require_published e q t) (\<lambda>u.
     andDo (require_access e q (review_project t) ShareCommenter) (\<lambda>user.
     andDo (body_message e kvs (user_or_guest user)) (\<lambda>m.
     andDo (mutates e \<lparr>operation_id = fst operation, expected_version = snd operation,
         mutation_request = ReplyReview (review_id t) m\<rparr>) (\<lambda>r.
     mutation_response e (review_project t) user ''review_message.created'' [(''messageId'', JStr (message_id m))] r
       (\<lambda>x. review_id t)))))))))"

definition review_answer :: "collab_error + review_thread \<times> store \<Rightarrow> collab_error + review_thread" where
  "review_answer = answers_value review_json"

definition post_review_reaction :: "site \<Rightarrow> request \<Rightarrow> string \<Rightarrow> string \<Rightarrow> response action" where
  "post_review_reaction e q i message =
     andDo (body_of e q) (\<lambda>kvs.
     andDo (existing_review e i) (\<lambda>t.
     andDo (require_published e q t) (\<lambda>u.
     andDo (require_access e q (review_project t) ShareCommenter) (\<lambda>user.
     andDo (route_id message) (\<lambda>mi.
     andDo (checked (input_text (field kvs ''emoji''))) (\<lambda>face.
     (let by = user_or_guest user in
     andDo (writes e [JStr (review_id t), JStr mi, JStr face, JStr by] (ReactToMessage (review_id t) mi face by)
         (\<lambda>s. review_answer (react_to_message (site_platform e) (review_id t) mi face by s))) (\<lambda>x.
     andDo (emit e (review_project t) ''review_message.reacted'' user ''review_thread'' (review_id t) []) (\<lambda>v.
     json_response 200 (review_json x))))))))))"

definition post_review_read :: "site \<Rightarrow> request \<Rightarrow> string \<Rightarrow> string \<Rightarrow> response action" where
  "post_review_read e q i message =
     andDo (body_of e q) (\<lambda>kvs.
     andDo (existing_review e i) (\<lambda>t.
     andDo (require_published e q t) (\<lambda>u.
     andDo (require_access e q (review_project t) ShareViewer) (\<lambda>user.
     (let by = user_or_guest user; read = (field kvs ''read'' \<noteq> JBool False) in
     andDo (writes e [JStr (review_id t), JStr message, JStr by, JBool read] (SetMessageRead (review_id t) message by read)
         (\<lambda>s. review_answer (set_message_read (site_platform e) (review_id t) message by read s))) (\<lambda>x.
     json_response 200 (review_json x)))))))"

text \<open>Resolving and reopening take no body unless the request is hosted.\<close>

definition optional_body :: "site \<Rightarrow> request \<Rightarrow> bool \<Rightarrow> (string \<times> json) list action" where
  "optional_body e q hosted = (if \<not> hosted \<and> request_body q = None then give [] else body_of e q)"

definition post_lifecycle ::
    "site \<Rightarrow> request \<Rightarrow> string \<Rightarrow> string \<Rightarrow> (string \<Rightarrow> string \<Rightarrow> string \<Rightarrow> mutation_request) \<Rightarrow> string \<Rightarrow> response action" where
  "post_lifecycle e q i kind change type =
     andDo (hosted_request q) (\<lambda>hosted.
     andDo (optional_body e q hosted) (\<lambda>kvs.
     andDo (existing_review e i) (\<lambda>t.
     andDo (operation_of e q kvs hosted kind (review_version t)) (\<lambda>operation.
     andDo (require_published e q t) (\<lambda>u.
     andDo (require_access e q (review_project t) ShareCommenter) (\<lambda>user.
     andDo (issued_at e) (\<lambda>time.
     andDo (mutates e \<lparr>operation_id = fst operation, expected_version = snd operation,
         mutation_request = change i (user_or_guest user) time\<rparr>) (\<lambda>r.
     mutation_response e (review_project t) user type [] r review_id))))))))"

definition post_review_resolve :: "site \<Rightarrow> request \<Rightarrow> string \<Rightarrow> response action" where
  "post_review_resolve e q i =
     post_lifecycle e q i ''review-resolve-operation'' ResolveReview ''review_thread.resolved''"

definition post_review_reopen :: "site \<Rightarrow> request \<Rightarrow> string \<Rightarrow> response action" where
  "post_review_reopen e q i =
     post_lifecycle e q i ''review-reopen-operation'' ReopenReview ''review_thread.reopened''"

definition post_review_move :: "site \<Rightarrow> request \<Rightarrow> string \<Rightarrow> response action" where
  "post_review_move e q i =
     andDo (body_of e q) (\<lambda>kvs.
     andDo (existing_review e i) (\<lambda>t.
     andDo (require_published e q t) (\<lambda>u.
     andDo (require_user e q CommentsProject (InProject (review_project t))) (\<lambda>user.
     andDo (checked (input_anchor (field kvs ''anchor''))) (\<lambda>a.
     andDo (issued_at e) (\<lambda>time.
     andDo (writes e [JStr i, anchor_json a, JStr user, JStr time] (MoveReviewThread i a user (Some time))
         (\<lambda>s. review_answer (move_review (site_platform e) i a user (Some time) s))) (\<lambda>x.
     andDo (emit e (review_project t) ''review_thread.moved'' (Some user) ''review_thread'' (review_id x) []) (\<lambda>v.
     json_response 200 (review_json x)))))))))"

end
