(* ===== verification/Service_Records.thy ===== *)
theory Service_Records
  imports Service_Reviews
begin

text \<open>
  The handlers of \<open>packages/collaboration/src/service.ts\<close> for requests for AI changes, developer
  annotations, discussions with their comments and reactions, and approvals.
\<close>

section \<open>Requests for AI changes\<close>

definition post_ai_request :: "site \<Rightarrow> request \<Rightarrow> string \<Rightarrow> response action" where
  "post_ai_request e q project =
     andDo (body_of e q) (\<lambda>kvs.
     andDo (require_user e q DesignsProject (InProject project)) (\<lambda>user.
     andDo (checked (input_anchor (field kvs ''anchor''))) (\<lambda>a.
     andDo (issued_at e) (\<lambda>time.
     andDo (body_id e kvs ''ai-change'') (\<lambda>i.
     andDo (checked (input_text (field kvs ''instruction''))) (\<lambda>instruction.
     andDo (checked (input_provider (field kvs ''provider''))) (\<lambda>provider.
     (let x = \<lparr>ai_id = i, ai_project = project, ai_anchor = Some a, ai_instruction = instruction,
            ai_provider = provider, ai_base = \<lparr>reference_id = anchored_revision a,
              reference_fingerprint = ev_fingerprint (anchor_evidence a)\<rparr>,
            ai_lifecycle = Queued, ai_by = user, ai_created = time, ai_updated = time,
            ai_result = None, ai_undo = None, ai_failure = None\<rparr> in
     andDo (writes e [ai_json x] (CreateRequest x) (\<lambda>s. answers_unit (create_request (site_platform e) x s))) (\<lambda>u.
     andDo (emit e project ''ai_change_request.created'' (Some user) ''ai_change_request'' i
         [(''providerId'', JStr (provider_id provider)), (''revisionId'', JStr (anchored_revision a))]) (\<lambda>v.
     json_response 201 (ai_json x)))))))))))"

definition get_ai_requests :: "site \<Rightarrow> request \<Rightarrow> string \<Rightarrow> response action" where
  "get_ai_requests e q project =
     andDo (require_user e q ReadsProject (InProject project)) (\<lambda>user.
     andDo (reads e [JStr project] (list_requests (site_platform e) project)) (\<lambda>xs.
     json_response 200 (JObj [(''requests'', JArr (map ai_json xs))])))"

definition existing_request :: "site \<Rightarrow> string \<Rightarrow> ai_request action" where
  "existing_request e i =
     andDo (reads e [JStr i] (get_request i)) (\<lambda>found.
     andDo (found_or ErrNotFound found) (\<lambda>x.
     andDo (observe (Found ChangeRequests (ai_id x) (ai_project x))) (\<lambda>u. give x)))"

definition get_ai_request :: "site \<Rightarrow> request \<Rightarrow> string \<Rightarrow> response action" where
  "get_ai_request e q i =
     andDo (existing_request e i) (\<lambda>x.
     andDo (require_user e q ReadsProject (InProject (ai_project x))) (\<lambda>user.
     json_response 200 (ai_json x)))"

definition transitions :: "(string \<times> ai_lifecycle) list" where
  "transitions = [(''start'', Running), (''apply'', Applied), (''fail'', Failed), (''cancel'', Cancelled),
     (''reject'', Cancelled), (''retry'', Queued), (''undo'', Undone)]"

definition body_transition :: "json \<Rightarrow> fault + ai_lifecycle" where
  "body_transition v =
     (case v of
        JStr s \<Rightarrow> (case map_of transitions s of None \<Rightarrow> Inl (Refused ErrInvalid) | Some l \<Rightarrow> Inr l)
      | _ \<Rightarrow> Inl (Refused ErrInvalid))"

text \<open>The result of an applied change names a revision of the project with its fingerprint.\<close>

definition applied_result :: "site \<Rightarrow> (string \<times> json) list \<Rightarrow> ai_request \<Rightarrow> ai_result action" where
  "applied_result e kvs x =
     andDo (checked (input_result (field kvs ''result''))) (\<lambda>r.
     andDo (reads e [JStr (result_revision r)] (get_revision (result_revision r))) (\<lambda>found.
     case found of
       None \<Rightarrow> refuse (Refused ErrNotFound)
     | Some s \<Rightarrow>
         refuseIf (rev_project s \<noteq> ai_project x) (Refused ErrNotFound)
        (refuseIf (rev_sha s \<noteq> result_fingerprint r) (Refused ErrInvalid) (give r))))"

text \<open>The next state of a request: what it was, without the results and the failure it had.\<close>

definition moved_request ::
    "(string \<times> json) list \<Rightarrow> ai_request \<Rightarrow> ai_lifecycle \<Rightarrow> string \<Rightarrow> ai_result option \<Rightarrow> fault + ai_request" where
  "moved_request kvs x life time r =
     (let y = x\<lparr>ai_lifecycle := life, ai_updated := time, ai_result := None, ai_undo := None, ai_failure := None\<rparr> in
     andThen (case r of
         Some z \<Rightarrow> Inr (y\<lparr>ai_result := Some z\<rparr>)
       | None \<Rightarrow>
           if life = Undone then
             (case ai_result x of
                None \<Rightarrow> Inl (Refused ErrConflict)
              | Some z \<Rightarrow> andThen (input_result (field kvs ''undoResult'')) (\<lambda>undo.
                  Inr (y\<lparr>ai_result := Some z, ai_undo := Some undo\<rparr>)))
           else Inr y) (\<lambda>y.
     if life = Failed then andThen (input_text (field kvs ''failureReason'')) (\<lambda>s. Inr (y\<lparr>ai_failure := Some s\<rparr>))
     else Inr y))"

definition post_ai_transition :: "site \<Rightarrow> request \<Rightarrow> string \<Rightarrow> response action" where
  "post_ai_transition e q i =
     andDo (body_of e q) (\<lambda>kvs.
     andDo (existing_request e i) (\<lambda>x.
     andDo (require_user e q DesignsProject (InProject (ai_project x))) (\<lambda>user.
     andDo (checked (body_transition (field kvs ''action''))) (\<lambda>life.
     andDo (if life = Applied then andDo (applied_result e kvs x) (\<lambda>r. give (Some r)) else give None) (\<lambda>r.
     andDo (issued_at e) (\<lambda>time.
     andDo (checked (moved_request kvs x life time r)) (\<lambda>y.
     andDo (writes e [ai_json y] (UpdateRequest y)
         (\<lambda>s. answers_value ai_json (update_request (site_platform e) y s))) (\<lambda>z.
     andDo (emit e (ai_project x) ''ai_change_request.transitioned'' (Some user) ''ai_change_request'' (ai_id z)
         [(''action'', field kvs ''action''), (''lifecycle'', JStr (ai_lifecycle_text (ai_lifecycle z)))]) (\<lambda>v.
     json_response 200 (ai_json z))))))))))"

section \<open>Developer annotations\<close>

definition get_annotations :: "site \<Rightarrow> request \<Rightarrow> string \<Rightarrow> response action" where
  "get_annotations e q project =
     andDo (require_user e q ReadsProject (InProject project)) (\<lambda>user.
     andDo (reads e [JStr project] (list_annotations (site_platform e) project)) (\<lambda>xs.
     json_response 200 (JObj [(''annotations'', JArr (map annotation_json xs))])))"

definition body_category :: "json \<Rightarrow> fault + annotation_category" where
  "body_category v =
     (case v of
        JStr s \<Rightarrow> (case map_of categories s of None \<Rightarrow> Inl (Refused ErrInvalid) | Some c \<Rightarrow> Inr c)
      | _ \<Rightarrow> Inl (Refused ErrInvalid))"

definition post_annotation :: "site \<Rightarrow> request \<Rightarrow> string \<Rightarrow> response action" where
  "post_annotation e q project =
     andDo (body_of e q) (\<lambda>kvs.
     andDo (require_user e q DesignsProject (InProject project)) (\<lambda>user.
     andDo (body_id e kvs ''developer-annotation'') (\<lambda>i.
     andDo (checked (input_anchor (field kvs ''anchor''))) (\<lambda>a.
     andDo (checked (body_category (field kvs ''category''))) (\<lambda>category.
     andDo (checked (input_text (field kvs ''body''))) (\<lambda>body.
     andDo (issued_at e) (\<lambda>time.
     (let x = \<lparr>annotation_id = i, annotation_project = project, annotation_anchor = a, annotation_category = category,
            annotation_body = body, annotation_by = user, annotation_at = time\<rparr> in
     andDo (writes e [annotation_json x] (CreateAnnotation x)
         (\<lambda>s. answers_unit (create_annotation (site_platform e) x s))) (\<lambda>u.
     andDo (emit e project ''developer_annotation.created'' (Some user) ''developer_annotation'' i []) (\<lambda>v.
     json_response 201 (annotation_json x)))))))))))"

section \<open>Discussions\<close>

definition post_thread :: "site \<Rightarrow> request \<Rightarrow> string \<Rightarrow> response action" where
  "post_thread e q project =
     andDo (body_of e q) (\<lambda>kvs.
     andDo (require_user e q CommentsProject (InProject project)) (\<lambda>user.
     andDo (body_id e kvs ''thread'') (\<lambda>i.
     andDo (checked (input_text (field kvs ''revisionId''))) (\<lambda>revision.
     andDo (checked (input_text (field kvs ''reactNodeId''))) (\<lambda>node.
     andDo (checked (input_text (field kvs ''scenarioId''))) (\<lambda>scenario.
     andDo (issued_at e) (\<lambda>time.
     (let x = \<lparr>thread_id = i, thread_project = project, thread_revision = revision, thread_node = node,
            thread_scenario = scenario, thread_by = user, thread_at = time, thread_resolved_at = None,
            thread_resolved_by = None\<rparr> in
     andDo (writes e [thread_json x] (CreateThread x) (\<lambda>s. answers_unit (create_thread x s))) (\<lambda>u.
     andDo (emit e project ''thread.created'' (Some user) ''thread'' i [(''revisionId'', JStr revision),
         (''reactNodeId'', JStr node), (''scenarioId'', JStr scenario)]) (\<lambda>v.
     json_response 201 (thread_json x)))))))))))"

definition existing_thread :: "site \<Rightarrow> string \<Rightarrow> thread action" where
  "existing_thread e i =
     andDo (reads e [JStr i] (get_thread i)) (\<lambda>found.
     andDo (found_or ErrNotFound found) (\<lambda>t.
     andDo (observe (Found DiscussionThreads i (thread_project t))) (\<lambda>u. give t)))"

definition post_comment :: "site \<Rightarrow> request \<Rightarrow> string \<Rightarrow> response action" where
  "post_comment e q i =
     andDo (body_of e q) (\<lambda>kvs.
     andDo (existing_thread e i) (\<lambda>t.
     andDo (require_access e q (thread_project t) ShareCommenter) (\<lambda>user.
     andDo (body_id e kvs ''comment'') (\<lambda>ci.
     andDo (checked (input_text (field kvs ''body''))) (\<lambda>body.
     andDo (issued_at e) (\<lambda>time.
     andDo (checked (input_strings (or_else (field kvs ''mentionedUserIds'') (JArr [])))) (\<lambda>mentions.
     (let x = \<lparr>comment_id = ci, comment_thread = i, comment_parent = text_or_none (field kvs ''parentCommentId''),
            comment_body = body, comment_by = user_or_guest user, comment_at = time, comment_mentions = mentions\<rparr> in
     andDo (writes e [comment_json x] (CreateComment x) (\<lambda>s. answers_unit (create_comment x s))) (\<lambda>u.
     andDo (emit e (thread_project t) ''comment.created'' user ''comment'' ci [(''threadId'', JStr i)]) (\<lambda>v.
     json_response 201 (comment_json x)))))))))))"

definition post_thread_resolve :: "site \<Rightarrow> request \<Rightarrow> string \<Rightarrow> response action" where
  "post_thread_resolve e q i =
     andDo (existing_thread e i) (\<lambda>t.
     andDo (require_access e q (thread_project t) ShareCommenter) (\<lambda>user.
     andDo (issued_at e) (\<lambda>time.
     (let by = user_or_guest user in
     andDo (writes e [JStr i, JStr by, JStr time] (ResolveThread i by (Some time))
         (\<lambda>s. answers_value thread_json (resolve_thread (site_platform e) i by (Some time) s))) (\<lambda>x.
     andDo (emit e (thread_project t) ''thread.resolved'' user ''thread'' (thread_id x) []) (\<lambda>v.
     json_response 200 (thread_json x)))))))"

definition post_reaction :: "site \<Rightarrow> request \<Rightarrow> string \<Rightarrow> response action" where
  "post_reaction e q i =
     andDo (body_of e q) (\<lambda>kvs.
     andDo (reads e [JStr i] (get_comment i)) (\<lambda>found.
     andDo (found_or ErrNotFound found) (\<lambda>c.
     andDo (observe (Found CommentThreads i (comment_thread c))) (\<lambda>u.
     andDo (existing_thread e (comment_thread c)) (\<lambda>t.
     andDo (require_user e q CommentsProject (InProject (thread_project t))) (\<lambda>user.
     andDo (checked (input_text (field kvs ''emoji''))) (\<lambda>face.
     andDo (issued_at e) (\<lambda>time.
     (let x = \<lparr>reaction_comment = i, reaction_user = user, reaction_emoji = face, reaction_at = time\<rparr> in
     andDo (writes e [reaction_json x] (AddReaction x) (\<lambda>s. answers_unit (add_reaction x s))) (\<lambda>u.
     andDo (emit e (thread_project t) ''reaction.added'' (Some user) ''comment'' i [(''emoji'', JStr face)]) (\<lambda>v.
     json_response 201 (reaction_json x))))))))))))"

section \<open>Approvals\<close>

definition body_decision :: "json \<Rightarrow> fault + approval_decision" where
  "body_decision v =
     (if v = JStr ''approved'' then Inr Approved else if v = JStr ''changes_requested'' then Inr ChangesRequested
      else Inl (Refused ErrInvalid))"

definition post_approval :: "site \<Rightarrow> request \<Rightarrow> string \<Rightarrow> response action" where
  "post_approval e q i =
     andDo (body_of e q) (\<lambda>kvs.
     andDo (reads e [JStr i] (get_revision i)) (\<lambda>found.
     andDo (found_or ErrNotFound found) (\<lambda>r.
     andDo (observe (Found DesignRevisions i (rev_project r))) (\<lambda>u.
     andDo (require_user e q ApprovesProject (InProject (rev_project r))) (\<lambda>user.
     andDo (next_id e ''approval'') (\<lambda>ai.
     andDo (checked (body_decision (field kvs ''decision''))) (\<lambda>decision.
     andDo (issued_at e) (\<lambda>time.
     (let x = \<lparr>approval_id = ai, approval_revision = i, approval_user = user, approval_decision = decision,
            approval_note = text_or_none (field kvs ''note''), approval_at = time\<rparr> in
     andDo (writes e [approval_json x] (PutApproval x) (\<lambda>s. answers_unit (put_approval x s))) (\<lambda>u.
     andDo (emit e (rev_project r) ''approval.updated'' (Some user) ''revision'' (rev_id r)
         [(''decision'', JStr (decision_text decision))]) (\<lambda>v.
     json_response 201 (approval_json x))))))))))))"

end
