(* ===== verification/Service_Handler.thy ===== *)
theory Service_Handler
  imports Service_Records
begin

text \<open>
  The handler of \<open>packages/collaboration/src/service.ts\<close>: rate limit, dispatch on method and path, and the
  response for whatever a handler throws.  Two of the path patterns never match the same path, so the
  order in which the code tries them shows only in the check of the id, which comes before the method.
\<close>

section \<open>Dispatch\<close>

record metrics =
  requests_seen :: nat
  requests_rejected :: nat
  requests_failed :: nat

definition not_found :: "response action" where
  "not_found = json_response 404 (JObj [(''error'', JStr ''not_found'')])"

definition metrics_text :: "metrics \<Rightarrow> string" where
  "metrics_text m =
     ''selene_collaboration_requests_total '' @ nat_text (requests_seen m) @ [CHR 0x0A] @
     ''selene_collaboration_rejected_total '' @ nat_text (requests_rejected m) @ [CHR 0x0A] @
     ''selene_collaboration_errors_total '' @ nat_text (requests_failed m) @ [CHR 0x0A]"

definition is_get :: "request \<Rightarrow> bool" where "is_get q \<longleftrightarrow> request_method q = ''GET''"
definition is_post :: "request \<Rightarrow> bool" where "is_post q \<longleftrightarrow> request_method q = ''POST''"
definition is_delete :: "request \<Rightarrow> bool" where "is_delete q \<longleftrightarrow> request_method q = ''DELETE''"

text \<open>A path with an id: the pattern needs a character, and the id is checked whatever the method.\<close>

definition with_id :: "string \<Rightarrow> (string \<Rightarrow> response action) \<Rightarrow> response action" where
  "with_id i f = (if i = [] then not_found else andDo (route_id i) f)"

definition fixed_route :: "site \<Rightarrow> metrics \<Rightarrow> request \<Rightarrow> response action" where
  "fixed_route e m q =
     (if is_get q \<and> request_path q = ''/healthz'' then
        json_response 200 (JObj [(''status'', JStr ''ok''), (''collaborationFormat'', JStr collaboration_format)])
      else if is_get q \<and> request_path q = ''/metrics'' then give (respond 200 (TextBody (metrics_text m)))
      else if is_post q \<and> request_path q = ''/v1/projects'' then post_project e q
      else if is_post q \<and> request_path q = ''/v1/import'' then post_import e q
      else if is_post q \<and> request_path q = ''/v1/sync'' then post_sync e q
      else not_found)"

definition project_route :: "site \<Rightarrow> request \<Rightarrow> string \<Rightarrow> string \<Rightarrow> response action" where
  "project_route e q kind i =
     (if is_post q \<and> kind = ''revisions'' then post_revision e q i
      else if is_get q \<and> kind = ''readiness'' then get_readiness e q i
      else if is_post q \<and> kind = ''readiness'' then post_readiness e q i
      else if is_post q \<and> kind = ''share-links'' then post_share_link e q i
      else if is_get q \<and> kind = ''review-binding'' then get_review_binding e q i
      else if is_get q \<and> kind = ''review-threads'' then get_review_threads e q i
      else if is_post q \<and> kind = ''review-threads'' then post_review_thread e q i
      else if is_post q \<and> kind = ''ai-change-requests'' then post_ai_request e q i
      else if is_get q \<and> kind = ''ai-change-requests'' then get_ai_requests e q i
      else if is_get q \<and> kind = ''developer-annotations'' then get_annotations e q i
      else if is_post q \<and> kind = ''developer-annotations'' then post_annotation e q i
      else if is_post q \<and> kind = ''threads'' then post_thread e q i
      else if is_get q \<and> kind = ''events'' then get_events e q i
      else if is_get q \<and> kind = ''export'' then get_export e q i
      else not_found)"

definition project_kinds :: "string list" where
  "project_kinds = [''revisions'', ''readiness'', ''share-links'', ''review-binding'', ''review-threads'',
     ''ai-change-requests'', ''developer-annotations'', ''threads'', ''events'', ''export'']"

text \<open>\<open>/v1/<group>/<id>/<kind>\<close>\<close>

definition member_route :: "site \<Rightarrow> request \<Rightarrow> string \<Rightarrow> string \<Rightarrow> string \<Rightarrow> response action" where
  "member_route e q family i kind =
     (if family = ''projects'' \<and> kind \<in> set project_kinds then with_id i (project_route e q kind)
      else if family = ''review-threads'' \<and> kind = ''messages'' then
        with_id i (\<lambda>i. if is_post q then post_review_message e q i else not_found)
      else if family = ''review-threads'' \<and> kind = ''resolve'' then
        with_id i (\<lambda>i. if is_post q then post_review_resolve e q i else not_found)
      else if family = ''review-threads'' \<and> kind = ''reopen'' then
        with_id i (\<lambda>i. if is_post q then post_review_reopen e q i else not_found)
      else if family = ''review-threads'' \<and> kind = ''move'' then
        with_id i (\<lambda>i. if is_post q then post_review_move e q i else not_found)
      else if family = ''ai-change-requests'' \<and> kind = ''transition'' then
        with_id i (\<lambda>i. if is_post q then post_ai_transition e q i else not_found)
      else if family = ''threads'' \<and> kind = ''comments'' then
        with_id i (\<lambda>i. if is_post q then post_comment e q i else not_found)
      else if family = ''threads'' \<and> kind = ''resolve'' then
        with_id i (\<lambda>i. if is_post q then post_thread_resolve e q i else not_found)
      else if family = ''comments'' \<and> kind = ''reactions'' then
        with_id i (\<lambda>i. if is_post q then post_reaction e q i else not_found)
      else if family = ''revisions'' \<and> kind = ''approvals'' then
        with_id i (\<lambda>i. if is_post q then post_approval e q i else not_found)
      else not_found)"

text \<open>\<open>/v1/<group>/<id>\<close>\<close>

definition single_route :: "site \<Rightarrow> request \<Rightarrow> string \<Rightarrow> string \<Rightarrow> response action" where
  "single_route e q family i =
     (if family = ''ai-change-requests'' then
        with_id i (\<lambda>i. if is_get q then get_ai_request e q i else not_found)
      else if family = ''share-links'' then
        with_id i (\<lambda>i. if is_delete q then delete_share_link e q i else not_found)
      else if family = ''projects'' then
        with_id i (\<lambda>i. if is_delete q then delete_project_route e q i else not_found)
      else not_found)"

text \<open>\<open>/v1/review-threads/<id>/messages/<id>/<kind>\<close>; the id of the thread is checked for a reaction only.\<close>

definition message_route :: "site \<Rightarrow> request \<Rightarrow> string \<Rightarrow> string \<Rightarrow> string \<Rightarrow> response action" where
  "message_route e q i message kind =
     (if i = [] \<or> message = [] then not_found
      else if kind = ''reactions'' then
        with_id i (\<lambda>i. if is_post q then post_review_reaction e q i message else not_found)
      else if kind = ''read'' \<and> is_post q then post_review_read e q i message
      else not_found)"

definition dispatch :: "site \<Rightarrow> metrics \<Rightarrow> request \<Rightarrow> response action" where
  "dispatch e m q =
     (case split_at CHR ''/'' (request_path q) of
        [a, v, family, i] \<Rightarrow> if a = [] \<and> v = ''v1'' then single_route e q family i else not_found
      | [a, v, family, i, kind] \<Rightarrow> if a = [] \<and> v = ''v1'' then member_route e q family i kind else not_found
      | [a, v, family, i, kind, k] \<Rightarrow>
          if a = [] \<and> v = ''v1'' \<and> family = ''projects'' \<and> kind = ''events'' \<and> k = ''stream'' then
            with_id i (\<lambda>i. if is_get q then get_event_stream e q i else not_found)
          else not_found
      | [a, v, family, i, kind, message, k] \<Rightarrow>
          if a = [] \<and> v = ''v1'' \<and> family = ''review-threads'' \<and> kind = ''messages'' then message_route e q i message k
          else not_found
      | _ \<Rightarrow> fixed_route e m q)"

section \<open>Responses to faults\<close>

fun error_status :: "collab_error \<Rightarrow> nat" where
  "error_status ErrNotFound = 404"
| "error_status ErrConflict = 409"
| "error_status ErrForbidden = 403"
| "error_status x = 400"

fun error_text :: "collab_error \<Rightarrow> string" where
  "error_text ErrConflict = ''conflict''"
| "error_text ErrDuplicate = ''duplicate''"
| "error_text ErrInvalid = ''invalid''"
| "error_text ErrNotFound = ''not_found''"
| "error_text ErrForbidden = ''forbidden''"
| "error_text ErrExpired = ''expired''"

text \<open>The message of an error is not modelled.\<close>

fun fault_response :: "fault \<Rightarrow> response" where
  "fault_response Unavailable = respond 503 (JsonBody (JObj [(''error'', JStr ''service_unavailable'')]))"
| "fault_response (Refused x) = respond (error_status x) (JsonBody (JObj [(''error'', JStr (error_text x))]))"
| "fault_response Internal = respond 500 (JsonBody (JObj [(''error'', JStr ''internal_error'')]))"

section \<open>The service\<close>

record service =
  rates :: counters
  metrics :: metrics

definition with_origin :: "site \<Rightarrow> request \<Rightarrow> response \<Rightarrow> response" where
  "with_origin e q r =
     (case (filled (header q ''origin''), allowed_origins e) of
        (Some origin, Some origins) \<Rightarrow> if origin \<in> set origins then r\<lparr>response_origin := Some origin\<rparr> else r
      | _ \<Rightarrow> r)"

text \<open>\<open>rateLimit\<close>: the response that turns a request away, if any.\<close>

definition rate_limit :: "site \<Rightarrow> request \<Rightarrow> int \<Rightarrow> service \<Rightarrow> response option \<times> service" where
  "rate_limit e q now s =
     (let s1 = s\<lparr>metrics := (metrics s)\<lparr>requests_seen := requests_seen (metrics s) + 1\<rparr>\<rparr> in
      if request_method q = ''OPTIONS'' then (None, s1)
      else
        (case lets_through (max_requests e) q now (rates s1) of
           (True, cs) \<Rightarrow> (None, s1\<lparr>rates := cs\<rparr>)
         | (False, cs) \<Rightarrow>
             (Some (with_origin e q ((respond 429 (JsonBody (JObj [(''error'', JStr ''rate_limited'')])))
                \<lparr>retry_after := Some ''60''\<rparr>)),
              s1\<lparr>rates := cs, metrics := (metrics s1)\<lparr>requests_rejected := requests_rejected (metrics s1) + 1\<rparr>\<rparr>)))"

definition serve :: "site \<Rightarrow> metrics \<Rightarrow> request \<Rightarrow> response action" where
  "serve e m q = (\<lambda>w.
     if opens_context e (world_tick w) then dispatch e m q w else (Inl Unavailable, w))"

definition handle_request ::
    "site \<Rightarrow> request \<Rightarrow> int \<Rightarrow> service \<times> world \<Rightarrow> response \<times> service \<times> world" where
  "handle_request e q now sw =
     (case rate_limit e q now (fst sw) of
        (Some r, s) \<Rightarrow> (r, s, snd sw)
      | (None, s) \<Rightarrow>
          if request_method q = ''OPTIONS'' then (with_origin e q (respond 204 NoBody), s, snd sw)
          else
            (case serve e (metrics s) q (snd sw) of
               (Inr r, w) \<Rightarrow> (with_origin e q r, s, w)
             | (Inl f, w) \<Rightarrow> (with_origin e q (fault_response f),
                 s\<lparr>metrics := (metrics s)\<lparr>requests_failed := requests_failed (metrics s) + 1\<rparr>\<rparr>, w)))"

end
