(* ===== verification/Service_Laws.thy ===== *)
theory Service_Laws
  imports Service_Handler Collab_Machine
begin

text \<open>
  What the service of \<open>packages/collaboration/src/service.ts\<close> may write, and the rules by which every
  handler is shown to keep to it.

  \<open>justified\<close> is the access policy: for each command of the repository, what the same request must have
  asked, found and written before.  Every grant is for the user that the request names, for the one action
  that the command needs and for the very project or organization that it touches.  \<open>lawful\<close> says of a
  computation that its writes are justified by what came before them, and that the store moves by these
  writes and by the calls of others only; it has one rule per way of composing computations.
\<close>

section \<open>Grants\<close>

text \<open>The user of the request was granted the action on the project.\<close>

definition granted :: "request \<Rightarrow> service_event set \<Rightarrow> string \<Rightarrow> collaboration_action \<Rightarrow> string \<Rightarrow> bool" where
  "granted q K user a project \<longleftrightarrow>
     header q ''x-selene-user-id'' = Some user \<and> Asked user a (InProject project) True \<in> K"

definition may_create :: "request \<Rightarrow> service_event set \<Rightarrow> string \<Rightarrow> string \<Rightarrow> bool" where
  "may_create q K user organization \<longleftrightarrow>
     header q ''x-selene-user-id'' = Some user \<and> Asked user CreatesProject (InOrganization organization) True \<in> K"

text \<open>A guest names no user, and has a link that is for the project and was not revoked when it was read.\<close>

definition guest_of :: "request \<Rightarrow> service_event set \<Rightarrow> string \<Rightarrow> share_permission \<Rightarrow> bool" where
  "guest_of q K project permission \<longleftrightarrow>
     header q ''x-selene-user-id'' \<in> {None, Some []} \<and>
     (\<exists>l. Admitted l permission \<in> K \<and> link_project l = project \<and> link_revoked l \<in> {None, Some []} \<and>
        (permission = ShareCommenter \<longrightarrow> link_permission l = ShareCommenter))"

definition acts_for :: "request \<Rightarrow> service_event set \<Rightarrow> string \<Rightarrow> share_permission \<Rightarrow> string \<Rightarrow> bool" where
  "acts_for q K project permission by \<longleftrightarrow>
     granted q K by (permission_action permission) project \<or> (by = ''guest'' \<and> guest_of q K project permission)"

section \<open>Writing a whole project\<close>

text \<open>Creation is for those who may create projects in the organization, an import for those who may restore the
  project, and a synchronization for those who may design it, or, when the request did not find the project,
  for those who may create projects in the organization.\<close>

fun may_write :: "request \<Rightarrow> service_event set \<Rightarrow> string \<Rightarrow> repository_command \<Rightarrow> bool" where
  "may_write q K u (CreateProject x) =
     (request_path q = ''/v1/projects'' \<and> may_create q K u (project_organization x))"
| "may_write q K u (ReplaceProject x n) =
     (n = header q ''x-selene-expected-revision-id'' \<and>
      (if request_path q = ''/v1/import'' then n \<noteq> None \<and> granted q K u RestoresProject (snapshot_project x)
       else request_path q = ''/v1/sync'' \<and>
         (granted q K u DesignsProject (snapshot_project x) \<or>
          Missing (snapshot_project x) \<in> K \<and> may_create q K u (project_organization (snap_project x)))))"
| "may_write q K u c = False"

fun written_project :: "repository_command \<Rightarrow> string" where
  "written_project (CreateProject x) = project_id x"
| "written_project (ReplaceProject x n) = snapshot_project x"
| "written_project c = []"

fun written_event :: "request \<Rightarrow> repository_command \<Rightarrow> string" where
  "written_event q (CreateProject x) = ''project.created''"
| "written_event q (ReplaceProject x n) =
     (if request_path q = ''/v1/import'' then ''project.imported'' else ''project.synchronized'')"
| "written_event q c = []"

fun written_scope :: "request \<Rightarrow> string \<Rightarrow> repository_command \<Rightarrow> string" where
  "written_scope q u (CreateProject x) = ''project:'' @ u @ '':'' @ project_id x"
| "written_scope q u (ReplaceProject x n) =
     (if request_path q = ''/v1/import'' then import_scope u (snapshot_project x) (the n)
      else ''sync:'' @ u @ '':'' @ snapshot_project x)"
| "written_scope q u c = []"

section \<open>Announcements\<close>

text \<open>The events that guests may cause, and the action that each other event of a project stands for.\<close>

definition guest_events :: "string list" where
  "guest_events = [''review_thread.created'', ''review_thread.resolved'', ''review_thread.reopened'',
     ''review_message.created'', ''review_message.reacted'', ''comment.created'', ''thread.resolved'']"

definition event_actions :: "(string \<times> collaboration_action) list" where
  "event_actions = map (\<lambda>t. (t, CommentsProject)) guest_events @
     [(''review_thread.moved'', CommentsProject), (''thread.created'', CommentsProject),
      (''reaction.added'', CommentsProject), (''approval.updated'', ApprovesProject),
      (''revision.created'', DesignsProject), (''design.ready'', DesignsProject),
      (''ai_change_request.created'', DesignsProject), (''ai_change_request.transitioned'', DesignsProject),
      (''developer_annotation.created'', DesignsProject), (''share_link.created'', ManagesSharing),
      (''share_link.revoked'', ManagesSharing), (''project.deleted'', DeletesProject)]"

text \<open>An event of a type, of a project and with an actor, if any; that a project was created, imported or
  synchronized is announced after the write was issued.\<close>

definition announces :: "request \<Rightarrow> service_event set \<Rightarrow> string \<Rightarrow> string \<Rightarrow> string option \<Rightarrow> bool" where
  "announces q K type project user \<longleftrightarrow>
     (case user of
        None \<Rightarrow> type \<in> set guest_events \<and> guest_of q K project ShareCommenter
      | Some u \<Rightarrow>
          (\<exists>a. map_of event_actions type = Some a \<and> granted q K u a project) \<or>
          (\<exists>c. Issued c \<in> K \<and> may_write q K u c \<and> type = written_event q c \<and> project = written_project c))"

section \<open>The policy\<close>

fun justified :: "request \<Rightarrow> service_event set \<Rightarrow> repository_command \<Rightarrow> bool" where
  "justified q K (CreateProject x) = (\<exists>u. may_write q K u (CreateProject x))"
| "justified q K (AppendRevision r p) = False"
| "justified q K (CommitDesign x) =
     (granted q K (input_actor x) DesignsProject (input_project x) \<and>
      (\<forall>r p c. input_command x = AppendDesign r p c \<longrightarrow>
         rev_project r = input_project x \<and> rev_created_by r = input_actor x) \<and>
      (\<forall>r p d. input_command x \<noteq> AppendAndMark r p d))"
| "justified q K (CreateReviewThread t) = False"
| "justified q K (MutateReviewThread m) =
     (case mutation_request m of
        CreateReview t \<Rightarrow> acts_for q K (review_project t) ShareCommenter (review_by t)
      | ReplyReview i x \<Rightarrow> (\<exists>p. Found ReviewThreads i p \<in> K \<and> acts_for q K p ShareCommenter (message_by x))
      | ResolveReview i by time \<Rightarrow> (\<exists>p. Found ReviewThreads i p \<in> K \<and> acts_for q K p ShareCommenter by)
      | ReopenReview i by time \<Rightarrow> (\<exists>p. Found ReviewThreads i p \<in> K \<and> acts_for q K p ShareCommenter by))"
| "justified q K (AppendReviewMessage i m) = False"
| "justified q K (ReactToMessage i m face by) = (\<exists>p. Found ReviewThreads i p \<in> K \<and> acts_for q K p ShareCommenter by)"
| "justified q K (SetMessageRead i m by read) = (\<exists>p. Found ReviewThreads i p \<in> K \<and> acts_for q K p ShareViewer by)"
| "justified q K (ResolveReviewThread i by time) = False"
| "justified q K (ReopenReviewThread i by time) = False"
| "justified q K (MoveReviewThread i a by time) = (\<exists>p. Found ReviewThreads i p \<in> K \<and> granted q K by CommentsProject p)"
| "justified q K (CreateRequest x) = granted q K (ai_by x) DesignsProject (ai_project x)"
| "justified q K (UpdateRequest x) =
     (Found ChangeRequests (ai_id x) (ai_project x) \<in> K \<and> (\<exists>u. granted q K u DesignsProject (ai_project x)))"
| "justified q K (CreateAnnotation x) = granted q K (annotation_by x) DesignsProject (annotation_project x)"
| "justified q K (CreateThread x) = granted q K (thread_by x) CommentsProject (thread_project x)"
| "justified q K (ResolveThread i by time) = (\<exists>p. Found DiscussionThreads i p \<in> K \<and> acts_for q K p ShareCommenter by)"
| "justified q K (CreateComment c) =
     (\<exists>p. Found DiscussionThreads (comment_thread c) p \<in> K \<and> acts_for q K p ShareCommenter (comment_by c))"
| "justified q K (AddReaction r) =
     (\<exists>t p. Found CommentThreads (reaction_comment r) t \<in> K \<and> Found DiscussionThreads t p \<in> K \<and>
        granted q K (reaction_user r) CommentsProject p)"
| "justified q K (PutApproval a) =
     (\<exists>p. Found DesignRevisions (approval_revision a) p \<in> K \<and> granted q K (approval_user a) ApprovesProject p)"
| "justified q K (AppendAudit a) =
     (\<exists>u x. Issued (CreateProject x) \<in> K \<and> may_write q K u (CreateProject x) \<and> audit_actor a = Some u \<and>
        audit_action a = ''project.created'' \<and> audit_resource a = project_id x \<and>
        audit_organization a = project_organization x)"
| "justified q K (AppendEvent x) = announces q K (event_type x) (event_project x) (event_actor x)"
| "justified q K (CreateLink l) = (granted q K (link_by l) ManagesSharing (link_project l) \<and> link_revoked l = None)"
| "justified q K (RevokeLink i time) =
     (time \<noteq> [] \<and> (\<exists>p u. Found ShareLinks i p \<in> K \<and> granted q K u ManagesSharing p))"
| "justified q K (PutResponse scope k r) =
     (header q ''idempotency-key'' = Some k \<and>
      (\<exists>u c. Issued c \<in> K \<and> may_write q K u c \<and> scope = written_scope q u c))"
| "justified q K (ReplaceProject x n) = (\<exists>u. may_write q K u (ReplaceProject x n))"
| "justified q K (DeleteProject i) = (\<exists>u. granted q K u DeletesProject i)"

lemma guest_of_mono: "K \<subseteq> L \<Longrightarrow> guest_of q K p m \<Longrightarrow> guest_of q L p m"
  by (auto simp: guest_of_def)

lemma granted_mono: "K \<subseteq> L \<Longrightarrow> granted q K u a p \<Longrightarrow> granted q L u a p"
  by (auto simp: granted_def)

lemma may_create_mono: "K \<subseteq> L \<Longrightarrow> may_create q K u p \<Longrightarrow> may_create q L u p"
  by (auto simp: may_create_def)

lemma may_write_mono: "K \<subseteq> L \<Longrightarrow> may_write q K u c \<Longrightarrow> may_write q L u c"
  using granted_mono [of K L q] may_create_mono [of K L q] by (cases c) (auto split: if_splits)

lemma acts_for_mono: "K \<subseteq> L \<Longrightarrow> acts_for q K p m by \<Longrightarrow> acts_for q L p m by"
  using guest_of_mono [of K L q p m] granted_mono [of K L] by (auto simp: acts_for_def)

lemma announces_mono: "K \<subseteq> L \<Longrightarrow> announces q K t p u \<Longrightarrow> announces q L t p u"
  using guest_of_mono [of K L q p] granted_mono [of K L] may_write_mono [of K L]
  by (cases u) (simp_all add: announces_def, blast)

lemmas policy_mono = guest_of_mono granted_mono may_create_mono may_write_mono acts_for_mono announces_mono

lemma justified_mono:
  assumes "K \<subseteq> L" "justified q K c"
  shows "justified q L c"
proof -
  note policy = policy_mono [OF assms(1)] and known = subsetD [OF assms(1)]
  show ?thesis using assms(2)
    by (cases c; simp del: may_write.simps split: mutation_request.splits; blast intro: policy known)
qed

fun justified_from :: "request \<Rightarrow> service_event set \<Rightarrow> service_event list \<Rightarrow> bool" where
  "justified_from q K [] = True"
| "justified_from q K (x # xs) = ((\<forall>c. x = Issued c \<longrightarrow> justified q K c) \<and> justified_from q (insert x K) xs)"

lemma justified_from_append:
  "justified_from q K (xs @ ys) \<longleftrightarrow> justified_from q K xs \<and> justified_from q (K \<union> set xs) ys"
  by (induction xs arbitrary: K) auto

lemma justified_from_Issued: "justified_from q K (xs @ Issued c # ys) \<Longrightarrow> justified q (K \<union> set xs) c"
  by (simp add: justified_from_append)

lemma justified_from_each:
  assumes "justified_from q K xs" "Issued c \<in> set xs"
  shows "\<exists>L. justified q L c"
  using assms by (auto simp: in_set_conv_decomp dest: justified_from_Issued)

section \<open>Lawful computations\<close>

text \<open>From one world to another by justified writes and by calls of others.\<close>

definition sourced :: "site \<Rightarrow> service_event list \<Rightarrow> (string \<times> repository_command) list \<Rightarrow> bool" where
  "sourced e es cs \<longleftrightarrow> (\<forall>c \<in> snd ` set cs. Issued c \<in> set es \<or> (\<exists>n. c \<in> snd ` set (others e n)))"

definition moves :: "site \<Rightarrow> request \<Rightarrow> world \<Rightarrow> world \<Rightarrow> bool" where
  "moves e q w w' \<longleftrightarrow>
     (\<exists>es cs. world_trace w' = world_trace w @ es \<and>
        world_store w' = foldl (perform_at (site_platform e)) (world_store w) cs \<and>
        justified_from q (set (world_trace w)) es \<and> sourced e es cs)"

definition lawful :: "site \<Rightarrow> request \<Rightarrow> service_event set \<Rightarrow> 'a action \<Rightarrow> bool" where
  "lawful e q K a \<longleftrightarrow>
     (\<forall>w. K \<subseteq> set (world_trace w) \<longrightarrow> consistent (site_platform e) (world_store w) \<longrightarrow> moves e q w (snd (a w)))"

lemma calls_consistent: "consistent p s \<Longrightarrow> consistent p (foldl (perform_at p) s cs)"
  by (induction cs arbitrary: s) (simp_all add: perform_at_consistent)

lemma movesI:
  "world_trace w' = world_trace w @ es \<Longrightarrow> world_store w' = foldl (perform_at (site_platform e)) (world_store w) cs \<Longrightarrow>
     justified_from q (set (world_trace w)) es \<Longrightarrow> sourced e es cs \<Longrightarrow> moves e q w w'"
  unfolding moves_def by blast

lemma moves_refl [simp]: "moves e q w w"
  by (rule movesI [of _ _ "[]" _ "[]"]) (simp_all add: sourced_def)

lemma moves_trans:
  assumes "moves e q w v" "moves e q v u"
  shows "moves e q w u"
proof -
  obtain es cs where "world_trace v = world_trace w @ es" "justified_from q (set (world_trace w)) es" "sourced e es cs"
    "world_store v = foldl (perform_at (site_platform e)) (world_store w) cs" using assms(1) unfolding moves_def by blast
  moreover obtain fs ds where "world_trace u = world_trace v @ fs" "justified_from q (set (world_trace v)) fs" "sourced e fs ds"
    "world_store u = foldl (perform_at (site_platform e)) (world_store v) ds" using assms(2) unfolding moves_def by blast
  ultimately show ?thesis
    by (intro movesI [of _ _ "es @ fs" _ "cs @ ds"]) (auto simp: justified_from_append sourced_def)
qed

lemma moves_keeps:
  assumes "moves e q w w'"
  shows "set (world_trace w) \<subseteq> set (world_trace w')"
    and "consistent (site_platform e) (world_store w) \<Longrightarrow> consistent (site_platform e) (world_store w')"
  using assms calls_consistent unfolding moves_def by auto

lemma lawfulI:
  "(\<And>w. K \<subseteq> set (world_trace w) \<Longrightarrow> consistent (site_platform e) (world_store w) \<Longrightarrow> moves e q w (snd (a w))) \<Longrightarrow>
     lawful e q K a"
  by (simp add: lawful_def)

lemma lawfulD:
  assumes "lawful e q K a" "K \<subseteq> set (world_trace w)" "consistent (site_platform e) (world_store w)" "a w = (r, w')"
  shows "moves e q w w'" "K \<subseteq> set (world_trace w')" "consistent (site_platform e) (world_store w')"
proof -
  show moves: "moves e q w w'" using assms unfolding lawful_def by (metis snd_conv)
  show "K \<subseteq> set (world_trace w')" "consistent (site_platform e) (world_store w')"
    using moves_keeps [OF moves] assms(2,3) by blast+
qed

lemma lawful_mono: "lawful e q K a \<Longrightarrow> K \<subseteq> L \<Longrightarrow> lawful e q L a"
  unfolding lawful_def by blast

lemma lawful_still: "(\<And>w. snd (a w) = w) \<Longrightarrow> lawful e q K a"
  by (simp add: lawful_def)

lemma lawful_give [simp]: "lawful e q K (give x)"
  and lawful_refuse [simp]: "lawful e q K (refuse f)"
  and lawful_checked [simp]: "lawful e q K (checked r)"
  by (rule lawful_still, simp add: give_def refuse_def checked_def split: sum.split)+

lemma lawful_refuseIf: "(\<not> c \<Longrightarrow> lawful e q K a) \<Longrightarrow> lawful e q K (refuseIf c f a)"
  by (simp add: refuseIf_def)

text \<open>Composition, where the first computation leaves events \<open>L\<close> that say something about its result.\<close>

lemma lawful_learn:
  assumes a: "lawful e q K a"
    and learns: "\<And>w x w'. K \<subseteq> set (world_trace w) \<Longrightarrow> consistent (site_platform e) (world_store w) \<Longrightarrow>
      a w = (Inr x, w') \<Longrightarrow> \<exists>L. L \<subseteq> set (world_trace w') \<and> P L x"
    and f: "\<And>L x. P L x \<Longrightarrow> lawful e q (L \<union> K) (f x)"
  shows "lawful e q K (andDo a f)"
proof (rule lawfulI)
  fix w :: world assume K: "K \<subseteq> set (world_trace w)" and ok: "consistent (site_platform e) (world_store w)"
  obtain r w1 where run: "a w = (r, w1)" by (cases "a w")
  note moved = lawfulD [OF a K ok run]
  show "moves e q w (snd (andDo a f w))"
  proof (cases r)
    case (Inl x)
    then show ?thesis using run moved(1) by (simp add: andDo_def)
  next
    case (Inr x)
    then obtain L where L: "L \<subseteq> set (world_trace w1)" "P L x" using learns [OF K ok] run by blast
    obtain s w2 where run2: "f x w1 = (s, w2)" by (cases "f x w1")
    have "L \<union> K \<subseteq> set (world_trace w1)" using L(1) moved(2) by simp
    from lawfulD(1) [OF f [OF L(2)] this moved(3) run2] show ?thesis
      using moves_trans [OF moved(1)] run run2 Inr by (simp add: andDo_def)
  qed
qed

lemma lawful_andDo: "lawful e q K a \<Longrightarrow> (\<And>x. lawful e q K (f x)) \<Longrightarrow> lawful e q K (andDo a f)"
  by (rule lawful_learn [where P = "\<lambda>L x. L = {}"]) auto

lemma lawful_rescue:
  assumes a: "lawful e q K a" and h: "\<And>f. lawful e q K (h f)"
  shows "lawful e q K (rescue a h)"
proof (rule lawfulI)
  fix w :: world assume K: "K \<subseteq> set (world_trace w)" and ok: "consistent (site_platform e) (world_store w)"
  obtain r w1 where run: "a w = (r, w1)" by (cases "a w")
  note moved = lawfulD [OF a K ok run]
  show "moves e q w (snd (rescue a h w))"
  proof (cases r)
    case (Inl x)
    obtain s w2 where run2: "h x w1 = (s, w2)" by (cases "h x w1")
    from lawfulD(1) [OF h moved(2,3) run2] show ?thesis
      using moves_trans [OF moved(1)] run run2 Inl by (simp add: rescue_def)
  next
    case (Inr x)
    then show ?thesis using run moved(1) by (simp add: rescue_def)
  qed
qed

lemma lawful_if: "(c \<Longrightarrow> lawful e q K a) \<Longrightarrow> (\<not> c \<Longrightarrow> lawful e q K b) \<Longrightarrow> lawful e q K (if c then a else b)"
  by simp

lemma andDo_assoc: "andDo (andDo a f) g = andDo a (\<lambda>x. andDo (f x) g)"
  by (auto simp: andDo_def split: prod.splits sum.splits)

lemma andDo_give [simp]: "andDo (give x) f = f x"
  by (simp add: andDo_def give_def)

lemma andDo_refuse [simp]: "andDo (refuse x) f = refuse x"
  by (simp add: andDo_def refuse_def)

lemma andDo_if: "andDo (if c then a else b) f = (if c then andDo a f else andDo b f)"
  by simp

section \<open>Ports\<close>

lemma before_call_parts [simp]:
  "world_trace (before_call e w) = world_trace w"
  "world_store (before_call e w) = foldl (perform_at (site_platform e)) (world_store w) (others e (world_tick w))"
  "world_tick (before_call e w) = Suc (world_tick w)"
  by (simp_all add: before_call_def)

lemma before_call_moves: "moves e q w (before_call e w)"
  by (rule movesI [of _ _ "[]" _ "others e (world_tick w)"]) (auto simp: sourced_def)

lemma port_call_world:
  "snd (port_call e args f w) = before_call e w \<or> snd (port_call e args f w) = snd (f (before_call e w))"
  by (auto simp: port_call_def Let_def split: supervision.split prod.split sum.split)

lemma port_call_Inr:
  "port_call e args f w = (Inr x, w') \<Longrightarrow> f (before_call e w) = (Inr x, w')"
  by (auto simp: port_call_def Let_def split: supervision.splits prod.splits sum.splits if_splits)

lemma lawful_port_call:
  assumes f: "\<And>w. K \<subseteq> set (world_trace w) \<Longrightarrow> moves e q w (snd (f w))"
  shows "lawful e q K (port_call e args f)"
proof (rule lawfulI)
  fix w :: world assume "K \<subseteq> set (world_trace w)"
  then have "moves e q (before_call e w) (snd (f (before_call e w)))" by (intro f) simp
  then show "moves e q w (snd (port_call e args f w))"
    using port_call_world [of e args f w] before_call_moves [of e q w] moves_trans by metis
qed

lemma lawful_port_still: "(\<And>w. snd (f w) = w) \<Longrightarrow> lawful e q K (port_call e args f)"
  by (rule lawful_port_call) simp

lemma lawful_reads_of:
  assumes "\<And>x s. consistent (site_platform e) s \<Longrightarrow> r s = Inr x \<Longrightarrow> lawful e q K (f x)"
  shows "lawful e q K (andDo (reads e args r) f)"
proof (rule lawful_learn [where P = "\<lambda>L x. L = {} \<and> (\<exists>s. consistent (site_platform e) s \<and> r s = Inr x)"])
  show "lawful e q K (reads e args r)" unfolding reads_def by (rule lawful_port_still) simp
  show "\<exists>L. L \<subseteq> set (world_trace w') \<and> L = {} \<and> (\<exists>s. consistent (site_platform e) s \<and> r s = Inr x)"
    if "consistent (site_platform e) (world_store w)" "reads e args r w = (Inr x, w')" for w x w'
    using port_call_Inr [OF that(2) [unfolded reads_def]] calls_consistent [OF that(1)] by auto
  show "lawful e q (L \<union> K) (f x)" if "L = {} \<and> (\<exists>s. consistent (site_platform e) s \<and> r s = Inr x)" for L x
    using that assms by auto
qed

lemma lawful_asks_port [simp]: "lawful e q K (asks_port e args f)"
  and lawful_asks_signer [simp]: "lawful e q K (asks_signer e args f)"
  and lawful_reads [simp]: "lawful e q K (reads e args r)"
  by (simp_all add: asks_port_def asks_signer_def reads_def lawful_port_still)

lemma lawful_writes: "justified q K c \<Longrightarrow> lawful e q K (writes e args c r)"
  unfolding writes_def
proof (rule lawful_port_call)
  fix w :: world assume "justified q K c" "K \<subseteq> set (world_trace w)"
  then have "justified q (set (world_trace w)) c" by (rule justified_mono [rotated])
  then show "moves e q w (snd (r (world_store w), issue e c w))"
    by (intro movesI [of _ _ "[Issued c]" _ "[(clock (site_platform e), c)]"]) (simp_all add: issue_def sourced_def)
qed

lemma lawful_observe: "(\<And>c. x \<noteq> Issued c) \<Longrightarrow> lawful e q K (observe x)"
  by (rule lawfulI, rule movesI [of _ _ "[x]" _ "[]"]) (auto simp: observe_def sourced_def)

lemma lawful_asks_authorizer: "lawful e q K (asks_authorizer e user a t)"
  unfolding asks_authorizer_def
  by (rule lawful_port_call, rule movesI [of _ _ "[Asked user a t b]" _ "[]" for b]) (auto simp: Let_def sourced_def)

text \<open>After a write was answered it is among what the request did.\<close>

lemma writes_issued: "writes e args c r w = (Inr x, w') \<Longrightarrow> Issued c \<in> set (world_trace w')"
  unfolding writes_def by (drule port_call_Inr) (auto simp: issue_def)

lemma lawful_write_then:
  assumes "justified q K c" "\<And>x. lawful e q (insert (Issued c) K) (f x)"
  shows "lawful e q K (andDo (writes e args c r) f)"
  by (rule lawful_learn [where P = "\<lambda>L x. L = {Issued c}"])
    (use assms lawful_writes writes_issued in \<open>auto simp: insert_def [symmetric]\<close>)

end
