(* ===== verification/Service_Policy.thy ===== *)
theory Service_Policy
  imports Service_Laws
begin

text \<open>
  Every handler of \<open>packages/collaboration/src/service.ts\<close> is lawful: one lemma per helper and one per
  route, each by the rules of composition.
\<close>

section \<open>Rules for cases\<close>

lemma lawful_case_option:
  "(v = None \<Longrightarrow> lawful e q K a) \<Longrightarrow> (\<And>x. v = Some x \<Longrightarrow> lawful e q K (f x)) \<Longrightarrow> lawful e q K (case v of None \<Rightarrow> a | Some x \<Rightarrow> f x)"
  by (cases v) simp_all

lemma lawful_case_sum:
  "(\<And>x. lawful e q K (f x)) \<Longrightarrow> (\<And>x. lawful e q K (g x)) \<Longrightarrow> lawful e q K (case v of Inl x \<Rightarrow> f x | Inr x \<Rightarrow> g x)"
  by (cases v) simp_all

lemma lawful_case_prod: "(\<And>x y. lawful e q K (f x y)) \<Longrightarrow> lawful e q K (case v of (x, y) \<Rightarrow> f x y)"
  by (cases v) simp

lemma lawful_case_text:
  "(\<And>s. lawful e q K (f s)) \<Longrightarrow> lawful e q K g \<Longrightarrow> lawful e q K (case v of JStr s \<Rightarrow> f s | _ \<Rightarrow> g)"
  by (cases v) simp_all

lemma lawful_case_flag:
  "(\<And>s. lawful e q K (f s)) \<Longrightarrow> lawful e q K g \<Longrightarrow> lawful e q K (case v of JBool s \<Rightarrow> f s | _ \<Rightarrow> g)"
  by (cases v) simp_all

lemma lawful_case_result:
  "(\<And>t x. lawful e q K (f t x)) \<Longrightarrow> (\<And>t x. lawful e q K (g t x)) \<Longrightarrow> (\<And>n t. lawful e q K (h n t)) \<Longrightarrow>
     lawful e q K (case v of ReviewApplied t x \<Rightarrow> f t x | ReviewReplayed t x \<Rightarrow> g t x | ReviewConflict n t \<Rightarrow> h n t)"
  by (cases v) simp_all

lemma lawful_case_revision:
  "(\<And>x y b. lawful e q K (f x y b)) \<Longrightarrow> lawful e q K g \<Longrightarrow>
     lawful e q K (case v of (RevisionCommitted x y, b) \<Rightarrow> f x y b | _ \<Rightarrow> g)"
  by (cases v; cases "fst v") simp_all

lemma lawful_case_readiness:
  "(\<And>x b. lawful e q K (f x b)) \<Longrightarrow> lawful e q K g \<Longrightarrow>
     lawful e q K (case v of (ReadinessCommitted x, b) \<Rightarrow> f x b | _ \<Rightarrow> g)"
  by (cases v; cases "fst v") simp_all

lemma lawful_json_response [simp]: "lawful e q K (json_response n v)"
  and lawful_conflict_response [simp]: "lawful e q K (conflict_response m t)"
  and lawful_not_found [simp]: "lawful e q K not_found"
  and lawful_found_or [simp]: "lawful e q K (found_or x z)"
  and lawful_body_of [simp]: "lawful e q K (body_of e q)"
  by (simp_all add: json_response_def conflict_response_def not_found_def found_or_def body_of_def split: option.split)

lemmas lawful_steps = lawful_give lawful_refuse lawful_checked lawful_json_response lawful_conflict_response
  lawful_not_found lawful_found_or lawful_body_of lawful_asks_port lawful_asks_signer lawful_reads lawful_refuseIf
  lawful_case_revision lawful_case_readiness lawful_case_result lawful_case_option lawful_case_sum lawful_case_prod
  lawful_case_text lawful_case_flag lawful_if

lemma lawful_andDo_give: "lawful e q K (f x) \<Longrightarrow> lawful e q K (andDo (give x) f)"
  by simp

section \<open>Helpers that write nothing\<close>

lemma lawful_issued_at [simp]: "lawful e q K (issued_at e)"
  unfolding issued_at_def by (rule lawful_steps lawful_andDo)+

lemma lawful_next_id [simp]: "lawful e q K (next_id e kind)"
  unfolding next_id_def by (rule lawful_steps lawful_andDo)+

lemma lawful_body_id [simp]: "lawful e q K (body_id e kvs kind)"
  unfolding body_id_def by (rule lawful_steps lawful_next_id lawful_andDo)+

lemma lawful_given_id [simp]: "lawful e q K (given_id e v kind)"
  unfolding given_id_def by (rule lawful_steps lawful_next_id lawful_andDo)+

lemma lawful_signer_hash [simp]: "lawful e q K (signer_hash e token)"
  unfolding signer_hash_def by (rule lawful_steps lawful_andDo)+

lemma lawful_create_share_token [simp]: "lawful e q K (create_share_token e g)"
  unfolding create_share_token_def Let_def by (rule lawful_steps lawful_andDo)+

lemma lawful_verify_share_token [simp]: "lawful e q K (verify_share_token e token now)"
  unfolding verify_share_token_def by (rule lawful_steps lawful_andDo)+

lemma lawful_hosted_request [simp]: "lawful e q K (hosted_request q)"
  unfolding hosted_request_def by (rule lawful_steps lawful_andDo)+

lemma lawful_route_id [simp]: "lawful e q K (route_id i)"
  unfolding route_id_def by (rule lawful_steps lawful_andDo)+

lemma lawful_published_binding [simp]: "lawful e q K (published_binding e i)"
  unfolding published_binding_def by (rule lawful_steps lawful_port_still lawful_andDo snd_conv)+

lemma lawful_require_published [simp]: "lawful e q K (require_published e q t)"
  unfolding require_published_def
  by (rule lawful_steps lawful_hosted_request lawful_published_binding lawful_andDo)+

lemma lawful_operation_of [simp]: "lawful e q K (operation_of e q kvs hosted kind version)"
  unfolding operation_of_def by (rule lawful_steps lawful_next_id lawful_andDo)+

lemma lawful_body_revision [simp]: "lawful e q K (body_revision e kvs project user latest)"
  unfolding body_revision_def by (rule lawful_steps lawful_body_id lawful_issued_at lawful_andDo)+

lemma lawful_body_thread [simp]: "lawful e q K (body_thread e kvs project user time a published)"
  unfolding body_thread_def by (rule lawful_steps lawful_given_id lawful_andDo)+

lemma lawful_body_message [simp]: "lawful e q K (body_message e kvs user)"
  unfolding body_message_def by (rule lawful_steps lawful_given_id lawful_issued_at lawful_andDo)+

lemma lawful_optional_body [simp]: "lawful e q K (optional_body e q hosted)"
  unfolding optional_body_def by (rule lawful_steps)+

lemma lawful_applied_result [simp]: "lawful e q K (applied_result e kvs x)"
  unfolding applied_result_def by (rule lawful_steps lawful_andDo)+

lemmas lawful_quiet = lawful_issued_at lawful_next_id lawful_body_id lawful_given_id lawful_signer_hash
  lawful_create_share_token lawful_verify_share_token lawful_hosted_request lawful_route_id lawful_published_binding
  lawful_require_published lawful_operation_of lawful_body_revision lawful_body_thread lawful_body_message
  lawful_optional_body lawful_applied_result

section \<open>Steps that learn\<close>

lemma andDo_Inr: "andDo a f w = (Inr y, w') \<longleftrightarrow> (\<exists>x w1. a w = (Inr x, w1) \<and> f x w1 = (Inr y, w'))"
  by (auto simp: andDo_def split: prod.splits sum.splits)

lemma refuseIf_Inr: "refuseIf c f a w = (Inr y, w') \<longleftrightarrow> \<not> c \<and> a w = (Inr y, w')"
  by (auto simp: refuseIf_def refuse_def)

lemma give_Inr: "give x w = (Inr y, w') \<longleftrightarrow> y = x \<and> w' = w"
  by (auto simp: give_def)

lemma refuse_Inr: "refuse f w = (Inr y, w') \<longleftrightarrow> False"
  by (simp add: refuse_def)

lemma case_text_Inr:
  "(case v of JStr s \<Rightarrow> f s | _ \<Rightarrow> refuse x) w = (Inr y, w') \<longleftrightarrow> (\<exists>s. v = JStr s \<and> f s w = (Inr y, w'))"
  by (cases v) (simp_all add: refuse_Inr)

lemma case_flag_Inr:
  "(case v of JBool s \<Rightarrow> f s | _ \<Rightarrow> refuse x) w = (Inr y, w') \<longleftrightarrow> (\<exists>s. v = JBool s \<and> f s w = (Inr y, w'))"
  by (cases v) (simp_all add: refuse_Inr)

lemma case_found_Inr:
  "(case v of None \<Rightarrow> refuse x | Some z \<Rightarrow> f z) w = (Inr y, w') \<longleftrightarrow> (\<exists>z. v = Some z \<and> f z w = (Inr y, w'))"
  by (cases v) (simp_all add: refuse_Inr)

lemmas action_simps = andDo_Inr refuseIf_Inr give_Inr refuse_Inr case_text_Inr case_flag_Inr case_found_Inr

lemma asks_authorizer_Inr:
  "asks_authorizer e u a t w = (Inr b, w') \<Longrightarrow> Asked u a t b \<in> set (world_trace w')"
  unfolding asks_authorizer_def by (drule port_call_Inr) (auto simp: Let_def)

lemma require_user_Inr:
  "require_user e q a t w = (Inr u, w') \<Longrightarrow>
     Asked u a t True \<in> set (world_trace w') \<and> u \<noteq> [] \<and> header q ''x-selene-user-id'' = Some u"
  by (auto simp: require_user_def actor_def action_simps stable_identifier_def
      split: option.splits dest!: asks_authorizer_Inr)

lemma lawful_actor [simp]: "lawful e q K (actor q)"
  unfolding actor_def by (rule lawful_steps)+

lemma lawful_require_user_only: "lawful e q K (require_user e q a t)"
  unfolding require_user_def
  by (rule lawful_steps lawful_actor lawful_asks_authorizer lawful_andDo)+

lemma lawful_require_user:
  assumes "\<And>u. u \<noteq> [] \<Longrightarrow> header q ''x-selene-user-id'' = Some u \<Longrightarrow> lawful e q (insert (Asked u a t True) K) (f u)"
  shows "lawful e q K (andDo (require_user e q a t) f)"
  by (rule lawful_learn [where P = "\<lambda>L u. L = {Asked u a t True} \<and> u \<noteq> [] \<and> header q ''x-selene-user-id'' = Some u"])
    (auto intro: lawful_require_user_only assms dest: require_user_Inr)

lemma observe_Inr: "observe x w = (Inr u, w') \<Longrightarrow> x \<in> set (world_trace w')"
  by (auto simp: observe_def)

lemma lawful_found:
  assumes "\<And>u. lawful e q (insert (Found k i p) K) (f u)"
  shows "lawful e q K (andDo (observe (Found k i p)) f)"
  by (rule lawful_learn [where P = "\<lambda>L u. L = {Found k i p}"])
    (auto intro: lawful_observe assms dest: observe_Inr)

lemma lawful_observe_missing:
  assumes "\<And>u. lawful e q (insert (Missing i) K) (f u)"
  shows "lawful e q K (andDo (observe (Missing i)) f)"
  by (rule lawful_learn [where P = "\<lambda>L u. L = {Missing i}"])
    (auto intro: lawful_observe assms dest: observe_Inr)

lemma lawful_andDo_found:
  "(\<And>x. v = Some x \<Longrightarrow> lawful e q K (f x)) \<Longrightarrow> lawful e q K (andDo (found_or y v) f)"
  by (cases v) (simp_all add: found_or_def)

lemma lawful_existing_review:
  assumes "\<And>t. review_id t = i \<Longrightarrow> lawful e q (insert (Found ReviewThreads i (review_project t)) K) (f t)"
  shows "lawful e q K (andDo (existing_review e i) f)"
  unfolding existing_review_def andDo_assoc
  by (rule lawful_reads_of lawful_andDo_found lawful_found lawful_andDo_give assms |
      force simp: get_review_def outcome_simps dest: consistentD(3))+

lemma lawful_existing_thread:
  assumes "\<And>t. lawful e q (insert (Found DiscussionThreads i (thread_project t)) K) (f t)"
  shows "lawful e q K (andDo (existing_thread e i) f)"
  unfolding existing_thread_def andDo_assoc
  by (rule lawful_reads lawful_found_or lawful_found lawful_andDo_give lawful_andDo assms)+

lemma lawful_existing_request:
  assumes "\<And>x. lawful e q (insert (Found ChangeRequests (ai_id x) (ai_project x)) K) (f x)"
  shows "lawful e q K (andDo (existing_request e i) f)"
  unfolding existing_request_def andDo_assoc
  by (rule lawful_reads lawful_found_or lawful_found lawful_andDo_give lawful_andDo assms)+

lemma filled_Some [simp]: "u \<noteq> [] \<Longrightarrow> filled (Some u) = Some u"
  by (cases u) (simp_all add: filled_def)

lemma admit_guest_Inr:
  assumes "admit_guest e q project permission w = (Inr u, w')" "header q ''x-selene-user-id'' \<in> {None, Some []}"
  shows "guest_of q (set (world_trace w')) project permission"
  using assms by (auto simp: admit_guest_def action_simps link_admits_def guest_of_def dest!: observe_Inr)

lemma lawful_admit_guest: "lawful e q K (admit_guest e q project permission)"
  unfolding admit_guest_def
  by (rule lawful_steps lawful_issued_at lawful_verify_share_token lawful_rescue lawful_observe lawful_andDo
      service_event.distinct)+

lemma lawful_require_access_only: "lawful e q K (require_access e q project permission)"
  unfolding require_access_def
  by (auto split: option.split list.split
      intro!: lawful_andDo lawful_refuseIf lawful_admit_guest lawful_asks_authorizer)

text \<open>The events and the actions they stand for.\<close>

lemma event_table [simp]:
  "map_of event_actions ''review_thread.moved'' = Some CommentsProject"
  "map_of event_actions ''thread.created'' = Some CommentsProject"
  "map_of event_actions ''reaction.added'' = Some CommentsProject"
  "map_of event_actions ''approval.updated'' = Some ApprovesProject"
  "map_of event_actions ''revision.created'' = Some DesignsProject"
  "map_of event_actions ''design.ready'' = Some DesignsProject"
  "map_of event_actions ''ai_change_request.created'' = Some DesignsProject"
  "map_of event_actions ''ai_change_request.transitioned'' = Some DesignsProject"
  "map_of event_actions ''developer_annotation.created'' = Some DesignsProject"
  "map_of event_actions ''share_link.created'' = Some ManagesSharing"
  "map_of event_actions ''share_link.revoked'' = Some ManagesSharing"
  "map_of event_actions ''project.deleted'' = Some DeletesProject"
  by (simp_all add: event_actions_def guest_events_def)

lemma guest_event_table [simp]:
  "''review_thread.created'' \<in> set guest_events" "''review_thread.resolved'' \<in> set guest_events"
  "''review_thread.reopened'' \<in> set guest_events" "''review_message.created'' \<in> set guest_events"
  "''review_message.reacted'' \<in> set guest_events" "''comment.created'' \<in> set guest_events"
  "''thread.resolved'' \<in> set guest_events"
  by (simp_all add: guest_events_def)

lemma map_of_constant: "t \<in> set xs \<Longrightarrow> map_of (map (\<lambda>t. (t, c)) xs @ ys) t = Some c"
  by (induction xs) auto

lemma guest_event_action: "t \<in> set guest_events \<Longrightarrow> map_of event_actions t = Some CommentsProject"
  by (simp only: event_actions_def map_of_constant)

text \<open>Who was let in to comment may cause any of the events of guests.\<close>

definition comments_as :: "request \<Rightarrow> service_event set \<Rightarrow> string \<Rightarrow> string option \<Rightarrow> bool" where
  "comments_as q K project user \<longleftrightarrow> (\<forall>t \<in> set guest_events. announces q K t project (filled user))"

text \<open>Who was let in: a user for whom the authorizer agreed, or a guest with a link.\<close>

lemma require_access_Inr:
  assumes "require_access e q project permission w = (Inr user, w')"
  shows "acts_for q (set (world_trace w')) project permission (user_or_guest user) \<and>
    (permission = ShareCommenter \<longrightarrow> comments_as q (set (world_trace w')) project user)"
proof (cases user)
  case None
  then have "guest_of q (set (world_trace w')) project permission" using assms
    by (auto simp: require_access_def action_simps split: option.splits list.splits dest!: admit_guest_Inr)
  then show ?thesis using None
    by (auto simp: acts_for_def comments_as_def announces_def filled_def user_or_guest_def)
next
  case (Some u)
  then have "granted q (set (world_trace w')) u (permission_action permission) project" "u \<noteq> []"
    using assms by (auto simp: require_access_def action_simps granted_def
      split: option.splits list.splits dest!: asks_authorizer_Inr)
  then show ?thesis using Some guest_event_action
    by (auto simp: acts_for_def comments_as_def announces_def user_or_guest_def)
qed

lemma lawful_require_access:
  assumes "\<And>L user. acts_for q L project permission (user_or_guest user) \<Longrightarrow>
      (permission = ShareCommenter \<Longrightarrow> comments_as q L project user) \<Longrightarrow> lawful e q (L \<union> K) (f user)"
  shows "lawful e q K (andDo (require_access e q project permission) f)"
  by (rule lawful_learn [where P = "\<lambda>L user. acts_for q L project permission (user_or_guest user) \<and>
        (permission = ShareCommenter \<longrightarrow> comments_as q L project user)"])
    (auto intro: lawful_require_access_only assms dest: require_access_Inr)

section \<open>Steps that write\<close>

lemma lawful_emit:
  assumes "announces q K type project (filled user)"
  shows "lawful e q K (emit e project type user kind resource details)"
  unfolding emit_def Let_def
  by (rule lawful_issued_at lawful_next_id lawful_writes lawful_andDo)+ (use assms in \<open>simp add: filled_def\<close>)

text \<open>An event for an action that was granted, one of a guest, and one that reports a write.\<close>

lemma lawful_emit_granted:
  assumes "map_of event_actions type \<noteq> None" "u \<noteq> []" "granted q K u (the (map_of event_actions type)) project"
  shows "lawful e q K (emit e project type (Some u) kind resource details)"
  by (rule lawful_emit) (use assms in \<open>auto simp: announces_def\<close>)

lemma lawful_emit_guest:
  assumes "type \<in> set guest_events" "comments_as q K project user"
  shows "lawful e q K (emit e project type user kind resource details)"
  by (rule lawful_emit) (use assms in \<open>simp add: comments_as_def\<close>)

lemma lawful_emit_written:
  assumes "Issued c \<in> K" "may_write q K u c" "type = written_event q c" "project = written_project c" "u \<noteq> []"
  shows "lawful e q K (emit e project type (Some u) kind resource details)"
proof (rule lawful_emit)
  show "announces q K type project (filled (Some u))"
    using assms(1,2) by (auto simp: announces_def assms(3-5) simp del: may_write.simps)
qed

lemma lawful_mutates: "justified q K (MutateReviewThread m) \<Longrightarrow> lawful e q K (mutates e m)"
  unfolding mutates_def by (rule lawful_writes)

lemma lawful_commits: "justified q K (CommitDesign x) \<Longrightarrow> lawful e q K (commits e x)"
  unfolding commits_def by (rule lawful_writes)

text \<open>Computations that, when they succeed, have written something.\<close>

definition records :: "site \<Rightarrow> request \<Rightarrow> service_event set \<Rightarrow> repository_command \<Rightarrow> 'a action \<Rightarrow> bool" where
  "records e q K c a \<longleftrightarrow> lawful e q K a \<and>
     (\<forall>w x w'. K \<subseteq> set (world_trace w) \<longrightarrow> consistent (site_platform e) (world_store w) \<longrightarrow> a w = (Inr x, w') \<longrightarrow>
        Issued c \<in> set (world_trace w'))"

lemma records_then:
  assumes a: "records e q K c a" and f: "\<And>x. lawful e q (insert (Issued c) K) (f x)"
  shows "records e q K c (andDo a f)"
  unfolding records_def
proof (intro conjI allI impI)
  show "lawful e q K (andDo a f)"
    by (rule lawful_learn [where P = "\<lambda>L x. L = {Issued c}"]) (use a f in \<open>auto simp: records_def\<close>)
  fix w x w' assume K: "K \<subseteq> set (world_trace w)" "consistent (site_platform e) (world_store w)" "andDo a f w = (Inr x, w')"
  then obtain y w1 where steps: "a w = (Inr y, w1)" "f y w1 = (Inr x, w')" by (auto simp: andDo_Inr)
  have a': "lawful e q K a" and c: "Issued c \<in> set (world_trace w1)" using a K(1,2) steps(1) unfolding records_def by blast+
  note moved = lawfulD [OF a' K(1,2) steps(1)]
  have "insert (Issued c) K \<subseteq> set (world_trace w1)" using c moved(2) by simp
  from lawfulD(2) [OF f this moved(3) steps(2)] show "Issued c \<in> set (world_trace w')" by blast
qed

lemma records_writes: "justified q K c \<Longrightarrow> records e q K c (writes e args c r)"
  by (auto simp: records_def intro: lawful_writes dest: writes_issued)

lemma records_andDo:
  assumes "lawful e q K a" "\<And>x. records e q K c (f x)"
  shows "records e q K c (andDo a f)"
  unfolding records_def
proof (intro conjI allI impI)
  show "lawful e q K (andDo a f)" using assms by (auto simp: records_def intro: lawful_andDo)
  fix w x w' assume K: "K \<subseteq> set (world_trace w)" "consistent (site_platform e) (world_store w)" "andDo a f w = (Inr x, w')"
  then obtain y w1 where steps: "a w = (Inr y, w1)" "f y w1 = (Inr x, w')" by (auto simp: andDo_Inr)
  then show "Issued c \<in> set (world_trace w')"
    using assms(2) [of y] lawfulD(2,3) [OF assms(1) K(1,2) steps(1)] unfolding records_def by blast
qed

lemma records_refuseIf: "(\<not> b \<Longrightarrow> records e q K c a) \<Longrightarrow> records e q K c (refuseIf b f a)"
  by (cases b) (auto simp: records_def refuseIf_def refuse_Inr)

lemma records_rescue:
  assumes "records e q K c a" "\<And>f. lawful e q K (h f)" "\<And>f w x w'. h f w \<noteq> (Inr x, w')"
  shows "records e q K c (rescue a h)"
  unfolding records_def
proof (intro conjI allI impI)
  show "lawful e q K (rescue a h)" using assms(1,2) by (intro lawful_rescue) (simp_all add: records_def)
  fix w x w' assume "K \<subseteq> set (world_trace w)" "consistent (site_platform e) (world_store w)" "rescue a h w = (Inr x, w')"
  then show "Issued c \<in> set (world_trace w')"
    using assms(1,3) unfolding records_def by (cases "a w"; cases "fst (a w)") (auto simp: rescue_def)
qed

text \<open>A response is kept under the key and the scope of the request for what its operation has written.\<close>

lemma lawful_idempotent:
  assumes "records e q K c a" "header q ''x-selene-user-id'' = Some u" "may_write q K u c"
    and "scope = written_scope q u c" "key = header q ''idempotency-key''"
  shows "lawful e q K (idempotent e scope key a)"
proof -
  have keep: "lawful e q (insert (Issued c) K) (writes e args (PutResponse scope k r) f)"
    if "header q ''idempotency-key'' = Some k" for args k r f
  proof (rule lawful_writes)
    have "may_write q (insert (Issued c) K) u c" using assms(3) by (rule may_write_mono [rotated]) blast
    then show "justified q (insert (Issued c) K) (PutResponse scope k r)"
      using that assms(4) by (auto simp del: may_write.simps)
  qed
  have "lawful e q K (andDo a f)" if "\<And>x. lawful e q (insert (Issued c) K) (f x)" for f :: "json \<Rightarrow> json action"
    using records_then [OF assms(1) that] by (simp add: records_def)
  note operation = this
  have "lawful e q K a" using assms(1) by (simp add: records_def)
  then show ?thesis
    unfolding idempotent_def internally_def
    by (cases key) (auto intro!: lawful_refuseIf operation lawful_rescue keep lawful_andDo [OF lawful_rescue]
      lawful_andDo [OF lawful_rescue [OF keep]] simp: assms(5) split: option.split)
qed

text \<open>What was learned first still holds after more was learned.\<close>

lemma granted_more [simp, intro]:
  "header q ''x-selene-user-id'' = Some u \<Longrightarrow> granted q (insert (Asked u a (InProject p) True) K) u a p"
  "granted q K u a p \<Longrightarrow> granted q (insert x K) u a p"
  by (simp_all add: granted_def)

lemma may_create_more [simp, intro]:
  "header q ''x-selene-user-id'' = Some u \<Longrightarrow> may_create q (insert (Asked u CreatesProject (InOrganization i) True) K) u i"
  "may_create q K u i \<Longrightarrow> may_create q (insert x K) u i"
  by (simp_all add: may_create_def)

lemma acts_for_more [intro]:
  "acts_for q L p m b \<Longrightarrow> acts_for q (L \<union> K) p m b" "acts_for q K p m b \<Longrightarrow> acts_for q (insert x K) p m b"
  by (auto intro: acts_for_mono [rotated])

lemma comments_as_more [intro]:
  "comments_as q L p u \<Longrightarrow> comments_as q (L \<union> K) p u" "comments_as q K p u \<Longrightarrow> comments_as q (insert x K) p u"
  by (auto simp: comments_as_def intro: announces_mono [rotated])

text \<open>Steps whose result keeps something of their arguments.\<close>

lemma lawful_keeps:
  assumes "lawful e q K a" "\<And>w x w'. a w = (Inr x, w') \<Longrightarrow> P x" "\<And>x. P x \<Longrightarrow> lawful e q K (f x)"
  shows "lawful e q K (andDo a f)"
  by (rule lawful_learn [where P = "\<lambda>L x. L = {} \<and> P x"]) (auto intro: assms)

lemma lawful_andDo_checked: "(\<And>x. r = Inr x \<Longrightarrow> lawful e q K (f x)) \<Longrightarrow> lawful e q K (andDo (checked r) f)"
  by (cases r) (simp_all add: checked_def)

lemma lawful_issued_time: "(\<And>time. time \<noteq> [] \<Longrightarrow> lawful e q K (f time)) \<Longrightarrow> lawful e q K (andDo (issued_at e) f)"
  by (rule lawful_keeps [where P = "\<lambda>time. time \<noteq> []"]) (simp, auto simp: issued_at_def action_simps)

lemma lawful_with_revision:
  "(\<And>r. rev_project r = project \<Longrightarrow> rev_created_by r = user \<Longrightarrow> lawful e q K (f r)) \<Longrightarrow>
     lawful e q K (andDo (body_revision e kvs project user latest) f)"
  by (rule lawful_keeps [where P = "\<lambda>r. rev_project r = project \<and> rev_created_by r = user"])
    (simp add: lawful_quiet, auto simp: body_revision_def action_simps)

lemma lawful_with_thread:
  "(\<And>t. review_project t = project \<Longrightarrow> review_by t = user \<Longrightarrow> lawful e q K (f t)) \<Longrightarrow>
     lawful e q K (andDo (body_thread e kvs project user time a published) f)"
  by (rule lawful_keeps [where P = "\<lambda>t. review_project t = project \<and> review_by t = user"])
    (simp add: lawful_quiet, auto simp: body_thread_def action_simps)

lemma lawful_with_message:
  "(\<And>m. message_by m = user \<Longrightarrow> lawful e q K (f m)) \<Longrightarrow> lawful e q K (andDo (body_message e kvs user) f)"
  by (rule lawful_keeps [where P = "\<lambda>m. message_by m = user"]) (simp add: lawful_quiet, auto simp: body_message_def action_simps)

lemma commit_input_parts [simp]:
  "input_project (commit_input q kind user project time c) = project"
  "input_actor (commit_input q kind user project time c) = user"
  "input_command (commit_input q kind user project time c) = c"
  by (simp_all add: commit_input_def)

lemmas lawful_rules = lawful_require_user lawful_require_access lawful_existing_review lawful_existing_thread
  lawful_existing_request lawful_found lawful_with_revision lawful_with_thread lawful_with_message
  lawful_andDo_checked lawful_andDo_found lawful_issued_time lawful_steps lawful_quiet lawful_emit_granted
  lawful_emit_guest lawful_mutates lawful_commits lawful_writes lawful_andDo_give lawful_andDo

end
