(* ===== verification/Service_Lawful.thy ===== *)
theory Service_Lawful
  imports Service_Policy
begin

text \<open>
  Every route of \<open>packages/collaboration/src/service.ts\<close> is lawful, and with them the dispatch and the
  service as a whole.
\<close>

section \<open>Projects\<close>

lemma records_write_project:
  assumes "may_create q K user (project_organization x)" "request_path q = ''/v1/projects''" "user \<noteq> []"
  shows "records e q K (CreateProject x) (write_project e x user)"
proof -
  have now: "may_write q K user (CreateProject x)" and later: "may_write q (insert (Issued c) K) user (CreateProject x)" for c
    using assms(1,2) by auto
  show ?thesis unfolding write_project_def Let_def
    by (rule records_then records_writes lawful_emit_written [where c = "CreateProject x"] lawful_rules |
        (use now later assms(3) in \<open>auto simp del: may_write.simps\<close>; fail))+
qed

lemma lawful_post_project: "request_path q = ''/v1/projects'' \<Longrightarrow> lawful e q K (post_project e q)"
  unfolding post_project_def Let_def
  by (rule lawful_idempotent records_write_project lawful_rules | assumption | simp; fail)+

lemma lawful_delete_project_route: "lawful e q K (delete_project_route e q i)"
  unfolding delete_project_route_def
  by (rule lawful_rules | ((auto)[1]; fail))+

lemma lawful_post_revision: "lawful e q K (post_revision e q i)"
  unfolding post_revision_def Let_def
  by (rule lawful_rules | simp; fail)+

lemma lawful_get_readiness: "lawful e q K (get_readiness e q i)"
  unfolding get_readiness_def by (rule lawful_rules)+

lemma lawful_post_readiness: "lawful e q K (post_readiness e q i)"
  unfolding post_readiness_def
  by (rule lawful_rules | simp; fail)+

lemma lawful_post_share_link: "lawful e q K (post_share_link e q i)"
  unfolding post_share_link_def Let_def
  by (rule lawful_rules | simp; fail)+

lemma lawful_delete_share_link: "lawful e q K (delete_share_link e q i)"
  unfolding delete_share_link_def
  by (rule lawful_rules | ((auto)[1]; fail))+

lemma lawful_get_events: "lawful e q K (get_events e q i)"
  unfolding get_events_def by (rule lawful_rules)+

lemma lawful_get_event_stream: "lawful e q K (get_event_stream e q i)"
  unfolding get_event_stream_def by (rule lawful_rules)+

lemma lawful_get_export: "lawful e q K (get_export e q i)"
  unfolding get_export_def by (rule lawful_rules)+

lemma lawful_get_review_binding: "lawful e q K (get_review_binding e q i)"
  unfolding get_review_binding_def by (rule lawful_rules)+

lemma records_replaces: "justified q K (ReplaceProject x n) \<Longrightarrow> records e q K (ReplaceProject x n) (replaces e x n)"
  unfolding replaces_def by (rule records_writes)

lemma lawful_lost_race:
  "lawful e q K a \<Longrightarrow> lawful e q K (if f \<noteq> Unavailable then refuse f else andDo a (\<lambda>now. refuse (g now)))"
  by (auto intro: lawful_andDo)

lemma records_import_operation:
  assumes "may_write q K user (ReplaceProject x (Some expected))" "request_path q = ''/v1/import''" "user \<noteq> []"
  shows "records e q K (ReplaceProject x (Some expected)) (import_operation e x user expected)"
proof -
  have later: "may_write q (insert y K) user (ReplaceProject x (Some expected))" for y
    using assms(1) by (rule may_write_mono [rotated]) blast
  have allowed: "justified q K (ReplaceProject x (Some expected))" using assms(1) by (auto simp del: may_write.simps)
  show ?thesis unfolding import_operation_def Let_def
    by (rule records_andDo lawful_reads records_refuseIf records_then records_rescue records_replaces allowed
          lawful_lost_race lawful_emit_written [where c = "ReplaceProject x (Some expected)"] lawful_rules |
        (use later assms(2,3) in \<open>auto simp: andDo_Inr refuse_Inr simp del: may_write.simps split: if_splits\<close>; fail))+
qed

lemma get_project_id: "consistent p s \<Longrightarrow> get_project i s = Inr (Some x) \<Longrightarrow> project_id x = i"
  by (auto simp: get_project_def outcome_simps consistent_def dest: keyed_lookup)

lemma lawful_post_import: "request_path q = ''/v1/import'' \<Longrightarrow> lawful e q K (post_import e q)"
  unfolding post_import_def
  by (rule lawful_reads_of lawful_idempotent records_import_operation lawful_rules | assumption |
      (use get_project_id in \<open>fastforce\<close>; fail))+

lemma records_sync_operation:
  assumes "may_write q K user (ReplaceProject x expected)" "request_path q = ''/v1/sync''" "user \<noteq> []"
  shows "records e q K (ReplaceProject x expected) (sync_operation e x user known expected)"
proof -
  have later: "may_write q (insert y K) user (ReplaceProject x expected)" for y
    using assms(1) by (rule may_write_mono [rotated]) blast
  have allowed: "justified q K (ReplaceProject x expected)" using assms(1) by (auto simp del: may_write.simps)
  show ?thesis unfolding sync_operation_def Let_def
    by (rule records_then records_replaces allowed lawful_emit_written [where c = "ReplaceProject x expected"] lawful_rules |
        (use later assms(2,3) in \<open>auto simp del: may_write.simps\<close>; fail))+
qed

lemma lawful_post_sync: "request_path q = ''/v1/sync'' \<Longrightarrow> lawful e q K (post_sync e q)"
  unfolding post_sync_def andDo_if andDo_assoc
  by (rule lawful_observe_missing lawful_idempotent records_sync_operation lawful_rules | assumption | simp; fail)+

section \<open>Review threads\<close>

lemma lawful_get_review_threads: "lawful e q K (get_review_threads e q i)"
  unfolding get_review_threads_def Let_def by (rule lawful_rules)+

lemma lawful_post_review_thread: "lawful e q K (post_review_thread e q i)"
  unfolding post_review_thread_def
  by (rule lawful_rules | ((auto)[1]; fail))+

lemma lawful_mutation_response:
  "type \<in> set guest_events \<Longrightarrow> comments_as q K project user \<Longrightarrow>
     lawful e q K (mutation_response e project user type details r subject)"
  unfolding mutation_response_def by (rule lawful_rules | assumption)+

lemma lawful_post_review_message: "lawful e q K (post_review_message e q i)"
  unfolding post_review_message_def
  by (rule lawful_mutation_response lawful_rules | ((auto)[1]; fail))+

lemma lawful_post_review_reaction: "lawful e q K (post_review_reaction e q i message)"
  unfolding post_review_reaction_def Let_def
  by (rule lawful_rules | ((auto)[1]; fail))+

lemma lawful_post_review_read: "lawful e q K (post_review_read e q i message)"
  unfolding post_review_read_def Let_def
  by (rule lawful_rules | ((auto)[1]; fail))+

lemma justified_lifecycle:
  assumes "change \<in> {ResolveReview, ReopenReview}" "acts_for q L p ShareCommenter by"
  shows "justified q (L \<union> insert (Found ReviewThreads i p) K)
     (MutateReviewThread \<lparr>operation_id = k, expected_version = n, mutation_request = change i by time\<rparr>)"
proof -
  have "acts_for q (L \<union> insert (Found ReviewThreads i p) K) p ShareCommenter by" using assms(2) by (rule acts_for_more)
  then show ?thesis using assms(1) by (auto intro!: exI [of _ p])
qed

lemma lawful_post_lifecycle:
  assumes "change \<in> {ResolveReview, ReopenReview}" "type \<in> set guest_events"
  shows "lawful e q K (post_lifecycle e q i kind change type)"
  unfolding post_lifecycle_def
  by (rule lawful_mutation_response lawful_rules justified_lifecycle [OF assms(1)] assms(2) | assumption | ((auto)[1]; fail))+

lemma lawful_post_review_move: "lawful e q K (post_review_move e q i)"
  unfolding post_review_move_def
  by (rule lawful_rules | ((auto)[1]; fail))+

section \<open>Requests, annotations, discussions and approvals\<close>

lemma lawful_post_ai_request: "lawful e q K (post_ai_request e q i)"
  unfolding post_ai_request_def Let_def
  by (rule lawful_rules | simp; fail)+

lemma lawful_get_ai_requests: "lawful e q K (get_ai_requests e q i)"
  unfolding get_ai_requests_def by (rule lawful_rules)+

lemma lawful_get_ai_request: "lawful e q K (get_ai_request e q i)"
  unfolding get_ai_request_def by (rule lawful_rules)+

lemma moved_request_parts:
  "moved_request kvs x life time r = Inr y \<Longrightarrow> ai_id y = ai_id x \<and> ai_project y = ai_project x"
  by (auto simp: moved_request_def Let_def outcome_simps split: option.splits if_splits)

lemma lawful_post_ai_transition: "lawful e q K (post_ai_transition e q i)"
  unfolding post_ai_transition_def
  by (rule lawful_rules | ((frule moved_request_parts, auto)[1]; fail))+

lemma lawful_get_annotations: "lawful e q K (get_annotations e q i)"
  unfolding get_annotations_def by (rule lawful_rules)+

lemma lawful_post_annotation: "lawful e q K (post_annotation e q i)"
  unfolding post_annotation_def Let_def
  by (rule lawful_rules | simp; fail)+

lemma lawful_post_thread: "lawful e q K (post_thread e q i)"
  unfolding post_thread_def Let_def
  by (rule lawful_rules | simp; fail)+

lemma lawful_post_comment: "lawful e q K (post_comment e q i)"
  unfolding post_comment_def Let_def
  by (rule lawful_rules | ((auto)[1]; fail))+

lemma lawful_post_thread_resolve: "lawful e q K (post_thread_resolve e q i)"
  unfolding post_thread_resolve_def Let_def
  by (rule lawful_rules | ((auto)[1]; fail))+

lemma lawful_post_reaction: "lawful e q K (post_reaction e q i)"
  unfolding post_reaction_def Let_def
  by (rule lawful_rules | ((auto)[1]; fail))+

lemma lawful_post_approval: "lawful e q K (post_approval e q i)"
  unfolding post_approval_def Let_def
  by (rule lawful_rules | ((auto)[1]; fail))+

section \<open>The service\<close>

lemmas lawful_routes = lawful_post_project lawful_delete_project_route lawful_post_revision lawful_get_readiness
  lawful_post_readiness lawful_post_share_link lawful_delete_share_link lawful_get_events lawful_get_event_stream
  lawful_get_export lawful_get_review_binding lawful_post_import lawful_post_sync lawful_get_review_threads
  lawful_post_review_thread lawful_post_review_message lawful_post_review_reaction lawful_post_review_read
  lawful_post_review_move lawful_post_ai_request lawful_get_ai_requests lawful_get_ai_request
  lawful_post_ai_transition lawful_get_annotations lawful_post_annotation lawful_post_thread lawful_post_comment
  lawful_post_thread_resolve lawful_post_reaction lawful_post_approval

lemma lawful_with_id: "(\<And>i. lawful e q K (f i)) \<Longrightarrow> lawful e q K (with_id i f)"
  unfolding with_id_def by (rule lawful_not_found lawful_route_id lawful_if lawful_andDo)+

lemma lawful_fixed_route: "lawful e q K (fixed_route e m q)"
  unfolding fixed_route_def
  by (rule lawful_if lawful_routes lawful_json_response lawful_give lawful_not_found | simp; fail)+

lemma lawful_project_route: "lawful e q K (project_route e q kind i)"
  unfolding project_route_def by (rule lawful_if lawful_routes lawful_not_found)+

lemma lawful_member_route: "lawful e q K (member_route e q family i kind)"
  unfolding member_route_def post_review_resolve_def post_review_reopen_def
  by (rule lawful_if lawful_with_id lawful_project_route lawful_routes lawful_post_lifecycle lawful_not_found
      insertI1 insertI2 guest_event_table)+

lemma lawful_single_route: "lawful e q K (single_route e q family i)"
  unfolding single_route_def by (rule lawful_if lawful_with_id lawful_routes lawful_not_found)+

lemma lawful_message_route: "lawful e q K (message_route e q i message kind)"
  unfolding message_route_def by (rule lawful_if lawful_with_id lawful_routes lawful_not_found)+

lemma lawful_case_list:
  "lawful e q K f \<Longrightarrow> (\<And>x xs. lawful e q K (g x xs)) \<Longrightarrow> lawful e q K (case v of [] \<Rightarrow> f | x # xs \<Rightarrow> g x xs)"
  by (cases v) simp_all

lemma lawful_dispatch: "lawful e q K (dispatch e m q)"
  unfolding dispatch_def
  by (rule lawful_case_list lawful_fixed_route lawful_if lawful_with_id lawful_single_route lawful_member_route
      lawful_message_route lawful_routes lawful_not_found)+

lemma lawful_serve: "lawful e q K (serve e m q)"
proof (rule lawfulI)
  fix w :: world assume "K \<subseteq> set (world_trace w)" "consistent (site_platform e) (world_store w)"
  then show "moves e q w (snd (serve e m q w))"
    using lawful_dispatch [of e q K m, unfolded lawful_def]
    by (cases "opens_context e (world_tick w)") (auto simp: serve_def)
qed

end
