(* ===== verification/Service_Fixture.thy ===== *)
theory Service_Fixture
  imports Service_Lawful Collab_Fixture
begin

text \<open>
  A small deployment of the service for the witnesses: one store, ports that answer the same whatever was
  called before, and the deletion of a project.
\<close>

definition sample_time :: string where "sample_time = ''2026-01-02T03:04:05Z''"

definition sample_runtime :: runtime where
  "sample_runtime = \<lparr>json_parse = (\<lambda>s. None), json_indented = (\<lambda>v. []), text_number = (\<lambda>s. None)\<rparr>"

definition sample_site :: site where
  "sample_site = \<lparr>site_platform = sample_platform, site_runtime = sample_runtime, decode_text = (\<lambda>bs. []),
     to_number = (\<lambda>s. NotNumber), parses_date = (\<lambda>s. s \<noteq> []), url_origin = (\<lambda>s. None),
     quotient = (\<lambda>x y. NotNumber), sum_of = (\<lambda>x y. x), opens_context = (\<lambda>n. True), supervises = (\<lambda>n. Runs),
     others = (\<lambda>n. []), authorizes = (\<lambda>n u a t. u = ''u''), makes_id = (\<lambda>n k. JStr ''e''),
     tells_time = (\<lambda>n. JStr sample_time), signs = (\<lambda>n s. JStr ''s''), verifies = (\<lambda>n s x. JBool (x = ''s'')),
     hashes = (\<lambda>n s. JStr ''h''), has_signer = True, binds = None, allowed_origins = None, max_requests = 2,
     max_body = 1000, max_snapshot = 1000\<rparr>"

definition deletion_request :: request where
  "deletion_request = \<lparr>request_method = ''DELETE'', request_path = ''/v1/projects/p'', request_query = [],
     request_headers = [(''x-selene-user-id'', ''u'')], request_body = None, request_aborted = None\<rparr>"

definition sample_world :: world where
  "sample_world = \<lparr>world_store = sample_store, world_tick = 0, world_trace = []\<rparr>"

definition sample_metrics :: metrics where
  "sample_metrics = \<lparr>requests_seen = 0, requests_rejected = 0, requests_failed = 0\<rparr>"

definition deletion_event :: event_input where
  "deletion_event = \<lparr>event_id = ''e'', event_project = ''p'', event_type = ''project.deleted'', event_actor = Some ''u'',
     event_resource_type = ''project'', event_resource = ''p'', event_payload = JObj [], event_at = sample_time\<rparr>"

lemma deletion_fits: "fits_boundary (event_input_json deletion_event)"
  "fits_boundary (event_json (stored_event deletion_event (Suc 0)))"
  by (simp_all add: boundary_eval deletion_event_def event_input_json_def event_json_def event_entries_def
      optional_def stored_event_def event_input.defs sample_time_def nat_text.simps)

lemma sample_site_parts [simp]:
  "site_platform sample_site = sample_platform" "site_runtime sample_site = sample_runtime"
  "supervises sample_site n = Runs" "others sample_site n = []" "authorizes sample_site n v a t = (v = ''u'')"
  "makes_id sample_site n k = JStr ''e''" "tells_time sample_site n = JStr sample_time" "has_signer sample_site"
  "parses_date sample_site v \<longleftrightarrow> v \<noteq> []" "opens_context sample_site n"
  by (simp_all add: sample_site_def)

lemma sample_world_parts [simp]: "world_store sample_world = sample_store" "world_trace sample_world = []"
  by (simp_all add: sample_world_def)

lemma deletion_store_parts [simp]: "map_of (projects sample_store) ''p'' = Some sample_project" "events sample_store = []"
  "cursor sample_store = 0"
  by (simp_all add: sample_store_def empty_store_def)

lemma calm_call:
  "(\<And>n. supervises e n = Runs) \<Longrightarrow> (\<And>n. others e n = []) \<Longrightarrow> port_call e args f w =
    (let w1 = w\<lparr>world_tick := Suc (world_tick w)\<rparr> in
     if \<not> list_all fits_boundary args then (Inl Unavailable, w1)
     else (case f w1 of (Inl x, w2) \<Rightarrow> (Inl Unavailable, w2) | (Inr x, w2) \<Rightarrow> (Inr x, w2)))"
  by (simp add: port_call_def before_call_def Let_def)

lemmas action_eval = andDo_def refuseIf_def give_def refuse_def observe_def checked_def found_or_def
  asks_port_def reads_def writes_def issue_def asks_authorizer_def Let_def calm_call

lemma deletion_texts: "fits_boundary (JStr ''p'')" "fits_boundary (JStr ''event'')" "fits_boundary (JStr sample_time)"
  "fits_boundary (JStr ''e'')" "fits_boundary (question_json ''u'' DeletesProject (InProject ''p''))"
  by (simp_all add: boundary_eval sample_time_def question_json_def)

lemma deletion_ids: "stable_identifier ''p''" "stable_identifier ''u''"
  by (simp_all add: text_eval collab_limits)

lemma sample_time_filled: "sample_time \<noteq> []"
  by (simp add: sample_time_def)

lemma deletion_runs:
  "world_trace (snd (serve sample_site sample_metrics deletion_request sample_world)) =
     [Asked ''u'' DeletesProject (InProject ''p'') True, Issued (AppendEvent deletion_event)] @ Issued (DeleteProject ''p'') # []"
proof -
  have path: "split_at CHR ''/'' (request_path deletion_request) = [[], ''v1'', ''projects'', ''p'']"
    and kind: "is_delete deletion_request" and user: "header deletion_request ''x-selene-user-id'' = Some ''u''"
    by (simp_all add: deletion_request_def is_delete_def header_def)
  have sent: "\<lparr>event_id = ''e'', event_project = ''p'', event_type = ''project.deleted'', event_actor = Some ''u'',
     event_resource_type = ''project'', event_resource = ''p'', event_payload = JObj [], event_at = sample_time\<rparr> = deletion_event"
    by (simp add: deletion_event_def)
  have stored: "fst (append_event deletion_event sample_store) = Inr (stored_event deletion_event 1)"
    using deletion_fits by (simp add: append_event_def Let_def collab_limits)
  show ?thesis
    by (simp add: serve_def dispatch_def single_route_def with_id_def route_id_def delete_project_route_def emit_def
      require_user_def actor_def next_id_def issued_at_def owned_answer_def path kind user sent stored deletion_fits
      action_eval deletion_texts deletion_ids own_value_fits collab_limits get_project_def sample_fits sample_time_filled
      json_response_def split: sum.split)
qed

section \<open>Two share links\<close>

text \<open>The tokens of this deployment all decode to a grant of the second link.\<close>

definition link_expiry :: string where "link_expiry = ''2027-01-02T03:04:05Z''"

definition first_link :: share_link where
  "first_link = \<lparr>link_id = ''l1'', link_project = ''p'', link_hash = ''h'', link_permission = ShareViewer,
     link_expires = link_expiry, link_by = ''u'', link_at = sample_time, link_revoked = None\<rparr>"

definition second_link :: share_link where
  "second_link = first_link\<lparr>link_id := ''l2''\<rparr>"

definition second_grant :: share_grant where
  "second_grant = \<lparr>grant_link = ''l2'', grant_project = ''p'', grant_permission = ShareViewer, grant_expires = link_expiry\<rparr>"

definition guest_site :: site where
  "guest_site = sample_site\<lparr>decode_text := (\<lambda>bs. ''x''),
     site_runtime := sample_runtime\<lparr>json_parse := (\<lambda>s. Some (grant_json second_grant))\<rparr>\<rparr>"

definition guest_request :: request where
  "guest_request = \<lparr>request_method = ''GET'', request_path = ''/v1/projects/p/export'', request_query = [],
     request_headers = [(''x-selene-share-token'', ''AA~s'')], request_body = None, request_aborted = None\<rparr>"

definition shared_world :: world where
  "shared_world = sample_world\<lparr>world_store := sample_store\<lparr>links := [(''l1'', first_link), (''l2'', second_link)]\<rparr>\<rparr>"

definition revocation_event :: event_input where
  "revocation_event = deletion_event\<lparr>event_type := ''share_link.revoked'', event_resource_type := ''share_link'',
     event_resource := ''l1''\<rparr>"

definition revoked_first :: share_link where
  "revoked_first = first_link\<lparr>link_revoked := Some sample_time\<rparr>"

lemma link_times: "valid_timestamp (JStr sample_time)" "valid_timestamp (JStr link_expiry)"
  by code_simp+

lemma link_clock: "time_value sample_time = Some 20260102030405000" "time_value link_expiry = Some 20270102030405000"
proof -
  have "replicate 3 c = [c, c, c]" for c :: char by (simp add: numeral_3_eq_3)
  then show "time_value sample_time = Some 20260102030405000" "time_value link_expiry = Some 20270102030405000"
    using link_times by (simp_all add: time_value_def timestamp_fraction_def stamp_def number_of_def digit_of_def is_digit_def
      sample_time_def link_expiry_def)
qed

lemma guest_token: "decode_base64_url guest_site ''AA'' = Some ''x''" "token_parts ''AA~s'' = Some (''AA'', ''s'')"
proof -
  have "atob ''AA=='' = Some [0]" by code_simp
  then show "decode_base64_url guest_site ''AA'' = Some ''x''"
    by (simp add: guest_site_def decode_base64_url_def url_unsafe_def)
  show "token_parts ''AA~s'' = Some (''AA'', ''s'')" by (simp add: token_parts_def)
qed

lemma guest_site_parts [simp]:
  "site_platform guest_site = sample_platform" "json_parse (site_runtime guest_site) t = Some (grant_json second_grant)"
  "supervises guest_site n = Runs" "others guest_site n = []" "authorizes guest_site n v a x = (v = ''u'')"
  "makes_id guest_site n k = JStr ''e''" "tells_time guest_site n = JStr sample_time" "has_signer guest_site"
  "parses_date guest_site v \<longleftrightarrow> v \<noteq> []" "verifies guest_site n t v = JBool (v = ''s'')" "hashes guest_site n t = JStr ''h''"
  by (simp_all add: guest_site_def sample_site_def)

lemma link_records:
  "link_project first_link = ''p''" "link_revoked second_link = None" "link_project second_link = ''p''"
  "link_permission second_link = ShareViewer" "link_expires second_link = link_expiry" "link_hash second_link = ''h''"
  "link_id second_link = ''l2''"
  by (simp_all add: second_link_def first_link_def)

lemma link_fits: "fits_boundary (link_json first_link)" "fits_boundary (link_json revoked_first)" "fits_boundary (link_json second_link)"
  "fits_boundary (event_input_json revocation_event)" "fits_boundary (event_json (stored_event revocation_event (Suc 0)))"
  "fits_boundary (grant_json second_grant)" "fits_boundary (JStr ''l1'')" "fits_boundary (JStr ''l2'')" "fits_boundary (JStr ''x'')"
  "fits_boundary (JStr ''s'')" "fits_boundary (JStr ''h'')" "fits_boundary (JStr ''AA~s'')"
  "fits_boundary (question_json ''u'' ManagesSharing (InProject ''p''))"
  by (simp_all add: boundary_eval link_json_def revoked_first_def second_link_def first_link_def optional_def
      sample_time_def link_expiry_def revocation_event_def deletion_event_def event_input_json_def event_json_def
      event_entries_def stored_event_def event_input.defs nat_text.simps grant_json_def second_grant_def question_json_def)

definition revoked_world :: world where
  "revoked_world = snd (delete_share_link guest_site deletion_request ''l1'' shared_world)"

lemma shared_parts: "map_of (links (world_store shared_world)) ''l1'' = Some first_link"
  "links (world_store shared_world) = [(''l1'', first_link), (''l2'', second_link)]"
  "events (world_store shared_world) = []" "cursor (world_store shared_world) = 0" "world_trace shared_world = []"
  by (simp_all add: shared_world_def sample_store_def empty_store_def)

lemma first_link_deleted:
  "fst (delete_share_link guest_site deletion_request ''l1'' shared_world) = Inr (respond 204 NoBody) \<and>
   links (world_store revoked_world) = [(''l1'', revoked_first), (''l2'', second_link)]"
proof -
  have user: "header deletion_request ''x-selene-user-id'' = Some ''u''"
    by (simp add: deletion_request_def header_def)
  have sent: "\<lparr>event_id = ''e'', event_project = ''p'', event_type = ''share_link.revoked'', event_actor = Some ''u'',
     event_resource_type = ''share_link'', event_resource = ''l1'', event_payload = JObj [], event_at = sample_time\<rparr> = revocation_event"
    by (simp add: revocation_event_def deletion_event_def)
  have revoked: "first_link\<lparr>link_revoked := Some sample_time\<rparr> = revoked_first" by (simp add: revoked_first_def)
  show ?thesis
    by (simp add: revoked_world_def delete_share_link_def emit_def require_user_def actor_def next_id_def issued_at_def
      owned_answer_def user sent revoked link_fits shared_parts link_records action_eval deletion_texts deletion_ids
      own_value_fits collab_limits get_link_def sample_time_filled issue_def perform_at_def revoke_link_def answers_unit_def
      append_event_def after_def owned_as_Inr)
qed

lemma guest_let_in:
  "fst (require_access guest_site guest_request ''p'' ShareViewer revoked_world) = Inr None"
proof -
  have token: "header guest_request ''x-selene-share-token'' = Some ''AA~s''" "header guest_request ''x-selene-user-id'' = None"
    by (simp_all add: guest_request_def header_def)
  have parsed: "read_grant (inert_copy (grant_json second_grant)) =
      Some \<lparr>token_link = JStr ''l2'', token_project = JStr ''p'', token_permission = ShareViewer, token_expires = link_expiry\<rparr>"
    using link_times by (simp add: read_grant_def grant_json_def second_grant_def field_def)
  have later: "\<not> not_later link_expiry sample_time" by (simp add: not_later_def link_clock)
  show ?thesis
    by (simp add: require_access_def admit_guest_def verify_share_token_def rescue_def issued_at_def owned_answer_def
      asks_signer_def token parsed later link_clock link_times link_fits link_records guest_token first_link_deleted
      action_eval deletion_texts sample_time_filled own_value_fits collab_limits get_link_def link_admits_def owned_as_Inr)
qed

end
