(* ===== verification/Service_Theorems.thy ===== *)
theory Service_Theorems
  imports Service_Fixture
begin

text \<open>
  The properties of the collaboration service, with their witnesses and the lemmas that only they use.
\<close>

section \<open>Every write is authorized\<close>

text \<open>C2. No request writes what it was not allowed to: whatever a handler of the service writes to the
  repository, on any route, with any input, any interleaving with other requests and any failure of the
  host, was justified by what the same request asked, found and wrote before (\<open>justified\<close>).  The grants are
  those of the host's authorizer to the user that the request names, for the action of the write and for the
  very project or organization it touches: a revision, a readiness mark, an AI request, an annotation needs
  \<open>project:design\<close>, a discussion, reaction or move \<open>project:comment\<close>, an approval \<open>project:approve\<close>, a share link
  or its revocation \<open>project:manage-sharing\<close>, a deletion \<open>project:delete\<close>, a creation
  \<open>organization:create-project\<close>, an import \<open>project:restore\<close>, and a synchronization \<open>project:design\<close>, or
  \<open>organization:create-project\<close> if the request did not find the project.  Guests comment, reply, react,
  resolve and reopen only after a link of that very project was found valid for commenting, and set read
  marks after one valid for viewing.  Every event is one that its actor's grant stands for, and events,
  audit entries and kept responses for whole projects follow the write that they report.\<close>

theorem every_write_is_justified:
  assumes "consistent (site_platform e) (world_store w)" "world_trace w = []"
    and "world_trace (snd (serve e m q w)) = before @ Issued c # rest"
  shows "justified q (set before) c"
proof -
  obtain es where es: "world_trace (snd (serve e m q w)) = world_trace w @ es" "justified_from q (set (world_trace w)) es"
    using lawful_serve [of e q "{}" m] assms(1) unfolding lawful_def moves_def by blast
  then show ?thesis using assms(2,3) justified_from_Issued [of q "{}" before c rest] by simp
qed

theorem every_write_is_justified_witness:
  "\<exists>before rest. world_trace (snd (serve sample_site sample_metrics deletion_request sample_world)) =
       before @ Issued (DeleteProject ''p'') # rest \<and>
     Asked ''u'' DeletesProject (InProject ''p'') True \<in> set before"
proof -
  have "consistent (site_platform sample_site) (world_store sample_world)" "world_trace sample_world = []"
    using sample_consistent(1) by simp_all
  note deletion = every_write_is_justified [OF this deletion_runs]
  have "header deletion_request ''x-selene-user-id'' = Some ''u''" by (simp add: deletion_request_def header_def)
  then have "Asked ''u'' DeletesProject (InProject ''p'') True \<in>
      set [Asked ''u'' DeletesProject (InProject ''p'') True, Issued (AppendEvent deletion_event)]"
    using deletion by (auto simp: granted_def)
  then show ?thesis using deletion_runs by blast
qed

text \<open>A revoked link stays revoked, as long as nobody else sets an empty time of revocation: the service itself
  never does.\<close>

definition spared :: "site \<Rightarrow> string \<Rightarrow> bool" where
  "spared e i \<longleftrightarrow> (\<forall>n. RevokeLink i [] \<notin> snd ` set (others e n))"

lemma moves_dead:
  assumes "moves e q w w'" "spared e i" "link_dead i (world_store w)"
  shows "link_dead i (world_store w')"
proof -
  obtain es cs where es: "justified_from q (set (world_trace w)) es" "sourced e es cs"
    "world_store w' = foldl (perform_at (site_platform e)) (world_store w) cs" using assms(1) unfolding moves_def by blast
  have "Issued (RevokeLink i []) \<notin> set es" using justified_from_each [OF es(1)] by fastforce
  then have "RevokeLink i [] \<notin> snd ` set cs" using es(2) assms(2) unfolding sourced_def spared_def by blast
  then show ?thesis using assms(3) es(3) by (simp add: run_dead)
qed

section \<open>The service as a machine\<close>

definition service_step :: "site \<Rightarrow> service \<times> world \<Rightarrow> request \<times> int \<Rightarrow> service \<times> world" where
  "service_step e sw x = snd (handle_request e (fst x) (snd x) sw)"

definition service_sound :: "site \<Rightarrow> service \<times> world \<Rightarrow> bool" where
  "service_sound e sw \<longleftrightarrow>
     consistent (site_platform e) (world_store (snd sw)) \<and> ordered_log (world_store (snd sw)) \<and>
     distinct (map fst (rates (fst sw))) \<and> length (rates (fst sw)) \<le> max_clients \<and>
     requests_rejected (metrics (fst sw)) + requests_failed (metrics (fst sw)) \<le> requests_seen (metrics (fst sw))"

definition service_forward :: "site \<Rightarrow> service \<times> world \<Rightarrow> service \<times> world \<Rightarrow> bool" where
  "service_forward e sw sw' \<longleftrightarrow>
     only_appends (world_store (snd sw)) (world_store (snd sw')) \<and>
     (\<forall>i. spared e i \<and> link_dead i (world_store (snd sw)) \<longrightarrow> link_dead i (world_store (snd sw'))) \<and>
     requests_seen (metrics (fst sw)) \<le> requests_seen (metrics (fst sw'))"

lemma length_update: "length (AList.update k v xs) = (if k \<in> fst ` set xs then length xs else Suc (length xs))"
  by (induction xs) auto

lemma lets_through_keeps:
  assumes "lets_through n q now cs = (b, cs')" "distinct (map fst cs)" "length cs \<le> max_clients"
  shows "distinct (map fst cs') \<and> length cs' \<le> max_clients"
proof -
  have kept: "distinct (map fst (filter P cs)) \<and> length (filter P cs) \<le> max_clients" for P
    using assms(2,3) le_trans [OF length_filter_le [of P cs]] by (auto simp: distinct_map intro: inj_on_subset)
  have known: "k \<in> fst ` set cs" if "map_of cs k = Some x" for k x
    using map_of_SomeD [OF that] by force
  have counted: "distinct (map fst cs') \<and> length cs' \<le> max_clients" if "count_request n k now cs = (b, cs')" for k
    using that assms(2,3) kept [of "\<lambda>c. \<not> expired_at now (snd c)"] known [of k]
    by (auto simp: count_request_def Let_def length_update AList.distinct_update split: if_splits option.splits prod.splits)
  then show ?thesis using assms by (auto simp: lets_through_def split: option.splits if_splits)
qed

lemma serve_keeps:
  assumes "consistent (site_platform e) (world_store w) \<and> ordered_log (world_store w)" "serve e m q w = (r, w')"
  shows "consistent (site_platform e) (world_store w') \<and> ordered_log (world_store w')"
    and "only_appends (world_store w) (world_store w')"
    and "spared e i \<Longrightarrow> link_dead i (world_store w) \<Longrightarrow> link_dead i (world_store w')"
proof -
  have moved: "moves e q w w'" using lawfulD(1) [OF lawful_serve [of e q "{}" m] _ _ assms(2)] assms(1) by simp
  then obtain cs where cs: "world_store w' = foldl (perform_at (site_platform e)) (world_store w) cs"
    unfolding moves_def by blast
  show "consistent (site_platform e) (world_store w') \<and> ordered_log (world_store w')"
    unfolding cs by (rule repository.run_invariant [OF assms(1)])
  show "only_appends (world_store w) (world_store w')"
    unfolding cs by (rule repository.run_forward [OF assms(1)])
  show "link_dead i (world_store w')" if "spared e i" "link_dead i (world_store w)"
    by (rule moves_dead [OF moved that])
qed

lemma handle_request_keeps:
  assumes "service_sound e sw"
  shows "service_sound e (snd (handle_request e q now sw)) \<and> service_forward e sw (snd (handle_request e q now sw))"
proof (cases sw)
  case (Pair s w)
  have sound: "consistent (site_platform e) (world_store w) \<and> ordered_log (world_store w)"
    and few: "distinct (map fst (rates s))" "length (rates s) \<le> max_clients"
    and counts: "requests_rejected (metrics s) + requests_failed (metrics s) \<le> requests_seen (metrics s)"
    using assms Pair by (auto simp: service_sound_def)
  obtain b cs where counted: "lets_through (max_requests e) q now (rates s) = (b, cs)" by fastforce
  obtain r w' where served: "serve e ((metrics s)\<lparr>requests_seen := requests_seen (metrics s) + 1\<rparr>) q w = (r, w')" by fastforce
  show ?thesis
    using lets_through_keeps [OF counted few] serve_keeps [OF sound served] sound few counts counted served Pair
    by (cases b; cases r)
      (simp_all add: handle_request_def rate_limit_def Let_def service_sound_def service_forward_def only_appends_refl)
qed

interpretation service: total_machine "service_step e" "service_sound e" "service_forward e"
proof
  show "service_sound e (service_step e sw x)" "service_forward e sw (service_step e sw x)" if "service_sound e sw" for sw x
    using handle_request_keeps [OF that] by (simp_all add: service_step_def)
  show "service_forward e sw sw" for sw by (simp add: service_forward_def only_appends_refl)
  show "service_forward e s u" if "service_forward e s t" "service_forward e t u" for s t u
    using that only_appends_trans by (auto simp: service_forward_def)
qed

text \<open>A service that has just started on an empty repository.\<close>

definition fresh :: "service \<times> world" where
  "fresh = (\<lparr>rates = [], metrics = \<lparr>requests_seen = 0, requests_rejected = 0, requests_failed = 0\<rparr>\<rparr>,
     \<lparr>world_store = empty_store, world_tick = 0, world_trace = []\<rparr>)"

lemma fresh_sound: "service_sound e fresh"
  using empty_consistent by (simp add: service_sound_def fresh_def ordered_log_def empty_store_def)

text \<open>C17. Whatever requests a new service receives, at whatever times, whatever the other users of the
  repository do between its calls and however the host fails: the repository is consistent in the sense of
  the repository's own invariant (which speaks of the references that it checks, not of the parent of a
  revision or the revision of an imported baseline), the event log is ordered, the rate limiter keeps one
  window per client and at most 10,000 of them, and the counters of refusals and failures never exceed that of
  requests.  No later request takes back an event, an audit entry or a kept response, and a revocation that
  the service honours stays one, unless one of the other users of the repository revokes the link with an
  empty time, which counts as none: the service itself never does.\<close>

theorem service_stays_sound:
  "service_sound e (foldl (service_step e) fresh qs) \<and>
   service_forward e (foldl (service_step e) fresh qs) (foldl (service_step e) fresh (qs @ later))"
  using service.run_invariant [OF fresh_sound, of e qs]
    service.run_forward [OF service.run_invariant [OF fresh_sound, of e qs], of later] by simp

section \<open>The rate limit\<close>

text \<open>How many of a client's requests are passed on to a handler.\<close>

fun passed :: "site \<Rightarrow> string \<Rightarrow> (request \<times> int) list \<Rightarrow> service \<times> world \<Rightarrow> nat" where
  "passed e k [] sw = 0"
| "passed e k ((q, now) # xs) sw =
     (if client_of q = k \<and> request_method q \<noteq> ''OPTIONS'' \<and> fst (rate_limit e q now (fst sw)) = None then 1 else 0) +
     passed e k xs (service_step e sw (q, now))"

text \<open>What a client may still send in the minute from \<open>t\<close> on: its open window may end once.\<close>

definition allowance :: "nat \<Rightarrow> int \<Rightarrow> string \<Rightarrow> counters \<Rightarrow> nat" where
  "allowance n t k cs =
     (case map_of cs k of
        None \<Rightarrow> n
      | Some (start, m) \<Rightarrow> if start \<ge> t then n - m else n + (n - m))"

lemma map_of_kept:
  "distinct (map fst cs) \<Longrightarrow> map_of (filter P cs) k = (case map_of cs k of None \<Rightarrow> None | Some x \<Rightarrow> if P (k, x) then Some x else None)"
  by (induction cs) (auto simp: map_of_eq_None_iff split: option.splits)

lemma allowance_kept:
  assumes "distinct (map fst cs)" "t \<le> now" "now < t + window_ms"
  shows "allowance n t k (filter (\<lambda>c. \<not> expired_at now (snd c)) cs) \<le> allowance n t k cs"
  using assms by (auto simp: allowance_def map_of_kept expired_at_def split: option.splits)

lemma count_request_allowance:
  assumes "count_request n c now cs = (b, cs')" "distinct (map fst cs)" "t \<le> now" "now < t + window_ms" "1 \<le> n"
  shows "(if b \<and> c = k then 1 else 0) + allowance n t k cs' \<le> allowance n t k cs"
proof (cases "map_of cs c")
  case None
  let ?kept = "if length cs \<ge> max_clients then filter (\<lambda>c. \<not> expired_at now (snd c)) cs else cs"
  have kept: "allowance n t k ?kept \<le> allowance n t k cs" using allowance_kept [OF assms(2-4)] by simp
  have new: "map_of ?kept c = None" using None assms(2) by (simp add: map_of_kept)
  show ?thesis
  proof (cases "length ?kept \<ge> max_clients")
    case True
    then show ?thesis using assms(1) None kept by (auto simp: count_request_def Let_def split: if_splits)
  next
    case False
    then have "b" "cs' = AList.update c (now, 1) ?kept" using assms(1) None by (auto simp: count_request_def Let_def split: if_splits)
    then show ?thesis using kept new assms(3,5) by (auto simp: allowance_def AList.update_conv' split: if_splits)
  qed
next
  case (Some r)
  then show ?thesis using assms(1,3-5)
    by (cases r; cases "c = k") (auto simp: count_request_def allowance_def AList.update_conv' expired_at_def split: if_splits option.splits)
qed

lemma rate_limit_allowance:
  assumes "distinct (map fst (rates s))" "t \<le> now" "now < t + window_ms" "1 \<le> max_requests e"
  shows "(if client_of q = k \<and> request_method q \<noteq> ''OPTIONS'' \<and> fst (rate_limit e q now s) = None then 1 else 0) +
    allowance (max_requests e) t k (rates (snd (rate_limit e q now s))) \<le> allowance (max_requests e) t k (rates s)"
proof -
  obtain b cs where "count_request (max_requests e) (client_of q) now (rates s) = (b, cs)" by fastforce
  from this count_request_allowance [OF this assms(1-4), of k] show ?thesis
    by (auto simp: rate_limit_def lets_through_def Let_def split: option.splits bool.splits if_splits)
qed

lemma service_step_rates: "rates (fst (service_step e sw (q, now))) = rates (snd (rate_limit e q now (fst sw)))"
  by (auto simp: service_step_def handle_request_def split: prod.split option.split sum.split)

text \<open>C26. In any minute a client gets at most twice the limit of requests past the limiter: however its
  requests are mixed with those of other clients, in whatever order their times arrive, and with whatever
  windows the requests before the minute left open.\<close>

theorem minute_is_limited:
  assumes "1 \<le> max_requests e" "\<forall>(q, now) \<in> set xs. t \<le> now \<and> now < t + window_ms"
  shows "passed e k xs (foldl (service_step e) fresh qs) \<le> 2 * max_requests e"
proof -
  have step: "passed e k xs sw \<le> allowance (max_requests e) t k (rates (fst sw))" if "service_sound e sw" for sw
    using that assms(2)
  proof (induction xs arbitrary: sw)
    case (Cons x xs)
    obtain q now where x: "x = (q, now)" by (cases x)
    have "passed e k xs (service_step e sw x) \<le> allowance (max_requests e) t k (rates (fst (service_step e sw x)))"
      using Cons service.step_inv by simp
    moreover have "distinct (map fst (rates (fst sw)))" using Cons.prems(1) by (simp add: service_sound_def)
    from rate_limit_allowance [OF this, of t now e q k] have "(if client_of q = k \<and> request_method q \<noteq> ''OPTIONS'' \<and>
        fst (rate_limit e q now (fst sw)) = None then 1 else 0) + allowance (max_requests e) t k (rates (fst (service_step e sw x)))
        \<le> allowance (max_requests e) t k (rates (fst sw))"
      using Cons.prems(2) assms(1) x by (simp add: service_step_rates)
    ultimately show ?case by (simp add: x)
  qed simp
  have "passed e k xs (foldl (service_step e) fresh qs) \<le>
      allowance (max_requests e) t k (rates (fst (foldl (service_step e) fresh qs)))"
    by (rule step [OF service.run_invariant [OF fresh_sound]])
  also have "\<dots> \<le> 2 * max_requests e" by (auto simp: allowance_def split: option.split)
  finally show ?thesis .
qed

theorem minute_is_limited_witness:
  "passed sample_site ''u'' (replicate 5 (deletion_request, 59999)) (foldl (service_step sample_site) fresh []) \<le> 4"
  using minute_is_limited [of sample_site "replicate 5 (deletion_request, 59999)" 0 "''u''" "[]"]
  by (simp add: sample_site_def window_ms_def)

section \<open>Revoked links\<close>

text \<open>What a handler does between two steps that matter leaves a revoked link revoked, as long as nobody else
  sets an empty time of revocation.\<close>

definition dead_in :: "site \<Rightarrow> string \<Rightarrow> world \<Rightarrow> bool" where
  "dead_in e i w \<longleftrightarrow> consistent (site_platform e) (world_store w) \<and> link_dead i (world_store w)"

definition leaves_dead :: "site \<Rightarrow> string \<Rightarrow> 'a action \<Rightarrow> bool" where
  "leaves_dead e i a \<longleftrightarrow> (\<forall>w. dead_in e i w \<longrightarrow> dead_in e i (snd (a w)))"

lemma leaves_deadD: "leaves_dead e i a \<Longrightarrow> dead_in e i w \<Longrightarrow> a w = (r, w') \<Longrightarrow> dead_in e i w'"
  unfolding leaves_dead_def by (metis snd_conv)

lemma before_call_dead: "spared e i \<Longrightarrow> dead_in e i w \<Longrightarrow> dead_in e i (before_call e w)"
  by (simp add: dead_in_def spared_def run_dead calls_consistent)

lemma leaves_andDo: "leaves_dead e i a \<Longrightarrow> (\<And>x. leaves_dead e i (f x)) \<Longrightarrow> leaves_dead e i (andDo a f)"
  by (auto simp: leaves_dead_def andDo_def split: prod.split sum.split; metis snd_conv)

lemma leaves_rescue: "leaves_dead e i a \<Longrightarrow> (\<And>x. leaves_dead e i (f x)) \<Longrightarrow> leaves_dead e i (rescue a f)"
  by (auto simp: leaves_dead_def rescue_def split: prod.split sum.split; metis snd_conv)

lemma leaves_still [simp]: "leaves_dead e i (give x)" "leaves_dead e i (refuse y)"
  by (simp_all add: leaves_dead_def give_def refuse_def)

lemma leaves_refuseIf: "leaves_dead e i a \<Longrightarrow> leaves_dead e i (refuseIf c x a)"
  by (simp add: refuseIf_def)

lemma leaves_port_call:
  assumes "spared e i" "\<And>w. dead_in e i w \<Longrightarrow> dead_in e i (snd (f w))"
  shows "leaves_dead e i (port_call e args f)"
  unfolding leaves_dead_def
proof (intro allI impI)
  fix w :: world assume "dead_in e i w"
  then have "dead_in e i (before_call e w)" by (rule before_call_dead [OF assms(1)])
  then show "dead_in e i (snd (port_call e args f w))" using port_call_world [of e args f w] assms(2) by metis
qed

lemma leaves_reads: "spared e i \<Longrightarrow> leaves_dead e i (reads e args r)"
  and leaves_asks_port: "spared e i \<Longrightarrow> leaves_dead e i (asks_port e args g)"
  and leaves_asks_signer: "spared e i \<Longrightarrow> leaves_dead e i (asks_signer e args g)"
  by (simp_all add: reads_def asks_port_def asks_signer_def leaves_port_call)

lemma issue_dead: "dead_in e i w \<Longrightarrow> c \<noteq> RevokeLink i [] \<Longrightarrow> dead_in e i (issue e c w)"
  by (simp add: dead_in_def issue_def perform_at_consistent) (simp add: perform_at_def perform_dead)

lemma leaves_writes: "spared e i \<Longrightarrow> c \<noteq> RevokeLink i [] \<Longrightarrow> leaves_dead e i (writes e args c r)"
  unfolding writes_def by (rule leaves_port_call) (simp_all add: issue_dead)

lemma leaves_case_text:
  "(\<And>s. leaves_dead e i (f s)) \<Longrightarrow> leaves_dead e i g \<Longrightarrow> leaves_dead e i (case v of JStr s \<Rightarrow> f s | _ \<Rightarrow> g)"
  by (cases v) simp_all

lemma leaves_case_flag:
  "(\<And>s. leaves_dead e i (f s)) \<Longrightarrow> leaves_dead e i g \<Longrightarrow> leaves_dead e i (case v of JBool s \<Rightarrow> f s | _ \<Rightarrow> g)"
  by (cases v) simp_all

lemma leaves_case_option:
  "leaves_dead e i g \<Longrightarrow> (\<And>x. leaves_dead e i (f x)) \<Longrightarrow> leaves_dead e i (case v of None \<Rightarrow> g | Some x \<Rightarrow> f x)"
  by (cases v) simp_all

lemma leaves_case_prod: "(\<And>x y. leaves_dead e i (f x y)) \<Longrightarrow> leaves_dead e i (case v of (x, y) \<Rightarrow> f x y)"
  by (cases v) simp

lemmas leaves_steps = leaves_still leaves_refuseIf leaves_case_text leaves_case_flag leaves_case_option
  leaves_case_prod leaves_asks_port leaves_asks_signer leaves_rescue leaves_andDo

lemma leaves_issued_at: "spared e i \<Longrightarrow> leaves_dead e i (issued_at e)"
  unfolding issued_at_def by (rule leaves_steps | assumption)+

lemma leaves_next_id: "spared e i \<Longrightarrow> leaves_dead e i (next_id e kind)"
  unfolding next_id_def by (rule leaves_steps | assumption)+

lemma leaves_emit: "spared e i \<Longrightarrow> leaves_dead e i (emit e project type user kind resource details)"
  unfolding emit_def Let_def
  by (rule leaves_andDo leaves_issued_at leaves_next_id leaves_writes | assumption | simp)+

lemma leaves_verify: "spared e i \<Longrightarrow> leaves_dead e i (verify_share_token e token now)"
  unfolding verify_share_token_def by (rule leaves_steps | assumption)+

lemma writes_Inr:
  "writes e args c r w = (Inr x, w') \<Longrightarrow>
     r (world_store (before_call e w)) = Inr x \<and> w' = issue e c (before_call e w)"
  unfolding writes_def by (drule port_call_Inr) simp

lemma revoke_link_makes_dead: "revoke_link i time s = Inr s' \<Longrightarrow> time \<noteq> [] \<Longrightarrow> link_dead i s'"
  by (auto simp: revoke_link_def Let_def outcome_simps link_dead_def AList.update_conv' split: option.splits)

lemma revoke_issued:
  assumes "writes e args (RevokeLink i time) (\<lambda>s. answers_unit (revoke_link i time s)) w = (Inr x, w')" "time \<noteq> []"
    and "consistent (site_platform e) (world_store w)"
  shows "dead_in e i w'"
proof -
  let ?w = "before_call e w"
  from writes_Inr [OF assms(1)] have w': "w' = issue e (RevokeLink i time) ?w"
    and "answers_unit (revoke_link i time (world_store ?w)) = Inr x" by simp_all
  then obtain s' where s': "revoke_link i time (world_store ?w) = Inr s'" by (auto simp: answers_unit_def split: sum.splits)
  have "consistent (site_platform e) (world_store ?w)" using assms(3) by (simp add: calls_consistent)
  then show ?thesis using revoke_link_makes_dead [OF s' assms(2)] s'
    by (simp add: w' dead_in_def issue_def perform_at_consistent) (simp add: perform_at_def after_def)
qed

lemma lawful_consistent:
  "lawful e q {} a \<Longrightarrow> consistent (site_platform e) (world_store w) \<Longrightarrow> a w = (r, w') \<Longrightarrow>
     consistent (site_platform e) (world_store w')"
  using lawfulD(3) [of e q "{}" a w r w'] by simp

lemma issued_at_filled:
  "issued_at e w = (Inr time, w') \<Longrightarrow> time \<noteq> []"
  by (auto simp: issued_at_def action_simps)

lemma delete_share_link_dead:
  assumes "delete_share_link e q i w = (Inr r, w')" "spared e i"
    and "consistent (site_platform e) (world_store w)"
  shows "dead_in e i w'"
proof -
  obtain l w1 w2 w3 user time w4 u w5 v where steps: "reads e [JStr i] (get_link i) w = (Inr (Some l), w1)"
    "observe (Found ShareLinks i (link_project l)) w1 = (Inr (), w2)"
    "require_user e q ManagesSharing (InProject (link_project l)) w2 = (Inr user, w3)"
    "issued_at e w3 = (Inr time, w4)"
    "writes e [JStr i, JStr time] (RevokeLink i time) (\<lambda>s. answers_unit (revoke_link i time s)) w4 = (Inr u, w5)"
    "emit e (link_project l) ''share_link.revoked'' (Some user) ''share_link'' i [] w5 = (Inr v, w')"
    using assms(1) by (auto simp: delete_share_link_def action_simps found_or_def)
  have "consistent (site_platform e) (world_store w4)"
    using assms(3) steps(1,2,3,4) lawful_consistent lawful_reads lawful_observe lawful_require_user_only lawful_issued_at
      service_event.distinct by metis
  then have "dead_in e i w5" using revoke_issued steps(5) issued_at_filled [OF steps(4)] by blast
  then show ?thesis by (rule leaves_deadD [OF leaves_emit [OF assms(2)] _ steps(6)])
qed

text \<open>A guest is admitted by a link that is stored under its own name and is not revoked.\<close>

lemma admit_guest_alive:
  assumes "admit_guest e q project permission w = (Inr u, w')" "dead_in e i w" "spared e i"
  shows "\<exists>l. last (world_trace w') = Admitted l permission \<and> link_id l \<noteq> i \<and> link_project l = project"
proof -
  obtain token now w1 g w2 l w3 h w4 hash where steps: "issued_at e w = (Inr now, w1)"
    "rescue (verify_share_token e token now) (\<lambda>f. refuse (if f = Unavailable then Unavailable else Refused ErrForbidden)) w1 =
       (Inr g, w2)"
    "reads e [token_link g] (\<lambda>s. case token_link g of JStr i \<Rightarrow> get_link i s | _ \<Rightarrow> Inr None) w2 = (Inr (Some l), w3)"
    "link_admits l g hash now project permission" "observe (Admitted l permission) w4 = (Inr (), w')"
    using assms(1) by (auto simp: admit_guest_def action_simps)
  have "dead_in e i w2"
    using leaves_deadD [OF leaves_rescue [OF leaves_verify [OF assms(3)]] _ steps(2)]
      leaves_deadD [OF leaves_issued_at [OF assms(3)] assms(2) steps(1)] by (simp add: leaves_still)
  then have dead: "dead_in e i (before_call e w2)" by (rule before_call_dead [OF assms(3)])
  from port_call_Inr [OF steps(3) [unfolded reads_def]] obtain j where
    "map_of (links (world_store (before_call e w2))) j = Some l"
    by (auto simp: get_link_def outcome_simps split: json.splits option.splits)
  moreover have "keyed link_id (links (world_store (before_call e w2)))" using dead by (simp add: dead_in_def consistent_def)
  ultimately have "link_id l = j" "map_of (links (world_store (before_call e w2))) (link_id l) = Some l"
    by (auto simp: keyed_def list_all_iff dest!: map_of_SomeD)
  then have "link_id l \<noteq> i" using dead steps(4) by (auto simp: dead_in_def link_dead_def link_admits_def)
  then show ?thesis using steps(4,5) by (auto simp: link_admits_def observe_def)
qed

text \<open>C11. A revoked link admits nobody any more: after a deletion of the link was answered, and after whatever
  further calls the repository received, except a revocation of the same link with an empty time, a guest
  that is let in for any project or permission was let in by another link, one that is for the project and
  was not revoked.  The exception is one that no handler of the service makes, but other users of the
  repository can: an empty time of revocation counts as none.\<close>

theorem revoked_link_admits_nobody:
  assumes "consistent (site_platform e) (world_store w)" "spared e i"
    and "delete_share_link e q i w = (Inr r, w1)"
    and "RevokeLink i [] \<notin> snd ` set calls" "world_store w2 = foldl (perform_at (site_platform e)) (world_store w1) calls"
    and "require_access e q2 project permission w2 = (Inr None, w3)"
  shows "\<exists>l. last (world_trace w3) = Admitted l permission \<and> link_id l \<noteq> i \<and> link_project l = project"
proof -
  have "dead_in e i w1" by (rule delete_share_link_dead [OF assms(3,2,1)])
  then have "dead_in e i w2" using assms(4,5) by (simp add: dead_in_def calls_consistent run_dead)
  moreover have "\<exists>u. admit_guest e q2 project permission w2 = (Inr u, w3)"
    using assms(6) by (auto simp: require_access_def action_simps split: option.splits list.splits)
  ultimately show ?thesis using admit_guest_alive assms(2) by blast
qed

lemma two_links: "keyed link_id [(''l1'', first_link), (''l2'', second_link)]"
  by (simp add: keyed_def first_link_def second_link_def)

theorem revoked_link_admits_nobody_witness:
  "\<exists>l. last (world_trace (snd (require_access guest_site guest_request ''p'' ShareViewer revoked_world))) = Admitted l ShareViewer \<and>
     link_id l \<noteq> ''l1'' \<and> link_project l = ''p''"
proof -
  have "consistent (site_platform guest_site) (world_store shared_world)"
    using sample_consistent(1) two_links
    by (simp add: shared_world_def consistent_def known_defs [abs_def] revision_in_def comment_in_def sample_store_def
        empty_store_def cong: option.case_cong)
  moreover have "spared guest_site ''l1''" by (simp add: spared_def)
  moreover have "delete_share_link guest_site deletion_request ''l1'' shared_world = (Inr (respond 204 NoBody), revoked_world)"
    using first_link_deleted by (simp add: revoked_world_def prod_eq_iff)
  moreover have "require_access guest_site guest_request ''p'' ShareViewer revoked_world =
      (Inr None, snd (require_access guest_site guest_request ''p'' ShareViewer revoked_world))"
    using guest_let_in by (simp add: prod_eq_iff)
  ultimately show ?thesis
    using revoked_link_admits_nobody [of guest_site shared_world "''l1''" deletion_request "respond 204 NoBody" revoked_world "[]"
        revoked_world guest_request "''p''" ShareViewer] by simp
qed

section \<open>Idempotent operations\<close>

text \<open>A response that was kept under a key stays kept.\<close>

lemma kept_response_stays:
  "map_of (responses s) k = Some r \<Longrightarrow> map_of (responses (foldl (perform_at p) s cs)) k = Some r"
proof (induction cs arbitrary: s)
  case (Cons c cs)
  have "map_of (responses (perform_at p s c)) k = Some r"
    unfolding perform_at_def by (rule only_appendsD(4) [OF perform_appends Cons.prems])
  then show ?case using Cons.IH by simp
qed simp

lemma copy_kept_idem [simp]: "copy_kept (copy_kept r) = copy_kept r"
  by (cases r) (simp_all add: copy_revision_def)

lemma reads_keeps [simp]: "world_trace (snd (reads e args r w)) = world_trace w"
  "world_store (snd (reads e args r w)) = foldl (perform_at (site_platform e)) (world_store w) (others e (world_tick w))"
  using port_call_world [of e args "\<lambda>w. (r (world_store w), w)" w] by (auto simp: reads_def)

lemma internally_Inr: "internally a w = (Inr x, w') \<longleftrightarrow> a w = (Inr x, w')"
  by (auto simp: internally_def rescue_def refuse_def split: prod.splits sum.splits)

lemma case_kept_Inr:
  "(case v of None \<Rightarrow> a | Some r \<Rightarrow> f r) w = (Inr y, w') \<longleftrightarrow>
     (v = None \<and> a w = (Inr y, w')) \<or> (\<exists>r. v = Some r \<and> f r w = (Inr y, w'))"
  by (cases v) auto

lemma put_response_kept:
  "put_response scope k r s = Inr (x, s') \<Longrightarrow> \<exists>y. map_of (responses s') (scoped_key scope k) = Some y \<and> x = copy_kept y"
  by (auto simp: put_response_def outcome_simps AList.update_conv' split: option.splits)

lemma idempotent_stores:
  assumes "idempotent e scope (Some k) a w = (Inr v, w1)"
  shows "\<exists>r. map_of (responses (world_store w1)) (scoped_key scope k) = Some r \<and> v = kept_json (copy_kept r)"
proof -
  obtain found w2 where found: "reads e [JStr scope, JStr k] (get_response scope k) w = (Inr found, w2)"
    and rest: "found = None \<and> (\<exists>u w3 x. a w2 = (Inr u, w3) \<and>
        writes e [JStr scope, JStr k, u] (PutResponse scope k (OtherResponse (inert_copy u)))
          (\<lambda>s. answers_value kept_json (put_response scope k (OtherResponse (inert_copy u)) s)) w3 = (Inr x, w1) \<and> v = kept_json x) \<or>
      (\<exists>r. found = Some r \<and> v = kept_json r \<and> w1 = w2)"
    using assms by (auto simp: idempotent_def action_simps internally_Inr case_kept_Inr)
  have w2: "w2 = before_call e w" "get_response scope k (world_store w2) = Inr found"
    using port_call_Inr [OF found [unfolded reads_def]] by auto
  show ?thesis using rest
  proof (elim disjE exE conjE)
    fix r assume "found = Some r" "v = kept_json r" "w1 = w2"
    then show ?thesis using w2(2) by (auto simp: get_response_def outcome_simps split: option.splits)
  next
    fix u w3 x assume x: "writes e [JStr scope, JStr k, u] (PutResponse scope k (OtherResponse (inert_copy u)))
          (\<lambda>s. answers_value kept_json (put_response scope k (OtherResponse (inert_copy u)) s)) w3 = (Inr x, w1)" "v = kept_json x"
    let ?w = "before_call e w3" and ?r = "OtherResponse (inert_copy u)"
    from writes_Inr [OF x(1)] have w1: "w1 = issue e (PutResponse scope k ?r) ?w"
      and "answers_value kept_json (put_response scope k ?r (world_store ?w)) = Inr x" by simp_all
    then obtain s' where s': "put_response scope k ?r (world_store ?w) = Inr (x, s')"
      by (auto simp: answers_value_def outcome_simps split: sum.splits prod.splits)
    then have "world_store w1 = s'" by (simp add: w1 issue_def perform_at_def after_answer_def)
    then show ?thesis using put_response_kept [OF s'] x(2) by auto
  qed
qed

text \<open>C24. A repeated request is answered and not carried out: once an operation was answered under an idempotency
  key, whatever calls the repository received since, the same key in the same scope gets the same answer,
  whatever operation it now names, and nothing is asked, found or written; when the stored answer cannot be
  fetched the request fails as an internal error and is not carried out either.\<close>

theorem repeated_request_is_replayed:
  assumes "idempotent e scope (Some k) a w = (Inr v, w1)"
    and "world_store w2 = foldl (perform_at (site_platform e)) (world_store w1) calls"
  shows "fst (idempotent e scope (Some k) b w2) \<in> {Inr v, Inl Internal} \<and>
    world_trace (snd (idempotent e scope (Some k) b w2)) = world_trace w2"
proof -
  obtain r where "map_of (responses (world_store w1)) (scoped_key scope k) = Some r" and v: "v = kept_json (copy_kept r)"
    using idempotent_stores [OF assms(1)] by blast
  then have kept: "map_of (responses (world_store (before_call e w2))) (scoped_key scope k) = Some r"
    using assms(2) by (simp add: kept_response_stays)
  obtain x w3 where call: "reads e [JStr scope, JStr k] (get_response scope k) w2 = (x, w3)" by fastforce
  have w3: "world_trace w3 = world_trace w2" using reads_keeps(1) [of e "[JStr scope, JStr k]" "get_response scope k" w2] call by simp
  have x: "y = Some (copy_kept r)" if "x = Inr y" for y
    using port_call_Inr [OF call [unfolded reads_def that]] kept by (auto simp: get_response_def outcome_simps)
  show ?thesis
    using w3 x by (cases x) (auto simp: idempotent_def refuseIf_def refuse_def give_def andDo_def internally_def rescue_def call v)
qed

theorem repeated_request_is_replayed_witness:
  "fst (idempotent sample_site ''s'' (Some ''k'') (refuse Unavailable)
     (snd (idempotent sample_site ''s'' (Some ''k'') (give (JStr ''x'')) sample_world))) \<in> {Inr (JStr ''x''), Inl Internal}"
proof -
  have fits: "fits_boundary (JStr ''s'')" "fits_boundary (JStr ''k'')" "fits_boundary (JStr ''x'')" "text_fits 256 ''k''"
    by (simp_all add: boundary_eval text_eval)
  have "responses sample_store = []" by (simp add: sample_store_def empty_store_def)
  then have "fst (idempotent sample_site ''s'' (Some ''k'') (give (JStr ''x'')) sample_world) = Inr (JStr ''x'')"
    by (simp add: idempotent_def internally_def rescue_def action_eval fits get_response_def put_response_def answers_value_def
        lacks_room_def has_def collab_limits owned_as_Inr)
  then have "idempotent sample_site ''s'' (Some ''k'') (give (JStr ''x'')) sample_world =
      (Inr (JStr ''x''), snd (idempotent sample_site ''s'' (Some ''k'') (give (JStr ''x'')) sample_world))"
    by (simp add: prod_eq_iff)
  from repeated_request_is_replayed [OF this, of _ "[]"] show ?thesis by simp
qed

end
