(* ===== verification/Share_Roundtrip.thy ===== *)
theory Share_Roundtrip
  imports Service_Fixture
begin

text \<open>
  The tokens of \<open>createSignedShareToken\<close> are read back by \<open>verifySignedShareToken\<close>: base64url decodes to the
  bytes that were encoded, the parts of a token are found again, and the grant is the one that was signed.
\<close>

section \<open>base64url\<close>

lemma char_codes: "c = CHR ''+'' \<longleftrightarrow> code_unit c = 43" "c = CHR ''/'' \<longleftrightarrow> code_unit c = 47"
  "c = CHR ''-'' \<longleftrightarrow> code_unit c = 45" "c = CHR ''_'' \<longleftrightarrow> code_unit c = 95" "c = CHR ''='' \<longleftrightarrow> code_unit c = 61"
  "c = CHR ''~'' \<longleftrightarrow> code_unit c = 126"
  using of_char_eq_iff [of c "CHR ''+''", where 'a = nat] of_char_eq_iff [of c "CHR ''/''", where 'a = nat]
    of_char_eq_iff [of c "CHR ''-''", where 'a = nat] of_char_eq_iff [of c "CHR ''_''", where 'a = nat]
    of_char_eq_iff [of c "CHR ''=''", where 'a = nat] of_char_eq_iff [of c "CHR ''~''", where 'a = nat] by simp_all

lemma base64_table: "n < 64 \<Longrightarrow> base64_value (base64_char n) = Some n \<and> url_unsafe (url_safe (base64_char n)) = base64_char n \<and>
    \<not> ascii_space (base64_char n) \<and> base64_char n \<noteq> CHR ''='' \<and> url_safe (base64_char n) \<noteq> CHR ''~''"
proof -
  assume "n < 64"
  then consider "n < 26" | "26 \<le> n" "n < 52" | "52 \<le> n" "n < 62" | "n = 62" | "n = 63" by linarith
  then show ?thesis
    by cases (simp_all add: base64_char_def base64_value_def url_safe_def url_unsafe_def ascii_space_def is_upper_def is_lower_def
        is_digit_def char_codes, arith?)
qed

lemma utf8_bytes_small: "b \<in> set (utf8_bytes s) \<Longrightarrow> b < 256"
proof -
  have "code_unit c < 256" for c using nat_of_char_less_256 by simp
  then have "b < 256" if "b \<in> set (utf8_char c)" for b c
    using that less_mult_imp_div_less [of "code_unit c" 4 64] nat_of_char_less_256 [of c] by (auto split: if_splits)
  then show "b \<in> set (utf8_bytes s) \<Longrightarrow> b < 256" by (auto simp: utf8_bytes_def simp del: utf8_char.simps)
qed

lemma sextets_small: "\<forall>b \<in> set bs. b < 256 \<Longrightarrow> x \<in> set (sextets bs) \<Longrightarrow> x < 64"
  by (induction bs rule: sextets.induct) (auto simp: less_mult_imp_div_less)

lemma two_digits: "(a mod 4 * 16 + b div 16) div 16 = a mod 4" "(a mod 4 * 16 + b div 16) mod 16 = b div 16"
  if "b < 256" for a b :: nat
  using that by (simp_all add: less_mult_imp_div_less)

lemma four_digits: "(b mod 16 * 4 + c div 64) div 4 = b mod 16" "(b mod 16 * 4 + c div 64) mod 4 = c div 64"
  if "c < 256" for b c :: nat
  using that by (simp_all add: less_mult_imp_div_less)

lemma octets_sextets: "\<forall>b \<in> set bs. b < 256 \<Longrightarrow> octets (sextets bs) = bs"
  by (induction bs rule: sextets.induct) (simp_all add: two_digits four_digits less_mult_imp_div_less)

lemma length_sextets: "length (sextets bs) mod 4 = (if length bs mod 3 = 0 then 0 else Suc (length bs mod 3))"
  proof -
  have "Suc (Suc (Suc k)) mod 3 = k mod 3" "Suc (Suc (Suc (Suc k))) mod 4 = k mod 4" for k by presburger+
  then show ?thesis by (induction bs rule: sextets.induct) simp_all
qed

lemma drop_padding_exact:
  assumes "length s mod 4 \<noteq> 1" "\<forall>c \<in> set s. c \<noteq> CHR ''=''"
  shows "drop_padding (s @ drop ((length s + 3) mod 4) ''==='') = s"
proof -
  have last: "s \<noteq> [] \<Longrightarrow> last s \<noteq> CHR ''=''" using assms(2) by simp
  have "length s mod 4 < 4" by simp
  then consider "length s mod 4 = 0" | "length s mod 4 = 2" | "length s mod 4 = 3" using assms(1) by linarith
  then show ?thesis
  proof cases
    case 1
    then have "(length s + 3) mod 4 = 3" by presburger
    then show ?thesis using last 1 by (cases "s = []") (simp_all add: drop_padding_def)
  next
    case 2
    then have "(length s + 3) mod 4 = 1" "(length s + 2) mod 4 = 0" by presburger+
    then show ?thesis by (simp add: drop_padding_def butlast_append)
  next
    case 3
    then have "(length s + 3) mod 4 = 2" "Suc (length s) mod 4 = 0" "s \<noteq> []" by (presburger, presburger, auto)
    then show ?thesis using last by (simp add: drop_padding_def butlast_append numeral_2_eq_2)
  qed
qed

lemma length_sextets_padded: "length (sextets bs) mod 4 \<noteq> 1"
  by (simp add: length_sextets)

text \<open>The decoder undoes the encoder, up to the text decoder of the runtime.\<close>

lemma base64_url_roundtrip: "decode_base64_url e (encode_base64_url s) = Some (decode_text e (map of_nat (utf8_bytes s)))"
proof -
  let ?xs = "sextets (utf8_bytes s)" and ?cs = "map base64_char (sextets (utf8_bytes s))"
  have small: "\<forall>x \<in> set ?xs. x < 64" using sextets_small utf8_bytes_small by blast
  have chars: "map url_unsafe (encode_base64_url s) = ?cs"
    using small base64_table by (simp add: encode_base64_url_def)
  have len: "length (encode_base64_url s) = length ?cs" by (simp add: encode_base64_url_def)
  have plain: "\<forall>c \<in> set ?cs. \<not> ascii_space c \<and> c \<noteq> CHR ''=''" using small base64_table by auto
  let ?pad = "drop ((length ?cs + 3) mod 4) ''===''"
  have "filter (\<lambda>c. \<not> ascii_space c) (?cs @ ?pad) = ?cs @ ?pad"
    using plain by (auto simp: filter_id_conv ascii_space_def dest: in_set_dropD)
  moreover have "drop_padding (?cs @ ?pad) = ?cs"
    by (rule drop_padding_exact) (use length_sextets_padded plain in auto)
  moreover have "map (\<lambda>c. the (base64_value c)) ?cs = ?xs" "\<not> list_ex (\<lambda>c. base64_value c = None) ?cs"
    using small base64_table by (auto simp: list_ex_iff intro!: map_idI)
  ultimately have "atob (?cs @ ?pad) = Some (octets ?xs)"
    using length_sextets_padded [of "utf8_bytes s"] by (simp add: atob_def Let_def)
  moreover have "octets ?xs = utf8_bytes s" using octets_sextets utf8_bytes_small by blast
  ultimately show ?thesis unfolding decode_base64_url_def chars len by simp
qed

section \<open>Tokens\<close>

lemma split_at_none: "c \<notin> set s \<Longrightarrow> split_at c s = [s]"
  by (induction s) auto

lemma split_at_first: "c \<notin> set a \<Longrightarrow> split_at c (a @ c # b) = a # split_at c b"
  by (induction a) auto

lemma encoded_no_tilde: "CHR ''~'' \<notin> set (encode_base64_url s)"
proof
  assume "CHR ''~'' \<in> set (encode_base64_url s)"
  then obtain n where "n \<in> set (sextets (utf8_bytes s))" "url_safe (base64_char n) = CHR ''~''"
    by (auto simp: encode_base64_url_def)
  moreover from this have "n < 64" using sextets_small utf8_bytes_small by blast
  ultimately show False using base64_table by blast
qed

lemma token_parts_made:
  "CHR ''~'' \<notin> set sig \<Longrightarrow> sig \<noteq> [] \<Longrightarrow> encode_base64_url s \<noteq> [] \<Longrightarrow>
     token_parts (encode_base64_url s @ CHR ''~'' # sig) = Some (encode_base64_url s, sig)"
  by (simp add: token_parts_def split_at_first encoded_no_tilde split_at_none)

lemma text_fits_boundary: "length s \<le> max_text \<Longrightarrow> fits_boundary (JStr s)"
proof -
  have "utf8_length s \<le> 2 * length s" by (induction s) auto
  then show "length s \<le> max_text \<Longrightarrow> fits_boundary (JStr s)" by (simp add: boundary_eval)
qed

lemma encode_filled: "s \<noteq> [] \<Longrightarrow> encode_base64_url s \<noteq> []"
proof (cases s)
  case (Cons c r)
  then obtain b bs where "utf8_bytes s = b # bs" by (cases "code_unit c < 128") (auto simp: utf8_bytes_def)
  then have "sextets (utf8_bytes s) \<noteq> []" by (cases "utf8_bytes s" rule: sextets.cases) auto
  then show ?thesis by (simp add: encode_base64_url_def)
qed simp

definition granted_token :: "share_grant \<Rightarrow> token_grant" where
  "granted_token g = \<lparr>token_link = JStr (grant_link g), token_project = JStr (grant_project g),
     token_permission = grant_permission g, token_expires = grant_expires g\<rparr>"

lemma grant_payload: "stringify (grant_json g) \<noteq> []"
  by (simp add: grant_json_def)

lemma grant_read: "grant_link g \<noteq> [] \<Longrightarrow> grant_project g \<noteq> [] \<Longrightarrow> valid_timestamp (JStr (grant_expires g)) \<Longrightarrow>
    read_grant (inert_copy (grant_json g)) = Some (granted_token g)"
  by (cases "grant_permission g") (simp_all add: grant_json_def read_grant_def field_def granted_token_def)

text \<open>C30. A token that the service issued is accepted back: for as long as the grant has not expired, and whatever
  happened in between, verifying the token returns the link, the project, the permission and the expiry that
  were signed, or fails with an outage when the call to the signer did not run.  It needs of the host that the
  signer verifies its own signatures, which are not empty and have no tilde, and of the runtime that the
  payload is decoded and parsed to what it was; and the whole token must be within the limit of texts.\<close>

theorem issued_token_verifies:
  assumes "create_share_token e g w = (Inr token, w1)"
    and "\<forall>n m s. signs e n (stringify (grant_json g)) = JStr s \<longrightarrow>
       verifies e m (stringify (grant_json g)) s = JBool True \<and> s \<noteq> [] \<and> CHR ''~'' \<notin> set s"
    and "decode_text e (map of_nat (utf8_bytes (stringify (grant_json g)))) = stringify (grant_json g)"
    and "json_parse (site_runtime e) (stringify (grant_json g)) = Some (grant_json g)"
    and "valid_timestamp (JStr now)" "\<not> not_later (grant_expires g) now" "length token \<le> max_text"
  shows "fst (verify_share_token e token now w2) =
    (if supervises e (Suc (world_tick w2)) = Runs then Inr (granted_token g) else Inl Unavailable)"
proof -
  let ?payload = "stringify (grant_json g)"
  have grant: "fits_boundary (grant_json g)" "valid_timestamp (JStr (grant_expires g))" "grant_link g \<noteq> []" "grant_project g \<noteq> []"
    using assms(1) by (auto simp: create_share_token_def action_simps stable_identifier_def)
  from assms(1) obtain v w3 where call: "asks_signer e [JStr ?payload] (\<lambda>n. signs e n ?payload) w = (Inr v, w3)"
    and v: "\<exists>s. v = JStr s \<and> length s \<le> max_text \<and> token = encode_base64_url ?payload @ CHR ''~'' # s"
    by (auto simp: create_share_token_def Let_def action_simps)
  then obtain s where s: "v = JStr s" "length s \<le> max_text" "token = encode_base64_url ?payload @ CHR ''~'' # s" by blast
  have fits: "fits_boundary (JStr ?payload)" "fits_boundary (JStr s)"
    using call text_fits_boundary [OF s(2)]
    by (auto simp: asks_signer_def port_call_def Let_def split: if_splits)
  have "\<exists>n. signs e n ?payload = JStr s" using port_call_Inr [OF call [unfolded asks_signer_def]] s(1) by auto
  then have signature: "\<forall>m. verifies e m ?payload s = JBool True" "s \<noteq> []" "CHR ''~'' \<notin> set s"
    using assms(2) by blast+
  have parts: "token_parts token = Some (encode_base64_url ?payload, s)"
    unfolding s(3) by (rule token_parts_made [OF signature(3,2) encode_filled [OF grant_payload]])
  have decoded: "decode_base64_url e (encode_base64_url ?payload) = Some ?payload"
    using base64_url_roundtrip assms(3) by simp
  have parsed: "Option.bind (Option.bind (json_parse (site_runtime e) ?payload) own_value) read_grant = Some (granted_token g)"
    using assms(4) grant grant_read by (simp add: own_value_fits)
  have "\<not> not_later (token_expires (granted_token g)) now" using assms(6) by (simp add: granted_token_def)
  then show ?thesis
    using parts decoded parsed fits signature(1) assms(5,7)
    by (simp add: verify_share_token_def refuseIf_def asks_signer_def andDo_def port_call_def Let_def before_call_def refuse_def
        give_def split: supervision.split)
qed

text \<open>A host whose signer signs everything with the same text, with a decoder for ASCII.\<close>

definition token_site :: site where
  "token_site = sample_site\<lparr>decode_text := map (\<lambda>b. char_of (unat b)),
     site_runtime := sample_runtime\<lparr>json_parse := (\<lambda>s.
       if s = stringify (grant_json second_grant) then Some (grant_json second_grant) else None)\<rparr>\<rparr>"

lemma ascii_decoded:
  "list_all (\<lambda>c. code_unit c < 128) s \<Longrightarrow> map (\<lambda>b. char_of (unat b)) (map of_nat (utf8_bytes s) :: 8 word list) = s"
  by (induction s) (simp_all add: utf8_bytes_def unat_of_nat)

lemma second_payload: "list_all (\<lambda>c. code_unit c < 128) (stringify (grant_json second_grant))"
  "length (stringify (grant_json second_grant)) < 200"
  by code_simp+

lemma second_token_created:
  "fst (create_share_token token_site second_grant sample_world) =
     Inr (encode_base64_url (stringify (grant_json second_grant)) @ ''~s'')"
proof -
  have calm: "supervises token_site n = Runs" "others token_site n = []" "signs token_site n t = JStr ''s''" for n t
    by (simp_all add: token_site_def sample_site_def)
  have "fits_boundary (JStr (stringify (grant_json second_grant)))"
    using second_payload by (intro text_fits_boundary) (simp add: collab_limits)
  moreover have "stable_identifier ''l2''" "stable_identifier ''p''" by (simp_all add: text_eval collab_limits)
  moreover have "grant_link second_grant = ''l2''" "grant_project second_grant = ''p''" "grant_expires second_grant = link_expiry"
    by (simp_all add: second_grant_def)
  ultimately show ?thesis
    using link_times link_fits
    by (simp add: create_share_token_def action_eval asks_signer_def calm collab_limits)
qed

lemma encoded_length: "length (encode_base64_url s) \<le> 4 * length s"
proof -
  have "length (sextets bs) \<le> 2 * length bs" for bs by (induction bs rule: sextets.induct) simp_all
  moreover have "length (utf8_bytes s) \<le> 2 * length s" by (induction s) (simp_all add: utf8_bytes_def)
  ultimately show ?thesis using le_trans [of "length (sextets (utf8_bytes s))" "2 * length (utf8_bytes s)" "4 * length s"]
    by (simp add: encode_base64_url_def)
qed

theorem issued_token_verifies_witness:
  "fst (verify_share_token token_site (encode_base64_url (stringify (grant_json second_grant)) @ ''~s'') sample_time sample_world) =
     Inr (granted_token second_grant)"
proof -
  let ?token = "encode_base64_url (stringify (grant_json second_grant)) @ ''~s''"
  have created: "create_share_token token_site second_grant sample_world =
      (Inr ?token, snd (create_share_token token_site second_grant sample_world))"
    using second_token_created by (simp add: prod_eq_iff)
  have signer: "\<forall>n m s. signs token_site n (stringify (grant_json second_grant)) = JStr s \<longrightarrow>
      verifies token_site m (stringify (grant_json second_grant)) s = JBool True \<and> s \<noteq> [] \<and> CHR ''~'' \<notin> set s"
    by (simp add: token_site_def sample_site_def)
  have runtime: "decode_text token_site (map of_nat (utf8_bytes (stringify (grant_json second_grant)))) = stringify (grant_json second_grant)"
    "json_parse (site_runtime token_site) (stringify (grant_json second_grant)) = Some (grant_json second_grant)"
    using ascii_decoded [OF second_payload(1)] by (simp_all add: token_site_def)
  have "\<not> not_later (grant_expires second_grant) sample_time" "length ?token \<le> max_text"
    using second_payload(2) encoded_length [of "stringify (grant_json second_grant)"]
    by (simp_all add: not_later_def link_clock second_grant_def collab_limits)
  from issued_token_verifies [OF created signer runtime link_times(1) this, of sample_world]
  show ?thesis by (simp add: token_site_def sample_site_def)
qed

end
