(* ===== verification/Event_Stream.thy ===== *)
theory Event_Stream
  imports Service_Handler Collab_Theorems
begin

text \<open>
  The event stream of a project (\<open>packages/collaboration/src/service.ts\<close>, \<open>GET /v1/projects/<id>/events/stream\<close>):
  the subscriber that is told of new events, the pump that replays the log page by page and sends what the
  consumer has room for, and the two ways in which a stream ends.

  The pump is suspended only while a page is loaded.  What happens meanwhile, a notification, a
  cancellation, a read of the consumer, is an operation of its own on the state of the stream.
\<close>

section \<open>The stream\<close>

text \<open>While a page is awaited the pump holds the oldest cursor that was pending when it asked.\<close>

datatype phase = Resting | Awaiting "nat option"

text \<open>\<open>stream_page\<close> is what is left of the page from \<open>pageIndex\<close> on, \<open>stream_room\<close> the controller's \<open>desiredSize\<close>
  and \<open>stream_sent\<close> what was enqueued; a stream that failed carries its error.\<close>

record stream =
  stream_last :: nat
  stream_replay :: nat
  stream_closed :: bool
  stream_replaying :: bool
  stream_phase :: phase
  stream_page :: "event list"
  stream_pending :: "nat list"
  stream_room :: nat
  stream_sent :: "event list"
  stream_error :: "fault option"

definition page_size :: nat where "page_size = 500"

definition opened :: "nat \<Rightarrow> stream" where
  "opened start = \<lparr>stream_last = start, stream_replay = start, stream_closed = False, stream_replaying = True,
     stream_phase = Resting, stream_page = [], stream_pending = [], stream_room = 1, stream_sent = [], stream_error = None\<rparr>"

text \<open>\<open>removeSubscriber\<close> and \<open>fail\<close>\<close>

definition removed :: "stream \<Rightarrow> stream" where
  "removed st = (if stream_closed st then st else st\<lparr>stream_closed := True, stream_pending := [], stream_page := []\<rparr>)"

definition failed :: "fault \<Rightarrow> stream \<Rightarrow> stream" where
  "failed f st = (removed st)\<lparr>stream_error := Some f\<rparr>"

section \<open>The pump\<close>

text \<open>\<open>controller.enqueue\<close> and the bookkeeping after it\<close>

definition sent :: "event \<Rightarrow> stream \<Rightarrow> stream" where
  "sent x st = st\<lparr>stream_sent := stream_sent st @ [x], stream_room := stream_room st - 1, stream_last := event_cursor x,
     stream_pending := removeAll (event_cursor x) (stream_pending st)\<rparr>"

text \<open>The loop, up to the next page that has to be loaded or to its end.\<close>

function advance :: "stream \<Rightarrow> stream" where
  "advance st =
     (if stream_room st = 0 \<or> stream_closed st then st\<lparr>stream_phase := Resting\<rparr>
      else
        (case stream_page st of
           x # xs \<Rightarrow>
             if event_cursor x \<le> stream_last st then advance (st\<lparr>stream_page := xs\<rparr>)
             else advance (sent x (st\<lparr>stream_page := xs\<rparr>))
         | [] \<Rightarrow>
             if stream_replaying st then
               st\<lparr>stream_phase := Awaiting (case stream_pending st of [] \<Rightarrow> None | c # cs \<Rightarrow> Some c)\<rparr>
             else if stream_pending st = [] then st\<lparr>stream_phase := Resting\<rparr>
             else advance (st\<lparr>stream_replay := stream_last st, stream_replaying := True\<rparr>)))"
  by pat_completeness auto
termination
  by (relation "measure (\<lambda>st. 2 * length (stream_page st) + (if stream_replaying st then 0 else 1))") (auto simp: sent_def)

declare advance.simps [simp del]

text \<open>A page of another project, or one whose cursors do not ascend from the one that was asked for, is refused.\<close>

fun ascends :: "string \<Rightarrow> nat \<Rightarrow> event list \<Rightarrow> bool" where
  "ascends project c [] = True"
| "ascends project c (x # xs) =
     (event_project x = project \<and> int (event_cursor x) \<le> max_safe_integer \<and> event_cursor x > c \<and>
      ascends project (event_cursor x) xs)"

definition arrive :: "string \<Rightarrow> fault + event list \<Rightarrow> stream \<Rightarrow> stream" where
  "arrive project r st =
     (case stream_phase st of
        Resting \<Rightarrow> st
      | Awaiting required \<Rightarrow>
          (let st1 = st\<lparr>stream_phase := Resting\<rparr> in
           if stream_closed st then st1
           else
             (case r of
                Inl f \<Rightarrow> failed f st1
              | Inr loaded \<Rightarrow>
                  if loaded = [] \<and> (case required of None \<Rightarrow> False | Some c \<Rightarrow> c > stream_replay st) \<or>
                     length loaded > page_size \<or> \<not> ascends project (stream_replay st) loaded
                  then failed (Refused ErrInvalid) st1
                  else advance (st\<lparr>stream_replay := (if loaded = [] then stream_replay st else event_cursor (last loaded)),
                    stream_page := loaded, stream_replaying := (length loaded = page_size)\<rparr>))))"

definition pull :: "stream \<Rightarrow> stream" where
  "pull st = (if stream_phase st \<noteq> Resting \<or> stream_closed st then st else advance st)"

text \<open>\<open>write\<close>, which \<open>emit\<close> calls with the stored event.\<close>

definition notify :: "event \<Rightarrow> stream \<Rightarrow> stream" where
  "notify x st =
     (if stream_closed st \<or> event_cursor x \<le> stream_last st then st
      else
        (let st1 = st\<lparr>stream_pending := (if event_cursor x \<in> set (stream_pending st) then stream_pending st
               else stream_pending st @ [event_cursor x])\<rparr> in
         if length (stream_pending st1) > max_items then failed (Refused ErrConflict) st1 else pull st1))"

text \<open>A read of the consumer makes room for one more event.\<close>

definition consume :: "stream \<Rightarrow> stream" where
  "consume st = st\<lparr>stream_room := Suc (stream_room st)\<rparr>"

text \<open>\<open>nextPage\<close> on a repository; what its host makes of an error is an outage.\<close>

definition next_page :: "platform \<Rightarrow> string \<Rightarrow> store \<Rightarrow> stream \<Rightarrow> fault + event list" where
  "next_page p project s st =
     (case list_events p project (stream_replay st) page_size s of Inl x \<Rightarrow> Inl Unavailable | Inr xs \<Rightarrow> Inr xs)"

section \<open>The stream beside a repository\<close>

text \<open>The repository receives any calls; an event may be announced once it is stored, or never; a load may be
  answered from the repository or fail; the consumer reads, asks for more, or leaves.\<close>

inductive stream_step :: "platform \<Rightarrow> string \<Rightarrow> store \<times> stream \<Rightarrow> store \<times> stream \<Rightarrow> bool" for p project where
  called: "stream_step p project (s, st) (perform_at p s c, st)"
| notified: "x \<in> set (events s) \<Longrightarrow> event_project x = project \<Longrightarrow> stream_step p project (s, st) (s, notify x st)"
| loaded: "stream_step p project (s, st) (s, arrive project (next_page p project s st) st)"
| outage: "stream_step p project (s, st) (s, arrive project (Inl Unavailable) st)"
| pulled: "stream_step p project (s, st) (s, pull st)"
| consumed: "stream_step p project (s, st) (s, consume st)"
| cancelled: "stream_step p project (s, st) (s, removed st)"

inductive_cases stream_stepE: "stream_step p project (s, st) (s', st')"

text \<open>What a stream that was opened after cursor \<open>start\<close>, beside a repository that was new once, can become.\<close>

inductive streamed :: "platform \<Rightarrow> string \<Rightarrow> nat \<Rightarrow> store \<times> stream \<Rightarrow> bool" for p project start where
  opened: "streamed p project start (foldl (perform_at p) empty_store calls, opened start)"
| stepped: "streamed p project start x \<Longrightarrow> stream_step p project x y \<Longrightarrow> streamed p project start y"

section \<open>Slices of the log\<close>

definition between :: "string \<Rightarrow> nat \<Rightarrow> nat \<Rightarrow> store \<Rightarrow> event list" where
  "between project a b s = filter (\<lambda>x. event_project x = project \<and> a < event_cursor x \<and> event_cursor x \<le> b) (events s)"

lemma ordered_events: "ordered_log s \<Longrightarrow> sorted_wrt (\<lambda>x y. event_cursor x < event_cursor y) (events s)"
  by (simp add: ordered_log_def sorted_wrt_map)

lemma sorted_slices:
  "sorted_wrt (\<lambda>x y. f x < (f y :: nat)) xs \<Longrightarrow> a \<le> b \<Longrightarrow> b \<le> c \<Longrightarrow>
     filter (\<lambda>x. P x \<and> a < f x \<and> f x \<le> c) xs =
     filter (\<lambda>x. P x \<and> a < f x \<and> f x \<le> b) xs @ filter (\<lambda>x. P x \<and> b < f x \<and> f x \<le> c) xs"
proof (induction xs)
  case (Cons x xs)
  have "filter (\<lambda>y. P y \<and> a < f y \<and> f y \<le> b) xs = []" if "b < f x" using that Cons.prems by (auto simp: filter_empty_conv)
  then show ?case using Cons by auto
qed simp

lemma between_split:
  "ordered_log s \<Longrightarrow> a \<le> b \<Longrightarrow> b \<le> c \<Longrightarrow> between project a c s = between project a b s @ between project b c s"
  unfolding between_def by (rule sorted_slices [OF ordered_events])

lemma between_sorted: "ordered_log s \<Longrightarrow> sorted_wrt (\<lambda>x y. event_cursor x < event_cursor y) (between project a b s)"
  unfolding between_def by (rule sorted_wrt_filter [OF ordered_events])

lemma between_empty [simp]: "b \<le> a \<Longrightarrow> between project a b s = []"
  by (auto simp: between_def filter_empty_conv)

lemma between_first:
  assumes "ordered_log s" "between project a b s = x # xs"
  shows "a < event_cursor x \<and> event_cursor x \<le> b \<and> between project a (event_cursor x) s = [x] \<and>
    between project (event_cursor x) b s = xs"
proof -
  have x: "x \<in> set (between project a b s)" using assms(2) by simp
  then have range: "a < event_cursor x" "event_cursor x \<le> b" by (auto simp: between_def)
  have whole: "between project a (event_cursor x) s @ between project (event_cursor x) b s = x # xs"
    using between_split [OF assms(1), of a "event_cursor x" b project] range assms(2) by simp
  have later: "\<forall>y \<in> set xs. event_cursor x < event_cursor y"
    using between_sorted [OF assms(1), of project a b] assms(2) by simp
  have "x \<in> set (between project a (event_cursor x) s)" using x by (auto simp: between_def)
  then obtain y ys where ys: "between project a (event_cursor x) s = y # ys" by (cases "between project a (event_cursor x) s") auto
  then have "ys @ between project (event_cursor x) b s = xs" "y = x" using whole by auto
  moreover have "event_cursor z \<le> event_cursor x" if "z \<in> set ys" for z
  proof -
    have "z \<in> set (between project a (event_cursor x) s)" using that ys by simp
    then show ?thesis by (simp add: between_def)
  qed
  ultimately have "ys = []" using later by (cases ys) fastforce+
  then show ?thesis using ys \<open>y = x\<close> \<open>ys @ _ = xs\<close> range by simp
qed

lemma between_grows:
  assumes "events s' = events s @ es" "ordered_log s'" "b \<le> a \<or> (\<exists>x \<in> set (events s). event_cursor x = b)"
  shows "between project a b s' = between project a b s"
proof (cases "b \<le> a")
  case False
  then obtain x where x: "x \<in> set (events s)" "event_cursor x = b" using assms(3) by auto
  have "\<forall>y \<in> set es. b < event_cursor y"
    using ordered_events [OF assms(2)] x by (auto simp: assms(1) sorted_wrt_append)
  then have "filter (\<lambda>x. event_project x = project \<and> a < event_cursor x \<and> event_cursor x \<le> b) es = []"
    by (auto simp: filter_empty_conv)
  then show ?thesis by (simp add: between_def assms(1))
qed simp

lemma filter_upto_last:
  assumes "sorted_wrt (\<lambda>x y. f x < (f y :: nat)) xs" "take k xs \<noteq> []"
  shows "filter (\<lambda>x. f x \<le> f (last (take k xs))) xs = take k xs"
proof -
  let ?l = "last (take k xs)"
  have whole: "sorted_wrt (\<lambda>x y. f x < f y) (take k xs @ drop k xs)" using assms(1) by simp
  have "sorted_wrt (\<lambda>x y. f x < f y) (butlast (take k xs) @ [?l])"
    using whole assms(2) by (simp add: sorted_wrt_append)
  then have "f x \<le> f ?l" if "x \<in> set (butlast (take k xs) @ [?l])" for x
    using that by (auto simp: sorted_wrt_append)
  then have low: "f x \<le> f ?l" if "x \<in> set (take k xs)" for x using that append_butlast_last_id [OF assms(2)] by metis
  have high: "f ?l < f x" if "x \<in> set (drop k xs)" for x
    using whole [unfolded sorted_wrt_append] that last_in_set [OF assms(2)] by blast
  have "filter (\<lambda>x. f x \<le> f ?l) (take k xs) = take k xs" "filter (\<lambda>x. f x \<le> f ?l) (drop k xs) = []"
    using low high by (auto simp: filter_id_conv filter_empty_conv not_le)
  then show ?thesis by (metis append_Nil2 append_take_drop_id filter_append)
qed

section \<open>The invariant\<close>

definition logged :: "string \<Rightarrow> store \<Rightarrow> nat \<Rightarrow> bool" where
  "logged project s c \<longleftrightarrow> (\<exists>x \<in> set (events s). event_project x = project \<and> event_cursor x = c)"

text \<open>What was sent is a slice of the log, whether or not the stream is still open.\<close>

definition sent_ok :: "string \<Rightarrow> nat \<Rightarrow> store \<Rightarrow> stream \<Rightarrow> bool" where
  "sent_ok project start s st \<longleftrightarrow>
     start \<le> stream_last st \<and> (stream_last st \<le> start \<or> (\<exists>x \<in> set (events s). event_cursor x = stream_last st)) \<and>
     stream_sent st = between project start (stream_last st) s \<and>
     (stream_error st = Some (Refused ErrInvalid) \<longrightarrow> int (cursor s) > max_safe_integer)"

text \<open>In an open stream the page is the slice that follows, and what is pending is in the log and to be sent.\<close>

definition ends_at :: "nat \<Rightarrow> nat \<Rightarrow> event list \<Rightarrow> bool" where
  "ends_at b a xs \<longleftrightarrow> b = (if xs = [] then a else event_cursor (last xs))"

lemma ends_at_simps [simp]: "ends_at b a [] \<longleftrightarrow> b = a" "ends_at b a (x # xs) \<longleftrightarrow> ends_at b (event_cursor x) xs"
  by (auto simp: ends_at_def)

definition open_ok :: "string \<Rightarrow> nat \<Rightarrow> store \<Rightarrow> stream \<Rightarrow> bool" where
  "open_ok project start s st \<longleftrightarrow>
     stream_last st \<le> stream_replay st \<and>
     (stream_replay st \<le> start \<or> (\<exists>x \<in> set (events s). event_cursor x = stream_replay st)) \<and>
     stream_page st = between project (stream_last st) (stream_replay st) s \<and>
     ends_at (stream_replay st) (stream_last st) (stream_page st) \<and>
     (\<forall>c \<in> set (stream_pending st). stream_last st < c \<and> logged project s c)"

definition waits_ok :: "string \<Rightarrow> store \<Rightarrow> stream \<Rightarrow> bool" where
  "waits_ok project s st \<longleftrightarrow>
     (\<forall>r. stream_phase st = Awaiting r \<longrightarrow> stream_page st = [] \<and> stream_replaying st \<and> (\<forall>c. r = Some c \<longrightarrow> logged project s c))"

definition stream_ok :: "string \<Rightarrow> nat \<Rightarrow> store \<Rightarrow> stream \<Rightarrow> bool" where
  "stream_ok project start s st \<longleftrightarrow> ordered_log s \<and> sent_ok project start s st \<and>
     (\<not> stream_closed st \<longrightarrow> open_ok project start s st \<and> waits_ok project s st)"

lemma phase_simps [simp]:
  "sent_ok project start s (st\<lparr>stream_phase := r\<rparr>) = sent_ok project start s st"
  "open_ok project start s (st\<lparr>stream_phase := r\<rparr>) = open_ok project start s st"
  by (simp_all add: sent_ok_def open_ok_def)

lemma sent_step:
  assumes "ordered_log s" "sent_ok project start s st" "open_ok project start s st" "stream_page st = x # xs"
  shows "stream_last st < event_cursor x"
    "sent_ok project start s (sent x (st\<lparr>stream_page := xs\<rparr>))" "open_ok project start s (sent x (st\<lparr>stream_page := xs\<rparr>))"
proof -
  have slice: "between project (stream_last st) (stream_replay st) s = x # xs"
    and replay: "ends_at (stream_replay st) (event_cursor x) xs"
    using assms(3,4) by (simp_all add: open_ok_def)
  note first = between_first [OF assms(1) slice]
  show "stream_last st < event_cursor x" using first by simp
  have "x \<in> set (between project (stream_last st) (stream_replay st) s)" unfolding slice by simp
  then have x: "x \<in> set (events s)" by (simp add: between_def)
  have start: "start \<le> stream_last st" using assms(2) by (simp add: sent_ok_def)
  have "between project start (event_cursor x) s = stream_sent st @ [x]"
    using between_split [OF assms(1) start, of "event_cursor x" project] first assms(2) by (simp add: sent_ok_def)
  then show "sent_ok project start s (sent x (st\<lparr>stream_page := xs\<rparr>))"
    using assms(2) x first start by (auto simp: sent_ok_def sent_def)
  have pending: "event_cursor x < c \<and> logged project s c" if "c \<in> set (stream_pending st)" "c \<noteq> event_cursor x" for c
  proof -
    have c: "stream_last st < c" "logged project s c" using that(1) assms(3) by (auto simp: open_ok_def)
    have "\<not> c \<le> event_cursor x"
    proof
      assume "c \<le> event_cursor x"
      then obtain y where "y \<in> set (between project (stream_last st) (event_cursor x) s)" "event_cursor y = c"
        using c by (auto simp: logged_def between_def)
      then show False using first that(2) by auto
    qed
    then show ?thesis using c by simp
  qed
  show "open_ok project start s (sent x (st\<lparr>stream_page := xs\<rparr>))"
    using assms(3) first replay pending by (auto simp: open_ok_def sent_def)
qed

lemma advance_ok:
  "ordered_log s \<Longrightarrow> sent_ok project start s st \<Longrightarrow> open_ok project start s st \<Longrightarrow>
     sent_ok project start s (advance st) \<and> open_ok project start s (advance st) \<and> waits_ok project s (advance st) \<and>
     stream_replay st \<le> stream_replay (advance st)"
proof (induction st rule: advance.induct)
  case (1 st)
  show ?case
  proof (cases "stream_room st = 0 \<or> stream_closed st")
    case True
    then have "advance st = st\<lparr>stream_phase := Resting\<rparr>" by (subst advance.simps) simp
    then show ?thesis using 1(5,6) by (simp add: waits_ok_def)
  next
    case False
    show ?thesis
    proof (cases "stream_page st")
      case (Cons x xs)
      note step = sent_step [OF 1(4-6) Cons]
      have "advance st = advance (sent x (st\<lparr>stream_page := xs\<rparr>))" using False Cons step(1) by (subst advance.simps) simp
      then show ?thesis using 1(3) [OF False Cons _ 1(4) step(2,3)] step(1) by (simp add: sent_def)
    next
      case Nil
      show ?thesis
      proof (cases "stream_replaying st \<or> stream_pending st = []")
        case True
        then have "advance st = st\<lparr>stream_phase := (if stream_replaying st
            then Awaiting (case stream_pending st of [] \<Rightarrow> None | c # cs \<Rightarrow> Some c) else Resting)\<rparr>"
          using False Nil by (subst advance.simps) auto
        then show ?thesis using 1(5,6) Nil
          by (auto simp: waits_ok_def open_ok_def [of _ _ _ st] split: list.splits)
      next
        case pending: False
        let ?st = "st\<lparr>stream_replay := stream_last st, stream_replaying := True\<rparr>"
        have "advance st = advance ?st" using False Nil pending by (subst advance.simps) simp
        moreover have "sent_ok project start s ?st" "open_ok project start s ?st"
          using 1(5,6) Nil by (auto simp: sent_ok_def open_ok_def)
        moreover have "stream_replay st = stream_last st" using 1(6) Nil by (simp add: open_ok_def)
        ultimately show ?thesis using 1(1) [OF False Nil _ _ 1(4)] pending by simp
      qed
    qed
  qed
qed

section \<open>Every step keeps the invariant\<close>

lemma log_grows:
  assumes "stream_ok project start s st" "only_appends s s'" "ordered_log s'"
  shows "stream_ok project start s' st"
proof -
  obtain es where es: "events s' = events s @ es" using only_appendsD(1) [OF assms(2)] by blast
  note same = between_grows [OF es assms(3)]
  have more: "logged project s c \<Longrightarrow> logged project s' c" for c by (auto simp: logged_def es)
  have cursors: "int (cursor s) > max_safe_integer \<Longrightarrow> int (cursor s') > max_safe_integer"
    using only_appendsD(3) [OF assms(2)] by simp
  have sent: "sent_ok project start s st" using assms(1) by (simp add: stream_ok_def)
  then have "between project start (stream_last st) s' = between project start (stream_last st) s"
    by (intro same) (auto simp: sent_ok_def)
  then have "sent_ok project start s' st" using sent cursors by (auto simp: sent_ok_def es)
  moreover have "open_ok project start s' st \<and> waits_ok project s' st" if "\<not> stream_closed st"
  proof -
    have opened: "open_ok project start s st" "waits_ok project s st" using assms(1) that by (simp_all add: stream_ok_def)
    have "between project (stream_last st) (stream_replay st) s' = between project (stream_last st) (stream_replay st) s"
      using opened(1) sent by (intro same) (auto simp: open_ok_def sent_ok_def)
    then show ?thesis using opened more by (auto simp: open_ok_def waits_ok_def es)
  qed
  ultimately show ?thesis using assms(3) by (simp add: stream_ok_def)
qed

lemma removed_ok: "stream_ok project start s st \<Longrightarrow> stream_ok project start s (removed st)"
  by (auto simp: stream_ok_def removed_def sent_ok_def)

lemma failed_ok:
  "ordered_log s \<Longrightarrow> sent_ok project start s st \<Longrightarrow> f \<noteq> Refused ErrInvalid \<or> int (cursor s) > max_safe_integer \<Longrightarrow>
     stream_ok project start s (failed f st)"
  by (auto simp: stream_ok_def failed_def removed_def sent_ok_def)

lemma pull_ok: "stream_ok project start s st \<Longrightarrow> stream_ok project start s (pull st)"
  using advance_ok [of s project start st] by (auto simp: pull_def stream_ok_def)

lemma consume_ok: "stream_ok project start s st \<Longrightarrow> stream_ok project start s (consume st)"
  by (auto simp: stream_ok_def consume_def sent_ok_def open_ok_def waits_ok_def)

lemma notify_ok:
  assumes "stream_ok project start s st" "x \<in> set (events s)" "event_project x = project"
  shows "stream_ok project start s (notify x st)"
proof (cases "stream_closed st \<or> event_cursor x \<le> stream_last st")
  case False
  let ?st = "st\<lparr>stream_pending := (if event_cursor x \<in> set (stream_pending st) then stream_pending st
      else stream_pending st @ [event_cursor x])\<rparr>"
  have "logged project s (event_cursor x)" using assms(2,3) by (auto simp: logged_def)
  then have "stream_ok project start s ?st"
    using assms(1) False by (auto simp: stream_ok_def sent_ok_def open_ok_def waits_ok_def)
  moreover from this have "stream_ok project start s (failed (Refused ErrConflict) ?st)"
    by (intro failed_ok) (auto simp: stream_ok_def)
  ultimately show ?thesis using False pull_ok by (simp add: notify_def Let_def)
qed (use assms(1) in \<open>simp add: notify_def\<close>)

lemma ascends_sorted:
  "sorted_wrt (\<lambda>x y. event_cursor x < event_cursor y) xs \<Longrightarrow>
     \<forall>x \<in> set xs. event_project x = project \<and> int (event_cursor x) \<le> max_safe_integer \<and> c < event_cursor x \<Longrightarrow> ascends project c xs"
  by (induction xs arbitrary: c) auto

lemma loaded_page:
  assumes "ordered_log s" "next_page p project s st = Inr page"
  shows "page = take page_size (later_events project (stream_replay st) s)"
    and "page \<noteq> [] \<Longrightarrow> page = between project (stream_replay st) (event_cursor (last page)) s"
    and "int (cursor s) \<le> max_safe_integer \<Longrightarrow> ascends project (stream_replay st) page"
proof -
  let ?later = "later_events project (stream_replay st) s"
  show page: "page = take page_size ?later"
    using assms(2) list_events_page [OF assms(1)] by (auto simp: next_page_def split: sum.splits)
  have sorted: "sorted_wrt (\<lambda>x y. event_cursor x < event_cursor y) ?later"
    unfolding later_events_def by (rule sorted_wrt_filter [OF ordered_events [OF assms(1)]])
  show "page = between project (stream_replay st) (event_cursor (last page)) s" if "page \<noteq> []"
    using filter_upto_last [OF sorted, of page_size] that unfolding page
    by (simp add: later_events_def between_def conj_ac)
  have "int (event_cursor x) \<le> max_safe_integer" if "x \<in> set ?later" "int (cursor s) \<le> max_safe_integer" for x
    using that assms(1) by (auto simp: later_events_def ordered_log_def list_all_iff)
  then show "ascends project (stream_replay st) page" if "int (cursor s) \<le> max_safe_integer"
    using that sorted unfolding page
    by (intro ascends_sorted sorted_wrt_take_prefix) (auto simp: later_events_def dest: in_set_takeD)
qed

text \<open>A page that is not refused, and the stream it is put into.\<close>

definition with_page :: "event list \<Rightarrow> stream \<Rightarrow> stream" where
  "with_page xs st = st\<lparr>stream_replay := (if xs = [] then stream_replay st else event_cursor (last xs)), stream_page := xs,
     stream_replaying := (length xs = page_size)\<rparr>"

lemma arrive_page:
  assumes "stream_phase st = Awaiting r" "\<not> stream_closed st" "length page \<le> page_size"
    "ascends project (stream_replay st) page" "page = [] \<Longrightarrow> (case r of None \<Rightarrow> True | Some c \<Rightarrow> c \<le> stream_replay st)"
  shows "arrive project (Inr page) st = advance (with_page page st)"
  using assms by (auto simp: arrive_def with_page_def Let_def split: option.splits)

text \<open>A pending cursor that the log does not show is not dropped when later events pass it: the pump then loads
  empty pages for ever.\<close>

lemma passed_cursor_spins:
  assumes "stream_phase st = Awaiting (Some c)" "\<not> stream_closed st" "stream_room st > 0" "stream_page st = []"
    "stream_replaying st" "stream_pending st = c # cs" "c \<le> stream_last st" "stream_replay st = stream_last st"
  shows "arrive project (Inr []) st = st"
proof -
  let ?st = "st\<lparr>stream_replaying := False\<rparr>"
  have "with_page [] st = ?st" using assms by (cases st) (simp add: with_page_def page_size_def)
  then have "arrive project (Inr []) st = advance ?st"
    using assms arrive_page [of st "Some c" "[]" project] by simp
  also have "\<dots> = advance (?st\<lparr>stream_replay := stream_last st, stream_replaying := True\<rparr>)"
    using assms by (subst advance.simps) simp
  also have "\<dots> = st" using assms by (subst advance.simps) (cases st; simp)
  finally show ?thesis .
qed

lemma later_logged: "logged project s c \<Longrightarrow> a < c \<Longrightarrow> later_events project a s \<noteq> []"
  by (auto simp: logged_def later_events_def filter_empty_conv)

lemma with_page_ok:
  assumes "stream_ok project start s st" "\<not> stream_closed st" "stream_phase st = Awaiting r" "next_page p project s st = Inr page"
  shows "sent_ok project start s (with_page page st)" "open_ok project start s (with_page page st)"
proof -
  have ok: "ordered_log s" "sent_ok project start s st" "open_ok project start s st" "waits_ok project s st"
    using assms(1,2) by (simp_all add: stream_ok_def)
  then have here: "stream_page st = []" "stream_replay st = stream_last st" using assms(3) by (auto simp: waits_ok_def open_ok_def)
  show "sent_ok project start s (with_page page st)" using ok(2) by (simp add: with_page_def sent_ok_def)
  show "open_ok project start s (with_page page st)"
  proof (cases "page = []")
    case True
    then show ?thesis using ok(3) here by (simp add: with_page_def open_ok_def)
  next
    case False
    have slice: "between project (stream_last st) (event_cursor (last page)) s = page"
      using loaded_page(2) [OF ok(1) assms(4) False] here by simp
    have "last page \<in> set (between project (stream_last st) (event_cursor (last page)) s)" unfolding slice using False by simp
    then have last: "last page \<in> set (events s)" "stream_last st < event_cursor (last page)" by (auto simp: between_def)
    show ?thesis using ok(3) False slice last by (auto simp: with_page_def open_ok_def ends_at_def)
  qed
qed

lemma arrive_ok:
  assumes "stream_ok project start s st" "r = next_page p project s st \<or> r = Inl Unavailable"
  shows "stream_ok project start s (arrive project r st)"
proof (cases "stream_phase st")
  case (Awaiting required)
  have ordered: "ordered_log s" using assms(1) by (simp add: stream_ok_def)
  show ?thesis
  proof (cases "stream_closed st")
    case True
    then show ?thesis using assms(1) Awaiting by (simp add: arrive_def stream_ok_def)
  next
    case open_stream: False
    have sent: "sent_ok project start s (st\<lparr>stream_phase := Resting\<rparr>)" using assms(1) by (simp add: stream_ok_def)
    show ?thesis
    proof (cases r)
      case (Inl f)
      then have "f = Unavailable" using assms(2) by (auto simp: next_page_def split: sum.splits)
      then show ?thesis using failed_ok [OF ordered sent, of f] Inl Awaiting open_stream by (simp add: arrive_def)
    next
      case (Inr page)
      then have page: "next_page p project s st = Inr page" using assms(2) by auto
      have whole: "arrive project r st = failed (Refused ErrInvalid) (st\<lparr>stream_phase := Resting\<rparr>) \<or>
          arrive project r st = advance (with_page page st)"
        using Inr Awaiting open_stream by (auto simp: arrive_def with_page_def Let_def)
      have "int (cursor s) > max_safe_integer" if "arrive project r st \<noteq> advance (with_page page st)"
      proof (rule ccontr)
        assume safe: "\<not> int (cursor s) > max_safe_integer"
        have "length page \<le> page_size" unfolding loaded_page(1) [OF ordered page] by simp
        moreover have "ascends project (stream_replay st) page" using loaded_page(3) [OF ordered page] safe by simp
        moreover have "case required of None \<Rightarrow> True | Some c \<Rightarrow> c \<le> stream_replay st" if "page = []"
        proof (cases required)
          case (Some c)
          then have "logged project s c" using assms(1) open_stream Awaiting by (auto simp: stream_ok_def waits_ok_def)
          moreover have "later_events project (stream_replay st) s = []"
            using loaded_page(1) [OF ordered page] that by (simp add: page_size_def)
          ultimately show ?thesis using later_logged [of project s c "stream_replay st"] Some
            by (cases "stream_replay st < c") auto
        qed simp
        ultimately have "arrive project r st = advance (with_page page st)"
          using arrive_page [OF Awaiting open_stream] Inr by blast
        then show False using that by contradiction
      qed
      moreover have "stream_ok project start s (advance (with_page page st))"
        using advance_ok [OF ordered with_page_ok [OF assms(1) open_stream Awaiting page]] ordered by (simp add: stream_ok_def)
      ultimately show ?thesis using whole failed_ok [OF ordered sent, of "Refused ErrInvalid"] by metis
    qed
  qed
qed (use assms(1) in \<open>simp add: arrive_def\<close>)

lemma opened_ok: "ordered_log s \<Longrightarrow> stream_ok project start s (opened start)"
  by (simp add: stream_ok_def opened_def sent_ok_def open_ok_def waits_ok_def)

definition sound_stream :: "platform \<Rightarrow> string \<Rightarrow> nat \<Rightarrow> store \<times> stream \<Rightarrow> bool" where
  "sound_stream p project start x \<longleftrightarrow>
     consistent p (fst x) \<and> ordered_log (fst x) \<and> stream_ok project start (fst x) (snd x)"

lemma stream_step_sound:
  assumes "sound_stream p project start x" "stream_step p project x y"
  shows "sound_stream p project start y"
  using assms(2,1)
proof cases
  case (called s st c)
  have "consistent p s \<and> ordered_log s" using assms(1) called by (simp add: sound_stream_def)
  then show ?thesis
    using repository.step_inv [of p s c] repository.step_forward [of p s c] log_grows assms(1) called
    by (auto simp: sound_stream_def)
qed (use assms(1) arrive_ok in \<open>auto simp: sound_stream_def intro: notify_ok arrive_ok pull_ok consume_ok removed_ok\<close>)

lemma streamed_sound: "streamed p project start x \<Longrightarrow> sound_stream p project start x"
proof (induction rule: streamed.induct)
  case (opened calls)
  have "consistent p empty_store \<and> ordered_log empty_store"
    using empty_consistent by (simp add: ordered_log_def empty_store_def)
  then have "consistent p (foldl (perform_at p) empty_store calls) \<and> ordered_log (foldl (perform_at p) empty_store calls)"
    by (rule repository.run_invariant)
  then show ?case by (simp add: sound_stream_def opened_ok)
qed (rule stream_step_sound)

section \<open>Catching up\<close>

text \<open>One page loaded from the repository; the pump asks for nothing more once it rests.\<close>

definition load :: "platform \<Rightarrow> string \<Rightarrow> store \<Rightarrow> stream \<Rightarrow> stream" where
  "load p project s st = arrive project (next_page p project s st) st"

lemma advance_keeps:
  "\<not> stream_closed st \<Longrightarrow> \<not> stream_closed (advance st) \<and> stream_last st \<le> stream_last (advance st) \<and>
     (\<forall>c \<in> set (stream_pending st). c \<in> set (stream_pending (advance st)) \<or> c \<le> stream_last (advance st)) \<and>
     (stream_phase (advance st) = Resting \<longrightarrow> stream_room (advance st) = 0 \<or> stream_pending (advance st) = [])"
proof (induction st rule: advance.induct)
  case (1 st)
  show ?case
  proof (cases "stream_room st = 0")
    case True
    then have "advance st = st\<lparr>stream_phase := Resting\<rparr>" by (subst advance.simps) simp
    then show ?thesis using 1 True by simp
  next
    case False
    then have go: "\<not> (stream_room st = 0 \<or> stream_closed st)" using 1(4) by simp
    show ?thesis
    proof (cases "stream_page st")
      case (Cons x xs)
      show ?thesis
      proof (cases "event_cursor x \<le> stream_last st")
        case True
        then have "advance st = advance (st\<lparr>stream_page := xs\<rparr>)" using go Cons by (subst advance.simps) simp
        then show ?thesis using 1(2) [OF go Cons True] 1(4) by simp
      next
        case later: False
        let ?st = "sent x (st\<lparr>stream_page := xs\<rparr>)"
        have "advance st = advance ?st" using go Cons later by (subst advance.simps) simp
        moreover have "stream_last ?st = event_cursor x" "\<not> stream_closed ?st"
          "set (stream_pending ?st) = set (stream_pending st) - {event_cursor x}" using 1(4) by (simp_all add: sent_def)
        ultimately show ?thesis using 1(3) [OF go Cons later] later by auto
      qed
    next
      case Nil
      show ?thesis
      proof (cases "stream_replaying st \<or> stream_pending st = []")
        case True
        then have "advance st = st\<lparr>stream_phase := (if stream_replaying st
            then Awaiting (case stream_pending st of [] \<Rightarrow> None | c # cs \<Rightarrow> Some c) else Resting)\<rparr>"
          using go Nil by (subst advance.simps) auto
        then show ?thesis using 1(4) True by auto
      next
        case pending: False
        then have "advance st = advance (st\<lparr>stream_replay := stream_last st, stream_replaying := True\<rparr>)"
          using go Nil by (subst advance.simps) simp
        then show ?thesis using 1(1) [OF go Nil] pending 1(4) by simp
      qed
    qed
  qed
qed

text \<open>An announced event is on its way: it is pending or sent, and the pump does not rest while it is pending and
  the consumer has room.\<close>

definition on_its_way :: "string \<Rightarrow> nat \<Rightarrow> store \<Rightarrow> nat \<Rightarrow> stream \<Rightarrow> bool" where
  "on_its_way project start s c st \<longleftrightarrow>
     stream_ok project start s st \<and> \<not> stream_closed st \<and> (c \<in> set (stream_pending st) \<or> c \<le> stream_last st) \<and>
     (stream_phase st = Resting \<longrightarrow> stream_room st = 0 \<or> c \<le> stream_last st)"

definition outstanding :: "string \<Rightarrow> store \<Rightarrow> stream \<Rightarrow> nat" where
  "outstanding project s st = length (later_events project (stream_replay st) s)"

lemma outstanding_less:
  assumes "x \<in> set (later_events project (stream_replay st) s)" "event_cursor x \<le> stream_replay st'"
    "stream_replay st \<le> stream_replay st'"
  shows "outstanding project s st' < outstanding project s st"
proof -
  have "later_events project (stream_replay st') s =
      filter (\<lambda>y. event_cursor y > stream_replay st') (later_events project (stream_replay st) s)"
    using assms(3) by (auto simp: later_events_def intro: filter_cong)
  then show ?thesis using length_filter_less [OF assms(1), of "\<lambda>y. event_cursor y > stream_replay st'"] assms(2)
    by (simp add: outstanding_def)
qed

lemma load_progress:
  assumes "on_its_way project start s c st" "stream_phase st = Awaiting r" "int (cursor s) \<le> max_safe_integer"
    "next_page p project s st = Inr page"
  shows "on_its_way project start s c (load p project s st) \<and>
    (stream_phase (load p project s st) = Resting \<or> outstanding project s (load p project s st) < outstanding project s st)"
proof -
  have ok: "stream_ok project start s st" "\<not> stream_closed st" "ordered_log s" "open_ok project start s st" "waits_ok project s st"
    and way: "c \<in> set (stream_pending st) \<or> c \<le> stream_last st"
    using assms(1) by (auto simp: on_its_way_def stream_ok_def)
  have here: "stream_page st = []" "stream_replay st = stream_last st" using ok(4,5) assms(2) by (auto simp: waits_ok_def open_ok_def)
  note page = loaded_page [OF ok(3) assms(4)]
  let ?st = "with_page page st"
  have "case r of None \<Rightarrow> True | Some d \<Rightarrow> d \<le> stream_replay st" if "page = []"
  proof (cases r)
    case (Some d)
    then have "logged project s d" using ok(5) assms(2) by (auto simp: waits_ok_def)
    then show ?thesis using later_logged [of project s d "stream_replay st"] page(1) that Some
      by (cases "stream_replay st < d") (auto simp: page_size_def)
  qed simp
  moreover have "length page \<le> page_size" unfolding page(1) by simp
  ultimately have load: "load p project s st = advance ?st"
    using arrive_page [OF assms(2) ok(2), of page project] page(3) assms(3,4) by (simp add: load_def)
  note with_ok = with_page_ok [OF ok(1,2) assms(2,4)]
  note after_ok = advance_ok [OF ok(3) with_ok]
  have same: "stream_pending ?st = stream_pending st" "stream_last ?st = stream_last st" "\<not> stream_closed ?st"
    using ok(2) by (simp_all add: with_page_def)
  note keeps = advance_keeps [OF same(3)]
  have "stream_ok project start s (advance ?st)" using after_ok ok(3) by (simp add: stream_ok_def)
  then have "on_its_way project start s c (advance ?st)"
    using keeps way same unfolding on_its_way_def by (metis empty_iff empty_set le_trans)
  moreover have "stream_phase (advance ?st) = Resting \<or> outstanding project s (advance ?st) < outstanding project s st"
  proof (cases "page = []")
    case True
    have "stream_pending st = []"
    proof (rule ccontr)
      assume "stream_pending st \<noteq> []"
      then obtain d where "d \<in> set (stream_pending st)" by (cases "stream_pending st") auto
      then have "logged project s d" "stream_last st < d" using ok(4) by (auto simp: open_ok_def)
      then show False using later_logged [of project s d "stream_replay st"] page(1) True here by (simp add: page_size_def)
    qed
    then have "stream_phase (advance ?st) = Resting"
      using True by (subst advance.simps) (simp add: with_page_def page_size_def)
    then show ?thesis by simp
  next
    case False
    then have "last page \<in> set (later_events project (stream_replay st) s)" using page(1) in_set_takeD last_in_set by metis
    moreover have "stream_replay ?st = event_cursor (last page)" using False by (simp add: with_page_def)
    moreover from calculation have "stream_replay st \<le> stream_replay ?st" by (auto simp: later_events_def)
    ultimately show ?thesis using outstanding_less [of "last page" project st s "advance ?st"] after_ok by auto
  qed
  ultimately show ?thesis using load by simp
qed

lemma loads_rest:
  assumes "\<And>st. \<exists>page. next_page p project s st = Inr page" "int (cursor s) \<le> max_safe_integer"
  shows "on_its_way project start s c st \<Longrightarrow> stream_phase st = Resting \<or> outstanding project s st < n \<Longrightarrow>
    stream_phase ((load p project s ^^ n) st) = Resting \<and> on_its_way project start s c ((load p project s ^^ n) st)"
proof (induction n arbitrary: st)
  case (Suc n)
  have "on_its_way project start s c (load p project s st) \<and>
      (stream_phase (load p project s st) = Resting \<or> outstanding project s (load p project s st) < n)"
  proof (cases "stream_phase st")
    case Resting
    then show ?thesis using Suc.prems(1) by (simp add: load_def arrive_def)
  next
    case (Awaiting r)
    obtain page where "next_page p project s st = Inr page" using assms(1) by blast
    from load_progress [OF Suc.prems(1) Awaiting assms(2) this] show ?thesis using Suc.prems(2) Awaiting by auto
  qed
  then show ?case using Suc.IH by (simp add: funpow_Suc_right del: funpow.simps)
qed simp

lemma notify_on_its_way:
  assumes "stream_ok project start s st" "\<not> stream_closed st" "length (stream_pending st) < max_items"
    and "x \<in> set (events s)" "event_project x = project"
  shows "on_its_way project start s (event_cursor x) (notify x st)"
proof (cases "event_cursor x \<le> stream_last st")
  case False
  let ?st = "st\<lparr>stream_pending := (if event_cursor x \<in> set (stream_pending st) then stream_pending st
      else stream_pending st @ [event_cursor x])\<rparr>"
  have same: "event_cursor x \<in> set (stream_pending ?st)" "\<not> stream_closed ?st" "length (stream_pending ?st) \<le> max_items"
    "stream_phase ?st = stream_phase st"
    using assms(2,3) by simp_all
  then have whole: "notify x st = (if stream_phase st \<noteq> Resting then ?st else advance ?st)"
    using False assms(2) by (auto simp: notify_def Let_def pull_def)
  have "stream_ok project start s (notify x st)" by (rule notify_ok [OF assms(1,4,5)])
  then show ?thesis using whole same advance_keeps [OF same(2)] by (auto simp: on_its_way_def)
qed (use assms(1,2) in \<open>simp add: on_its_way_def notify_def\<close>)

section \<open>The properties\<close>

text \<open>C7. An event stream loses nothing, repeats nothing and keeps the order: however commits, announcements, page
  loads, outages, reads and cancellations interleave, what was sent to the consumer is exactly the events of
  the project in the log after the cursor it asked for and up to the last one sent, so that reconnecting from
  that one continues the log; and the stream never fails because its own replay is inconsistent, as long as
  cursors are safe integers.\<close>

theorem stream_sends_the_log:
  assumes "streamed p project start (s, st)"
  shows "stream_sent st = between project start (stream_last st) s \<and> start \<le> stream_last st \<and>
    (int (cursor s) \<le> max_safe_integer \<longrightarrow> stream_error st \<noteq> Some (Refused ErrInvalid))"
  using streamed_sound [OF assms] by (auto simp: sound_stream_def stream_ok_def sent_ok_def)

text \<open>C9. The pump terminates and delivers: when an open stream with fewer pending cursors than the limit at which
  the code disconnects is told of a stored event of its project past the cursor it was asked for, the cursors
  are safe integers and the repository answers its loads, then after at most as many loads as the log has
  events, and one more, it rests, still open, having sent the event or filled the room of the consumer.\<close>

theorem stream_catches_up:
  assumes "streamed p project start (s, st)" "\<not> stream_closed st" "length (stream_pending st) < max_items"
    and "int (cursor s) \<le> max_safe_integer" "\<forall>n. \<exists>xs. list_events p project n page_size s = Inr xs"
    and "x \<in> set (events s)" "event_project x = project" "start < event_cursor x"
  shows "stream_phase ((load p project s ^^ Suc (length (events s))) (notify x st)) = Resting \<and>
    \<not> stream_closed ((load p project s ^^ Suc (length (events s))) (notify x st)) \<and>
    (stream_room ((load p project s ^^ Suc (length (events s))) (notify x st)) = 0 \<or>
     x \<in> set (stream_sent ((load p project s ^^ Suc (length (events s))) (notify x st))))"
proof -
  let ?st = "(load p project s ^^ Suc (length (events s))) (notify x st)"
  have "stream_ok project start s st" using streamed_sound [OF assms(1)] by (simp add: sound_stream_def)
  then have way: "on_its_way project start s (event_cursor x) (notify x st)" using notify_on_its_way assms(2,3,6,7) by blast
  have "outstanding project s (notify x st) < Suc (length (events s))"
    by (simp add: outstanding_def later_events_def less_Suc_eq_le)
  moreover have "\<exists>page. next_page p project s z = Inr page" for z
    using spec [OF assms(5), of "stream_replay z"] by (auto simp: next_page_def)
  ultimately have rest: "stream_phase ?st = Resting" "on_its_way project start s (event_cursor x) ?st"
    using loads_rest [OF _ assms(4) way] by blast+
  then have "stream_sent ?st = between project start (stream_last ?st) s"
    by (simp add: on_its_way_def stream_ok_def sent_ok_def)
  then have "event_cursor x \<le> stream_last ?st \<Longrightarrow> x \<in> set (stream_sent ?st)"
    using assms(6-8) by (simp add: between_def)
  then show ?thesis using rest by (auto simp: on_its_way_def)
qed

section \<open>A short stream\<close>

definition one_event :: store where
  "one_event = foldl (perform_at sample_platform) empty_store [('''', AppendEvent sample_event)]"

lemma one_event_log: "one_event = empty_store\<lparr>cursor := 1, events := [stored_event sample_event 1]\<rparr>"
  "fits_boundary (event_json (stored_event sample_event 1))"
proof -
  show fits: "fits_boundary (event_json (stored_event sample_event 1))"
    by (simp add: boundary_eval sample_event_def event_json_def event_entries_def stored_event_def event_input.defs
        optional_def nat_text.simps)
  moreover have "fits_boundary (event_input_json sample_event)"
    by (simp add: boundary_eval sample_event_def event_input_json_def event_entries_def optional_def)
  ultimately show "one_event = empty_store\<lparr>cursor := 1, events := [stored_event sample_event 1]\<rparr>"
    by (simp add: one_event_def perform_at_def append_event_def empty_store_def Let_def collab_limits)
qed

lemma one_event_parts: "event_project (stored_event sample_event 1) = ''p''" "event_cursor (stored_event sample_event 1) = 1"
  by (simp_all add: stored_event_def event_input.defs sample_event_def)

lemma one_event_listed: "\<exists>xs. list_events sample_platform ''p'' n page_size one_event = Inr xs"
proof -
  have "fits_boundary (JArr [event_json (stored_event sample_event 1)])" "fits_boundary (JArr [])"
    by (simp_all add: boundary_eval sample_event_def event_json_def event_entries_def stored_event_def event_input.defs
        optional_def nat_text.simps)
  then show ?thesis using one_event_log(2)
    by (cases "n < 1") (simp_all add: list_events_def owned_list_def js_sort_def one_event_log(1) one_event_parts page_size_def
        owned_as_Inr)
qed

lemma one_event_opened: "streamed sample_platform ''p'' 0 (one_event, opened 0)"
  unfolding one_event_def by (rule streamed.opened)

theorem stream_sends_the_log_witness:
  "stream_sent (load sample_platform ''p'' one_event (pull (opened 0))) =
     between ''p'' 0 (stream_last (load sample_platform ''p'' one_event (pull (opened 0)))) one_event"
proof -
  have "streamed sample_platform ''p'' 0 (one_event, load sample_platform ''p'' one_event (pull (opened 0)))"
    unfolding load_def by (rule streamed.stepped [OF streamed.stepped [OF one_event_opened pulled] loaded])
  from stream_sends_the_log [OF this] show ?thesis by simp
qed

theorem stream_catches_up_witness:
  "stream_phase ((load sample_platform ''p'' one_event ^^ Suc 1) (notify (stored_event sample_event 1) (opened 0))) = Resting"
proof -
  have "\<not> stream_closed (opened 0)" "length (stream_pending (opened 0)) < max_items" "int (cursor one_event) \<le> max_safe_integer"
    "stored_event sample_event 1 \<in> set (events one_event)" "length (events one_event) = 1"
    by (simp_all add: opened_def collab_limits max_safe_integer_def one_event_log(1))
  then show ?thesis
    using stream_catches_up [OF one_event_opened, of "stored_event sample_event 1"] one_event_listed one_event_parts by simp
qed

end
