(* ===== verification/Spec2Isabelle.thy ===== *)
theory Spec2Isabelle
  imports Prototype_Theorems Design_Contracts Baseline_Theorems Collab_Theorems Collab_Exchange Collab_Versions
    Service_Theorems Share_Roundtrip Event_Stream
begin

text \<open>
  Selene is a design tool: hosts (a desktop application, a web application and a collaboration
  service) around packages of pure TypeScript that decide what a design may become.  This
  development models decision code of \<open>packages/core/src\<close>, and of \<open>packages/collaboration/src\<close> the in-memory
  repository, the revision history and the HTTP service over them; every definition is a translation of the function, interface or
  schema that it names.

  Program parts and theories.

  \<^item> \<open>Selene_Prelude\<close>: results with errors (\<open>andThen\<close>, \<open>failIf\<close>, \<open>mapResult\<close>), string helpers, and the
    run contracts \<open>guarded_machine\<close> and \<open>forward_machine\<close>: what a sequence of calls of a step
    function leaves behind, when a call that throws leaves the state alone.
  \<^item> \<open>Json_Data\<close>: JavaScript data and \<open>JSON.stringify\<close>, which is injective on inert data; the program
    compares values by their text.  \<open>Js_Time\<close>: the strings that \<open>toISOString\<close> produces.
  \<^item> \<open>Prototype_Graph\<close>, \<open>Prototype_Wf\<close>: the schema of prototype graphs in \<open>prototype-graph.ts\<close>, with
    the semantic checks of \<open>superRefine\<close> as a list of issues, and the declarative well-formedness
    they decide.  \<open>Prototype_Runtime\<close>, \<open>Prototype_Safety\<close>: the snapshot of \<open>PrototypeRuntime\<close>, its
    dispatch, back, restore and timeouts.  \<open>Prototype_Edit\<close>: connectors, diff, copy and paste.
    \<open>Prototype_Fixture\<close>, \<open>Prototype_Theorems\<close>: a concrete graph and the properties.
  \<^item> \<open>Design_Input\<close>: the input boundary of \<open>design-revision.ts\<close> (\<open>snapshot\<close>, \<open>exact\<close>, the scalar
    parsers).  \<open>Design_Privacy\<close>: privacy records, lifecycle transitions and the preflight.
    \<open>Design_Revision\<close>: the immutable revision, bindings, commitment, compiler identities, migration.
    \<open>Design_Commit\<close>: policy, grant status, authority, persisted state and \<open>commitDesignRevision\<close>.
    \<open>Design_Operations\<close>: operation targets and references, host negotiation.  \<open>Design_Export\<close>:
    export authorities and eligibility.
  \<^item> \<open>Design_Binding\<close>: bindings and commitments are injective.  \<open>Design_Roundtrip\<close>, \<open>Design_Persist\<close>,
    \<open>Design_Issue\<close>, \<open>Design_Exchange\<close>: the objects that the code returns parse back, within the budget
    of the boundary.  \<open>Design_Bounds\<close>: the budgeted copy against its declarative measure.
    \<open>Design_Safety\<close>: what one accepted commit means, and the instance of the run contract.
    \<open>Design_Fixture\<close>, \<open>Design_Sample\<close>: canonical commands and a concrete project.
    \<open>Design_Theorems\<close>, \<open>Design_Contracts\<close>: the properties.
  \<^item> \<open>Metered\<close>: copies under a budget of nodes and bytes, as a contract that both boundaries interpret.
    \<open>Baseline\<close>: \<open>design-baseline.ts\<close>, the commands of the review and handoff workflow.  \<open>Baseline_Copy\<close>:
    what its boundary accepts, and that copies are stable.  \<open>Baseline_Safety\<close>: the validators in
    declarative form and the effect of each command.  \<open>Baseline_Theorems\<close>: the properties.
  \<^item> \<open>Collab_Data\<close>: the interfaces of \<open>collaboration/src/index.ts\<close> as records, each with its JavaScript
    value.  \<open>Collab_Validate\<close>: \<open>boundary.ts\<close> and the validators of anchors, requests for AI changes and
    threads.  \<open>Collab_Snapshot\<close>: review states and project snapshots.  \<open>Collab_Receipt\<close>: the budget pass
    over a review mutation and its fingerprint.
  \<^item> \<open>Collab_Store\<close>: the maps of \<open>createInMemoryCollaborationRepository\<close>, revisions and design commands.
    \<open>Collab_Ops\<close>: review threads and compare-and-swap mutations.  \<open>Collab_Records\<close>: the reads, requests,
    discussions, logs, share links and kept responses.  \<open>Collab_Project\<close>: export, replacement and
    deletion of whole projects.
  \<^item> \<open>Collab_Parse\<close>: \<open>serializeSnapshot\<close>, \<open>parseSnapshot\<close> and \<open>parseDesignReviewState\<close>.
    \<open>Collab_Roundtrip\<close>: the readers invert the JavaScript values of what the validators accept.
    \<open>Collab_Exchange\<close>: the properties of both directions.
  \<^item> \<open>Collab_History\<close>: \<open>history.ts\<close> and the role table of \<open>index.ts\<close>: differences of revisions, restored
    revisions, merge plans, approval policies.  \<open>Collab_Patch\<close>: edits as JSON pointer operations, and that a
    difference is a patch.  \<open>Collab_Merge\<close>: edits at places that are apart.  \<open>Collab_Versions\<close>: the
    properties.
  \<^item> \<open>Collab_Tables\<close>: lemmas on tables in insertion order.  \<open>Collab_Safety\<close>: the commands of the
    repository, the contract \<open>total_machine\<close> of a machine whose refused calls may leave a change, and
    the invariant \<open>consistent\<close>: which references hold, and it leaves out the parent of a revision, the revision of
    a baseline and the projects of links and logs, which the code does not check.  \<open>Collab_Swap\<close>: what the snapshot validator guarantees, and that
    replacement and deletion keep the invariant.  \<open>Collab_Machine\<close>, \<open>Collab_Progress\<close>: the two instances of
    the contract, for logs that only grow and for records that only move forward, and the links that stay
    revoked: all but those revoked again with an empty time, which the service takes for none.
    \<open>Collab_Isolation\<close>: what replacement and deletion do to each project.  \<open>Collab_Fixture\<close>,
    \<open>Collab_Theorems\<close>: a concrete repository and the properties.
  \<^item> \<open>Service_Base\<close>: requests and responses of \<open>service.ts\<close>, what its host supplies (\<open>site\<close>), computations that
    may fail over a store that others use too, and the calls to ports.  \<open>Share_Token\<close>: signed share tokens and
    base64url.  \<open>Service_Access\<close>: the rate limit, the published review, users and guests.
    \<open>Service_Input\<close>: the readers of request bodies.  \<open>Service_Projects\<close>, \<open>Service_Reviews\<close>,
    \<open>Service_Records\<close>: one definition per route.  \<open>Service_Handler\<close>: dispatch, faults and the handler.
    \<open>Event_Stream\<close>: the state of an event stream, its pump as a machine beside the repository, and its
    properties.
  \<^item> \<open>Service_Laws\<close>: the access policy \<open>justified\<close>, which gives for each command of the repository the action
    that the user of the request must have been granted and on what, and what the request must have found
    and written before; the judgement \<open>lawful\<close> (every write of a computation is justified, and the store moves
    by these writes and the calls of others only) and its rules.  \<open>Service_Policy\<close>, \<open>Service_Lawful\<close>: every helper and every route is lawful.
    \<open>Service_Fixture\<close>, \<open>Service_Theorems\<close>, \<open>Share_Roundtrip\<close>: concrete deployments and the properties.

  How the parts interact.  The handler of the service reads a request, asks the authorizer or checks a share
  token, and calls the repository; every call may find the store changed by other requests, may be refused
  by the host or lose its answer.  A revision embeds a privacy record; its commitment covers the bindings of
  both.  An authority names a commitment, a policy and a grant; \<open>commit_command\<close> checks all of them
  against the persisted state and returns the next state, which the host stores and passes to the
  next call.  References, targets, negotiation and export are issued against the head.

  Correspondence.  A thrown \<open>DesignRevisionContractError\<close> is its code in the left of a sum; since each
  parser follows its function statement by statement the code is the one thrown first.  Object
  literals are \<open>_json\<close> definitions, \<open>JSON.stringify([...])\<close> is a \<open>_row\<close>.  An absent property and a
  property that is \<open>undefined\<close> are both \<open>JOther NonObject\<close>.  Integers are unbounded: the code
  admits safe integers only and adds one to a sequence number, which the parser then checks again.
  Interleaving.  A call of the repository runs to completion except where it awaits: \<open>append_begin\<close> and
  \<open>append_finish\<close>, \<open>commit_begin\<close> and \<open>commit_finish\<close> are the two halves around the await, and
  \<open>append_revision\<close> and \<open>commit_design\<close> their composition.  The histories of the invariants are sequences
  of whole calls, each with the reading of the clock at that call.  An operation that can fail after it
  wrote returns the error beside the store that it leaves.

  Parameters.  The record \<open>platform\<close> holds what the collaboration code takes from the JavaScript
  runtime: the value of a decimal literal, \<open>localeCompare\<close>, the URL parser's answer for a deep link, and
  the clock.  The properties assume nothing of them.  \<open>runtime\<close> adds \<open>JSON.parse\<close>, \<open>JSON.stringify\<close> with
  indentation and the number of a text.  \<open>site\<close> holds the ports and options of a deployment of the service,
  the decoder of request bodies, \<open>Number\<close>, \<open>Date.parse\<close>, URL origins and floating-point division; answers of
  ports may depend on the number of calls made before, and \<open>others\<close> gives the calls that other requests make
  in between.  What a property needs of them is among its hypotheses.

  Bounds.  The recursions are structural on JSON; no fuel is used.  The budgets of the boundary (10000
  nodes, one million bytes, depth 32, and their own budget for the processed command identifiers) are
  the code's and are proved sufficient for every state that the code itself produced.

  Not modelled.  Strings are lists of 8-bit code units, so surrogate pairs do not occur.  Accessors,
  prototypes, proxies and cycles of JavaScript objects are outside the data type: the boundary refuses
  them.  \<open>JSON.parse\<close> in the entry points that take serialized text, the export and import envelopes
  of prototypes, and the host timers are not modelled; the verification port of a host is a
  parameter.  When several graph issues are reported the schema library may stop early, so only
  acceptance and the returned graph are meant to be exact, not the list of issues of a rejected
  graph.  Of the
  service the capture of its options and host contexts, the texts of error messages, response headers other
  than the origin and the retry time, the table of stream subscribers with its capacity and the sharing of
  a running idempotent operation are not modelled: two requests with one key run one after the other or
  interleave at their calls.  A page of an event stream is read from the store when the load is answered, not
  when it is asked for: what is committed in between belongs to the page.  Coordinates of prototype
  graphs are integers, where the schema admits any finite number; no property depends on fractions.  The
  trace of a request (what it asked, found, missed and wrote) is kept by the model for the statements about
  authorization; the program does not store it.  The PostgreSQL adapter, the identity interfaces and the client of the hosted
  review are outside, as are the other packages and the applications, which the manifest lists.
\<close>

end
